(* ===== verification/HF_Prelude.thy ===== *)
theory HF_Prelude
  imports Main "HOL-Library.Sublist" "HOL-Library.List_Lexorder" "HOL-Library.Char_ord"
    "HOL-Library.Product_Lexorder"
begin

text \<open>
  Shared vocabulary of the development: Go error values, the Go string functions the sources
  call, and the SQL table operations.  A Go \<open>string\<close> is its list of bytes (\<^typ>\<open>string\<close>);
  \<open>strings.TrimSpace\<close>, \<open>ToLower\<close> and \<open>ToUpper\<close> are modelled on ASCII (white space and letters
  outside ASCII are left alone).  String comparison is the library's lexicographic order on
  byte lists, which is what Go's \<open><\<close> and SQLite's BINARY collation compute.  A SQL table is the
  list of its rows in insertion order, an \<open>UPDATE\<close> maps over it, \<open>RowsAffected\<close> counts the
  rows its \<open>WHERE\<close> selects.
\<close>

named_theorems sql_simps \<open>what a table operation leaves in a table\<close>

section \<open>Errors and results\<close>

text \<open>
  \<open>Sentinel\<close> is a package level error value, by its code; \<open>Errorf\<close> is an error built from a
  constant format and its arguments; \<open>ConstraintErr\<close> is a constraint of the schema that the
  database refused, by its column.
\<close>

datatype go_error =
    ErrNoRows
  | Sentinel string
  | Errorf string "string list"
  | ConstraintErr string

type_synonym 'a res = "go_error + 'a"

fun is_Ok :: "'a res \<Rightarrow> bool" where
  "is_Ok (Inr _) = True"
| "is_Ok (Inl _) = False"

lemma is_Ok_iff: "is_Ok r \<longleftrightarrow> (\<exists>x. r = Inr x)"
  by (cases r) auto

section \<open>Go strings\<close>

definition go_space :: "char \<Rightarrow> bool" where
  "go_space c \<longleftrightarrow> of_char c \<in> {9, 10, 11, 12, 13, 32 :: nat}"

definition trim_left :: "string \<Rightarrow> string" where
  "trim_left s = dropWhile go_space s"

definition trim :: "string \<Rightarrow> string" where
  "trim s = rev (dropWhile go_space (rev (trim_left s)))"

definition lower_char :: "char \<Rightarrow> char" where
  "lower_char c = (let n = of_char c :: nat in if 65 \<le> n \<and> n \<le> 90 then char_of (n + 32) else c)"

definition upper_char :: "char \<Rightarrow> char" where
  "upper_char c = (let n = of_char c :: nat in if 97 \<le> n \<and> n \<le> 122 then char_of (n - 32) else c)"

definition to_lower :: "string \<Rightarrow> string" where
  "to_lower s = map lower_char s"

definition to_upper :: "string \<Rightarrow> string" where
  "to_upper s = map upper_char s"

definition has_prefix :: "string \<Rightarrow> string \<Rightarrow> bool" where
  "has_prefix s p \<longleftrightarrow> take (length p) s = p"

definition has_suffix :: "string \<Rightarrow> string \<Rightarrow> bool" where
  "has_suffix s p \<longleftrightarrow> length p \<le> length s \<and> drop (length s - length p) s = p"

definition trim_prefix :: "string \<Rightarrow> string \<Rightarrow> string" where
  "trim_prefix s p = (if has_prefix s p then drop (length p) s else s)"

definition trim_suffix :: "string \<Rightarrow> string \<Rightarrow> string" where
  "trim_suffix s p = (if has_suffix s p then take (length s - length p) s else s)"

definition is_digit :: "char \<Rightarrow> bool" where
  "is_digit c \<longleftrightarrow> 48 \<le> (of_char c :: nat) \<and> (of_char c :: nat) \<le> 57"

definition is_lower_letter :: "char \<Rightarrow> bool" where
  "is_lower_letter c \<longleftrightarrow> 97 \<le> (of_char c :: nat) \<and> (of_char c :: nat) \<le> 122"

definition is_upper_letter :: "char \<Rightarrow> bool" where
  "is_upper_letter c \<longleftrightarrow> 65 \<le> (of_char c :: nat) \<and> (of_char c :: nat) \<le> 90"

text \<open>\<open>strings.Split\<close> on a one byte separator: always at least one piece.\<close>

fun split_on :: "char \<Rightarrow> string \<Rightarrow> string list" where
  "split_on c [] = [[]]"
| "split_on c (x # xs) =
     (if x = c then [] # split_on c xs
      else (case split_on c xs of [] \<Rightarrow> [[x]] | p # ps \<Rightarrow> (x # p) # ps))"

fun join_with :: "string \<Rightarrow> string list \<Rightarrow> string" where
  "join_with sep [] = []"
| "join_with sep [x] = x"
| "join_with sep (x # y # xs) = x @ sep @ join_with sep (y # xs)"

text \<open>\<open>strings.Fields\<close>: the maximal runs of bytes that are not white space.\<close>

fun fields_acc :: "string \<Rightarrow> string \<Rightarrow> string list" where
  "fields_acc cur [] = (if cur = [] then [] else [cur])"
| "fields_acc cur (x # xs) =
     (if go_space x then (if cur = [] then fields_acc [] xs else cur # fields_acc [] xs)
      else fields_acc (cur @ [x]) xs)"

definition str_fields :: "string \<Rightarrow> string list" where
  "str_fields s = fields_acc [] s"

text \<open>\<open>strings.IndexByte\<close> as the part before and the part after the first occurrence.\<close>

fun cut_at :: "char \<Rightarrow> string \<Rightarrow> (string \<times> string) option" where
  "cut_at c [] = None"
| "cut_at c (x # xs) =
     (if x = c then Some ([], xs)
      else (case cut_at c xs of None \<Rightarrow> None | Some (a, b) \<Rightarrow> Some (x # a, b)))"

definition digit_char :: "nat \<Rightarrow> char" where
  "digit_char d = char_of (48 + d)"

fun show_nat :: "nat \<Rightarrow> string" where
  "show_nat n = (if n < 10 then [digit_char n] else show_nat (n div 10) @ [digit_char (n mod 10)])"

declare show_nat.simps [simp del]

definition hex_char :: "nat \<Rightarrow> char" where
  "hex_char d = (if d < 10 then char_of (48 + d) else char_of (87 + d))"

definition digit_val :: "char \<Rightarrow> nat" where
  "digit_val c = of_char c - 48"

definition digits_val :: "string \<Rightarrow> nat" where
  "digits_val s = foldl (\<lambda>a c. a * 10 + digit_val c) 0 s"

subsection \<open>Lemmas on strings\<close>

lemma dropWhile_idem': "dropWhile P (dropWhile P xs) = dropWhile P xs"
  by (induction xs) auto

lemma hd_trim_left: "trim_left s \<noteq> [] \<Longrightarrow> \<not> go_space (hd (trim_left s))"
  unfolding trim_left_def by (rule hd_dropWhile)

lemma trim_left_id: "s = [] \<or> \<not> go_space (hd s) \<Longrightarrow> trim_left s = s"
  unfolding trim_left_def by (cases s) auto

lemma trim_prefix_of_left: "prefix (trim s) (trim_left s)"
  unfolding trim_def by (metis rev_rev_ident suffix_dropWhile suffix_to_prefix)

lemma trim_idem [simp]: "trim (trim s) = trim s"
proof -
  have "trim s = [] \<or> \<not> go_space (hd (trim s))"
    using trim_prefix_of_left [of s] hd_trim_left [of s]
    by (cases "trim s") (auto simp: prefix_def)
  then have "trim_left (trim s) = trim s" by (rule trim_left_id)
  then show ?thesis
    by (simp add: trim_def [of "trim s"]) (simp add: trim_def dropWhile_idem')
qed

lemma trim_Nil [simp]: "trim [] = []"
  by (simp add: trim_def trim_left_def)

lemma trim_no_space:
  assumes "\<forall>c \<in> set s. \<not> go_space c"
  shows "trim s = s"
proof -
  have id: "dropWhile go_space t = t" if "set t \<subseteq> set s" for t
    using assms that by (cases t) auto
  show ?thesis by (simp add: trim_def trim_left_def id)
qed

lemma digit_not_space: "is_digit c \<Longrightarrow> \<not> go_space c"
  by (auto simp: is_digit_def go_space_def)

lemma length_dropWhile_rev: "length (rev (dropWhile P (rev xs))) \<le> length xs"
  by (metis length_dropWhile_le length_rev)

lemma length_trim: "length (trim s) \<le> length s"
  unfolding trim_def trim_left_def
  by (meson length_dropWhile_le length_dropWhile_rev order_trans)

lemma set_trim: "set (trim s) \<subseteq> set s"
  unfolding trim_def trim_left_def
  by (auto dest!: set_dropWhileD)

lemma to_lower_Nil [simp]: "to_lower [] = []"
  by (simp add: to_lower_def)

lemma to_upper_Nil [simp]: "to_upper [] = []"
  by (simp add: to_upper_def)

lemma length_to_lower [simp]: "length (to_lower s) = length s"
  by (simp add: to_lower_def)

lemma length_to_upper [simp]: "length (to_upper s) = length s"
  by (simp add: to_upper_def)

lemma lower_space: "go_space (lower_char c) = go_space c"
  by (auto simp: go_space_def lower_char_def Let_def of_char_of)

lemma lower_idem [simp]: "to_lower (to_lower s) = to_lower s"
  by (auto simp: to_lower_def lower_char_def Let_def of_char_of)

lemma trim_lower: "trim (to_lower s) = to_lower (trim s)"
  by (simp add: trim_def trim_left_def to_lower_def dropWhile_map rev_map comp_def lower_space rev_map)

lemma split_on_not_Nil [simp]: "split_on c s \<noteq> []"
  by (induction s) (auto split: list.splits)

lemma join_split_on: "join_with [c] (split_on c s) = s"
proof (induction s)
  case Nil
  then show ?case by simp
next
  case (Cons x xs)
  obtain p ps where sp: "split_on c xs = p # ps"
    by (cases "split_on c xs") auto
  with Cons show ?case by (cases ps) auto
qed

lemma split_on_no_sep: "p \<in> set (split_on c s) \<Longrightarrow> c \<notin> set p"
proof (induction s arbitrary: p)
  case Nil
  then show ?case by simp
next
  case (Cons x xs)
  obtain q qs where sp: "split_on c xs = q # qs"
    by (cases "split_on c xs") auto
  with Cons show ?case by (auto split: if_splits)
qed

lemma split_on_join: "es \<noteq> [] \<Longrightarrow> \<forall>e \<in> set es. c \<notin> set e \<Longrightarrow> split_on c (join_with [c] es) = es"
proof (induction es rule: induct_list012)
  case (2 x)
  then show ?case by (induction x) auto
next
  case (3 x y xs)
  have "split_on c (a @ c # b) = a # split_on c b" if "c \<notin> set a" for a b
    using that by (induction a) auto
  then show ?case using 3 by simp
qed simp

lemma cut_at_Some: "cut_at c s = Some (a, b) \<Longrightarrow> s = a @ c # b \<and> c \<notin> set a"
  by (induction s arbitrary: a) (auto split: if_splits option.splits)

lemma cut_at_None: "cut_at c s = None \<longleftrightarrow> c \<notin> set s"
  by (induction s) (auto split: option.splits)

lemma cut_at_append: "c \<notin> set a \<Longrightarrow> cut_at c (a @ c # b) = Some (a, b)"
  by (induction a) auto

lemma has_prefix_append [simp]: "has_prefix (p @ s) p"
  by (simp add: has_prefix_def)

lemma trim_prefix_append [simp]: "trim_prefix (p @ s) p = s"
  by (simp add: trim_prefix_def)

lemma show_nat_not_Nil [simp]: "show_nat n \<noteq> []"
  by (subst show_nat.simps) simp

lemma of_digit_char: "d < 10 \<Longrightarrow> of_char (digit_char d) = (48 + d :: nat)"
  by (simp add: digit_char_def of_char_of)

lemma digit_val_char [simp]: "d < 10 \<Longrightarrow> digit_val (digit_char d) = d"
  by (simp add: digit_val_def of_digit_char)

lemma is_digit_digit_char [simp]: "d < 10 \<Longrightarrow> is_digit (digit_char d)"
  by (simp add: is_digit_def of_digit_char)

lemma digits_val_snoc: "digits_val (s @ [c]) = digits_val s * 10 + digit_val c"
  by (simp add: digits_val_def)

lemma digits_val_show_nat [simp]: "digits_val (show_nat n) = n"
proof (induction n rule: show_nat.induct)
  case (1 n)
  show ?case
  proof (cases "n < 10")
    case True
    then show ?thesis
      by (subst show_nat.simps) (simp add: digits_val_def)
  next
    case False
    with 1 have ih: "digits_val (show_nat (n div 10)) = n div 10" by simp
    from False have "digits_val (show_nat n)
        = digits_val (show_nat (n div 10) @ [digit_char (n mod 10)])"
      by (subst show_nat.simps) simp
    also have "\<dots> = n" by (simp add: digits_val_snoc ih)
    finally show ?thesis .
  qed
qed

lemma show_nat_digits: "c \<in> set (show_nat n) \<Longrightarrow> is_digit c"
proof (induction n rule: show_nat.induct)
  case (1 n)
  then show ?case
    by (cases "n < 10") (auto simp: show_nat.simps [of n])
qed

section \<open>SQL tables\<close>

text \<open>\<open>ORDER BY x DESC\<close>: the dual order, so that one sort serves mixed directions.\<close>

datatype 'a down = Down (undown: 'a)

instantiation down :: (linorder) linorder
begin

definition less_eq_down :: "'a down \<Rightarrow> 'a down \<Rightarrow> bool" where
  "less_eq_down x y \<longleftrightarrow> undown y \<le> undown x"

definition less_down :: "'a down \<Rightarrow> 'a down \<Rightarrow> bool" where
  "less_down x y \<longleftrightarrow> undown y < undown x"

instance
  by standard (auto simp: less_eq_down_def less_down_def intro: down.expand)

end

lemma Down_le [simp]: "Down a \<le> Down b \<longleftrightarrow> b \<le> a"
  by (simp add: less_eq_down_def)

lemma Down_less [simp]: "Down a < Down b \<longleftrightarrow> b < a"
  by (simp add: less_down_def)

definition sql_update :: "('r \<Rightarrow> bool) \<Rightarrow> ('r \<Rightarrow> 'r) \<Rightarrow> 'r list \<Rightarrow> 'r list" where
  "sql_update p f t = map (\<lambda>r. if p r then f r else r) t"

definition sql_count :: "('r \<Rightarrow> bool) \<Rightarrow> 'r list \<Rightarrow> nat" where
  "sql_count p t = length (filter p t)"

definition sql_exists :: "('r \<Rightarrow> bool) \<Rightarrow> 'r list \<Rightarrow> bool" where
  "sql_exists p t \<longleftrightarrow> list_ex p t"

definition sql_get :: "('r \<Rightarrow> bool) \<Rightarrow> 'r list \<Rightarrow> 'r option" where
  "sql_get p t = List.find p t"

definition sql_delete :: "('r \<Rightarrow> bool) \<Rightarrow> 'r list \<Rightarrow> 'r list" where
  "sql_delete p t = filter (\<lambda>r. \<not> p r) t"

definition sql_order :: "('r \<Rightarrow> 'k::linorder) \<Rightarrow> 'r list \<Rightarrow> 'r list" where
  "sql_order key t = sort_key key t"

text \<open>The first row of \<open>SELECT \<dots> WHERE p ORDER BY key LIMIT 1\<close>; \<open>None\<close> is \<open>sql.ErrNoRows\<close>.\<close>

definition sql_first :: "('r \<Rightarrow> bool) \<Rightarrow> ('r \<Rightarrow> 'k::linorder) \<Rightarrow> 'r list \<Rightarrow> 'r option" where
  "sql_first p key t = (case sql_order key (filter p t) of [] \<Rightarrow> None | r # _ \<Rightarrow> Some r)"

lemma set_sql_update [sql_simps]: "set (sql_update p f t) = (\<lambda>r. if p r then f r else r) ` set t"
  by (simp add: sql_update_def)

lemma set_sql_delete [sql_simps]: "set (sql_delete p t) = {r \<in> set t. \<not> p r}"
  by (auto simp: sql_delete_def)

lemma length_sql_update [simp]: "length (sql_update p f t) = length t"
  by (simp add: sql_update_def)

lemma map_sql_update: "(\<And>r. p r \<Longrightarrow> g (f r) = g r) \<Longrightarrow> map g (sql_update p f t) = map g t"
  by (simp add: sql_update_def)

lemma sql_update_id: "(\<And>r. r \<in> set t \<Longrightarrow> \<not> p r) \<Longrightarrow> sql_update p f t = t"
  by (simp add: sql_update_def map_idI)

lemma sql_count_eq_0: "sql_count p t = 0 \<longleftrightarrow> (\<forall>r \<in> set t. \<not> p r)"
  by (simp add: sql_count_def filter_empty_conv)

lemma sql_exists_iff [simp]: "sql_exists p t \<longleftrightarrow> (\<exists>r \<in> set t. p r)"
  by (simp add: sql_exists_def list_ex_iff)

lemma sql_update_in:
  assumes "r' \<in> set (sql_update p f t)"
  obtains r where "r \<in> set t" "p r" "r' = f r" | "r' \<in> set t" "\<not> p r'"
  using assms by (auto simp: set_sql_update split: if_splits)

lemma list_all_sql_update: "list_all Q (sql_update p f t) \<longleftrightarrow> (\<forall>r \<in> set t. Q (if p r then f r else r))"
  by (induction t) (auto simp: sql_update_def)

lemma map_filter_update:
  "(\<And>r. g (f r) = g r \<and> q (f r) = q r) \<Longrightarrow> map g (filter q (sql_update p f t)) = map g (filter q t)"
  by (induction t) (auto simp: sql_update_def)

lemma list_all_update: "list_all Q t \<Longrightarrow> (\<And>r. Q r \<Longrightarrow> p r \<Longrightarrow> Q (f r)) \<Longrightarrow> list_all Q (sql_update p f t)"
  by (auto simp: list_all_iff elim!: sql_update_in)

lemma sql_get_Some: "sql_get p t = Some r \<Longrightarrow> r \<in> set t \<and> p r"
  by (auto simp: sql_get_def find_Some_iff)

lemma sql_get_None: "sql_get p t = None \<longleftrightarrow> (\<forall>r \<in> set t. \<not> p r)"
  by (auto simp: sql_get_def find_None_iff)

lemma sql_first_None: "sql_first p key t = None \<longleftrightarrow> (\<forall>r \<in> set t. \<not> p r)"
proof -
  have "sort_key key (filter p t) = [] \<longleftrightarrow> filter p t = []"
    by (metis set_empty2 set_sort)
  then show ?thesis
    by (auto simp: sql_first_def sql_order_def filter_empty_conv split: list.splits)
qed

lemma sql_first_Some:
  assumes "sql_first p key t = Some r"
  shows "r \<in> set t \<and> p r \<and> (\<forall>s \<in> set t. p s \<longrightarrow> key r \<le> key s)"
proof -
  from assms obtain rs where srt: "sort_key key (filter p t) = r # rs"
    by (auto simp: sql_first_def sql_order_def split: list.splits)
  then have "set (r # rs) = set (filter p t)"
    by (metis set_sort)
  moreover have "sorted (map key (r # rs))"
    by (metis srt sorted_sort_key)
  ultimately show ?thesis by (auto simp: set_eq_iff)
qed

subsection \<open>Tables with a primary key\<close>

text \<open>
  With distinct keys an \<open>UPDATE \<dots> WHERE id = ?\<close> touches at most one row, and an update that
  leaves the key column alone keeps the keys distinct.
\<close>

lemma distinct_key_eq:
  "distinct (map key t) \<Longrightarrow> r \<in> set t \<Longrightarrow> s \<in> set t \<Longrightarrow> key r = key s \<Longrightarrow> r = s"
  by (metis distinct_map inj_onD)

lemma sql_count_key_le_1:
  assumes "distinct (map key t)" and "\<And>r. p r \<Longrightarrow> key r = k"
  shows "sql_count p t \<le> 1"
  using assms(1)
proof (induction t)
  case Nil
  then show ?case by (simp add: sql_count_def)
next
  case (Cons a t)
  show ?case
  proof (cases "p a")
    case True
    have "\<not> p r" if "r \<in> set t" for r
      using Cons.prems that assms(2) [of r] assms(2) [OF True] by (auto simp: image_iff)
    then have "filter p t = []" by (simp add: filter_empty_conv)
    with True show ?thesis by (simp add: sql_count_def)
  next
    case False
    with Cons show ?thesis by (simp add: sql_count_def)
  qed
qed

lemma sql_count_key_1:
  assumes "distinct (map key t)" and "\<And>r. p r \<Longrightarrow> key r = k"
  shows "sql_count p t = 1 \<longleftrightarrow> (\<exists>r \<in> set t. p r)"
  using sql_count_key_le_1 [OF assms] sql_count_eq_0 [of p t] by force

lemma sql_get_key:
  assumes "distinct (map key t)" and "r \<in> set t"
  shows "sql_get (\<lambda>s. key s = key r) t = Some r"
proof -
  from assms(2) have "sql_get (\<lambda>s. key s = key r) t \<noteq> None"
    by (auto simp: sql_get_None)
  then obtain s where "sql_get (\<lambda>s. key s = key r) t = Some s" by auto
  with sql_get_Some [OF this] assms show ?thesis
    by (metis distinct_key_eq)
qed

section \<open>Shared contracts\<close>

text \<open>
  A component whose transactions keep an invariant: \<open>tx s s'\<close> says that one transaction, by any caller and
  with any arguments, may take the store from \<open>s\<close> to \<open>s'\<close>.  What every transaction keeps holds along any
  interleaving of them.
\<close>

locale transactions =
  fixes tx :: "'s \<Rightarrow> 's \<Rightarrow> bool"
    and inv :: "'s \<Rightarrow> bool"
  assumes preserved: "tx s s' \<Longrightarrow> inv s \<Longrightarrow> inv s'"
begin

lemma along: "tx\<^sup>*\<^sup>* s s' \<Longrightarrow> inv s \<Longrightarrow> inv s'"
  by (induction rule: rtranclp_induct) (auto intro: preserved)

end

text \<open>Transactions that also relate every store to the ones before it, as history that is not rewritten.\<close>

locale kept_transactions = transactions tx inv
  for tx :: "'s \<Rightarrow> 's \<Rightarrow> bool"
    and inv :: "'s \<Rightarrow> bool" +
  fixes kept :: "'s \<Rightarrow> 's \<Rightarrow> bool"
  assumes kept_same: "kept s s"
    and kept_onward: "kept s s' \<Longrightarrow> kept s' s'' \<Longrightarrow> kept s s''"
    and kept_once: "tx s s' \<Longrightarrow> inv s \<Longrightarrow> kept s s'"
begin

lemma kept_along: "tx\<^sup>*\<^sup>* s s' \<Longrightarrow> inv s \<Longrightarrow> kept s s'"
proof (induction rule: rtranclp_induct)
  case (step s1 s2)
  then have "kept s1 s2" using along kept_once by blast
  then show ?case using step kept_onward by blast
qed (rule kept_same)

end

text \<open>Values with a textual form that is read back.\<close>

locale text_codec =
  fixes valid :: "'a \<Rightarrow> bool"
    and print :: "'a \<Rightarrow> string"
    and parse :: "string \<Rightarrow> 'a option"
  assumes read_back: "valid x \<Longrightarrow> parse (print x) = Some x"
begin

lemma print_eq: "valid x \<Longrightarrow> valid y \<Longrightarrow> print x = print y \<longleftrightarrow> x = y"
  using read_back by (metis option.inject)

end

text \<open>Values with a normal form, whose texts are normalised by reading and printing.\<close>

locale normal_text = text_codec valid print parse
  for valid :: "'a \<Rightarrow> bool"
    and print :: "'a \<Rightarrow> string"
    and parse :: "string \<Rightarrow> 'a option" +
  fixes norm :: "'a \<Rightarrow> 'a"
  assumes read_valid: "parse s = Some x \<Longrightarrow> valid x"
    and norm_valid: "valid x \<Longrightarrow> valid (norm x)"
    and norm_same: "norm (norm x) = norm x"
begin

lemma read_normal: "parse s = Some x \<Longrightarrow> parse (print (norm x)) = Some (norm x)"
  by (intro read_back norm_valid read_valid)

lemma normal_again: "parse s = Some x \<Longrightarrow> print (norm (the (parse (print (norm x))))) = print (norm x)"
  by (simp add: read_normal norm_same)

lemma same_normal: "parse s = Some x \<Longrightarrow> parse s' = Some y \<Longrightarrow>
    print (norm x) = print (norm y) \<longleftrightarrow> norm x = norm y"
  by (intro print_eq norm_valid read_valid)

end

end
