(* ===== verification/HF_Time.thy ===== *)
theory HF_Time
  imports HF_Prelude
begin

text \<open>
  Instants and the two time stamp formats of the store.  An instant is the number of
  nanoseconds since 1970-01-01T00:00:00Z; the clock of the program never runs before that.
  \<open>rfc3339\<close> is \<open>t.UTC().Format(time.RFC3339)\<close> and \<open>rfc3339_nano\<close> is
  \<open>t.UTC().Format(time.RFC3339Nano)\<close>, which drops trailing zeros of the fraction and the
  fraction itself when it is zero.  \<open>parse_time\<close> is \<open>parseTime\<close> of
  internal/repository/store.go on the UTC strings the store writes (\<open>None\<close> is the zero time it
  returns for anything it cannot parse).  The lemmas show that parsing inverts printing, that
  the strings are ordered as the instants are when they lie in different seconds, and where
  they are not.
\<close>

type_synonym instant = nat

type_synonym go_time = "instant option"

definition ns_per_sec :: nat where
  "ns_per_sec = 1000000000"

definition add_dur :: "instant \<Rightarrow> int \<Rightarrow> instant" where
  "add_dur t d = nat (int t + d)"

section \<open>Civil dates\<close>

definition leap_year :: "nat \<Rightarrow> bool" where
  "leap_year y \<longleftrightarrow> y mod 4 = 0 \<and> (y mod 100 \<noteq> 0 \<or> y mod 400 = 0)"

definition month_lens :: "nat \<Rightarrow> nat list" where
  "month_lens y = [31, if leap_year y then 29 else 28, 31, 30, 31, 30, 31, 31, 30, 31, 30, 31]"

definition year_len :: "nat \<Rightarrow> nat" where
  "year_len y = (if leap_year y then 366 else 365)"

lemma year_len_pos [simp]: "0 < year_len y"
  by (simp add: year_len_def)

lemma sum_month_lens: "sum_list (month_lens y) = year_len y"
  by (simp add: month_lens_def year_len_def)

lemma length_month_lens [simp]: "length (month_lens y) = 12"
  by (simp add: month_lens_def)

function civil_year :: "nat \<Rightarrow> nat \<Rightarrow> nat \<times> nat" where
  "civil_year y d = (if d < year_len y then (y, d) else civil_year (Suc y) (d - year_len y))"
  by pat_completeness auto
termination
  by (relation "measure snd") (auto simp: not_less intro!: diff_less dest: less_le_trans [OF year_len_pos])

declare civil_year.simps [simp del]

fun civil_month :: "nat list \<Rightarrow> nat \<Rightarrow> nat \<times> nat" where
  "civil_month [] d = (0, d)"
| "civil_month (l # ls) d =
     (if d < l then (0, d) else (let (m, r) = civil_month ls (d - l) in (Suc m, r)))"

definition civil_date :: "nat \<Rightarrow> nat \<times> nat \<times> nat" where
  "civil_date days =
     (let (y, d) = civil_year 1970 days; (m, r) = civil_month (month_lens y) d
      in (y, m + 1, r + 1))"

definition days_from_civil :: "nat \<Rightarrow> nat \<Rightarrow> nat \<Rightarrow> nat" where
  "days_from_civil y m d =
     sum_list (map year_len [1970..<y]) + sum_list (take (m - 1) (month_lens y)) + (d - 1)"

lemma civil_year_props:
  "civil_year y0 d = (y, r) \<Longrightarrow>
     y0 \<le> y \<and> r < year_len y \<and> d = sum_list (map year_len [y0..<y]) + r"
proof (induction y0 d arbitrary: y r rule: civil_year.induct)
  case (1 y0 d)
  show ?case
  proof (cases "d < year_len y0")
    case True
    with "1.prems" show ?thesis by (auto simp: civil_year.simps [of y0 d])
  next
    case False
    with "1.prems" have eq: "civil_year (Suc y0) (d - year_len y0) = (y, r)"
      by (simp add: civil_year.simps [of y0 d])
    from "1.IH" [OF False eq] have ih: "Suc y0 \<le> y" "r < year_len y"
      "d - year_len y0 = sum_list (map year_len [Suc y0..<y]) + r" by auto
    from ih(1) have "sum_list (map year_len [y0..<y])
        = year_len y0 + sum_list (map year_len [Suc y0..<y])"
      by (simp add: upt_conv_Cons)
    with ih False show ?thesis by linarith
  qed
qed

lemma civil_month_props:
  "civil_month ls d = (m, r) \<Longrightarrow> d < sum_list ls \<Longrightarrow>
     m < length ls \<and> r < ls ! m \<and> d = sum_list (take m ls) + r"
proof (induction ls arbitrary: d m r)
  case Nil
  then show ?case by simp
next
  case (Cons l ls)
  show ?case
  proof (cases "d < l")
    case True
    with Cons.prems show ?thesis by auto
  next
    case False
    with Cons.prems obtain m' where m': "civil_month ls (d - l) = (m', r)" "m = Suc m'"
      by (auto split: prod.splits)
    from False Cons.prems have "d - l < sum_list ls" by simp
    from Cons.IH [OF m'(1) this] False m'(2) show ?thesis by auto
  qed
qed

lemma month_lens_le_31: "m < 12 \<Longrightarrow> month_lens y ! m \<le> 31"
proof -
  assume "m < 12"
  then have "month_lens y ! m \<in> set (month_lens y)" by simp
  then show ?thesis by (auto simp: month_lens_def split: if_splits)
qed

lemma civil_date_props:
  assumes "civil_date days = (y, m, d)"
  shows "1970 \<le> y \<and> 1 \<le> m \<and> m \<le> 12 \<and> 1 \<le> d \<and> d \<le> month_lens y ! (m - 1) \<and> d \<le> 31 \<and>
    days_from_civil y m d = days"
proof -
  obtain yd where yd: "civil_year 1970 days = (y, yd)"
    and md: "civil_month (month_lens y) yd = (m - 1, d - 1)" and pos: "1 \<le> m" "1 \<le> d"
    using assms by (auto simp: civil_date_def split: prod.splits)
  from civil_year_props [OF yd] have y: "1970 \<le> y" "yd < year_len y"
    "days = sum_list (map year_len [1970..<y]) + yd" by auto
  from y(2) have "yd < sum_list (month_lens y)" by (simp add: sum_month_lens)
  from civil_month_props [OF md this]
  have m: "m - 1 < 12" "d - 1 < month_lens y ! (m - 1)"
    "yd = sum_list (take (m - 1) (month_lens y)) + (d - 1)" by auto
  from month_lens_le_31 [OF m(1), of y] m(2) have "d \<le> 31" by linarith
  moreover have "days_from_civil y m d = days"
    using y(3) m(3) by (simp add: days_from_civil_def)
  moreover from m(1) pos have "m \<le> 12" by simp
  moreover from m(2) pos have "d \<le> month_lens y ! (m - 1)" by linarith
  ultimately show ?thesis using y(1) pos by blast
qed

section \<open>Printing\<close>

definition pad2 :: "nat \<Rightarrow> string" where
  "pad2 n = [digit_char (n div 10 mod 10), digit_char (n mod 10)]"

definition pad4 :: "nat \<Rightarrow> string" where
  "pad4 n = (if n < 10000 then pad2 (n div 100) @ pad2 (n mod 100) else show_nat n)"

definition secs_of :: "instant \<Rightarrow> nat" where
  "secs_of t = t div ns_per_sec"

text \<open>The part the two formats share: everything up to and including the seconds.\<close>

definition stamp_secs :: "nat \<Rightarrow> string" where
  "stamp_secs s =
     (let (y, m, d) = civil_date (s div 86400); q = s mod 86400
      in pad4 y @ ''-'' @ pad2 m @ ''-'' @ pad2 d @ ''T'' @
         pad2 (q div 3600) @ '':'' @ pad2 (q div 60 mod 60) @ '':'' @ pad2 (q mod 60))"

definition rfc3339 :: "instant \<Rightarrow> string" where
  "rfc3339 t = stamp_secs (secs_of t) @ ''Z''"

fun digits_fixed :: "nat \<Rightarrow> nat \<Rightarrow> string" where
  "digits_fixed 0 n = []"
| "digits_fixed (Suc k) n = digits_fixed k (n div 10) @ [digit_char (n mod 10)]"

definition drop_zeros :: "string \<Rightarrow> string" where
  "drop_zeros s = rev (dropWhile (\<lambda>c. c = digit_char 0) (rev s))"

definition frac_part :: "nat \<Rightarrow> string" where
  "frac_part ns = (if ns = 0 then [] else ''.'' @ drop_zeros (digits_fixed 9 ns))"

definition rfc3339_nano :: "instant \<Rightarrow> string" where
  "rfc3339_nano t = stamp_secs (secs_of t) @ frac_part (t mod ns_per_sec) @ ''Z''"

text \<open>Printing an optional time: the zero time of Go is 0001-01-01T00:00:00Z.\<close>

definition nano_opt :: "go_time \<Rightarrow> string" where
  "nano_opt t = (case t of None \<Rightarrow> ''0001-01-01T00:00:00Z'' | Some u \<Rightarrow> rfc3339_nano u)"

lemma rfc3339_not_Nil [simp]: "rfc3339 t \<noteq> []"
  by (simp add: rfc3339_def)

lemma rfc3339_nano_not_Nil [simp]: "rfc3339_nano t \<noteq> []"
  by (simp add: rfc3339_nano_def)

section \<open>Parsing\<close>

definition take_num :: "nat \<Rightarrow> string \<Rightarrow> (nat \<times> string) option" where
  "take_num k s =
     (if k \<le> length s \<and> list_all is_digit (take k s)
      then Some (digits_val (take k s), drop k s) else None)"

definition expect :: "char \<Rightarrow> string \<Rightarrow> string option" where
  "expect c s = (case s of [] \<Rightarrow> None | x # xs \<Rightarrow> if x = c then Some xs else None)"

text \<open>The fraction: a point and at least one digit, of which the first nine count.\<close>

definition parse_frac :: "string \<Rightarrow> (nat \<times> string) option" where
  "parse_frac s =
     (case s of
        [] \<Rightarrow> Some (0, [])
      | x # xs \<Rightarrow>
          if x \<noteq> CHR ''.'' then Some (0, s)
          else (let ds = takeWhile is_digit xs; rest = dropWhile is_digit xs;
                    k = min 9 (length ds)
                in if ds = [] then None
                   else Some (digits_val (take k ds) * 10 ^ (9 - k), rest)))"

definition parse_time :: "string \<Rightarrow> go_time" where
  "parse_time s =
     Option.bind (take_num 4 s) (\<lambda>(y, s). Option.bind (expect CHR ''-'' s) (\<lambda>s.
     Option.bind (take_num 2 s) (\<lambda>(m, s). Option.bind (expect CHR ''-'' s) (\<lambda>s.
     Option.bind (take_num 2 s) (\<lambda>(d, s). Option.bind (expect CHR ''T'' s) (\<lambda>s.
     Option.bind (take_num 2 s) (\<lambda>(hh, s). Option.bind (expect CHR '':'' s) (\<lambda>s.
     Option.bind (take_num 2 s) (\<lambda>(mi, s). Option.bind (expect CHR '':'' s) (\<lambda>s.
     Option.bind (take_num 2 s) (\<lambda>(ss, s). Option.bind (parse_frac s) (\<lambda>(ns, s).
       if s = ''Z'' \<and> 1970 \<le> y \<and> 1 \<le> m \<and> m \<le> 12 \<and> 1 \<le> d \<and> d \<le> month_lens y ! (m - 1) \<and>
          hh < 24 \<and> mi < 60 \<and> ss < 60
       then Some ((days_from_civil y m d * 86400 + hh * 3600 + mi * 60 + ss) * ns_per_sec + ns)
       else None))))))))))))"

section \<open>Parsing inverts printing\<close>

lemma digits_val_append: "digits_val (a @ b) = digits_val a * 10 ^ length b + digits_val b"
proof (induction b rule: rev_induct)
  case Nil
  then show ?case by (simp add: digits_val_def)
next
  case (snoc x b)
  have "digits_val (a @ b @ [x]) = digits_val (a @ b) * 10 + digit_val x"
    using digits_val_snoc [of "a @ b" x] by simp
  with snoc show ?case by (simp add: digits_val_snoc algebra_simps)
qed

lemma digits_val_pad2: "n < 100 \<Longrightarrow> digits_val (pad2 n) = n"
  by (simp add: digits_val_def pad2_def)

lemma length_pad2 [simp]: "length (pad2 n) = 2"
  by (simp add: pad2_def)

lemma digits_val_pad4: "n < 10000 \<Longrightarrow> digits_val (pad4 n) = n"
proof -
  assume n: "n < 10000"
  then have "n div 100 < 100" by (simp add: less_mult_imp_div_less)
  with n show ?thesis by (simp add: pad4_def digits_val_append digits_val_pad2)
qed

lemma length_pad4 [simp]: "n < 10000 \<Longrightarrow> length (pad4 n) = 4"
  by (simp add: pad4_def)

lemma digits_pad2: "list_all is_digit (pad2 n)"
  by (simp add: pad2_def)

lemma digits_pad4: "n < 10000 \<Longrightarrow> list_all is_digit (pad4 n)"
  by (simp add: pad4_def digits_pad2)

lemma take_num_append:
  "length p = k \<Longrightarrow> list_all is_digit p \<Longrightarrow> take_num k (p @ s) = Some (digits_val p, s)"
  by (simp add: take_num_def)

lemma take_num_pad2: "n < 100 \<Longrightarrow> take_num 2 (pad2 n @ s) = Some (n, s)"
  by (simp add: take_num_append digits_pad2 digits_val_pad2)

lemma take_num_pad4: "n < 10000 \<Longrightarrow> take_num 4 (pad4 n @ s) = Some (n, s)"
  by (simp add: take_num_append digits_pad4 digits_val_pad4)

lemma expect_Cons [simp]: "expect c (c # s) = Some s"
  by (simp add: expect_def)

lemma length_digits_fixed [simp]: "length (digits_fixed k n) = k"
  by (induction k arbitrary: n) auto

lemma digits_digits_fixed: "list_all is_digit (digits_fixed k n)"
  by (induction k arbitrary: n) auto

lemma digits_val_fixed: "n < 10 ^ k \<Longrightarrow> digits_val (digits_fixed k n) = n"
proof (induction k arbitrary: n)
  case 0
  then show ?case by (simp add: digits_val_def)
next
  case (Suc k)
  then have "n div 10 < 10 ^ k" by (simp add: less_mult_imp_div_less)
  with Suc.IH show ?case by (simp add: digits_val_snoc)
qed

lemma drop_zeros_split: "\<exists>k. s = drop_zeros s @ replicate k (digit_char 0)"
proof -
  let ?P = "\<lambda>c. c = digit_char 0"
  have "rev s = takeWhile ?P (rev s) @ dropWhile ?P (rev s)" by simp
  then have "s = drop_zeros s @ rev (takeWhile ?P (rev s))"
    unfolding drop_zeros_def by (metis rev_append rev_rev_ident)
  moreover have "takeWhile ?P (rev s) = replicate (length (takeWhile ?P (rev s))) (digit_char 0)"
    by (metis (mono_tags, lifting) replicate_eqI set_takeWhileD)
  ultimately show ?thesis by (metis rev_replicate)
qed

lemma digits_val_zeros: "digits_val (replicate k (digit_char 0)) = 0"
  by (induction k) (auto simp: digits_val_def foldl_conv_fold)

lemma takeWhile_dropWhile_append:
  "list_all P a \<Longrightarrow> \<not> P c \<Longrightarrow> takeWhile P (a @ c # s) = a \<and> dropWhile P (a @ c # s) = c # s"
  by (induction a) auto

lemma parse_frac_digits:
  assumes "list_all is_digit ds" "ds \<noteq> []" "length ds \<le> 9"
  shows "parse_frac (''.'' @ ds @ ''Z'') = Some (digits_val ds * 10 ^ (9 - length ds), ''Z'')"
proof -
  have "\<not> is_digit CHR ''Z''" by (simp add: is_digit_def)
  with assms(1) have "takeWhile is_digit (ds @ ''Z'') = ds \<and> dropWhile is_digit (ds @ ''Z'') = ''Z''"
    by (rule takeWhile_dropWhile_append)
  with assms(2,3) show ?thesis
    by (simp add: parse_frac_def Let_def)
qed

lemma parse_frac_print:
  assumes "ns < ns_per_sec"
  shows "parse_frac (frac_part ns @ ''Z'') = Some (ns, ''Z'')"
proof (cases "ns = 0")
  case True
  then show ?thesis by (simp add: frac_part_def parse_frac_def)
next
  case False
  define f where "f = digits_fixed 9 ns"
  define ds where "ds = drop_zeros f"
  obtain k where k: "f = ds @ replicate k (digit_char 0)"
    using drop_zeros_split ds_def by blast
  have "length f = 9" by (simp add: f_def)
  with k have len: "length ds + k = 9" by simp
  have "digits_val f = ns"
    using assms unfolding f_def by (intro digits_val_fixed) (simp add: ns_per_sec_def)
  with k have v: "digits_val ds * 10 ^ k = ns"
    by (simp add: digits_val_append digits_val_zeros)
  then have ne: "ds \<noteq> []"
    using False by (auto simp: digits_val_def)
  have "list_all is_digit f" unfolding f_def by (rule digits_digits_fixed)
  with k have digs: "list_all is_digit ds" by simp
  have "9 - length ds = k" "length ds \<le> 9" using len by auto
  with parse_frac_digits [OF digs ne] v False show ?thesis
    by (simp add: frac_part_def flip: f_def ds_def)
qed

definition year_of :: "instant \<Rightarrow> nat" where
  "year_of t = fst (civil_date (secs_of t div 86400))"

lemma parse_fields:
  assumes "y < 10000" "m < 100" "d < 100" "hh < 24" "mi < 60" "ss < 60"
    and "1970 \<le> y" "1 \<le> m" "m \<le> 12" "1 \<le> d" "d \<le> month_lens y ! (m - 1)"
    and f: "parse_frac (f @ ''Z'') = Some (ns, ''Z'')"
  shows "parse_time (pad4 y @ ''-'' @ pad2 m @ ''-'' @ pad2 d @ ''T'' @ pad2 hh @ '':'' @
      pad2 mi @ '':'' @ pad2 ss @ f @ ''Z'')
    = Some ((days_from_civil y m d * 86400 + hh * 3600 + mi * 60 + ss) * ns_per_sec + ns)"
proof -
  have lt: "hh < 100" "mi < 100" "ss < 100" using assms by linarith+
  note nums = take_num_pad4 [OF assms(1)] take_num_pad2 [OF assms(2)] take_num_pad2 [OF assms(3)]
    lt [THEN take_num_pad2]
  show ?thesis
    by (simp only: parse_time_def nums expect_Cons append_Cons append_Nil Option.bind.simps
          prod.case f assms(4-11) simp_thms if_True)
qed

lemma clock_split:
  fixes q :: nat
  shows "q div 3600 * 3600 + q div 60 mod 60 * 60 + q mod 60 = q"
proof -
  have "q div 3600 = q div 60 div 60" by (simp flip: div_mult2_eq)
  then show ?thesis
    using div_mult_mod_eq [of "q div 60" 60] div_mult_mod_eq [of q 60] by linarith
qed

lemma parse_print_gen:
  assumes "year_of t < 10000" and f: "parse_frac (f @ ''Z'') = Some (ns, ''Z'')"
  shows "parse_time (stamp_secs (secs_of t) @ f @ ''Z'') = Some (secs_of t * ns_per_sec + ns)"
proof -
  define s where "s = secs_of t"
  define q where "q = s mod 86400"
  obtain y m d where ymd: "civil_date (s div 86400) = (y, m, d)"
    by (metis prod_cases3)
  from civil_date_props [OF ymd] assms(1) ymd
  have b: "1970 \<le> y" "1 \<le> m" "m \<le> 12" "1 \<le> d" "d \<le> month_lens y ! (m - 1)" "d \<le> 31"
    "days_from_civil y m d = s div 86400" "y < 10000"
    by (auto simp: year_of_def s_def)
  have q: "q div 3600 < 24" "q div 60 mod 60 < 60" "q mod 60 < 60"
    by (auto simp: q_def less_mult_imp_div_less)
  have lt: "m < 100" "d < 100" using b by linarith+
  have rt: "days_from_civil y m d * 86400 + q div 3600 * 3600 + q div 60 mod 60 * 60 + q mod 60 = s"
    using clock_split [of q] b(7) div_mult_mod_eq [of s 86400] unfolding q_def by linarith
  have "stamp_secs s @ f @ ''Z'' = pad4 y @ ''-'' @ pad2 m @ ''-'' @ pad2 d @ ''T'' @
      pad2 (q div 3600) @ '':'' @ pad2 (q div 60 mod 60) @ '':'' @ pad2 (q mod 60) @ f @ ''Z''"
    by (simp add: stamp_secs_def ymd q_def Let_def)
  with parse_fields [OF b(8) lt q b(1-5) f] rt show ?thesis
    by (simp add: s_def)
qed

lemma parse_rfc3339_nano [simp]:
  assumes "year_of t < 10000"
  shows "parse_time (rfc3339_nano t) = Some t"
proof -
  have "t mod ns_per_sec < ns_per_sec" by (simp add: ns_per_sec_def)
  from parse_print_gen [OF assms parse_frac_print [OF this]]
  show ?thesis by (simp add: rfc3339_nano_def secs_of_def)
qed

interpretation stamp: text_codec "\<lambda>t. year_of t < 10000" rfc3339_nano parse_time
  by unfold_locales (rule parse_rfc3339_nano)

lemma parse_rfc3339:
  assumes "year_of t < 10000"
  shows "parse_time (rfc3339 t) = Some (secs_of t * ns_per_sec)"
proof -
  have "parse_frac ([] @ ''Z'') = Some (0, ''Z'')" by (simp add: parse_frac_def)
  from parse_print_gen [OF assms this] show ?thesis by (simp add: rfc3339_def)
qed

lemma parse_time_Nil [simp]: "parse_time [] = None"
  by (simp add: parse_time_def take_num_def)

section \<open>The order of the time stamp strings\<close>

lemma append_less_cancel [simp]: "p @ x < p @ (y :: string) \<longleftrightarrow> x < y"
  by (induction p) auto

lemma digit_char_less: "d < e \<Longrightarrow> e < 10 \<Longrightarrow> digit_char d < digit_char e"
  by (simp add: less_char_def of_digit_char)

lemma pad2_less: "a < b \<Longrightarrow> b < 100 \<Longrightarrow> pad2 a @ x < pad2 b @ y"
proof -
  assume ab: "a < b" "b < 100"
  then have lt: "b div 10 < 10" by (simp add: less_mult_imp_div_less)
  have le: "a div 10 \<le> b div 10" using ab by (simp add: div_le_mono)
  show ?thesis
  proof (cases "a div 10 = b div 10")
    case True
    then have "a mod 10 < b mod 10"
      using ab div_mult_mod_eq [of a 10] div_mult_mod_eq [of b 10] by linarith
    with True show ?thesis by (simp add: pad2_def digit_char_less)
  next
    case False
    with le lt ab show ?thesis by (simp add: pad2_def digit_char_less)
  qed
qed

lemma pad4_less: "a < b \<Longrightarrow> b < 10000 \<Longrightarrow> pad4 a @ x < pad4 b @ y"
proof -
  assume ab: "a < b" "b < 10000"
  then have lt: "b div 100 < 100" by (simp add: less_mult_imp_div_less)
  have le: "a div 100 \<le> b div 100" using ab by (simp add: div_le_mono)
  show ?thesis
  proof (cases "a div 100 = b div 100")
    case True
    then have "a mod 100 < b mod 100"
      using ab div_mult_mod_eq [of a 100] div_mult_mod_eq [of b 100] by linarith
    with True ab show ?thesis by (simp add: pad4_def pad2_less)
  next
    case False
    with le lt ab show ?thesis by (simp add: pad4_def pad2_less)
  qed
qed

lemma civil_year_mono:
  assumes "civil_year y0 d = (y, r)" "civil_year y0 d' = (y', r')" "d < d'"
  shows "y < y' \<or> y = y' \<and> r < r'"
  using assms
proof (induction y0 d arbitrary: d' y r y' r' rule: civil_year.induct)
  case (1 y0 d)
  show ?case
  proof (cases "d < year_len y0")
    case True
    with 1(2) have "y = y0" "r = d" by (auto simp: civil_year.simps [of y0 d])
    moreover from 1(3) have "y0 < y' \<or> y' = y0 \<and> r' = d'"
      using civil_year_props [of "Suc y0" "d' - year_len y0" y' r']
      by (auto simp: civil_year.simps [of y0 d'] split: if_splits)
    ultimately show ?thesis using 1(4) by auto
  next
    case False
    with 1(2-4) have "civil_year (Suc y0) (d - year_len y0) = (y, r)"
      "civil_year (Suc y0) (d' - year_len y0) = (y', r')" "d - year_len y0 < d' - year_len y0"
      by (auto simp: civil_year.simps [of y0 d] civil_year.simps [of y0 d'])
    with 1(1) [OF False] show ?thesis by blast
  qed
qed

lemma civil_month_mono:
  assumes "civil_month ls d = (m, r)" "civil_month ls d' = (m', r')" "d < d'"
  shows "m < m' \<or> m = m' \<and> r < r'"
  using assms
proof (induction ls arbitrary: d d' m r m' r')
  case Nil
  then show ?case by simp
next
  case (Cons l ls)
  show ?case
  proof (cases "d < l")
    case True
    with Cons.prems show ?thesis by (auto split: if_splits prod.splits)
  next
    case False
    with Cons.prems obtain k k' where k: "m = Suc k" "m' = Suc k'"
      "civil_month ls (d - l) = (k, r)" "civil_month ls (d' - l) = (k', r')" "d - l < d' - l"
      by (auto split: prod.splits)
    with Cons.IH [OF k(3-5)] show ?thesis by simp
  qed
qed

lemma civil_date_mono:
  assumes "civil_date e = (y, m, d)" "civil_date e' = (y', m', d')" "e < e'"
  shows "y < y' \<or> y = y' \<and> (m < m' \<or> m = m' \<and> d < d')"
proof -
  obtain r r' where c: "civil_year 1970 e = (y, r)" "civil_year 1970 e' = (y', r')"
    "civil_month (month_lens y) r = (m - 1, d - 1)" "civil_month (month_lens y') r' = (m' - 1, d' - 1)"
    and pos: "1 \<le> m" "1 \<le> d" "1 \<le> m'" "1 \<le> d'"
    using assms(1,2) by (auto simp: civil_date_def split: prod.splits)
  from civil_year_mono [OF c(1,2) assms(3)] show ?thesis
  proof
    assume "y < y'"
    then show ?thesis ..
  next
    assume "y = y' \<and> r < r'"
    with civil_month_mono [of "month_lens y" r "m - 1" "d - 1" r' "m' - 1" "d' - 1"] c pos
    show ?thesis by auto
  qed
qed

lemma clock_less:
  fixes q q' :: nat
  assumes "q < q'" "q' < 86400"
  shows "pad2 (q div 3600) @ '':'' @ pad2 (q div 60 mod 60) @ '':'' @ pad2 (q mod 60) @ x
    < pad2 (q' div 3600) @ '':'' @ pad2 (q' div 60 mod 60) @ '':'' @ pad2 (q' mod 60) @ y"
proof -
  define h h' i i' z z' where "h = q div 3600" "h' = q' div 3600"
    "i = q div 60 mod 60" "i' = q' div 60 mod 60" "z = q mod 60" "z' = q' mod 60"
  note defs = this
  have eq: "h * 3600 + i * 60 + z = q" "h' * 3600 + i' * 60 + z' = q'"
    unfolding defs by (rule clock_split)+
  have b: "i < 60" "i' < 60" "z < 60" "z' < 60" "h' < 100" using assms(2) eq(2) by (auto simp: defs)
  have "h < h' \<or> h = h' \<and> (i < i' \<or> i = i' \<and> z < z')"
    using eq b assms(1) by linarith
  then have "pad2 h @ '':'' @ pad2 i @ '':'' @ pad2 z @ x < pad2 h' @ '':'' @ pad2 i' @ '':'' @ pad2 z' @ y"
    using b by (auto simp: pad2_less)
  then show ?thesis unfolding defs .
qed

lemma stamp_secs_less:
  assumes "s < s'" and y': "fst (civil_date (s' div 86400)) < 10000"
  shows "stamp_secs s @ x < stamp_secs s' @ y"
proof -
  obtain ya m d where c: "civil_date (s div 86400) = (ya, m, d)" by (metis prod_cases3)
  obtain yb m' d' where c': "civil_date (s' div 86400) = (yb, m', d')" by (metis prod_cases3)
  from civil_date_props [OF c'] y' c' have b: "m' < 100" "d' < 100" "yb < 10000" by auto
  define q q' where "q = s mod 86400" "q' = s' mod 86400"
  note qs = this
  have q': "q' < 86400" by (simp add: qs)
  have "s div 86400 < s' div 86400 \<or> s div 86400 = s' div 86400 \<and> q < q'"
    using assms(1) div_mult_mod_eq [of s 86400] div_mult_mod_eq [of s' 86400]
      div_le_mono [of s s' 86400] unfolding qs by linarith
  then show ?thesis
  proof
    assume "s div 86400 < s' div 86400"
    from civil_date_mono [OF c c' this] b show ?thesis
      by (auto simp: stamp_secs_def c c' Let_def pad4_less pad2_less)
  next
    assume "s div 86400 = s' div 86400 \<and> q < q'"
    with clock_less [OF _ q', of q x y] c c' show ?thesis
      by (simp add: stamp_secs_def Let_def flip: qs)
  qed
qed

text \<open>
  Second granularity stamps are ordered as the instants, nanosecond stamps as soon as the
  seconds differ; so a comparison of nanosecond stamps is off by less than one second.
\<close>

lemma rfc3339_less:
  "secs_of t < secs_of u \<Longrightarrow> year_of u < 10000 \<Longrightarrow> rfc3339 t < rfc3339 u"
  unfolding rfc3339_def year_of_def by (rule stamp_secs_less)

lemma rfc3339_nano_less:
  "secs_of t < secs_of u \<Longrightarrow> year_of u < 10000 \<Longrightarrow> rfc3339_nano t < rfc3339_nano u"
  unfolding rfc3339_nano_def year_of_def by (rule stamp_secs_less)

lemma rfc3339_nano_leD:
  assumes "rfc3339_nano t \<le> rfc3339_nano u" "year_of t < 10000"
  shows "secs_of t \<le> secs_of u"
  using rfc3339_nano_less [of u t] assms by (meson leI less_le_not_le)

end
