(* ===== verification/HF_Schema.thy ===== *)
theory HF_Schema
  imports HF_Time
begin

text \<open>
  The state the repository layer keeps: one record per table of the SQLite schema, with the
  table's columns in the order of the Go struct that mirrors it, and the store, which is the
  tables.  A text or blob column is a byte list, an integer column an \<^typ>\<open>int\<close>, a nullable text
  column an option.  A time column keeps the string the code writes; where the code reads it as
  a \<open>time.Time\<close> the model applies \<open>parse_time\<close>.  Columns no modelled operation reads or writes
  (the object sizes and checksums of a backup) are left out.
\<close>

record operation_row =
  op_id :: string
  op_kind :: string
  op_lock_key :: string
  op_status :: string
  op_priority :: int
  op_progress_step :: string
  op_progress_percent :: int
  op_available_at :: string
  op_attempt :: int
  op_max_attempts :: int
  op_lease_owner :: string
  op_lease_expires_at :: string
  op_cancel_requested_at :: string
  op_application_id :: string
  op_service_id :: string
  op_environment_id :: string
  op_actor :: string
  op_error_code :: string
  op_error_message :: string
  op_started_at :: string
  op_completed_at :: string
  op_created_at :: string
  op_updated_at :: string

record database_operation_row =
  dbo_id :: string
  dbo_service_id :: string
  dbo_database_instance_id :: "string option"
  dbo_operation_type :: string
  dbo_status :: string
  dbo_progress_step :: string
  dbo_progress_percent :: int
  dbo_actor :: string
  dbo_error_code :: string
  dbo_error_message :: string
  dbo_attempt_count :: int
  dbo_lease_owner :: string
  dbo_lease_expires_at :: string
  dbo_started_at :: string
  dbo_completed_at :: string
  dbo_created_at :: string
  dbo_updated_at :: string

record deployment_row =
  dep_id :: string
  dep_service_id :: string
  dep_environment_id :: string
  dep_status :: string
  dep_commit_hash :: string
  dep_logs_path :: string
  dep_image_ref :: string
  dep_worktree :: string
  dep_error_message :: string
  dep_builder_kind :: string
  dep_stack_kind :: string
  dep_stack_label :: string
  dep_trigger_kind :: string
  dep_actor :: string
  dep_cancelled_at :: string
  dep_rollback_of :: string
  dep_branch :: string
  dep_railpack_plan_json :: string
  dep_railpack_info_json :: string
  dep_created_at :: string
  dep_updated_at :: string

record platform_event_row =
  pe_application_id :: string
  pe_service_id :: string
  pe_environment_id :: string
  pe_deployment_id :: string
  pe_event_type :: string
  pe_status :: string
  pe_actor :: string
  pe_message :: string
  pe_detail :: string
  pe_created_at :: string

record service_row =
  svc_id :: string
  svc_application_id :: string
  svc_service_type :: string
  svc_name :: string
  svc_repo_url :: string
  svc_github_installation_id :: int
  svc_root_directory :: string
  svc_deploy_runtime :: string
  svc_install_cmd :: string
  svc_build_cmd :: string
  svc_start_cmd :: string
  svc_internal_port :: int
  svc_health_check_path :: string
  svc_created_at :: string
  svc_updated_at :: string

record service_environment_row =
  se_service_id :: string
  se_environment_id :: string
  se_branch :: string
  se_auto_deploy :: bool
  se_active_deployment_id :: string
  se_desired_state :: string
  se_created_at :: string
  se_updated_at :: string

record environment_row =
  env_id :: string
  env_application_id :: string
  env_name :: string
  env_slug :: string
  env_kind :: string
  env_created_at :: string
  env_updated_at :: string

record application_row =
  app_id :: string
  app_name :: string
  app_description :: string
  app_archived :: bool
  app_created_at :: string
  app_updated_at :: string

record environment_variable_row =
  ev_id :: string
  ev_application_id :: string
  ev_environment_id :: string
  ev_service_id :: "string option"
  ev_key :: string
  ev_value_ct :: string
  ev_value_last4 :: string
  ev_created_at :: string
  ev_updated_at :: string

record container_row =
  ct_id :: string
  ct_deployment_id :: string
  ct_docker_container_id :: string
  ct_internal_port :: int
  ct_host_port :: int
  ct_status :: string
  ct_created_at :: string
  ct_updated_at :: string

record database_service_row =
  ds_service_id :: string
  ds_engine :: string
  ds_default_version :: string
  ds_created_at :: string
  ds_updated_at :: string

record database_instance_row =
  di_id :: string
  di_service_id :: string
  di_environment_id :: string
  di_engine_version :: string
  di_image_ref :: string
  di_docker_container_id :: string
  di_network_alias :: string
  di_internal_port :: int
  di_volume_name :: string
  di_resource_preset :: string
  di_cpu_limit_millis :: int
  di_memory_limit_bytes :: int
  di_desired_state :: string
  di_status :: string
  di_health_message :: string
  di_health_checked_at :: string
  di_storage_used_bytes :: int
  di_storage_checked_at :: string
  di_deleted_at :: string
  di_purge_after :: string
  di_created_at :: string
  di_updated_at :: string

record database_credential_row =
  dc_database_instance_id :: string
  dc_database_name :: string
  dc_username :: string
  dc_password_ct :: string
  dc_admin_password_ct :: string
  dc_pending_password_ct :: string
  dc_pending_created_at :: string
  dc_generation :: int
  dc_rotated_at :: string
  dc_created_at :: string
  dc_updated_at :: string

record database_binding_row =
  bd_id :: string
  bd_database_instance_id :: string
  bd_environment_id :: string
  bd_consumer_service_id :: string
  bd_variable_key :: string
  bd_replace_existing :: bool
  bd_created_at :: string
  bd_updated_at :: string

record database_backup_row =
  bk_id :: string
  bk_operation_id :: "string option"
  bk_database_instance_id :: "string option"
  bk_destination_id :: "string option"
  bk_status :: string
  bk_trigger_kind :: string
  bk_object_key :: string
  bk_archive_format :: string
  bk_checksum :: string
  bk_compressed_size :: int
  bk_engine :: string
  bk_database_name :: string
  bk_engine_version :: string
  bk_encryption_algorithm :: string
  bk_encrypted_data_key :: string
  bk_error_code :: string
  bk_error_message :: string
  bk_started_at :: string
  bk_completed_at :: string
  bk_expires_at :: string
  bk_created_at :: string
  bk_updated_at :: string

record backup_destination_row =
  bkd_id :: string
  bkd_name :: string
  bkd_provider :: string
  bkd_endpoint :: string
  bkd_region :: string
  bkd_bucket :: string
  bkd_object_prefix :: string
  bkd_path_style :: bool
  bkd_server_side_encryption :: string
  bkd_sse_kms_key_id :: string
  bkd_access_key_ct :: string
  bkd_secret_key_ct :: string
  bkd_last_test_status :: string
  bkd_last_test_message :: string
  bkd_last_tested_at :: string
  bkd_created_at :: string
  bkd_updated_at :: string

record backup_policy_row =
  bp_database_instance_id :: string
  bp_destination_id :: string
  bp_enabled :: bool
  bp_schedule :: string
  bp_timezone :: string
  bp_retention_days :: int
  bp_last_scheduled_at :: string
  bp_next_scheduled_at :: string
  bp_created_at :: string
  bp_updated_at :: string

record restore_job_row =
  rj_operation_id :: string
  rj_backup_id :: string
  rj_target_instance_id :: string
  rj_safety_backup_id :: "string option"
  rj_mode :: string
  rj_status :: string
  rj_created_at :: string
  rj_updated_at :: string

record upgrade_job_row =
  uj_operation_id :: string
  uj_database_instance_id :: string
  uj_engine_version :: string
  uj_previous_image_ref :: string
  uj_target_image_ref :: string
  uj_status :: string
  uj_created_at :: string
  uj_updated_at :: string

record gateway_endpoint_row =
  gwe_engine :: string
  gwe_hostname :: string
  gwe_port :: int
  gwe_image_ref :: string
  gwe_image_version :: string
  gwe_container_name :: string
  gwe_docker_container_id :: string
  gwe_ingress_network_name :: string
  gwe_desired_status :: string
  gwe_observed_status :: string
  gwe_certificate_fingerprint :: string
  gwe_certificate_expires_at :: string
  gwe_certificate_synced_at :: string
  gwe_desired_generation :: int
  gwe_rendered_generation :: int
  gwe_applied_generation :: int
  gwe_last_error_code :: string
  gwe_last_error_message :: string
  gwe_created_at :: string
  gwe_updated_at :: string

record gateway_route_row =
  gwr_id :: string
  gwr_engine :: string
  gwr_database_instance_id :: string
  gwr_route_alias :: string
  gwr_backend_alias :: string
  gwr_link_network_name :: string
  gwr_desired_status :: string
  gwr_observed_status :: string
  gwr_route_backend_limit :: int
  gwr_credential_backend_limit :: int
  gwr_last_error_code :: string
  gwr_last_error_message :: string
  gwr_created_at :: string
  gwr_updated_at :: string

record external_connection_row =
  xc_id :: string
  xc_route_id :: string
  xc_name :: string
  xc_permission_profile :: string
  xc_expires_at :: string
  xc_status :: string
  xc_current_generation :: int
  xc_client_connection_limit :: int
  xc_last_used_at :: string
  xc_last_error_code :: string
  xc_last_error_message :: string
  xc_created_at :: string
  xc_updated_at :: string

record external_credential_row =
  xk_id :: string
  xk_connection_id :: string
  xk_role_name :: string
  xk_password_ct :: string
  xk_scram_verifier_ct :: string
  xk_generation :: int
  xk_state :: string
  xk_grace_deadline :: string
  xk_last_used_at :: string
  xk_revoked_at :: string
  xk_created_at :: string
  xk_updated_at :: string

record connection_cidr_row =
  xr_connection_id :: string
  xr_cidr :: string
  xr_address_family :: int
  xr_created_at :: string

record gateway_operation_row =
  gwo_id :: string
  gwo_engine :: string
  gwo_route_id :: "string option"
  gwo_connection_id :: "string option"
  gwo_credential_id :: "string option"
  gwo_operation_type :: string
  gwo_status :: string
  gwo_progress_step :: string
  gwo_progress_percent :: int
  gwo_requested_grace_hours :: int
  gwo_actor :: string
  gwo_error_code :: string
  gwo_error_message :: string
  gwo_started_at :: string
  gwo_completed_at :: string
  gwo_lease_owner :: string
  gwo_lease_expires_at :: string
  gwo_attempt_count :: int
  gwo_created_at :: string
  gwo_updated_at :: string

record domain_row =
  dm_id :: string
  dm_application_id :: string
  dm_environment_id :: string
  dm_service_id :: string
  dm_domain_name :: string
  dm_kind :: string
  dm_ssl_status :: string
  dm_last_cert_message :: string
  dm_cert_checked_at :: string
  dm_publish_state :: string
  dm_publish_error :: string
  dm_created_at :: string
  dm_updated_at :: string

text \<open>The single row of \<open>github_app\<close>; \<open>None\<close> in the store while there is none.\<close>

record github_app_row =
  gh_app_id :: int
  gh_slug :: string
  gh_html_url :: string
  gh_client_id :: string
  gh_client_secret_ct :: string
  gh_private_key_ct :: string
  gh_webhook_secret_ct :: string
  gh_created_at :: string
  gh_updated_at :: string

record github_installation_row =
  gi_installation_id :: int
  gi_account_login :: string
  gi_account_type :: string
  gi_target_type :: string
  gi_repo_selection :: string
  gi_suspended_at :: string
  gi_last_synced_at :: string
  gi_created_at :: string

text \<open>The single row of \<open>onboarding_state\<close>.\<close>

record onboarding_row =
  ob_github_app_complete :: bool
  ob_platform_domain :: string
  ob_permanent_ingress_complete :: bool
  ob_bootstrap_complete :: bool
  ob_completed_at :: string
  ob_updated_at :: string

text \<open>The store: \<open>repository.Store\<close> with the tables behind its \<open>*sql.DB\<close>.\<close>

record store =
  operations :: "operation_row list"
  database_operations :: "database_operation_row list"
  deployments :: "deployment_row list"
  platform_events :: "platform_event_row list"
  services :: "service_row list"
  service_environments :: "service_environment_row list"
  environments :: "environment_row list"
  applications :: "application_row list"
  environment_variables :: "environment_variable_row list"
  containers :: "container_row list"
  database_services :: "database_service_row list"
  database_instances :: "database_instance_row list"
  database_credentials :: "database_credential_row list"
  database_bindings :: "database_binding_row list"
  database_backups :: "database_backup_row list"
  backup_destinations :: "backup_destination_row list"
  database_backup_policies :: "backup_policy_row list"
  database_restore_jobs :: "restore_job_row list"
  database_upgrade_jobs :: "upgrade_job_row list"
  gateway_endpoints :: "gateway_endpoint_row list"
  gateway_routes :: "gateway_route_row list"
  external_connections :: "external_connection_row list"
  external_credentials :: "external_credential_row list"
  connection_cidrs :: "connection_cidr_row list"
  gateway_operations :: "gateway_operation_row list"
  domains :: "domain_row list"
  github_app :: "github_app_row option"
  github_installations :: "github_installation_row list"
  onboarding_state :: onboarding_row

text \<open>
  A repository operation: it returns an error or a value, and the store it leaves behind.  An
  error inside a transaction leaves the store as it was (the deferred \<open>tx.Rollback()\<close>); an
  operation that commits and then reports an error returns the committed store with it.
\<close>

type_synonym 'a db = "store \<Rightarrow> 'a res \<times> store"

definition db_fail :: "go_error \<Rightarrow> 'a db" where
  "db_fail e s = (Inl e, s)"

definition db_ok :: "'a \<Rightarrow> 'a db" where
  "db_ok x s = (Inr x, s)"

lemma db_fail_simps [simp]: "db_fail e s = (Inl e, s)"
  by (simp add: db_fail_def)

lemma db_ok_simps [simp]: "db_ok x s = (Inr x, s)"
  by (simp add: db_ok_def)

text \<open>\<open>COALESCE\<close> of a looked up column against the empty string.\<close>

definition coalesce :: "string option \<Rightarrow> string" where
  "coalesce x = (case x of None \<Rightarrow> [] | Some v \<Rightarrow> v)"

lemma coalesce_simps [simp]: "coalesce None = []" "coalesce (Some v) = v"
  by (simp_all add: coalesce_def)

end
