(* ===== verification/HF_Deployments.thy ===== *)
theory HF_Deployments
  imports HF_Schema
begin

text \<open>
  Deployments: internal/repository/deployments_v2.go, the deployment half of store.go, the event
  writers of platform_events.go and the queue projection of operations_deploy.go.  A deployment
  is QUEUED, BUILDING or terminal (SUCCESS, FAILED, CANCELLED).  The lemmas show that the
  projection only moves a deployment out of the status it is guarded on, that a terminal
  deployment is never reopened by it, and which event it records.
\<close>

abbreviation DeploymentQueued :: string where "DeploymentQueued \<equiv> ''QUEUED''"
abbreviation DeploymentBuilding :: string where "DeploymentBuilding \<equiv> ''BUILDING''"
abbreviation DeploymentSuccess :: string where "DeploymentSuccess \<equiv> ''SUCCESS''"
abbreviation DeploymentFailed :: string where "DeploymentFailed \<equiv> ''FAILED''"
abbreviation DeploymentCancelled :: string where "DeploymentCancelled \<equiv> ''CANCELLED''"

definition deployment_statuses :: "string list" where
  "deployment_statuses = [DeploymentQueued, DeploymentBuilding, DeploymentSuccess,
     DeploymentFailed, DeploymentCancelled]"

text \<open>\<open>status IN ('QUEUED','BUILDING')\<close>, the guard of every terminal transition.\<close>

definition dep_open :: "deployment_row \<Rightarrow> bool" where
  "dep_open d \<longleftrightarrow> dep_status d = DeploymentQueued \<or> dep_status d = DeploymentBuilding"

section \<open>Events\<close>

definition deployment_event ::
  "string \<Rightarrow> string \<Rightarrow> string \<Rightarrow> deployment_row \<Rightarrow> string \<Rightarrow> platform_event_row" where
  "deployment_event status detail now d app =
     \<lparr> pe_application_id = app, pe_service_id = dep_service_id d,
       pe_environment_id = dep_environment_id d, pe_deployment_id = dep_id d,
       pe_event_type = ''deployment'', pe_status = status, pe_actor = dep_actor d,
       pe_message = ''Deployment '' @ to_lower status, pe_detail = detail, pe_created_at = now \<rparr>"

text \<open>\<open>FROM deployments d JOIN services svc ON svc.id=d.service_id WHERE p d\<close>.\<close>

definition joined_events ::
  "(deployment_row \<Rightarrow> bool) \<Rightarrow> string \<Rightarrow> string \<Rightarrow> string \<Rightarrow> store \<Rightarrow> platform_event_row list" where
  "joined_events p status detail now s =
     concat (map (\<lambda>d. map (\<lambda>svc. deployment_event status detail now d (svc_application_id svc))
                       (filter (\<lambda>svc. svc_id svc = dep_service_id d) (services s)))
              (filter p (deployments s)))"

definition recordDeploymentStatusEventTx ::
  "string \<Rightarrow> string \<Rightarrow> string \<Rightarrow> string \<Rightarrow> store \<Rightarrow> store" where
  "recordDeploymentStatusEventTx deploymentID status detail now s =
     s\<lparr>platform_events := platform_events s @
         joined_events (\<lambda>d. dep_id d = deploymentID) status detail now s\<rparr>"

text \<open>
  \<open>RecordDeploymentEvent\<close> is the same insert with a \<open>LEFT JOIN\<close>: a deployment without its
  service still gets an event, with an empty application.
\<close>

definition RecordDeploymentEvent ::
  "string \<Rightarrow> string \<Rightarrow> string \<Rightarrow> instant \<Rightarrow> store \<Rightarrow> store" where
  "RecordDeploymentEvent deploymentID status detail now s =
     s\<lparr>platform_events := platform_events s @
         concat (map (\<lambda>d.
           (let svcs = filter (\<lambda>svc. svc_id svc = dep_service_id d) (services s);
                ev = deployment_event (trim status) (trim detail) (rfc3339 now) d
            in if svcs = [] then [ev []] else map (\<lambda>svc. ev (svc_application_id svc)) svcs))
          (filter (\<lambda>d. dep_id d = trim deploymentID) (deployments s)))\<rparr>"

record platform_event_input =
  pei_application_id :: string
  pei_service_id :: string
  pei_environment_id :: string
  pei_deployment_id :: string
  pei_event_type :: string
  pei_status :: string
  pei_actor :: string
  pei_message :: string
  pei_detail :: string

definition RecordPlatformEvent :: "platform_event_input \<Rightarrow> instant \<Rightarrow> unit db" where
  "RecordPlatformEvent i now s =
     (if trim (pei_event_type i) = [] \<or> trim (pei_message i) = []
      then db_fail (Errorf ''event type and message are required'' []) s
      else db_ok () (s\<lparr>platform_events := platform_events s @
        [\<lparr> pe_application_id = trim (pei_application_id i), pe_service_id = trim (pei_service_id i),
           pe_environment_id = trim (pei_environment_id i),
           pe_deployment_id = trim (pei_deployment_id i),
           pe_event_type = trim (pei_event_type i), pe_status = trim (pei_status i),
           pe_actor = trim (pei_actor i), pe_message = trim (pei_message i),
           pe_detail = trim (pei_detail i), pe_created_at = rfc3339 now \<rparr>]\<rparr>))"

section \<open>The queue projection on deployments\<close>

definition projectDeployClaimTx :: "string \<Rightarrow> string \<Rightarrow> store \<Rightarrow> store" where
  "projectDeployClaimTx deploymentID now s =
     (let p = (\<lambda>d. dep_id d = deploymentID \<and> dep_status d = DeploymentQueued);
          s1 = s\<lparr>deployments := sql_update p
                  (\<lambda>d. d\<lparr>dep_status := DeploymentBuilding, dep_updated_at := now\<rparr>) (deployments s)\<rparr>
      in if sql_count p (deployments s) = 0 then s1
         else recordDeploymentStatusEventTx deploymentID DeploymentBuilding [] now s1)"

definition projectDeployDeferTx :: "string \<Rightarrow> string \<Rightarrow> store \<Rightarrow> store" where
  "projectDeployDeferTx deploymentID now s =
     (let p = (\<lambda>d. dep_id d = deploymentID \<and> dep_status d = DeploymentBuilding);
          s1 = s\<lparr>deployments := sql_update p
                  (\<lambda>d. d\<lparr>dep_status := DeploymentQueued, dep_updated_at := now\<rparr>) (deployments s)\<rparr>
      in if sql_count p (deployments s) = 0 then s1
         else recordDeploymentStatusEventTx deploymentID DeploymentQueued [] now s1)"

definition deploy_status_of :: "string \<Rightarrow> string option" where
  "deploy_status_of status =
     (if status = ''success'' then Some DeploymentSuccess
      else if status = ''failed'' then Some DeploymentFailed
      else if status = ''cancelled'' then Some DeploymentCancelled
      else None)"

definition deploy_complete_set :: "string \<Rightarrow> string \<Rightarrow> string \<Rightarrow> deployment_row \<Rightarrow> deployment_row" where
  "deploy_complete_set deployStatus errorMessage now d =
     (if deployStatus = DeploymentCancelled
      then d\<lparr>dep_status := deployStatus, dep_cancelled_at := now, dep_updated_at := now\<rparr>
      else d\<lparr>dep_status := deployStatus, dep_error_message := errorMessage, dep_updated_at := now\<rparr>)"

definition projectDeployCompleteTx ::
  "string \<Rightarrow> string \<Rightarrow> string \<Rightarrow> string \<Rightarrow> store \<Rightarrow> store res" where
  "projectDeployCompleteTx deploymentID status errorMessage now s =
     (case deploy_status_of status of
        None \<Rightarrow> Inl (Errorf ''project deploy complete: invalid status %q'' [status])
      | Some deployStatus \<Rightarrow>
          (let p = (\<lambda>d. dep_id d = deploymentID \<and> dep_open d);
               s1 = s\<lparr>deployments := sql_update p
                       (deploy_complete_set deployStatus errorMessage now) (deployments s)\<rparr>
           in if sql_count p (deployments s) = 0 then Inr s1
              else Inr (recordDeploymentStatusEventTx deploymentID deployStatus errorMessage now s1)))"

text \<open>
  The two bulk transitions of boot recovery.  The events are inserted first, while the
  \<open>WHERE\<close> still selects the deployments about to fail; the count is that of the update.
\<close>

definition fail_interrupted :: "(deployment_row \<Rightarrow> bool) \<Rightarrow> string \<Rightarrow> store \<Rightarrow> nat \<times> store" where
  "fail_interrupted p now s =
     (let s1 = s\<lparr>platform_events := platform_events s @
                  joined_events p DeploymentFailed ''interrupted'' now s\<rparr>
      in (sql_count p (deployments s),
          s1\<lparr>deployments := sql_update p
              (\<lambda>d. d\<lparr>dep_status := DeploymentFailed, dep_error_message := ''interrupted'',
                     dep_updated_at := now\<rparr>) (deployments s)\<rparr>))"

definition projectExhaustedDeploysTx :: "string list \<Rightarrow> string \<Rightarrow> store \<Rightarrow> nat \<times> store" where
  "projectExhaustedDeploysTx operationIDs now s =
     fail_interrupted (\<lambda>d. dep_open d \<and> dep_id d \<in> set operationIDs) now s"

definition live_operation_ids :: "store \<Rightarrow> string list" where
  "live_operation_ids s =
     map op_id (filter (\<lambda>r. op_status r = ''queued'' \<or> op_status r = ''running'') (operations s))"

definition sweepOrphanedDeploymentsTx :: "string \<Rightarrow> store \<Rightarrow> nat \<times> store" where
  "sweepOrphanedDeploymentsTx now s =
     fail_interrupted (\<lambda>d. dep_open d \<and> dep_id d \<notin> set (live_operation_ids s)) now s"

section \<open>Deployment rows\<close>

record create_deployment_input =
  cdi_service_id :: string
  cdi_environment_id :: string
  cdi_commit_hash :: string
  cdi_logs_path :: string
  cdi_image_ref :: string
  cdi_worktree :: string
  cdi_trigger_kind :: string
  cdi_actor :: string
  cdi_rollback_of :: string
  cdi_branch :: string

text \<open>The join that validates the service environment.\<close>

definition binding_count :: "string \<Rightarrow> string \<Rightarrow> store \<Rightarrow> nat" where
  "binding_count serviceID environmentID s =
     sql_count (\<lambda>se. se_service_id se = serviceID \<and> se_environment_id se = environmentID \<and>
       sql_exists (\<lambda>svc. svc_id svc = serviceID \<and>
         sql_exists (\<lambda>e. env_id e = environmentID \<and> env_application_id e = svc_application_id svc)
           (environments s)) (services s)) (service_environments s)"

definition CreateServiceDeployment ::
  "create_deployment_input \<Rightarrow> string \<Rightarrow> instant \<Rightarrow> deployment_row db" where
  "CreateServiceDeployment i newID now s =
     (let serviceID = trim (cdi_service_id i); environmentID = trim (cdi_environment_id i)
      in if serviceID = [] \<or> environmentID = []
         then db_fail (Errorf ''service and environment are required'' []) s
         else if binding_count serviceID environmentID s = 0
         then db_fail (Sentinel ''environment_not_found'') s
         else if sql_exists (\<lambda>d. dep_id d = newID) (deployments s)
         then db_fail (ConstraintErr ''deployments.id'') s
         else let trigger = (if trim (cdi_trigger_kind i) = [] then ''manual''
                             else trim (cdi_trigger_kind i));
                  item = \<lparr> dep_id = newID, dep_service_id = serviceID,
                    dep_environment_id = environmentID, dep_status = DeploymentQueued,
                    dep_commit_hash = trim (cdi_commit_hash i), dep_logs_path = trim (cdi_logs_path i),
                    dep_image_ref = trim (cdi_image_ref i), dep_worktree = trim (cdi_worktree i),
                    dep_error_message = [], dep_builder_kind = [], dep_stack_kind = [],
                    dep_stack_label = [], dep_trigger_kind = trigger, dep_actor = trim (cdi_actor i),
                    dep_cancelled_at = [], dep_rollback_of = trim (cdi_rollback_of i),
                    dep_branch = trim (cdi_branch i), dep_railpack_plan_json = [],
                    dep_railpack_info_json = [], dep_created_at = rfc3339 now,
                    dep_updated_at = rfc3339 now \<rparr>;
                  s1 = s\<lparr>deployments := deployments s @ [item]\<rparr>
              in db_ok item (RecordDeploymentEvent newID DeploymentQueued [] now s1))"

definition GetServiceDeployment :: "string \<Rightarrow> deployment_row db" where
  "GetServiceDeployment did s =
     (case sql_get (\<lambda>d. dep_id d = trim did) (deployments s) of
        None \<Rightarrow> db_fail ErrNoRows s | Some d \<Rightarrow> db_ok d s)"

text \<open>\<open>CANCELLED\<close> is final: the guard refuses to overwrite an operator's cancellation.\<close>

definition UpdateDeploymentStatus :: "string \<Rightarrow> string \<Rightarrow> string \<Rightarrow> instant \<Rightarrow> unit db" where
  "UpdateDeploymentStatus deploymentID status errorMessage now s =
     (let did = trim deploymentID; msg = trim errorMessage; stamp = rfc3339 now;
          p = (\<lambda>d. dep_id d = did \<and> dep_status d \<noteq> DeploymentCancelled)
      in if sql_count p (deployments s) = 0 then db_fail ErrNoRows s
         else if status \<notin> set deployment_statuses
         then db_fail (ConstraintErr ''deployments.status'') s
         else let s1 = s\<lparr>deployments := sql_update p
                  (\<lambda>d. d\<lparr>dep_status := status, dep_error_message := msg, dep_updated_at := stamp\<rparr>)
                  (deployments s)\<rparr>
              in db_ok () (recordDeploymentStatusEventTx did status msg stamp s1))"

definition CancelDeployment :: "string \<Rightarrow> instant \<Rightarrow> bool db" where
  "CancelDeployment did now s =
     (let p = (\<lambda>d. dep_id d = trim did \<and> dep_open d); stamp = rfc3339 now;
          n = sql_count p (deployments s);
          s1 = s\<lparr>deployments := sql_update p
                 (\<lambda>d. d\<lparr>dep_status := DeploymentCancelled, dep_cancelled_at := stamp,
                        dep_updated_at := stamp\<rparr>) (deployments s)\<rparr>
      in db_ok (n = 1)
          (if n = 1 then RecordDeploymentEvent did DeploymentCancelled ''cancelled by operator'' now s1
           else s1))"

definition GetLatestSuccessfulServiceDeployment :: "string \<Rightarrow> string \<Rightarrow> deployment_row db" where
  "GetLatestSuccessfulServiceDeployment serviceID environmentID s =
     (case sql_first (\<lambda>d. dep_service_id d = trim serviceID \<and>
             dep_environment_id d = trim environmentID \<and> dep_status d = DeploymentSuccess)
           (\<lambda>d. Down (dep_created_at d)) (deployments s) of
        None \<Rightarrow> db_fail ErrNoRows s | Some d \<Rightarrow> db_ok d s)"

definition ActivateServiceDeployment :: "string \<Rightarrow> string \<Rightarrow> string \<Rightarrow> instant \<Rightarrow> unit db" where
  "ActivateServiceDeployment serviceID environmentID deploymentID now s =
     (let p = (\<lambda>b. se_service_id b = trim serviceID \<and> se_environment_id b = trim environmentID)
      in if sql_count p (service_environments s) = 0
         then db_fail (Sentinel ''environment_not_found'') s
         else db_ok () (s\<lparr>service_environments := sql_update p
                (\<lambda>b. b\<lparr>se_active_deployment_id := trim deploymentID, se_desired_state := ''running'',
                       se_updated_at := rfc3339 now\<rparr>) (service_environments s)\<rparr>))"

definition SetServiceDesiredState :: "string \<Rightarrow> string \<Rightarrow> string \<Rightarrow> instant \<Rightarrow> unit db" where
  "SetServiceDesiredState serviceID environmentID state now s =
     (if state \<noteq> ''running'' \<and> state \<noteq> ''stopped''
      then db_fail (Errorf ''invalid desired state'' []) s
      else let p = (\<lambda>b. se_service_id b = trim serviceID \<and> se_environment_id b = trim environmentID)
           in if sql_count p (service_environments s) = 0
              then db_fail (Sentinel ''environment_not_found'') s
              else db_ok () (s\<lparr>service_environments := sql_update p
                     (\<lambda>b. b\<lparr>se_desired_state := state, se_updated_at := rfc3339 now\<rparr>)
                     (service_environments s)\<rparr>))"

subsection \<open>Listing\<close>

definition clamp_limit :: "int \<Rightarrow> int \<Rightarrow> int \<Rightarrow> nat" where
  "clamp_limit hi dflt limit = nat (if limit \<le> 0 \<or> limit > hi then dflt else limit)"

definition ListServiceDeployments :: "string \<Rightarrow> string \<Rightarrow> int \<Rightarrow> store \<Rightarrow> deployment_row list" where
  "ListServiceDeployments serviceID environmentID limit s =
     take (clamp_limit 500 100 limit)
       (sql_order (\<lambda>d. Down (dep_created_at d))
         (filter (\<lambda>d. (trim serviceID = [] \<or> dep_service_id d = trim serviceID) \<and>
                      (trim environmentID = [] \<or> dep_environment_id d = trim environmentID))
           (deployments s)))"

record deployment_filter =
  df_application_id :: string
  df_service_id :: string
  df_environment_id :: string
  df_status :: string
  df_trigger :: string
  df_branch :: string
  df_date_from :: string
  df_date_to :: string
  df_cursor :: string
  df_limit :: int

definition dep_rank :: "deployment_row \<Rightarrow> string down \<times> string down" where
  "dep_rank d = (Down (dep_created_at d), Down (dep_id d))"

text \<open>The optional clauses of the listing, one per non-empty filter field.\<close>

definition filter_clauses :: "deployment_filter \<Rightarrow> store \<Rightarrow> deployment_row \<Rightarrow> bool" where
  "filter_clauses f s d \<longleftrightarrow>
     dep_service_id d \<noteq> [] \<and>
     (trim (df_application_id f) \<noteq> [] \<longrightarrow>
        sql_exists (\<lambda>svc. svc_id svc = dep_service_id d \<and>
          svc_application_id svc = trim (df_application_id f)) (services s)) \<and>
     (trim (df_service_id f) \<noteq> [] \<longrightarrow> dep_service_id d = trim (df_service_id f)) \<and>
     (trim (df_environment_id f) \<noteq> [] \<longrightarrow> dep_environment_id d = trim (df_environment_id f)) \<and>
     (trim (df_status f) \<noteq> [] \<longrightarrow> dep_status d = to_upper (trim (df_status f))) \<and>
     (trim (df_trigger f) \<noteq> [] \<longrightarrow> dep_trigger_kind d = trim (df_trigger f)) \<and>
     (trim (df_branch f) \<noteq> [] \<longrightarrow> dep_branch d = trim (df_branch f)) \<and>
     (trim (df_date_from f) \<noteq> [] \<longrightarrow> trim (df_date_from f) \<le> dep_created_at d) \<and>
     (trim (df_date_to f) \<noteq> [] \<longrightarrow> dep_created_at d \<le> trim (df_date_to f))"

definition cursor_clause :: "string \<Rightarrow> store \<Rightarrow> deployment_row \<Rightarrow> bool" where
  "cursor_clause cursor s d \<longleftrightarrow>
     (cursor \<noteq> [] \<longrightarrow>
        (case sql_get (\<lambda>c. dep_id c = cursor) (deployments s) of
           None \<Rightarrow> False
         | Some c \<Rightarrow> dep_created_at d < dep_created_at c \<or>
                     (dep_created_at d = dep_created_at c \<and> dep_id d < cursor)))"

text \<open>One page of the listing and the cursor of the next page, empty on the last one.\<close>

definition ListServiceDeploymentsFiltered ::
  "deployment_filter \<Rightarrow> store \<Rightarrow> deployment_row list \<times> string" where
  "ListServiceDeploymentsFiltered f s =
     (let limit = clamp_limit 500 100 (df_limit f);
          out = take (limit + 1) (sql_order dep_rank
                  (filter (\<lambda>d. filter_clauses f s d \<and> cursor_clause (trim (df_cursor f)) s d)
                    (deployments s)))
      in if limit < length out then (take limit out, dep_id (out ! (limit - 1))) else (out, []))"

section \<open>Containers\<close>

record attach_container_input =
  aci_deployment_id :: string
  aci_docker_container_id :: string
  aci_internal_port :: int
  aci_host_port :: int
  aci_status :: string

definition AttachContainer :: "attach_container_input \<Rightarrow> string \<Rightarrow> instant \<Rightarrow> container_row db" where
  "AttachContainer i newID now s =
     (let item = \<lparr> ct_id = newID, ct_deployment_id = trim (aci_deployment_id i),
            ct_docker_container_id = trim (aci_docker_container_id i),
            ct_internal_port = aci_internal_port i, ct_host_port = aci_host_port i,
            ct_status = (if trim (aci_status i) = [] then ''RUNNING'' else trim (aci_status i)),
            ct_created_at = rfc3339 now, ct_updated_at = rfc3339 now \<rparr>
      in if sql_exists (\<lambda>c. ct_id c = newID) (containers s)
         then db_fail (ConstraintErr ''containers.id'') s
         else if \<not> sql_exists (\<lambda>d. dep_id d = ct_deployment_id item) (deployments s)
         then db_fail (ConstraintErr ''containers.deployment_id'') s
         else db_ok item (s\<lparr>containers := containers s @ [item]\<rparr>))"

definition GetContainerByDeploymentID :: "string \<Rightarrow> container_row db" where
  "GetContainerByDeploymentID deploymentID s =
     (case sql_first (\<lambda>c. ct_deployment_id c = trim deploymentID) (\<lambda>c. Down (ct_created_at c))
           (containers s) of
        None \<Rightarrow> db_fail ErrNoRows s | Some c \<Rightarrow> db_ok c s)"

definition ListAllocatedHostPorts :: "string \<Rightarrow> store \<Rightarrow> int set" where
  "ListAllocatedHostPorts excludeContainerID s =
     ct_host_port ` set (filter (\<lambda>c. ct_status c \<noteq> ''REMOVED'' \<and> ct_host_port c > 0 \<and>
       ct_id c \<noteq> trim excludeContainerID) (containers s))"

definition UpdateContainerStatus :: "string \<Rightarrow> string \<Rightarrow> instant \<Rightarrow> store \<Rightarrow> store" where
  "UpdateContainerStatus containerID status now s =
     s\<lparr>containers := sql_update (\<lambda>c. ct_id c = trim containerID)
        (\<lambda>c. c\<lparr>ct_status := trim status, ct_updated_at := rfc3339 now\<rparr>) (containers s)\<rparr>"

text \<open>
  The images garbage collection must keep: of deployments with a container that is not removed,
  of open deployments, and of the newest \<open>retain\<close> successes per service and environment.
\<close>

definition newer_successes :: "deployment_row \<Rightarrow> store \<Rightarrow> nat" where
  "newer_successes d s =
     sql_count (\<lambda>d2. dep_service_id d2 = dep_service_id d \<and>
       dep_environment_id d2 = dep_environment_id d \<and> dep_status d2 = DeploymentSuccess \<and>
       (dep_created_at d2 > dep_created_at d \<or>
        dep_created_at d2 = dep_created_at d \<and> dep_id d2 > dep_id d)) (deployments s)"

definition ListRetainedImageRefs :: "int \<Rightarrow> store \<Rightarrow> string set" where
  "ListRetainedImageRefs retain s =
     (let n = nat (if retain < 0 then 0 else retain)
      in dep_image_ref ` set (filter (\<lambda>d. dep_image_ref d \<noteq> [] \<and>
           (sql_exists (\<lambda>c. ct_deployment_id c = dep_id d \<and> ct_status c \<noteq> ''REMOVED'') (containers s) \<or>
            dep_open d \<or>
            dep_status d = DeploymentSuccess \<and> newer_successes d s < n)) (deployments s)))"

record sweepable_container =
  sw_container_row_id :: string
  sw_docker_container_id :: string
  sw_deployment_id :: string
  sw_service_id :: string
  sw_environment_id :: string

text \<open>The bindings the \<open>LEFT JOIN\<close> finds for a deployment; none leaves the active column NULL.\<close>

definition not_active :: "container_row \<Rightarrow> deployment_row \<Rightarrow> store \<Rightarrow> bool" where
  "not_active c d s \<longleftrightarrow>
     (let bs = filter (\<lambda>b. se_service_id b = dep_service_id d \<and>
                 se_environment_id b = dep_environment_id d) (service_environments s)
      in bs = [] \<or> list_ex (\<lambda>b. se_active_deployment_id b \<noteq> ct_deployment_id c) bs)"

definition ListSweepableDeployContainers :: "store \<Rightarrow> sweepable_container list" where
  "ListSweepableDeployContainers s =
     concat (map (\<lambda>c.
       map (\<lambda>d. \<lparr> sw_container_row_id = ct_id c, sw_docker_container_id = ct_docker_container_id c,
                  sw_deployment_id = ct_deployment_id c, sw_service_id = dep_service_id d,
                  sw_environment_id = dep_environment_id d \<rparr>)
         (filter (\<lambda>d. dep_id d = ct_deployment_id c \<and>
             (dep_status d = DeploymentFailed \<or> dep_status d = DeploymentCancelled) \<and>
             not_active c d s) (deployments s)))
       (sql_order ct_created_at
         (filter (\<lambda>c. ct_status c = ''RUNNING'' \<and> ct_docker_container_id c \<noteq> []) (containers s))))"

end
