(* ===== verification/HF_Operations.thy ===== *)
theory HF_Operations
  imports HF_Deployments
begin

text \<open>
  The generic operations queue: internal/repository/operations.go and the enqueue half of
  operations_deploy.go.  An operation row is queued, running or terminal; it shares its id with
  the row of the domain table it drives (a database operation or a deployment), and every write
  here projects the transition onto that row in the same transaction.  The clock and the
  generated ids are arguments.
\<close>

section \<open>Data\<close>

record operation =
  oper_ID :: string
  oper_Kind :: string
  oper_LockKey :: string
  oper_Status :: string
  oper_Priority :: int
  oper_ProgressStep :: string
  oper_ProgressPercent :: int
  oper_AvailableAt :: go_time
  oper_Attempt :: int
  oper_MaxAttempts :: int
  oper_LeaseOwner :: string
  oper_LeaseExpiresAt :: go_time
  oper_CancelRequestedAt :: go_time
  oper_ApplicationID :: string
  oper_ServiceID :: string
  oper_EnvironmentID :: string
  oper_Actor :: string
  oper_ErrorCode :: string
  oper_ErrorMessage :: string
  oper_StartedAt :: go_time
  oper_CompletedAt :: go_time
  oper_CreatedAt :: go_time
  oper_UpdatedAt :: go_time

definition scanOperation :: "operation_row \<Rightarrow> operation" where
  "scanOperation r =
     \<lparr> oper_ID = op_id r, oper_Kind = op_kind r, oper_LockKey = op_lock_key r,
       oper_Status = op_status r, oper_Priority = op_priority r,
       oper_ProgressStep = op_progress_step r, oper_ProgressPercent = op_progress_percent r,
       oper_AvailableAt = parse_time (op_available_at r), oper_Attempt = op_attempt r,
       oper_MaxAttempts = op_max_attempts r, oper_LeaseOwner = op_lease_owner r,
       oper_LeaseExpiresAt = parse_time (op_lease_expires_at r),
       oper_CancelRequestedAt = parse_time (op_cancel_requested_at r),
       oper_ApplicationID = op_application_id r, oper_ServiceID = op_service_id r,
       oper_EnvironmentID = op_environment_id r, oper_Actor = op_actor r,
       oper_ErrorCode = op_error_code r, oper_ErrorMessage = op_error_message r,
       oper_StartedAt = parse_time (op_started_at r),
       oper_CompletedAt = parse_time (op_completed_at r),
       oper_CreatedAt = parse_time (op_created_at r),
       oper_UpdatedAt = parse_time (op_updated_at r) \<rparr>"

abbreviation defaultOperationPriority :: int where "defaultOperationPriority \<equiv> 100"
abbreviation defaultOperationMaxAttempts :: int where "defaultOperationMaxAttempts \<equiv> 5"

definition operation_statuses :: "string list" where
  "operation_statuses = [''queued'', ''running'', ''success'', ''failed'', ''cancelled'']"

definition terminal_status :: "string \<Rightarrow> bool" where
  "terminal_status st \<longleftrightarrow> st = ''success'' \<or> st = ''failed'' \<or> st = ''cancelled''"

record new_operation_input =
  noi_id :: string
  noi_kind :: string
  noi_lock_key :: string
  noi_status :: string
  noi_priority :: int
  noi_max_attempts :: int
  noi_progress_step :: string
  noi_application_id :: string
  noi_service_id :: string
  noi_environment_id :: string
  noi_actor :: string

section \<open>Enqueueing\<close>

text \<open>
  The table constraints of migration 0028 an insert can meet: the primary key, the status
  enumeration, the percentage range and \<open>max_attempts >= 1\<close>.
\<close>

definition insert_operation :: "operation_row \<Rightarrow> store \<Rightarrow> store res" where
  "insert_operation r s =
     (if sql_exists (\<lambda>x. op_id x = op_id r) (operations s) then Inl (ConstraintErr ''operations.id'')
      else if op_status r \<notin> set operation_statuses then Inl (ConstraintErr ''operations.status'')
      else if op_progress_percent r < 0 \<or> op_progress_percent r > 100
      then Inl (ConstraintErr ''operations.progress_percent'')
      else if op_max_attempts r < 1 then Inl (ConstraintErr ''operations.max_attempts'')
      else Inr (s\<lparr>operations := operations s @ [r]\<rparr>))"

definition new_operation_row :: "new_operation_input \<Rightarrow> instant \<Rightarrow> operation_row" where
  "new_operation_row i now =
     (let status = (if noi_status i = [] then ''queued'' else noi_status i);
          stamp = rfc3339_nano now
      in \<lparr> op_id = trim (noi_id i), op_kind = trim (noi_kind i), op_lock_key = trim (noi_lock_key i),
           op_status = status,
           op_priority = (if noi_priority i = 0 then defaultOperationPriority else noi_priority i),
           op_progress_step = noi_progress_step i,
           op_progress_percent = (if status = ''success'' then 100 else 0),
           op_available_at = [], op_attempt = 0,
           op_max_attempts = (if noi_max_attempts i = 0 then defaultOperationMaxAttempts
                              else noi_max_attempts i),
           op_lease_owner = [], op_lease_expires_at = [], op_cancel_requested_at = [],
           op_application_id = trim (noi_application_id i),
           op_service_id = trim (noi_service_id i),
           op_environment_id = trim (noi_environment_id i), op_actor = trim (noi_actor i),
           op_error_code = [], op_error_message = [], op_started_at = [],
           op_completed_at = (if terminal_status status then stamp else []),
           op_created_at = stamp, op_updated_at = stamp \<rparr>)"

definition insertOperationTx :: "new_operation_input \<Rightarrow> instant \<Rightarrow> store \<Rightarrow> store res" where
  "insertOperationTx i now s =
     (if trim (noi_id i) = [] \<or> trim (noi_kind i) = [] \<or> trim (noi_lock_key i) = []
      then Inl (Errorf ''operation requires an id, a kind, and a lock key'' [])
      else insert_operation (new_operation_row i now) s)"

text \<open>
  \<open>insertDatabaseOperationQueueRow\<close>: the queue row derived in SQL from the database operation,
  its service and its instance.
\<close>

definition queue_row_of :: "store \<Rightarrow> database_operation_row \<Rightarrow> operation_row" where
  "queue_row_of s dbo =
     \<lparr> op_id = dbo_id dbo, op_kind = ''db_'' @ dbo_operation_type dbo,
       op_lock_key =
         (case dbo_database_instance_id dbo of
            Some inst \<Rightarrow> if inst \<noteq> [] then ''dbi:'' @ inst else ''dbsvc:'' @ dbo_service_id dbo
          | None \<Rightarrow> ''dbsvc:'' @ dbo_service_id dbo),
       op_status = dbo_status dbo, op_priority = defaultOperationPriority,
       op_progress_step = dbo_progress_step dbo, op_progress_percent = dbo_progress_percent dbo,
       op_available_at = [], op_attempt = 0, op_max_attempts = defaultOperationMaxAttempts,
       op_lease_owner = [], op_lease_expires_at = [], op_cancel_requested_at = [],
       op_application_id = coalesce (map_option svc_application_id
         (sql_get (\<lambda>v. svc_id v = dbo_service_id dbo) (services s))),
       op_service_id = dbo_service_id dbo,
       op_environment_id = coalesce (map_option di_environment_id
         (case dbo_database_instance_id dbo of None \<Rightarrow> None
          | Some inst \<Rightarrow> sql_get (\<lambda>i. di_id i = inst) (database_instances s))),
       op_actor = dbo_actor dbo, op_error_code = [], op_error_message = [],
       op_started_at = dbo_started_at dbo, op_completed_at = dbo_completed_at dbo,
       op_created_at = dbo_created_at dbo, op_updated_at = dbo_updated_at dbo \<rparr>"

definition insertDatabaseOperationQueueRow :: "string \<Rightarrow> store \<Rightarrow> store res" where
  "insertDatabaseOperationQueueRow operationID s =
     (case sql_get (\<lambda>x. dbo_id x = trim operationID) (database_operations s) of
        None \<Rightarrow> Inr s
      | Some dbo \<Rightarrow> insert_operation (queue_row_of s dbo) s)"

definition GetOperation :: "string \<Rightarrow> operation db" where
  "GetOperation oid s =
     (case sql_get (\<lambda>x. op_id x = trim oid) (operations s) of
        None \<Rightarrow> db_fail ErrNoRows s | Some r \<Rightarrow> db_ok (scanOperation r) s)"

definition EnqueueOperation :: "new_operation_input \<Rightarrow> string \<Rightarrow> instant \<Rightarrow> operation db" where
  "EnqueueOperation i newID now s =
     (let i = (if trim (noi_id i) = [] then i\<lparr>noi_id := newID\<rparr> else i)
      in case insertOperationTx i now s of
           Inl e \<Rightarrow> db_fail e s
         | Inr s1 \<Rightarrow> GetOperation (noi_id i) s1)"

record enqueue_deploy_input =
  edi_deployment_id :: string
  edi_lock_key :: string
  edi_application_id :: string
  edi_service_id :: string
  edi_environment_id :: string
  edi_actor :: string
  edi_priority :: int

abbreviation DeployOperationKind :: string where "DeployOperationKind \<equiv> ''deploy''"

definition EnqueueDeployOperation ::
  "enqueue_deploy_input \<Rightarrow> string \<Rightarrow> instant \<Rightarrow> operation db" where
  "EnqueueDeployOperation i newID now =
     EnqueueOperation \<lparr> noi_id = edi_deployment_id i, noi_kind = DeployOperationKind,
       noi_lock_key = edi_lock_key i, noi_status = [], noi_priority = edi_priority i,
       noi_max_attempts = 1, noi_progress_step = [],
       noi_application_id = edi_application_id i, noi_service_id = edi_service_id i,
       noi_environment_id = edi_environment_id i, noi_actor = edi_actor i \<rparr> newID now"

section \<open>Claiming\<close>

text \<open>\<open>co_Lease\<close> is a \<open>time.Duration\<close> in nanoseconds; the zero \<open>co_Now\<close> means the wall clock.\<close>

record claim_options =
  co_Owner :: string
  co_Lease :: int
  co_MinPriority :: int
  co_Now :: go_time
  co_Kinds :: "string list"

definition lock_free :: "store \<Rightarrow> string \<Rightarrow> bool" where
  "lock_free s key \<longleftrightarrow>
     \<not> sql_exists (\<lambda>r. op_status r = ''running'' \<and> op_lock_key r = key) (operations s)"

definition op_runnable :: "string \<Rightarrow> int \<Rightarrow> string list \<Rightarrow> store \<Rightarrow> operation_row \<Rightarrow> bool" where
  "op_runnable now minPriority kinds s o' \<longleftrightarrow>
     op_status o' = ''queued'' \<and> (op_available_at o' = [] \<or> op_available_at o' \<le> now) \<and>
     op_attempt o' < op_max_attempts o' \<and> minPriority \<le> op_priority o' \<and>
     lock_free s (op_lock_key o') \<and> (kinds \<noteq> [] \<longrightarrow> op_kind o' \<in> set kinds)"

definition claim_key :: "operation_row \<Rightarrow> int down \<times> string \<times> string" where
  "claim_key o' = (Down (op_priority o'), op_created_at o', op_id o')"

definition claim_set :: "string \<Rightarrow> string \<Rightarrow> string \<Rightarrow> operation_row \<Rightarrow> operation_row" where
  "claim_set owner leaseExpires now r =
     r\<lparr>op_status := ''running'', op_progress_step := ''starting'', op_progress_percent := 1,
       op_started_at := (if op_started_at r = [] then now else op_started_at r),
       op_lease_owner := owner, op_lease_expires_at := leaseExpires,
       op_attempt := op_attempt r + 1, op_updated_at := now\<rparr>"

definition projectOperationClaim :: "string \<Rightarrow> string \<Rightarrow> string \<Rightarrow> string \<Rightarrow> store \<Rightarrow> store" where
  "projectOperationClaim oid owner leaseExpires now s =
     s\<lparr>database_operations := sql_update (\<lambda>r. dbo_id r = oid)
        (\<lambda>r. r\<lparr>dbo_status := ''running'', dbo_progress_step := ''starting'',
               dbo_progress_percent := 1,
               dbo_started_at := (if dbo_started_at r = [] then now else dbo_started_at r),
               dbo_lease_owner := owner, dbo_lease_expires_at := leaseExpires,
               dbo_attempt_count := dbo_attempt_count r + 1, dbo_updated_at := now\<rparr>)
        (database_operations s)\<rparr>"

definition ClaimNextOperation :: "claim_options \<Rightarrow> instant \<Rightarrow> operation db" where
  "ClaimNextOperation opts wall s =
     (let owner = trim (co_Owner opts)
      in if owner = [] \<or> co_Lease opts < int ns_per_sec
         then db_fail (Errorf ''operation claim requires an owner and a lease of at least one second'' []) s
         else
           let nowTime = (case co_Now opts of None \<Rightarrow> wall | Some t \<Rightarrow> t);
               now = rfc3339_nano nowTime;
               leaseExpires = rfc3339_nano (add_dur nowTime (co_Lease opts))
           in case sql_first (op_runnable now (co_MinPriority opts) (co_Kinds opts) s) claim_key
                     (operations s) of
                None \<Rightarrow> db_fail ErrNoRows s
              | Some c \<Rightarrow>
                  let oid = op_id c; p = (\<lambda>r. op_id r = oid \<and> op_status r = ''queued'')
                  in if sql_count p (operations s) \<noteq> 1 then db_fail ErrNoRows s
                     else
                       let s1 = s\<lparr>operations :=
                                  sql_update p (claim_set owner leaseExpires now) (operations s)\<rparr>;
                           s2 = projectOperationClaim oid owner leaseExpires now s1;
                           s3 = projectDeployClaimTx oid now s2
                       in GetOperation oid s3)"

section \<open>Leases and cancellation\<close>

definition held_by :: "string \<Rightarrow> string \<Rightarrow> operation_row \<Rightarrow> bool" where
  "held_by oid owner r \<longleftrightarrow> op_id r = oid \<and> op_status r = ''running'' \<and> op_lease_owner r = owner"

definition RenewOperationLease :: "string \<Rightarrow> string \<Rightarrow> int \<Rightarrow> instant \<Rightarrow> bool db" where
  "RenewOperationLease oid0 owner0 lease now s =
     (let oid = trim oid0; owner = trim owner0;
          expires = rfc3339_nano (add_dur now lease); stamp = rfc3339_nano now;
          s1 = s\<lparr>operations := sql_update (held_by oid owner)
                 (\<lambda>r. r\<lparr>op_lease_expires_at := expires, op_updated_at := stamp\<rparr>) (operations s),
               database_operations := sql_update (\<lambda>r. dbo_id r = oid)
                 (\<lambda>r. r\<lparr>dbo_lease_expires_at := expires, dbo_updated_at := stamp\<rparr>)
                 (database_operations s)\<rparr>
      in if sql_count (held_by oid owner) (operations s) \<noteq> 1 then db_fail ErrNoRows s
         else case sql_get (\<lambda>r. op_id r = oid) (operations s1) of
                None \<Rightarrow> db_fail ErrNoRows s
              | Some r \<Rightarrow> db_ok (trim (op_cancel_requested_at r) \<noteq> []) s1)"

definition OperationCancellationRequested :: "string \<Rightarrow> bool db" where
  "OperationCancellationRequested oid s =
     (case sql_get (\<lambda>r. op_id r = trim oid \<and> op_status r = ''running'') (operations s) of
        None \<Rightarrow> db_ok False s
      | Some r \<Rightarrow> db_ok (trim (op_cancel_requested_at r) \<noteq> []) s)"

definition cancel_pending :: "operation_row \<Rightarrow> bool" where
  "cancel_pending r \<longleftrightarrow> op_status r = ''running'' \<and> op_cancel_requested_at r = []"

definition RequestOperationCancellation :: "string \<Rightarrow> instant \<Rightarrow> bool db" where
  "RequestOperationCancellation oid0 nowTime s =
     (let oid = trim oid0; now = rfc3339_nano nowTime;
          p = (\<lambda>r. op_id r = oid \<and> cancel_pending r);
          s1 = s\<lparr>operations := sql_update p
                 (\<lambda>r. r\<lparr>op_cancel_requested_at := now, op_updated_at := now\<rparr>) (operations s)\<rparr>
      in if sql_count p (operations s) = 1 then db_ok True s1
         else
           let q = (\<lambda>r. op_id r = oid \<and> op_status r = ''queued'');
               s2 = s1\<lparr>operations := sql_update q
                      (\<lambda>r. r\<lparr>op_status := ''cancelled'', op_progress_step := ''cancelled'',
                             op_progress_percent := 0, op_completed_at := now,
                             op_cancel_requested_at := now, op_updated_at := now\<rparr>)
                      (operations s1)\<rparr>
           in if sql_count q (operations s1) \<noteq> 1 then db_ok False s2
              else
                let s3 = s2\<lparr>database_operations := sql_update (\<lambda>r. dbo_id r = oid)
                       (\<lambda>r. r\<lparr>dbo_status := ''cancelled'', dbo_progress_step := ''cancelled'',
                              dbo_progress_percent := 0, dbo_completed_at := now,
                              dbo_lease_owner := [], dbo_lease_expires_at := [],
                              dbo_updated_at := now\<rparr>) (database_operations s2)\<rparr>
                in case projectDeployCompleteTx oid ''cancelled'' [] now s3 of
                     Inl e \<Rightarrow> db_fail e s
                   | Inr s4 \<Rightarrow> db_ok True s4)"

definition RequestServiceOperationCancellation :: "string \<Rightarrow> instant \<Rightarrow> nat db" where
  "RequestServiceOperationCancellation serviceID nowTime s =
     (let p = (\<lambda>r. op_service_id r = trim serviceID \<and> cancel_pending r); now = rfc3339_nano nowTime
      in db_ok (sql_count p (operations s))
           (s\<lparr>operations := sql_update p
              (\<lambda>r. r\<lparr>op_cancel_requested_at := now, op_updated_at := now\<rparr>) (operations s)\<rparr>))"

section \<open>Deferring and completing\<close>

definition DeferOperation :: "string \<Rightarrow> string \<Rightarrow> int \<Rightarrow> instant \<Rightarrow> unit db" where
  "DeferOperation oid0 owner0 retryAfter now s =
     (let oid = trim oid0; owner = trim owner0; stamp = rfc3339_nano now;
          available = rfc3339_nano (add_dur now (if retryAfter < 0 then 0 else retryAfter))
      in if sql_count (held_by oid owner) (operations s) \<noteq> 1 then db_fail ErrNoRows s
         else
           let s1 = s\<lparr>operations := sql_update (held_by oid owner)
                  (\<lambda>r. r\<lparr>op_status := ''queued'', op_progress_step := ''waiting'',
                         op_progress_percent := 0, op_available_at := available,
                         op_attempt := max (op_attempt r - 1) 0, op_lease_owner := [],
                         op_lease_expires_at := [], op_updated_at := stamp\<rparr>) (operations s)\<rparr>;
               s2 = s1\<lparr>database_operations := sql_update (\<lambda>r. dbo_id r = oid)
                  (\<lambda>r. r\<lparr>dbo_status := ''queued'', dbo_progress_step := ''waiting'',
                         dbo_progress_percent := 0,
                         dbo_attempt_count := max (dbo_attempt_count r - 1) 0,
                         dbo_lease_owner := [], dbo_lease_expires_at := [],
                         dbo_updated_at := stamp\<rparr>) (database_operations s1)\<rparr>
           in db_ok () (projectDeployDeferTx oid stamp s2))"

record complete_input =
  ci_ID :: string
  ci_Owner :: string
  ci_Status :: string
  ci_ProgressStep :: string
  ci_ErrorCode :: string
  ci_ErrorMessage :: string

definition complete_op_set :: "complete_input \<Rightarrow> string \<Rightarrow> operation_row \<Rightarrow> operation_row" where
  "complete_op_set i now r =
     r\<lparr>op_status := ci_Status i,
       op_progress_step := (if ci_ProgressStep i = [] then op_progress_step r else ci_ProgressStep i),
       op_progress_percent := (if ci_Status i = ''success'' then 100 else op_progress_percent r),
       op_error_code := trim (ci_ErrorCode i), op_error_message := trim (ci_ErrorMessage i),
       op_completed_at := now, op_lease_owner := [], op_lease_expires_at := [],
       op_updated_at := now\<rparr>"

definition complete_dbo_set ::
  "complete_input \<Rightarrow> string \<Rightarrow> database_operation_row \<Rightarrow> database_operation_row" where
  "complete_dbo_set i now r =
     r\<lparr>dbo_status := ci_Status i,
       dbo_progress_step := (if ci_ProgressStep i = [] then dbo_progress_step r else ci_ProgressStep i),
       dbo_progress_percent := (if ci_Status i = ''success'' then 100 else dbo_progress_percent r),
       dbo_error_code := trim (ci_ErrorCode i), dbo_error_message := trim (ci_ErrorMessage i),
       dbo_completed_at := now, dbo_lease_owner := [], dbo_lease_expires_at := [],
       dbo_updated_at := now\<rparr>"

definition CompleteOperation :: "complete_input \<Rightarrow> instant \<Rightarrow> unit db" where
  "CompleteOperation i nowTime s =
     (if \<not> terminal_status (ci_Status i)
      then db_fail (Errorf ''invalid operation completion status %q'' [ci_Status i]) s
      else
        let oid = trim (ci_ID i); owner = trim (ci_Owner i); now = rfc3339_nano nowTime
        in if sql_count (held_by oid owner) (operations s) \<noteq> 1 then db_fail ErrNoRows s
           else
             let s1 = s\<lparr>operations := sql_update (held_by oid owner)
                        (complete_op_set i now) (operations s)\<rparr>;
                 s2 = s1\<lparr>database_operations := sql_update (\<lambda>r. dbo_id r = oid)
                        (complete_dbo_set i now) (database_operations s1)\<rparr>
             in case projectDeployCompleteTx oid (ci_Status i) (trim (ci_ErrorMessage i)) now s2 of
                  Inl e \<Rightarrow> db_fail e s
                | Inr s3 \<Rightarrow> db_ok () s3)"

section \<open>Boot recovery\<close>

definition exhausted_op :: "operation_row \<Rightarrow> bool" where
  "exhausted_op r \<longleftrightarrow> op_status r = ''running'' \<and> op_max_attempts r \<le> op_attempt r"

text \<open>The companion rows of a set of operations: \<open>operation_id IN (\<dots>)\<close> is false for NULL.\<close>

definition companions ::
  "(string \<Rightarrow> bool) \<Rightarrow> string list \<Rightarrow> string \<Rightarrow> string \<Rightarrow> store \<Rightarrow> store" where
  "companions was ids status now s =
     s\<lparr>database_backups := sql_update
          (\<lambda>r. was (bk_status r) \<and> (case bk_operation_id r of None \<Rightarrow> False | Some i \<Rightarrow> i \<in> set ids))
          (\<lambda>r. r\<lparr>bk_status := status, bk_updated_at := now\<rparr>) (database_backups s),
       database_restore_jobs := sql_update
          (\<lambda>r. was (rj_status r) \<and> rj_operation_id r \<in> set ids)
          (\<lambda>r. r\<lparr>rj_status := status, rj_updated_at := now\<rparr>) (database_restore_jobs s),
       database_upgrade_jobs := sql_update
          (\<lambda>r. was (uj_status r) \<and> uj_operation_id r \<in> set ids)
          (\<lambda>r. r\<lparr>uj_status := status, uj_updated_at := now\<rparr>) (database_upgrade_jobs s)\<rparr>"

definition fail_exhausted :: "string \<Rightarrow> store \<Rightarrow> nat \<times> store" where
  "fail_exhausted now s =
     (let exhausted = map op_id (filter exhausted_op (operations s));
          s1 = companions (\<lambda>st. st = ''queued'' \<or> st = ''running'') exhausted ''failed'' now s;
          s2 = s1\<lparr>database_operations := sql_update (\<lambda>r. dbo_id r \<in> set exhausted)
                 (\<lambda>r. r\<lparr>dbo_status := ''failed'', dbo_progress_step := ''interrupted'',
                        dbo_error_code := ''interrupted'',
                        dbo_error_message := ''operation exceeded the retry limit'',
                        dbo_completed_at := now, dbo_lease_owner := [], dbo_lease_expires_at := [],
                        dbo_updated_at := now\<rparr>) (database_operations s1)\<rparr>;
          s3 = snd (projectExhaustedDeploysTx exhausted now s2)
      in (sql_count exhausted_op (operations s),
          s3\<lparr>operations := sql_update exhausted_op
               (\<lambda>r. r\<lparr>op_status := ''failed'', op_progress_step := ''interrupted'',
                      op_error_code := ''interrupted'',
                      op_error_message := ''operation exceeded the retry limit'',
                      op_completed_at := now, op_lease_owner := [], op_lease_expires_at := [],
                      op_updated_at := now\<rparr>) (operations s3)\<rparr>))"

definition op_is_running :: "operation_row \<Rightarrow> bool" where
  "op_is_running r \<longleftrightarrow> op_status r = ''running''"

definition requeue_running :: "string \<Rightarrow> store \<Rightarrow> nat \<times> store" where
  "requeue_running now s =
     (let running = map op_id (filter op_is_running (operations s));
          s1 = companions (\<lambda>st. st = ''running'') running ''queued'' now s;
          s2 = s1\<lparr>database_operations := sql_update (\<lambda>r. dbo_id r \<in> set running)
                 (\<lambda>r. r\<lparr>dbo_status := ''queued'', dbo_progress_step := ''recovery'',
                        dbo_progress_percent := 0, dbo_lease_owner := [],
                        dbo_lease_expires_at := [], dbo_updated_at := now\<rparr>)
                 (database_operations s1)\<rparr>
      in (sql_count op_is_running (operations s),
          s2\<lparr>operations := sql_update op_is_running
               (\<lambda>r. r\<lparr>op_status := ''queued'', op_progress_step := ''recovery'',
                      op_progress_percent := 0, op_available_at := [], op_lease_owner := [],
                      op_lease_expires_at := [], op_updated_at := now\<rparr>) (operations s2)\<rparr>))"

definition RecoverOperations :: "instant \<Rightarrow> (nat \<times> nat) db" where
  "RecoverOperations at s =
     (let now = rfc3339_nano at;
          (failed, s1) = fail_exhausted now s;
          (requeued, s2) = requeue_running now s1;
          (orphaned, s3) = sweepOrphanedDeploymentsTx now s2
      in db_ok (requeued, failed + orphaned) s3)"

end
