(* ===== verification/HF_Queue_Inv.thy ===== *)
theory HF_Queue_Inv
  imports HF_Operations
begin

text \<open>
  The invariants of the operations queue and their preservation: every row is well formed for
  its status, ids are unique, at most one running operation holds a lock key, and the domain
  rows (database operations and deployments) stay in step with the queue.
\<close>

section \<open>What the projections touch\<close>

lemma recordDeploymentStatusEventTx_sel [simp]:
  "operations (recordDeploymentStatusEventTx i st dt n s) = operations s"
  "database_operations (recordDeploymentStatusEventTx i st dt n s) = database_operations s"
  "deployments (recordDeploymentStatusEventTx i st dt n s) = deployments s"
  "services (recordDeploymentStatusEventTx i st dt n s) = services s"
  by (simp_all add: recordDeploymentStatusEventTx_def)

lemma projectDeployClaimTx_sel [simp]:
  "operations (projectDeployClaimTx i n s) = operations s"
  "database_operations (projectDeployClaimTx i n s) = database_operations s"
  "services (projectDeployClaimTx i n s) = services s"
  by (simp_all add: projectDeployClaimTx_def Let_def)

lemma projectDeployDeferTx_sel [simp]:
  "operations (projectDeployDeferTx i n s) = operations s"
  "database_operations (projectDeployDeferTx i n s) = database_operations s"
  "services (projectDeployDeferTx i n s) = services s"
  by (simp_all add: projectDeployDeferTx_def Let_def)

lemma deploy_status_terminal:
  "terminal_status st \<Longrightarrow> \<exists>d. deploy_status_of st = Some d"
  by (auto simp: terminal_status_def deploy_status_of_def)

lemma projectDeployCompleteTx_sel:
  assumes "projectDeployCompleteTx i st msg n s = Inr s'"
  shows "operations s' = operations s" "database_operations s' = database_operations s"
    "services s' = services s"
  using assms by (auto simp: projectDeployCompleteTx_def Let_def split: option.splits if_splits)

lemma projectDeployCompleteTx_ok:
  "terminal_status st \<Longrightarrow> \<exists>s'. projectDeployCompleteTx i st msg n s = Inr s'"
  using deploy_status_terminal [of st] by (auto simp: projectDeployCompleteTx_def Let_def)

lemma fail_interrupted_sel [simp]:
  "operations (snd (fail_interrupted p n s)) = operations s"
  "database_operations (snd (fail_interrupted p n s)) = database_operations s"
  "services (snd (fail_interrupted p n s)) = services s"
  "fst (fail_interrupted p n s) = sql_count p (deployments s)"
  by (simp_all add: fail_interrupted_def Let_def)

lemma companions_sel [simp]:
  "operations (companions w ids st n s) = operations s"
  "database_operations (companions w ids st n s) = database_operations s"
  "deployments (companions w ids st n s) = deployments s"
  "platform_events (companions w ids st n s) = platform_events s"
  "services (companions w ids st n s) = services s"
  by (simp_all add: companions_def)

section \<open>Well-formed rows\<close>

definition op_row_wf :: "operation_row \<Rightarrow> bool" where
  "op_row_wf r \<longleftrightarrow>
     op_status r \<in> set operation_statuses \<and> op_id r \<noteq> [] \<and> trim (op_id r) = op_id r \<and>
     0 \<le> op_attempt r \<and> op_attempt r \<le> op_max_attempts r \<and> 1 \<le> op_max_attempts r \<and>
     0 \<le> op_progress_percent r \<and> op_progress_percent r \<le> 100 \<and>
     (op_status r = ''queued'' \<longrightarrow>
        op_attempt r < op_max_attempts r \<and> op_lease_owner r = [] \<and>
        op_lease_expires_at r = [] \<and> op_completed_at r = []) \<and>
     (op_status r = ''running'' \<longrightarrow>
        1 \<le> op_attempt r \<and> op_lease_owner r \<noteq> [] \<and> trim (op_lease_owner r) = op_lease_owner r \<and>
        op_lease_expires_at r \<noteq> [] \<and> op_started_at r \<noteq> [] \<and> op_completed_at r = []) \<and>
     (terminal_status (op_status r) \<longrightarrow>
        op_lease_owner r = [] \<and> op_lease_expires_at r = [] \<and> op_completed_at r \<noteq> [])"

text \<open>At most one running operation per lock key.\<close>

definition lock_exclusive :: "operation_row list \<Rightarrow> bool" where
  "lock_exclusive t \<longleftrightarrow>
     (\<forall>a \<in> set t. \<forall>b \<in> set t. op_status a = ''running'' \<and> op_status b = ''running'' \<and>
        op_lock_key a = op_lock_key b \<longrightarrow> op_id a = op_id b)"

definition queue_wf :: "store \<Rightarrow> bool" where
  "queue_wf s \<longleftrightarrow>
     distinct (map op_id (operations s)) \<and> (\<forall>r \<in> set (operations s). op_row_wf r) \<and>
     lock_exclusive (operations s)"

lemma queue_wf_row: "queue_wf s \<Longrightarrow> r \<in> set (operations s) \<Longrightarrow> op_row_wf r"
  by (simp add: queue_wf_def)

lemma queue_wf_distinct: "queue_wf s \<Longrightarrow> distinct (map op_id (operations s))"
  by (simp add: queue_wf_def)

lemma queue_wf_cong: "operations s' = operations s \<Longrightarrow> queue_wf s' = queue_wf s"
  by (simp add: queue_wf_def)

text \<open>
  The one preservation argument all the non-claiming writes share: an update that keeps the id
  and the lock key, keeps rows well formed, and makes no row running that was not.
\<close>

lemma queue_wf_sql_update:
  assumes wf: "queue_wf s"
    and ops: "operations s' = sql_update p f (operations s)"
    and keep: "\<And>r. p r \<Longrightarrow> op_id (f r) = op_id r \<and> op_lock_key (f r) = op_lock_key r"
    and good: "\<And>r. r \<in> set (operations s) \<Longrightarrow> p r \<Longrightarrow> op_row_wf r \<Longrightarrow> op_row_wf (f r)"
    and run: "\<And>r. r \<in> set (operations s) \<Longrightarrow> p r \<Longrightarrow> op_status (f r) = ''running'' \<Longrightarrow>
      op_status r = ''running''"
  shows "queue_wf s'"
proof -
  have "map op_id (operations s') = map op_id (operations s)"
    using keep by (simp add: ops map_sql_update)
  then have d: "distinct (map op_id (operations s'))"
    using wf by (simp add: queue_wf_def)
  have w: "\<forall>r \<in> set (operations s'). op_row_wf r"
  proof
    fix r assume "r \<in> set (operations s')"
    then show "op_row_wf r"
      unfolding ops
    proof (rule sql_update_in)
      fix r0 assume "r0 \<in> set (operations s)" "p r0" "r = f r0"
      then show ?thesis using good [of r0] queue_wf_row [OF wf] by simp
    qed (use queue_wf_row [OF wf] in simp)
  qed
  have old: "\<exists>r0 \<in> set (operations s). op_id r0 = op_id r \<and> op_lock_key r0 = op_lock_key r \<and>
      op_status r0 = ''running''"
    if "r \<in> set (operations s')" "op_status r = ''running''" for r
    using that(1) unfolding ops
  proof (rule sql_update_in)
    fix r0 assume "r0 \<in> set (operations s)" "p r0" "r = f r0"
    then show ?thesis using keep [of r0] run [of r0] that(2) by auto
  qed (use that(2) in auto)
  have "lock_exclusive (operations s')"
    unfolding lock_exclusive_def
  proof (intro ballI impI)
    fix a b assume ab: "a \<in> set (operations s')" "b \<in> set (operations s')"
      "op_status a = ''running'' \<and> op_status b = ''running'' \<and> op_lock_key a = op_lock_key b"
    from ab(3) have run: "op_status a = ''running''" "op_status b = ''running''"
      and eq: "op_lock_key a = op_lock_key b" by simp_all
    from old [OF ab(1) run(1)] obtain a0 where a0: "a0 \<in> set (operations s)"
      "op_id a0 = op_id a" "op_lock_key a0 = op_lock_key a" "op_status a0 = ''running''" by blast
    from old [OF ab(2) run(2)] obtain b0 where b0: "b0 \<in> set (operations s)"
      "op_id b0 = op_id b" "op_lock_key b0 = op_lock_key b" "op_status b0 = ''running''" by blast
    have "lock_exclusive (operations s)" using wf by (simp add: queue_wf_def)
    from this [unfolded lock_exclusive_def, rule_format, OF a0(1) b0(1)] a0 b0 eq
    show "op_id a = op_id b" by simp
  qed
  with d w show ?thesis by (simp add: queue_wf_def)
qed

lemma queue_wf_insert:
  assumes wf: "queue_wf s" and ins: "insert_operation r s = Inr s'"
    and row: "op_row_wf r" and st: "op_status r \<noteq> ''running''"
  shows "queue_wf s'"
proof -
  from ins have ops: "operations s' = operations s @ [r]"
    and fresh: "op_id r \<notin> op_id ` set (operations s)"
    by (auto simp: insert_operation_def split: if_splits)
  have "lock_exclusive (operations s)" using wf by (simp add: queue_wf_def)
  then have "lock_exclusive (operations s')"
    using st unfolding lock_exclusive_def ops set_append list.set by blast
  with wf row fresh show ?thesis
    by (simp add: queue_wf_def ops)
qed

section \<open>The lease a worker holds\<close>

lemma held_count:
  assumes "queue_wf s"
  shows "sql_count (held_by i ow) (operations s) = 1 \<longleftrightarrow> (\<exists>r \<in> set (operations s). held_by i ow r)"
  using sql_count_key_1 [OF queue_wf_distinct [OF assms], of "held_by i ow" i]
  by (simp add: held_by_def)

lemma held_get:
  assumes "queue_wf s" and "r \<in> set (operations s)"
  shows "sql_get (\<lambda>x. op_id x = op_id r) (operations s) = Some r"
  using sql_get_key [OF queue_wf_distinct [OF assms(1)] assms(2)] .

lemma held_get_update:
  assumes wf: "queue_wf s" and r: "r \<in> set (operations s)" "p r"
    and keep: "\<And>x. p x \<Longrightarrow> op_id (f x) = op_id x"
  shows "sql_get (\<lambda>x. op_id x = op_id r) (sql_update p f (operations s)) = Some (f r)"
proof -
  have "distinct (map op_id (sql_update p f (operations s)))"
    using queue_wf_distinct [OF wf] keep by (simp add: map_sql_update)
  moreover have "f r \<in> set (sql_update p f (operations s))"
    using r by (auto simp: set_sql_update image_iff intro!: bexI [of _ r])
  ultimately show ?thesis using sql_get_key [of op_id _ "f r"] keep [OF r(2)] by simp
qed


section \<open>Each operation preserves the invariant\<close>

text \<open>What a claim did, when it returned an operation.\<close>

definition claim_now :: "claim_options \<Rightarrow> instant \<Rightarrow> instant" where
  "claim_now opts wall = (case co_Now opts of None \<Rightarrow> wall | Some t \<Rightarrow> t)"

abbreviation claim_stamp :: "claim_options \<Rightarrow> instant \<Rightarrow> string" where
  "claim_stamp opts wall \<equiv> rfc3339_nano (claim_now opts wall)"

abbreviation claim_lease :: "claim_options \<Rightarrow> instant \<Rightarrow> string" where
  "claim_lease opts wall \<equiv> rfc3339_nano (add_dur (claim_now opts wall) (co_Lease opts))"

abbreviation claim_pick :: "claim_options \<Rightarrow> instant \<Rightarrow> store \<Rightarrow> operation_row option" where
  "claim_pick opts wall s \<equiv>
     sql_first (op_runnable (claim_stamp opts wall) (co_MinPriority opts) (co_Kinds opts) s)
       claim_key (operations s)"

abbreviation claimed_store :: "claim_options \<Rightarrow> instant \<Rightarrow> operation_row \<Rightarrow> store \<Rightarrow> store" where
  "claimed_store opts wall c s \<equiv>
     projectDeployClaimTx (op_id c) (claim_stamp opts wall)
       (projectOperationClaim (op_id c) (trim (co_Owner opts)) (claim_lease opts wall)
          (claim_stamp opts wall)
          (s\<lparr>operations := sql_update (\<lambda>r. op_id r = op_id c \<and> op_status r = ''queued'')
             (claim_set (trim (co_Owner opts)) (claim_lease opts wall) (claim_stamp opts wall))
             (operations s)\<rparr>))"

lemma claim_pick_props:
  assumes "claim_pick opts wall s = Some c"
  shows "c \<in> set (operations s)"
    "op_runnable (claim_stamp opts wall) (co_MinPriority opts) (co_Kinds opts) s c"
    "op_status c = ''queued''" "op_attempt c < op_max_attempts c" "lock_free s (op_lock_key c)"
  using sql_first_Some [OF assms] by (simp_all add: op_runnable_def)

lemma projectOperationClaim_sel [simp]:
  "operations (projectOperationClaim i ow le n s) = operations s"
  "deployments (projectOperationClaim i ow le n s) = deployments s"
  "services (projectOperationClaim i ow le n s) = services s"
  "platform_events (projectOperationClaim i ow le n s) = platform_events s"
  by (simp_all add: projectOperationClaim_def)

lemma claim_set_sel [simp]:
  "op_id (claim_set ow le n r) = op_id r"
  "op_lock_key (claim_set ow le n r) = op_lock_key r"
  "op_status (claim_set ow le n r) = ''running''"
  "op_attempt (claim_set ow le n r) = op_attempt r + 1"
  "op_max_attempts (claim_set ow le n r) = op_max_attempts r"
  "op_lease_owner (claim_set ow le n r) = ow"
  "op_lease_expires_at (claim_set ow le n r) = le"
  "op_completed_at (claim_set ow le n r) = op_completed_at r"
  "op_cancel_requested_at (claim_set ow le n r) = op_cancel_requested_at r"
  "op_kind (claim_set ow le n r) = op_kind r"
  "op_progress_percent (claim_set ow le n r) = 1"
  "op_started_at (claim_set ow le n r) = (if op_started_at r = [] then n else op_started_at r)"
  by (simp_all add: claim_set_def)

lemma queued_key_count:
  assumes "queue_wf s" and "c \<in> set (operations s)" and "op_status c = ''queued''"
  shows "sql_count (\<lambda>r. op_id r = op_id c \<and> op_status r = ''queued'') (operations s) = 1"
  using sql_count_key_1 [OF queue_wf_distinct [OF assms(1)],
      of "\<lambda>r. op_id r = op_id c \<and> op_status r = ''queued''" "op_id c"] assms(2,3)
  by auto

text \<open>The claim, once its arguments are accepted, is decided by the row it picks.\<close>

lemma ClaimNextOperation_eq:
  assumes wf: "queue_wf s" and ok: "trim (co_Owner opts) \<noteq> []" "int ns_per_sec \<le> co_Lease opts"
  shows "ClaimNextOperation opts wall s =
    (case claim_pick opts wall s of
       None \<Rightarrow> (Inl ErrNoRows, s)
     | Some c \<Rightarrow> (Inr (scanOperation (claim_set (trim (co_Owner opts)) (claim_lease opts wall)
                       (claim_stamp opts wall) c)), claimed_store opts wall c s))"
proof (cases "claim_pick opts wall s")
  case None
  then show ?thesis
    using ok by (simp add: ClaimNextOperation_def Let_def claim_now_def)
next
  case (Some c)
  let ?p = "\<lambda>r. op_id r = op_id c \<and> op_status r = ''queued''"
  let ?f = "claim_set (trim (co_Owner opts)) (claim_lease opts wall) (claim_stamp opts wall)"
  note c = claim_pick_props [OF Some]
  have one: "sql_count ?p (operations s) = 1" by (rule queued_key_count [OF wf c(1) c(3)])
  have get: "sql_get (\<lambda>x. op_id x = op_id c) (sql_update ?p ?f (operations s)) = Some (?f c)"
    by (rule held_get_update [OF wf c(1)]) (use c(3) in auto)
  have t: "trim (op_id c) = op_id c"
    using queue_wf_row [OF wf c(1)] by (simp add: op_row_wf_def)
  show ?thesis
    using ok Some one
    by (simp add: ClaimNextOperation_def Let_def claim_now_def [symmetric] GetOperation_def get t)
qed

lemma op_row_wf_claim:
  assumes "op_row_wf r" and "op_status r = ''queued''" and "ow \<noteq> []" and "trim ow = ow"
    and "le \<noteq> []" and "n \<noteq> []"
  shows "op_row_wf (claim_set ow le n r)"
  using assms by (auto simp: op_row_wf_def operation_statuses_def terminal_status_def)

lemma lock_exclusive_extend:
  assumes "lock_exclusive t"
    and run: "\<And>r. r \<in> set t' \<Longrightarrow> op_status r = ''running'' \<Longrightarrow>
      op_id r = k \<or> op_id r \<noteq> k \<and> r \<in> set t \<and> op_lock_key r \<noteq> key"
    and key: "\<And>r. r \<in> set t' \<Longrightarrow> op_id r = k \<Longrightarrow> op_lock_key r = key"
  shows "lock_exclusive t'"
  unfolding lock_exclusive_def
proof (intro ballI impI)
  fix a b assume ab: "a \<in> set t'" "b \<in> set t'"
    "op_status a = ''running'' \<and> op_status b = ''running'' \<and> op_lock_key a = op_lock_key b"
  then have "op_status a = ''running''" "op_status b = ''running''" by simp_all
  from run [OF ab(1) this(1)] run [OF ab(2) this(2)] key [OF ab(1)] key [OF ab(2)] assms(1) ab(3)
  show "op_id a = op_id b" unfolding lock_exclusive_def by metis
qed

lemma queue_wf_claim:
  assumes wf: "queue_wf s" and ok: "trim (co_Owner opts) \<noteq> []"
    and pick: "claim_pick opts wall s = Some c"
  shows "queue_wf (claimed_store opts wall c s)"
proof -
  let ?p = "\<lambda>r. op_id r = op_id c \<and> op_status r = ''queued''"
  let ?f = "claim_set (trim (co_Owner opts)) (claim_lease opts wall) (claim_stamp opts wall)"
  let ?t = "sql_update ?p ?f (operations s)"
  note c = claim_pick_props [OF pick]
  have d: "distinct (map op_id ?t)"
    using queue_wf_distinct [OF wf] by (simp add: map_sql_update)
  have w: "op_row_wf r" if "r \<in> set ?t" for r
    using that
  proof (rule sql_update_in)
    fix r0 assume r0: "r0 \<in> set (operations s)" "?p r0" "r = ?f r0"
    show ?thesis unfolding r0(3)
      by (rule op_row_wf_claim) (use queue_wf_row [OF wf r0(1)] r0(2) ok in auto)
  qed (use queue_wf_row [OF wf] in simp)
  have id: "r = c" if "r \<in> set (operations s)" "op_id r = op_id c" for r
    using distinct_key_eq [OF queue_wf_distinct [OF wf] that(1) c(1) that(2)] .
  have run: "op_id r = op_id c \<or> op_id r \<noteq> op_id c \<and> r \<in> set (operations s) \<and> op_lock_key r \<noteq> op_lock_key c"
    if "r \<in> set ?t" "op_status r = ''running''" for r
    using that(1)
  proof (rule sql_update_in)
    assume "r \<in> set (operations s)" "\<not> ?p r"
    then show ?thesis using c(5) that(2) by (auto simp: lock_free_def)
  qed simp
  have key: "op_lock_key r = op_lock_key c" if "r \<in> set ?t" "op_id r = op_id c" for r
    using that(1)
  proof (rule sql_update_in)
    fix r0 assume r0: "r0 \<in> set (operations s)" "?p r0" "r = ?f r0"
    then show ?thesis using id [OF r0(1)] by simp
  next
    assume "r \<in> set (operations s)" "\<not> ?p r"
    then show ?thesis using id [OF _ that(2)] by simp
  qed
  have "lock_exclusive ?t"
    by (rule lock_exclusive_extend [of "operations s" _ "op_id c" "op_lock_key c"])
      (use wf run key in \<open>simp_all add: queue_wf_def\<close>)
  with d w show ?thesis by (simp add: queue_wf_def)
qed


text \<open>The remaining operations, split on whether the caller holds the lease.\<close>

definition lease_held :: "store \<Rightarrow> string \<Rightarrow> string \<Rightarrow> bool" where
  "lease_held s oid owner \<longleftrightarrow> sql_exists (held_by (trim oid) (trim owner)) (operations s)"

lemma lease_held_count:
  "queue_wf s \<Longrightarrow> sql_count (held_by (trim i) (trim ow)) (operations s) = 1 \<longleftrightarrow> lease_held s i ow"
  unfolding lease_held_def sql_exists_iff by (rule held_count)

lemma RenewOperationLease_lost:
  "queue_wf s \<Longrightarrow> \<not> lease_held s i ow \<Longrightarrow> RenewOperationLease i ow l now s = (Inl ErrNoRows, s)"
  by (simp add: RenewOperationLease_def Let_def lease_held_count [symmetric])

lemma DeferOperation_lost:
  "queue_wf s \<Longrightarrow> \<not> lease_held s i ow \<Longrightarrow> DeferOperation i ow d now s = (Inl ErrNoRows, s)"
  by (simp add: DeferOperation_def Let_def lease_held_count [symmetric])

lemma CompleteOperation_lost:
  "queue_wf s \<Longrightarrow> \<not> lease_held s (ci_ID c) (ci_Owner c) \<Longrightarrow> terminal_status (ci_Status c) \<Longrightarrow>
    CompleteOperation c now s = (Inl ErrNoRows, s)"
  by (simp add: CompleteOperation_def Let_def lease_held_count [symmetric])

lemma held_by_sel:
  "held_by i ow r \<Longrightarrow> op_id r = i \<and> op_status r = ''running'' \<and> op_lease_owner r = ow"
  by (simp add: held_by_def)

lemma RenewOperationLease_held:
  assumes wf: "queue_wf s" and r: "r \<in> set (operations s)" "held_by (trim i) (trim ow) r"
  shows "fst (RenewOperationLease i ow l now s) = Inr (trim (op_cancel_requested_at r) \<noteq> [])"
    and "operations (snd (RenewOperationLease i ow l now s)) =
      sql_update (held_by (trim i) (trim ow))
        (\<lambda>r. r\<lparr>op_lease_expires_at := rfc3339_nano (add_dur now l),
               op_updated_at := rfc3339_nano now\<rparr>) (operations s)"
proof -
  let ?p = "held_by (trim i) (trim ow)"
  let ?f = "\<lambda>r. r\<lparr>op_lease_expires_at := rfc3339_nano (add_dur now l),
                  op_updated_at := rfc3339_nano now\<rparr>"
  have one: "sql_count ?p (operations s) = 1"
    using held_count [OF wf] r by blast
  have get: "sql_get (\<lambda>x. op_id x = trim i) (sql_update ?p ?f (operations s)) = Some (?f r)"
    using held_get_update [OF wf r(1), of ?p ?f] r(2) held_by_sel [OF r(2)] by simp
  show "fst (RenewOperationLease i ow l now s) = Inr (trim (op_cancel_requested_at r) \<noteq> [])"
    and "operations (snd (RenewOperationLease i ow l now s)) = sql_update ?p ?f (operations s)"
    using one get by (simp_all add: RenewOperationLease_def Let_def)
qed

definition defer_op_set :: "int \<Rightarrow> instant \<Rightarrow> operation_row \<Rightarrow> operation_row" where
  "defer_op_set d now r =
     r\<lparr>op_status := ''queued'', op_progress_step := ''waiting'', op_progress_percent := 0,
       op_available_at := rfc3339_nano (add_dur now (if d < 0 then 0 else d)),
       op_attempt := max (op_attempt r - 1) 0, op_lease_owner := [],
       op_lease_expires_at := [], op_updated_at := rfc3339_nano now\<rparr>"

lemma defer_op_set_sel:
  "op_id (defer_op_set d now r) = op_id r"
  "op_lock_key (defer_op_set d now r) = op_lock_key r"
  "op_status (defer_op_set d now r) = ''queued''"
  "op_attempt (defer_op_set d now r) = max (op_attempt r - 1) 0"
  "op_max_attempts (defer_op_set d now r) = op_max_attempts r"
  by (simp_all add: defer_op_set_def)

lemma DeferOperation_held:
  assumes wf: "queue_wf s" and h: "lease_held s i ow"
  shows "fst (DeferOperation i ow d now s) = Inr ()"
    and "operations (snd (DeferOperation i ow d now s)) =
      sql_update (held_by (trim i) (trim ow)) (defer_op_set d now) (operations s)"
proof -
  have one: "sql_count (held_by (trim i) (trim ow)) (operations s) = 1"
    using lease_held_count [OF wf] h by blast
  then show "fst (DeferOperation i ow d now s) = Inr ()"
    and "operations (snd (DeferOperation i ow d now s)) =
      sql_update (held_by (trim i) (trim ow)) (defer_op_set d now) (operations s)"
    by (simp_all add: DeferOperation_def Let_def defer_op_set_def [abs_def])
qed

lemma complete_op_set_sel:
  "op_id (complete_op_set c n r) = op_id r"
  "op_lock_key (complete_op_set c n r) = op_lock_key r"
  "op_status (complete_op_set c n r) = ci_Status c"
  by (simp_all add: complete_op_set_def)

lemma CompleteOperation_held:
  assumes wf: "queue_wf s" and h: "lease_held s (ci_ID c) (ci_Owner c)"
    and t: "terminal_status (ci_Status c)"
  shows "fst (CompleteOperation c now s) = Inr ()"
    and "operations (snd (CompleteOperation c now s)) =
      sql_update (held_by (trim (ci_ID c)) (trim (ci_Owner c)))
        (complete_op_set c (rfc3339_nano now)) (operations s)"
proof -
  let ?p = "held_by (trim (ci_ID c)) (trim (ci_Owner c))"
  let ?s2 = "s\<lparr>operations := sql_update ?p (complete_op_set c (rfc3339_nano now)) (operations s),
      database_operations := sql_update (\<lambda>r. dbo_id r = trim (ci_ID c))
        (complete_dbo_set c (rfc3339_nano now)) (database_operations s)\<rparr>"
  have one: "sql_count ?p (operations s) = 1"
    using lease_held_count [OF wf] h by blast
  obtain s' where s': "projectDeployCompleteTx (trim (ci_ID c)) (ci_Status c)
      (trim (ci_ErrorMessage c)) (rfc3339_nano now) ?s2 = Inr s'"
    using projectDeployCompleteTx_ok [OF t] by blast
  have "CompleteOperation c now s = (Inr (), s')"
    using one t s' by (simp add: CompleteOperation_def Let_def)
  then show "fst (CompleteOperation c now s) = Inr ()"
    and "operations (snd (CompleteOperation c now s)) =
      sql_update ?p (complete_op_set c (rfc3339_nano now)) (operations s)"
    using projectDeployCompleteTx_sel(1) [OF s'] by simp_all
qed

lemma op_row_wf_defer:
  "op_row_wf r \<Longrightarrow> op_status r = ''running'' \<Longrightarrow> op_row_wf (defer_op_set d now r)"
  by (auto simp: op_row_wf_def defer_op_set_def operation_statuses_def terminal_status_def)

lemma op_row_wf_complete:
  "op_row_wf r \<Longrightarrow> terminal_status (ci_Status c) \<Longrightarrow> n \<noteq> [] \<Longrightarrow> op_row_wf (complete_op_set c n r)"
  by (auto simp: op_row_wf_def complete_op_set_def operation_statuses_def terminal_status_def)

lemma queue_wf_renew:
  assumes wf: "queue_wf s"
  shows "queue_wf (snd (RenewOperationLease i ow l now s))"
proof (cases "lease_held s i ow")
  case True
  then obtain r where r: "r \<in> set (operations s)" "held_by (trim i) (trim ow) r"
    by (auto simp: lease_held_def)
  show ?thesis
    by (rule queue_wf_sql_update [OF wf RenewOperationLease_held(2) [OF wf r]])
      (auto simp: op_row_wf_def held_by_def terminal_status_def)
qed (use wf in \<open>simp add: RenewOperationLease_lost\<close>)

lemma queue_wf_defer:
  assumes wf: "queue_wf s"
  shows "queue_wf (snd (DeferOperation i ow d now s))"
proof (cases "lease_held s i ow")
  case True
  show ?thesis
    by (rule queue_wf_sql_update [OF wf DeferOperation_held(2) [OF wf True]])
      (auto intro!: op_row_wf_defer dest: held_by_sel simp: defer_op_set_sel)
qed (use wf in \<open>simp add: DeferOperation_lost\<close>)

lemma queue_wf_complete:
  assumes wf: "queue_wf s"
  shows "queue_wf (snd (CompleteOperation c now s))"
proof (cases "terminal_status (ci_Status c)")
  case t: True
  show ?thesis
  proof (cases "lease_held s (ci_ID c) (ci_Owner c)")
    case True
    show ?thesis
      by (rule queue_wf_sql_update [OF wf CompleteOperation_held(2) [OF wf True t]])
        (use t in \<open>auto intro!: op_row_wf_complete simp: complete_op_set_sel terminal_status_def\<close>)
  qed (use wf t in \<open>simp add: CompleteOperation_lost\<close>)
qed (use wf in \<open>simp add: CompleteOperation_def\<close>)


subsection \<open>Cancellation\<close>

definition cancel_mark_set :: "string \<Rightarrow> operation_row \<Rightarrow> operation_row" where
  "cancel_mark_set n r = r\<lparr>op_cancel_requested_at := n, op_updated_at := n\<rparr>"

definition cancel_queued_set :: "string \<Rightarrow> operation_row \<Rightarrow> operation_row" where
  "cancel_queued_set n r =
     r\<lparr>op_status := ''cancelled'', op_progress_step := ''cancelled'', op_progress_percent := 0,
       op_completed_at := n, op_cancel_requested_at := n, op_updated_at := n\<rparr>"

lemma cancel_set_sel:
  "op_id (cancel_mark_set n r) = op_id r" "op_lock_key (cancel_mark_set n r) = op_lock_key r"
  "op_status (cancel_mark_set n r) = op_status r"
  "op_id (cancel_queued_set n r) = op_id r" "op_lock_key (cancel_queued_set n r) = op_lock_key r"
  "op_status (cancel_queued_set n r) = ''cancelled''"
  by (simp_all add: cancel_mark_set_def cancel_queued_set_def)

definition cancel_now :: "string \<Rightarrow> operation_row \<Rightarrow> bool" where
  "cancel_now oid r \<longleftrightarrow> op_id r = oid \<and> cancel_pending r"

definition is_queued :: "string \<Rightarrow> operation_row \<Rightarrow> bool" where
  "is_queued oid r \<longleftrightarrow> op_id r = oid \<and> op_status r = ''queued''"

lemma cancel_count:
  assumes "queue_wf s"
  shows "sql_count (\<lambda>r. op_id r = i \<and> cancel_pending r) (operations s) = 1 \<longleftrightarrow>
      (\<exists>r \<in> set (operations s). cancel_now i r)"
    and "sql_count (\<lambda>r. op_id r = i \<and> op_status r = ''queued'') (operations s) = 1 \<longleftrightarrow>
      (\<exists>r \<in> set (operations s). is_queued i r)"
  using sql_count_key_1 [OF queue_wf_distinct [OF assms],
      of "\<lambda>r. op_id r = i \<and> cancel_pending r" i]
    sql_count_key_1 [OF queue_wf_distinct [OF assms],
      of "\<lambda>r. op_id r = i \<and> op_status r = ''queued''" i]
  by (simp_all add: cancel_now_def is_queued_def)

lemma cancel_running:
  assumes wf: "queue_wf s" and r: "r \<in> set (operations s)" "cancel_now (trim i) r"
  shows "RequestOperationCancellation i now s = (Inr True, s\<lparr>operations :=
    sql_update (cancel_now (trim i)) (cancel_mark_set (rfc3339_nano now)) (operations s)\<rparr>)"
proof -
  have one: "sql_count (\<lambda>r. op_id r = trim i \<and> cancel_pending r) (operations s) = 1"
    using cancel_count(1) [OF wf] r by blast
  then show ?thesis
    by (simp add: RequestOperationCancellation_def Let_def cancel_now_def [abs_def]
        cancel_mark_set_def [abs_def])
qed

lemma not_cancel_pending_id:
  assumes wf: "queue_wf s" and "\<not> (\<exists>r \<in> set (operations s). cancel_now (trim i) r)"
  shows "sql_update (\<lambda>r. op_id r = trim i \<and> cancel_pending r) f (operations s) = operations s"
    and "sql_count (\<lambda>r. op_id r = trim i \<and> cancel_pending r) (operations s) \<noteq> 1"
proof -
  show "sql_update (\<lambda>r. op_id r = trim i \<and> cancel_pending r) f (operations s) = operations s"
    by (rule sql_update_id) (use assms(2) in \<open>auto simp: cancel_now_def\<close>)
  show "sql_count (\<lambda>r. op_id r = trim i \<and> cancel_pending r) (operations s) \<noteq> 1"
    using cancel_count(1) [OF wf] assms(2) by blast
qed

lemma one_row_per_id:
  assumes "queue_wf s" and "r \<in> set (operations s)" "r' \<in> set (operations s)" "op_id r = op_id r'"
  shows "r = r'"
  using distinct_key_eq [OF queue_wf_distinct [OF assms(1)] assms(2-4)] .

lemma queued_not_pending:
  assumes "queue_wf s" and "r \<in> set (operations s)" "is_queued i r"
  shows "\<not> (\<exists>x \<in> set (operations s). cancel_now i x)"
proof
  assume "\<exists>x \<in> set (operations s). cancel_now i x"
  then obtain x where "x \<in> set (operations s)" "cancel_now i x" ..
  with one_row_per_id [OF assms(1,2), of x] assms(3) show False
    by (simp add: cancel_now_def cancel_pending_def is_queued_def)
qed

definition cancelled_rows :: "string \<Rightarrow> string \<Rightarrow> store \<Rightarrow> store" where
  "cancelled_rows oid n s =
     s\<lparr>operations := sql_update (is_queued oid) (cancel_queued_set n) (operations s),
       database_operations := sql_update (\<lambda>r. dbo_id r = oid)
         (\<lambda>r. r\<lparr>dbo_status := ''cancelled'', dbo_progress_step := ''cancelled'',
                dbo_progress_percent := 0, dbo_completed_at := n,
                dbo_lease_owner := [], dbo_lease_expires_at := [],
                dbo_updated_at := n\<rparr>) (database_operations s)\<rparr>"

lemma cancelled_rows_sel [simp]:
  "operations (cancelled_rows i n s) = sql_update (is_queued i) (cancel_queued_set n) (operations s)"
  "deployments (cancelled_rows i n s) = deployments s"
  "services (cancelled_rows i n s) = services s"
  "platform_events (cancelled_rows i n s) = platform_events s"
  by (simp_all add: cancelled_rows_def)

lemma terminal_cancelled: "terminal_status ''cancelled''"
  by (simp add: terminal_status_def)

lemma cancel_queued:
  assumes wf: "queue_wf s" and r: "r \<in> set (operations s)" "is_queued (trim i) r"
  obtains s' where "RequestOperationCancellation i now s = (Inr True, s')"
    "projectDeployCompleteTx (trim i) ''cancelled'' [] (rfc3339_nano now)
       (cancelled_rows (trim i) (rfc3339_nano now) s) = Inr s'"
proof -
  note np = not_cancel_pending_id [OF wf queued_not_pending [OF wf r]]
  have q: "sql_count (\<lambda>r. op_id r = trim i \<and> op_status r = ''queued'') (operations s) = 1"
    using cancel_count(2) [OF wf] r by blast
  obtain s' where s': "projectDeployCompleteTx (trim i) ''cancelled'' [] (rfc3339_nano now)
      (cancelled_rows (trim i) (rfc3339_nano now) s) = Inr s'"
    using projectDeployCompleteTx_ok [OF terminal_cancelled] by blast
  moreover have "RequestOperationCancellation i now s = (Inr True, s')"
    using s' q np(2)
    by (simp add: RequestOperationCancellation_def Let_def np(1) is_queued_def [abs_def]
        cancel_queued_set_def [abs_def] cancelled_rows_def)
  ultimately show ?thesis using that by blast
qed

lemma cancel_nothing:
  assumes wf: "queue_wf s" and np: "\<not> (\<exists>r \<in> set (operations s). cancel_now (trim i) r)"
    and nq: "\<not> (\<exists>r \<in> set (operations s). is_queued (trim i) r)"
  shows "RequestOperationCancellation i now s = (Inr False, s)"
proof -
  note n = not_cancel_pending_id [OF wf np]
  have q: "sql_count (\<lambda>r. op_id r = trim i \<and> op_status r = ''queued'') (operations s) \<noteq> 1"
    using cancel_count(2) [OF wf] nq by blast
  have "sql_update (\<lambda>r. op_id r = trim i \<and> op_status r = ''queued'') f (operations s) = operations s"
    for f by (rule sql_update_id) (use nq in \<open>auto simp: is_queued_def\<close>)
  then show ?thesis
    using n(2) q by (simp add: RequestOperationCancellation_def Let_def n(1))
qed

lemma op_row_wf_cancel_queued:
  "op_row_wf r \<Longrightarrow> op_status r = ''queued'' \<Longrightarrow> n \<noteq> [] \<Longrightarrow> op_row_wf (cancel_queued_set n r)"
  by (auto simp: op_row_wf_def cancel_queued_set_def operation_statuses_def terminal_status_def)

lemma op_row_wf_cancel_mark: "op_row_wf r \<Longrightarrow> op_row_wf (cancel_mark_set n r)"
  by (simp add: op_row_wf_def cancel_mark_set_def)

lemma queue_wf_cancel:
  assumes wf: "queue_wf s"
  shows "queue_wf (snd (RequestOperationCancellation i now s))"
proof -
  consider r where "r \<in> set (operations s)" "cancel_now (trim i) r"
    | r where "r \<in> set (operations s)" "is_queued (trim i) r"
    | "\<not> (\<exists>r \<in> set (operations s). cancel_now (trim i) r)"
      "\<not> (\<exists>r \<in> set (operations s). is_queued (trim i) r)" by blast
  then show ?thesis
  proof cases
    case 1
    show ?thesis unfolding cancel_running [OF wf 1]
      by (rule queue_wf_sql_update [OF wf, of _ "cancel_now (trim i)"
            "cancel_mark_set (rfc3339_nano now)"])
        (auto simp: cancel_set_sel intro: op_row_wf_cancel_mark)
  next
    case 2
    show ?thesis
    proof (rule cancel_queued [OF wf 2, of now])
      fix s' assume s': "RequestOperationCancellation i now s = (Inr True, s')"
        "projectDeployCompleteTx (trim i) ''cancelled'' [] (rfc3339_nano now)
          (cancelled_rows (trim i) (rfc3339_nano now) s) = Inr s'"
      have "operations s' = sql_update (is_queued (trim i))
          (cancel_queued_set (rfc3339_nano now)) (operations s)"
        using projectDeployCompleteTx_sel(1) [OF s'(2)] by simp
      then have "queue_wf s'"
        by (rule queue_wf_sql_update [OF wf])
          (auto simp: cancel_set_sel is_queued_def intro: op_row_wf_cancel_queued)
      with s'(1) show ?thesis by simp
    qed
  qed (use wf in \<open>simp add: cancel_nothing\<close>)
qed

lemma queue_wf_service_cancel:
  assumes wf: "queue_wf s"
  shows "queue_wf (snd (RequestServiceOperationCancellation sid now s))"
  unfolding RequestServiceOperationCancellation_def Let_def cancel_mark_set_def [symmetric]
  by (rule queue_wf_sql_update [OF wf, of _
        "\<lambda>r. op_service_id r = trim sid \<and> cancel_pending r" "cancel_mark_set (rfc3339_nano now)"])
    (auto simp: cancel_set_sel intro: op_row_wf_cancel_mark)


subsection \<open>Boot recovery\<close>

definition fail_op_set :: "string \<Rightarrow> operation_row \<Rightarrow> operation_row" where
  "fail_op_set n r =
     r\<lparr>op_status := ''failed'', op_progress_step := ''interrupted'',
       op_error_code := ''interrupted'',
       op_error_message := ''operation exceeded the retry limit'',
       op_completed_at := n, op_lease_owner := [], op_lease_expires_at := [],
       op_updated_at := n\<rparr>"

definition requeue_op_set :: "string \<Rightarrow> operation_row \<Rightarrow> operation_row" where
  "requeue_op_set n r =
     r\<lparr>op_status := ''queued'', op_progress_step := ''recovery'',
       op_progress_percent := 0, op_available_at := [], op_lease_owner := [],
       op_lease_expires_at := [], op_updated_at := n\<rparr>"

text \<open>What recovery does to one queue row and to one deployment.\<close>

definition recover_row :: "string \<Rightarrow> operation_row \<Rightarrow> operation_row" where
  "recover_row n r =
     (if exhausted_op r then fail_op_set n r
      else if op_is_running r then requeue_op_set n r else r)"

definition survivor_ids :: "store \<Rightarrow> string list" where
  "survivor_ids s = map op_id (filter (\<lambda>r. op_status r = ''queued'' \<or>
     op_status r = ''running'' \<and> op_attempt r < op_max_attempts r) (operations s))"

definition interrupted_dep :: "string \<Rightarrow> deployment_row \<Rightarrow> deployment_row" where
  "interrupted_dep n d =
     d\<lparr>dep_status := DeploymentFailed, dep_error_message := ''interrupted'', dep_updated_at := n\<rparr>"

definition recover_dep :: "string list \<Rightarrow> string \<Rightarrow> deployment_row \<Rightarrow> deployment_row" where
  "recover_dep survivors n d =
     (if dep_open d \<and> dep_id d \<notin> set survivors then interrupted_dep n d else d)"

lemma fail_interrupted_deployments:
  "deployments (snd (fail_interrupted p n s)) = sql_update p (interrupted_dep n) (deployments s)"
  by (simp add: fail_interrupted_def Let_def interrupted_dep_def [abs_def])

lemma interrupted_dep_sel [simp]:
  "dep_id (interrupted_dep n d) = dep_id d" "\<not> dep_open (interrupted_dep n d)"
  "dep_service_id (interrupted_dep n d) = dep_service_id d"
  "dep_status (interrupted_dep n d) = DeploymentFailed"
  by (simp_all add: interrupted_dep_def dep_open_def)

lemma fail_exhausted_sel:
  "fst (fail_exhausted n s) = sql_count exhausted_op (operations s)"
  "operations (snd (fail_exhausted n s)) = sql_update exhausted_op (fail_op_set n) (operations s)"
  "deployments (snd (fail_exhausted n s)) =
     sql_update (\<lambda>d. dep_open d \<and> dep_id d \<in> set (map op_id (filter exhausted_op (operations s))))
       (interrupted_dep n) (deployments s)"
  "services (snd (fail_exhausted n s)) = services s"
  by (simp_all add: fail_exhausted_def Let_def projectExhaustedDeploysTx_def
      fail_interrupted_deployments fail_op_set_def [abs_def])

lemma requeue_running_sel:
  "fst (requeue_running n s) = sql_count op_is_running (operations s)"
  "operations (snd (requeue_running n s)) = sql_update op_is_running (requeue_op_set n) (operations s)"
  "deployments (snd (requeue_running n s)) = deployments s"
  "services (snd (requeue_running n s)) = services s"
  "platform_events (snd (requeue_running n s)) = platform_events s"
  by (simp_all add: requeue_running_def Let_def requeue_op_set_def [abs_def])

lemma RecoverOperations_eq:
  "RecoverOperations at s =
     (let now = rfc3339_nano at; s1 = snd (fail_exhausted now s); s2 = snd (requeue_running now s1)
      in (Inr (fst (requeue_running now s1),
               fst (fail_exhausted now s) + fst (sweepOrphanedDeploymentsTx now s2)),
          snd (sweepOrphanedDeploymentsTx now s2)))"
  by (simp add: RecoverOperations_def Let_def case_prod_beta)

lemma recover_row_update:
  "sql_update op_is_running (requeue_op_set n) (sql_update exhausted_op (fail_op_set n) t) =
     map (recover_row n) t"
  by (auto simp: sql_update_def recover_row_def op_is_running_def fail_op_set_def exhausted_op_def)

lemma recover_operations:
  "operations (snd (RecoverOperations at s)) = map (recover_row (rfc3339_nano at)) (operations s)"
  by (simp add: RecoverOperations_eq Let_def sweepOrphanedDeploymentsTx_def requeue_running_sel
      fail_exhausted_sel recover_row_update)

lemma recover_requeued:
  "sql_count op_is_running (sql_update exhausted_op (fail_op_set n) t) =
     sql_count (\<lambda>r. op_is_running r \<and> \<not> exhausted_op r) t"
  by (induction t) (auto simp: sql_count_def sql_update_def op_is_running_def fail_op_set_def)

lemma recover_row_status:
  "op_status (recover_row n r) =
     (if op_status r = ''running'' then if op_max_attempts r \<le> op_attempt r then ''failed'' else ''queued''
      else op_status r)"
  "op_id (recover_row n r) = op_id r" "op_lock_key (recover_row n r) = op_lock_key r"
  by (simp_all add: recover_row_def exhausted_op_def op_is_running_def fail_op_set_def requeue_op_set_def)

lemma recover_live_ids:
  assumes "operations s2 = map (recover_row n) (operations s)"
  shows "live_operation_ids s2 = survivor_ids s"
proof -
  have "map op_id (filter (\<lambda>r. op_status r = ''queued'' \<or> op_status r = ''running'') (map (recover_row n) t))
      = map op_id (filter (\<lambda>r. op_status r = ''queued'' \<or>
          op_status r = ''running'' \<and> op_attempt r < op_max_attempts r) t)" for t
    by (induction t) (auto simp: recover_row_status)
  then show ?thesis by (simp add: live_operation_ids_def survivor_ids_def assms)
qed

lemma exhausted_not_survivor:
  assumes "queue_wf s" and "i \<in> set (map op_id (filter exhausted_op (operations s)))"
  shows "i \<notin> set (survivor_ids s)"
proof
  assume "i \<in> set (survivor_ids s)"
  then obtain r where r: "r \<in> set (operations s)" "op_id r = i"
    "op_status r = ''queued'' \<or> op_status r = ''running'' \<and> op_attempt r < op_max_attempts r"
    by (auto simp: survivor_ids_def)
  from assms(2) obtain x where x: "x \<in> set (operations s)" "op_id x = i" "exhausted_op x"
    by auto
  from one_row_per_id [OF assms(1) r(1) x(1)] r(2,3) x(2,3) show False
    by (auto simp: exhausted_op_def)
qed

lemma recover_deployments:
  assumes wf: "queue_wf s"
  shows "deployments (snd (RecoverOperations at s)) =
    map (recover_dep (survivor_ids s) (rfc3339_nano at)) (deployments s)"
proof -
  let ?n = "rfc3339_nano at"
  let ?s2 = "snd (requeue_running ?n (snd (fail_exhausted ?n s)))"
  let ?ex = "set (map op_id (filter exhausted_op (operations s)))"
  have "operations ?s2 = map (recover_row ?n) (operations s)"
    by (simp add: requeue_running_sel fail_exhausted_sel recover_row_update)
  then have live: "live_operation_ids ?s2 = survivor_ids s" by (rule recover_live_ids)
  have "sql_update (\<lambda>d. dep_open d \<and> dep_id d \<notin> set (survivor_ids s)) (interrupted_dep ?n)
      (sql_update (\<lambda>d. dep_open d \<and> dep_id d \<in> ?ex) (interrupted_dep ?n) ds) =
      map (recover_dep (survivor_ids s) ?n) ds" for ds
    using exhausted_not_survivor [OF wf]
    by (auto simp: sql_update_def recover_dep_def simp del: set_map set_filter)
  then show ?thesis
    by (simp add: RecoverOperations_eq Let_def sweepOrphanedDeploymentsTx_def
        fail_interrupted_deployments live requeue_running_sel fail_exhausted_sel)
qed

lemma op_row_wf_recover:
  assumes "op_row_wf r" and "n \<noteq> []"
  shows "op_row_wf (recover_row n r)"
  using assms
  by (auto simp: recover_row_def op_row_wf_def fail_op_set_def requeue_op_set_def exhausted_op_def
      op_is_running_def operation_statuses_def terminal_status_def)

lemma queue_wf_recover:
  assumes wf: "queue_wf s"
  shows "queue_wf (snd (RecoverOperations at s))"
  by (rule queue_wf_sql_update [OF wf, of _ "\<lambda>_. True" "recover_row (rfc3339_nano at)"])
    (auto simp: recover_operations sql_update_def recover_row_status op_row_wf_recover split: if_splits)


subsection \<open>Enqueueing\<close>

lemma op_row_wf_new:
  assumes "trim (noi_id i) \<noteq> []" and "noi_status i \<noteq> ''running''"
    and "op_status (new_operation_row i now) \<in> set operation_statuses"
    and "1 \<le> op_max_attempts (new_operation_row i now)"
  shows "op_row_wf (new_operation_row i now)"
  using assms
  by (auto simp: op_row_wf_def new_operation_row_def Let_def operation_statuses_def
      terminal_status_def)

lemma new_row_not_running:
  "noi_status i \<noteq> ''running'' \<Longrightarrow> op_status (new_operation_row i now) \<noteq> ''running''"
  by (simp add: new_operation_row_def Let_def)

lemma insertOperationTx_ok:
  assumes "insertOperationTx i now s = Inr s'"
  shows "insert_operation (new_operation_row i now) s = Inr s'" "trim (noi_id i) \<noteq> []"
  using assms by (auto simp: insertOperationTx_def split: if_splits)

lemma insert_operation_ok:
  assumes "insert_operation r s = Inr s'"
  shows "s' = s\<lparr>operations := operations s @ [r]\<rparr>" "op_id r \<notin> op_id ` set (operations s)"
    "op_status r \<in> set operation_statuses" "1 \<le> op_max_attempts r"
  using assms by (auto simp: insert_operation_def split: if_splits)

lemma queue_wf_insert_new:
  assumes wf: "queue_wf s" and ok: "insertOperationTx i now s = Inr s'"
    and st: "noi_status i \<noteq> ''running''"
  shows "queue_wf s'"
proof -
  note ins = insertOperationTx_ok [OF ok]
  note row = insert_operation_ok [OF ins(1)]
  show ?thesis
    by (rule queue_wf_insert [OF wf ins(1) op_row_wf_new [OF ins(2) st row(3,4)]
          new_row_not_running [OF st]])
qed

lemma GetOperation_snd [simp]: "snd (GetOperation i s) = s"
  by (simp add: GetOperation_def split: option.split)

lemma queue_wf_enqueue:
  assumes wf: "queue_wf s" and st: "noi_status i \<noteq> ''running''"
  shows "queue_wf (snd (EnqueueOperation i nid now s))"
proof -
  let ?i = "if trim (noi_id i) = [] then i\<lparr>noi_id := nid\<rparr> else i"
  have "noi_status ?i \<noteq> ''running''" using st by simp
  then show ?thesis
    using queue_wf_insert_new [OF wf, of ?i now] wf
    by (auto simp: EnqueueOperation_def Let_def split: sum.split)
qed

text \<open>The rows the database enqueue paths insert: waiting work or finished audit records.\<close>

definition dbo_enqueueable :: "database_operation_row \<Rightarrow> bool" where
  "dbo_enqueueable d \<longleftrightarrow>
     dbo_id d \<noteq> [] \<and> trim (dbo_id d) = dbo_id d \<and>
     (dbo_status d = ''queued'' \<and> dbo_completed_at d = [] \<or>
      terminal_status (dbo_status d) \<and> dbo_completed_at d \<noteq> [])"

lemma queue_wf_enqueue_db:
  assumes wf: "queue_wf s" and ok: "insertDatabaseOperationQueueRow i s = Inr s'"
    and en: "\<And>d. d \<in> set (database_operations s) \<Longrightarrow> dbo_id d = trim i \<Longrightarrow> dbo_enqueueable d"
  shows "queue_wf s'"
proof (cases "sql_get (\<lambda>x. dbo_id x = trim i) (database_operations s)")
  case None
  then show ?thesis using ok wf by (simp add: insertDatabaseOperationQueueRow_def)
next
  case (Some d)
  then have ins: "insert_operation (queue_row_of s d) s = Inr s'"
    using ok by (simp add: insertDatabaseOperationQueueRow_def)
  have d: "dbo_enqueueable d" using en sql_get_Some [OF Some] by blast
  have pct: "0 \<le> dbo_progress_percent d \<and> dbo_progress_percent d \<le> 100"
    using ins by (auto simp: insert_operation_def queue_row_of_def split: if_splits)
  have "op_row_wf (queue_row_of s d)"
    using d insert_operation_ok(3) [OF ins] pct
    by (auto simp: op_row_wf_def queue_row_of_def dbo_enqueueable_def terminal_status_def)
  moreover have "op_status (queue_row_of s d) \<noteq> ''running''"
    using d by (auto simp: queue_row_of_def dbo_enqueueable_def terminal_status_def)
  ultimately show ?thesis by (rule queue_wf_insert [OF wf ins])
qed

subsection \<open>Deployment writes leave the queue alone\<close>

lemma RecordDeploymentEvent_sel [simp]:
  "operations (RecordDeploymentEvent i st dt n s) = operations s"
  "database_operations (RecordDeploymentEvent i st dt n s) = database_operations s"
  "deployments (RecordDeploymentEvent i st dt n s) = deployments s"
  "services (RecordDeploymentEvent i st dt n s) = services s"
  by (simp_all add: RecordDeploymentEvent_def)

lemma deployment_writes_operations [simp]:
  "operations (snd (CreateServiceDeployment i nid now s)) = operations s"
  "operations (snd (UpdateDeploymentStatus did st msg now s)) = operations s"
  "operations (snd (CancelDeployment did now s)) = operations s"
  "database_operations (snd (CreateServiceDeployment i nid now s)) = database_operations s"
  "database_operations (snd (UpdateDeploymentStatus did st msg now s)) = database_operations s"
  "database_operations (snd (CancelDeployment did now s)) = database_operations s"
  by (simp_all add: CreateServiceDeployment_def UpdateDeploymentStatus_def CancelDeployment_def Let_def)

section \<open>Reachable stores\<close>

text \<open>
  One transaction of the queue or of the deployments, with any arguments and from any caller.
  Interleavings of workers and handlers are the sequences of these steps.
\<close>

inductive queue_tx :: "store \<Rightarrow> store \<Rightarrow> bool" where
  tx_enqueue: "noi_status i = [] \<or> noi_status i = ''queued'' \<Longrightarrow>
    queue_tx s (snd (EnqueueOperation i nid now s))"
| tx_claim: "queue_tx s (snd (ClaimNextOperation opts now s))"
| tx_renew: "queue_tx s (snd (RenewOperationLease oid owner lease now s))"
| tx_cancel: "queue_tx s (snd (RequestOperationCancellation oid now s))"
| tx_cancel_service: "queue_tx s (snd (RequestServiceOperationCancellation sid now s))"
| tx_defer: "queue_tx s (snd (DeferOperation oid owner d now s))"
| tx_complete: "queue_tx s (snd (CompleteOperation c now s))"
| tx_recover: "queue_tx s (snd (RecoverOperations now s))"

text \<open>\<open>newID\<close> returns hex digits, so trimming leaves it alone.\<close>

inductive deployment_tx :: "store \<Rightarrow> store \<Rightarrow> bool" where
  tx_create: "trim nid = nid \<Longrightarrow> deployment_tx s (snd (CreateServiceDeployment cd nid now s))"
| tx_update: "deployment_tx s (snd (UpdateDeploymentStatus did st msg now s))"
| tx_operator_cancel: "deployment_tx s (snd (CancelDeployment did now s))"

inductive queue_step :: "store \<Rightarrow> store \<Rightarrow> bool" where
  step_queue: "queue_tx s s' \<Longrightarrow> queue_step s s'"
| step_deployment: "deployment_tx s s' \<Longrightarrow> queue_step s s'"

inductive_cases queue_stepE: "queue_step s s'"
inductive_cases deployment_txE: "deployment_tx s s'"

lemma queue_wf_claim_any:
  assumes wf: "queue_wf s"
  shows "queue_wf (snd (ClaimNextOperation opts now s))"
proof (cases "trim (co_Owner opts) = [] \<or> co_Lease opts < int ns_per_sec")
  case True
  then show ?thesis using wf by (simp add: ClaimNextOperation_def Let_def)
next
  case False
  then have ok: "trim (co_Owner opts) \<noteq> []" "int ns_per_sec \<le> co_Lease opts" by auto
  show ?thesis
    unfolding ClaimNextOperation_eq [OF wf ok]
    using wf queue_wf_claim [OF wf ok(1)] by (simp split: option.split)
qed

lemmas queue_wf_ops =
  queue_wf_enqueue queue_wf_claim_any queue_wf_renew queue_wf_cancel queue_wf_service_cancel
  queue_wf_defer queue_wf_complete queue_wf_recover

lemma queue_wf_deployment_writes:
  "queue_wf (snd (CreateServiceDeployment i nid now s)) = queue_wf s"
  "queue_wf (snd (UpdateDeploymentStatus did st msg now s)) = queue_wf s"
  "queue_wf (snd (CancelDeployment did now s)) = queue_wf s"
  by (rule queue_wf_cong, simp)+

lemma queue_wf_tx: "queue_tx s s' \<Longrightarrow> queue_wf s \<Longrightarrow> queue_wf s'"
  by (induction rule: queue_tx.induct) (auto intro: queue_wf_ops)

lemma queue_wf_deployment_tx: "deployment_tx s s' \<Longrightarrow> queue_wf s' = queue_wf s"
  by (induction rule: deployment_tx.induct) (simp_all add: queue_wf_deployment_writes)

lemma queue_wf_step: "queue_step s s' \<Longrightarrow> queue_wf s \<Longrightarrow> queue_wf s'"
  by (auto elim: queue_stepE dest: queue_wf_tx queue_wf_deployment_tx)

interpretation queue_run: transactions queue_step queue_wf
  by unfold_locales (rule queue_wf_step)

end
