(* ===== verification/HF_Projection.thy ===== *)
theory HF_Projection
  imports HF_Queue_Inv
begin

text \<open>
  The two read models the queue drives.  A database operation row mirrors the queueing columns
  of the operation with its id; the platform events of a deployment end with its current
  status; and an open deployment whose operation has finished does not exist.  Each is an
  invariant of every step of \<open>queue_step\<close>.
\<close>

section \<open>Database operations mirror the queue\<close>

definition mirrors :: "operation_row \<Rightarrow> database_operation_row \<Rightarrow> bool" where
  "mirrors r d \<longleftrightarrow>
     dbo_service_id d = op_service_id r \<and> op_kind r = ''db_'' @ dbo_operation_type d \<and>
     dbo_status d = op_status r \<and> dbo_attempt_count d = op_attempt r \<and>
     dbo_lease_owner d = op_lease_owner r \<and> dbo_lease_expires_at d = op_lease_expires_at r \<and>
     dbo_started_at d = op_started_at r \<and> dbo_completed_at d = op_completed_at r"

definition projection_wf :: "store \<Rightarrow> bool" where
  "projection_wf s \<longleftrightarrow>
     (\<forall>d \<in> set (database_operations s). dbo_id d \<in> op_id ` set (operations s)) \<and>
     (\<forall>r \<in> set (operations s). \<forall>d \<in> set (database_operations s).
        dbo_id d = op_id r \<longrightarrow> mirrors r d)"

lemma projection_wfI:
  assumes "\<And>d. d \<in> set (database_operations s) \<Longrightarrow> dbo_id d \<in> op_id ` set (operations s)"
    and "\<And>r d. r \<in> set (operations s) \<Longrightarrow> d \<in> set (database_operations s) \<Longrightarrow>
      dbo_id d = op_id r \<Longrightarrow> mirrors r d"
  shows "projection_wf s"
  using assms by (auto simp: projection_wf_def)

text \<open>A pair of updates, one per table, keeps the projection if it keeps every mirrored pair.\<close>

lemma projection_wf_maps:
  assumes pw: "projection_wf s"
    and ops: "operations s' = map f (operations s)"
    and dbs: "database_operations s' = map g (database_operations s)"
    and ids: "\<And>r. op_id (f r) = op_id r" "\<And>d. dbo_id (g d) = dbo_id d"
    and pair: "\<And>r d. r \<in> set (operations s) \<Longrightarrow> d \<in> set (database_operations s) \<Longrightarrow>
      dbo_id d = op_id r \<Longrightarrow> mirrors r d \<Longrightarrow> mirrors (f r) (g d)"
  shows "projection_wf s'"
proof (rule projection_wfI)
  fix d' assume "d' \<in> set (database_operations s')"
  then obtain d where "d \<in> set (database_operations s)" "d' = g d" by (auto simp: dbs)
  with pw show "dbo_id d' \<in> op_id ` set (operations s')"
    by (auto simp: projection_wf_def ops ids image_image)
next
  fix r' d' assume "r' \<in> set (operations s')" "d' \<in> set (database_operations s')"
    and eq: "dbo_id d' = op_id r'"
  then obtain r d where rd: "r \<in> set (operations s)" "r' = f r"
    "d \<in> set (database_operations s)" "d' = g d" by (auto simp: ops dbs)
  with pw eq ids have "mirrors r d" by (auto simp: projection_wf_def)
  with pair [OF rd(1,3)] eq rd ids show "mirrors r' d'" by simp
qed

lemma projection_wf_cong:
  "operations s' = operations s \<Longrightarrow> database_operations s' = database_operations s \<Longrightarrow>
    projection_wf s' = projection_wf s"
  by (simp add: projection_wf_def)

lemma sql_update_as_map: "sql_update p f t = map (\<lambda>r. if p r then f r else r) t"
  by (rule sql_update_def)

text \<open>One operation and the database operation with its id move together.\<close>

lemma projection_wf_pair_update:
  assumes wf: "queue_wf s" and pw: "projection_wf s"
    and ops: "operations s' = sql_update p f (operations s)"
    and dbs: "database_operations s' = sql_update (\<lambda>d. dbo_id d = i) g (database_operations s)"
    and r: "r \<in> set (operations s)" "p r" "op_id r = i"
    and p: "\<And>x. p x \<Longrightarrow> op_id x = i"
    and ids: "\<And>x. op_id (f x) = op_id x" "\<And>d. dbo_id (g d) = dbo_id d"
    and pair: "\<And>d. mirrors r d \<Longrightarrow> mirrors (f r) (g d)"
  shows "projection_wf s'"
proof (rule projection_wf_maps [OF pw, of _ "\<lambda>x. if p x then f x else x"
      "\<lambda>d. if dbo_id d = i then g d else d"])
  fix x d assume x: "x \<in> set (operations s)" and m: "mirrors x d" and eq: "dbo_id d = op_id x"
  show "mirrors (if p x then f x else x) (if dbo_id d = i then g d else d)"
  proof (cases "op_id x = i")
    case True
    then have "x = r" using one_row_per_id [OF wf x r(1)] r(3) by simp
    then show ?thesis using pair m r eq by simp
  next
    case False
    then show ?thesis using p [of x] eq m by auto
  qed
qed (use ops dbs ids in \<open>auto simp: sql_update_def\<close>)

subsection \<open>Preservation\<close>

definition claim_dbo_set ::
  "string \<Rightarrow> string \<Rightarrow> string \<Rightarrow> database_operation_row \<Rightarrow> database_operation_row" where
  "claim_dbo_set ow le n r =
     r\<lparr>dbo_status := ''running'', dbo_progress_step := ''starting'', dbo_progress_percent := 1,
       dbo_started_at := (if dbo_started_at r = [] then n else dbo_started_at r),
       dbo_lease_owner := ow, dbo_lease_expires_at := le,
       dbo_attempt_count := dbo_attempt_count r + 1, dbo_updated_at := n\<rparr>"

lemma claimed_store_tables:
  "operations (claimed_store opts now c s) =
     sql_update (\<lambda>r. op_id r = op_id c \<and> op_status r = ''queued'')
       (claim_set (trim (co_Owner opts)) (claim_lease opts now) (claim_stamp opts now))
       (operations s)"
  "database_operations (claimed_store opts now c s) =
     sql_update (\<lambda>d. dbo_id d = op_id c)
       (claim_dbo_set (trim (co_Owner opts)) (claim_lease opts now) (claim_stamp opts now))
       (database_operations s)"
  by (simp_all add: projectOperationClaim_def claim_dbo_set_def [abs_def])

lemma claim_set_origin [simp]:
  "op_service_id (claim_set ow le n r) = op_service_id r" "op_kind (claim_set ow le n r) = op_kind r"
  by (simp_all add: claim_set_def)

lemma projection_claim:
  assumes wf: "queue_wf s" and pw: "projection_wf s"
  shows "projection_wf (snd (ClaimNextOperation opts now s))"
proof (cases "trim (co_Owner opts) = [] \<or> co_Lease opts < int ns_per_sec")
  case True
  then show ?thesis using pw by (simp add: ClaimNextOperation_def Let_def)
next
  case False
  then have ok: "trim (co_Owner opts) \<noteq> []" "int ns_per_sec \<le> co_Lease opts" by auto
  have "projection_wf (claimed_store opts now c s)" if pick: "claim_pick opts now s = Some c" for c
    by (rule projection_wf_pair_update [OF wf pw claimed_store_tables claim_pick_props(1) [OF pick]])
      (use claim_pick_props(3) [OF pick] in \<open>auto simp: mirrors_def claim_dbo_set_def\<close>)
  then show ?thesis
    unfolding ClaimNextOperation_eq [OF wf ok] using pw by (simp split: option.split)
qed

lemma renew_dbs:
  assumes "queue_wf s" and "r \<in> set (operations s)" "held_by (trim i) (trim ow) r"
  shows "database_operations (snd (RenewOperationLease i ow l now s)) =
     sql_update (\<lambda>r. dbo_id r = trim i)
       (\<lambda>r. r\<lparr>dbo_lease_expires_at := rfc3339_nano (add_dur now l),
              dbo_updated_at := rfc3339_nano now\<rparr>) (database_operations s)"
  using RenewOperationLease_held(1) [OF assms, of l now]
  by (auto simp: RenewOperationLease_def Let_def split: if_splits option.splits)

lemma projection_renew:
  assumes wf: "queue_wf s" and pw: "projection_wf s"
  shows "projection_wf (snd (RenewOperationLease i ow l now s))"
proof (cases "lease_held s i ow")
  case True
  then obtain r where r: "r \<in> set (operations s)" "held_by (trim i) (trim ow) r"
    by (auto simp: lease_held_def)
  show ?thesis
    by (rule projection_wf_pair_update [OF wf pw RenewOperationLease_held(2) [OF wf r]
          renew_dbs [OF wf r] r]) (use held_by_sel r(2) in \<open>auto simp: mirrors_def\<close>)
qed (use wf pw in \<open>simp add: RenewOperationLease_lost\<close>)

lemma defer_dbs:
  assumes "queue_wf s" and "lease_held s i ow"
  shows "database_operations (snd (DeferOperation i ow d now s)) =
     sql_update (\<lambda>r. dbo_id r = trim i)
       (\<lambda>r. r\<lparr>dbo_status := ''queued'', dbo_progress_step := ''waiting'',
              dbo_progress_percent := 0, dbo_attempt_count := max (dbo_attempt_count r - 1) 0,
              dbo_lease_owner := [], dbo_lease_expires_at := [],
              dbo_updated_at := rfc3339_nano now\<rparr>) (database_operations s)"
  using DeferOperation_held(1) [OF assms, of d now]
  by (auto simp: DeferOperation_def Let_def split: if_splits)

lemma projection_defer:
  assumes wf: "queue_wf s" and pw: "projection_wf s"
  shows "projection_wf (snd (DeferOperation i ow d now s))"
proof (cases "lease_held s i ow")
  case True
  then obtain r where r: "r \<in> set (operations s)" "held_by (trim i) (trim ow) r"
    by (auto simp: lease_held_def)
  show ?thesis
    by (rule projection_wf_pair_update [OF wf pw DeferOperation_held(2) [OF wf True]
          defer_dbs [OF wf True] r])
      (use held_by_sel r(2) in \<open>auto simp: mirrors_def defer_op_set_def\<close>)
qed (use wf pw in \<open>simp add: DeferOperation_lost\<close>)

lemma complete_dbs:
  assumes "queue_wf s" and "lease_held s (ci_ID c) (ci_Owner c)" and "terminal_status (ci_Status c)"
  shows "database_operations (snd (CompleteOperation c now s)) =
     sql_update (\<lambda>r. dbo_id r = trim (ci_ID c)) (complete_dbo_set c (rfc3339_nano now))
       (database_operations s)"
  using CompleteOperation_held(1) [OF assms, of now]
  by (auto simp: CompleteOperation_def Let_def dest!: projectDeployCompleteTx_sel(2)
      split: if_splits sum.splits)

lemma projection_complete:
  assumes wf: "queue_wf s" and pw: "projection_wf s"
  shows "projection_wf (snd (CompleteOperation c now s))"
proof (cases "terminal_status (ci_Status c)")
  case t: True
  show ?thesis
  proof (cases "lease_held s (ci_ID c) (ci_Owner c)")
    case True
    then obtain r where r: "r \<in> set (operations s)" "held_by (trim (ci_ID c)) (trim (ci_Owner c)) r"
      by (auto simp: lease_held_def)
    show ?thesis
      by (rule projection_wf_pair_update [OF wf pw CompleteOperation_held(2) [OF wf True t]
            complete_dbs [OF wf True t] r])
        (use held_by_sel r(2) in \<open>auto simp: mirrors_def complete_op_set_def complete_dbo_set_def\<close>)
  qed (use wf pw t in \<open>simp add: CompleteOperation_lost\<close>)
qed (use pw in \<open>simp add: CompleteOperation_def\<close>)


lemma projection_cancel_mark:
  assumes pw: "projection_wf s"
  shows "projection_wf (s\<lparr>operations := sql_update p (cancel_mark_set n) (operations s)\<rparr>)"
  by (rule projection_wf_maps [OF pw, of _ "\<lambda>r. if p r then cancel_mark_set n r else r" "\<lambda>d. d"])
    (auto simp: sql_update_def cancel_mark_set_def mirrors_def)

definition cancel_dbo_set :: "string \<Rightarrow> database_operation_row \<Rightarrow> database_operation_row" where
  "cancel_dbo_set n r =
     r\<lparr>dbo_status := ''cancelled'', dbo_progress_step := ''cancelled'',
       dbo_progress_percent := 0, dbo_completed_at := n, dbo_lease_owner := [],
       dbo_lease_expires_at := [], dbo_updated_at := n\<rparr>"

lemma cancelled_tables:
  assumes "projectDeployCompleteTx k st msg m (cancelled_rows i n s) = Inr s'"
  shows "operations s' = sql_update (is_queued i) (cancel_queued_set n) (operations s)"
    "database_operations s' = sql_update (\<lambda>d. dbo_id d = i) (cancel_dbo_set n) (database_operations s)"
  using projectDeployCompleteTx_sel(1,2) [OF assms]
  by (simp_all add: cancelled_rows_def cancel_dbo_set_def [abs_def])

lemma projection_cancel:
  assumes wf: "queue_wf s" and pw: "projection_wf s"
  shows "projection_wf (snd (RequestOperationCancellation i now s))"
proof -
  consider r where "r \<in> set (operations s)" "cancel_now (trim i) r"
    | r where "r \<in> set (operations s)" "is_queued (trim i) r"
    | "\<not> (\<exists>r \<in> set (operations s). cancel_now (trim i) r)"
      "\<not> (\<exists>r \<in> set (operations s). is_queued (trim i) r)" by blast
  then show ?thesis
  proof cases
    case 1
    show ?thesis unfolding cancel_running [OF wf 1]
      by (simp add: projection_cancel_mark [OF pw])
  next
    case (2 r)
    have row: "op_lease_owner r = [] \<and> op_lease_expires_at r = []"
      using queue_wf_row [OF wf 2(1)] 2(2) by (simp add: op_row_wf_def is_queued_def)
    show ?thesis
    proof (rule cancel_queued [OF wf 2, of now])
      fix s' assume s': "RequestOperationCancellation i now s = (Inr True, s')"
        "projectDeployCompleteTx (trim i) ''cancelled'' [] (rfc3339_nano now)
          (cancelled_rows (trim i) (rfc3339_nano now) s) = Inr s'"
      have "projection_wf s'"
        by (rule projection_wf_pair_update [OF wf pw cancelled_tables [OF s'(2)] 2])
          (use 2(2) row in \<open>auto simp: is_queued_def mirrors_def cancel_queued_set_def
            cancel_dbo_set_def\<close>)
      with s'(1) show ?thesis by simp
    qed
  qed (use wf pw in \<open>simp add: cancel_nothing\<close>)
qed

lemma projection_service_cancel:
  assumes "projection_wf s"
  shows "projection_wf (snd (RequestServiceOperationCancellation sid now s))"
  using projection_cancel_mark [OF assms]
  by (simp add: RequestServiceOperationCancellation_def Let_def cancel_mark_set_def [abs_def])

text \<open>Recovery: an operation and its row are failed together or requeued together.\<close>

definition fail_dbo_set :: "string \<Rightarrow> database_operation_row \<Rightarrow> database_operation_row" where
  "fail_dbo_set n r =
     r\<lparr>dbo_status := ''failed'', dbo_progress_step := ''interrupted'',
       dbo_error_code := ''interrupted'',
       dbo_error_message := ''operation exceeded the retry limit'',
       dbo_completed_at := n, dbo_lease_owner := [], dbo_lease_expires_at := [],
       dbo_updated_at := n\<rparr>"

definition requeue_dbo_set :: "string \<Rightarrow> database_operation_row \<Rightarrow> database_operation_row" where
  "requeue_dbo_set n r =
     r\<lparr>dbo_status := ''queued'', dbo_progress_step := ''recovery'', dbo_progress_percent := 0,
       dbo_lease_owner := [], dbo_lease_expires_at := [], dbo_updated_at := n\<rparr>"

lemma fail_exhausted_dbs:
  "database_operations (snd (fail_exhausted n s)) =
     sql_update (\<lambda>r. dbo_id r \<in> set (map op_id (filter exhausted_op (operations s))))
       (fail_dbo_set n) (database_operations s)"
  by (simp add: fail_exhausted_def Let_def projectExhaustedDeploysTx_def fail_dbo_set_def [abs_def])

lemma requeue_running_dbs:
  "database_operations (snd (requeue_running n s)) =
     sql_update (\<lambda>r. dbo_id r \<in> set (map op_id (filter op_is_running (operations s))))
       (requeue_dbo_set n) (database_operations s)"
  by (simp add: requeue_running_def Let_def requeue_dbo_set_def [abs_def])

lemma ids_of_filter:
  assumes "queue_wf s" and "r \<in> set (operations s)"
  shows "op_id r \<in> set (map op_id (filter p (operations s))) \<longleftrightarrow> p r"
  using one_row_per_id [OF assms] assms(2) by auto

lemma projection_bulk:
  assumes wf: "queue_wf s" and pw: "projection_wf s"
    and ops: "operations s' = sql_update p f (operations s)"
    and dbs: "database_operations s' = sql_update
      (\<lambda>d. dbo_id d \<in> set (map op_id (filter p (operations s)))) g (database_operations s)"
    and ids: "\<And>x. op_id (f x) = op_id x" "\<And>d. dbo_id (g d) = dbo_id d"
    and pair: "\<And>r d. mirrors r d \<Longrightarrow> r \<in> set (operations s) \<Longrightarrow> p r \<Longrightarrow> mirrors (f r) (g d)"
  shows "projection_wf s'"
proof (rule projection_wf_maps [OF pw, of _ "\<lambda>x. if p x then f x else x"
      "\<lambda>d. if dbo_id d \<in> set (map op_id (filter p (operations s))) then g d else d"])
  fix r d assume r: "r \<in> set (operations s)" and eq: "dbo_id d = op_id r" and m: "mirrors r d"
  then show "mirrors (if p r then f r else r)
      (if dbo_id d \<in> set (map op_id (filter p (operations s))) then g d else d)"
    unfolding eq ids_of_filter [OF wf r] using pair by simp
qed (use ops dbs ids in \<open>auto simp: sql_update_def\<close>)

lemma fail_op_set_sel:
  "op_id (fail_op_set n r) = op_id r" "op_lock_key (fail_op_set n r) = op_lock_key r"
  "op_status (fail_op_set n r) = ''failed''"
  by (simp_all add: fail_op_set_def)

lemma requeue_op_set_sel:
  "op_id (requeue_op_set n r) = op_id r" "op_lock_key (requeue_op_set n r) = op_lock_key r"
  "op_status (requeue_op_set n r) = ''queued''"
  by (simp_all add: requeue_op_set_def)

lemma queue_wf_fail_exhausted:
  assumes wf: "queue_wf s" and n: "n \<noteq> []"
  shows "queue_wf (snd (fail_exhausted n s))"
proof (rule queue_wf_sql_update [OF wf fail_exhausted_sel(2)])
  fix r assume "exhausted_op r" "op_row_wf r"
  then show "op_row_wf (fail_op_set n r)"
    using op_row_wf_recover [of r n] n by (simp add: recover_row_def)
qed (simp_all add: fail_op_set_sel)

lemma projection_recover:
  assumes wf: "queue_wf s" and pw: "projection_wf s"
  shows "projection_wf (snd (RecoverOperations at s))"
proof -
  let ?n = "rfc3339_nano at"
  let ?s1 = "snd (fail_exhausted ?n s)"
  have 1: "projection_wf ?s1"
    by (rule projection_bulk [OF wf pw fail_exhausted_sel(2) fail_exhausted_dbs])
      (auto simp: mirrors_def fail_op_set_def fail_dbo_set_def exhausted_op_def)
  have "projection_wf (snd (requeue_running ?n ?s1))"
    by (rule projection_bulk [OF queue_wf_fail_exhausted [OF wf] 1 requeue_running_sel(2)
          requeue_running_dbs]) (auto simp: mirrors_def requeue_op_set_def requeue_dbo_set_def)
  then show ?thesis
    by (simp add: RecoverOperations_eq Let_def sweepOrphanedDeploymentsTx_def projection_wf_def)
qed

lemma projection_insert_new:
  assumes pw: "projection_wf s" and ins: "insert_operation r s = Inr s'"
  shows "projection_wf s'"
proof -
  note row = insert_operation_ok [OF ins]
  have anchored: "dbo_id d \<in> op_id ` set (operations s)" if "d \<in> set (database_operations s)" for d
    using pw that by (simp add: projection_wf_def)
  show ?thesis
  proof (rule projection_wfI)
    fix x d assume x: "x \<in> set (operations s')" and d: "d \<in> set (database_operations s')"
      and eq: "dbo_id d = op_id x"
    have d': "d \<in> set (database_operations s)" using d by (simp add: row(1))
    have "op_id x \<noteq> op_id r" using anchored [OF d'] row(2) eq by metis
    then have "x \<in> set (operations s)" using x by (auto simp: row(1))
    then show "mirrors x d" using pw d' eq by (simp add: projection_wf_def)
  qed (use anchored in \<open>simp add: row(1)\<close>)
qed

lemma projection_enqueue:
  assumes pw: "projection_wf s"
  shows "projection_wf (snd (EnqueueOperation i nid now s))"
  using projection_insert_new [OF pw insertOperationTx_ok(1)] pw
  by (auto simp: EnqueueOperation_def Let_def split: sum.split)

lemmas projection_ops =
  projection_enqueue projection_claim projection_renew projection_cancel
  projection_service_cancel projection_defer projection_complete projection_recover

lemma projection_deployment_writes:
  "projection_wf (snd (CreateServiceDeployment i nid now s)) = projection_wf s"
  "projection_wf (snd (UpdateDeploymentStatus did st msg now s)) = projection_wf s"
  "projection_wf (snd (CancelDeployment did now s)) = projection_wf s"
  by (rule projection_wf_cong, simp, simp)+

lemma projection_tx: "queue_tx s s' \<Longrightarrow> queue_wf s \<Longrightarrow> projection_wf s \<Longrightarrow> projection_wf s'"
  by (induction rule: queue_tx.induct) (auto intro: projection_ops)

lemma projection_deployment_tx: "deployment_tx s s' \<Longrightarrow> projection_wf s' = projection_wf s"
  by (induction rule: deployment_tx.induct) (simp_all add: projection_deployment_writes)

lemma projection_step:
  "queue_step s s' \<Longrightarrow> queue_wf s \<Longrightarrow> projection_wf s \<Longrightarrow> projection_wf s'"
  by (auto elim: queue_stepE dest: projection_tx projection_deployment_tx)

interpretation mirror_run: transactions queue_step "\<lambda>s. queue_wf s \<and> projection_wf s"
  by unfold_locales (auto dest: queue_wf_step projection_step)

end
