(* ===== verification/HF_Timeline.thy ===== *)
theory HF_Timeline
  imports HF_Projection
begin

text \<open>
  The event timeline of deployments and the guarantee that no open deployment is left behind.
  Every write of a deployment status records its event in the same step, so the last event of a
  deployment names its current status; a queue transaction never touches a terminal deployment
  and never leaves an open one whose operation has finished.
\<close>

section \<open>The event timeline of a deployment\<close>

definition events_of :: "string \<Rightarrow> platform_event_row list \<Rightarrow> platform_event_row list" where
  "events_of did es =
     filter (\<lambda>e. pe_deployment_id e = did \<and> pe_event_type e = ''deployment'') es"

definition has_service :: "store \<Rightarrow> deployment_row \<Rightarrow> bool" where
  "has_service s d \<longleftrightarrow> sql_exists (\<lambda>v. svc_id v = dep_service_id d) (services s)"

definition deps_wf :: "store \<Rightarrow> bool" where
  "deps_wf s \<longleftrightarrow> distinct (map dep_id (deployments s))"

definition timeline_ok :: "store \<Rightarrow> bool" where
  "timeline_ok s \<longleftrightarrow>
     (\<forall>d \<in> set (deployments s). has_service s d \<longrightarrow>
        events_of (dep_id d) (platform_events s) \<noteq> [] \<and>
        pe_status (last (events_of (dep_id d) (platform_events s))) = dep_status d)"

lemma events_of_append: "events_of i (es @ fs) = events_of i es @ events_of i fs"
  by (simp add: events_of_def)

lemma set_events_of:
  "e \<in> set (events_of i es) \<longleftrightarrow> e \<in> set es \<and> pe_deployment_id e = i \<and> pe_event_type e = ''deployment''"
  by (auto simp: events_of_def)

text \<open>
  A guarded status write with its events keeps the timeline: every new event carries the new
  status and belongs to a row the write selected, and every selected row with a service gets one.
\<close>

lemma timeline_update:
  assumes tl: "timeline_ok s" and dw: "deps_wf s"
    and deps: "deployments s' = sql_update p f (deployments s)"
    and svcs: "services s' = services s"
    and evs: "platform_events s' = platform_events s @ evs"
    and f: "\<And>d. dep_id (f d) = dep_id d \<and> dep_service_id (f d) = dep_service_id d \<and>
      dep_status (f d) = st"
    and E1: "\<And>e. e \<in> set evs \<Longrightarrow> pe_status e = st \<and>
      (\<exists>d \<in> set (deployments s). p d \<and> dep_id d = pe_deployment_id e)"
    and E2: "\<And>d. d \<in> set (deployments s) \<Longrightarrow> p d \<Longrightarrow> has_service s d \<Longrightarrow>
      \<exists>e \<in> set evs. pe_deployment_id e = dep_id d \<and> pe_event_type e = ''deployment''"
  shows "timeline_ok s'"
  unfolding timeline_ok_def
proof (intro ballI impI)
  fix d' assume d': "d' \<in> set (deployments s')" and hs: "has_service s' d'"
  from d' obtain d where d: "d \<in> set (deployments s)" and eq: "d' = (if p d then f d else d)"
    by (auto simp: deps set_sql_update)
  have ids: "dep_id d' = dep_id d" "has_service s d" using eq f hs
    by (auto simp: has_service_def svcs split: if_splits)
  let ?new = "events_of (dep_id d) evs"
  show "events_of (dep_id d') (platform_events s') \<noteq> [] \<and>
      pe_status (last (events_of (dep_id d') (platform_events s'))) = dep_status d'"
  proof (cases "p d")
    case True
    then have "?new \<noteq> []" using E2 [OF d True ids(2)] by (auto simp: events_of_def filter_empty_conv)
    moreover from this have "pe_status (last ?new) = st"
      using E1 last_in_set [of ?new] set_events_of by metis
    ultimately show ?thesis using True eq f ids by (simp add: evs events_of_append)
  next
    case False
    have "?new = []"
    proof (rule ccontr)
      assume "?new \<noteq> []"
      then obtain e where "e \<in> set evs" "pe_deployment_id e = dep_id d"
        by (auto simp: events_of_def filter_empty_conv)
      with E1 obtain x where "x \<in> set (deployments s)" "p x" "dep_id x = dep_id d" by metis
      with distinct_key_eq [of dep_id "deployments s" x d] dw d False show False
        by (auto simp: deps_wf_def)
    qed
    then show ?thesis
      using False eq tl d ids by (simp add: evs events_of_append timeline_ok_def)
  qed
qed

lemma set_joined_events:
  "e \<in> set (joined_events p st dt n s) \<longleftrightarrow>
     (\<exists>d \<in> set (deployments s). \<exists>v \<in> set (services s). p d \<and> svc_id v = dep_service_id d \<and>
        e = deployment_event st dt n d (svc_application_id v))"
  by (auto simp: joined_events_def)

lemma deployment_event_sel [simp]:
  "pe_status (deployment_event st dt n d a) = st"
  "pe_deployment_id (deployment_event st dt n d a) = dep_id d"
  "pe_event_type (deployment_event st dt n d a) = ''deployment''"
  by (simp_all add: deployment_event_def)


lemma timeline_cong:
  "deployments s' = deployments s \<Longrightarrow> services s' = services s \<Longrightarrow>
    platform_events s' = platform_events s \<Longrightarrow>
    timeline_ok s' = timeline_ok s \<and> deps_wf s' = deps_wf s"
  by (simp add: timeline_ok_def deps_wf_def has_service_def)

text \<open>The shape all the guarded single-row transitions share.\<close>

definition guarded_transition ::
  "(deployment_row \<Rightarrow> bool) \<Rightarrow> (deployment_row \<Rightarrow> deployment_row) \<Rightarrow> string \<Rightarrow> string \<Rightarrow> string \<Rightarrow>
    string \<Rightarrow> store \<Rightarrow> store" where
  "guarded_transition p f i st dt n s =
     (if sql_count p (deployments s) = 0
      then s\<lparr>deployments := sql_update p f (deployments s)\<rparr>
      else recordDeploymentStatusEventTx i st dt n
             (s\<lparr>deployments := sql_update p f (deployments s)\<rparr>))"

lemma guarded_transition_sel:
  "operations (guarded_transition p f i st dt n s) = operations s"
  "services (guarded_transition p f i st dt n s) = services s"
  "deployments (guarded_transition p f i st dt n s) = sql_update p f (deployments s)"
  by (simp_all add: guarded_transition_def)

lemma guarded_transition_events:
  "platform_events (guarded_transition p f i st dt n s) = platform_events s @
     (if sql_count p (deployments s) = 0 then []
      else joined_events (\<lambda>d. dep_id d = i) st dt n (s\<lparr>deployments := sql_update p f (deployments s)\<rparr>))"
  by (simp add: guarded_transition_def recordDeploymentStatusEventTx_def)

lemma timeline_guarded:
  assumes tl: "timeline_ok s" and dw: "deps_wf s"
    and p: "\<And>d. p d \<Longrightarrow> dep_id d = i"
    and f: "\<And>d. dep_id (f d) = dep_id d \<and> dep_service_id (f d) = dep_service_id d \<and>
      dep_status (f d) = st"
  shows "timeline_ok (guarded_transition p f i st dt n s)"
proof (rule timeline_update [OF tl dw guarded_transition_sel(3,2) guarded_transition_events f])
  fix e assume e: "e \<in> set (if sql_count p (deployments s) = 0 then []
    else joined_events (\<lambda>d. dep_id d = i) st dt n (s\<lparr>deployments := sql_update p f (deployments s)\<rparr>))"
  then obtain x where x: "x \<in> set (deployments s)" "p x"
    by (auto simp: sql_count_eq_0 split: if_splits)
  show "pe_status e = st \<and> (\<exists>d \<in> set (deployments s). p d \<and> dep_id d = pe_deployment_id e)"
    using e x p by (auto simp: set_joined_events split: if_splits intro!: bexI [OF _ x(1)])
next
  fix d assume d: "d \<in> set (deployments s)" "p d" "has_service s d"
  then have n0: "sql_count p (deployments s) \<noteq> 0" by (auto simp: sql_count_eq_0)
  from d(3) obtain v where v: "v \<in> set (services s)" "svc_id v = dep_service_id d"
    by (auto simp: has_service_def)
  have "f d \<in> set (sql_update p f (deployments s))"
    using d by (auto simp: set_sql_update intro!: image_eqI [of _ _ d])
  then have ev: "deployment_event st dt n (f d) (svc_application_id v) \<in>
      set (joined_events (\<lambda>d. dep_id d = i) st dt n (s\<lparr>deployments := sql_update p f (deployments s)\<rparr>))"
    unfolding set_joined_events using v f [of d] p [OF d(2)]
    by (intro bexI [of _ "f d"] bexI [of _ v]) simp_all
  show "\<exists>e \<in> set (if sql_count p (deployments s) = 0 then [] else joined_events
      (\<lambda>d. dep_id d = i) st dt n (s\<lparr>deployments := sql_update p f (deployments s)\<rparr>)).
      pe_deployment_id e = dep_id d \<and> pe_event_type e = ''deployment''"
    unfolding if_not_P [OF n0] by (rule bexI [OF _ ev]) (use f [of d] in simp)
qed

lemma deps_wf_sql_update:
  "deps_wf s \<Longrightarrow> deployments s' = sql_update p f (deployments s) \<Longrightarrow>
    (\<And>d. dep_id (f d) = dep_id d) \<Longrightarrow> deps_wf s'"
  by (simp add: deps_wf_def map_sql_update)

lemma projectDeployClaimTx_guarded:
  "projectDeployClaimTx i n s = guarded_transition
     (\<lambda>d. dep_id d = i \<and> dep_status d = DeploymentQueued)
     (\<lambda>d. d\<lparr>dep_status := DeploymentBuilding, dep_updated_at := n\<rparr>) i DeploymentBuilding [] n s"
  by (simp add: projectDeployClaimTx_def guarded_transition_def)

lemma projectDeployDeferTx_guarded:
  "projectDeployDeferTx i n s = guarded_transition
     (\<lambda>d. dep_id d = i \<and> dep_status d = DeploymentBuilding)
     (\<lambda>d. d\<lparr>dep_status := DeploymentQueued, dep_updated_at := n\<rparr>) i DeploymentQueued [] n s"
  by (simp add: projectDeployDeferTx_def guarded_transition_def)

lemma projectDeployCompleteTx_guarded:
  "projectDeployCompleteTx i st msg n s =
     (case deploy_status_of st of
        None \<Rightarrow> Inl (Errorf ''project deploy complete: invalid status %q'' [st])
      | Some ds \<Rightarrow> Inr (guarded_transition (\<lambda>d. dep_id d = i \<and> dep_open d)
          (deploy_complete_set ds msg n) i ds msg n s))"
  by (simp add: projectDeployCompleteTx_def guarded_transition_def Let_def split: option.split)

lemma deploy_complete_set_sel [simp]:
  "dep_id (deploy_complete_set ds msg n d) = dep_id d"
  "dep_service_id (deploy_complete_set ds msg n d) = dep_service_id d"
  "dep_status (deploy_complete_set ds msg n d) = ds"
  by (simp_all add: deploy_complete_set_def)

definition timeline_wf :: "store \<Rightarrow> bool" where
  "timeline_wf s \<longleftrightarrow> deps_wf s \<and> timeline_ok s"

lemma timeline_wf_cong:
  "deployments s' = deployments s \<Longrightarrow> services s' = services s \<Longrightarrow>
    platform_events s' = platform_events s \<Longrightarrow> timeline_wf s \<Longrightarrow> timeline_wf s'"
  using timeline_cong [of s' s] by (simp add: timeline_wf_def)

lemma timeline_wf_guarded:
  assumes "timeline_wf s" and "\<And>d. p d \<Longrightarrow> dep_id d = i"
    and "\<And>d. dep_id (f d) = dep_id d \<and> dep_service_id (f d) = dep_service_id d \<and> dep_status (f d) = st"
  shows "timeline_wf (guarded_transition p f i st dt n s)"
proof -
  have "deps_wf (guarded_transition p f i st dt n s)"
    by (rule deps_wf_sql_update [OF _ guarded_transition_sel(3)])
      (use assms(1,3) in \<open>simp_all add: timeline_wf_def\<close>)
  with timeline_guarded [of s p i f st dt n] assms show ?thesis by (simp add: timeline_wf_def)
qed

lemma timeline_project:
  assumes "timeline_wf s"
  shows "timeline_wf (projectDeployClaimTx i n s)" "timeline_wf (projectDeployDeferTx i n s)"
    "projectDeployCompleteTx i st msg n s = Inr s' \<Longrightarrow> timeline_wf s'"
proof -
  show "timeline_wf (projectDeployClaimTx i n s)" "timeline_wf (projectDeployDeferTx i n s)"
    unfolding projectDeployClaimTx_guarded projectDeployDeferTx_guarded
    by (rule timeline_wf_guarded [OF assms]; simp)+
  have "timeline_wf (guarded_transition (\<lambda>d. dep_id d = i \<and> dep_open d)
      (deploy_complete_set ds msg n) i ds msg n s)" for ds
    by (rule timeline_wf_guarded [OF assms]; simp)
  then show "projectDeployCompleteTx i st msg n s = Inr s' \<Longrightarrow> timeline_wf s'"
    by (auto simp: projectDeployCompleteTx_guarded split: option.splits)
qed


section \<open>Every step keeps the timeline\<close>

lemma timeline_wf_upd [simp]:
  "timeline_wf (s\<lparr>operations := a\<rparr>) = timeline_wf s"
  "timeline_wf (s\<lparr>database_operations := b\<rparr>) = timeline_wf s"
  "timeline_wf (s\<lparr>operations := a, database_operations := b\<rparr>) = timeline_wf s"
  "timeline_wf (companions w ids st n s) = timeline_wf s"
  "timeline_wf (projectOperationClaim i ow le n s) = timeline_wf s"
  by (simp_all add: timeline_wf_def deps_wf_def timeline_ok_def has_service_def)

lemma timeline_enqueue: "timeline_wf s \<Longrightarrow> timeline_wf (snd (EnqueueOperation i nid now s))"
  by (auto simp: EnqueueOperation_def insertOperationTx_def insert_operation_def Let_def
      split: sum.split if_splits)

lemma timeline_claim: "timeline_wf s \<Longrightarrow> timeline_wf (snd (ClaimNextOperation opts now s))"
  by (auto simp: ClaimNextOperation_def Let_def timeline_project split: option.split)

lemma timeline_renew: "timeline_wf s \<Longrightarrow> timeline_wf (snd (RenewOperationLease i ow l now s))"
  by (auto simp: RenewOperationLease_def Let_def split: option.split)

lemma timeline_defer: "timeline_wf s \<Longrightarrow> timeline_wf (snd (DeferOperation i ow d now s))"
  by (auto simp: DeferOperation_def Let_def timeline_project)

lemma timeline_complete: "timeline_wf s \<Longrightarrow> timeline_wf (snd (CompleteOperation c now s))"
  by (auto simp: CompleteOperation_def Let_def split: sum.split dest: timeline_project(3) [rotated])

lemma timeline_cancel: "timeline_wf s \<Longrightarrow> timeline_wf (snd (RequestOperationCancellation i now s))"
  by (auto simp: RequestOperationCancellation_def Let_def split: sum.split
      dest: timeline_project(3) [rotated])

lemma timeline_service_cancel:
  "timeline_wf s \<Longrightarrow> timeline_wf (snd (RequestServiceOperationCancellation i now s))"
  by (simp add: RequestServiceOperationCancellation_def Let_def)

lemma timeline_fail_interrupted:
  assumes "timeline_wf s"
  shows "timeline_wf (snd (fail_interrupted p n s))"
proof -
  have dw: "deps_wf (snd (fail_interrupted p n s))"
    by (rule deps_wf_sql_update [OF _ fail_interrupted_deployments])
      (use assms in \<open>simp_all add: timeline_wf_def\<close>)
  have ev: "platform_events (snd (fail_interrupted p n s)) =
      platform_events s @ joined_events p DeploymentFailed ''interrupted'' n s"
    by (simp add: fail_interrupted_def Let_def)
  have "timeline_ok (snd (fail_interrupted p n s))"
  proof (rule timeline_update [OF _ _ fail_interrupted_deployments fail_interrupted_sel(3) ev])
    fix d assume d: "d \<in> set (deployments s)" "p d" "has_service s d"
    then obtain v where "v \<in> set (services s)" "svc_id v = dep_service_id d"
      by (auto simp: has_service_def)
    with d have "deployment_event DeploymentFailed ''interrupted'' n d (svc_application_id v) \<in>
        set (joined_events p DeploymentFailed ''interrupted'' n s)"
      by (auto simp: set_joined_events)
    then show "\<exists>e \<in> set (joined_events p DeploymentFailed ''interrupted'' n s).
        pe_deployment_id e = dep_id d \<and> pe_event_type e = ''deployment''"
      by (rule bexI [rotated]) simp
  qed (use assms in \<open>auto simp: timeline_wf_def set_joined_events\<close>)
  with dw show ?thesis by (simp add: timeline_wf_def)
qed

lemma timeline_recover: "timeline_wf s \<Longrightarrow> timeline_wf (snd (RecoverOperations at s))"
  by (simp add: RecoverOperations_eq Let_def sweepOrphanedDeploymentsTx_def requeue_running_def
      fail_exhausted_def projectExhaustedDeploysTx_def timeline_fail_interrupted)

lemma timeline_update_status:
  assumes "timeline_wf s"
  shows "timeline_wf (snd (UpdateDeploymentStatus did st msg now s))"
proof -
  let ?p = "\<lambda>d. dep_id d = trim did \<and> dep_status d \<noteq> DeploymentCancelled"
  let ?f = "\<lambda>d. d\<lparr>dep_status := st, dep_error_message := trim msg, dep_updated_at := rfc3339 now\<rparr>"
  have "timeline_wf (guarded_transition ?p ?f (trim did) st (trim msg) (rfc3339 now) s)"
    by (rule timeline_wf_guarded [OF assms]) simp_all
  then show ?thesis
    using assms
    by (auto simp: UpdateDeploymentStatus_def Let_def guarded_transition_def split: if_splits)
qed

text \<open>\<open>RecordDeploymentEvent\<close> as an append of events that carry the status it is given.\<close>

definition left_events :: "string \<Rightarrow> string \<Rightarrow> instant \<Rightarrow> store \<Rightarrow> deployment_row \<Rightarrow> platform_event_row list" where
  "left_events status detail now s d =
     (let svcs = filter (\<lambda>svc. svc_id svc = dep_service_id d) (services s);
          ev = deployment_event (trim status) (trim detail) (rfc3339 now) d
      in if svcs = [] then [ev []] else map (\<lambda>svc. ev (svc_application_id svc)) svcs)"

definition left_joined_events :: "string \<Rightarrow> string \<Rightarrow> string \<Rightarrow> instant \<Rightarrow> store \<Rightarrow> platform_event_row list" where
  "left_joined_events did status detail now s =
     concat (map (left_events status detail now s)
       (filter (\<lambda>d. dep_id d = trim did) (deployments s)))"

lemma RecordDeploymentEvent_events:
  "platform_events (RecordDeploymentEvent did st dt now s) =
     platform_events s @ left_joined_events did st dt now s"
  by (simp add: RecordDeploymentEvent_def left_joined_events_def left_events_def [abs_def])

lemma left_events_not_Nil: "left_events st dt now s d \<noteq> []"
  by (simp add: left_events_def Let_def)

lemma left_events_props:
  "e \<in> set (left_events st dt now s d) \<Longrightarrow>
     pe_status e = trim st \<and> pe_deployment_id e = dep_id d \<and> pe_event_type e = ''deployment''"
  by (auto simp: left_events_def Let_def split: if_splits)

lemma left_joined_events_props:
  "e \<in> set (left_joined_events did st dt now s) \<Longrightarrow>
     pe_status e = trim st \<and> pe_deployment_id e = trim did \<and> pe_event_type e = ''deployment'' \<and>
     (\<exists>d \<in> set (deployments s). dep_id d = trim did)"
  by (auto simp: left_joined_events_def dest: left_events_props)

lemma left_joined_events_some:
  assumes "d \<in> set (deployments s)" and "dep_id d = trim did"
  shows "\<exists>e \<in> set (left_joined_events did st dt now s).
    pe_deployment_id e = dep_id d \<and> pe_event_type e = ''deployment''"
proof -
  obtain e where e: "e \<in> set (left_events st dt now s d)"
    using left_events_not_Nil [of st dt now s d] by (meson list.set_sel(1))
  then have "e \<in> set (left_joined_events did st dt now s)"
    using assms by (auto simp: left_joined_events_def)
  with left_events_props [OF e] show ?thesis by blast
qed

lemma timeline_operator_cancel:
  assumes tw: "timeline_wf s"
  shows "timeline_wf (snd (CancelDeployment did now s))"
proof -
  let ?p = "\<lambda>d. dep_id d = trim did \<and> dep_open d"
  let ?f = "\<lambda>d. d\<lparr>dep_status := DeploymentCancelled, dep_cancelled_at := rfc3339 now,
    dep_updated_at := rfc3339 now\<rparr>"
  let ?s1 = "s\<lparr>deployments := sql_update ?p ?f (deployments s)\<rparr>"
  let ?r = "RecordDeploymentEvent did DeploymentCancelled ''cancelled by operator'' now ?s1"
  have tl: "timeline_ok s" "deps_wf s" using tw by (simp_all add: timeline_wf_def)
  have one: "sql_count ?p (deployments s) = 1 \<longleftrightarrow> (\<exists>d \<in> set (deployments s). ?p d)"
    using sql_count_key_1 [of dep_id "deployments s" ?p "trim did"] tl(2) by (simp add: deps_wf_def)
  show ?thesis
  proof (cases "\<exists>d \<in> set (deployments s). ?p d")
    case False
    have "sql_update ?p ?f (deployments s) = deployments s"
      by (rule sql_update_id) (use False in blast)
    then show ?thesis using one False tw by (simp add: CancelDeployment_def Let_def)
  next
    case True
    then obtain d0 where d0: "d0 \<in> set (deployments s)" "?p d0" by blast
    have deps: "deployments ?r = sql_update ?p ?f (deployments s)" by simp
    have evs: "platform_events ?r = platform_events s @ left_joined_events did DeploymentCancelled
        ''cancelled by operator'' now ?s1"
      by (simp add: RecordDeploymentEvent_events)
    have "timeline_ok ?r"
    proof (rule timeline_update [OF tl deps _ evs])
      fix e assume "e \<in> set (left_joined_events did DeploymentCancelled ''cancelled by operator'' now ?s1)"
      from left_joined_events_props [OF this]
      have "pe_status e = trim DeploymentCancelled" "pe_deployment_id e = trim did" by simp_all
      moreover have "trim DeploymentCancelled = DeploymentCancelled" by code_simp
      ultimately show "pe_status e = DeploymentCancelled \<and>
          (\<exists>d \<in> set (deployments s). ?p d \<and> dep_id d = pe_deployment_id e)"
        using d0 by auto
    next
      fix d assume d: "d \<in> set (deployments s)" "?p d"
      then have "?f d \<in> set (deployments ?s1)"
        by (auto simp: set_sql_update intro!: image_eqI [of _ _ d])
      from left_joined_events_some [OF this] d(2)
      show "\<exists>e \<in> set (left_joined_events did DeploymentCancelled ''cancelled by operator'' now ?s1).
          pe_deployment_id e = dep_id d \<and> pe_event_type e = ''deployment''" by simp
    qed simp_all
    moreover have "deps_wf ?r"
      by (rule deps_wf_sql_update [OF tl(2) deps]) simp
    moreover have "snd (CancelDeployment did now s) = ?r"
      using True one by (simp add: CancelDeployment_def Let_def)
    ultimately show ?thesis by (simp add: timeline_wf_def)
  qed
qed


lemma CreateServiceDeployment_ok:
  assumes "fst (CreateServiceDeployment i nid now s) = Inr d"
  shows "snd (CreateServiceDeployment i nid now s) =
      RecordDeploymentEvent nid DeploymentQueued [] now (s\<lparr>deployments := deployments s @ [d]\<rparr>)"
    "dep_id d = nid" "dep_status d = DeploymentQueued" "nid \<notin> dep_id ` set (deployments s)"
  using assms
  by (auto simp: CreateServiceDeployment_def Let_def split: if_splits)

lemma CreateServiceDeployment_err:
  "fst (CreateServiceDeployment i nid now s) = Inl e \<Longrightarrow> snd (CreateServiceDeployment i nid now s) = s"
  by (auto simp: CreateServiceDeployment_def Let_def split: if_splits)

lemma timeline_create:
  assumes tw: "timeline_wf s" and nid: "trim nid = nid"
  shows "timeline_wf (snd (CreateServiceDeployment i nid now s))"
proof (cases "fst (CreateServiceDeployment i nid now s)")
  case (Inl e)
  then show ?thesis using tw by (simp add: CreateServiceDeployment_err)
next
  case (Inr d)
  note c = CreateServiceDeployment_ok [OF Inr]
  let ?s1 = "s\<lparr>deployments := deployments s @ [d]\<rparr>"
  let ?new = "left_joined_events nid DeploymentQueued [] now ?s1"
  have tq: "trim DeploymentQueued = DeploymentQueued" by code_simp
  have new: "pe_status e = DeploymentQueued \<and> pe_deployment_id e = nid" if "e \<in> set ?new" for e
    using left_joined_events_props [OF that] nid tq by simp
  obtain e0 where e0: "e0 \<in> set ?new" "pe_deployment_id e0 = nid" "pe_event_type e0 = ''deployment''"
    using left_joined_events_some [of d ?s1 nid DeploymentQueued "[]" now] c(2) nid by auto
  have "timeline_ok (RecordDeploymentEvent nid DeploymentQueued [] now ?s1)"
    unfolding timeline_ok_def RecordDeploymentEvent_events
  proof (intro ballI impI)
    fix x assume x: "x \<in> set (deployments (RecordDeploymentEvent nid DeploymentQueued [] now ?s1))"
      and hs: "has_service (RecordDeploymentEvent nid DeploymentQueued [] now ?s1) x"
    then have hs': "has_service s x" by (simp add: has_service_def)
    show "events_of (dep_id x) (platform_events ?s1 @ ?new) \<noteq> [] \<and>
        pe_status (last (events_of (dep_id x) (platform_events ?s1 @ ?new))) = dep_status x"
    proof (cases "dep_id x = nid")
      case True
      then have "x = d" using x c(2,4) by auto
      have ne: "events_of nid ?new \<noteq> []" using e0 by (auto simp: events_of_def filter_empty_conv)
      then have "pe_status (last (events_of nid ?new)) = DeploymentQueued"
        using last_in_set [OF ne] new set_events_of by blast
      with ne True c(3) \<open>x = d\<close> show ?thesis by (simp add: events_of_append)
    next
      case False
      then have "events_of (dep_id x) ?new = []" using new by (auto simp: events_of_def filter_empty_conv)
      with False x c(2) hs' tw show ?thesis
        by (auto simp: events_of_append timeline_wf_def timeline_ok_def)
    qed
  qed
  moreover have "deps_wf (RecordDeploymentEvent nid DeploymentQueued [] now ?s1)"
    using tw c(2,4) by (simp add: timeline_wf_def deps_wf_def)
  ultimately show ?thesis by (simp add: c(1) timeline_wf_def)
qed

lemmas timeline_ops =
  timeline_enqueue timeline_claim timeline_renew timeline_cancel timeline_service_cancel
  timeline_defer timeline_complete timeline_recover

lemma timeline_step: "queue_step s s' \<Longrightarrow> timeline_wf s \<Longrightarrow> timeline_wf s'"
proof (induction rule: queue_step.induct)
  case (step_queue s s')
  then show ?case by (induction rule: queue_tx.induct) (auto intro: timeline_ops)
next
  case (step_deployment s s')
  then show ?case
    by (induction rule: deployment_tx.induct)
      (auto intro: timeline_create timeline_update_status timeline_operator_cancel)
qed

interpretation timeline_run: transactions queue_step timeline_wf
  by unfold_locales (rule timeline_step)

section \<open>Terminal deployments stay, open deployments keep an operation\<close>

definition closed_kept :: "store \<Rightarrow> store \<Rightarrow> bool" where
  "closed_kept s s' \<longleftrightarrow> (\<forall>d \<in> set (deployments s). \<not> dep_open d \<longrightarrow> d \<in> set (deployments s'))"

lemma closed_kept_update:
  assumes "deployments s' = sql_update p f (deployments s)" and "\<And>d. p d \<Longrightarrow> dep_open d"
  shows "closed_kept s s'"
  using assms by (force simp: closed_kept_def set_sql_update image_iff)

lemma closed_kept_same: "deployments s' = deployments s \<Longrightarrow> closed_kept s s'"
  by (simp add: closed_kept_def)

lemma closed_kept_trans: "closed_kept s s' \<Longrightarrow> closed_kept s' s'' \<Longrightarrow> closed_kept s s''"
  by (simp add: closed_kept_def)

lemma closed_kept_guarded:
  "(\<And>d. p d \<Longrightarrow> dep_open d) \<Longrightarrow> closed_kept s (guarded_transition p f i st dt n s)"
  by (rule closed_kept_update [OF guarded_transition_sel(3)])

lemma closed_kept_project:
  "closed_kept s (projectDeployClaimTx i n s)" "closed_kept s (projectDeployDeferTx i n s)"
  "projectDeployCompleteTx i st msg n s = Inr s' \<Longrightarrow> closed_kept s s'"
  by (auto simp: projectDeployClaimTx_guarded projectDeployDeferTx_guarded dep_open_def
      projectDeployCompleteTx_guarded split: option.splits intro!: closed_kept_guarded)

lemma closed_kept_upd [simp]:
  "closed_kept (s\<lparr>operations := a\<rparr>) s' = closed_kept s s'"
  "closed_kept (s\<lparr>database_operations := b\<rparr>) s' = closed_kept s s'"
  "closed_kept (s\<lparr>operations := a, database_operations := b\<rparr>) s' = closed_kept s s'"
  "closed_kept (projectOperationClaim i ow le n s) s' = closed_kept s s'"
  by (simp_all add: closed_kept_def)

lemma closed_kept_fail: "closed_kept s (snd (fail_interrupted (\<lambda>d. dep_open d \<and> q d) n s))"
  by (rule closed_kept_update [OF fail_interrupted_deployments]) simp


lemma closed_kept_tx: "queue_tx s s' \<Longrightarrow> closed_kept s s'"
proof (induction rule: queue_tx.induct)
  case (tx_enqueue i s nid now)
  show ?case
    by (auto intro!: closed_kept_same simp: EnqueueOperation_def insertOperationTx_def
        insert_operation_def Let_def split: sum.split if_splits)
next
  case (tx_claim s opts now)
  have "closed_kept s (projectDeployClaimTx i n (projectOperationClaim i ow le n (s\<lparr>operations := t\<rparr>)))"
    for i n ow le t
    using closed_kept_project(1) [of "projectOperationClaim i ow le n (s\<lparr>operations := t\<rparr>)" i n]
    by simp
  then show ?case
    by (auto simp: ClaimNextOperation_def Let_def closed_kept_same split: option.split)
next
  case (tx_renew s oid owner lease now)
  show ?case
    by (auto intro!: closed_kept_same simp: RenewOperationLease_def Let_def split: option.split)
next
  case (tx_cancel s oid now)
  show ?case
    by (auto simp: RequestOperationCancellation_def Let_def closed_kept_same
        split: sum.split dest: closed_kept_project(3))
next
  case (tx_cancel_service s sid now)
  show ?case
    by (rule closed_kept_same) (simp add: RequestServiceOperationCancellation_def Let_def)
next
  case (tx_defer s oid owner d now)
  have "closed_kept s (projectDeployDeferTx i n (s\<lparr>operations := t, database_operations := u\<rparr>))" for i n t u
    using closed_kept_project(2) [of "s\<lparr>operations := t, database_operations := u\<rparr>" i n]
    by simp
  then show ?case by (simp add: DeferOperation_def Let_def closed_kept_same)
next
  case (tx_complete s c now)
  show ?case
    by (auto simp: CompleteOperation_def Let_def closed_kept_same
        split: sum.split dest: closed_kept_project(3))
next
  case (tx_recover s now)
  let ?n = "rfc3339_nano now"
  let ?s1 = "snd (fail_exhausted ?n s)"
  let ?s2 = "snd (requeue_running ?n ?s1)"
  have "closed_kept s ?s1"
    by (rule closed_kept_update [OF fail_exhausted_sel(3)]) simp
  moreover have "closed_kept ?s1 ?s2"
    by (rule closed_kept_same) (simp add: requeue_running_sel)
  moreover have "closed_kept ?s2 (snd (sweepOrphanedDeploymentsTx ?n ?s2))"
    unfolding sweepOrphanedDeploymentsTx_def by (rule closed_kept_fail)
  ultimately show ?case
    by (simp add: RecoverOperations_eq Let_def) (blast intro: closed_kept_trans)
qed

text \<open>No open deployment has a finished operation.\<close>

definition no_stranded :: "store \<Rightarrow> bool" where
  "no_stranded s \<longleftrightarrow>
     (\<forall>d \<in> set (deployments s). dep_open d \<longrightarrow>
        (\<forall>r \<in> set (operations s). op_id r = dep_id d \<longrightarrow> \<not> terminal_status (op_status r)))"

lemma no_stranded_maps:
  assumes ns: "no_stranded s"
    and ops: "operations s' = map f (operations s)"
    and deps: "deployments s' = map g (deployments s)"
    and ids: "\<And>r. op_id (f r) = op_id r" "\<And>d. dep_id (g d) = dep_id d"
    and pair: "\<And>r d. r \<in> set (operations s) \<Longrightarrow> d \<in> set (deployments s) \<Longrightarrow> op_id r = dep_id d \<Longrightarrow>
      (dep_open d \<Longrightarrow> \<not> terminal_status (op_status r)) \<Longrightarrow> dep_open (g d) \<Longrightarrow>
      \<not> terminal_status (op_status (f r))"
  shows "no_stranded s'"
  unfolding no_stranded_def
proof (intro ballI impI)
  fix d' r' assume d': "d' \<in> set (deployments s')" "dep_open d'" and r': "r' \<in> set (operations s')"
    and eq: "op_id r' = dep_id d'"
  from d'(1) r' obtain d r where "d \<in> set (deployments s)" "d' = g d"
    "r \<in> set (operations s)" "r' = f r" by (auto simp: ops deps)
  with pair [of r d] ns d'(2) eq ids show "\<not> terminal_status (op_status r')"
    by (simp add: no_stranded_def)
qed

lemma no_stranded_same:
  "no_stranded s \<Longrightarrow> deployments s' = deployments s \<Longrightarrow> operations s' = sql_update p f (operations s) \<Longrightarrow>
    (\<And>r. op_id (f r) = op_id r) \<Longrightarrow>
    (\<And>r. p r \<Longrightarrow> terminal_status (op_status (f r)) \<Longrightarrow> terminal_status (op_status r)) \<Longrightarrow> no_stranded s'"
  by (rule no_stranded_maps [of s s' "\<lambda>r. if p r then f r else r" "\<lambda>d. d"]) (auto simp: sql_update_def)


lemma no_stranded_cong:
  "deployments s' = deployments s \<Longrightarrow> operations s' = operations s \<Longrightarrow> no_stranded s' = no_stranded s"
  by (simp add: no_stranded_def)

text \<open>One operation and the deployment with its id move together.\<close>

lemma no_stranded_pair:
  assumes ns: "no_stranded s"
    and ops: "operations s' = sql_update p f (operations s)"
    and deps: "deployments s' = sql_update q g (deployments s)"
    and ids: "\<And>r. op_id (f r) = op_id r" "\<And>d. dep_id (g d) = dep_id d"
    and opens: "\<And>d. q d \<Longrightarrow> dep_open (g d) \<Longrightarrow> dep_open d"
    and pair: "\<And>r d. p r \<Longrightarrow> terminal_status (op_status (f r)) \<Longrightarrow> op_id r = dep_id d \<Longrightarrow> dep_open d \<Longrightarrow>
      q d \<and> \<not> dep_open (g d)"
  shows "no_stranded s'"
proof (rule no_stranded_maps [OF ns, of _ "\<lambda>r. if p r then f r else r" "\<lambda>d. if q d then g d else d"])
  fix r :: operation_row and d :: deployment_row
  assume "op_id r = dep_id d" "dep_open d \<Longrightarrow> \<not> terminal_status (op_status r)"
    "dep_open (if q d then g d else d)"
  then show "\<not> terminal_status (op_status (if p r then f r else r))"
    using opens [of d] pair [of r d] by (auto split: if_splits)
qed (use ops deps ids in \<open>auto simp: sql_update_def\<close>)

lemma claimed_store_deployments:
  "deployments (claimed_store opts now c s) =
     sql_update (\<lambda>d. dep_id d = op_id c \<and> dep_status d = DeploymentQueued)
       (\<lambda>d. d\<lparr>dep_status := DeploymentBuilding, dep_updated_at := claim_stamp opts now\<rparr>)
       (deployments s)"
  by (simp add: projectDeployClaimTx_guarded guarded_transition_sel)

lemma not_terminal:
  "\<not> terminal_status ''running''" "\<not> terminal_status ''queued''"
  by (simp_all add: terminal_status_def)

lemma no_stranded_claim:
  assumes wf: "queue_wf s" and ns: "no_stranded s"
  shows "no_stranded (snd (ClaimNextOperation opts now s))"
proof (cases "trim (co_Owner opts) = [] \<or> co_Lease opts < int ns_per_sec")
  case True
  then show ?thesis using ns by (simp add: ClaimNextOperation_def Let_def)
next
  case False
  then have ok: "trim (co_Owner opts) \<noteq> []" "int ns_per_sec \<le> co_Lease opts" by auto
  have "no_stranded (claimed_store opts now c s)" for c
    by (rule no_stranded_pair [OF ns claimed_store_tables(1) claimed_store_deployments])
      (simp_all add: dep_open_def not_terminal)
  then show ?thesis
    unfolding ClaimNextOperation_eq [OF wf ok] using ns by (simp split: option.split)
qed

lemma renew_deployments:
  "deployments (snd (RenewOperationLease i ow l now s)) = deployments s"
  by (auto simp: RenewOperationLease_def Let_def split: option.split)

lemma no_stranded_renew:
  assumes wf: "queue_wf s" and ns: "no_stranded s"
  shows "no_stranded (snd (RenewOperationLease i ow l now s))"
proof (cases "lease_held s i ow")
  case True
  then obtain r where r: "r \<in> set (operations s)" "held_by (trim i) (trim ow) r"
    by (auto simp: lease_held_def)
  show ?thesis
    by (rule no_stranded_same [OF ns renew_deployments RenewOperationLease_held(2) [OF wf r]]) simp_all
qed (use wf ns in \<open>simp add: RenewOperationLease_lost\<close>)

lemma no_stranded_defer:
  assumes wf: "queue_wf s" and ns: "no_stranded s"
  shows "no_stranded (snd (DeferOperation i ow d now s))"
proof (cases "lease_held s i ow")
  case True
  have "deployments (snd (DeferOperation i ow d now s)) =
      sql_update (\<lambda>x. dep_id x = trim i \<and> dep_status x = DeploymentBuilding)
        (\<lambda>x. x\<lparr>dep_status := DeploymentQueued, dep_updated_at := rfc3339_nano now\<rparr>) (deployments s)"
    using DeferOperation_held(1) [OF wf True, of d now]
    by (auto simp: DeferOperation_def Let_def projectDeployDeferTx_guarded guarded_transition_sel
        split: if_splits)
  then show ?thesis
    by (rule no_stranded_pair [OF ns DeferOperation_held(2) [OF wf True]])
      (simp_all add: defer_op_set_sel dep_open_def not_terminal)
qed (use wf ns in \<open>simp add: DeferOperation_lost\<close>)

lemma deploy_status_closed: "deploy_status_of st = Some ds \<Longrightarrow> \<not> dep_open (deploy_complete_set ds m n d)"
  by (auto simp: deploy_status_of_def dep_open_def split: if_splits)

lemma complete_deployments:
  assumes "projectDeployCompleteTx i st msg n s = Inr s'" and "deploy_status_of st = Some ds"
  shows "deployments s' =
    sql_update (\<lambda>d. dep_id d = i \<and> dep_open d) (deploy_complete_set ds msg n) (deployments s)"
  using assms by (auto simp: projectDeployCompleteTx_guarded guarded_transition_sel)

lemma no_stranded_complete_tx:
  assumes ns: "no_stranded s" and proj: "projectDeployCompleteTx i st msg n s0 = Inr s'"
    and st: "deploy_status_of st = Some ds" and deps0: "deployments s0 = deployments s"
    and ops: "operations s' = sql_update p f (operations s)"
    and ids: "\<And>r. op_id (f r) = op_id r" and p: "\<And>r. p r \<Longrightarrow> op_id r = i"
  shows "no_stranded s'"
proof (rule no_stranded_pair [OF ns ops complete_deployments [OF proj st, unfolded deps0] ids])
  fix d assume "dep_open (deploy_complete_set ds msg n d)"
  then show "dep_open d" using deploy_status_closed [OF st] by simp
next
  fix r d assume "p r" "op_id r = dep_id d" "dep_open d"
  then show "(dep_id d = i \<and> dep_open d) \<and> \<not> dep_open (deploy_complete_set ds msg n d)"
    using p [of r] deploy_status_closed [OF st] by simp
qed simp

definition completed_rows :: "complete_input \<Rightarrow> string \<Rightarrow> store \<Rightarrow> store" where
  "completed_rows c n s =
     s\<lparr>operations := sql_update (held_by (trim (ci_ID c)) (trim (ci_Owner c)))
          (complete_op_set c n) (operations s),
       database_operations := sql_update (\<lambda>r. dbo_id r = trim (ci_ID c))
          (complete_dbo_set c n) (database_operations s)\<rparr>"

lemma CompleteOperation_project:
  assumes "queue_wf s" and "lease_held s (ci_ID c) (ci_Owner c)" and "terminal_status (ci_Status c)"
  shows "projectDeployCompleteTx (trim (ci_ID c)) (ci_Status c) (trim (ci_ErrorMessage c))
     (rfc3339_nano now) (completed_rows c (rfc3339_nano now) s) = Inr (snd (CompleteOperation c now s))"
  using CompleteOperation_held(1) [OF assms, of now]
  by (auto simp: CompleteOperation_def Let_def completed_rows_def split: if_splits sum.splits)

lemma no_stranded_complete:
  assumes wf: "queue_wf s" and ns: "no_stranded s"
  shows "no_stranded (snd (CompleteOperation c now s))"
proof (cases "terminal_status (ci_Status c) \<and> lease_held s (ci_ID c) (ci_Owner c)")
  case True
  then have t: "terminal_status (ci_Status c)" and h: "lease_held s (ci_ID c) (ci_Owner c)" by simp_all
  obtain ds where ds: "deploy_status_of (ci_Status c) = Some ds"
    using deploy_status_terminal [OF t] by blast
  show ?thesis
    by (rule no_stranded_complete_tx [OF ns CompleteOperation_project [OF wf h t] ds _
          CompleteOperation_held(2) [OF wf h t]])
      (auto simp: complete_op_set_sel completed_rows_def dest: held_by_sel)
next
  case False
  then show ?thesis
    using wf ns CompleteOperation_lost [OF wf, of c now]
    by (cases "terminal_status (ci_Status c)") (simp_all add: CompleteOperation_def)
qed

lemma no_stranded_cancel:
  assumes wf: "queue_wf s" and ns: "no_stranded s"
  shows "no_stranded (snd (RequestOperationCancellation i now s))"
proof -
  consider r where "r \<in> set (operations s)" "cancel_now (trim i) r"
    | r where "r \<in> set (operations s)" "is_queued (trim i) r"
    | "\<not> (\<exists>r \<in> set (operations s). cancel_now (trim i) r)"
      "\<not> (\<exists>r \<in> set (operations s). is_queued (trim i) r)" by blast
  then show ?thesis
  proof cases
    case 1
    show ?thesis unfolding cancel_running [OF wf 1]
      by (rule no_stranded_same [OF ns, of _ "cancel_now (trim i)" "cancel_mark_set (rfc3339_nano now)"])
        (simp_all add: cancel_set_sel)
  next
    case 2
    have ds: "deploy_status_of ''cancelled'' = Some DeploymentCancelled" by code_simp
    show ?thesis
    proof (rule cancel_queued [OF wf 2, of now])
      fix s' assume s': "RequestOperationCancellation i now s = (Inr True, s')"
        "projectDeployCompleteTx (trim i) ''cancelled'' [] (rfc3339_nano now)
          (cancelled_rows (trim i) (rfc3339_nano now) s) = Inr s'"
      have "no_stranded s'"
        by (rule no_stranded_complete_tx [OF ns s'(2) ds _ cancelled_tables(1) [OF s'(2)]])
          (simp_all add: cancel_set_sel is_queued_def)
      with s'(1) show ?thesis by simp
    qed
  qed (use wf ns in \<open>simp add: cancel_nothing\<close>)
qed

lemma no_stranded_service_cancel:
  assumes ns: "no_stranded s"
  shows "no_stranded (snd (RequestServiceOperationCancellation i now s))"
  by (rule no_stranded_same [OF ns, of _ "\<lambda>r. op_service_id r = trim i \<and> cancel_pending r"
        "cancel_mark_set (rfc3339_nano now)"])
    (simp_all add: RequestServiceOperationCancellation_def Let_def cancel_set_sel
      cancel_mark_set_def [abs_def])

lemma survivor_not_terminal:
  assumes wf: "queue_wf s" and r: "r \<in> set (operations s)" and sv: "op_id r \<in> set (survivor_ids s)"
  shows "op_status (recover_row n r) = ''queued''"
proof -
  from sv obtain x where x: "x \<in> set (operations s)" "op_id x = op_id r"
    "op_status x = ''queued'' \<or> op_status x = ''running'' \<and> op_attempt x < op_max_attempts x"
    by (auto simp: survivor_ids_def)
  have "x = r" by (rule one_row_per_id [OF wf x(1) r x(2)])
  with x(3) show ?thesis by (auto simp: recover_row_status)
qed

text \<open>Whatever the store looked like, recovery leaves no open deployment without a queued operation.\<close>

lemma recover_open_queued:
  assumes wf: "queue_wf s" and d: "d \<in> set (deployments (snd (RecoverOperations at s)))" "dep_open d"
  shows "\<exists>r \<in> set (operations (snd (RecoverOperations at s))). op_id r = dep_id d \<and> op_status r = ''queued''"
proof -
  from d obtain d0 where "d = recover_dep (survivor_ids s) (rfc3339_nano at) d0"
    by (auto simp: recover_deployments [OF wf])
  then have "d = d0" "dep_id d \<in> set (survivor_ids s)"
    using d(2) by (auto simp: recover_dep_def split: if_splits)
  then obtain r where r: "r \<in> set (operations s)" "op_id r = dep_id d"
    by (auto simp: survivor_ids_def)
  let ?r = "recover_row (rfc3339_nano at) r"
  have "op_status ?r = ''queued''"
    using survivor_not_terminal [OF wf r(1)] \<open>dep_id d \<in> set (survivor_ids s)\<close> r(2) by simp
  moreover have "?r \<in> set (operations (snd (RecoverOperations at s)))"
    using r(1) by (simp add: recover_operations)
  moreover have "op_id ?r = dep_id d" using r(2) by (simp add: recover_row_status(2))
  ultimately show ?thesis by blast
qed

lemma no_stranded_recover:
  assumes wf: "queue_wf s"
  shows "no_stranded (snd (RecoverOperations at s))"
  unfolding no_stranded_def
proof (intro ballI impI)
  fix d r assume d: "d \<in> set (deployments (snd (RecoverOperations at s)))" "dep_open d"
    and r: "r \<in> set (operations (snd (RecoverOperations at s)))" "op_id r = dep_id d"
  from recover_open_queued [OF wf d] obtain x where
    x: "x \<in> set (operations (snd (RecoverOperations at s)))" "op_id x = dep_id d"
    "op_status x = ''queued''" by blast
  have "x = r"
    using one_row_per_id [OF queue_wf_recover [OF wf] x(1) r(1)] x(2) r(2) by simp
  with x(3) show "\<not> terminal_status (op_status r)" by (simp add: not_terminal)
qed

lemma no_stranded_enqueue:
  assumes ns: "no_stranded s" and st: "noi_status i = [] \<or> noi_status i = ''queued''"
  shows "no_stranded (snd (EnqueueOperation i nid now s))"
proof -
  have "no_stranded s'" if "insertOperationTx j now s = Inr s'" "noi_status j = noi_status i" for j s'
    using insert_operation_ok(1) [OF insertOperationTx_ok(1) [OF that(1)]] ns st that(2)
    by (auto simp: no_stranded_def new_operation_row_def Let_def not_terminal)
  then show ?thesis
    using ns by (auto simp: EnqueueOperation_def Let_def split: sum.split)
qed

lemmas no_stranded_ops =
  no_stranded_enqueue no_stranded_claim no_stranded_renew no_stranded_cancel
  no_stranded_service_cancel no_stranded_defer no_stranded_complete no_stranded_recover

lemma no_stranded_tx: "queue_tx s s' \<Longrightarrow> queue_wf s \<Longrightarrow> no_stranded s \<Longrightarrow> no_stranded s'"
  by (induction rule: queue_tx.induct) (auto intro: no_stranded_ops)

end
