(* ===== verification/HF_Queue_Spec.thy ===== *)
theory HF_Queue_Spec
  imports HF_Timeline
begin

text \<open>
  What the queue promises, without rows or time stamps: a map from operation ids to a phase, the
  attempts used and allowed, and the lock key.  Every transaction of the model is one step of
  this machine or leaves it alone.  The properties of the queue follow.
\<close>

section \<open>The abstract queue\<close>

datatype phase = Waiting | Held string | Finished string

record abstract_op =
  ao_phase :: phase
  ao_attempt :: int
  ao_max :: int
  ao_key :: string

type_synonym abstract_queue = "string \<Rightarrow> abstract_op option"

definition key_free :: "abstract_queue \<Rightarrow> string \<Rightarrow> bool" where
  "key_free q k \<longleftrightarrow> (\<forall>j a ow. q j = Some a \<longrightarrow> ao_key a = k \<longrightarrow> ao_phase a \<noteq> Held ow)"

definition restart_op :: "abstract_op \<Rightarrow> abstract_op" where
  "restart_op a =
     (case ao_phase a of
        Held ow \<Rightarrow> a\<lparr>ao_phase := (if ao_attempt a < ao_max a then Waiting else Finished ''failed'')\<rparr>
      | _ \<Rightarrow> a)"

inductive abstract_step :: "abstract_queue \<Rightarrow> abstract_queue \<Rightarrow> bool" where
  a_new: "q i = None \<Longrightarrow> ao_phase a = Waiting \<Longrightarrow> ao_attempt a = 0 \<Longrightarrow> 1 \<le> ao_max a \<Longrightarrow>
    abstract_step q (q(i \<mapsto> a))"
| a_claim: "q i = Some a \<Longrightarrow> ao_phase a = Waiting \<Longrightarrow> ao_attempt a < ao_max a \<Longrightarrow>
    key_free q (ao_key a) \<Longrightarrow> ow \<noteq> [] \<Longrightarrow>
    abstract_step q (q(i \<mapsto> a\<lparr>ao_phase := Held ow, ao_attempt := ao_attempt a + 1\<rparr>))"
| a_defer: "q i = Some a \<Longrightarrow> ao_phase a = Held ow \<Longrightarrow>
    abstract_step q (q(i \<mapsto> a\<lparr>ao_phase := Waiting, ao_attempt := ao_attempt a - 1\<rparr>))"
| a_finish: "q i = Some a \<Longrightarrow> ao_phase a = Held ow \<Longrightarrow> terminal_status st \<Longrightarrow>
    abstract_step q (q(i \<mapsto> a\<lparr>ao_phase := Finished st\<rparr>))"
| a_drop: "q i = Some a \<Longrightarrow> ao_phase a = Waiting \<Longrightarrow>
    abstract_step q (q(i \<mapsto> a\<lparr>ao_phase := Finished ''cancelled''\<rparr>))"
| a_restart: "abstract_step q (\<lambda>i. map_option restart_op (q i))"

definition phase_of :: "operation_row \<Rightarrow> phase" where
  "phase_of r =
     (if op_status r = ''queued'' then Waiting
      else if op_status r = ''running'' then Held (op_lease_owner r)
      else Finished (op_status r))"

definition abstract_of :: "operation_row \<Rightarrow> abstract_op" where
  "abstract_of r =
     \<lparr> ao_phase = phase_of r, ao_attempt = op_attempt r, ao_max = op_max_attempts r,
       ao_key = op_lock_key r \<rparr>"

definition queue_abs :: "store \<Rightarrow> abstract_queue" where
  "queue_abs s i = map_option abstract_of (sql_get (\<lambda>r. op_id r = i) (operations s))"

section \<open>Refinement\<close>

lemma sql_get_map:
  "(\<And>r. op_id (f r) = op_id r) \<Longrightarrow>
    sql_get (\<lambda>r. op_id r = i) (map f t) = map_option f (sql_get (\<lambda>r. op_id r = i) t)"
  by (induction t) (auto simp: sql_get_def)

lemma queue_abs_map:
  assumes "operations s' = map f (operations s)" and "\<And>r. op_id (f r) = op_id r"
    and "\<And>r. r \<in> set (operations s) \<Longrightarrow> abstract_of (f r) = h (abstract_of r)"
  shows "queue_abs s' = (\<lambda>i. map_option h (queue_abs s i))"
proof
  fix i
  show "queue_abs s' i = map_option h (queue_abs s i)"
    using assms(3)
    by (cases "sql_get (\<lambda>r. op_id r = i) (operations s)")
      (auto simp: queue_abs_def assms(1) sql_get_map [of f, OF assms(2)] dest: sql_get_Some)
qed

text \<open>An update whose rows all have one id changes the map at that id only.\<close>

lemma queue_abs_one:
  assumes wf: "queue_wf s" and ops: "operations s' = sql_update p f (operations s)"
    and ids: "\<And>r. op_id (f r) = op_id r" and p: "\<And>r. p r \<Longrightarrow> op_id r = i"
    and r: "r \<in> set (operations s)" "p r"
  shows "queue_abs s' = (queue_abs s)(i \<mapsto> abstract_of (f r))"
proof
  fix j
  let ?u = "\<lambda>r. if p r then f r else r"
  have get: "sql_get (\<lambda>r. op_id r = j) (operations s') =
      map_option ?u (sql_get (\<lambda>r. op_id r = j) (operations s))"
    unfolding ops sql_update_def by (rule sql_get_map) (simp add: ids)
  show "queue_abs s' j = ((queue_abs s)(i \<mapsto> abstract_of (f r))) j"
  proof (cases "j = i")
    case True
    then have "sql_get (\<lambda>r. op_id r = j) (operations s) = Some r"
      using held_get [OF wf r(1)] p [OF r(2)] by simp
    with get True r(2) show ?thesis by (simp add: queue_abs_def)
  next
    case False
    then have "?u x = x" if "sql_get (\<lambda>r. op_id r = j) (operations s) = Some x" for x
      using sql_get_Some [OF that] p [of x] by auto
    then show ?thesis using False
      by (cases "sql_get (\<lambda>r. op_id r = j) (operations s)") (auto simp: queue_abs_def get)
  qed
qed

lemma queue_abs_at:
  "queue_wf s \<Longrightarrow> r \<in> set (operations s) \<Longrightarrow> queue_abs s (op_id r) = Some (abstract_of r)"
  by (simp add: queue_abs_def held_get)

lemma queue_abs_Some:
  "queue_abs s i = Some a \<Longrightarrow> \<exists>r \<in> set (operations s). op_id r = i \<and> a = abstract_of r"
  by (auto simp: queue_abs_def dest: sql_get_Some)

lemma queue_abs_same:
  assumes "operations s' = sql_update p f (operations s)" and "\<And>r. op_id (f r) = op_id r"
    and "\<And>r. p r \<Longrightarrow> abstract_of (f r) = abstract_of r"
  shows "queue_abs s' = queue_abs s"
proof -
  have "queue_abs s' = (\<lambda>i. map_option (\<lambda>x. x) (queue_abs s i))"
    by (rule queue_abs_map [of _ "\<lambda>r. if p r then f r else r"])
      (use assms in \<open>auto simp: sql_update_def\<close>)
  then show ?thesis by (simp add: option.map_ident)
qed

lemma queue_abs_cong: "operations s' = operations s \<Longrightarrow> queue_abs s' = queue_abs s"
  by (simp add: queue_abs_def fun_eq_iff)

lemma key_free_abs: "lock_free s k \<Longrightarrow> key_free (queue_abs s) k"
  by (auto simp: lock_free_def key_free_def abstract_of_def phase_of_def dest!: queue_abs_Some
      split: if_splits)

abbreviation simulates :: "store \<Rightarrow> store \<Rightarrow> bool" where
  "simulates s s' \<equiv> abstract_step (queue_abs s) (queue_abs s') \<or> queue_abs s' = queue_abs s"

lemma sim_claim:
  assumes wf: "queue_wf s"
  shows "simulates s (snd (ClaimNextOperation opts now s))"
proof (cases "trim (co_Owner opts) = [] \<or> co_Lease opts < int ns_per_sec")
  case True
  then show ?thesis by (simp add: ClaimNextOperation_def Let_def)
next
  case False
  then have ok: "trim (co_Owner opts) \<noteq> []" "int ns_per_sec \<le> co_Lease opts" by auto
  show ?thesis
  proof (cases "claim_pick opts now s")
    case None
    then show ?thesis by (simp add: ClaimNextOperation_eq [OF wf ok])
  next
    case (Some c)
    note c = claim_pick_props [OF Some]
    let ?f = "claim_set (trim (co_Owner opts)) (claim_lease opts now) (claim_stamp opts now)"
    have abs: "abstract_of (?f c) = (abstract_of c)\<lparr>ao_phase := Held (trim (co_Owner opts)),
        ao_attempt := ao_attempt (abstract_of c) + 1\<rparr>"
      by (simp add: abstract_of_def phase_of_def)
    have "queue_abs (claimed_store opts now c s) = (queue_abs s)(op_id c \<mapsto> abstract_of (?f c))"
      by (rule queue_abs_one [OF wf claimed_store_tables(1) _ _ c(1)]) (use c(3) in auto)
    moreover have "abstract_step (queue_abs s) ((queue_abs s)(op_id c \<mapsto> abstract_of (?f c)))"
      unfolding abs
      by (rule a_claim [OF queue_abs_at [OF wf c(1)] _ _ key_free_abs])
        (use c ok(1) in \<open>simp_all add: abstract_of_def phase_of_def\<close>)
    ultimately show ?thesis by (simp add: ClaimNextOperation_eq [OF wf ok] Some)
  qed
qed

lemma held_abs:
  assumes "queue_wf s" and "r \<in> set (operations s)" "held_by i ow r"
  shows "queue_abs s i = Some (abstract_of r)" "ao_phase (abstract_of r) = Held ow"
  using queue_abs_at [OF assms(1,2)] held_by_sel [OF assms(3)]
  by (simp_all add: abstract_of_def phase_of_def)

lemma sim_defer:
  assumes wf: "queue_wf s"
  shows "simulates s (snd (DeferOperation i ow d now s))"
proof (cases "lease_held s i ow")
  case True
  then obtain r where r: "r \<in> set (operations s)" "held_by (trim i) (trim ow) r"
    by (auto simp: lease_held_def)
  have "1 \<le> op_attempt r"
    using queue_wf_row [OF wf r(1)] held_by_sel [OF r(2)] by (simp add: op_row_wf_def)
  then have abs: "abstract_of (defer_op_set d now r) =
      (abstract_of r)\<lparr>ao_phase := Waiting, ao_attempt := ao_attempt (abstract_of r) - 1\<rparr>"
    by (simp add: abstract_of_def phase_of_def defer_op_set_def)
  have "queue_abs (snd (DeferOperation i ow d now s)) =
      (queue_abs s)(trim i \<mapsto> abstract_of (defer_op_set d now r))"
    by (rule queue_abs_one [OF wf DeferOperation_held(2) [OF wf True] _ _ r])
      (auto simp: defer_op_set_sel dest: held_by_sel)
  then show ?thesis
    using a_defer [of "queue_abs s" "trim i" "abstract_of r", OF held_abs [OF wf r]] abs by simp
qed (use wf in \<open>simp add: DeferOperation_lost\<close>)

lemma sim_complete:
  assumes wf: "queue_wf s"
  shows "simulates s (snd (CompleteOperation c now s))"
proof (cases "terminal_status (ci_Status c) \<and> lease_held s (ci_ID c) (ci_Owner c)")
  case True
  then have t: "terminal_status (ci_Status c)" and h: "lease_held s (ci_ID c) (ci_Owner c)" by simp_all
  then obtain r where r: "r \<in> set (operations s)" "held_by (trim (ci_ID c)) (trim (ci_Owner c)) r"
    by (auto simp: lease_held_def)
  let ?f = "complete_op_set c (rfc3339_nano now)"
  have abs: "abstract_of (?f r) = (abstract_of r)\<lparr>ao_phase := Finished (ci_Status c)\<rparr>"
    using t by (auto simp: abstract_of_def phase_of_def complete_op_set_def terminal_status_def)
  have "queue_abs (snd (CompleteOperation c now s)) =
      (queue_abs s)(trim (ci_ID c) \<mapsto> abstract_of (?f r))"
    by (rule queue_abs_one [OF wf CompleteOperation_held(2) [OF wf h t] _ _ r])
      (auto simp: complete_op_set_sel dest: held_by_sel)
  then show ?thesis
    using a_finish [of "queue_abs s" "trim (ci_ID c)" "abstract_of r", OF held_abs [OF wf r] t] abs
    by simp
next
  case False
  then show ?thesis
    using CompleteOperation_lost [OF wf, of c now]
    by (cases "terminal_status (ci_Status c)") (simp_all add: CompleteOperation_def)
qed

lemma sim_cancel:
  assumes wf: "queue_wf s"
  shows "simulates s (snd (RequestOperationCancellation i now s))"
proof -
  consider r where "r \<in> set (operations s)" "cancel_now (trim i) r"
    | r where "r \<in> set (operations s)" "is_queued (trim i) r"
    | "\<not> (\<exists>r \<in> set (operations s). cancel_now (trim i) r)"
      "\<not> (\<exists>r \<in> set (operations s). is_queued (trim i) r)" by blast
  then show ?thesis
  proof cases
    case 1
    have "queue_abs (snd (RequestOperationCancellation i now s)) = queue_abs s"
      unfolding cancel_running [OF wf 1]
      by (rule queue_abs_same [of _ "cancel_now (trim i)" "cancel_mark_set (rfc3339_nano now)"])
        (simp_all add: cancel_mark_set_def abstract_of_def phase_of_def)
    then show ?thesis by simp
  next
    case (2 r)
    let ?f = "cancel_queued_set (rfc3339_nano now)"
    have abs: "abstract_of (?f r) = (abstract_of r)\<lparr>ao_phase := Finished ''cancelled''\<rparr>"
      by (simp add: abstract_of_def phase_of_def cancel_queued_set_def)
    have wait: "queue_abs s (trim i) = Some (abstract_of r)" "ao_phase (abstract_of r) = Waiting"
      using queue_abs_at [OF wf 2(1)] 2(2) by (simp_all add: is_queued_def abstract_of_def phase_of_def)
    show ?thesis
    proof (rule cancel_queued [OF wf 2, of now])
      fix s' assume s': "RequestOperationCancellation i now s = (Inr True, s')"
        "projectDeployCompleteTx (trim i) ''cancelled'' [] (rfc3339_nano now)
          (cancelled_rows (trim i) (rfc3339_nano now) s) = Inr s'"
      have "queue_abs s' = (queue_abs s)(trim i \<mapsto> abstract_of (?f r))"
        by (rule queue_abs_one [OF wf cancelled_tables(1) [OF s'(2)] _ _ 2])
          (auto simp: cancel_set_sel is_queued_def)
      then show ?thesis
        using s'(1) a_drop [of "queue_abs s" "trim i" "abstract_of r", OF wait] abs by simp
    qed
  qed (use wf in \<open>simp add: cancel_nothing\<close>)
qed

lemma sim_renew:
  assumes wf: "queue_wf s"
  shows "simulates s (snd (RenewOperationLease i ow l now s))"
proof (cases "lease_held s i ow")
  case True
  then obtain r where r: "r \<in> set (operations s)" "held_by (trim i) (trim ow) r"
    by (auto simp: lease_held_def)
  have "queue_abs (snd (RenewOperationLease i ow l now s)) = queue_abs s"
    by (rule queue_abs_same [OF RenewOperationLease_held(2) [OF wf r]])
      (simp_all add: abstract_of_def phase_of_def)
  then show ?thesis by simp
qed (use wf in \<open>simp add: RenewOperationLease_lost\<close>)

lemma sim_service_cancel: "simulates s (snd (RequestServiceOperationCancellation sid now s))"
proof -
  have "queue_abs (snd (RequestServiceOperationCancellation sid now s)) = queue_abs s"
    by (rule queue_abs_same [of _ "\<lambda>r. op_service_id r = trim sid \<and> cancel_pending r"
          "cancel_mark_set (rfc3339_nano now)"])
      (simp_all add: RequestServiceOperationCancellation_def Let_def cancel_mark_set_def [abs_def]
        abstract_of_def phase_of_def)
  then show ?thesis by simp
qed

lemma restart_abs: "op_row_wf r \<Longrightarrow> abstract_of (recover_row n r) = restart_op (abstract_of r)"
  by (auto simp: abstract_of_def phase_of_def recover_row_def exhausted_op_def op_is_running_def
      fail_op_set_def requeue_op_set_def restart_op_def)

lemma sim_recover:
  assumes wf: "queue_wf s"
  shows "simulates s (snd (RecoverOperations at s))"
proof -
  have "queue_abs (snd (RecoverOperations at s)) = (\<lambda>i. map_option restart_op (queue_abs s i))"
    by (rule queue_abs_map [OF recover_operations])
      (simp_all add: recover_row_status(2) restart_abs queue_wf_row [OF wf])
  then show ?thesis using a_restart [of "queue_abs s"] by simp
qed

lemma sim_enqueue:
  assumes wf: "queue_wf s" and st: "noi_status i = [] \<or> noi_status i = ''queued''"
  shows "simulates s (snd (EnqueueOperation i nid now s))"
proof -
  have "simulates s s'" if ins: "insertOperationTx j now s = Inr s'" "noi_status j = noi_status i" for j s'
  proof -
    let ?r = "new_operation_row j now"
    note row = insert_operation_ok [OF insertOperationTx_ok(1) [OF ins(1)]]
    have none: "sql_get (\<lambda>r. op_id r = op_id ?r) (operations s) = None"
      unfolding sql_get_None using row(2) by (metis image_eqI)
    have get: "sql_get P (t @ [x]) = (case sql_get P t of None \<Rightarrow> (if P x then Some x else None) | y \<Rightarrow> y)"
      for P t and x :: operation_row by (induction t) (auto simp: sql_get_def)
    have "queue_abs s' = (queue_abs s)(op_id ?r \<mapsto> abstract_of ?r)"
      using none by (auto simp: queue_abs_def row(1) get fun_eq_iff split: option.split)
    moreover have "queue_abs s (op_id ?r) = None" using none by (simp add: queue_abs_def)
    moreover have "ao_phase (abstract_of ?r) = Waiting" "ao_attempt (abstract_of ?r) = 0"
      "1 \<le> ao_max (abstract_of ?r)"
      using st ins(2) row(4)
      by (auto simp: abstract_of_def phase_of_def new_operation_row_def Let_def)
    ultimately show ?thesis using a_new [of "queue_abs s" "op_id ?r" "abstract_of ?r"] by simp
  qed
  then show ?thesis
    by (auto simp: EnqueueOperation_def Let_def split: sum.split)
qed

lemma queue_tx_simulates: "queue_tx s s' \<Longrightarrow> queue_wf s \<Longrightarrow> simulates s s'"
proof (induction rule: queue_tx.induct)
  case (tx_enqueue i s nid now)
  show ?case by (rule sim_enqueue [OF tx_enqueue(2,1)])
qed (simp_all only: sim_claim sim_renew sim_cancel sim_service_cancel sim_defer sim_complete sim_recover)

end
