(* ===== verification/HF_Demo.thy ===== *)
theory HF_Demo
  imports HF_Operations
begin

text \<open>
  A small installation the witnesses run on: a fresh store, and one with a service, its deployment
  and the deployment's operation, waiting or claimed.
\<close>

section \<open>A small installation\<close>

definition fresh_store :: store where
  "fresh_store = \<lparr>
     operations = [], database_operations = [], deployments = [], platform_events = [],
     services = [], service_environments = [], environments = [], applications = [],
     environment_variables = [], containers = [], database_services = [],
     database_instances = [], database_credentials = [], database_bindings = [],
     database_backups = [], backup_destinations = [], database_backup_policies = [],
     database_restore_jobs = [], database_upgrade_jobs = [],
     gateway_endpoints = [], gateway_routes = [], external_connections = [],
     external_credentials = [], connection_cidrs = [], gateway_operations = [],
     domains = [], github_app = None, github_installations = [],
     onboarding_state = \<lparr> ob_github_app_complete = False, ob_platform_domain = [],
       ob_permanent_ingress_complete = False, ob_bootstrap_complete = False,
       ob_completed_at = [], ob_updated_at = [] \<rparr> \<rparr>"

definition web_service :: service_row where
  "web_service = \<lparr> svc_id = ''svc'', svc_application_id = ''app'', svc_service_type = ''web'',
     svc_name = ''web'', svc_repo_url = [], svc_github_installation_id = 0,
     svc_root_directory = [], svc_deploy_runtime = [], svc_install_cmd = [], svc_build_cmd = [],
     svc_start_cmd = [], svc_internal_port = 3000, svc_health_check_path = [],
     svc_created_at = [], svc_updated_at = [] \<rparr>"

definition web_deployment :: deployment_row where
  "web_deployment = \<lparr> dep_id = ''d1'', dep_service_id = ''svc'', dep_environment_id = ''env'',
     dep_status = ''QUEUED'', dep_commit_hash = [], dep_logs_path = [], dep_image_ref = [],
     dep_worktree = [], dep_error_message = [], dep_builder_kind = [], dep_stack_kind = [],
     dep_stack_label = [], dep_trigger_kind = ''manual'', dep_actor = [], dep_cancelled_at = [],
     dep_rollback_of = [], dep_branch = [], dep_railpack_plan_json = [],
     dep_railpack_info_json = [], dep_created_at = [], dep_updated_at = [] \<rparr>"

text \<open>The deployment's operation as \<open>EnqueueDeployOperation\<close> inserts it, and claimed by w.\<close>

definition web_operation :: operation_row where
  "web_operation = \<lparr> op_id = ''d1'', op_kind = ''deploy'', op_lock_key = ''deploy:svc:env'',
     op_status = ''queued'', op_priority = 100, op_progress_step = [], op_progress_percent = 0,
     op_available_at = [], op_attempt = 0, op_max_attempts = 1, op_lease_owner = [],
     op_lease_expires_at = [], op_cancel_requested_at = [], op_application_id = ''app'',
     op_service_id = ''svc'', op_environment_id = ''env'', op_actor = [], op_error_code = [],
     op_error_message = [], op_started_at = [], op_completed_at = [], op_created_at = ''c'',
     op_updated_at = ''c'' \<rparr>"

definition web_running :: operation_row where
  "web_running = claim_set ''w'' ''e'' ''n'' web_operation"

definition waiting_store :: store where
  "waiting_store = fresh_store\<lparr>operations := [web_operation], deployments := [web_deployment],
     services := [web_service],
     platform_events := [deployment_event ''QUEUED'' [] ''n'' web_deployment ''app'']\<rparr>"

definition running_store :: store where
  "running_store = fresh_store\<lparr>operations := [web_running],
     deployments := [web_deployment\<lparr>dep_status := ''BUILDING''\<rparr>], services := [web_service],
     platform_events := [deployment_event ''BUILDING'' [] ''n'' web_deployment ''app'']\<rparr>"

definition worker_claim :: claim_options where
  "worker_claim = \<lparr> co_Owner = ''w'', co_Lease = 120000000000, co_MinPriority = 0, co_Now = None,
     co_Kinds = [''deploy''] \<rparr>"

lemmas demo_defs = fresh_store_def web_service_def web_deployment_def web_operation_def
  web_running_def waiting_store_def running_store_def worker_claim_def

lemma demo_strings [simp]:
  "trim ''w'' = ''w''" "trim ''d1'' = ''d1''"
  by code_simp+

end
