(* ===== verification/HF_Queue_Props.thy ===== *)
theory HF_Queue_Props
  imports HF_Queue_Spec HF_Demo
begin

text \<open>
  The properties of the operations queue, each with a witness on a small store: a fresh
  installation, and one with a deployment whose operation waits or runs.
\<close>

section \<open>The small installation is well formed\<close>

lemma demo_rows_wf: "op_row_wf web_operation" "op_row_wf web_running"
  by (simp_all add: op_row_wf_def web_operation_def web_running_def operation_statuses_def
      terminal_status_def)

lemma demo_wf [simp]: "queue_wf fresh_store" "queue_wf waiting_store" "queue_wf running_store"
  using demo_rows_wf
  by (simp_all add: queue_wf_def lock_exclusive_def demo_defs)

lemma demo_tables [simp]:
  "operations fresh_store = []" "operations waiting_store = [web_operation]"
  "operations running_store = [web_running]"
  by (simp_all add: waiting_store_def running_store_def fresh_store_def)

lemma worker_claim_ok: "trim (co_Owner worker_claim) \<noteq> []" "int ns_per_sec \<le> co_Lease worker_claim"
  by (simp_all add: worker_claim_def ns_per_sec_def)

lemma worker_claims: "claim_pick worker_claim 0 waiting_store = Some web_operation"
  by (simp add: sql_first_def sql_order_def op_runnable_def lock_free_def worker_claim_def
      web_operation_def)

section \<open>Properties\<close>

text \<open>C1. Whatever sequence of queue and deployment transactions runs, in whatever order the
  workers, the API and recovery interleave them, every operation row stays well formed for its
  status (attempts within the limit, a lease exactly while running, a completion time exactly
  when finished), ids stay unique, and no two running operations share a lock key.\<close>

theorem queue_invariant:
  assumes "queue_step\<^sup>*\<^sup>* s s'" and "queue_wf s"
  shows "queue_wf s'"
  using assms by (rule queue_run.along)

theorem queue_invariant_witness:
  "queue_wf (snd (RecoverOperations 5 (snd (ClaimNextOperation worker_claim 0 waiting_store))))"
proof (rule queue_invariant [of waiting_store])
  have "queue_step waiting_store (snd (ClaimNextOperation worker_claim 0 waiting_store))"
    by (rule step_queue, rule tx_claim)
  moreover have "queue_step (snd (ClaimNextOperation worker_claim 0 waiting_store))
      (snd (RecoverOperations 5 (snd (ClaimNextOperation worker_claim 0 waiting_store))))"
    by (rule step_queue, rule tx_recover)
  ultimately show "queue_step\<^sup>*\<^sup>* waiting_store
      (snd (RecoverOperations 5 (snd (ClaimNextOperation worker_claim 0 waiting_store))))" by auto
qed simp

text \<open>C4. A claim returns the runnable operation that is first in the order of priority, then
  creation stamp, then id, marks exactly that row running for the caller, and reports
  \<open>sql.ErrNoRows\<close> with the store untouched exactly when nothing is runnable.\<close>

theorem claim_takes_first_runnable:
  assumes "queue_wf s" and "trim (co_Owner opts) \<noteq> []" and "int ns_per_sec \<le> co_Lease opts"
  shows "case ClaimNextOperation opts wall s of
      (Inl e, s') \<Rightarrow> e = ErrNoRows \<and> s' = s \<and> (\<forall>r \<in> set (operations s).
        \<not> op_runnable (claim_stamp opts wall) (co_MinPriority opts) (co_Kinds opts) s r)
    | (Inr x, s') \<Rightarrow> \<exists>c \<in> set (operations s).
        op_runnable (claim_stamp opts wall) (co_MinPriority opts) (co_Kinds opts) s c \<and>
        (\<forall>r \<in> set (operations s).
           op_runnable (claim_stamp opts wall) (co_MinPriority opts) (co_Kinds opts) s r \<longrightarrow>
           claim_key c \<le> claim_key r) \<and>
        x = scanOperation (claim_set (trim (co_Owner opts)) (claim_lease opts wall)
              (claim_stamp opts wall) c) \<and>
        operations s' = sql_update (\<lambda>r. op_id r = op_id c \<and> op_status r = ''queued'')
          (claim_set (trim (co_Owner opts)) (claim_lease opts wall) (claim_stamp opts wall))
          (operations s)"
proof (cases "claim_pick opts wall s")
  case None
  then have "\<forall>r \<in> set (operations s).
      \<not> op_runnable (claim_stamp opts wall) (co_MinPriority opts) (co_Kinds opts) s r"
    unfolding sql_first_None .
  then show ?thesis unfolding ClaimNextOperation_eq [OF assms] None by simp
next
  case (Some c)
  show ?thesis
    unfolding ClaimNextOperation_eq [OF assms] Some option.case sum.case prod.case
    using sql_first_Some [OF Some] claimed_store_tables(1) [of c opts wall s]
    by (intro bexI [of _ c]) simp_all
qed

theorem claim_takes_first_runnable_witness:
  "case ClaimNextOperation worker_claim 0 waiting_store of
      (Inl e, s') \<Rightarrow> False
    | (Inr x, s') \<Rightarrow> op_runnable (claim_stamp worker_claim 0) 0 [''deploy''] waiting_store web_operation \<and>
        operations s' = [claim_set ''w'' (claim_lease worker_claim 0) (claim_stamp worker_claim 0) web_operation]"
proof -
  have "fst (ClaimNextOperation worker_claim 0 waiting_store) \<noteq> Inl ErrNoRows"
    unfolding ClaimNextOperation_eq [OF demo_wf(2) worker_claim_ok] worker_claims by simp
  then show ?thesis
    using claim_takes_first_runnable [OF demo_wf(2) worker_claim_ok, of 0]
    by (auto simp: sql_update_def worker_claim_def web_operation_def trim_def trim_left_def go_space_def
        split: prod.splits sum.splits)
qed


text \<open>C5. Lease fencing: renewing, deferring and completing succeed exactly for the worker that
  currently holds the operation's lease; for anyone else (a worker that lost it to recovery, or
  one whose operation has finished) they report \<open>sql.ErrNoRows\<close> and change nothing.\<close>

theorem lease_fencing:
  assumes "queue_wf s" and "terminal_status st"
  shows "((\<exists>b. fst (RenewOperationLease oid owner l now s) = Inr b) \<longleftrightarrow> lease_held s oid owner) \<and>
    (fst (DeferOperation oid owner d now s) = Inr () \<longleftrightarrow> lease_held s oid owner) \<and>
    (fst (CompleteOperation \<lparr>ci_ID = oid, ci_Owner = owner, ci_Status = st, ci_ProgressStep = ps,
      ci_ErrorCode = ec, ci_ErrorMessage = em\<rparr> now s) = Inr () \<longleftrightarrow> lease_held s oid owner) \<and>
    (\<not> lease_held s oid owner \<longrightarrow>
      RenewOperationLease oid owner l now s = (Inl ErrNoRows, s) \<and>
      DeferOperation oid owner d now s = (Inl ErrNoRows, s) \<and>
      CompleteOperation \<lparr>ci_ID = oid, ci_Owner = owner, ci_Status = st, ci_ProgressStep = ps,
        ci_ErrorCode = ec, ci_ErrorMessage = em\<rparr> now s = (Inl ErrNoRows, s))"
proof -
  let ?c = "\<lparr>ci_ID = oid, ci_Owner = owner, ci_Status = st, ci_ProgressStep = ps,
    ci_ErrorCode = ec, ci_ErrorMessage = em\<rparr>"
  have lost: "RenewOperationLease oid owner l now s = (Inl ErrNoRows, s)"
    "DeferOperation oid owner d now s = (Inl ErrNoRows, s)"
    "CompleteOperation ?c now s = (Inl ErrNoRows, s)" if "\<not> lease_held s oid owner"
    using that RenewOperationLease_lost [OF assms(1)] DeferOperation_lost [OF assms(1)]
      CompleteOperation_lost [OF assms(1), of ?c] assms(2) by simp_all
  have held: "\<exists>b. fst (RenewOperationLease oid owner l now s) = Inr b"
    "fst (DeferOperation oid owner d now s) = Inr ()" "fst (CompleteOperation ?c now s) = Inr ()"
    if "lease_held s oid owner"
    using that RenewOperationLease_held(1) [OF assms(1), of _ oid owner l now]
      DeferOperation_held(1) [OF assms(1)] CompleteOperation_held(1) [OF assms(1), of ?c] assms(2)
    by (auto simp: lease_held_def)
  show ?thesis
    using lost held by (cases "lease_held s oid owner") simp_all
qed

lemma running_lease: "lease_held running_store ''d1'' ''w''" "\<not> lease_held running_store ''d1'' ''x''"
  by (simp_all add: lease_held_def held_by_def web_running_def web_operation_def
      trim_def [of "''x''"] trim_left_def go_space_def)

theorem lease_fencing_witness:
  "fst (DeferOperation ''d1'' ''w'' 0 0 running_store) = Inr () \<and>
   DeferOperation ''d1'' ''x'' 0 0 running_store = (Inl ErrNoRows, running_store)"
  using lease_fencing [OF demo_wf(3) terminal_cancelled, where oid = "''d1''" and owner = "''w''" and d = 0 and now = 0]
    lease_fencing [OF demo_wf(3) terminal_cancelled, where oid = "''d1''" and owner = "''x''" and d = 0 and now = 0] running_lease by blast

text \<open>C3. Boot recovery, exactly: an operation that was running is failed if its attempts are used
  up and requeued otherwise; a deployment that was open is failed as interrupted unless its
  operation is waiting afterwards; the two counts are those of the requeued operations and of
  the failed ones plus the orphaned deployments; and nothing is left running.\<close>

theorem recovery_exact:
  assumes "queue_wf s"
  shows "operations (snd (RecoverOperations at s)) = map (recover_row (rfc3339_nano at)) (operations s) \<and>
    deployments (snd (RecoverOperations at s)) =
      map (recover_dep (survivor_ids s) (rfc3339_nano at)) (deployments s) \<and>
    fst (RecoverOperations at s) = Inr
      (sql_count (\<lambda>r. op_is_running r \<and> \<not> exhausted_op r) (operations s),
       sql_count exhausted_op (operations s) +
       sql_count (\<lambda>d. dep_open d \<and> dep_id d \<notin> set (survivor_ids s) \<and>
           dep_id d \<notin> op_id ` set (filter exhausted_op (operations s))) (deployments s)) \<and>
    (\<forall>r \<in> set (operations (snd (RecoverOperations at s))). op_status r \<noteq> ''running'')"
proof (intro conjI)
  let ?n = "rfc3339_nano at"
  let ?s2 = "snd (requeue_running ?n (snd (fail_exhausted ?n s)))"
  let ?ex = "\<lambda>d. dep_open d \<and> dep_id d \<in> set (map op_id (filter exhausted_op (operations s)))"
  show "operations (snd (RecoverOperations at s)) = map (recover_row ?n) (operations s)"
    by (rule recover_operations)
  show "deployments (snd (RecoverOperations at s)) =
      map (recover_dep (survivor_ids s) ?n) (deployments s)"
    by (rule recover_deployments [OF assms])
  have live: "live_operation_ids ?s2 = survivor_ids s"
    by (rule recover_live_ids [of _ ?n]) (simp add: requeue_running_sel fail_exhausted_sel recover_row_update)
  have "sql_count (\<lambda>d. dep_open d \<and> dep_id d \<notin> set (survivor_ids s)) (sql_update ?ex (interrupted_dep ?n) ds) =
      sql_count (\<lambda>d. dep_open d \<and> dep_id d \<notin> set (survivor_ids s) \<and>
        dep_id d \<notin> op_id ` set (filter exhausted_op (operations s))) ds" for ds
    by (induction ds) (auto simp: sql_count_def sql_update_def)
  then show "fst (RecoverOperations at s) = Inr
      (sql_count (\<lambda>r. op_is_running r \<and> \<not> exhausted_op r) (operations s),
       sql_count exhausted_op (operations s) +
       sql_count (\<lambda>d. dep_open d \<and> dep_id d \<notin> set (survivor_ids s) \<and>
           dep_id d \<notin> op_id ` set (filter exhausted_op (operations s))) (deployments s))"
    by (simp add: RecoverOperations_eq Let_def sweepOrphanedDeploymentsTx_def live
        requeue_running_sel fail_exhausted_sel recover_requeued)
  show "\<forall>r \<in> set (operations (snd (RecoverOperations at s))). op_status r \<noteq> ''running''"
    by (simp add: recover_operations recover_row_status)
qed

theorem recovery_exact_witness:
  "fst (RecoverOperations 0 running_store) = Inr (0, 1) \<and>
   map op_status (operations (snd (RecoverOperations 0 running_store))) = [''failed''] \<and>
   map dep_status (deployments (snd (RecoverOperations 0 running_store))) = [''FAILED'']"
  using recovery_exact [OF demo_wf(3), of 0]
  by (simp add: sql_count_def op_is_running_def exhausted_op_def web_running_def web_operation_def
      recover_row_status survivor_ids_def recover_dep_def dep_open_def running_store_def
      fresh_store_def web_deployment_def interrupted_dep_def)

text \<open>Deferring undoes a claim: when the worker that has just claimed an operation defers it,
  the operation is waiting again with the attempts it had, and no other operation's phase,
  attempts or lock has moved.\<close>

theorem defer_undoes_claim:
  assumes wf: "queue_wf s" and ok: "trim (co_Owner opts) \<noteq> []" "int ns_per_sec \<le> co_Lease opts"
    and claim: "ClaimNextOperation opts wall s = (Inr x, s1)"
  shows "fst (DeferOperation (oper_ID x) (co_Owner opts) d now s1) = Inr () \<and>
    queue_abs (snd (DeferOperation (oper_ID x) (co_Owner opts) d now s1)) = queue_abs s"
proof
  obtain c where pick: "claim_pick opts wall s = Some c"
    using claim by (auto simp: ClaimNextOperation_eq [OF wf ok] split: option.splits)
  note c = claim_pick_props [OF pick]
  let ?f = "claim_set (trim (co_Owner opts)) (claim_lease opts wall) (claim_stamp opts wall)"
  have eqs: "x = scanOperation (?f c)" "s1 = claimed_store opts wall c s"
    using claim pick by (simp_all add: ClaimNextOperation_eq [OF wf ok])
  have wf1: "queue_wf s1" using queue_wf_claim [OF wf ok(1) pick] eqs(2) by simp
  have "oper_ID x = op_id c" "trim (op_id c) = op_id c"
    using eqs(1) queue_wf_row [OF wf c(1)] by (simp_all add: scanOperation_def op_row_wf_def)
  then have id: "trim (oper_ID x) = op_id c" by simp
  have row: "?f c \<in> set (operations s1)" "held_by (trim (oper_ID x)) (trim (co_Owner opts)) (?f c)"
    using c(1,3) id by (auto simp: eqs(2) set_sql_update held_by_def intro!: image_eqI [of _ _ c])
  then have h: "lease_held s1 (oper_ID x) (co_Owner opts)" by (auto simp: lease_held_def)
  show "fst (DeferOperation (oper_ID x) (co_Owner opts) d now s1) = Inr ()"
    by (rule DeferOperation_held(1) [OF wf1 h])
  have "queue_abs (snd (DeferOperation (oper_ID x) (co_Owner opts) d now s1)) =
      (queue_abs s1)(op_id c \<mapsto> abstract_of (defer_op_set d now (?f c)))"
    by (rule queue_abs_one [OF wf1 DeferOperation_held(2) [OF wf1 h] _ _ row])
      (auto simp: defer_op_set_sel id dest: held_by_sel)
  moreover have "queue_abs s1 = (queue_abs s)(op_id c \<mapsto> abstract_of (?f c))"
    unfolding eqs(2)
    by (rule queue_abs_one [OF wf claimed_store_tables(1) _ _ c(1)]) (use c(3) in auto)
  moreover have "abstract_of (defer_op_set d now (?f c)) = abstract_of c"
    using c(3) queue_wf_row [OF wf c(1)]
    by (simp add: abstract_of_def phase_of_def defer_op_set_def op_row_wf_def)
  ultimately show "queue_abs (snd (DeferOperation (oper_ID x) (co_Owner opts) d now s1)) = queue_abs s"
    using queue_abs_at [OF wf c(1)] by (auto simp: fun_eq_iff)
qed

theorem defer_undoes_claim_witness:
  "\<exists>x s1. ClaimNextOperation worker_claim 0 waiting_store = (Inr x, s1) \<and>
     queue_abs (snd (DeferOperation (oper_ID x) ''w'' 0 7 s1)) ''d1'' =
       Some \<lparr>ao_phase = Waiting, ao_attempt = 0, ao_max = 1, ao_key = ''deploy:svc:env''\<rparr>"
proof -
  obtain x s1 where cl: "ClaimNextOperation worker_claim 0 waiting_store = (Inr x, s1)"
    unfolding ClaimNextOperation_eq [OF demo_wf(2) worker_claim_ok] worker_claims by simp
  have "co_Owner worker_claim = ''w''" by (simp add: worker_claim_def)
  moreover have "queue_abs waiting_store ''d1'' =
      Some \<lparr>ao_phase = Waiting, ao_attempt = 0, ao_max = 1, ao_key = ''deploy:svc:env''\<rparr>"
    by (simp add: queue_abs_def sql_get_def abstract_of_def phase_of_def web_operation_def)
  ultimately show ?thesis
    using cl defer_undoes_claim [OF demo_wf(2) worker_claim_ok cl, of 0 7] by force
qed


text \<open>C2. The queue refines its specification: every transaction is one step of the abstract queue
  (new, claim only if waiting with attempts left and a free lock, defer, finish only if held,
  drop only if waiting, restart) or a stutter.\<close>

theorem queue_refines_spec:
  assumes "queue_tx s s'" and "queue_wf s"
  shows "abstract_step (queue_abs s) (queue_abs s') \<or> queue_abs s' = queue_abs s"
  using assms by (rule queue_tx_simulates)

theorem queue_refines_spec_witness:
  "abstract_step (queue_abs waiting_store)
     (queue_abs (snd (ClaimNextOperation worker_claim 0 waiting_store)))"
proof -
  let ?s' = "snd (ClaimNextOperation worker_claim 0 waiting_store)"
  have st: "op_status (claim_set a b c web_operation) = ''running''" for a b c by simp
  have ops: "operations ?s' = [claim_set ''w'' (claim_lease worker_claim 0) (claim_stamp worker_claim 0)
      web_operation]"
    unfolding ClaimNextOperation_eq [OF demo_wf(2) worker_claim_ok] worker_claims
    by (simp add: sql_update_def web_operation_def worker_claim_def)
  have "queue_abs ?s' ''d1'' \<noteq> queue_abs waiting_store ''d1''"
    by (simp add: queue_abs_def ops sql_get_def abstract_of_def phase_of_def st)
      (simp add: web_operation_def)
  then have "queue_abs ?s' \<noteq> queue_abs waiting_store" by metis
  with queue_refines_spec [OF tx_claim demo_wf(2), of worker_claim 0] show ?thesis by blast
qed




lemma demo_timeline: "timeline_wf waiting_store"
  by (simp add: timeline_wf_def deps_wf_def timeline_ok_def has_service_def events_of_def
      waiting_store_def fresh_store_def web_deployment_def web_service_def)


text \<open>C8. A finished deployment is never reopened or changed by the queue: whatever queue
  transaction runs, a deployment that is SUCCESS, FAILED or CANCELLED keeps its row.\<close>

theorem terminal_deployment_kept:
  assumes "queue_tx s s'" and "d \<in> set (deployments s)" and "\<not> dep_open d"
  shows "d \<in> set (deployments s')"
  using closed_kept_tx [OF assms(1)] assms(2,3) by (simp add: closed_kept_def)

theorem terminal_deployment_kept_witness:
  "web_deployment\<lparr>dep_status := ''CANCELLED''\<rparr> \<in> set (deployments (snd (ClaimNextOperation worker_claim 0
     (waiting_store\<lparr>deployments := [web_deployment\<lparr>dep_status := ''CANCELLED''\<rparr>]\<rparr>))))"
  by (rule terminal_deployment_kept [OF tx_claim]) (simp_all add: dep_open_def)

text \<open>C9. No deployment is left hanging: if no open deployment has a finished operation, that
  stays so under every queue transaction, since completing, failing or cancelling an operation
  closes its deployment in the same transaction.\<close>

theorem no_deployment_stranded:
  assumes "queue_tx s s'" and "queue_wf s" and "no_stranded s"
  shows "no_stranded s'"
  using assms by (rule no_stranded_tx)

theorem no_deployment_stranded_witness:
  "no_stranded (snd (RequestOperationCancellation ''d1'' 3 waiting_store))"
  by (rule no_deployment_stranded [OF tx_cancel])
    (simp_all add: no_stranded_def web_operation_def terminal_status_def)

text \<open>C10. After boot recovery every deployment that is still QUEUED or BUILDING has a waiting
  operation that will drive it to an end; this holds from any store, including one where the
  deployment was inserted and the process died before its operation was.\<close>

theorem recovery_leaves_no_orphan:
  assumes "queue_wf s" and "d \<in> set (deployments (snd (RecoverOperations at s)))" and "dep_open d"
  shows "\<exists>r \<in> set (operations (snd (RecoverOperations at s))).
    op_id r = dep_id d \<and> op_status r = ''queued''"
  using assms by (rule recover_open_queued)

theorem recovery_leaves_no_orphan_witness:
  "\<exists>r \<in> set (operations (snd (RecoverOperations 0 waiting_store))).
    op_id r = ''d1'' \<and> op_status r = ''queued''"
proof -
  have "deployments (snd (RecoverOperations 0 waiting_store)) = [web_deployment]"
    unfolding recover_deployments [OF demo_wf(2)]
    by (simp add: waiting_store_def fresh_store_def recover_dep_def survivor_ids_def web_operation_def
        web_deployment_def)
  then have "\<exists>r \<in> set (operations (snd (RecoverOperations 0 waiting_store))).
      op_id r = dep_id web_deployment \<and> op_status r = ''queued''"
    by (intro recovery_leaves_no_orphan [OF demo_wf(2)]) (simp_all add: dep_open_def web_deployment_def)
  then show ?thesis by (simp add: web_deployment_def)
qed

text \<open>A deploy runs at most once: an operation queued by \<open>EnqueueDeployOperation\<close> has a
  single attempt, and once it has been claimed, recovery fails it, and its open deployment with
  it, instead of starting it again.\<close>

theorem deploy_not_resumed:
  assumes wf: "queue_wf s" and r: "r \<in> set (operations s)" "op_max_attempts r = 1"
    "op_status r = ''running''"
  shows "(\<exists>r' \<in> set (operations (snd (RecoverOperations at s))).
      op_id r' = op_id r \<and> op_status r' = ''failed'' \<and> op_error_code r' = ''interrupted'') \<and>
    (\<forall>d \<in> set (deployments s). dep_id d = op_id r \<longrightarrow> dep_open d \<longrightarrow>
      interrupted_dep (rfc3339_nano at) d \<in> set (deployments (snd (RecoverOperations at s))))"
proof
  have ex: "exhausted_op r"
    using queue_wf_row [OF wf r(1)] r(2,3) by (simp add: op_row_wf_def exhausted_op_def)
  then show "\<exists>r' \<in> set (operations (snd (RecoverOperations at s))).
      op_id r' = op_id r \<and> op_status r' = ''failed'' \<and> op_error_code r' = ''interrupted''"
    unfolding recover_operations using r(1)
    by (intro bexI [of _ "recover_row (rfc3339_nano at) r"]) (simp_all add: recover_row_def fail_op_set_def)
  have "op_id r \<notin> set (survivor_ids s)"
    by (rule exhausted_not_survivor [OF wf]) (use ex r(1) in auto)
  then show "\<forall>d \<in> set (deployments s). dep_id d = op_id r \<longrightarrow> dep_open d \<longrightarrow>
      interrupted_dep (rfc3339_nano at) d \<in> set (deployments (snd (RecoverOperations at s)))"
    unfolding recover_deployments [OF wf]
    by (auto simp: recover_dep_def intro!: image_eqI)
qed

theorem deploy_not_resumed_witness:
  "\<exists>r' \<in> set (operations (snd (RecoverOperations 0 running_store))).
      op_id r' = op_id web_running \<and> op_status r' = ''failed'' \<and> op_error_code r' = ''interrupted''"
  by (rule deploy_not_resumed [THEN conjunct1, OF demo_wf(3)]) (simp_all add: web_running_def web_operation_def)

end
