(* ===== verification/HF_Workers.thy ===== *)
theory HF_Workers
  imports HF_Queue_Spec "HOL-Library.AList"
begin

text \<open>
  The worker runtime of internal/workers: the registry of handlers, the configuration, the claim
  loop, what becomes of one claimed operation, the lease holder, and the release of held leases
  at shutdown.  The \<open>Store\<close> interface is a record of functions, so that the runtime is written
  over any store as in the source; the laws it needs are the locale \<open>queue_store\<close>, which the
  repository layer's queue interprets.
\<close>

section \<open>Error chains\<close>

text \<open>
  A Go error is the list of the errors \<open>errors.Unwrap\<close> walks, outermost first: a wrapper with
  its prefix or a leaf with its message, a \<open>HandlerError\<close>, a \<open>CodedError\<close>, or a sentinel.
  \<open>errors.Is\<close> finds a sentinel in the chain, \<open>errors.As\<close> the first error of a type.
\<close>

datatype err_node =
    Text string
  | HandlerNode string
  | CodedNode string
  | Canceled
  | Obsolete
  | NoRows

type_synonym err_chain = "err_node list"

fun err_text :: "err_chain \<Rightarrow> string" where
  "err_text [] = []"
| "err_text (Text m # rest) = (if rest = [] then m else m @ '': '' @ err_text rest)"
| "err_text (HandlerNode c # rest) = (if rest = [] then c else err_text rest)"
| "err_text (CodedNode c # rest) = (if rest = [] then c else err_text rest)"
| "err_text (Canceled # rest) = ''context canceled''"
| "err_text (Obsolete # rest) = ''operation is no longer applicable''"
| "err_text (NoRows # rest) = ''sql: no rows in result set''"

fun as_handler :: "err_chain \<Rightarrow> string option" where
  "as_handler [] = None"
| "as_handler (HandlerNode c # _) = Some c"
| "as_handler (_ # rest) = as_handler rest"

fun as_coded :: "err_chain \<Rightarrow> string option" where
  "as_coded [] = None"
| "as_coded (CodedNode c # _) = Some c"
| "as_coded (_ # rest) = as_coded rest"

definition errorCode :: "err_chain \<Rightarrow> string" where
  "errorCode err =
     (case as_handler err of
        Some c \<Rightarrow> if c \<noteq> [] then c else ''operation_failed''
      | None \<Rightarrow> ''operation_failed'')"

definition Failf :: "string \<Rightarrow> string \<Rightarrow> err_chain" where
  "Failf code msg = [HandlerNode code, Text msg]"

text \<open>\<open>ErrCode\<close>, \<open>PublicCode\<close> and \<open>FirstPublicCode\<close>; the empty chain is the nil error.\<close>

definition ErrCode :: "string \<Rightarrow> err_chain \<Rightarrow> err_chain" where
  "ErrCode code err = (if err = [] then [] else CodedNode code # err)"

definition PublicCode :: "err_chain \<Rightarrow> string" where
  "PublicCode err =
     (if err = [] then []
      else case as_coded err of
             Some c \<Rightarrow> if c \<noteq> [] then c else ''internal_error''
           | None \<Rightarrow> ''internal_error'')"

fun walk_codes :: "string \<Rightarrow> err_chain \<Rightarrow> string" where
  "walk_codes last_code [] = last_code"
| "walk_codes last_code (e # rest) =
     (case as_coded (e # rest) of
        Some c \<Rightarrow> walk_codes (if c \<noteq> [] then c else last_code) rest
      | None \<Rightarrow> walk_codes last_code rest)"

definition FirstPublicCode :: "err_chain \<Rightarrow> string" where
  "FirstPublicCode err =
     (if err = [] then []
      else let c = walk_codes [] err in if c \<noteq> [] then c else ''internal_error'')"

section \<open>Store interface, handlers and registry\<close>

record 's worker_store =
  ClaimNext :: "claim_options \<Rightarrow> instant \<Rightarrow> 's \<Rightarrow> operation res \<times> 's"
  RenewLease :: "string \<Rightarrow> string \<Rightarrow> int \<Rightarrow> instant \<Rightarrow> 's \<Rightarrow> bool res \<times> 's"
  CancelRequested :: "string \<Rightarrow> 's \<Rightarrow> bool res \<times> 's"
  Defer :: "string \<Rightarrow> string \<Rightarrow> int \<Rightarrow> instant \<Rightarrow> 's \<Rightarrow> unit res \<times> 's"
  Complete :: "complete_input \<Rightarrow> instant \<Rightarrow> 's \<Rightarrow> unit res \<times> 's"
  Recover :: "instant \<Rightarrow> 's \<Rightarrow> (nat \<times> nat) res \<times> 's"

text \<open>
  A handler: its kind, the optional \<open>ReadinessChecker\<close> and \<open>Handle\<close>, which runs on the store
  (its own writes and those of everyone else while it runs) and is told whether its context was
  cancelled meanwhile.
\<close>

record 's handler =
  h_kind :: string
  h_ready :: "(operation \<Rightarrow> 's \<Rightarrow> int \<times> err_chain) option"
  h_handle :: "operation \<Rightarrow> bool \<Rightarrow> 's \<Rightarrow> err_chain \<times> 's"

type_synonym 's registry = "(string \<times> 's handler) list"

definition registry_register :: "'s registry \<Rightarrow> 's handler option \<Rightarrow> 's registry res" where
  "registry_register reg h =
     (case h of
        None \<Rightarrow> Inl (Errorf ''nil handler'' [])
      | Some h' \<Rightarrow>
          let kind = trim (h_kind h')
          in if kind = [] then Inl (Errorf ''handler kind must not be empty'' [])
             else if kind \<in> fst ` set reg
             then Inl (Errorf ''handler for kind %q is already registered'' [kind])
             else Inr (reg @ [(kind, h')]))"

definition registry_lookup :: "'s registry \<Rightarrow> string \<Rightarrow> 's handler option" where
  "registry_lookup reg kind = map_of reg (trim kind)"

definition registry_kinds :: "'s registry \<Rightarrow> string list" where
  "registry_kinds reg = sort (map fst reg)"

section \<open>Configuration and life cycle\<close>

text \<open>Durations are nanoseconds.\<close>

record runtime_config =
  cfg_Concurrency :: int
  cfg_Lease :: int
  cfg_LeaseRefresh :: int
  cfg_CancelPoll :: int
  cfg_PollInterval :: int
  cfg_MinPriority :: int
  cfg_SkipRecovery :: bool

record held_lease =
  hl_owner :: string
  hl_maxAttempts :: int

record 's runtime =
  rt_cfg :: runtime_config
  rt_registry :: "'s registry"
  rt_kinds :: "string list"
  rt_started :: bool
  rt_leases :: "(string \<times> held_lease) list"

definition default_to :: "int \<Rightarrow> int \<Rightarrow> int" where
  "default_to d v = (if v \<le> 0 then d else v)"

definition NewRuntime :: "bool \<Rightarrow> runtime_config \<Rightarrow> 's runtime res" where
  "NewRuntime has_store cfg =
     (if \<not> has_store then Inl (Errorf ''workers: a store is required'' [])
      else if cfg_Concurrency cfg < 1
      then Inl (Errorf ''workers: concurrency must be positive, got %d'' [])
      else Inr \<lparr> rt_cfg = cfg\<lparr>cfg_Lease := default_to 120000000000 (cfg_Lease cfg),
                   cfg_LeaseRefresh := default_to 30000000000 (cfg_LeaseRefresh cfg),
                   cfg_CancelPoll := default_to 1000000000 (cfg_CancelPoll cfg),
                   cfg_PollInterval := default_to 2000000000 (cfg_PollInterval cfg)\<rparr>,
                 rt_registry = [], rt_kinds = [], rt_started = False, rt_leases = [] \<rparr>)"

text \<open>\<open>Register\<close> stops at the first bad handler and keeps those before it.\<close>

fun register_all :: "'s registry \<Rightarrow> 's handler option list \<Rightarrow> go_error option \<times> 's registry" where
  "register_all reg [] = (None, reg)"
| "register_all reg (h # hs) =
     (case registry_register reg h of
        Inl e \<Rightarrow> (Some e, reg)
      | Inr reg' \<Rightarrow> register_all reg' hs)"

definition Register :: "'s handler option list \<Rightarrow> 's runtime \<Rightarrow> go_error option \<times> 's runtime" where
  "Register hs r =
     (if rt_started r then (Some (Errorf ''workers: handlers must be registered before Start'' []), r)
      else let (e, reg) = register_all (rt_registry r) hs in (e, r\<lparr>rt_registry := reg\<rparr>))"

text \<open>\<open>Start\<close> up to the launch of the workers, which is the interleaving of \<open>drain\<close> below.\<close>

definition Start :: "'s worker_store \<Rightarrow> instant \<Rightarrow> 's runtime \<Rightarrow> 's \<Rightarrow> go_error option \<times> 's runtime \<times> 's" where
  "Start W now r s =
     (if rt_started r then (Some (Errorf ''workers: already started'' []), r, s)
      else
        let r1 = r\<lparr>rt_started := True, rt_kinds := registry_kinds (rt_registry r)\<rparr>
        in if cfg_SkipRecovery (rt_cfg r1) then (None, r1, s)
           else case Recover W now s of
                  (Inl e, s1) \<Rightarrow> (Some e, r1, s1)
                | (Inr _, s1) \<Rightarrow> (None, r1, s1))"

definition trackLease :: "operation \<Rightarrow> string \<Rightarrow> 's runtime \<Rightarrow> 's runtime" where
  "trackLease op owner r =
     r\<lparr>rt_leases := AList.update (oper_ID op)
        \<lparr>hl_owner = owner, hl_maxAttempts = oper_MaxAttempts op\<rparr> (rt_leases r)\<rparr>"

definition releaseLease :: "string \<Rightarrow> 's runtime \<Rightarrow> 's runtime" where
  "releaseLease oid r = r\<lparr>rt_leases := AList.delete oid (rt_leases r)\<rparr>"

text \<open>The errors of the individual releases are only logged; the list is the map in any order.\<close>

definition release_one :: "'s worker_store \<Rightarrow> instant \<Rightarrow> string \<times> held_lease \<Rightarrow> 's \<Rightarrow> 's" where
  "release_one W now il s =
     (case il of (oid, l) \<Rightarrow>
        if hl_maxAttempts l \<le> 1
        then snd (Complete W \<lparr> ci_ID = oid, ci_Owner = hl_owner l, ci_Status = ''failed'',
               ci_ProgressStep = [], ci_ErrorCode = ''interrupted'',
               ci_ErrorMessage = ''operation interrupted by shutdown'' \<rparr> now s)
        else snd (Defer W oid (hl_owner l) 0 now s))"

definition releaseHeldLeases :: "'s worker_store \<Rightarrow> instant \<Rightarrow> (string \<times> held_lease) list \<Rightarrow> 's \<Rightarrow> 's" where
  "releaseHeldLeases W now held s = fold (release_one W now) held s"

section \<open>One claimed operation\<close>

definition complete :: "'s worker_store \<Rightarrow> instant \<Rightarrow> string \<Rightarrow> operation \<Rightarrow>
    string \<Rightarrow> string \<Rightarrow> string \<Rightarrow> string \<Rightarrow> 's \<Rightarrow> 's" where
  "complete W now owner op status progressStep code msg s =
     snd (Complete W \<lparr> ci_ID = oper_ID op, ci_Owner = owner, ci_Status = status,
       ci_ProgressStep = progressStep, ci_ErrorCode = code, ci_ErrorMessage = msg \<rparr> now s)"

datatype verdict =
    Proceed
  | Finish string string string string
  | Postpone int

definition ready_verdict :: "'s handler \<Rightarrow> operation \<Rightarrow> 's \<Rightarrow> verdict" where
  "ready_verdict h op s =
     (case h_ready h of
        None \<Rightarrow> Proceed
      | Some ready \<Rightarrow>
          (case ready op s of (retryAfter, err) \<Rightarrow>
             if Obsolete \<in> set err then Finish ''cancelled'' ''obsolete'' [] []
             else if err \<noteq> [] then Finish ''failed'' [] (errorCode err) (err_text err)
             else if retryAfter > 0 then Postpone retryAfter
             else Proceed))"

definition handle_verdict :: "err_chain \<Rightarrow> string \<times> string \<times> string" where
  "handle_verdict err =
     (if err = [] then (''success'', [], [])
      else if Canceled \<in> set err then (''cancelled'', [], [])
      else (''failed'', errorCode err, err_text err))"

text \<open>
  A dispatched operation is tracked while its handler runs, so that \<open>releaseHeldLeases\<close> can find
  it, and dropped when its outcome has been recorded.
\<close>

definition execute :: "'s worker_store \<Rightarrow> string \<Rightarrow> instant \<Rightarrow> bool \<Rightarrow> operation \<Rightarrow>
    's runtime \<Rightarrow> 's \<Rightarrow> 's runtime \<times> 's" where
  "execute W owner now ctxDone op r s =
     (case registry_lookup (rt_registry r) (oper_Kind op) of
        None \<Rightarrow> (r, complete W now owner op ''failed'' [] ''operation_kind_not_registered''
                 (''no handler is registered for kind '' @ oper_Kind op) s)
      | Some h \<Rightarrow>
          (case ready_verdict h op s of
             Finish status step code msg \<Rightarrow> (r, complete W now owner op status step code msg s)
           | Postpone d \<Rightarrow> (r, snd (Defer W (oper_ID op) owner d now s))
           | Proceed \<Rightarrow>
               let r1 = trackLease op owner r;
                   (err, s1) = h_handle h op ctxDone s;
                   (status, code, msg) = handle_verdict err
               in (releaseLease (oper_ID op) r1, complete W now owner op status [] code msg s1)))"

definition run_options :: "'s runtime \<Rightarrow> string \<Rightarrow> claim_options" where
  "run_options r owner =
     \<lparr> co_Owner = owner, co_Lease = cfg_Lease (rt_cfg r), co_MinPriority = cfg_MinPriority (rt_cfg r),
       co_Now = None, co_Kinds = rt_kinds r \<rparr>"

text \<open>
  The inner loop of \<open>run\<close>: claim and execute until shutdown, the queue is empty or a claim
  fails.  The clock, the stop context (before the claim, and after it failed) and the operation
  contexts are streams indexed by the round; the fuel bounds the rounds, and \<open>None\<close> is a loop
  that has not ended within it.  The flag of the result tells a worker that returns from one that
  waits for the next tick.
\<close>

record round_env =
  re_now :: instant
  re_stopped :: bool
  re_stopped_after :: bool
  re_ctxDone :: bool

fun drain :: "nat \<Rightarrow> 's worker_store \<Rightarrow> string \<Rightarrow> (nat \<Rightarrow> round_env) \<Rightarrow>
    's runtime \<Rightarrow> 's \<Rightarrow> (bool \<times> 's runtime \<times> 's) option" where
  "drain 0 W owner env r s = None"
| "drain (Suc n) W owner env r s =
     (if re_stopped (env n) then Some (True, r, s)
      else case ClaimNext W (run_options r owner) (re_now (env n)) s of
        (Inl e, s1) \<Rightarrow>
          if e = ErrNoRows then Some (False, r, s1) else Some (re_stopped_after (env n), r, s1)
      | (Inr op, s1) \<Rightarrow>
          (case execute W owner (re_now (env n)) (re_ctxDone (env n)) op r s1 of
             (r2, s2) \<Rightarrow> drain n W owner env r2 s2))"

section \<open>The lease holder\<close>

text \<open>
  The events \<open>holdLease\<close> selects on: the operation context is done, the cancellation ticker, or
  the renewal ticker.  The flag of a tick is whether the context was done by the time the store
  call returned.  Between ticks anyone may change the store.
\<close>

datatype 's lease_event =
    CtxDone
  | WatchTick bool "'s \<Rightarrow> 's"
  | RenewTick instant bool "'s \<Rightarrow> 's"

datatype lease_end = StillHolding | Returned | StoppedForCancellation | LeaseLost

fun holdLease :: "'s worker_store \<Rightarrow> string \<Rightarrow> string \<Rightarrow> int \<Rightarrow> 's lease_event list \<Rightarrow> 's \<Rightarrow>
    lease_end \<times> 's" where
  "holdLease W owner oid lease [] s = (StillHolding, s)"
| "holdLease W owner oid lease (CtxDone # es) s = (Returned, s)"
| "holdLease W owner oid lease (WatchTick ctxDone env # es) s =
     (case CancelRequested W oid s of
        (Inl _, s1) \<Rightarrow> if ctxDone then (Returned, s1) else holdLease W owner oid lease es (env s1)
      | (Inr req, s1) \<Rightarrow> if req then (StoppedForCancellation, s1)
                        else holdLease W owner oid lease es (env s1))"
| "holdLease W owner oid lease (RenewTick now ctxDone env # es) s =
     (case RenewLease W oid owner lease now s of
        (Inl _, s1) \<Rightarrow> if ctxDone then (Returned, s1) else (LeaseLost, s1)
      | (Inr req, s1) \<Rightarrow> if req then (StoppedForCancellation, s1)
                        else holdLease W owner oid lease es (env s1))"

fun event_env :: "'s lease_event \<Rightarrow> 's \<Rightarrow> 's" where
  "event_env CtxDone s = s"
| "event_env (WatchTick _ f) s = f s"
| "event_env (RenewTick _ _ f) s = f s"

text \<open>Whether the operation context has been cancelled by the lease holder.\<close>

definition cancels_work :: "lease_end \<Rightarrow> bool" where
  "cancels_work e \<longleftrightarrow> e = StoppedForCancellation \<or> e = LeaseLost"


section \<open>The contract of the store\<close>

text \<open>
  What the runtime relies on.  \<open>holds s i ow\<close>: worker \<open>ow\<close> holds the lease of operation \<open>i\<close>;
  \<open>stat s i\<close>: its status; \<open>waiting s\<close>: how many operations are queued.
\<close>

locale queue_store =
  fixes W :: "'s worker_store"
    and inv :: "'s \<Rightarrow> bool"
    and holds :: "'s \<Rightarrow> string \<Rightarrow> string \<Rightarrow> bool"
    and stat :: "'s \<Rightarrow> string \<Rightarrow> string option"
    and waiting :: "'s \<Rightarrow> nat"
  assumes claim_inv: "inv s \<Longrightarrow> inv (snd (ClaimNext W opts t s))"
    and renew_inv: "inv s \<Longrightarrow> inv (snd (RenewLease W i ow l t s))"
    and poll_same: "snd (CancelRequested W i s) = s"
    and defer_inv: "inv s \<Longrightarrow> inv (snd (Defer W i ow d t s))"
    and complete_inv: "inv s \<Longrightarrow> inv (snd (Complete W c t s))"
    and recover_inv: "inv s \<Longrightarrow> inv (snd (Recover W t s))"
    and claim_holds: "inv s \<Longrightarrow> ClaimNext W opts t s = (Inr x, s') \<Longrightarrow>
      holds s' (oper_ID x) (co_Owner opts)"
    and claim_waiting: "inv s \<Longrightarrow> ClaimNext W opts t s = (Inr x, s') \<Longrightarrow> waiting s' < waiting s"
    and renew_iff: "inv s \<Longrightarrow> is_Ok (fst (RenewLease W i ow l t s)) \<longleftrightarrow> holds s i ow"
    and renew_lost: "inv s \<Longrightarrow> \<not> holds s i ow \<Longrightarrow> snd (RenewLease W i ow l t s) = s"
    and complete_held: "inv s \<Longrightarrow> holds s (ci_ID c) (ci_Owner c) \<Longrightarrow> terminal_status (ci_Status c) \<Longrightarrow>
      stat (snd (Complete W c t s)) (ci_ID c) = Some (ci_Status c)"
    and complete_waiting: "inv s \<Longrightarrow> waiting (snd (Complete W c t s)) \<le> waiting s"
    and complete_frame: "inv s \<Longrightarrow> trim j \<noteq> trim (ci_ID c) \<Longrightarrow>
      stat (snd (Complete W c t s)) j = stat s j \<and> holds (snd (Complete W c t s)) j ow = holds s j ow"
    and defer_held: "inv s \<Longrightarrow> holds s i ow \<Longrightarrow> stat (snd (Defer W i ow d t s)) i = Some ''queued''"
    and defer_frame: "inv s \<Longrightarrow> trim j \<noteq> trim i \<Longrightarrow>
      stat (snd (Defer W i ow' d t s)) j = stat s j \<and> holds (snd (Defer W i ow' d t s)) j ow = holds s j ow"

text \<open>The status an executed operation ends in.\<close>

definition settled_status :: "'s runtime \<Rightarrow> bool \<Rightarrow> operation \<Rightarrow> 's \<Rightarrow> string" where
  "settled_status r ctxDone op s =
     (case registry_lookup (rt_registry r) (oper_Kind op) of
        None \<Rightarrow> ''failed''
      | Some h \<Rightarrow>
          (case ready_verdict h op s of
             Finish status _ _ _ \<Rightarrow> status
           | Postpone _ \<Rightarrow> ''queued''
           | Proceed \<Rightarrow> fst (handle_verdict (fst (h_handle h op ctxDone s)))))"

lemma ready_verdict_status:
  "ready_verdict h op s = Finish st a b c \<Longrightarrow> terminal_status st"
  by (auto simp: ready_verdict_def terminal_status_def split: option.splits prod.splits if_splits)

lemma handle_verdict_status: "terminal_status (fst (handle_verdict err))"
  by (simp add: handle_verdict_def terminal_status_def)

lemma settled_status_cases:
  "settled_status r c op s = ''queued'' \<or> terminal_status (settled_status r c op s)"
  using handle_verdict_status
  by (auto simp: settled_status_def terminal_status_def
      dest: ready_verdict_status split: option.splits verdict.splits)

lemma registry_lookup_in: "registry_lookup reg k = Some h \<Longrightarrow> h \<in> snd ` set reg"
  by (force simp: registry_lookup_def dest: map_of_SomeD)

context queue_store
begin

lemma complete_settles:
  assumes "inv s" and "holds s (oper_ID op) owner" and "terminal_status st"
  shows "stat (complete W now owner op st ps ec em s) (oper_ID op) = Some st"
  using complete_held [of s "\<lparr>ci_ID = oper_ID op, ci_Owner = owner, ci_Status = st,
      ci_ProgressStep = ps, ci_ErrorCode = ec, ci_ErrorMessage = em\<rparr>" now] assms
  by (simp add: complete_def)

lemma complete_keeps_inv: "inv s \<Longrightarrow> inv (complete W now owner op st ps ec em s)"
  by (simp add: complete_def complete_inv)

lemma execute_inv:
  assumes "inv s" and "\<And>h s. h \<in> snd ` set (rt_registry r) \<Longrightarrow> inv s \<Longrightarrow> inv (snd (h_handle h op c s))"
  shows "inv (snd (execute W owner now c op r s))"
  using assms
  by (auto simp: execute_def Let_def complete_keeps_inv defer_inv split: option.split verdict.split
      prod.split dest!: registry_lookup_in)
    (metis complete_keeps_inv snd_conv image_eqI)+

lemma execute_settles:
  assumes inv: "inv s" and held: "holds s (oper_ID op) owner"
    and handlers: "\<And>h. h \<in> snd ` set (rt_registry r) \<Longrightarrow>
      inv (snd (h_handle h op c s)) \<and> holds (snd (h_handle h op c s)) (oper_ID op) owner"
  shows "stat (snd (execute W owner now c op r s)) (oper_ID op) = Some (settled_status r c op s)"
proof (cases "registry_lookup (rt_registry r) (oper_Kind op)")
  case None
  then show ?thesis
    using complete_settles [OF inv held, of "''failed''"]
    by (simp add: execute_def settled_status_def terminal_status_def)
next
  case (Some h)
  show ?thesis
  proof (cases "ready_verdict h op s")
    case Proceed
    obtain err s1 where hh: "h_handle h op c s = (err, s1)" by fastforce
    have "inv s1 \<and> holds s1 (oper_ID op) owner"
      using handlers [OF registry_lookup_in [OF Some]] hh by simp
    then show ?thesis
      using Some Proceed hh complete_settles [of s1 op owner "fst (handle_verdict err)" now]
        handle_verdict_status [of err]
      by (simp add: execute_def settled_status_def Let_def case_prod_beta)
  next
    case (Finish st a b d)
    then show ?thesis
      using Some complete_settles [OF inv held ready_verdict_status [OF Finish]]
      by (simp add: execute_def settled_status_def)
  next
    case (Postpone d)
    then show ?thesis
      using Some defer_held [OF inv held] by (simp add: execute_def settled_status_def)
  qed
qed

lemma complete_drops: "inv s \<Longrightarrow> waiting (complete W now owner op st ps ec em s) \<le> waiting s"
  by (simp add: complete_def complete_waiting)

lemma execute_waiting:
  assumes inv: "inv s"
    and handlers: "\<And>h op c s. h \<in> snd ` set (rt_registry r) \<Longrightarrow> inv s \<Longrightarrow>
      h_ready h = None \<and> inv (snd (h_handle h op c s)) \<and> waiting (snd (h_handle h op c s)) \<le> waiting s"
  shows "waiting (snd (execute W owner now c op r s)) \<le> waiting s"
proof (cases "registry_lookup (rt_registry r) (oper_Kind op)")
  case None
  then show ?thesis using complete_drops [OF inv] by (simp add: execute_def)
next
  case (Some h)
  note h = handlers [OF registry_lookup_in [OF Some] inv, of op c]
  then have "ready_verdict h op s = Proceed" by (simp add: ready_verdict_def)
  moreover have "waiting (complete W now owner op a b d e (snd (h_handle h op c s))) \<le> waiting s" for a b d e
    using complete_drops [of "snd (h_handle h op c s)"] h order_trans by blast
  ultimately show ?thesis
    using Some by (simp add: execute_def Let_def case_prod_beta)
qed

text \<open>With handlers that never postpone, every round of the loop uses up a queued operation.\<close>

lemma drain_ends:
  assumes "inv s" and "waiting s < n" and "\<And>k. \<not> re_stopped (env k)"
    and "\<And>h op c s. h \<in> snd ` set (rt_registry r) \<Longrightarrow> inv s \<Longrightarrow>
      h_ready h = None \<and> inv (snd (h_handle h op c s)) \<and> waiting (snd (h_handle h op c s)) \<le> waiting s"
  shows "\<exists>b r' s' k e s''. drain n W owner env r s = Some (b, r', s') \<and> inv s'' \<and>
    rt_cfg r' = rt_cfg r \<and> rt_kinds r' = rt_kinds r \<and>
    ClaimNext W (run_options r owner) (re_now (env k)) s'' = (Inl e, s')"
  using assms
proof (induction n arbitrary: r s)
  case 0
  then show ?case by simp
next
  case (Suc n)
  show ?case
  proof (cases "ClaimNext W (run_options r owner) (re_now (env n)) s")
    case (Pair a s1)
    show ?thesis
    proof (cases a)
      case (Inl e)
      then show ?thesis using Pair Suc.prems(1,3) by auto
    next
      case (Inr op)
      let ?ex = "execute W owner (re_now (env n)) (re_ctxDone (env n)) op r s1"
      have inv1: "inv s1"
        using claim_inv [OF Suc.prems(1), of "run_options r owner" "re_now (env n)"] Pair by simp
      have less: "waiting s1 < waiting s"
        using claim_waiting [OF Suc.prems(1)] Pair Inr by simp
      have reg: "rt_registry (fst ?ex) = rt_registry r" "rt_cfg (fst ?ex) = rt_cfg r"
        "rt_kinds (fst ?ex) = rt_kinds r"
        by (auto simp: execute_def Let_def trackLease_def releaseLease_def
            split: option.split verdict.split prod.split)
      have "inv (snd ?ex)" by (rule execute_inv [OF inv1]) (use Suc.prems(4) in blast)
      moreover have "waiting (snd ?ex) \<le> waiting s1"
        using inv1 Suc.prems(4)
        by (rule execute_waiting)
      ultimately have "\<exists>b r' s' k e s''. drain n W owner env (fst ?ex) (snd ?ex) = Some (b, r', s') \<and>
          inv s'' \<and> rt_cfg r' = rt_cfg (fst ?ex) \<and> rt_kinds r' = rt_kinds (fst ?ex) \<and>
          ClaimNext W (run_options (fst ?ex) owner) (re_now (env k)) s'' = (Inl e, s')"
        using Suc.prems(2,3,4) less by (intro Suc.IH) (simp_all add: reg)
      then show ?thesis using Pair Inr Suc.prems(3) by (simp add: case_prod_beta reg run_options_def)
    qed
  qed
qed

lemma release_one_inv: "inv s \<Longrightarrow> inv (release_one W now il s)"
  by (simp add: release_one_def complete_inv defer_inv split: prod.split)

lemma release_one_settles:
  assumes "inv s" and "holds s i (hl_owner l)"
  shows "stat (release_one W now (i, l) s) i =
    Some (if hl_maxAttempts l \<le> 1 then ''failed'' else ''queued'')"
  using assms complete_held [of s "\<lparr>ci_ID = i, ci_Owner = hl_owner l, ci_Status = ''failed'',
      ci_ProgressStep = [], ci_ErrorCode = ''interrupted'',
      ci_ErrorMessage = ''operation interrupted by shutdown''\<rparr>" now]
    defer_held [of s i "hl_owner l" 0 now]
  by (simp add: release_one_def terminal_status_def)

lemma release_one_frame:
  assumes "inv s" and "trim j \<noteq> trim i"
  shows "stat (release_one W now (i, l) s) j = stat s j \<and>
    holds (release_one W now (i, l) s) j ow = holds s j ow"
  using complete_frame [OF assms(1), of j] defer_frame [OF assms] assms(2)
  by (simp add: release_one_def)

lemma release_frame:
  "inv s \<Longrightarrow> trim j \<notin> trim ` fst ` set held \<Longrightarrow> stat (releaseHeldLeases W now held s) j = stat s j"
proof (induction held arbitrary: s)
  case Nil
  then show ?case by (simp add: releaseHeldLeases_def)
next
  case (Cons il held)
  then show ?case
    using release_one_frame [of s j "fst il" now "snd il"] release_one_inv [of s now il]
    by (simp add: releaseHeldLeases_def)
qed

lemma release_settles:
  assumes "inv s" and "distinct (map (trim \<circ> fst) held)"
    and "\<And>i l. (i, l) \<in> set held \<Longrightarrow> holds s i (hl_owner l)" and "(i, l) \<in> set held"
  shows "stat (releaseHeldLeases W now held s) i =
    Some (if hl_maxAttempts l \<le> 1 then ''failed'' else ''queued'')"
  using assms
proof (induction held arbitrary: s)
  case Nil
  then show ?case by simp
next
  case (Cons jm held)
  obtain j m where jm: "jm = (j, m)" by (cases jm)
  let ?s1 = "release_one W now (j, m) s"
  have inv1: "inv ?s1" by (rule release_one_inv [OF Cons.prems(1)])
  have fresh: "trim j \<notin> trim ` fst ` set held"
    using Cons.prems(2) jm by (auto simp: image_image)
  have step: "releaseHeldLeases W now (jm # held) s = releaseHeldLeases W now held ?s1"
    by (simp add: releaseHeldLeases_def jm)
  show ?case
  proof (cases "(i, l) = (j, m)")
    case True
    then show ?thesis
      using release_frame [OF inv1 fresh, of now] release_one_settles [OF Cons.prems(1), of j m now]
        Cons.prems(3) [of j m] jm by (simp add: step [unfolded jm])
  next
    case False
    then have "(i, l) \<in> set held" using Cons.prems(4) jm by auto
    moreover have "holds ?s1 k (hl_owner n)" if "(k, n) \<in> set held" for k n
    proof -
      have "trim k \<noteq> trim j" using fresh that by (metis fst_conv image_eqI)
      then show ?thesis
        using release_one_frame [OF Cons.prems(1)] Cons.prems(3) [of k n] that by simp
    qed
    ultimately show ?thesis
      unfolding step using inv1 Cons.prems(2) by (intro Cons.IH) simp_all
  qed
qed

text \<open>
  The lease holder reports the lease lost only when it is: the worker does not hold it in the
  store the holder leaves behind.
\<close>

lemma holdLease_lost:
  assumes "inv s" and "\<And>e s. e \<in> set es \<Longrightarrow> inv s \<Longrightarrow> inv (event_env e s)"
    and "holdLease W owner oid lease es s = (LeaseLost, s')"
  shows "inv s' \<and> \<not> holds s' oid owner"
  using assms
proof (induction es arbitrary: s)
  case Nil
  then show ?case by simp
next
  case (Cons e es)
  note IH = Cons.IH and pr = Cons.prems
  have envs: "\<And>e s. e \<in> set es \<Longrightarrow> inv s \<Longrightarrow> inv (event_env e s)" using pr(2) by simp
  show ?case
  proof (cases e)
    case CtxDone
    then show ?thesis using pr(3) by simp
  next
    case (WatchTick d env)
    have "inv (env s)" using pr(2) [of e s] pr(1) WatchTick by simp
    moreover have "holdLease W owner oid lease es (env s) = (LeaseLost, s')"
      using pr(3) poll_same [of oid s] WatchTick
      by (auto split: prod.splits sum.splits if_splits)
    ultimately show ?thesis using IH envs by blast
  next
    case (RenewTick now d env)
    obtain x s1 where rn: "RenewLease W oid owner lease now s = (x, s1)" by fastforce
    have inv1: "inv s1" using renew_inv [OF pr(1), of oid owner lease now] rn by simp
    show ?thesis
    proof (cases x)
      case (Inl err)
      then have "\<not> holds s oid owner" "s1 = s"
        using renew_iff [OF pr(1), of oid owner lease now] renew_lost [OF pr(1), of oid owner lease now] rn
        by simp_all
      then show ?thesis using pr(1,3) rn Inl RenewTick by (auto split: if_splits)
    next
      case (Inr req)
      have "inv (env s1)" using pr(2) [of e s1] inv1 RenewTick by simp
      then show ?thesis using IH envs pr(3) rn Inr RenewTick by (auto split: if_splits)
    qed
  qed
qed

end


section \<open>The repository layer is such a store\<close>

definition repository_store :: "store worker_store" where
  "repository_store =
     \<lparr> ClaimNext = ClaimNextOperation, RenewLease = RenewOperationLease,
       CancelRequested = OperationCancellationRequested, Defer = DeferOperation,
       Complete = CompleteOperation, Recover = RecoverOperations \<rparr>"

definition op_status_of :: "store \<Rightarrow> string \<Rightarrow> string option" where
  "op_status_of s i = map_option op_status (sql_get (\<lambda>r. op_id r = trim i) (operations s))"

definition waiting_count :: "store \<Rightarrow> nat" where
  "waiting_count s = sql_count (\<lambda>r. op_status r = ''queued'') (operations s)"

lemma claim_Inr:
  assumes "queue_wf s" and "ClaimNextOperation opts t s = (Inr x, s')"
  obtains c where "trim (co_Owner opts) \<noteq> []" "claim_pick opts t s = Some c"
    "x = scanOperation (claim_set (trim (co_Owner opts)) (claim_lease opts t) (claim_stamp opts t) c)"
    "s' = claimed_store opts t c s"
proof -
  have ok: "trim (co_Owner opts) \<noteq> []" "int ns_per_sec \<le> co_Lease opts"
    using assms(2) by (auto simp: ClaimNextOperation_def Let_def split: if_splits)
  show ?thesis
    using assms(2) that ok(1)
    by (auto simp: ClaimNextOperation_eq [OF assms(1) ok] split: option.splits)
qed

lemma bex_sql_update:
  "(\<exists>x \<in> set (sql_update p f t). P x) \<longleftrightarrow> (\<exists>r \<in> set t. P (if p r then f r else r))"
  by (induction t) (auto simp: sql_update_def)

lemma repo_claim_holds:
  assumes wf: "queue_wf s" and cl: "ClaimNextOperation opts t s = (Inr x, s')"
  shows "lease_held s' (oper_ID x) (co_Owner opts)"
proof (rule claim_Inr [OF assms])
  fix c assume c: "claim_pick opts t s = Some c" "s' = claimed_store opts t c s"
    and x: "x = scanOperation (claim_set (trim (co_Owner opts)) (claim_lease opts t) (claim_stamp opts t) c)"
  note p = claim_pick_props [OF c(1)]
  have "trim (oper_ID x) = op_id c"
    using x queue_wf_row [OF wf p(1)] by (simp add: scanOperation_def op_row_wf_def)
  then show ?thesis
    using p(1,3) c(2)
    unfolding lease_held_def c(2) claimed_store_tables(1) sql_exists_iff bex_sql_update
    by (auto simp: held_by_def intro: bexI [of _ c])
qed

lemma sql_count_update:
  assumes "\<And>r. q (f r) \<longleftrightarrow> False"
  shows "sql_count q (sql_update p f t) = sql_count (\<lambda>r. q r \<and> \<not> p r) t"
  using assms by (induction t) (auto simp: sql_count_def sql_update_def)

lemma sql_count_mono: "(\<And>r. q r \<Longrightarrow> q' r) \<Longrightarrow> sql_count q t \<le> sql_count q' t"
  by (induction t) (auto simp: sql_count_def)

lemma sql_count_less:
  assumes "\<And>r. q r \<Longrightarrow> q' r" and "c \<in> set t" and "q' c" and "\<not> q c"
  shows "sql_count q t < sql_count q' t"
  using assms(2-)
proof (induction t)
  case (Cons a t)
  then show ?case
    using sql_count_mono [of q q' t] assms(1) by (auto simp: sql_count_def)
qed simp

lemma repo_claim_waiting:
  assumes wf: "queue_wf s" and cl: "ClaimNextOperation opts t s = (Inr x, s')"
  shows "waiting_count s' < waiting_count s"
proof (rule claim_Inr [OF assms])
  fix c assume c: "claim_pick opts t s = Some c" "s' = claimed_store opts t c s"
  note p = claim_pick_props [OF c(1)]
  have "waiting_count s' = sql_count (\<lambda>r. op_status r = ''queued'' \<and>
      \<not> (op_id r = op_id c \<and> op_status r = ''queued'')) (operations s)"
    unfolding waiting_count_def c(2) claimed_store_tables(1) by (rule sql_count_update) simp
  also have "\<dots> < waiting_count s"
    unfolding waiting_count_def using p(1,3) by (intro sql_count_less [of _ _ c]) auto
  finally show ?thesis .
qed

lemma op_status_update:
  assumes "operations s' = sql_update p f (operations s)" and "\<And>r. op_id (f r) = op_id r"
  shows "op_status_of s' j = map_option (\<lambda>r. op_status (if p r then f r else r))
    (sql_get (\<lambda>r. op_id r = trim j) (operations s))"
  using sql_get_map [of "\<lambda>r. if p r then f r else r" "trim j" "operations s"] assms
  by (simp add: op_status_of_def sql_update_def option.map_comp o_def)

lemma op_status_frame:
  assumes "operations s' = sql_update (held_by (trim i) ow) f (operations s)"
    and "\<And>r. op_id (f r) = op_id r" and "trim j \<noteq> trim i"
  shows "op_status_of s' j = op_status_of s j \<and> lease_held s' j ow' = lease_held s j ow'"
proof
  have same: "(if held_by (trim i) ow r then f r else r) = r" if "op_id r = trim j" for r
    using that assms(3) by (auto simp: held_by_def)
  show "op_status_of s' j = op_status_of s j"
    using same op_status_update [OF assms(1,2), of j]
    by (cases "sql_get (\<lambda>r. op_id r = trim j) (operations s)")
      (auto simp: op_status_of_def dest: sql_get_Some)
  have "held_by (trim j) (trim ow') (if held_by (trim i) ow r then f r else r) \<longleftrightarrow>
      held_by (trim j) (trim ow') r" for r
    using assms(2) [of r] assms(3) by (auto simp: held_by_def)
  then show "lease_held s' j ow' = lease_held s j ow'"
    unfolding lease_held_def assms(1) sql_exists_iff bex_sql_update by simp
qed

lemma op_status_held:
  assumes wf: "queue_wf s" and h: "lease_held s i ow"
    and ops: "operations s' = sql_update (held_by (trim i) (trim ow)) f (operations s)"
    and ids: "\<And>r. op_id (f r) = op_id r" and st: "\<And>r. op_status (f r) = st"
  shows "op_status_of s' i = Some st"
proof -
  from h obtain r where r: "r \<in> set (operations s)" "held_by (trim i) (trim ow) r"
    by (auto simp: lease_held_def)
  then have "sql_get (\<lambda>x. op_id x = trim i) (operations s) = Some r"
    using held_get [OF wf r(1)] held_by_sel [OF r(2)] by simp
  then show ?thesis using r(2) st by (simp add: op_status_update [OF ops ids])
qed

lemma complete_operations_cases:
  assumes wf: "queue_wf s"
  shows "operations (snd (CompleteOperation c t s)) = operations s \<or>
    terminal_status (ci_Status c) \<and>
    operations (snd (CompleteOperation c t s)) = sql_update
      (held_by (trim (ci_ID c)) (trim (ci_Owner c))) (complete_op_set c (rfc3339_nano t)) (operations s)"
proof (cases "terminal_status (ci_Status c)")
  case t: True
  show ?thesis
    using CompleteOperation_held(2) [OF wf _ t] CompleteOperation_lost [OF wf _ t] t
    by (cases "lease_held s (ci_ID c) (ci_Owner c)") simp_all
qed (simp add: CompleteOperation_def)

lemma repo_complete_waiting:
  assumes wf: "queue_wf s"
  shows "waiting_count (snd (CompleteOperation c t s)) \<le> waiting_count s"
  using complete_operations_cases [OF wf, of c t]
proof (elim disjE conjE)
  assume t: "terminal_status (ci_Status c)"
    and ops: "operations (snd (CompleteOperation c t s)) = sql_update
      (held_by (trim (ci_ID c)) (trim (ci_Owner c))) (complete_op_set c (rfc3339_nano t)) (operations s)"
  have "waiting_count (snd (CompleteOperation c t s)) =
      sql_count (\<lambda>r. op_status r = ''queued'' \<and> \<not> held_by (trim (ci_ID c)) (trim (ci_Owner c)) r) (operations s)"
    unfolding waiting_count_def ops
    by (rule sql_count_update) (use t in \<open>auto simp: complete_op_set_sel terminal_status_def\<close>)
  also have "\<dots> \<le> waiting_count s" unfolding waiting_count_def by (rule sql_count_mono) simp
  finally show ?thesis .
qed (simp add: waiting_count_def)

lemma lease_status_cong:
  "operations s' = operations s \<Longrightarrow> op_status_of s' j = op_status_of s j \<and> lease_held s' j ow = lease_held s j ow"
  by (simp add: op_status_of_def lease_held_def)

lemma repo_complete_frame:
  assumes wf: "queue_wf s" and ne: "trim j \<noteq> trim (ci_ID c)"
  shows "op_status_of (snd (CompleteOperation c t s)) j = op_status_of s j \<and>
    lease_held (snd (CompleteOperation c t s)) j ow = lease_held s j ow"
  using complete_operations_cases [OF wf, of c t] op_status_frame [OF _ _ ne]
    lease_status_cong [of "snd (CompleteOperation c t s)" s j ow]
  by (auto simp: complete_op_set_sel)

lemma repo_defer_frame:
  assumes wf: "queue_wf s" and ne: "trim j \<noteq> trim i"
  shows "op_status_of (snd (DeferOperation i ow' d t s)) j = op_status_of s j \<and>
    lease_held (snd (DeferOperation i ow' d t s)) j ow = lease_held s j ow"
proof (cases "lease_held s i ow'")
  case True
  show ?thesis
    by (rule op_status_frame [OF DeferOperation_held(2) [OF wf True] _ ne]) (simp add: defer_op_set_sel)
qed (simp add: DeferOperation_lost [OF wf])

lemma repo_renew_iff:
  assumes wf: "queue_wf s"
  shows "is_Ok (fst (RenewOperationLease i ow l t s)) \<longleftrightarrow> lease_held s i ow"
proof (cases "lease_held s i ow")
  case True
  then obtain r where "r \<in> set (operations s)" "held_by (trim i) (trim ow) r"
    by (auto simp: lease_held_def)
  then show ?thesis using RenewOperationLease_held(1) [OF wf, of r i ow l t] True by simp
qed (simp add: RenewOperationLease_lost [OF wf])

lemma poll_snd: "snd (OperationCancellationRequested i s) = s"
  by (simp add: OperationCancellationRequested_def split: option.split)

lemma repo_complete_held:
  assumes "queue_wf s" and "lease_held s (ci_ID c) (ci_Owner c)" and "terminal_status (ci_Status c)"
  shows "op_status_of (snd (CompleteOperation c t s)) (ci_ID c) = Some (ci_Status c)"
  by (rule op_status_held [OF assms(1,2) CompleteOperation_held(2) [OF assms]])
    (simp_all add: complete_op_set_sel)

lemma repo_defer_held:
  assumes "queue_wf s" and "lease_held s i ow"
  shows "op_status_of (snd (DeferOperation i ow d t s)) i = Some ''queued''"
  by (rule op_status_held [OF assms DeferOperation_held(2) [OF assms]])
    (simp_all add: defer_op_set_sel)

interpretation rq: queue_store repository_store queue_wf lease_held op_status_of waiting_count
  by unfold_locales (simp_all add: repository_store_def queue_wf_claim_any queue_wf_renew
      queue_wf_defer queue_wf_complete queue_wf_recover poll_snd repo_claim_holds repo_claim_waiting
      repo_renew_iff RenewOperationLease_lost repo_complete_held repo_defer_held
      repo_complete_waiting repo_complete_frame repo_defer_frame)

end
