(* ===== verification/HF_Worker_Props.thy ===== *)
theory HF_Worker_Props
  imports HF_Queue_Props HF_Workers
begin

text \<open>
  The properties of the worker runtime over the repository layer's queue.  They instantiate the
  lemmas of the locale \<open>queue_store\<close> through its interpretation \<open>rq\<close>, written out over the
  model's own definitions; the witnesses run the runtime on the small installation.
\<close>

lemma repository_store_sel [simp]:
  "ClaimNext repository_store = ClaimNextOperation"
  "RenewLease repository_store = RenewOperationLease"
  "CancelRequested repository_store = OperationCancellationRequested"
  "Defer repository_store = DeferOperation"
  "Complete repository_store = CompleteOperation"
  "Recover repository_store = RecoverOperations"
  by (simp_all add: repository_store_def)

section \<open>A small runtime\<close>

text \<open>A deploy handler that succeeds without touching the store, and a runtime that has it.\<close>

definition noop_handler :: "store handler" where
  "noop_handler = \<lparr> h_kind = ''deploy'', h_ready = None, h_handle = (\<lambda>op c s. ([], s)) \<rparr>"

definition deploy_runtime :: "store runtime" where
  "deploy_runtime =
     \<lparr> rt_cfg = \<lparr> cfg_Concurrency = 1, cfg_Lease = 120000000000, cfg_LeaseRefresh = 30000000000,
         cfg_CancelPoll = 1000000000, cfg_PollInterval = 2000000000, cfg_MinPriority = 0,
         cfg_SkipRecovery = False \<rparr>,
       rt_registry = [(''deploy'', noop_handler)], rt_kinds = [''deploy''], rt_started = True,
       rt_leases = [] \<rparr>"

definition web_op :: operation where
  "web_op = scanOperation web_running"

lemma web_op_sel: "oper_ID web_op = ''d1''" "oper_Kind web_op = ''deploy''" "oper_MaxAttempts web_op = 1"
  by (simp_all add: web_op_def scanOperation_def web_running_def claim_set_def web_operation_def)

lemma deploy_runtime_registry: "rt_registry deploy_runtime = [(''deploy'', noop_handler)]"
  by (simp add: deploy_runtime_def)

lemma noop_handler_sel: "h_handle noop_handler op c s = ([], s)" "h_ready noop_handler = None"
  by (simp_all add: noop_handler_def)

lemma trim_deploy: "trim ''deploy'' = ''deploy''"
  by code_simp

section \<open>Executing an operation\<close>

lemma handle_verdict_not_queued: "fst (handle_verdict err) \<noteq> ''queued''"
  by (simp add: handle_verdict_def)

lemma ready_verdict_not_queued: "ready_verdict h op s \<noteq> Finish ''queued'' a b c"
  using ready_verdict_status [of h op s "''queued''" a b c] by (auto simp: terminal_status_def)





section \<open>Shutdown and lost leases\<close>



text \<open>The lease holder stops the work as lost only when it is: when \<open>holdLease\<close> ends with a
  lost lease, the worker does not hold the operation in the store it leaves behind, whatever
  queue-preserving writes happened between its ticks.\<close>

theorem holdLease_lost_only_if_lost:
  assumes "queue_wf s" and "\<And>e s. e \<in> set es \<Longrightarrow> queue_wf s \<Longrightarrow> queue_wf (event_env e s)"
    and "holdLease repository_store owner i lease es s = (LeaseLost, s')"
  shows "\<not> lease_held s' i owner"
  using rq.holdLease_lost [OF assms] by simp

theorem holdLease_lost_only_if_lost_witness:
  "\<not> lease_held (snd (holdLease repository_store ''x'' ''d1'' 120000000000 [RenewTick 0 False id]
     running_store)) ''d1'' ''x''"
proof (rule holdLease_lost_only_if_lost [of running_store "[RenewTick 0 False id]"])
  show "holdLease repository_store ''x'' ''d1'' 120000000000 [RenewTick 0 False id] running_store =
      (LeaseLost, snd (holdLease repository_store ''x'' ''d1'' 120000000000 [RenewTick 0 False id]
        running_store))"
    using RenewOperationLease_lost [of running_store "''d1''" "''x''" 120000000000 0] running_lease
    by simp
qed simp_all

lemma trim_eq_Nil: "trim s = [] \<longleftrightarrow> (\<forall>c \<in> set s. go_space c)"
proof
  assume "trim s = []"
  then have "\<forall>c \<in> set (trim_left s). go_space c" by (simp add: trim_def)
  then show "\<forall>c \<in> set s. go_space c"
    unfolding trim_left_def by (metis set_takeWhileD takeWhile_dropWhile_id UnE set_append)
qed (simp add: trim_def trim_left_def dropWhile_eq_Nil_conv [THEN iffD2])

lemma trim_stamp: "trim (rfc3339_nano t) \<noteq> []"
  by (auto simp: trim_eq_Nil rfc3339_nano_def go_space_def)

text \<open>The row an accepted cancellation marks, and what a poll then reads.\<close>

lemma cancel_is_seen:
  assumes wf: "queue_wf s" and r: "r \<in> set (operations s)" "cancel_now (trim i) r"
    and s1_def: "s1 = snd (RequestOperationCancellation i t s)"
  shows "OperationCancellationRequested i s1 = (Inr True, s1)" and "queue_wf s1"
    and "lease_held s i ow \<Longrightarrow> lease_held s1 i ow"
proof -
  let ?p = "cancel_now (trim i)" and ?f = "cancel_mark_set (rfc3339_nano t)"
  have s1: "operations s1 = sql_update ?p ?f (operations s)"
    unfolding s1_def cancel_running [OF wf r] by simp
  have "op_id r = trim i" using r(2) by (simp add: cancel_now_def)
  show wf1: "queue_wf s1" unfolding s1_def by (rule queue_wf_cancel [OF wf])
  have fr: "?f r \<in> set (operations s1)"
    using r by (auto simp: s1 set_sql_update image_iff intro!: bexI [of _ r])
  obtain x where x: "sql_get (\<lambda>x. op_id x = trim i \<and> op_status x = ''running'') (operations s1) = Some x"
    using fr r(2) by (fastforce simp: sql_get_None cancel_now_def cancel_pending_def cancel_mark_set_def
        simp flip: not_None_eq)
  then have "x = ?f r"
    using sql_get_Some [OF x] distinct_key_eq [OF queue_wf_distinct [OF wf1] _ fr, of x]
      \<open>op_id r = trim i\<close> by (simp add: cancel_mark_set_def)
  then show "OperationCancellationRequested i s1 = (Inr True, s1)"
    using x trim_stamp by (simp add: OperationCancellationRequested_def cancel_mark_set_def db_ok_def)
  assume "lease_held s i ow"
  then show "lease_held s1 i ow"
    unfolding lease_held_def s1 sql_exists_iff bex_sql_update
    by (auto simp: held_by_def cancel_mark_set_def)
qed

text \<open>An operator's cancellation of a running operation is heard at the next cancellation
  tick: the holder stops the work, and when the handler then returns the cancelled context the
  outcome the worker records is \<open>cancelled\<close>.\<close>

theorem operator_cancel_heard:
  assumes "queue_wf s" and "r \<in> set (operations s)" and "op_id r = trim i"
    and "cancel_pending r" and "lease_held s i owner" and "oper_ID op = i" and "Canceled \<in> set err"
  shows "case RequestOperationCancellation i t s of (res, s1) \<Rightarrow> res = Inr True \<and>
    holdLease repository_store owner i lease (WatchTick d env # es) s1 = (StoppedForCancellation, s1) \<and>
    op_status_of (complete repository_store now owner op (fst (handle_verdict err)) [] [] [] s1) i =
      Some ''cancelled''"
proof -
  have r: "cancel_now (trim i) r" using assms(3,4) by (simp add: cancel_now_def)
  obtain s1 where s1: "RequestOperationCancellation i t s = (Inr True, s1)"
    using cancel_running [OF assms(1,2) r] by blast
  note seen = cancel_is_seen [OF assms(1,2) r, of s1 t, unfolded s1 snd_conv, OF refl]
  have "err \<noteq> []" using assms(7) by auto
  then have "fst (handle_verdict err) = ''cancelled''" using assms(7) by (simp add: handle_verdict_def)
  then show ?thesis
    using s1 seen(1) rq.complete_settles [OF seen(2), of op owner "''cancelled''" now] seen(3) assms(5,6)
    by (simp add: terminal_status_def)
qed

theorem operator_cancel_heard_witness:
  "case RequestOperationCancellation ''d1'' 5 running_store of (res, s1) \<Rightarrow> res = Inr True \<and>
    holdLease repository_store ''w'' ''d1'' 120000000000 (WatchTick False id # []) s1 =
      (StoppedForCancellation, s1) \<and>
    op_status_of (complete repository_store 7 ''w'' web_op (fst (handle_verdict [Canceled])) [] [] [] s1)
      ''d1'' = Some ''cancelled''"
  by (rule operator_cancel_heard [of _ web_running])
    (simp_all add: running_lease web_op_sel cancel_pending_def web_running_def claim_set_def
      web_operation_def)

section \<open>Registry and error codes\<close>

text \<open>Registration of a list of handlers, as one appended segment.\<close>

lemma registry_register_Inr:
  "registry_register reg h = Inr reg' \<longleftrightarrow>
    (\<exists>h'. h = Some h' \<and> trim (h_kind h') \<noteq> [] \<and> trim (h_kind h') \<notin> fst ` set reg \<and>
      reg' = reg @ [(trim (h_kind h'), h')])"
  by (auto simp: registry_register_def Let_def split: option.splits if_splits)

lemma register_all_distinct:
  assumes "register_all reg hs = (e, reg')" and "distinct (map fst reg)"
  shows "distinct (map fst reg')" and "\<exists>ys. reg' = reg @ ys"
  using assms
proof (induction hs arbitrary: reg)
  case (Cons h hs)
  { case 1
    then show ?case
    proof (cases "registry_register reg h")
      case (Inr reg1)
      then have "distinct (map fst reg1)" using 1(2) by (auto simp: registry_register_Inr)
      then show ?thesis using Cons.IH(1) [of reg1] 1(1) Inr by simp
    qed simp }
  { case 2
    then show ?case
    proof (cases "registry_register reg h")
      case (Inr reg1)
      then have "distinct (map fst reg1)" "\<exists>y. reg1 = reg @ [y]"
        using 2(2) by (auto simp: registry_register_Inr)
      then show ?thesis using Cons.IH(2) [of reg1] 2(1) Inr by auto
    qed simp }
qed simp_all

text \<open>Registration never replaces a handler and never keeps a duplicate: after any successful
  registration every handler given is the one found under its kind, handlers registered before
  keep theirs, and the snapshot of kinds is sorted and lists exactly the kinds found.\<close>

theorem registration_consistent:
  assumes "register_all reg hs = (None, reg')" and "distinct (map fst reg)"
  shows "(\<forall>h \<in> set hs. \<exists>h'. h = Some h' \<and> registry_lookup reg' (h_kind h') = Some h') \<and>
    (\<forall>k h'. registry_lookup reg k = Some h' \<longrightarrow> registry_lookup reg' k = Some h') \<and>
    sorted (registry_kinds reg') \<and> distinct (registry_kinds reg') \<and>
    (\<forall>k. k = trim k \<longrightarrow> (k \<in> set (registry_kinds reg')) = (registry_lookup reg' k \<noteq> None))"
proof -
  have kept: "registry_lookup reg k = Some h' \<Longrightarrow> registry_lookup reg' k = Some h'"
    if "register_all reg hs = (e, reg')" "distinct (map fst reg)" for e reg hs k h'
    using register_all_distinct(2) [OF that] by (auto simp: registry_lookup_def map_add_Some_iff)
  have "\<exists>h'. h = Some h' \<and> registry_lookup reg' (h_kind h') = Some h'" if "h \<in> set hs" for h
    using assms that
  proof (induction hs arbitrary: reg)
    case (Cons g gs)
    then obtain reg1 where g: "registry_register reg g = Inr reg1" "register_all reg1 gs = (None, reg')"
      by (auto split: sum.splits)
    then obtain g' where g': "g = Some g'" "trim (h_kind g') \<notin> fst ` set reg"
      "reg1 = reg @ [(trim (h_kind g'), g')]" by (auto simp: registry_register_Inr)
    then have d: "distinct (map fst reg1)" using Cons.prems(2) by auto
    have "registry_lookup reg1 (h_kind g') = Some g'"
      using g'(2,3) by (auto simp: registry_lookup_def map_add_Some_iff map_of_eq_None_iff)
    then show ?case
      using kept [OF g(2) d] Cons.IH [OF g(2) d] Cons.prems(3) g'(1) by auto
  qed simp
  moreover have "distinct (map fst reg')" using register_all_distinct(1) [OF assms] .
  ultimately show ?thesis
    using kept [OF assms] by (auto simp: registry_kinds_def registry_lookup_def map_of_eq_None_iff)
qed

theorem registration_consistent_witness:
  "registry_lookup [(''deploy'', noop_handler)] (h_kind noop_handler) = Some noop_handler"
proof -
  have "register_all [] [Some noop_handler] = (None, [(''deploy'', noop_handler)])"
    by (simp add: registry_register_def noop_handler_def trim_deploy Let_def)
  from registration_consistent [OF this] show ?thesis by simp
qed

text \<open>A worker started with at least one handler never claims a kind it has no handler for:
  the kinds it claims are the snapshot of the registry taken at \<open>Start\<close>.\<close>

theorem claimed_kind_has_handler:
  assumes "queue_wf s" and "rt_registry r \<noteq> []"
    and "\<And>k h. (k, h) \<in> set (rt_registry r) \<Longrightarrow> k = trim k"
    and "Start W t r s0 = (None, r', s1)"
    and "ClaimNextOperation (run_options r' owner) now s = (Inr op, s')"
  shows "\<exists>h. registry_lookup (rt_registry r') (oper_Kind op) = Some h"
proof -
  have r': "rt_registry r' = rt_registry r" "rt_kinds r' = registry_kinds (rt_registry r)"
    using assms(4) by (auto simp: Start_def Let_def split: if_splits prod.splits sum.splits)
  obtain c where c: "claim_pick (run_options r' owner) now s = Some c"
    and op: "op = scanOperation (claim_set (trim owner) (claim_lease (run_options r' owner) now)
      (claim_stamp (run_options r' owner) now) c)"
    using claim_Inr [OF assms(1,5)] by (auto simp: run_options_def)
  have "registry_kinds (rt_registry r) \<noteq> []"
    using assms(2) by (metis Nil_is_map_conv registry_kinds_def set_empty set_sort)
  then have "op_kind c \<in> set (registry_kinds (rt_registry r))"
    using claim_pick_props(2) [OF c] by (simp add: op_runnable_def run_options_def r')
  then obtain h where h: "(op_kind c, h) \<in> set (rt_registry r)" by (auto simp: registry_kinds_def)
  have "oper_Kind op = op_kind c" by (simp add: op scanOperation_def claim_set_def)
  moreover have "map_of (rt_registry r) (op_kind c) \<noteq> None"
    using weak_map_of_SomeI [OF h] by auto
  ultimately show ?thesis
    using assms(3) [OF h, symmetric] by (simp add: registry_lookup_def r')
qed

definition idle_runtime :: "store runtime" where
  "idle_runtime = deploy_runtime\<lparr>rt_cfg := (rt_cfg deploy_runtime)\<lparr>cfg_SkipRecovery := True\<rparr>,
     rt_kinds := [], rt_started := False\<rparr>"

definition started_runtime :: "store runtime" where
  "started_runtime = idle_runtime\<lparr>rt_kinds := [''deploy''], rt_started := True\<rparr>"

theorem claimed_kind_has_handler_witness:
  "\<exists>op s' h. ClaimNextOperation worker_claim 0 waiting_store = (Inr op, s') \<and>
     registry_lookup (rt_registry started_runtime) (oper_Kind op) = Some h"
proof -
  have start: "Start repository_store 0 idle_runtime waiting_store = (None, started_runtime, waiting_store)"
    by (simp add: Start_def started_runtime_def idle_runtime_def deploy_runtime_def registry_kinds_def)
  have opts: "run_options started_runtime ''w'' = worker_claim"
    by (simp add: run_options_def started_runtime_def idle_runtime_def deploy_runtime_def
        worker_claim_def)
  have reg: "rt_registry idle_runtime = [(''deploy'', noop_handler)]"
    by (simp add: idle_runtime_def deploy_runtime_def)
  obtain op s' where cl: "ClaimNextOperation worker_claim 0 waiting_store = (Inr op, s')"
    unfolding ClaimNextOperation_eq [OF demo_wf(2) worker_claim_ok] worker_claims by simp
  have "\<exists>h. registry_lookup (rt_registry started_runtime) (oper_Kind op) = Some h"
    by (rule claimed_kind_has_handler [OF demo_wf(2) _ _ start, where owner = "''w''" and now = 0 and s' = s'])
      (auto simp: reg(1) opts cl trim_deploy)
  then show ?thesis using cl by blast
qed

text \<open>The non-empty codes of a chain, outermost first.\<close>

definition chain_codes :: "err_chain \<Rightarrow> string list" where
  "chain_codes err = filter (\<lambda>c. c \<noteq> [])
     (concat (map (\<lambda>e. case e of CodedNode c \<Rightarrow> [c] | _ \<Rightarrow> []) err))"

lemma chain_codes_simps [simp]:
  "chain_codes [] = []"
  "chain_codes (e # err) = (case e of CodedNode c \<Rightarrow> if c = [] then chain_codes err else c # chain_codes err
     | _ \<Rightarrow> chain_codes err)"
  by (simp_all add: chain_codes_def split: err_node.split)

lemma as_coded_in: "as_coded err = Some c \<Longrightarrow> c \<noteq> [] \<Longrightarrow> chain_codes err \<noteq> []"
  by (induction err rule: as_coded.induct) (auto split: if_splits)

lemma walk_codes_last:
  "walk_codes c err = (if chain_codes err = [] then c else last (chain_codes err))"
proof (induction c err rule: walk_codes.induct)
  case (2 c e rest)
  then show ?case
    using as_coded_in [of rest] by (cases e) (auto split: option.splits)
qed simp

text \<open>\<open>FirstPublicCode\<close> reports the innermost non-empty code of the chain and \<open>PublicCode\<close>
  the outermost one: wrapping an error in a further code leaves the first alone once the error has
  a code, and always sets the second; without a code both are \<open>internal_error\<close>.\<close>

theorem public_codes:
  assumes "err \<noteq> []"
  shows "FirstPublicCode err =
      (if chain_codes err = [] then ''internal_error'' else last (chain_codes err)) \<and>
    (c \<noteq> [] \<longrightarrow> PublicCode (ErrCode c err) = c) \<and>
    (chain_codes err \<noteq> [] \<longrightarrow> FirstPublicCode (ErrCode c err) = FirstPublicCode err) \<and>
    (chain_codes err = [] \<longrightarrow> PublicCode err = ''internal_error'')"
proof -
  have ne: "c \<noteq> []" if "c \<in> set (chain_codes x)" for c x
    using that by (simp add: chain_codes_def)
  have "chain_codes err = [] \<Longrightarrow> as_coded err = Some d \<Longrightarrow> d = []" for d
    using as_coded_in by blast
  then show ?thesis
    using assms ne [OF last_in_set, of err] ne [OF last_in_set, of "ErrCode c err"]
    by (auto simp: FirstPublicCode_def PublicCode_def ErrCode_def walk_codes_last Let_def
        split: option.splits)
qed

theorem public_codes_witness:
  "FirstPublicCode (ErrCode ''outer'' (ErrCode ''inner'' [Text ''x''])) = ''inner''"
  using public_codes [of "ErrCode ''inner'' [Text ''x'']" "''outer''"]
  by (simp add: ErrCode_def)

end
