(* ===== verification/HF_Db_Services.thy ===== *)
theory HF_Db_Services
  imports HF_Catalog
begin

text \<open>
  Managed databases: internal/repository/database_services.go.  A database service has one
  instance per environment, each with a sealed credential and the bindings that hand its
  connection string to application services.  Every runtime action is a database operation, whose
  row and queue row are inserted in one transaction with the state it changes.  The ids \<open>newID\<close>
  returns are arguments; where several are drawn they are a sequence, used in the order the code
  draws them.
\<close>

section \<open>Inputs\<close>

record binding_input =
  bi_consumer_service_id :: string
  bi_variable_key :: string
  bi_replace_existing :: bool

record instance_input =
  ii_environment_id :: string
  ii_engine_version :: string
  ii_image_ref :: string
  ii_network_alias :: string
  ii_internal_port :: int
  ii_volume_name :: string
  ii_resource_preset :: string
  ii_cpu_limit_millis :: int
  ii_memory_limit_bytes :: int
  ii_database_name :: string
  ii_username :: string
  ii_password_ct :: string
  ii_admin_password_ct :: string
  ii_bindings :: "binding_input list"

record create_database_input =
  cd_application_id :: string
  cd_name :: string
  cd_engine :: string
  cd_default_version :: string
  cd_actor :: string
  cd_instances :: "instance_input list"

record created_database =
  crd_service :: service_row
  crd_database :: database_service_row
  crd_instances :: "database_instance_row list"
  crd_bindings :: "database_binding_row list"
  crd_operations :: "database_operation_row list"

definition validDatabaseEngine :: "string \<Rightarrow> bool" where
  "validDatabaseEngine engine \<longleftrightarrow> to_lower (trim engine) \<in>
     {''postgresql'', ''mysql'', ''mariadb'', ''mongodb'', ''redis'', ''valkey''}"

text \<open>An environment variable name: a letter or underscore first, then digits too.\<close>

definition key_char :: "bool \<Rightarrow> char \<Rightarrow> bool" where
  "key_char first c \<longleftrightarrow> is_upper_letter c \<or> c = CHR ''_'' \<or> (\<not> first \<and> is_digit c)"

definition normalizeDatabaseBindingVariableKey :: "string \<Rightarrow> string option" where
  "normalizeDatabaseBindingVariableKey value0 =
     (let value = to_upper (trim value0)
      in case value of
           [] \<Rightarrow> None
         | c # cs \<Rightarrow> if key_char True c \<and> list_all (key_char False) cs then Some value else None)"

section \<open>Inserting rows\<close>

definition instance_presets :: "string list" where
  "instance_presets = [''development'', ''standard'', ''performance'', ''custom'']"

text \<open>The constraints of \<open>database_instances\<close> the checks before the insert leave open.\<close>

definition insert_instance :: "database_instance_row \<Rightarrow> store \<Rightarrow> store res" where
  "insert_instance r s =
     (if sql_exists (\<lambda>x. di_id x = di_id r \<or>
           di_service_id x = di_service_id r \<and> di_environment_id x = di_environment_id r \<or>
           di_environment_id x = di_environment_id r \<and> di_network_alias x = di_network_alias r \<or>
           di_volume_name x = di_volume_name r) (database_instances s)
      then Inl (ConstraintErr ''insert database instance'')
      else if di_resource_preset r \<notin> set instance_presets
      then Inl (ConstraintErr ''database_instances.resource_preset'')
      else Inr (s\<lparr>database_instances := database_instances s @ [r]\<rparr>))"

definition insert_credential :: "database_credential_row \<Rightarrow> store \<Rightarrow> store res" where
  "insert_credential r s =
     (if sql_exists (\<lambda>x. dc_database_instance_id x = dc_database_instance_id r) (database_credentials s)
      then Inl (ConstraintErr ''insert database credentials'')
      else Inr (s\<lparr>database_credentials := database_credentials s @ [r]\<rparr>))"

definition binding_clash :: "database_binding_row \<Rightarrow> database_binding_row \<Rightarrow> bool" where
  "binding_clash r x \<longleftrightarrow> bd_id x = bd_id r \<or>
     bd_consumer_service_id x = bd_consumer_service_id r \<and> bd_variable_key x = bd_variable_key r \<and>
     (bd_database_instance_id x = bd_database_instance_id r \<or> bd_environment_id x = bd_environment_id r)"

definition insert_binding :: "database_binding_row \<Rightarrow> store \<Rightarrow> store res" where
  "insert_binding r s =
     (if sql_exists (binding_clash r) (database_bindings s)
      then Inl (ConstraintErr ''insert database binding'')
      else Inr (s\<lparr>database_bindings := database_bindings s @ [r]\<rparr>))"

definition database_operation_types :: "string list" where
  "database_operation_types = [''provision'', ''start'', ''stop'', ''restart'', ''backup'', ''restore'',
     ''rotate_credentials'', ''upgrade'', ''delete'', ''restore_deleted'', ''purge'']"

definition insert_database_operation :: "database_operation_row \<Rightarrow> store \<Rightarrow> store res" where
  "insert_database_operation r s =
     (if sql_exists (\<lambda>x. dbo_id x = dbo_id r) (database_operations s)
      then Inl (ConstraintErr ''database_operations.id'')
      else if dbo_operation_type r \<notin> set database_operation_types
      then Inl (ConstraintErr ''database_operations.operation_type'')
      else if \<not> sql_exists (\<lambda>v. svc_id v = dbo_service_id r) (services s)
      then Inl (ConstraintErr ''foreign key'')
      else Inr (s\<lparr>database_operations := database_operations s @ [r]\<rparr>))"

text \<open>The two inserts every new database operation makes, in this order.\<close>

definition enqueue_database_operation :: "database_operation_row \<Rightarrow> store \<Rightarrow> store res" where
  "enqueue_database_operation r s =
     (case insert_database_operation r s of
        Inl e \<Rightarrow> Inl e
      | Inr s1 \<Rightarrow> insertDatabaseOperationQueueRow (dbo_id r) s1)"

definition new_database_operation ::
  "string \<Rightarrow> string \<Rightarrow> string option \<Rightarrow> string \<Rightarrow> string \<Rightarrow> string \<Rightarrow> string \<Rightarrow> database_operation_row" where
  "new_database_operation i serviceID inst type step actor stamp =
     \<lparr> dbo_id = i, dbo_service_id = serviceID, dbo_database_instance_id = inst,
       dbo_operation_type = type, dbo_status = ''queued'', dbo_progress_step = step,
       dbo_progress_percent = 0, dbo_actor = trim actor, dbo_error_code = [], dbo_error_message = [],
       dbo_attempt_count = 0, dbo_lease_owner = [], dbo_lease_expires_at = [], dbo_started_at = [],
       dbo_completed_at = [], dbo_created_at = stamp, dbo_updated_at = stamp \<rparr>"

section \<open>Creating a database service\<close>

text \<open>Variables of the environment a binding would shadow.\<close>

definition variable_conflicts :: "string \<Rightarrow> string \<Rightarrow> string \<Rightarrow> store \<Rightarrow> nat" where
  "variable_conflicts environmentID key consumerID s =
     sql_count (\<lambda>v. ev_environment_id v = environmentID \<and> ev_key v = key \<and>
       (ev_service_id v = None \<or> ev_service_id v = Some consumerID)) (environment_variables s)"

definition create_binding :: "string \<Rightarrow> string \<Rightarrow> string \<Rightarrow> string \<Rightarrow> string \<Rightarrow> binding_input \<Rightarrow> store \<Rightarrow>
    (database_binding_row \<times> store) res" where
  "create_binding newID applicationID instanceID environmentID stamp b s =
     (let consumerID = trim (bi_consumer_service_id b);
          invalid = Inl (Sentinel ''invalid_database_binding'');
          conflict = Inl (Sentinel ''database_binding_variable_conflict'')
      in case sql_get (\<lambda>v. svc_id v = consumerID) (services s) of
           None \<Rightarrow> invalid
         | Some consumer \<Rightarrow>
             if svc_application_id consumer \<noteq> applicationID \<or> svc_service_type consumer \<noteq> ''application''
             then invalid
             else case normalizeDatabaseBindingVariableKey (bi_variable_key b) of
                    None \<Rightarrow> invalid
                  | Some key \<Rightarrow>
                      if sql_count (\<lambda>e. se_service_id e = consumerID \<and> se_environment_id e = environmentID)
                           (service_environments s) \<noteq> 1 then invalid
                      else if variable_conflicts environmentID key consumerID s > 0 \<and> \<not> bi_replace_existing b
                      then conflict
                      else if sql_exists (\<lambda>x. bd_environment_id x = environmentID \<and>
                                bd_consumer_service_id x = consumerID \<and> bd_variable_key x = key)
                                (database_bindings s) then conflict
                      else
                        let row = \<lparr> bd_id = newID, bd_database_instance_id = instanceID,
                              bd_environment_id = environmentID, bd_consumer_service_id = consumerID,
                              bd_variable_key = key, bd_replace_existing = bi_replace_existing b,
                              bd_created_at = stamp, bd_updated_at = stamp \<rparr>
                        in case insert_binding row s of Inl e \<Rightarrow> Inl e | Inr s1 \<Rightarrow> Inr (row, s1))"

fun create_bindings :: "(nat \<Rightarrow> string) \<Rightarrow> string \<Rightarrow> string \<Rightarrow> string \<Rightarrow> string \<Rightarrow> binding_input list \<Rightarrow>
    nat \<Rightarrow> store \<Rightarrow> (database_binding_row list \<times> nat \<times> store) res" where
  "create_bindings ids app inst env stamp [] n s = Inr ([], n, s)"
| "create_bindings ids app inst env stamp (b # bs) n s =
     (case create_binding (ids n) app inst env stamp b s of
        Inl e \<Rightarrow> Inl e
      | Inr (row, s1) \<Rightarrow>
          (case create_bindings ids app inst env stamp bs (Suc n) s1 of
             Inl e \<Rightarrow> Inl e
           | Inr (rows, n2, s2) \<Rightarrow> Inr (row # rows, n2, s2)))"

definition instance_config_ok :: "instance_input \<Rightarrow> bool" where
  "instance_config_ok c \<longleftrightarrow>
     trim (ii_engine_version c) \<noteq> [] \<and> trim (ii_image_ref c) \<noteq> [] \<and> trim (ii_network_alias c) \<noteq> [] \<and>
     trim (ii_volume_name c) \<noteq> [] \<and> 1 \<le> ii_internal_port c \<and> ii_internal_port c \<le> 65535 \<and>
     0 < ii_cpu_limit_millis c \<and> 0 < ii_memory_limit_bytes c \<and> trim (ii_database_name c) \<noteq> [] \<and>
     trim (ii_username c) \<noteq> [] \<and> ii_password_ct c \<noteq> []"

definition new_instance_row :: "string \<Rightarrow> string \<Rightarrow> string \<Rightarrow> instance_input \<Rightarrow> database_instance_row" where
  "new_instance_row i serviceID stamp c =
     \<lparr> di_id = i, di_service_id = serviceID, di_environment_id = trim (ii_environment_id c),
       di_engine_version = trim (ii_engine_version c), di_image_ref = trim (ii_image_ref c),
       di_docker_container_id = [], di_network_alias = trim (ii_network_alias c),
       di_internal_port = ii_internal_port c, di_volume_name = trim (ii_volume_name c),
       di_resource_preset = to_lower (trim (ii_resource_preset c)),
       di_cpu_limit_millis = ii_cpu_limit_millis c, di_memory_limit_bytes = ii_memory_limit_bytes c,
       di_desired_state = ''running'', di_status = ''provisioning'', di_health_message = [],
       di_health_checked_at = [], di_storage_used_bytes = 0, di_storage_checked_at = [],
       di_deleted_at = [], di_purge_after = [], di_created_at = stamp, di_updated_at = stamp \<rparr>"

definition new_credential_row :: "string \<Rightarrow> string \<Rightarrow> instance_input \<Rightarrow> database_credential_row" where
  "new_credential_row inst stamp c =
     \<lparr> dc_database_instance_id = inst, dc_database_name = trim (ii_database_name c),
       dc_username = trim (ii_username c), dc_password_ct = ii_password_ct c,
       dc_admin_password_ct = ii_admin_password_ct c, dc_pending_password_ct = [],
       dc_pending_created_at = [], dc_generation = 1, dc_rotated_at = [], dc_created_at = stamp,
       dc_updated_at = stamp \<rparr>"

text \<open>One pass of the loop over the instances: reserve it, its credential, bindings and operation.\<close>

definition create_instance :: "(nat \<Rightarrow> string) \<Rightarrow> string \<Rightarrow> string \<Rightarrow> string \<Rightarrow> string \<Rightarrow> string list \<Rightarrow>
    instance_input \<Rightarrow> nat \<Rightarrow> store \<Rightarrow>
    (database_instance_row \<times> database_binding_row list \<times> database_operation_row \<times> nat \<times> store) res" where
  "create_instance ids app serviceID actor stamp seen c n s =
     (let env = trim (ii_environment_id c)
      in if env \<in> set seen then Inl (Errorf ''duplicate database environment %s'' [env])
         else if map_option env_application_id (sql_get (\<lambda>e. env_id e = env) (environments s)) \<noteq> Some app
         then Inl (Sentinel ''environment_not_found'')
         else if \<not> instance_config_ok c then Inl (Errorf ''invalid database instance configuration'' [])
         else
           let inst = new_instance_row (ids n) serviceID stamp c
           in case insert_instance inst s of Inl e \<Rightarrow> Inl e | Inr s1 \<Rightarrow>
             (case insert_credential (new_credential_row (ids n) stamp c) s1 of Inl e \<Rightarrow> Inl e | Inr s2 \<Rightarrow>
               (case create_bindings ids app (ids n) env stamp (ii_bindings c) (Suc n) s2 of
                  Inl e \<Rightarrow> Inl e
                | Inr (bs, m, s3) \<Rightarrow>
                    let op = new_database_operation (ids m) serviceID (Some (ids n)) ''provision''
                               ''reserved'' actor stamp
                    in case enqueue_database_operation op s3 of
                         Inl e \<Rightarrow> Inl e | Inr s4 \<Rightarrow> Inr (inst, bs, op, Suc m, s4))))"

fun create_instances :: "(nat \<Rightarrow> string) \<Rightarrow> string \<Rightarrow> string \<Rightarrow> string \<Rightarrow> string \<Rightarrow> string list \<Rightarrow>
    instance_input list \<Rightarrow> nat \<Rightarrow> store \<Rightarrow>
    (database_instance_row list \<times> database_binding_row list \<times> database_operation_row list \<times> store) res" where
  "create_instances ids app svc actor stamp seen [] n s = Inr ([], [], [], s)"
| "create_instances ids app svc actor stamp seen (c # cs) n s =
     (case create_instance ids app svc actor stamp seen c n s of
        Inl e \<Rightarrow> Inl e
      | Inr (inst, bs, op, m, s1) \<Rightarrow>
          (case create_instances ids app svc actor stamp (trim (ii_environment_id c) # seen) cs m s1 of
             Inl e \<Rightarrow> Inl e
           | Inr (insts, bss, ops, s2) \<Rightarrow> Inr (inst # insts, bs @ bss, op # ops, s2)))"

definition new_database_service_row :: "string \<Rightarrow> string \<Rightarrow> string \<Rightarrow> int \<Rightarrow> string \<Rightarrow> service_row" where
  "new_database_service_row i app name port stamp =
     \<lparr> svc_id = i, svc_application_id = app, svc_service_type = ''database'', svc_name = name,
       svc_repo_url = [], svc_github_installation_id = 0, svc_root_directory = [],
       svc_deploy_runtime = ''database'', svc_install_cmd = [], svc_build_cmd = [], svc_start_cmd = [],
       svc_internal_port = port, svc_health_check_path = [], svc_created_at = stamp,
       svc_updated_at = stamp \<rparr>"

definition CreateDatabaseService ::
  "create_database_input \<Rightarrow> (nat \<Rightarrow> string) \<Rightarrow> instant \<Rightarrow> created_database db" where
  "CreateDatabaseService i ids now s =
     (let app = trim (cd_application_id i); name = trim (cd_name i);
          engine = to_lower (trim (cd_engine i)); version = trim (cd_default_version i);
          stamp = rfc3339 now; serviceID = ids 0
      in if name = [] \<or> version = [] \<or> cd_instances i = []
         then db_fail (Errorf ''database service name, version, and instances required'' []) s
         else if \<not> validDatabaseEngine engine then db_fail (Sentinel ''invalid_database_engine'') s
         else if \<not> app_exists app s then db_fail (Sentinel ''application_not_found'') s
         else if sql_exists (\<lambda>v. svc_application_id v = app \<and> to_lower (svc_name v) = to_lower name) (services s)
         then db_fail (Sentinel ''duplicate_service'') s
         else if sql_exists (\<lambda>v. svc_id v = serviceID) (services s)
         then db_fail (Sentinel ''duplicate_service'') s
         else
           let service = new_database_service_row serviceID app name
                 (ii_internal_port (hd (cd_instances i))) stamp;
               database = \<lparr> ds_service_id = serviceID, ds_engine = engine, ds_default_version = version,
                 ds_created_at = stamp, ds_updated_at = stamp \<rparr>;
               s1 = s\<lparr>services := services s @ [service],
                      database_services := database_services s @ [database]\<rparr>
           in if sql_exists (\<lambda>d. ds_service_id d = serviceID) (database_services s)
              then db_fail (ConstraintErr ''insert database service'') s
              else case create_instances ids app serviceID (cd_actor i) stamp [] (cd_instances i) 1 s1 of
                     Inl e \<Rightarrow> db_fail e s
                   | Inr (insts, bs, ops, s2) \<Rightarrow>
                       db_ok \<lparr> crd_service = service, crd_database = database, crd_instances = insts,
                               crd_bindings = bs, crd_operations = ops \<rparr> s2)"

section \<open>Reading\<close>

definition GetDatabaseService :: "string \<Rightarrow> database_service_row db" where
  "GetDatabaseService serviceID s =
     (case sql_get (\<lambda>d. ds_service_id d = trim serviceID) (database_services s) of
        None \<Rightarrow> db_fail (Sentinel ''database_service_not_found'') s | Some d \<Rightarrow> db_ok d s)"

definition GetDatabaseInstance :: "string \<Rightarrow> database_instance_row db" where
  "GetDatabaseInstance instanceID s =
     (case sql_get (\<lambda>d. di_id d = trim instanceID) (database_instances s) of
        None \<Rightarrow> db_fail (Sentinel ''database_instance_not_found'') s | Some d \<Rightarrow> db_ok d s)"

definition instance_key :: "database_instance_row \<Rightarrow> string \<times> string" where
  "instance_key d = (di_created_at d, di_id d)"

definition ListDatabaseInstances :: "string \<Rightarrow> store \<Rightarrow> database_instance_row list" where
  "ListDatabaseInstances serviceID s =
     sql_order instance_key (filter (\<lambda>d. di_service_id d = trim serviceID) (database_instances s))"

definition ListAllDatabaseInstances :: "store \<Rightarrow> database_instance_row list" where
  "ListAllDatabaseInstances s = sql_order instance_key (database_instances s)"

definition GetDatabaseOperation :: "string \<Rightarrow> database_operation_row db" where
  "GetDatabaseOperation operationID s =
     (case sql_get (\<lambda>d. dbo_id d = trim operationID) (database_operations s) of
        None \<Rightarrow> db_fail ErrNoRows s | Some d \<Rightarrow> db_ok d s)"

definition ListDatabaseOperations :: "string \<Rightarrow> int \<Rightarrow> store \<Rightarrow> database_operation_row list" where
  "ListDatabaseOperations serviceID limit s =
     take (nat (if limit \<le> 0 \<or> limit > 200 then 50 else limit))
       (sql_order (\<lambda>d. (Down (dbo_created_at d), Down (dbo_id d)))
         (filter (\<lambda>d. dbo_service_id d = trim serviceID) (database_operations s)))"

section \<open>Credentials\<close>

definition GetDatabaseCredentialSealed :: "string \<Rightarrow> database_credential_row db" where
  "GetDatabaseCredentialSealed instanceID s =
     (case sql_get (\<lambda>c. dc_database_instance_id c = trim instanceID) (database_credentials s) of
        None \<Rightarrow> db_fail (Sentinel ''database_instance_not_found'') s | Some c \<Rightarrow> db_ok c s)"

definition stageable :: "string \<Rightarrow> database_credential_row \<Rightarrow> bool" where
  "stageable inst c \<longleftrightarrow> dc_database_instance_id c = inst \<and> length (dc_pending_password_ct c) = 0"

definition staged :: "string \<Rightarrow> database_credential_row \<Rightarrow> bool" where
  "staged inst c \<longleftrightarrow> dc_database_instance_id c = inst \<and> length (dc_pending_password_ct c) > 0"

definition StageDatabaseCredentialRotation ::
  "string \<Rightarrow> string \<Rightarrow> instant \<Rightarrow> database_credential_row db" where
  "StageDatabaseCredentialRotation instanceID pendingPasswordCT now s =
     (let p = stageable (trim instanceID); n = rfc3339_nano now
      in if length pendingPasswordCT = 0
         then db_fail (Errorf ''encrypted pending database password required'' []) s
         else if sql_count p (database_credentials s) \<noteq> 1
         then db_fail (Errorf ''database credential rotation is already staged'' []) s
         else GetDatabaseCredentialSealed instanceID (s\<lparr>database_credentials := sql_update p
           (\<lambda>c. c\<lparr>dc_pending_password_ct := pendingPasswordCT, dc_pending_created_at := n,
                  dc_updated_at := n\<rparr>) (database_credentials s)\<rparr>))"

definition CommitStagedDatabaseCredentialRotation ::
  "string \<Rightarrow> instant \<Rightarrow> database_credential_row db" where
  "CommitStagedDatabaseCredentialRotation instanceID now s =
     (let p = staged (trim instanceID); n = rfc3339_nano now
      in if sql_count p (database_credentials s) \<noteq> 1
         then db_fail (Errorf ''database credential rotation is not staged'' []) s
         else GetDatabaseCredentialSealed instanceID (s\<lparr>database_credentials := sql_update p
           (\<lambda>c. c\<lparr>dc_password_ct := dc_pending_password_ct c, dc_pending_password_ct := [],
                  dc_pending_created_at := [], dc_generation := dc_generation c + 1,
                  dc_rotated_at := n, dc_updated_at := n\<rparr>) (database_credentials s)\<rparr>))"

definition ClearStagedDatabaseCredentialRotation :: "string \<Rightarrow> instant \<Rightarrow> unit db" where
  "ClearStagedDatabaseCredentialRotation instanceID now s =
     (let p = (\<lambda>c. dc_database_instance_id c = trim instanceID)
      in if sql_count p (database_credentials s) \<noteq> 1
         then db_fail (Sentinel ''database_instance_not_found'') s
         else db_ok () (s\<lparr>database_credentials := sql_update p
           (\<lambda>c. c\<lparr>dc_pending_password_ct := [], dc_pending_created_at := [],
                  dc_updated_at := rfc3339_nano now\<rparr>) (database_credentials s)\<rparr>))"

section \<open>Bindings\<close>

definition ListDatabaseBindings :: "string \<Rightarrow> store \<Rightarrow> database_binding_row list" where
  "ListDatabaseBindings instanceID s =
     sql_order (\<lambda>b. (bd_variable_key b, bd_consumer_service_id b))
       (filter (\<lambda>b. bd_database_instance_id b = trim instanceID) (database_bindings s))"

definition GetDatabaseBinding :: "string \<Rightarrow> database_binding_row db" where
  "GetDatabaseBinding i s =
     (case sql_get (\<lambda>b. bd_id b = trim i) (database_bindings s) of
        None \<Rightarrow> db_fail ErrNoRows s | Some b \<Rightarrow> db_ok b s)"

text \<open>
  The checks \<open>CreateDatabaseBinding\<close> and \<open>UpdateDatabaseBinding\<close> share: a live instance, a consumer
  of the same application present in the instance's environment, a key, and no variable in the way.
  They return the instance, the consumer's id and the key.
\<close>

definition check_binding :: "string \<Rightarrow> string \<Rightarrow> string \<Rightarrow> bool \<Rightarrow> store \<Rightarrow>
    (database_instance_row \<times> string \<times> string) res" where
  "check_binding instanceID consumerServiceID variableKey replaceExisting s =
     (let invalid = Inl (Sentinel ''invalid_database_binding'')
      in case fst (GetDatabaseInstance instanceID s) of
           Inl _ \<Rightarrow> invalid
         | Inr inst \<Rightarrow>
             if parse_time (di_deleted_at inst) \<noteq> None then invalid
             else case fst (GetService (di_service_id inst) s) of
               Inl e \<Rightarrow> Inl e
             | Inr (dbsvc, _) \<Rightarrow>
                 (case fst (GetService (trim consumerServiceID) s) of
                    Inl _ \<Rightarrow> invalid
                  | Inr (consumer, _) \<Rightarrow>
                      if svc_service_type consumer \<noteq> ''application'' \<or>
                         svc_application_id consumer \<noteq> svc_application_id dbsvc then invalid
                      else case fst (GetServiceEnvironment (svc_id consumer) (di_environment_id inst) s) of
                        Inl _ \<Rightarrow> invalid
                      | Inr _ \<Rightarrow>
                          (case normalizeDatabaseBindingVariableKey variableKey of
                             None \<Rightarrow> invalid
                           | Some key \<Rightarrow>
                               if variable_conflicts (di_environment_id inst) key (svc_id consumer) s > 0 \<and>
                                  \<not> replaceExisting
                               then Inl (Sentinel ''database_binding_variable_conflict'')
                               else Inr (inst, svc_id consumer, key))))"

definition CreateDatabaseBinding ::
  "string \<Rightarrow> string \<Rightarrow> string \<Rightarrow> bool \<Rightarrow> string \<Rightarrow> instant \<Rightarrow> database_binding_row db" where
  "CreateDatabaseBinding instanceID consumerServiceID variableKey replaceExisting newID now s =
     (case check_binding instanceID consumerServiceID variableKey replaceExisting s of
        Inl e \<Rightarrow> db_fail e s
      | Inr (inst, consumerID, key) \<Rightarrow>
          let row = \<lparr> bd_id = newID, bd_database_instance_id = di_id inst,
                bd_environment_id = di_environment_id inst, bd_consumer_service_id = consumerID,
                bd_variable_key = key, bd_replace_existing = replaceExisting,
                bd_created_at = rfc3339 now, bd_updated_at = rfc3339 now \<rparr>
          in case insert_binding row s of
               Inl _ \<Rightarrow> db_fail (Sentinel ''database_binding_variable_conflict'') s
             | Inr s1 \<Rightarrow> db_ok row s1)"

definition UpdateDatabaseBinding ::
  "string \<Rightarrow> string \<Rightarrow> string \<Rightarrow> bool \<Rightarrow> instant \<Rightarrow> database_binding_row db" where
  "UpdateDatabaseBinding i0 consumerServiceID variableKey replaceExisting now s =
     (let i = trim i0
      in case sql_get (\<lambda>b. bd_id b = i) (database_bindings s) of
           None \<Rightarrow> db_fail ErrNoRows s
         | Some current \<Rightarrow>
             (case check_binding (bd_database_instance_id current) consumerServiceID variableKey
                     replaceExisting s of
                Inl e \<Rightarrow> db_fail e s
              | Inr (inst, consumerID, key) \<Rightarrow>
                  let upd = (\<lambda>b. b\<lparr>bd_environment_id := di_environment_id inst,
                        bd_consumer_service_id := consumerID, bd_variable_key := key,
                        bd_replace_existing := replaceExisting, bd_updated_at := rfc3339_nano now\<rparr>)
                  in if sql_exists (\<lambda>x. bd_id x \<noteq> i \<and> binding_clash (upd current) x) (database_bindings s)
                     then db_fail (Sentinel ''database_binding_variable_conflict'') s
                     else db_ok (upd current) (s\<lparr>database_bindings :=
                       sql_update (\<lambda>b. bd_id b = i) upd (database_bindings s)\<rparr>)))"

definition DeleteDatabaseBinding :: "string \<Rightarrow> unit db" where
  "DeleteDatabaseBinding i s =
     (if sql_count (\<lambda>b. bd_id b = trim i) (database_bindings s) = 0 then db_fail ErrNoRows s
      else db_ok () (s\<lparr>database_bindings := sql_delete (\<lambda>b. bd_id b = trim i) (database_bindings s)\<rparr>))"

record connection_binding =
  cb_database_instance_id :: string
  cb_engine :: string
  cb_network_alias :: string
  cb_internal_port :: int
  cb_database_name :: string
  cb_username :: string
  cb_password_ct :: string
  cb_variable_key :: string
  cb_replace_existing :: bool

text \<open>The inner join of binding, instance, service and credential.\<close>

definition ListDatabaseConnectionBindingsSealed :: "string \<Rightarrow> string \<Rightarrow> store \<Rightarrow> connection_binding list" where
  "ListDatabaseConnectionBindingsSealed consumerServiceID environmentID s =
     sql_order (\<lambda>c. (cb_variable_key c, cb_database_instance_id c))
       (concat (map (\<lambda>b. concat (map (\<lambda>d. concat (map (\<lambda>v. map (\<lambda>c.
          \<lparr> cb_database_instance_id = di_id d, cb_engine = ds_engine v,
            cb_network_alias = di_network_alias d, cb_internal_port = di_internal_port d,
            cb_database_name = dc_database_name c, cb_username = dc_username c,
            cb_password_ct = dc_password_ct c, cb_variable_key = bd_variable_key b,
            cb_replace_existing = bd_replace_existing b \<rparr>)
          (filter (\<lambda>c. dc_database_instance_id c = di_id d) (database_credentials s)))
          (filter (\<lambda>v. ds_service_id v = di_service_id d) (database_services s))))
          (filter (\<lambda>d. di_id d = bd_database_instance_id b \<and> di_environment_id d = trim environmentID \<and>
             di_deleted_at d = [] \<and> di_desired_state d = ''running'' \<and> di_status d = ''healthy'')
             (database_instances s))))
          (filter (\<lambda>b. bd_consumer_service_id b = trim consumerServiceID) (database_bindings s))))"

end
