(* ===== verification/HF_Db_Lifecycle.thy ===== *)
theory HF_Db_Lifecycle
  imports HF_Db_Services
begin

text \<open>
  The life cycle of a managed database: runtime actions and patch upgrades are queued, progress is
  recorded on both operation rows at once, instance state is written by the handlers, and a
  service is deleted in two phases, restored within its retention window, or purged after it.
\<close>

section \<open>Queueing work\<close>

abbreviation instance_live :: "database_instance_row \<Rightarrow> bool" where
  "instance_live d \<equiv> parse_time (di_deleted_at d) = None"

definition QueueDatabaseInstanceOperation ::
  "string \<Rightarrow> string \<Rightarrow> string \<Rightarrow> string \<Rightarrow> instant \<Rightarrow> database_operation_row db" where
  "QueueDatabaseInstanceOperation instanceID operationType0 actor newID now s =
     (let operationType = to_lower (trim operationType0); stamp = rfc3339 now
      in if operationType \<notin> {''start'', ''stop'', ''restart'', ''rotate_credentials''}
         then db_fail (Errorf ''unsupported database runtime operation'' []) s
         else case fst (GetDatabaseInstance instanceID s) of
           Inl e \<Rightarrow> db_fail e s
         | Inr inst \<Rightarrow>
             if \<not> instance_live inst \<or> di_desired_state inst = ''deleted''
             then db_fail (Errorf ''deleted database must be restored before runtime actions'' []) s
             else if trim (di_docker_container_id inst) = []
             then db_fail (Errorf ''database container is not provisioned'' []) s
             else
               let desired = (if operationType = ''stop'' then ''stopped'' else ''running'');
                   status = (if operationType = ''stop'' then ''stopping'' else ''starting'');
                   op = new_database_operation newID (di_service_id inst) (Some (di_id inst))
                          operationType ''queued'' actor stamp;
                   s1 = (if operationType = ''rotate_credentials'' then s
                         else s\<lparr>database_instances := sql_update (\<lambda>d. di_id d = di_id inst)
                           (\<lambda>d. d\<lparr>di_desired_state := desired, di_status := status,
                                  di_updated_at := stamp\<rparr>) (database_instances s)\<rparr>)
               in case enqueue_database_operation op s1 of
                    Inl e \<Rightarrow> db_fail e s | Inr s2 \<Rightarrow> db_ok op s2)"

definition QueueDatabaseUpgrade ::
  "string \<Rightarrow> string \<Rightarrow> string \<Rightarrow> string \<Rightarrow> string \<Rightarrow> instant \<Rightarrow> database_operation_row db" where
  "QueueDatabaseUpgrade instanceID engineVersion0 targetImageRef0 actor newID now s =
     (case fst (GetDatabaseInstance instanceID s) of
        Inl e \<Rightarrow> db_fail e s
      | Inr inst \<Rightarrow>
          let engineVersion = trim engineVersion0; targetImageRef = trim targetImageRef0;
              stamp = rfc3339_nano now
          in if \<not> instance_live inst \<or> di_desired_state inst \<noteq> ''running'' \<or>
                di_status inst \<noteq> ''healthy'' \<or> di_docker_container_id inst = []
             then db_fail (Errorf ''database instance must be healthy and running'' []) s
             else if engineVersion = [] \<or> engineVersion \<noteq> di_engine_version inst \<or>
                     targetImageRef = [] \<or> targetImageRef = di_image_ref inst
             then db_fail (Errorf ''database patch upgrade is not available'' []) s
             else
               let op = new_database_operation newID (di_service_id inst) (Some (di_id inst))
                     ''upgrade'' ''queued'' actor stamp;
                   job = \<lparr> uj_operation_id = newID, uj_database_instance_id = di_id inst,
                     uj_engine_version = engineVersion, uj_previous_image_ref = di_image_ref inst,
                     uj_target_image_ref = targetImageRef, uj_status = ''queued'',
                     uj_created_at = stamp, uj_updated_at = stamp \<rparr>
               in case insert_database_operation op s of
                    Inl e \<Rightarrow> db_fail e s
                  | Inr s1 \<Rightarrow>
                      if sql_exists (\<lambda>j. uj_operation_id j = newID) (database_upgrade_jobs s1)
                      then db_fail (ConstraintErr ''database_upgrade_jobs.operation_id'') s
                      else case insertDatabaseOperationQueueRow newID
                             (s1\<lparr>database_upgrade_jobs := database_upgrade_jobs s1 @ [job]\<rparr>) of
                           Inl e \<Rightarrow> db_fail e s | Inr s2 \<Rightarrow> db_ok op s2)"

definition GetDatabaseUpgradeJob :: "string \<Rightarrow> upgrade_job_row db" where
  "GetDatabaseUpgradeJob operationID s =
     (case sql_get (\<lambda>j. uj_operation_id j = trim operationID) (database_upgrade_jobs s) of
        None \<Rightarrow> db_fail ErrNoRows s | Some j \<Rightarrow> db_ok j s)"

definition UpdateDatabaseUpgradeJobStatus :: "string \<Rightarrow> string \<Rightarrow> instant \<Rightarrow> unit db" where
  "UpdateDatabaseUpgradeJobStatus operationID status0 now s =
     (let status = to_lower (trim status0); p = (\<lambda>j. uj_operation_id j = trim operationID)
      in if status \<notin> {''running'', ''success'', ''failed'', ''rolled_back''}
         then db_fail (Errorf ''invalid database upgrade status'' []) s
         else if sql_count p (database_upgrade_jobs s) \<noteq> 1 then db_fail ErrNoRows s
         else db_ok () (s\<lparr>database_upgrade_jobs := sql_update p
           (\<lambda>j. j\<lparr>uj_status := status, uj_updated_at := rfc3339_nano now\<rparr>) (database_upgrade_jobs s)\<rparr>))"

definition CommitDatabaseInstanceUpgrade ::
  "string \<Rightarrow> string \<Rightarrow> string \<Rightarrow> string \<Rightarrow> instant \<Rightarrow> database_instance_row db" where
  "CommitDatabaseInstanceUpgrade instanceID previousImageRef targetImageRef containerID now s =
     (let n = rfc3339_nano now;
          p = (\<lambda>d. di_id d = trim instanceID \<and> di_image_ref d = trim previousImageRef \<and> di_deleted_at d = [])
      in if sql_count p (database_instances s) \<noteq> 1
         then db_fail (Errorf ''database upgrade state changed concurrently'' []) s
         else GetDatabaseInstance instanceID (s\<lparr>database_instances := sql_update p
           (\<lambda>d. d\<lparr>di_image_ref := trim targetImageRef, di_docker_container_id := trim containerID,
                  di_desired_state := ''running'', di_status := ''healthy'',
                  di_health_message := ''ready'', di_health_checked_at := n, di_updated_at := n\<rparr>)
           (database_instances s)\<rparr>))"

section \<open>Recording progress\<close>

text \<open>
  \<open>UpdateDatabaseOperation\<close> runs the same update on both tables.  The start stamp is set once;
  the lease goes with a terminal status.  It does not check who holds the lease.
\<close>

definition progress_dbo_set :: "string \<Rightarrow> string \<Rightarrow> int \<Rightarrow> string \<Rightarrow> string \<Rightarrow> string \<Rightarrow>
    database_operation_row \<Rightarrow> database_operation_row" where
  "progress_dbo_set status step progress code msg stamp r =
     (let started = (if status = ''running'' then stamp else []);
          completed = (if terminal_status status then stamp else [])
      in r\<lparr>dbo_status := status, dbo_progress_step := step, dbo_progress_percent := progress,
           dbo_error_code := code, dbo_error_message := msg,
           dbo_started_at := (if dbo_started_at r = [] \<and> started \<noteq> [] then started else dbo_started_at r),
           dbo_completed_at := (if completed \<noteq> [] then completed else dbo_completed_at r),
           dbo_lease_owner := (if completed \<noteq> [] then [] else dbo_lease_owner r),
           dbo_lease_expires_at := (if completed \<noteq> [] then [] else dbo_lease_expires_at r),
           dbo_updated_at := stamp\<rparr>)"

definition progress_op_set :: "string \<Rightarrow> string \<Rightarrow> int \<Rightarrow> string \<Rightarrow> string \<Rightarrow> string \<Rightarrow>
    operation_row \<Rightarrow> operation_row" where
  "progress_op_set status step progress code msg stamp r =
     (let started = (if status = ''running'' then stamp else []);
          completed = (if terminal_status status then stamp else [])
      in r\<lparr>op_status := status, op_progress_step := step, op_progress_percent := progress,
           op_error_code := code, op_error_message := msg,
           op_started_at := (if op_started_at r = [] \<and> started \<noteq> [] then started else op_started_at r),
           op_completed_at := (if completed \<noteq> [] then completed else op_completed_at r),
           op_lease_owner := (if completed \<noteq> [] then [] else op_lease_owner r),
           op_lease_expires_at := (if completed \<noteq> [] then [] else op_lease_expires_at r),
           op_updated_at := stamp\<rparr>)"

definition UpdateDatabaseOperation ::
  "string \<Rightarrow> string \<Rightarrow> string \<Rightarrow> int \<Rightarrow> string \<Rightarrow> string \<Rightarrow> instant \<Rightarrow> database_operation_row db" where
  "UpdateDatabaseOperation operationID0 status0 step0 progress errorCode0 errorMessage0 now s =
     (let status = to_lower (trim status0); step = trim step0; code = trim errorCode0;
          msg = trim errorMessage0; stamp = rfc3339 now; oid = trim operationID0
      in if progress < 0 \<or> progress > 100 then db_fail (Errorf ''invalid operation progress'' []) s
         else if sql_count (\<lambda>d. dbo_id d = oid) (database_operations s) = 0 then db_fail ErrNoRows s
         else if status \<notin> set operation_statuses then db_fail (ConstraintErr ''database_operations.status'') s
         else GetDatabaseOperation oid (s\<lparr>
           database_operations := sql_update (\<lambda>d. dbo_id d = oid)
             (progress_dbo_set status step progress code msg stamp) (database_operations s),
           operations := sql_update (\<lambda>r. op_id r = oid)
             (progress_op_set status step progress code msg stamp) (operations s)\<rparr>))"

record instance_state_input =
  is_DockerContainerID :: string
  is_ClearContainerID :: bool
  is_DesiredState :: string
  is_Status :: string
  is_HealthMessage :: string
  is_HealthCheckedAt :: go_time
  is_StorageUsedBytes :: "int option"
  is_StorageCheckedAt :: go_time

definition instance_desired_states :: "string list" where
  "instance_desired_states = [''running'', ''stopped'', ''deleted'']"

definition instance_statuses :: "string list" where
  "instance_statuses = [''provisioning'', ''starting'', ''healthy'', ''unhealthy'', ''stopping'',
     ''stopped'', ''failed'', ''deleted'', ''purging'']"

definition stamp_opt :: "go_time \<Rightarrow> string" where
  "stamp_opt t = (case t of None \<Rightarrow> [] | Some u \<Rightarrow> rfc3339 u)"

definition instance_state_set :: "instance_state_input \<Rightarrow> database_instance_row \<Rightarrow> string \<Rightarrow>
    database_instance_row \<Rightarrow> database_instance_row" where
  "instance_state_set i cur stamp d =
     d\<lparr>di_docker_container_id :=
         (if is_ClearContainerID i then []
          else if trim (is_DockerContainerID i) \<noteq> [] then trim (is_DockerContainerID i)
          else di_docker_container_id cur),
       di_desired_state := (if trim (is_DesiredState i) \<noteq> [] then to_lower (trim (is_DesiredState i))
                            else di_desired_state cur),
       di_status := (if trim (is_Status i) \<noteq> [] then to_lower (trim (is_Status i)) else di_status cur),
       di_health_message := trim (is_HealthMessage i),
       di_health_checked_at := (if stamp_opt (is_HealthCheckedAt i) \<noteq> [] then stamp_opt (is_HealthCheckedAt i)
                                else di_health_checked_at d),
       di_storage_used_bytes := (case is_StorageUsedBytes i of
            Some n \<Rightarrow> if n \<ge> 0 then n else di_storage_used_bytes cur
          | None \<Rightarrow> di_storage_used_bytes cur),
       di_storage_checked_at := (if stamp_opt (is_StorageCheckedAt i) \<noteq> [] then stamp_opt (is_StorageCheckedAt i)
                                 else di_storage_checked_at d),
       di_updated_at := stamp\<rparr>"

definition UpdateDatabaseInstanceState ::
  "string \<Rightarrow> instance_state_input \<Rightarrow> instant \<Rightarrow> database_instance_row db" where
  "UpdateDatabaseInstanceState instanceID i now s =
     (case fst (GetDatabaseInstance instanceID s) of
        Inl e \<Rightarrow> db_fail e s
      | Inr cur \<Rightarrow>
          let new = instance_state_set i cur (rfc3339 now) cur
          in if di_desired_state new \<notin> set instance_desired_states \<or> di_status new \<notin> set instance_statuses
             then db_fail (ConstraintErr ''database_instances'') s
             else GetDatabaseInstance (di_id cur) (s\<lparr>database_instances :=
               sql_update (\<lambda>d. di_id d = di_id cur) (instance_state_set i cur (rfc3339 now))
                 (database_instances s)\<rparr>))"

section \<open>Deletion\<close>

definition service_ops :: "string \<Rightarrow> string list \<Rightarrow> operation_row \<Rightarrow> bool" where
  "service_ops serviceID statuses r \<longleftrightarrow> op_service_id r = trim serviceID \<and> op_status r \<in> set statuses"

definition EnsureDatabaseServiceDeletionReady :: "string \<Rightarrow> unit db" where
  "EnsureDatabaseServiceDeletionReady serviceID s =
     (if sql_count (service_ops serviceID [''running'']) (operations s) > 0
      then db_fail (Errorf ''database operation is currently running'' []) s else db_ok () s)"

definition EnsureDatabaseServicePurgeReady :: "string \<Rightarrow> unit db" where
  "EnsureDatabaseServicePurgeReady serviceID s =
     (if sql_count (service_ops serviceID [''queued'', ''running'']) (operations s) > 0
      then db_fail (Errorf ''database operation is active'' []) s else db_ok () s)"

text \<open>
  \<open>BeginDatabaseServiceDeletion\<close>: with work running it asks that work to stop, commits and refuses;
  otherwise it cancels what is queued, drops the bindings and marks the instances.
\<close>

definition delete_cancel_op :: "string \<Rightarrow> operation_row \<Rightarrow> operation_row" where
  "delete_cancel_op n r =
     r\<lparr>op_status := ''cancelled'', op_progress_step := ''cancelled_by_delete'', op_completed_at := n,
       op_lease_owner := [], op_lease_expires_at := [], op_updated_at := n\<rparr>"

definition delete_cancel_dbo :: "string \<Rightarrow> database_operation_row \<Rightarrow> database_operation_row" where
  "delete_cancel_dbo n r =
     r\<lparr>dbo_status := ''cancelled'', dbo_progress_step := ''cancelled_by_delete'', dbo_completed_at := n,
       dbo_lease_owner := [], dbo_lease_expires_at := [], dbo_updated_at := n\<rparr>"

definition deletion_asked :: "string \<Rightarrow> string \<Rightarrow> store \<Rightarrow> store" where
  "deletion_asked svc now s =
     s\<lparr>operations := sql_update (\<lambda>r. op_service_id r = svc \<and> cancel_pending r)
       (\<lambda>r. r\<lparr>op_cancel_requested_at := now, op_updated_at := now\<rparr>) (operations s)\<rparr>"

definition deletion_begun :: "string \<Rightarrow> string \<Rightarrow> store \<Rightarrow> store" where
  "deletion_begun svc now s =
     (let insts = map di_id (filter (\<lambda>d. di_service_id d = svc) (database_instances s))
      in s\<lparr>database_operations := sql_update (\<lambda>d. dbo_service_id d = svc \<and> dbo_status d = ''queued'')
             (delete_cancel_dbo now) (database_operations s),
           operations := sql_update (service_ops svc [''queued'']) (delete_cancel_op now) (operations s),
           database_bindings := sql_delete (\<lambda>b. bd_database_instance_id b \<in> set insts)
             (database_bindings s),
           database_instances := sql_update (\<lambda>d. di_service_id d = svc \<and> di_deleted_at d = [])
             (\<lambda>d. d\<lparr>di_desired_state := ''deleted'', di_status := ''stopping'', di_updated_at := now\<rparr>)
             (database_instances s)\<rparr>)"

definition BeginDatabaseServiceDeletion :: "string \<Rightarrow> instant \<Rightarrow> database_instance_row list db" where
  "BeginDatabaseServiceDeletion serviceID nowTime s =
     (let svc = trim serviceID; now = rfc3339_nano nowTime
      in case fst (GetDatabaseService serviceID s) of
           Inl e \<Rightarrow> db_fail e s
         | Inr _ \<Rightarrow>
             if sql_count (service_ops serviceID [''running'']) (operations s) > 0
             then (Inl (Errorf ''database operation is currently running'' []), deletion_asked svc now s)
             else if sql_count (\<lambda>d. di_service_id d = svc \<and> di_deleted_at d = []) (database_instances s) = 0
             then db_fail (Sentinel ''database_service_not_found'') s
             else db_ok (ListDatabaseInstances serviceID (deletion_begun svc now s)) (deletion_begun svc now s))"

definition FinalizeDatabaseServiceDeletion ::
  "string \<Rightarrow> int \<Rightarrow> string \<Rightarrow> string \<Rightarrow> instant \<Rightarrow> database_instance_row list db" where
  "FinalizeDatabaseServiceDeletion serviceID retention actor newID now s =
     (let svc = trim serviceID; stamp = rfc3339_nano now;
          p = (\<lambda>d. di_service_id d = svc \<and> di_deleted_at d = [] \<and> di_desired_state d = ''deleted'')
      in if retention \<le> 0 then db_fail (Errorf ''database retention must be positive'' []) s
         else if sql_count (service_ops serviceID [''queued'', ''running'']) (operations s) > 0
         then db_fail (Errorf ''database operation became active during deletion'' []) s
         else if sql_count p (database_instances s) = 0
         then db_fail (Sentinel ''database_service_not_found'') s
         else
           let s1 = s\<lparr>database_instances := sql_update p
                 (\<lambda>d. d\<lparr>di_docker_container_id := [], di_desired_state := ''deleted'',
                        di_status := ''deleted'', di_deleted_at := stamp,
                        di_purge_after := rfc3339_nano (add_dur now retention),
                        di_updated_at := stamp\<rparr>) (database_instances s)\<rparr>;
               op = (new_database_operation newID svc None ''delete'' ''volume_retained'' actor stamp)
                 \<lparr>dbo_status := ''success'', dbo_progress_percent := 100, dbo_started_at := stamp,
                  dbo_completed_at := stamp\<rparr>
           in case enqueue_database_operation op s1 of
                Inl e \<Rightarrow> db_fail e s
              | Inr s2 \<Rightarrow> db_ok (ListDatabaseInstances serviceID s2) s2)"

text \<open>The clock is read once by each of the two phases.\<close>

definition MarkDatabaseServiceDeleted ::
  "string \<Rightarrow> int \<Rightarrow> string \<Rightarrow> string \<Rightarrow> instant \<Rightarrow> instant \<Rightarrow> database_instance_row list db" where
  "MarkDatabaseServiceDeleted serviceID retention actor newID now1 now2 s =
     (case BeginDatabaseServiceDeletion serviceID now1 s of
        (Inl e, s1) \<Rightarrow> (Inl e, s1)
      | (Inr _, s1) \<Rightarrow> FinalizeDatabaseServiceDeletion serviceID retention actor newID now2 s1)"

definition purge_passed :: "database_instance_row \<Rightarrow> instant \<Rightarrow> bool" where
  "purge_passed d now \<longleftrightarrow> (case parse_time (di_purge_after d) of None \<Rightarrow> True | Some t \<Rightarrow> \<not> t > now)"

fun restore_instances :: "string \<Rightarrow> string \<Rightarrow> (nat \<Rightarrow> string) \<Rightarrow> nat \<Rightarrow> instant \<Rightarrow>
    database_instance_row list \<Rightarrow> store \<Rightarrow> (database_operation_row list \<times> store) res" where
  "restore_instances serviceID actor ids n now [] s = Inr ([], s)"
| "restore_instances serviceID actor ids n now (d # ds) s =
     (if instance_live d \<or> purge_passed d now
      then Inl (Errorf ''database retention window expired'' [])
      else
        let s1 = s\<lparr>database_instances := sql_update (\<lambda>x. di_id x = di_id d)
              (\<lambda>x. x\<lparr>di_desired_state := ''running'', di_status := ''provisioning'',
                     di_deleted_at := [], di_purge_after := [], di_updated_at := rfc3339 now\<rparr>)
              (database_instances s)\<rparr>;
            op = new_database_operation (ids n) serviceID (Some (di_id d)) ''restore_deleted''
              ''volume_reserved'' actor (rfc3339 now)
        in case enqueue_database_operation op s1 of
             Inl e \<Rightarrow> Inl e
           | Inr s2 \<Rightarrow>
               (case restore_instances serviceID actor ids (Suc n) now ds s2 of
                  Inl e \<Rightarrow> Inl e | Inr (ops, s3) \<Rightarrow> Inr (op # ops, s3)))"

definition RestoreDeletedDatabaseService ::
  "string \<Rightarrow> string \<Rightarrow> (nat \<Rightarrow> string) \<Rightarrow> instant \<Rightarrow> database_operation_row list db" where
  "RestoreDeletedDatabaseService serviceID actor ids now s =
     (let instances = ListDatabaseInstances serviceID s
      in if instances = [] then db_fail (Sentinel ''database_service_not_found'') s
         else case restore_instances serviceID actor ids 0 now instances s of
                Inl e \<Rightarrow> db_fail e s | Inr (ops, s1) \<Rightarrow> db_ok ops s1)"

definition ListDatabaseInstancesDueForPurge ::
  "instant \<Rightarrow> int \<Rightarrow> store \<Rightarrow> database_instance_row list" where
  "ListDatabaseInstancesDueForPurge at limit s =
     take (nat (if limit \<le> 0 \<or> limit > 500 then 100 else limit))
       (sql_order (\<lambda>d. (di_purge_after d, di_id d))
         (filter (\<lambda>d. di_deleted_at d \<noteq> [] \<and> di_purge_after d \<noteq> [] \<and> di_purge_after d \<le> rfc3339 at)
           (database_instances s)))"

definition EnvironmentHasRetainedDatabaseInstances :: "string \<Rightarrow> store \<Rightarrow> bool" where
  "EnvironmentHasRetainedDatabaseInstances environmentID s \<longleftrightarrow>
     sql_count (\<lambda>d. di_environment_id d = trim environmentID \<and> di_deleted_at d \<noteq> []) (database_instances s) > 0"

definition purge_eligible :: "instant \<Rightarrow> database_instance_row \<Rightarrow> bool" where
  "purge_eligible at d \<longleftrightarrow> \<not> instance_live d \<and>
     (case parse_time (di_purge_after d) of None \<Rightarrow> False | Some t \<Rightarrow> \<not> t > at)"

definition PurgeDatabaseServiceRecords :: "string \<Rightarrow> instant \<Rightarrow> unit db" where
  "PurgeDatabaseServiceRecords serviceID at s =
     (let instances = ListDatabaseInstances serviceID s
      in if instances = [] then db_fail (Sentinel ''database_service_not_found'') s
         else case find (\<lambda>d. \<not> purge_eligible at d) instances of
                Some d \<Rightarrow> db_fail (Errorf ''database instance %s is not eligible for purge'' [di_id d]) s
              | None \<Rightarrow> DeleteService serviceID s)"

end
