(* ===== verification/HF_Backups.thy ===== *)
theory HF_Backups
  imports HF_Db_Lifecycle
begin

text \<open>
  Database backups: internal/repository/database_backups.go.  Destinations hold sealed object-store
  keys, policies schedule backups, a backup row follows its operation from queued to a terminal
  status, and a restore job names the backup it reads and, when it replaces a database in place,
  the safety backup taken first.  Backups and restores share an hourly cap.
\<close>

section \<open>Destinations\<close>

record destination_input =
  bdi_Name :: string
  bdi_Provider :: string
  bdi_Endpoint :: string
  bdi_Region :: string
  bdi_Bucket :: string
  bdi_ObjectPrefix :: string
  bdi_ServerSideEncryption :: string
  bdi_SSEKMSKeyID :: string
  bdi_PathStyle :: bool
  bdi_AccessKeyCT :: string
  bdi_SecretKeyCT :: string

definition validBackupServerSideEncryption :: "string \<Rightarrow> string \<Rightarrow> bool" where
  "validBackupServerSideEncryption algorithm kmsKeyID =
     (if algorithm = [] then kmsKeyID = []
      else if algorithm = ''AES256'' then kmsKeyID = []
      else if algorithm = ''aws:kms'' then kmsKeyID \<noteq> []
      else False)"

text \<open>\<open>strings.Trim(s, "/")\<close>.\<close>

definition trim_slashes :: "string \<Rightarrow> string" where
  "trim_slashes s = rev (dropWhile ((=) (CHR ''/'')) (rev (dropWhile ((=) (CHR ''/'')) s)))"

definition clean_destination :: "destination_input \<Rightarrow> destination_input" where
  "clean_destination i =
     i\<lparr>bdi_Name := trim (bdi_Name i), bdi_Provider := to_lower (trim (bdi_Provider i)),
       bdi_Endpoint := trim (bdi_Endpoint i), bdi_Region := trim (bdi_Region i),
       bdi_Bucket := trim (bdi_Bucket i), bdi_ObjectPrefix := trim_slashes (trim (bdi_ObjectPrefix i)),
       bdi_ServerSideEncryption := trim (bdi_ServerSideEncryption i),
       bdi_SSEKMSKeyID := trim (bdi_SSEKMSKeyID i)\<rparr>"

definition destination_ok :: "destination_input \<Rightarrow> bool" where
  "destination_ok i \<longleftrightarrow> bdi_Name i \<noteq> [] \<and> bdi_Provider i \<in> {''r2'', ''s3''} \<and> bdi_Endpoint i \<noteq> [] \<and>
     bdi_Region i \<noteq> [] \<and> bdi_Bucket i \<noteq> [] \<and> bdi_AccessKeyCT i \<noteq> [] \<and> bdi_SecretKeyCT i \<noteq> [] \<and>
     validBackupServerSideEncryption (bdi_ServerSideEncryption i) (bdi_SSEKMSKeyID i)"

text \<open>The public columns leave the sealed keys out.\<close>

definition public_destination :: "backup_destination_row \<Rightarrow> backup_destination_row" where
  "public_destination r = r\<lparr>bkd_access_key_ct := [], bkd_secret_key_ct := []\<rparr>"

definition GetBackupDestinationSealed :: "string \<Rightarrow> backup_destination_row db" where
  "GetBackupDestinationSealed i s =
     (case sql_get (\<lambda>d. bkd_id d = trim i) (backup_destinations s) of
        None \<Rightarrow> db_fail ErrNoRows s | Some d \<Rightarrow> db_ok d s)"

definition GetBackupDestination :: "string \<Rightarrow> backup_destination_row db" where
  "GetBackupDestination i s =
     (case sql_get (\<lambda>d. bkd_id d = trim i) (backup_destinations s) of
        None \<Rightarrow> db_fail ErrNoRows s | Some d \<Rightarrow> db_ok (public_destination d) s)"

definition ListBackupDestinations :: "store \<Rightarrow> backup_destination_row list" where
  "ListBackupDestinations s =
     map public_destination (sql_order (\<lambda>d. (bkd_name d, bkd_id d)) (backup_destinations s))"

definition CreateBackupDestination :: "destination_input \<Rightarrow> string \<Rightarrow> instant \<Rightarrow> backup_destination_row db" where
  "CreateBackupDestination i0 newID now s =
     (let i = clean_destination i0; stamp = rfc3339 now
      in if \<not> destination_ok i then db_fail (Errorf ''invalid backup destination'' []) s
         else if sql_exists (\<lambda>d. bkd_id d = newID \<or> bkd_name d = bdi_Name i) (backup_destinations s)
         then db_fail (ConstraintErr ''backup_destinations'') s
         else GetBackupDestination newID (s\<lparr>backup_destinations := backup_destinations s @
           [\<lparr> bkd_id = newID, bkd_name = bdi_Name i, bkd_provider = bdi_Provider i,
              bkd_endpoint = bdi_Endpoint i, bkd_region = bdi_Region i, bkd_bucket = bdi_Bucket i,
              bkd_object_prefix = bdi_ObjectPrefix i, bkd_path_style = bdi_PathStyle i,
              bkd_server_side_encryption = bdi_ServerSideEncryption i,
              bkd_sse_kms_key_id = bdi_SSEKMSKeyID i, bkd_access_key_ct = bdi_AccessKeyCT i,
              bkd_secret_key_ct = bdi_SecretKeyCT i, bkd_last_test_status = [],
              bkd_last_test_message = [], bkd_last_tested_at = [], bkd_created_at = stamp,
              bkd_updated_at = stamp \<rparr>]\<rparr>))"

definition UpdateBackupDestination :: "string \<Rightarrow> destination_input \<Rightarrow> instant \<Rightarrow> backup_destination_row db" where
  "UpdateBackupDestination i0 in0 now s =
     (let i = clean_destination in0; p = (\<lambda>d. bkd_id d = trim i0)
      in if \<not> destination_ok i then db_fail (Errorf ''invalid backup destination'' []) s
         else if sql_count p (backup_destinations s) \<noteq> 1 then db_fail ErrNoRows s
         else if sql_exists (\<lambda>d. \<not> p d \<and> bkd_name d = bdi_Name i) (backup_destinations s)
         then db_fail (ConstraintErr ''backup_destinations'') s
         else GetBackupDestination i0 (s\<lparr>backup_destinations := sql_update p
           (\<lambda>d. d\<lparr>bkd_name := bdi_Name i, bkd_provider := bdi_Provider i,
              bkd_endpoint := bdi_Endpoint i, bkd_region := bdi_Region i, bkd_bucket := bdi_Bucket i,
              bkd_object_prefix := bdi_ObjectPrefix i, bkd_path_style := bdi_PathStyle i,
              bkd_server_side_encryption := bdi_ServerSideEncryption i,
              bkd_sse_kms_key_id := bdi_SSEKMSKeyID i, bkd_access_key_ct := bdi_AccessKeyCT i,
              bkd_secret_key_ct := bdi_SecretKeyCT i, bkd_last_test_status := [],
              bkd_last_test_message := [], bkd_last_tested_at := [],
              bkd_updated_at := rfc3339_nano now\<rparr>) (backup_destinations s)\<rparr>))"

definition UpdateBackupDestinationTest ::
  "string \<Rightarrow> string \<Rightarrow> string \<Rightarrow> instant \<Rightarrow> backup_destination_row db" where
  "UpdateBackupDestinationTest i status0 message now s =
     (let status = to_lower (trim status0); stamp = rfc3339 now; p = (\<lambda>d. bkd_id d = trim i)
      in if status \<noteq> ''success'' \<and> status \<noteq> ''failed''
         then db_fail (Errorf ''invalid destination test status'' []) s
         else if sql_count p (backup_destinations s) = 0 then db_fail ErrNoRows s
         else GetBackupDestination i (s\<lparr>backup_destinations := sql_update p
           (\<lambda>d. d\<lparr>bkd_last_test_status := status, bkd_last_test_message := trim message,
              bkd_last_tested_at := stamp, bkd_updated_at := stamp\<rparr>) (backup_destinations s)\<rparr>))"

text \<open>
  Deleting a destination: a policy restricts it (\<open>ON DELETE RESTRICT\<close>), and the backups that named
  it lose the reference (\<open>ON DELETE SET NULL\<close>).
\<close>

definition retained_status :: "string \<Rightarrow> bool" where
  "retained_status st \<longleftrightarrow> st \<in> {''queued'', ''running'', ''success'', ''deleting''}"

definition DeleteBackupDestination :: "string \<Rightarrow> unit db" where
  "DeleteBackupDestination i s =
     (if sql_count (\<lambda>b. bk_destination_id b = Some (trim i) \<and> retained_status (bk_status b)) (database_backups s) > 0
      then db_fail (Errorf ''backup destination still owns retained backup objects'' []) s
      else if sql_count (\<lambda>d. bkd_id d = trim i) (backup_destinations s) = 0 then db_fail ErrNoRows s
      else if sql_exists (\<lambda>q. bp_destination_id q = trim i) (database_backup_policies s)
      then db_fail (ConstraintErr ''foreign key'') s
      else db_ok () (s\<lparr>
        backup_destinations := sql_delete (\<lambda>d. bkd_id d = trim i) (backup_destinations s),
        database_backups := sql_update (\<lambda>b. bk_destination_id b = Some (trim i))
          (\<lambda>b. b\<lparr>bk_destination_id := None\<rparr>) (database_backups s)\<rparr>))"

section \<open>Policies\<close>

definition formatOptionalTime :: "go_time \<Rightarrow> string" where
  "formatOptionalTime t = (case t of None \<Rightarrow> [] | Some u \<Rightarrow> rfc3339 u)"

definition GetDatabaseBackupPolicy :: "string \<Rightarrow> backup_policy_row db" where
  "GetDatabaseBackupPolicy i s =
     (case sql_get (\<lambda>q. bp_database_instance_id q = trim i) (database_backup_policies s) of
        None \<Rightarrow> db_fail ErrNoRows s | Some q \<Rightarrow> db_ok q s)"

definition policy_conflict_set ::
  "string \<Rightarrow> bool \<Rightarrow> string \<Rightarrow> string \<Rightarrow> int \<Rightarrow> string \<Rightarrow> string \<Rightarrow> backup_policy_row \<Rightarrow> backup_policy_row" where
  "policy_conflict_set dest enabled schedule timezone days next now q =
     q\<lparr>bp_destination_id := dest, bp_enabled := enabled, bp_schedule := schedule,
       bp_timezone := timezone, bp_retention_days := days, bp_next_scheduled_at := next,
       bp_updated_at := now\<rparr>"

definition UpsertDatabaseBackupPolicy :: "string \<Rightarrow> string \<Rightarrow> bool \<Rightarrow> string \<Rightarrow> string \<Rightarrow> int \<Rightarrow> go_time \<Rightarrow>
    instant \<Rightarrow> backup_policy_row db" where
  "UpsertDatabaseBackupPolicy instanceID destinationID enabled schedule timezone days next nowTime s =
     (case fst (GetDatabaseInstance instanceID s) of
        Inl e \<Rightarrow> db_fail e s
      | Inr _ \<Rightarrow>
          (case fst (GetBackupDestination destinationID s) of
             Inl e \<Rightarrow> db_fail e s
           | Inr _ \<Rightarrow>
               if trim schedule = [] \<or> trim timezone = [] \<or> days < 1 \<or> days > 3650
               then db_fail (Errorf ''invalid backup policy'' []) s
               else
                 let now = rfc3339 nowTime; inst = trim instanceID; dest = trim destinationID;
                     n = formatOptionalTime next;
                     key = (\<lambda>q. bp_database_instance_id q = inst)
                 in GetDatabaseBackupPolicy instanceID (s\<lparr>database_backup_policies :=
                      if sql_exists key (database_backup_policies s)
                      then sql_update key (policy_conflict_set dest enabled (trim schedule) (trim timezone) days n now)
                             (database_backup_policies s)
                      else database_backup_policies s @
                        [\<lparr> bp_database_instance_id = inst, bp_destination_id = dest, bp_enabled = enabled,
                           bp_schedule = trim schedule, bp_timezone = trim timezone,
                           bp_retention_days = days, bp_last_scheduled_at = [],
                           bp_next_scheduled_at = n, bp_created_at = now, bp_updated_at = now \<rparr>]\<rparr>)))"

text \<open>The ids are listed first; each policy is then read by its id.\<close>

fun read_policies :: "string list \<Rightarrow> store \<Rightarrow> backup_policy_row list res" where
  "read_policies [] s = Inr []"
| "read_policies (i # ids) s =
     (case fst (GetDatabaseBackupPolicy i s) of
        Inl e \<Rightarrow> Inl e
      | Inr q \<Rightarrow> (case read_policies ids s of Inl e \<Rightarrow> Inl e | Inr qs \<Rightarrow> Inr (q # qs)))"

definition ListDueDatabaseBackupPolicies :: "instant \<Rightarrow> int \<Rightarrow> store \<Rightarrow> backup_policy_row list res" where
  "ListDueDatabaseBackupPolicies at limit s =
     read_policies (map bp_database_instance_id
       (take (nat (if limit \<le> 0 \<or> limit > 200 then 100 else limit))
         (sql_order (\<lambda>q. (bp_next_scheduled_at q, bp_database_instance_id q))
           (filter (\<lambda>q. bp_enabled q \<and> bp_next_scheduled_at q \<noteq> [] \<and> bp_next_scheduled_at q \<le> rfc3339 at)
             (database_backup_policies s))))) s"

definition AdvanceDatabaseBackupPolicySchedule :: "string \<Rightarrow> go_time \<Rightarrow> go_time \<Rightarrow> instant \<Rightarrow> unit db" where
  "AdvanceDatabaseBackupPolicySchedule instanceID lastRun nextRun now s =
     (let p = (\<lambda>q. bp_database_instance_id q = trim instanceID)
      in if sql_count p (database_backup_policies s) = 0 then db_fail ErrNoRows s
         else db_ok () (s\<lparr>database_backup_policies := sql_update p
           (\<lambda>q. q\<lparr>bp_last_scheduled_at := formatOptionalTime lastRun,
                  bp_next_scheduled_at := formatOptionalTime nextRun, bp_updated_at := rfc3339 now\<rparr>)
           (database_backup_policies s)\<rparr>))"

section \<open>Backups\<close>

definition GetDatabaseBackup :: "string \<Rightarrow> database_backup_row db" where
  "GetDatabaseBackup i s =
     (case sql_get (\<lambda>b. bk_id b = trim i) (database_backups s) of
        None \<Rightarrow> db_fail ErrNoRows s | Some b \<Rightarrow> db_ok b s)"

definition GetDatabaseBackupByOperationID :: "string \<Rightarrow> database_backup_row db" where
  "GetDatabaseBackupByOperationID i s =
     (case sql_get (\<lambda>b. bk_operation_id b = Some (trim i)) (database_backups s) of
        None \<Rightarrow> db_fail ErrNoRows s | Some b \<Rightarrow> db_ok b s)"

definition GetQueuedDatabaseBackup :: "string \<Rightarrow> database_backup_row db" where
  "GetQueuedDatabaseBackup i s =
     (case sql_first (\<lambda>b. bk_database_instance_id b = Some (trim i) \<and> bk_status b = ''queued'')
             (\<lambda>b. (bk_created_at b, bk_id b)) (database_backups s) of
        None \<Rightarrow> db_fail ErrNoRows s | Some b \<Rightarrow> db_ok b s)"

definition ListDatabaseBackups :: "string \<Rightarrow> int \<Rightarrow> store \<Rightarrow> database_backup_row list" where
  "ListDatabaseBackups i limit s =
     take (nat (if limit \<le> 0 \<or> limit > 200 then 50 else limit))
       (sql_order (\<lambda>b. (Down (bk_created_at b), Down (bk_id b)))
         (filter (\<lambda>b. bk_database_instance_id b = Some (trim i)) (database_backups s)))"

definition LatestSuccessfulDatabaseBackup :: "string \<Rightarrow> database_backup_row db" where
  "LatestSuccessfulDatabaseBackup i s =
     (case sql_first (\<lambda>b. bk_database_instance_id b = Some (trim i) \<and> bk_status b = ''success'')
             (\<lambda>b. (Down (bk_completed_at b), Down (bk_created_at b), Down (bk_id b))) (database_backups s) of
        None \<Rightarrow> db_fail ErrNoRows s | Some b \<Rightarrow> GetDatabaseBackup (bk_id b) s)"

text \<open>The hourly cap: transfers recorded since an hour before \<open>now\<close>, to the second.\<close>

definition recent_transfer :: "instant \<Rightarrow> database_operation_row \<Rightarrow> bool" where
  "recent_transfer now d \<longleftrightarrow> dbo_operation_type d \<in> {''backup'', ''restore''} \<and>
     rfc3339 (add_dur now (- 3600 * int ns_per_sec)) \<le> dbo_created_at d"

definition enforceDatabaseTransferRateLimit :: "instant \<Rightarrow> int \<Rightarrow> store \<Rightarrow> unit res" where
  "enforceDatabaseTransferRateLimit now maxPerHour s =
     (if maxPerHour < 1 then Inl (Errorf ''database transfer rate limit must be positive'' [])
      else if int (sql_count (recent_transfer now) (database_operations s)) \<ge> maxPerHour
      then Inl (Sentinel ''database_transfer_rate_limited'')
      else Inr ())"

definition insert_backup :: "database_backup_row \<Rightarrow> store \<Rightarrow> store res" where
  "insert_backup b s =
     (if sql_exists (\<lambda>x. bk_id x = bk_id b \<or> bk_operation_id x = bk_operation_id b) (database_backups s)
      then Inl (ConstraintErr ''database_backups.id'')
      else if bk_engine b \<notin> {''postgresql'', ''mysql'', ''mariadb'', ''mongodb'', ''redis'', ''valkey''}
      then Inl (ConstraintErr ''database_backups.engine'')
      else if \<not> sql_exists (\<lambda>d. Some (bkd_id d) = bk_destination_id b) (backup_destinations s)
      then Inl (ConstraintErr ''foreign key'')
      else Inr (s\<lparr>database_backups := database_backups s @ [b]\<rparr>))"

definition backup_available :: "database_instance_row \<Rightarrow> bool" where
  "backup_available d \<longleftrightarrow> di_status d = ''healthy'' \<and> di_desired_state d = ''running'' \<and> instance_live d"

definition new_backup_row :: "string \<Rightarrow> string \<Rightarrow> database_instance_row \<Rightarrow> string \<Rightarrow> string \<Rightarrow> string \<Rightarrow>
    string \<Rightarrow> int \<Rightarrow> instant \<Rightarrow> database_backup_row" where
  "new_backup_row backupID opID inst destinationID triggerKind engine dbname days now =
     \<lparr> bk_id = backupID, bk_operation_id = Some opID, bk_database_instance_id = Some (di_id inst),
       bk_destination_id = Some destinationID, bk_status = ''queued'', bk_trigger_kind = triggerKind,
       bk_object_key = [], bk_archive_format = [], bk_checksum = [], bk_compressed_size = 0,
       bk_engine = engine, bk_database_name = dbname, bk_engine_version = di_engine_version inst,
       bk_encryption_algorithm = [], bk_encrypted_data_key = [], bk_error_code = [],
       bk_error_message = [], bk_started_at = [], bk_completed_at = [],
       bk_expires_at = rfc3339 (add_dur now (days * 24 * 3600 * int ns_per_sec)),
       bk_created_at = rfc3339 now, bk_updated_at = rfc3339 now \<rparr>"

text \<open>The reads and checks before the transaction: the instance, its engine and the database name.\<close>

definition backup_source :: "string \<Rightarrow> string \<Rightarrow> string \<Rightarrow> int \<Rightarrow> store \<Rightarrow>
    (database_instance_row \<times> string \<times> string) res" where
  "backup_source instanceID destinationID triggerKind days s =
     (case fst (GetDatabaseInstance instanceID s) of
        Inl e \<Rightarrow> Inl e
      | Inr inst \<Rightarrow>
          if \<not> backup_available inst then Inl (Errorf ''database instance is not available for backup'' [])
          else case fst (GetBackupDestination destinationID s) of Inl e \<Rightarrow> Inl e
        | Inr _ \<Rightarrow>
            (case fst (GetDatabaseService (di_service_id inst) s) of Inl e \<Rightarrow> Inl e
             | Inr svc \<Rightarrow>
                 (case fst (GetDatabaseCredentialSealed (di_id inst) s) of Inl e \<Rightarrow> Inl e
                  | Inr cred \<Rightarrow>
                      if triggerKind \<notin> {''manual'', ''scheduled'', ''safety''}
                      then Inl (Errorf ''invalid backup trigger'' [])
                      else if days < 1 \<or> days > 3650 then Inl (Errorf ''invalid backup retention'' [])
                      else Inr (inst, ds_engine svc, dc_database_name cred))))"

definition QueueDatabaseBackup :: "string \<Rightarrow> string \<Rightarrow> string \<Rightarrow> string \<Rightarrow> int \<Rightarrow> int \<Rightarrow>
    (nat \<Rightarrow> string) \<Rightarrow> instant \<Rightarrow> (database_backup_row \<times> database_operation_row) db" where
  "QueueDatabaseBackup instanceID destinationID triggerKind actor days maxTransfersPerHour ids now s =
     (case backup_source instanceID destinationID triggerKind days s of
        Inl e \<Rightarrow> db_fail e s
      | Inr (inst, engine, dbname) \<Rightarrow>
          let op = new_database_operation (ids 0) (di_service_id inst) (Some (di_id inst)) ''backup''
                ''queued'' actor (rfc3339 now);
              backup = new_backup_row (ids 1) (ids 0) inst destinationID triggerKind engine dbname days now
          in (case enforceDatabaseTransferRateLimit now maxTransfersPerHour s of
                Inl e \<Rightarrow> db_fail e s
              | Inr _ \<Rightarrow>
                  (case insert_database_operation op s of
                     Inl e \<Rightarrow> db_fail e s
                   | Inr s1 \<Rightarrow>
                       (case insert_backup backup s1 of
                          Inl e \<Rightarrow> db_fail e s
                        | Inr s2 \<Rightarrow>
                            (case insertDatabaseOperationQueueRow (ids 0) s2 of
                               Inl e \<Rightarrow> db_fail e s | Inr s3 \<Rightarrow> db_ok (backup, op) s3)))))"

record complete_backup_input =
  cb_Status :: string
  cb_ObjectKey :: string
  cb_ArchiveFormat :: string
  cb_Checksum :: string
  cb_EncryptionAlgorithm :: string
  cb_ErrorCode :: string
  cb_ErrorMessage :: string
  cb_CompressedSize :: int
  cb_EncryptedDataKey :: string

definition complete_backup_set :: "complete_backup_input \<Rightarrow> string \<Rightarrow> database_backup_row \<Rightarrow> database_backup_row" where
  "complete_backup_set i now b =
     b\<lparr>bk_status := cb_Status i, bk_object_key := trim (cb_ObjectKey i),
       bk_archive_format := trim (cb_ArchiveFormat i), bk_checksum := trim (cb_Checksum i),
       bk_compressed_size := cb_CompressedSize i,
       bk_encryption_algorithm := trim (cb_EncryptionAlgorithm i),
       bk_encrypted_data_key := cb_EncryptedDataKey i, bk_error_code := trim (cb_ErrorCode i),
       bk_error_message := trim (cb_ErrorMessage i), bk_completed_at := now, bk_updated_at := now\<rparr>"

definition CompleteDatabaseBackup :: "string \<Rightarrow> complete_backup_input \<Rightarrow> instant \<Rightarrow> database_backup_row db" where
  "CompleteDatabaseBackup i inp now s =
     (let p = (\<lambda>b. bk_id b = trim i)
      in if cb_Status inp \<noteq> ''success'' \<and> cb_Status inp \<noteq> ''failed'' \<and> cb_Status inp \<noteq> ''cancelled''
         then db_fail (Errorf ''invalid backup completion status'' []) s
         else if sql_count p (database_backups s) = 0 then db_fail ErrNoRows s
         else if cb_CompressedSize inp < 0 then db_fail (ConstraintErr ''database_backups.compressed_size'') s
         else GetDatabaseBackup i (s\<lparr>database_backups :=
           sql_update p (complete_backup_set inp (rfc3339 now)) (database_backups s)\<rparr>))"

definition MarkDatabaseBackupRunning :: "string \<Rightarrow> instant \<Rightarrow> unit db" where
  "MarkDatabaseBackupRunning i nowTime s =
     (let now = rfc3339 nowTime; p = (\<lambda>b. bk_id b = trim i \<and> bk_status b = ''queued'')
      in if sql_count p (database_backups s) \<noteq> 1 then db_fail ErrNoRows s
         else db_ok () (s\<lparr>database_backups := sql_update p
           (\<lambda>b. b\<lparr>bk_status := ''running'',
                  bk_started_at := (if bk_started_at b = [] then now else bk_started_at b),
                  bk_updated_at := now\<rparr>) (database_backups s)\<rparr>))"

definition references_backup :: "string \<Rightarrow> restore_job_row \<Rightarrow> bool" where
  "references_backup i j \<longleftrightarrow> rj_backup_id j = i \<or> rj_safety_backup_id j = Some i"

definition ListExpiredDatabaseBackups :: "instant \<Rightarrow> int \<Rightarrow> store \<Rightarrow> database_backup_row list" where
  "ListExpiredDatabaseBackups at limit s =
     take (nat (if limit \<le> 0 \<or> limit > 200 then 100 else limit))
       (sql_order (\<lambda>b. (bk_expires_at b, bk_id b))
         (filter (\<lambda>b. bk_status b \<in> {''success'', ''deleting''} \<and> bk_expires_at b \<noteq> [] \<and>
            bk_expires_at b \<le> rfc3339 at \<and>
            \<not> sql_exists (references_backup (bk_id b)) (database_restore_jobs s)) (database_backups s)))"

definition MarkDatabaseBackupDeleting :: "string \<Rightarrow> instant \<Rightarrow> unit db" where
  "MarkDatabaseBackupDeleting i now s =
     db_ok () (s\<lparr>database_backups := sql_update
       (\<lambda>b. bk_id b = trim i \<and> bk_status b \<in> {''success'', ''deleting''})
       (\<lambda>b. b\<lparr>bk_status := ''deleting'', bk_updated_at := rfc3339 now\<rparr>) (database_backups s)\<rparr>)"

definition PrepareDatabaseBackupDeletion :: "string \<Rightarrow> instant \<Rightarrow> database_backup_row db" where
  "PrepareDatabaseBackupDeletion i now s =
     (case fst (GetDatabaseBackup i s) of
        Inl e \<Rightarrow> db_fail e s
      | Inr backup \<Rightarrow>
          if bk_status backup = ''queued'' \<or> bk_status backup = ''running''
          then db_fail (Errorf ''active database backup cannot be deleted'' []) s
          else if sql_count (references_backup (bk_id backup)) (database_restore_jobs s) > 0
          then db_fail (Errorf ''database backup is referenced by restore history'' []) s
          else
            let (backup', s1) = (if bk_status backup = ''success''
                  then (backup\<lparr>bk_status := ''deleting''\<rparr>, snd (MarkDatabaseBackupDeleting (bk_id backup) now s))
                  else (backup, s))
            in if bk_status backup' \<noteq> ''deleting'' \<and> bk_status backup' \<noteq> ''failed'' \<and>
                  bk_status backup' \<noteq> ''cancelled''
               then (Inl (Errorf ''database backup status cannot be deleted'' []), s1)
               else db_ok backup' s1)"

text \<open>Restore jobs restrict the deletion of the backups they name.\<close>

definition DeleteDatabaseBackupRecord :: "string \<Rightarrow> unit db" where
  "DeleteDatabaseBackupRecord i s =
     (let p = (\<lambda>b. bk_id b = trim i \<and> bk_status b \<in> {''deleting'', ''failed'', ''cancelled''})
      in if sql_count p (database_backups s) \<noteq> 1 then db_fail ErrNoRows s
         else if sql_exists (references_backup (trim i)) (database_restore_jobs s)
         then db_fail (ConstraintErr ''foreign key'') s
         else db_ok () (s\<lparr>database_backups := sql_delete p (database_backups s)\<rparr>))"

section \<open>Restores\<close>

definition insert_restore_job :: "restore_job_row \<Rightarrow> store \<Rightarrow> store res" where
  "insert_restore_job j s =
     (if sql_exists (\<lambda>x. rj_operation_id x = rj_operation_id j) (database_restore_jobs s)
      then Inl (ConstraintErr ''database_restore_jobs.operation_id'')
      else Inr (s\<lparr>database_restore_jobs := database_restore_jobs s @ [j]\<rparr>))"

text \<open>The checks on the backup, the target and the mode, in the order the code makes them.\<close>

definition restore_plan :: "string \<Rightarrow> string \<Rightarrow> string \<Rightarrow> string \<Rightarrow> store \<Rightarrow>
    (database_backup_row \<times> database_instance_row \<times> string option) res" where
  "restore_plan backupID targetID safetyID mode s =
     (case fst (GetDatabaseBackup backupID s) of
        Inl _ \<Rightarrow> Inl (Errorf ''backup is not restorable'' [])
      | Inr backup \<Rightarrow>
          if bk_status backup \<noteq> ''success'' \<or> bk_encrypted_data_key backup = [] \<or> bk_object_key backup = []
          then Inl (Errorf ''backup is not restorable'' [])
          else case fst (GetDatabaseInstance targetID s) of
            Inl e \<Rightarrow> Inl e
          | Inr target \<Rightarrow>
              if \<not> instance_live target \<or> di_desired_state target \<noteq> ''running''
              then Inl (Errorf ''restore target is being deleted'' [])
              else if mode = ''replace_current'' \<and>
                (di_status target \<noteq> ''healthy'' \<or> trim (di_docker_container_id target) = [])
              then Inl (Errorf ''replace-current target must be healthy and running'' [])
              else if mode = ''new_service'' \<and> di_status target \<notin> {''provisioning'', ''starting'', ''healthy''}
              then Inl (Errorf ''new-service restore target is unavailable'' [])
              else
                let incompatible = Inl (Errorf ''backup and target database versions are incompatible'' [])
                in case fst (GetDatabaseService (di_service_id target) s) of
                  Inl _ \<Rightarrow> incompatible
                | Inr svc \<Rightarrow>
                    if ds_engine svc \<noteq> bk_engine backup \<or> di_engine_version target \<noteq> bk_engine_version backup
                    then incompatible
                    else if mode \<noteq> ''new_service'' \<and> mode \<noteq> ''replace_current''
                    then Inl (Errorf ''invalid restore mode'' [])
                    else if mode = ''replace_current''
                    then (case fst (GetDatabaseBackup safetyID s) of
                            Inl _ \<Rightarrow> Inl (Errorf ''replace-current restore requires a queued safety backup'' [])
                          | Inr safety \<Rightarrow>
                              if coalesce (bk_database_instance_id safety) \<noteq> di_id target \<or>
                                 bk_trigger_kind safety \<noteq> ''safety''
                              then Inl (Errorf ''replace-current restore requires a queued safety backup'' [])
                              else Inr (backup, target, Some (bk_id safety)))
                    else Inr (backup, target, None))"

definition QueueDatabaseRestore :: "string \<Rightarrow> string \<Rightarrow> string \<Rightarrow> string \<Rightarrow> string \<Rightarrow> int \<Rightarrow> string \<Rightarrow>
    instant \<Rightarrow> database_operation_row db" where
  "QueueDatabaseRestore backupID targetID safetyID mode actor maxTransfersPerHour newID now s =
     (case restore_plan backupID targetID safetyID mode s of
        Inl e \<Rightarrow> db_fail e s
      | Inr (backup, target, safety) \<Rightarrow>
          let stamp = rfc3339 now;
              op = new_database_operation newID (di_service_id target) (Some (di_id target)) ''restore''
                ''waiting_for_target'' actor stamp;
              job = \<lparr> rj_operation_id = newID, rj_backup_id = bk_id backup, rj_target_instance_id = di_id target,
                rj_safety_backup_id = safety, rj_mode = mode, rj_status = ''queued'', rj_created_at = stamp,
                rj_updated_at = stamp \<rparr>
          in (case enforceDatabaseTransferRateLimit now maxTransfersPerHour s of
                Inl e \<Rightarrow> db_fail e s
              | Inr _ \<Rightarrow>
                  (case insert_database_operation op s of
                     Inl e \<Rightarrow> db_fail e s
                   | Inr s1 \<Rightarrow>
                       (case insert_restore_job job s1 of
                          Inl e \<Rightarrow> db_fail e s
                        | Inr s2 \<Rightarrow>
                            (case insertDatabaseOperationQueueRow newID s2 of
                               Inl e \<Rightarrow> db_fail e s | Inr s3 \<Rightarrow> db_ok op s3)))))"

definition GetDatabaseRestoreJob :: "string \<Rightarrow> restore_job_row db" where
  "GetDatabaseRestoreJob operationID s =
     (case sql_get (\<lambda>j. rj_operation_id j = trim operationID) (database_restore_jobs s) of
        None \<Rightarrow> db_fail ErrNoRows s | Some j \<Rightarrow> db_ok j s)"

definition UpdateDatabaseRestoreJobStatus :: "string \<Rightarrow> string \<Rightarrow> instant \<Rightarrow> unit db" where
  "UpdateDatabaseRestoreJobStatus operationID status now s =
     (let p = (\<lambda>j. rj_operation_id j = trim operationID)
      in if sql_exists p (database_restore_jobs s) \<and>
            trim status \<notin> {''queued'', ''running'', ''success'', ''failed''}
         then db_fail (ConstraintErr ''database_restore_jobs.status'') s
         else db_ok () (s\<lparr>database_restore_jobs := sql_update p
           (\<lambda>j. j\<lparr>rj_status := trim status, rj_updated_at := rfc3339 now\<rparr>) (database_restore_jobs s)\<rparr>))"

end
