(* ===== verification/HF_Db_Inv.thy ===== *)
theory HF_Db_Inv
  imports HF_Projection HF_Backups
begin

text \<open>
  The database operations keep the two queue invariants: rows stay well formed for their status
  and every database operation mirrors its queue row, whatever the database code writes between
  the queue's own transactions.
\<close>

section \<open>Enqueueing\<close>

lemma insert_database_operation_ok:
  assumes "insert_database_operation r s = Inr s'"
  shows "s' = s\<lparr>database_operations := database_operations s @ [r]\<rparr>"
    and "dbo_id r \<notin> dbo_id ` set (database_operations s)"
  using assms by (auto simp: insert_database_operation_def split: if_splits)

text \<open>A fresh database operation row as the code writes it.\<close>

definition fresh_dbo :: "database_operation_row \<Rightarrow> bool" where
  "fresh_dbo d \<longleftrightarrow> dbo_enqueueable d \<and> dbo_attempt_count d = 0 \<and> dbo_lease_owner d = [] \<and>
     dbo_lease_expires_at d = []"

lemma fresh_new_operation:
  "trim i = i \<Longrightarrow> i \<noteq> [] \<Longrightarrow> fresh_dbo (new_database_operation i svc inst type step actor stamp)"
  by (simp add: fresh_dbo_def dbo_enqueueable_def new_database_operation_def)

lemma queue_row_mirrors: "fresh_dbo d \<Longrightarrow> mirrors (queue_row_of s d) d"
  by (simp add: fresh_dbo_def mirrors_def queue_row_of_def)

lemma enqueue_row:
  assumes d: "fresh_dbo d" and "d \<in> set (database_operations s)"
    and "distinct (map dbo_id (database_operations s))"
    and "insertDatabaseOperationQueueRow (dbo_id d) s = Inr s'"
  shows "operations s' = operations s @ [queue_row_of s d]"
    and "database_operations s' = database_operations s"
    and "op_id ` set (operations s) \<inter> {dbo_id d} = {}"
    and "database_instances s' = database_instances s" and "services s' = services s"
proof -
  have "trim (dbo_id d) = dbo_id d" using d by (simp add: fresh_dbo_def dbo_enqueueable_def)
  then have ins: "insert_operation (queue_row_of s d) s = Inr s'"
    using assms(4) sql_get_key [OF assms(3,2)] by (simp add: insertDatabaseOperationQueueRow_def)
  show "operations s' = operations s @ [queue_row_of s d]"
    "database_operations s' = database_operations s" "op_id ` set (operations s) \<inter> {dbo_id d} = {}"
    "database_instances s' = database_instances s" "services s' = services s"
    using ins by (auto simp: insert_operation_def queue_row_of_def split: if_splits)
qed

definition dbq_wf :: "store \<Rightarrow> bool" where
  "dbq_wf s \<longleftrightarrow> queue_wf s \<and> projection_wf s \<and> distinct (map dbo_id (database_operations s))"

lemma dbq_wf_cong:
  "operations s' = operations s \<Longrightarrow> database_operations s' = database_operations s \<Longrightarrow> dbq_wf s' = dbq_wf s"
  using queue_wf_cong [of s' s] projection_wf_cong [of s' s] by (simp add: dbq_wf_def)

text \<open>A row inserted before its queue row: what the two inserts leave, with writes between them.\<close>

lemma dbq_wf_enqueue:
  assumes wf: "dbq_wf s" and d: "fresh_dbo d"
    and ops: "operations s1 = operations s" and dbs: "database_operations s1 = database_operations s @ [d]"
    and new: "dbo_id d \<notin> dbo_id ` set (database_operations s)"
    and ins: "insertDatabaseOperationQueueRow (dbo_id d) s1 = Inr s'"
  shows "dbq_wf s'"
proof -
  have dist: "distinct (map dbo_id (database_operations s1))"
    using wf new by (simp add: dbs dbq_wf_def)
  note row = enqueue_row [OF d _ dist ins, unfolded ops dbs, simplified]
  have "queue_wf s1" using wf queue_wf_cong [OF ops] by (simp add: dbq_wf_def)
  moreover have "dbo_enqueueable x" if "x \<in> set (database_operations s1)" "dbo_id x = trim (dbo_id d)" for x
  proof -
    have "dbo_id x = dbo_id d" using that(2) d by (simp add: fresh_dbo_def dbo_enqueueable_def)
    then have "x = d" using that(1) new unfolding dbs by (metis image_eqI set_ConsD rotate1.simps(2) set_rotate1)
    then show ?thesis using d by (simp add: fresh_dbo_def)
  qed
  ultimately have "queue_wf s'" using queue_wf_enqueue_db [OF _ ins] by blast
  moreover have "projection_wf s'"
  proof (rule projection_wfI)
    fix x assume "x \<in> set (database_operations s')"
    then show "dbo_id x \<in> op_id ` set (operations s')"
      using wf by (auto simp: row(1,2) dbq_wf_def projection_wf_def queue_row_of_def)
  next
    fix r x assume r: "r \<in> set (operations s')" and x: "x \<in> set (database_operations s')"
      and eq: "dbo_id x = op_id r"
    have anchored: "dbo_id y \<in> op_id ` set (operations s)" if "y \<in> set (database_operations s)" for y
      using wf that by (simp add: dbq_wf_def projection_wf_def)
    show "mirrors r x"
    proof (cases "x = d")
      case True
      then have "r = queue_row_of s1 d" using r eq row(1,3) by auto
      then show ?thesis using True queue_row_mirrors [OF d] by simp
    next
      case False
      then have x': "x \<in> set (database_operations s)" using x by (simp add: row(2))
      then have "r \<in> set (operations s)" using r eq anchored [OF x'] row(1,3) by (auto simp: queue_row_of_def)
      then show ?thesis using wf x' eq by (simp add: dbq_wf_def projection_wf_def)
    qed
  qed
  ultimately show ?thesis using dist by (simp add: dbq_wf_def row(2) dbs)
qed

lemma dbq_wf_enqueue_operation:
  assumes wf: "dbq_wf s" and d: "fresh_dbo d" and en: "enqueue_database_operation d s = Inr s'"
  shows "dbq_wf s'"
proof -
  obtain s1 where s1: "insert_database_operation d s = Inr s1"
    "insertDatabaseOperationQueueRow (dbo_id d) s1 = Inr s'"
    using en by (auto simp: enqueue_database_operation_def split: sum.splits)
  show ?thesis
    by (rule dbq_wf_enqueue [OF wf d _ _ _ s1(2)]) (use insert_database_operation_ok [OF s1(1)] in simp_all)
qed

text \<open>What else the two inserts leave alone.\<close>

lemma insert_operation_frame:
  "insert_operation r s = Inr s' \<Longrightarrow> s' = s\<lparr>operations := operations s @ [r]\<rparr>"
  by (auto simp: insert_operation_def split: if_splits)

lemma enqueue_frame:
  assumes "enqueue_database_operation d s = Inr s'"
  shows "\<exists>os. s' = s\<lparr>database_operations := database_operations s @ [d], operations := os\<rparr>"
proof -
  have same: "\<exists>os. x = x\<lparr>operations := os\<rparr>" for x :: store
    by (rule exI [of _ "operations x"]) simp
  show ?thesis
    using assms same [of "s\<lparr>database_operations := database_operations s @ [d]\<rparr>"]
    by (auto simp: enqueue_database_operation_def insertDatabaseOperationQueueRow_def
      dest!: insert_database_operation_ok(1) insert_operation_frame split: sum.splits option.splits)
qed

section \<open>Preservation\<close>

lemma dbq_same:
  assumes "dbq_wf s" and "operations s' = operations s" and "database_operations s' = database_operations s"
  shows "dbq_wf s'"
  using assms dbq_wf_cong by blast

text \<open>An update of both tables that keeps ids, rows and the mirrored columns.\<close>

lemma dbq_wf_update:
  assumes wf: "dbq_wf s"
    and ops: "operations s' = sql_update p f (operations s)"
    and dbs: "database_operations s' = sql_update q g (database_operations s)"
    and keep: "\<And>r. op_id (f r) = op_id r \<and> op_lock_key (f r) = op_lock_key r" "\<And>d. dbo_id (g d) = dbo_id d"
    and good: "\<And>r. r \<in> set (operations s) \<Longrightarrow> p r \<Longrightarrow> op_row_wf r \<Longrightarrow> op_row_wf (f r)"
    and run: "\<And>r. r \<in> set (operations s) \<Longrightarrow> p r \<Longrightarrow> op_status (f r) = ''running'' \<Longrightarrow>
      op_status r = ''running''"
    and both: "\<And>r d. mirrors r d \<Longrightarrow> dbo_id d = op_id r \<Longrightarrow> p r = q d"
    and pair: "\<And>r d. mirrors r d \<Longrightarrow> mirrors (f r) (g d)"
  shows "dbq_wf s'"
proof -
  have "queue_wf s'"
    by (rule queue_wf_sql_update [OF _ ops]) (use wf keep(1) good run in \<open>auto simp: dbq_wf_def\<close>)
  moreover have "projection_wf s'"
    by (rule projection_wf_maps [of s _ "\<lambda>r. if p r then f r else r" "\<lambda>d. if q d then g d else d"])
      (use wf ops dbs keep both pair in \<open>auto simp: dbq_wf_def sql_update_def\<close>)
  moreover have "map dbo_id (database_operations s') = map dbo_id (database_operations s)"
    unfolding dbs using keep(2) by (simp add: map_sql_update)
  ultimately show ?thesis using wf by (simp add: dbq_wf_def)
qed

lemma progress_op_set_wf:
  assumes "op_row_wf r" and "0 \<le> p" "p \<le> 100" "stamp \<noteq> []"
    and "terminal_status st \<or> st = ''running'' \<and> op_status r = ''running''"
  shows "op_row_wf (progress_op_set st step p code msg stamp r)"
  using assms
  by (auto simp: op_row_wf_def progress_op_set_def Let_def terminal_status_def operation_statuses_def)

lemma progress_pair:
  "mirrors r d \<Longrightarrow> mirrors (progress_op_set st step p code msg stamp r) (progress_dbo_set st step p code msg stamp d)"
  by (simp add: mirrors_def progress_op_set_def progress_dbo_set_def Let_def)

lemma progress_keeps:
  "op_id (progress_op_set st step p code msg stamp r) = op_id r"
  "op_lock_key (progress_op_set st step p code msg stamp r) = op_lock_key r"
  "op_status (progress_op_set st step p code msg stamp r) = st"
  "dbo_id (progress_dbo_set st step p code msg stamp d) = dbo_id d"
  by (simp_all add: progress_op_set_def progress_dbo_set_def Let_def)

text \<open>A status a handler may report: a terminal one, or running for an operation that runs.\<close>

definition reportable :: "store \<Rightarrow> string \<Rightarrow> string \<Rightarrow> bool" where
  "reportable s oid status \<longleftrightarrow> terminal_status (to_lower (trim status)) \<or>
     to_lower (trim status) = ''running'' \<and>
     (\<forall>r \<in> set (operations s). op_id r = trim oid \<longrightarrow> op_status r = ''running'')"

lemma GetDatabase_snd [simp]:
  "snd (GetDatabaseOperation i s) = s" "snd (GetDatabaseInstance i s) = s"
  "snd (GetDatabaseCredentialSealed i s) = s"
  by (simp_all add: GetDatabaseOperation_def GetDatabaseInstance_def GetDatabaseCredentialSealed_def
      split: option.split)

lemma dbq_wf_progress:
  assumes wf: "dbq_wf s" and rep: "reportable s oid st"
  shows "dbq_wf (snd (UpdateDatabaseOperation oid st step p code msg now s))"
proof (cases "p < 0 \<or> p > 100 \<or> sql_count (\<lambda>d. dbo_id d = trim oid) (database_operations s) = 0 \<or>
    to_lower (trim st) \<notin> set operation_statuses")
  case True
  then show ?thesis using wf by (auto simp: UpdateDatabaseOperation_def Let_def)
next
  case False
  let ?st = "to_lower (trim st)"
  let ?s' = "snd (UpdateDatabaseOperation oid st step p code msg now s)"
  let ?args = "\<lambda>F. F ?st (trim step) p (trim code) (trim msg) (rfc3339 now)"
  have tables: "operations ?s' = sql_update (\<lambda>r. op_id r = trim oid) (?args progress_op_set) (operations s)"
    "database_operations ?s' = sql_update (\<lambda>d. dbo_id d = trim oid) (?args progress_dbo_set) (database_operations s)"
    using False by (simp_all add: UpdateDatabaseOperation_def Let_def)
  have ok: "terminal_status ?st \<or> ?st = ''running'' \<and> op_status r = ''running''"
    if "r \<in> set (operations s)" "op_id r = trim oid" for r
    using rep that by (auto simp: reportable_def)
  show ?thesis
    by (rule dbq_wf_update [OF wf tables])
      (use ok False in \<open>auto simp: progress_keeps progress_pair terminal_status_def intro!: progress_op_set_wf\<close>)
qed

lemma delete_cancel_wf:
  "op_row_wf r \<Longrightarrow> op_status r = ''queued'' \<Longrightarrow> n \<noteq> [] \<Longrightarrow> op_row_wf (delete_cancel_op n r)"
  by (auto simp: op_row_wf_def delete_cancel_op_def terminal_status_def operation_statuses_def)

lemma cancel_mark_wf: "op_row_wf r \<Longrightarrow> op_row_wf (r\<lparr>op_cancel_requested_at := n, op_updated_at := n\<rparr>)"
  by (simp add: op_row_wf_def)

lemma service_ops_trim: "service_ops (trim i) sts = service_ops i sts"
  by (simp add: service_ops_def [abs_def])

lemma dbq_wf_deletion_asked:
  assumes wf: "dbq_wf s"
  shows "dbq_wf (deletion_asked svc n s)"
proof -
  have "queue_wf (deletion_asked svc n s)"
    by (rule queue_wf_sql_update [of s _ "\<lambda>r. op_service_id r = svc \<and> cancel_pending r"
          "\<lambda>r. r\<lparr>op_cancel_requested_at := n, op_updated_at := n\<rparr>"])
      (use wf cancel_mark_wf in \<open>auto simp: dbq_wf_def deletion_asked_def\<close>)
  moreover have "projection_wf (deletion_asked svc n s)"
    by (rule projection_wf_maps [of s _ "\<lambda>r. if op_service_id r = svc \<and> cancel_pending r
          then r\<lparr>op_cancel_requested_at := n, op_updated_at := n\<rparr> else r" "\<lambda>d. d"])
      (use wf in \<open>auto simp: dbq_wf_def sql_update_def mirrors_def deletion_asked_def\<close>)
  ultimately show ?thesis using wf by (simp add: dbq_wf_def deletion_asked_def)
qed

lemma deletion_begun_tables:
  "operations (deletion_begun svc n s) = sql_update (service_ops svc [''queued'']) (delete_cancel_op n) (operations s)"
  "database_operations (deletion_begun svc n s) =
     sql_update (\<lambda>d. dbo_service_id d = svc \<and> dbo_status d = ''queued'') (delete_cancel_dbo n) (database_operations s)"
  "database_instances (deletion_begun svc n s) =
     sql_update (\<lambda>d. di_service_id d = svc \<and> di_deleted_at d = [])
       (\<lambda>d. d\<lparr>di_desired_state := ''deleted'', di_status := ''stopping'', di_updated_at := n\<rparr>)
       (database_instances s)"
  "database_bindings (deletion_begun svc n s) = sql_delete (\<lambda>b. bd_database_instance_id b \<in>
     set (map di_id (filter (\<lambda>d. di_service_id d = svc) (database_instances s)))) (database_bindings s)"
  "services (deletion_begun svc n s) = services s"
  by (simp_all add: deletion_begun_def Let_def)

lemma dbq_wf_deletion_begun:
  assumes wf: "dbq_wf s" and n: "n \<noteq> []" and svc: "svc = trim svc"
  shows "dbq_wf (deletion_begun svc n s)"
  by (rule dbq_wf_update [OF wf deletion_begun_tables(1,2)])
    (use n svc [symmetric] in \<open>auto simp: delete_cancel_op_def delete_cancel_dbo_def service_ops_def
      mirrors_def intro!: delete_cancel_wf [unfolded delete_cancel_op_def]\<close>)

lemma dbq_wf_begin_delete:
  assumes wf: "dbq_wf s"
  shows "dbq_wf (snd (BeginDatabaseServiceDeletion i now s))"
  using wf dbq_wf_deletion_asked [OF wf] dbq_wf_deletion_begun [OF wf]
  by (simp add: BeginDatabaseServiceDeletion_def Let_def split: sum.split)

text \<open>The transactions that insert a database operation.\<close>

lemma dbq_wf_queue:
  assumes wf: "dbq_wf s" and nid: "trim nid = nid" "nid \<noteq> []"
  shows "dbq_wf (snd (QueueDatabaseInstanceOperation i type actor nid now s))"
proof -
  have en: "dbq_wf s2" if "enqueue_database_operation (new_database_operation nid svc inst ty st act stamp) s1 = Inr s2"
    "operations s1 = operations s" "database_operations s1 = database_operations s"
    for s1 s2 svc inst ty st act stamp
    using dbq_wf_enqueue_operation [OF dbq_same [OF wf that(2,3)] fresh_new_operation [OF nid] that(1)] .
  show ?thesis
    using wf
    by (auto simp: QueueDatabaseInstanceOperation_def Let_def split: sum.split intro: en)
qed

text \<open>A database operation, a companion row, and then the queue row.\<close>

lemma dbq_wf_companion:
  assumes wf: "dbq_wf s" and nid: "trim nid = nid" "nid \<noteq> []"
    and q: "insertDatabaseOperationQueueRow nid s2 = Inr s3"
    and ins: "insert_database_operation (new_database_operation nid svc inst ty st act stamp) s = Inr s1"
    and s2: "operations s2 = operations s1" "database_operations s2 = database_operations s1"
  shows "dbq_wf s3"
proof -
  have id: "dbo_id (new_database_operation nid svc inst ty st act stamp) = nid"
    by (simp add: new_database_operation_def)
  show ?thesis
    by (rule dbq_wf_enqueue [OF wf fresh_new_operation [OF nid, of svc inst ty st act stamp]])
      (use insert_database_operation_ok [OF ins] s2 q id in auto)
qed

lemma dbq_wf_upgrade:
  assumes wf: "dbq_wf s" and nid: "trim nid = nid" "nid \<noteq> []"
  shows "dbq_wf (snd (QueueDatabaseUpgrade i ver img actor nid now s))"
  using wf
  by (auto simp: QueueDatabaseUpgrade_def Let_def split: sum.split elim: dbq_wf_companion [OF wf nid])

lemma dbq_wf_queue_backup:
  assumes wf: "dbq_wf s" and nid: "trim (ids 0) = ids 0" "ids 0 \<noteq> []"
  shows "dbq_wf (snd (QueueDatabaseBackup i dest trig actor days lim ids now s))"
proof -
  have tables: "operations s2 = operations s1 \<and> database_operations s2 = database_operations s1"
    if "insert_backup b s1 = Inr s2" for b s1 s2
    using that by (auto simp: insert_backup_def split: if_splits)
  show ?thesis
    using wf
    by (auto simp: QueueDatabaseBackup_def Let_def dest: tables split: sum.split prod.split
        elim: dbq_wf_companion [OF wf nid])
qed

lemma dbq_wf_queue_restore:
  assumes wf: "dbq_wf s" and nid: "trim nid = nid" "nid \<noteq> []"
  shows "dbq_wf (snd (QueueDatabaseRestore b targ safety mode actor lim nid now s))"
proof -
  have tables: "operations s2 = operations s1 \<and> database_operations s2 = database_operations s1"
    if "insert_restore_job j s1 = Inr s2" for j s1 s2
    using that by (auto simp: insert_restore_job_def split: if_splits)
  show ?thesis
    using wf
    by (auto simp: QueueDatabaseRestore_def Let_def dest: tables split: sum.split prod.split
        elim: dbq_wf_companion [OF wf nid])
qed

lemma dbq_wf_finalize:
  assumes wf: "dbq_wf s" and nid: "trim nid = nid" "nid \<noteq> []"
  shows "dbq_wf (snd (FinalizeDatabaseServiceDeletion i ret actor nid now s))"
proof -
  have fresh: "fresh_dbo ((new_database_operation nid svc None ty st act (rfc3339_nano now))
      \<lparr>dbo_status := ''success'', dbo_progress_percent := 100, dbo_started_at := rfc3339_nano now,
       dbo_completed_at := rfc3339_nano now\<rparr>)" for svc ty st act
    using nid by (simp add: fresh_dbo_def dbo_enqueueable_def new_database_operation_def terminal_status_def)
  have en: "dbq_wf s2" if "enqueue_database_operation d s1 = Inr s2" "fresh_dbo d"
    "operations s1 = operations s" "database_operations s1 = database_operations s" for d s1 s2
    using dbq_wf_enqueue_operation [OF dbq_same [OF wf that(3,4)] that(2,1)] .
  show ?thesis
    using wf
    by (auto simp: FinalizeDatabaseServiceDeletion_def Let_def split: sum.split intro: en fresh)
qed

text \<open>Ids as \<open>newID\<close> returns them: hex digits.\<close>

definition good_ids :: "(nat \<Rightarrow> string) \<Rightarrow> bool" where
  "good_ids ids \<longleftrightarrow> (\<forall>n. trim (ids n) = ids n \<and> ids n \<noteq> [])"

lemma dbq_wf_restore_instances:
  "restore_instances svc actor ids n now ds s = Inr (ops, s') \<Longrightarrow> dbq_wf s \<Longrightarrow> good_ids ids \<Longrightarrow> dbq_wf s'"
proof (induction svc actor ids n now ds s arbitrary: ops rule: restore_instances.induct)
  case (2 svc actor ids n now d ds s)
  let ?s1 = "s\<lparr>database_instances := sql_update (\<lambda>x. di_id x = di_id d)
    (\<lambda>x. x\<lparr>di_desired_state := ''running'', di_status := ''provisioning'', di_deleted_at := [],
           di_purge_after := [], di_updated_at := rfc3339 now\<rparr>) (database_instances s)\<rparr>"
  let ?op = "new_database_operation (ids n) svc (Some (di_id d)) ''restore_deleted'' ''volume_reserved''
    actor (rfc3339 now)"
  have ok: "\<not> (instance_live d \<or> purge_passed d now)"
    using 2(2) by (cases "instance_live d \<or> purge_passed d now") auto
  obtain s2 ops' where s2: "enqueue_database_operation ?op ?s1 = Inr s2"
    and rest: "restore_instances svc actor ids (Suc n) now ds s2 = Inr (ops', s')"
    using 2(2) ok by (auto simp: Let_def split: sum.splits prod.splits)
  have "dbq_wf ?s1" by (rule dbq_same [OF 2(3)]) simp_all
  then have "dbq_wf s2"
    using 2(4) by (intro dbq_wf_enqueue_operation [OF _ _ s2] fresh_new_operation) (auto simp: good_ids_def)
  then show ?case using 2(1) [OF ok refl refl s2 rest _ 2(4)] by simp
qed simp

lemma dbq_wf_restore:
  assumes "dbq_wf s" and "good_ids ids"
  shows "dbq_wf (snd (RestoreDeletedDatabaseService i actor ids now s))"
  using assms dbq_wf_restore_instances
  by (auto simp: RestoreDeletedDatabaseService_def Let_def split: sum.split)

text \<open>The writes of the catalogue half leave both tables alone.\<close>

lemma create_binding_tables:
  "create_binding nid app inst env stamp b s = Inr (row, s') \<Longrightarrow>
    operations s' = operations s \<and> database_operations s' = database_operations s"
  by (auto simp: create_binding_def insert_binding_def Let_def
      split: option.splits if_splits sum.splits)

lemma create_bindings_tables:
  "create_bindings ids app inst env stamp bs n s = Inr (rows, m, s') \<Longrightarrow>
    operations s' = operations s \<and> database_operations s' = database_operations s"
  by (induction ids app inst env stamp bs n s arbitrary: rows m s' rule: create_bindings.induct)
    (fastforce dest: create_binding_tables split: sum.splits prod.splits)+

text \<open>What one pass of the instance loop did.\<close>

lemma create_instance_Inr:
  assumes "create_instance ids app svc actor stamp seen c n s = Inr (inst, bs, op, m, s')"
  obtains s1 s2 s3 k where "insert_instance (new_instance_row (ids n) svc stamp c) s = Inr s1"
    "insert_credential (new_credential_row (ids n) stamp c) s1 = Inr s2"
    "create_bindings ids app (ids n) (trim (ii_environment_id c)) stamp (ii_bindings c) (Suc n) s2 = Inr (bs, k, s3)"
    "enqueue_database_operation op s3 = Inr s'" "m = Suc k"
    "op = new_database_operation (ids k) svc (Some (ids n)) ''provision'' ''reserved'' actor stamp"
    "inst = new_instance_row (ids n) svc stamp c"
    "trim (ii_environment_id c) \<notin> set seen" "instance_config_ok c"
  using assms
  by (auto simp: create_instance_def Let_def split: if_splits sum.splits prod.splits)

lemma insert_rows_tables:
  "insert_instance r s = Inr s' \<Longrightarrow> operations s' = operations s \<and> database_operations s' = database_operations s"
  "insert_credential c s = Inr s' \<Longrightarrow> operations s' = operations s \<and> database_operations s' = database_operations s"
  by (auto simp: insert_instance_def insert_credential_def split: if_splits)

lemma dbq_wf_create_instance:
  assumes "create_instance ids app svc actor stamp seen c n s = Inr (inst, bs, op, m, s')"
    and wf: "dbq_wf s" and ids: "good_ids ids"
  shows "dbq_wf s'"
proof (rule create_instance_Inr [OF assms(1)])
  fix s1 s2 s3 k
  assume i: "insert_instance (new_instance_row (ids n) svc stamp c) s = Inr s1"
    "insert_credential (new_credential_row (ids n) stamp c) s1 = Inr s2"
    "create_bindings ids app (ids n) (trim (ii_environment_id c)) stamp (ii_bindings c) (Suc n) s2 = Inr (bs, k, s3)"
    and en: "enqueue_database_operation op s3 = Inr s'"
    and op: "op = new_database_operation (ids k) svc (Some (ids n)) ''provision'' ''reserved'' actor stamp"
  have "dbq_wf s3"
    by (rule dbq_same [OF wf]) (use insert_rows_tables i create_bindings_tables in metis)+
  moreover have "fresh_dbo op" using ids by (simp add: op fresh_new_operation good_ids_def)
  ultimately show ?thesis by (rule dbq_wf_enqueue_operation [OF _ _ en])
qed

lemma dbq_wf_create_instances:
  "create_instances ids app svc actor stamp seen cs n s = Inr (insts, bs, ops, s') \<Longrightarrow> dbq_wf s \<Longrightarrow>
    good_ids ids \<Longrightarrow> dbq_wf s'"
  by (induction ids app svc actor stamp seen cs n s arbitrary: insts bs ops rule: create_instances.induct)
    (fastforce dest: dbq_wf_create_instance split: sum.splits prod.splits)+

lemma dbq_wf_create:
  assumes wf: "dbq_wf s" and ids: "good_ids ids"
  shows "dbq_wf (snd (CreateDatabaseService i ids now s))"
proof -
  have "dbq_wf s'" if "create_instances ids app svc actor stamp seen cs n (s\<lparr>services := vs,
      database_services := ds\<rparr>) = Inr (insts, bs, ops, s')" for app svc actor stamp seen cs n vs ds insts bs ops s'
    by (rule dbq_wf_create_instances [OF that dbq_same [OF wf] ids]) simp_all
  then show ?thesis
    using wf by (auto simp: CreateDatabaseService_def Let_def split: sum.split prod.split)
qed

lemma dbq_wf_purge:
  assumes wf: "dbq_wf s"
  shows "dbq_wf (snd (PurgeDatabaseServiceRecords i at s))"
proof -
  have "dbq_wf (cascade A D E s)" for A D E
  proof -
    have "operations (cascade A D E s) = operations s" by (simp add: cascade_def)
    moreover have "set (database_operations (cascade A D E s)) \<subseteq> set (database_operations s)"
      "distinct (map dbo_id (database_operations (cascade A D E s)))"
      using wf by (auto simp: cascade_def sql_delete_def dbq_wf_def distinct_map_filter)
    ultimately show ?thesis
      using wf queue_wf_cong [of "cascade A D E s" s] by (auto simp: dbq_wf_def projection_wf_def)
  qed
  then show ?thesis
    using wf by (simp add: PurgeDatabaseServiceRecords_def DeleteService_def Let_def split: option.split)
qed

lemma dbq_wf_quiet:
  assumes wf: "dbq_wf s"
  shows "dbq_wf (snd (UpdateDatabaseInstanceState i st now s))"
    and "dbq_wf (snd (CommitDatabaseInstanceUpgrade i prev targ ctr now s))"
    and "dbq_wf (snd (UpdateDatabaseUpgradeJobStatus i jst now s))"
    and "dbq_wf (snd (StageDatabaseCredentialRotation i ct now s))"
    and "dbq_wf (snd (CommitStagedDatabaseCredentialRotation i now s))"
    and "dbq_wf (snd (ClearStagedDatabaseCredentialRotation i now s))"
    and "dbq_wf (snd (CreateDatabaseBinding i con key rep nid now s))"
    and "dbq_wf (snd (UpdateDatabaseBinding i con key rep now s))"
    and "dbq_wf (snd (DeleteDatabaseBinding i s))"
  using wf
  by (auto simp: UpdateDatabaseInstanceState_def CommitDatabaseInstanceUpgrade_def
      UpdateDatabaseUpgradeJobStatus_def StageDatabaseCredentialRotation_def
      CommitStagedDatabaseCredentialRotation_def ClearStagedDatabaseCredentialRotation_def
      CreateDatabaseBinding_def UpdateDatabaseBinding_def DeleteDatabaseBinding_def insert_binding_def
      Let_def split: sum.split option.split prod.split if_splits intro: dbq_same)

text \<open>The backup code writes its own tables only, when it queues nothing.\<close>

lemma dbq_wf_backup_rows:
  assumes wf: "dbq_wf s"
  shows "dbq_wf (snd (MarkDatabaseBackupRunning i now s))"
    and "dbq_wf (snd (CompleteDatabaseBackup i cin now s))"
    and "dbq_wf (snd (PrepareDatabaseBackupDeletion i now s))"
    and "dbq_wf (snd (DeleteDatabaseBackupRecord i s))"
    and "dbq_wf (snd (UpdateDatabaseRestoreJobStatus i rst now s))"
  using wf
  by (auto simp: MarkDatabaseBackupRunning_def CompleteDatabaseBackup_def GetDatabaseBackup_def
      PrepareDatabaseBackupDeletion_def MarkDatabaseBackupDeleting_def DeleteDatabaseBackupRecord_def
      UpdateDatabaseRestoreJobStatus_def Let_def simp del: sql_exists_iff
      split: sum.split option.split prod.split if_splits intro: dbq_same)

section \<open>Interleavings with the queue\<close>

inductive database_tx :: "store \<Rightarrow> store \<Rightarrow> bool" where
  dtx_create: "good_ids ids \<Longrightarrow> database_tx s (snd (CreateDatabaseService i ids now s))"
| dtx_queue: "trim nid = nid \<Longrightarrow> nid \<noteq> [] \<Longrightarrow>
    database_tx s (snd (QueueDatabaseInstanceOperation inst type actor nid now s))"
| dtx_upgrade: "trim nid = nid \<Longrightarrow> nid \<noteq> [] \<Longrightarrow>
    database_tx s (snd (QueueDatabaseUpgrade inst ver img actor nid now s))"
| dtx_progress: "reportable s oid st \<Longrightarrow>
    database_tx s (snd (UpdateDatabaseOperation oid st step p code msg now s))"
| dtx_state: "database_tx s (snd (UpdateDatabaseInstanceState inst st now s))"
| dtx_commit: "database_tx s (snd (CommitDatabaseInstanceUpgrade inst prev targ ctr now s))"
| dtx_job: "database_tx s (snd (UpdateDatabaseUpgradeJobStatus oid jst now s))"
| dtx_stage: "database_tx s (snd (StageDatabaseCredentialRotation inst ct now s))"
| dtx_rotate: "database_tx s (snd (CommitStagedDatabaseCredentialRotation inst now s))"
| dtx_clear: "database_tx s (snd (ClearStagedDatabaseCredentialRotation inst now s))"
| dtx_bind: "database_tx s (snd (CreateDatabaseBinding inst con key rep nid now s))"
| dtx_rebind: "database_tx s (snd (UpdateDatabaseBinding i con key rep now s))"
| dtx_unbind: "database_tx s (snd (DeleteDatabaseBinding i s))"
| dtx_begin: "database_tx s (snd (BeginDatabaseServiceDeletion svc now s))"
| dtx_finalize: "trim nid = nid \<Longrightarrow> nid \<noteq> [] \<Longrightarrow>
    database_tx s (snd (FinalizeDatabaseServiceDeletion svc ret actor nid now s))"
| dtx_restore: "good_ids ids \<Longrightarrow> database_tx s (snd (RestoreDeletedDatabaseService svc actor ids now s))"
| dtx_purge: "database_tx s (snd (PurgeDatabaseServiceRecords svc at s))"
| dtx_backup: "trim (ids 0) = ids 0 \<Longrightarrow> ids 0 \<noteq> [] \<Longrightarrow>
    database_tx s (snd (QueueDatabaseBackup inst dest trig actor days lim ids now s))"
| dtx_restoring: "trim nid = nid \<Longrightarrow> nid \<noteq> [] \<Longrightarrow>
    database_tx s (snd (QueueDatabaseRestore bk targ safety mode actor lim nid now s))"
| dtx_backup_running: "database_tx s (snd (MarkDatabaseBackupRunning bk now s))"
| dtx_backup_done: "database_tx s (snd (CompleteDatabaseBackup bk cin now s))"
| dtx_backup_prepare: "database_tx s (snd (PrepareDatabaseBackupDeletion bk now s))"
| dtx_backup_delete: "database_tx s (snd (DeleteDatabaseBackupRecord bk s))"
| dtx_restore_job: "database_tx s (snd (UpdateDatabaseRestoreJobStatus oid rst now s))"

lemma database_tx_wf: "database_tx s s' \<Longrightarrow> dbq_wf s \<Longrightarrow> dbq_wf s'"
  by (induction rule: database_tx.induct)
    (simp_all add: dbq_wf_create dbq_wf_queue dbq_wf_upgrade dbq_wf_progress dbq_wf_quiet
      dbq_wf_begin_delete dbq_wf_finalize dbq_wf_restore dbq_wf_purge dbq_wf_queue_backup
      dbq_wf_queue_restore dbq_wf_backup_rows)

text \<open>The queue never changes the ids of the database operations.\<close>

lemma cancel_dbo_ids:
  assumes wf: "queue_wf s"
  shows "map dbo_id (database_operations (snd (RequestOperationCancellation i now s))) =
    map dbo_id (database_operations s)"
proof -
  consider r where "r \<in> set (operations s)" "cancel_now (trim i) r"
    | r where "r \<in> set (operations s)" "is_queued (trim i) r"
    | "\<not> (\<exists>r \<in> set (operations s). cancel_now (trim i) r)"
      "\<not> (\<exists>r \<in> set (operations s). is_queued (trim i) r)" by blast
  then show ?thesis
  proof cases
    case (2 r)
    show ?thesis
      by (rule cancel_queued [OF wf 2, of now])
        (simp add: cancelled_tables(2) cancel_dbo_set_def map_sql_update)
  qed (simp_all add: cancel_running [OF wf] cancel_nothing [OF wf])
qed

lemma claim_dbo_ids:
  assumes wf: "queue_wf s"
  shows "map dbo_id (database_operations (snd (ClaimNextOperation opts now s))) =
    map dbo_id (database_operations s)"
proof (cases "trim (co_Owner opts) = [] \<or> co_Lease opts < int ns_per_sec")
  case False
  then have ok: "trim (co_Owner opts) \<noteq> []" "int ns_per_sec \<le> co_Lease opts" by auto
  have "map dbo_id (database_operations (claimed_store opts now c s)) = map dbo_id (database_operations s)" for c
    unfolding claimed_store_tables(2) by (rule map_sql_update) (simp add: claim_dbo_set_def)
  then show ?thesis unfolding ClaimNextOperation_eq [OF wf ok] by (simp split: option.split)
qed (simp add: ClaimNextOperation_def Let_def)

lemma lease_dbo_ids:
  assumes wf: "queue_wf s"
  shows "map dbo_id (database_operations (snd (RenewOperationLease i ow l now s))) = map dbo_id (database_operations s)"
    and "map dbo_id (database_operations (snd (DeferOperation i ow d now s))) = map dbo_id (database_operations s)"
  using renew_dbs [OF wf] defer_dbs [OF wf] RenewOperationLease_lost [OF wf, of i ow]
    DeferOperation_lost [OF wf, of i ow]
  by (cases "lease_held s i ow"; force simp: lease_held_def map_sql_update)+

lemma complete_dbo_ids:
  assumes wf: "queue_wf s"
  shows "map dbo_id (database_operations (snd (CompleteOperation c now s))) = map dbo_id (database_operations s)"
proof (cases "terminal_status (ci_Status c)")
  case True
  then show ?thesis
    using complete_dbs [OF wf _ True] CompleteOperation_lost [OF wf _ True]
    by (cases "lease_held s (ci_ID c) (ci_Owner c)") (simp_all add: map_sql_update complete_dbo_set_def)
qed (simp add: CompleteOperation_def)

lemma recover_dbo_ids:
  "map dbo_id (database_operations (snd (RecoverOperations at s))) = map dbo_id (database_operations s)"
  by (simp add: RecoverOperations_eq Let_def sweepOrphanedDeploymentsTx_def requeue_running_dbs
      fail_exhausted_dbs map_sql_update fail_dbo_set_def requeue_dbo_set_def)

lemma enqueue_dbo_ids:
  "map dbo_id (database_operations (snd (EnqueueOperation i nid now s))) = map dbo_id (database_operations s)"
  by (auto simp: EnqueueOperation_def insertOperationTx_def GetOperation_def Let_def
      dest!: insert_operation_frame split: sum.split option.split if_splits)

lemma queue_tx_dbo_ids:
  "queue_tx s s' \<Longrightarrow> queue_wf s \<Longrightarrow> map dbo_id (database_operations s') = map dbo_id (database_operations s)"
  by (induction rule: queue_tx.induct)
    (simp_all add: enqueue_dbo_ids claim_dbo_ids lease_dbo_ids cancel_dbo_ids complete_dbo_ids
      recover_dbo_ids RequestServiceOperationCancellation_def Let_def)

lemma deployment_tx_dbos: "deployment_tx s s' \<Longrightarrow> database_operations s' = database_operations s"
  by (induction rule: deployment_tx.induct) simp_all

lemma queue_step_dbq: "queue_step s s' \<Longrightarrow> dbq_wf s \<Longrightarrow> dbq_wf s'"
  by (auto simp: dbq_wf_def deployment_tx_dbos elim!: queue_stepE
      dest: queue_wf_step [OF step_queue] queue_wf_step [OF step_deployment] queue_tx_dbo_ids
      projection_step [OF step_queue] projection_step [OF step_deployment])

end
