(* ===== verification/HF_Catalog_Props.thy ===== *)
theory HF_Catalog_Props
  imports HF_Catalog HF_Demo
begin

text \<open>
  What holds of the catalogue: no reference dangles and every application service keeps exactly
  one row per environment, whatever is created or deleted; the environment variables a service
  sees are its own over the shared ones; and no scope holds more variables than the limit.
\<close>

section \<open>References\<close>

text \<open>
  \<open>refers f t ids\<close>: the column \<open>f\<close> of every row of \<open>t\<close> names one of \<open>ids\<close>; \<open>refers_opt\<close> is the
  nullable column.
\<close>

definition refers :: "('r \<Rightarrow> string) \<Rightarrow> 'r list \<Rightarrow> string set \<Rightarrow> bool" where
  "refers f t ids \<longleftrightarrow> (\<forall>r \<in> set t. f r \<in> ids)"

definition refers_opt :: "('r \<Rightarrow> string option) \<Rightarrow> 'r list \<Rightarrow> string set \<Rightarrow> bool" where
  "refers_opt f t ids \<longleftrightarrow> (\<forall>r \<in> set t. \<forall>x. f r = Some x \<longrightarrow> x \<in> ids)"

abbreviation ids_of :: "('r \<Rightarrow> string) \<Rightarrow> 'r list \<Rightarrow> string set" where
  "ids_of f t \<equiv> f ` set t"

definition references_ok :: "store \<Rightarrow> bool" where
  "references_ok s \<longleftrightarrow>
     refers svc_application_id (services s) (ids_of app_id (applications s)) \<and>
     refers env_application_id (environments s) (ids_of app_id (applications s)) \<and>
     refers se_service_id (service_environments s) (ids_of svc_id (services s)) \<and>
     refers se_environment_id (service_environments s) (ids_of env_id (environments s)) \<and>
     refers dep_service_id (deployments s) (ids_of svc_id (services s)) \<and>
     refers dep_environment_id (deployments s) (ids_of env_id (environments s)) \<and>
     refers ct_deployment_id (containers s) (ids_of dep_id (deployments s)) \<and>
     refers ev_application_id (environment_variables s) (ids_of app_id (applications s)) \<and>
     refers ev_environment_id (environment_variables s) (ids_of env_id (environments s)) \<and>
     refers_opt ev_service_id (environment_variables s) (ids_of svc_id (services s)) \<and>
     refers dm_application_id (domains s) (ids_of app_id (applications s)) \<and>
     refers dm_environment_id (domains s) (ids_of env_id (environments s)) \<and>
     refers dm_service_id (domains s) (ids_of svc_id (services s)) \<and>
     refers ds_service_id (database_services s) (ids_of svc_id (services s)) \<and>
     refers di_service_id (database_instances s) (ids_of svc_id (services s)) \<and>
     refers di_environment_id (database_instances s) (ids_of env_id (environments s)) \<and>
     refers dc_database_instance_id (database_credentials s) (ids_of di_id (database_instances s)) \<and>
     refers bd_database_instance_id (database_bindings s) (ids_of di_id (database_instances s)) \<and>
     refers bd_environment_id (database_bindings s) (ids_of env_id (environments s)) \<and>
     refers bd_consumer_service_id (database_bindings s) (ids_of svc_id (services s)) \<and>
     refers dbo_service_id (database_operations s) (ids_of svc_id (services s)) \<and>
     refers_opt dbo_database_instance_id (database_operations s) (ids_of di_id (database_instances s)) \<and>
     refers_opt bk_operation_id (database_backups s) (ids_of dbo_id (database_operations s)) \<and>
     refers_opt bk_database_instance_id (database_backups s) (ids_of di_id (database_instances s)) \<and>
     refers rj_operation_id (database_restore_jobs s) (ids_of dbo_id (database_operations s)) \<and>
     refers uj_operation_id (database_upgrade_jobs s) (ids_of dbo_id (database_operations s)) \<and>
     refers gwr_database_instance_id (gateway_routes s) (ids_of di_id (database_instances s)) \<and>
     refers xc_route_id (external_connections s) (ids_of gwr_id (gateway_routes s)) \<and>
     refers xk_connection_id (external_credentials s) (ids_of xc_id (external_connections s)) \<and>
     refers xr_connection_id (connection_cidrs s) (ids_of xc_id (external_connections s)) \<and>
     refers_opt gwo_route_id (gateway_operations s) (ids_of gwr_id (gateway_routes s)) \<and>
     refers_opt gwo_connection_id (gateway_operations s) (ids_of xc_id (external_connections s)) \<and>
     refers_opt gwo_credential_id (gateway_operations s) (ids_of xk_id (external_credentials s))"

text \<open>
  One foreign key under a cascade: the rows of the referenced table that satisfy \<open>p\<close> go, and every
  row that references one of them goes too (or, for a nullable key, loses the reference).
\<close>

lemma refers_delete:
  assumes "refers f t (ids_of g u)" and "\<forall>x \<in> set u. p x \<longrightarrow> g x \<in> set gone"
    and "\<And>r. r \<in> set t \<Longrightarrow> f r \<in> set gone \<Longrightarrow> q r"
  shows "refers f (sql_delete q t) (ids_of g (sql_delete p u))"
  using assms by (fastforce simp: refers_def sql_delete_def)

lemma refers_opt_delete:
  assumes "refers_opt f t (ids_of g u)" and "\<forall>x \<in> set u. p x \<longrightarrow> g x \<in> set gone"
    and "\<And>r. r \<in> set t \<Longrightarrow> opt_in gone (f r) \<Longrightarrow> q r"
  shows "refers_opt f (sql_delete q t) (ids_of g (sql_delete p u))"
  using assms by (fastforce simp: refers_opt_def sql_delete_def opt_in_def)

lemma refers_opt_null:
  assumes "refers_opt f t (ids_of g u)" and "\<forall>x \<in> set u. p x \<longrightarrow> g x \<in> set gone"
    and "\<And>r. f' (h r) = null_in gone (f r)"
  shows "refers_opt f' (map h t) (ids_of g (sql_delete p u))"
  using assms
  by (fastforce simp: refers_opt_def sql_delete_def null_in_def split: option.splits if_splits)

lemmas refers_cascade = refers_delete refers_opt_delete refers_opt_null

text \<open>The rows a cascade deletes are among the ids that go.\<close>

lemma gone_deployments: "\<forall>d \<in> set (deployments s). dep_service_id d \<in> set D \<or> dep_environment_id d \<in> set E \<longrightarrow>
    dep_id d \<in> set (gone_deployments D E s)"
  by (simp add: gone_deployments_def)

lemma gone_instances: "\<forall>i \<in> set (database_instances s). di_service_id i \<in> set D \<or> di_environment_id i \<in> set E \<longrightarrow>
    di_id i \<in> set (gone_instances D E s)"
  by (simp add: gone_instances_def)

lemma gone_operations: "\<forall>x \<in> set (database_operations s). dbo_service_id x \<in> set D \<or>
    opt_in (gone_instances D E s) (dbo_database_instance_id x) \<longrightarrow> dbo_id x \<in> set (gone_operations D E s)"
  by (simp add: gone_operations_def)

lemma gone_routes: "\<forall>r \<in> set (gateway_routes s). gwr_database_instance_id r \<in> set (gone_instances D E s) \<longrightarrow>
    gwr_id r \<in> set (gone_routes D E s)"
  by (simp add: gone_routes_def)

lemma gone_connections: "\<forall>c \<in> set (external_connections s). xc_route_id c \<in> set (gone_routes D E s) \<longrightarrow>
    xc_id c \<in> set (gone_connections D E s)"
  by (simp add: gone_connections_def)

lemma gone_credentials: "\<forall>k \<in> set (external_credentials s). xk_connection_id k \<in> set (gone_connections D E s) \<longrightarrow>
    xk_id k \<in> set (gone_credentials D E s)"
  by (simp add: gone_credentials_def)

lemma gone_self: "\<forall>x \<in> set u. g x \<in> set X \<longrightarrow> g x \<in> set X"
  by simp

lemmas gone_rows = gone_deployments gone_instances gone_operations gone_routes gone_connections
  gone_credentials

lemma cascade_tables:
  "applications (cascade A D E s) = sql_delete (\<lambda>a. app_id a \<in> set A) (applications s)"
  "services (cascade A D E s) = sql_delete (\<lambda>v. svc_id v \<in> set D) (services s)"
  "environments (cascade A D E s) = sql_delete (\<lambda>e. env_id e \<in> set E) (environments s)"
  "service_environments (cascade A D E s) = sql_delete (\<lambda>b. se_service_id b \<in> set D \<or> se_environment_id b \<in> set E) (service_environments s)"
  "deployments (cascade A D E s) = sql_delete (\<lambda>d. dep_service_id d \<in> set D \<or> dep_environment_id d \<in> set E) (deployments s)"
  "domains (cascade A D E s) = sql_delete (\<lambda>m. dm_application_id m \<in> set A \<or> dm_environment_id m \<in> set E \<or> dm_service_id m \<in> set D) (domains s)"
  "containers (cascade A D E s) = sql_delete (\<lambda>c. ct_deployment_id c \<in> set (gone_deployments D E s)) (containers s)"
  "environment_variables (cascade A D E s) = sql_delete (\<lambda>v. ev_application_id v \<in> set A \<or> ev_environment_id v \<in> set E \<or> opt_in D (ev_service_id v)) (environment_variables s)"
  "database_services (cascade A D E s) = sql_delete (\<lambda>x. ds_service_id x \<in> set D) (database_services s)"
  "database_instances (cascade A D E s) = sql_delete (\<lambda>i. di_service_id i \<in> set D \<or> di_environment_id i \<in> set E) (database_instances s)"
  "database_credentials (cascade A D E s) = sql_delete (\<lambda>c. dc_database_instance_id c \<in> set (gone_instances D E s)) (database_credentials s)"
  "database_bindings (cascade A D E s) = sql_delete (\<lambda>b. bd_database_instance_id b \<in> set (gone_instances D E s) \<or> bd_environment_id b \<in> set E \<or> bd_consumer_service_id b \<in> set D) (database_bindings s)"
  "database_operations (cascade A D E s) = sql_delete (\<lambda>x. dbo_service_id x \<in> set D \<or> opt_in (gone_instances D E s) (dbo_database_instance_id x)) (database_operations s)"
  "database_backups (cascade A D E s) = map (\<lambda>b. b\<lparr>bk_operation_id := null_in (gone_operations D E s) (bk_operation_id b), bk_database_instance_id := null_in (gone_instances D E s) (bk_database_instance_id b)\<rparr>) (database_backups s)"
  "database_restore_jobs (cascade A D E s) = sql_delete (\<lambda>j. rj_operation_id j \<in> set (gone_operations D E s) \<or> rj_target_instance_id j \<in> set (gone_instances D E s)) (database_restore_jobs s)"
  "database_upgrade_jobs (cascade A D E s) = sql_delete (\<lambda>j. uj_operation_id j \<in> set (gone_operations D E s) \<or> uj_database_instance_id j \<in> set (gone_instances D E s)) (database_upgrade_jobs s)"
  "gateway_routes (cascade A D E s) = sql_delete (\<lambda>r. gwr_database_instance_id r \<in> set (gone_instances D E s)) (gateway_routes s)"
  "external_connections (cascade A D E s) = sql_delete (\<lambda>c. xc_route_id c \<in> set (gone_routes D E s)) (external_connections s)"
  "external_credentials (cascade A D E s) = sql_delete (\<lambda>k. xk_connection_id k \<in> set (gone_connections D E s)) (external_credentials s)"
  "connection_cidrs (cascade A D E s) = sql_delete (\<lambda>c. xr_connection_id c \<in> set (gone_connections D E s)) (connection_cidrs s)"
  "gateway_operations (cascade A D E s) = map (\<lambda>x. x\<lparr>gwo_route_id := null_in (gone_routes D E s) (gwo_route_id x), gwo_connection_id := null_in (gone_connections D E s) (gwo_connection_id x), gwo_credential_id := null_in (gone_credentials D E s) (gwo_credential_id x)\<rparr>) (gateway_operations s)"
  by (simp_all add: cascade_def)

lemma cascade_references:
  assumes ok: "references_ok s"
    and A: "\<forall>v \<in> set (services s). svc_application_id v \<in> set A \<longrightarrow> svc_id v \<in> set D"
    and E: "\<forall>e \<in> set (environments s). env_application_id e \<in> set A \<longrightarrow> env_id e \<in> set E"
  shows "references_ok (cascade A D E s)"
proof -
  note ok' = ok [unfolded references_ok_def]
  show ?thesis
    unfolding references_ok_def cascade_tables
    by (insert ok', elim conjE, intro conjI)
      (rule refers_cascade, assumption, rule gone_rows gone_self, simp add: A E)+
qed

section \<open>The catalogue invariant\<close>

text \<open>Every application service has exactly one row per environment of its application.\<close>

definition pair_count :: "store \<Rightarrow> string \<Rightarrow> string \<Rightarrow> nat" where
  "pair_count s v e =
     sql_count (\<lambda>b. se_service_id b = v \<and> se_environment_id b = e) (service_environments s)"

definition paired :: "store \<Rightarrow> bool" where
  "paired s \<longleftrightarrow>
     (\<forall>v \<in> set (services s). \<forall>e \<in> set (environments s).
        svc_service_type v = ''application'' \<and> env_application_id e = svc_application_id v \<longrightarrow>
        pair_count s (svc_id v) (env_id e) = 1)"

definition catalog_wf :: "store \<Rightarrow> bool" where
  "catalog_wf s \<longleftrightarrow>
     references_ok s \<and> distinct (map app_id (applications s)) \<and>
     distinct (map svc_id (services s)) \<and> distinct (map env_id (environments s)) \<and> paired s"

text \<open>The transactions that write the catalogue.\<close>

inductive catalog_step :: "store \<Rightarrow> store \<Rightarrow> bool" where
  cat_new_app: "catalog_step s (snd (CreateApplication name descr a p g now s))"
| cat_set_app: "catalog_step s (snd (UpdateApplication i name descr arch now s))"
| cat_del_app: "catalog_step s (snd (DeleteApplication i s))"
| cat_new_svc: "catalog_step s (snd (CreateService csi i now s))"
| cat_set_svc: "catalog_step s (snd (UpdateService i csi now s))"
| cat_del_svc: "catalog_step s (snd (DeleteService i s))"
| cat_new_env: "catalog_step s (snd (CreateEnvironment a name slug kind i now s))"
| cat_set_env: "catalog_step s (snd (UpdateEnvironment i name now s))"
| cat_set_pair: "catalog_step s (snd (UpdateServiceEnvironment v e br auto now s))"
| cat_put_var: "catalog_step s (snd (UpsertEnvironmentVariable a e v k ct l4 i now s))"
| cat_set_var: "catalog_step s (snd (UpdateEnvironmentVariableValue a e i ct l4 now s))"
| cat_del_var: "catalog_step s (snd (DeleteEnvironmentVariable a e i s))"

inductive_cases catalog_stepE: "catalog_step s s'"

text \<open>Appending rows, growing a key set and changing other columns.\<close>

lemma refers_append: "refers f (t @ u) ids \<longleftrightarrow> refers f t ids \<and> refers f u ids"
  by (auto simp: refers_def)

lemma refers_mono: "refers f t ids \<Longrightarrow> ids \<subseteq> ids' \<Longrightarrow> refers f t ids'"
  by (auto simp: refers_def)

lemma refers_opt_mono: "refers_opt f t ids \<Longrightarrow> ids \<subseteq> ids' \<Longrightarrow> refers_opt f t ids'"
  by (auto simp: refers_opt_def)

lemma ids_append: "ids_of f t \<subseteq> ids_of f (t @ u)"
  by auto

lemma refers_update: "(\<And>r. f (g r) = f r) \<Longrightarrow> refers f (sql_update p g t) ids = refers f t ids"
  by (induction t) (auto simp: refers_def sql_update_def)

lemma refers_opt_update:
  "(\<And>r. f (g r) = f r) \<Longrightarrow> refers_opt f (sql_update p g t) ids = refers_opt f t ids"
  by (induction t) (auto simp: refers_opt_def sql_update_def)

lemma ids_update: "(\<And>r. f (g r) = f r) \<Longrightarrow> ids_of f (sql_update p g t) = ids_of f t"
  by (induction t) (auto simp: sql_update_def)

lemma refers_filter: "refers f t ids \<Longrightarrow> refers f (sql_delete p t) ids"
  by (auto simp: refers_def sql_delete_def)

lemma refers_opt_filter: "refers_opt f t ids \<Longrightarrow> refers_opt f (sql_delete p t) ids"
  by (auto simp: refers_opt_def sql_delete_def)

lemmas refers_simps = refers_append refers_update refers_opt_update ids_update
lemmas refers_grow = refers_mono [OF _ ids_append] refers_opt_mono [OF _ ids_append]

text \<open>Deletion keeps the invariant.\<close>

lemma distinct_map_filter_key: "distinct (map f t) \<Longrightarrow> distinct (map f (sql_delete p t))"
  by (simp add: sql_delete_def distinct_map_filter)

lemma cascade_paired:
  assumes "paired s"
  shows "paired (cascade A D E s)"
proof -
  have "pair_count (cascade A D E s) v e = pair_count s v e" if "v \<notin> set D" "e \<notin> set E" for v e
    using that unfolding pair_count_def sql_count_def cascade_tables sql_delete_def filter_filter
    by (intro arg_cong [where f = length] filter_cong) auto
  then show ?thesis
    using assms unfolding paired_def cascade_tables sql_delete_def by simp
qed

lemma cascade_wf:
  assumes "catalog_wf s"
    and "\<forall>v \<in> set (services s). svc_application_id v \<in> set A \<longrightarrow> svc_id v \<in> set D"
    and "\<forall>e \<in> set (environments s). env_application_id e \<in> set A \<longrightarrow> env_id e \<in> set E"
  shows "catalog_wf (cascade A D E s)"
  using assms cascade_references [of s A D E] cascade_paired [of s A D E]
  by (simp add: catalog_wf_def cascade_tables distinct_map_filter_key)

lemma wf_delete_application: "catalog_wf s \<Longrightarrow> catalog_wf (snd (DeleteApplication i s))"
  by (auto simp: DeleteApplication_def intro!: cascade_wf)

lemma wf_delete_service: "catalog_wf s \<Longrightarrow> catalog_wf (snd (DeleteService i s))"
  by (auto simp: DeleteService_def intro!: cascade_wf)

text \<open>So do the updates: they change no key and no reference.\<close>

lemma sql_count_update_same:
  "(\<And>r. q (g r) = q r) \<Longrightarrow> sql_count q (sql_update p g t) = sql_count q t"
  by (induction t) (auto simp: sql_count_def sql_update_def)

lemma ball_sql_update:
  "(\<And>r. P (g r) = P r) \<Longrightarrow> (\<forall>r \<in> set (sql_update p g t). P r) = (\<forall>r \<in> set t. P r)"
  by (induction t) (auto simp: sql_update_def)

lemma catalog_wf_set_applications:
  "(\<And>r. app_id (g r) = app_id r) \<Longrightarrow> catalog_wf s \<Longrightarrow>
    catalog_wf (s\<lparr>applications := sql_update p g (applications s)\<rparr>)"
  by (simp add: catalog_wf_def references_ok_def refers_simps map_sql_update paired_def pair_count_def)

lemma catalog_wf_set_services:
  "(\<And>r. svc_id (g r) = svc_id r \<and> svc_application_id (g r) = svc_application_id r \<and>
      svc_service_type (g r) = svc_service_type r) \<Longrightarrow> catalog_wf s \<Longrightarrow>
    catalog_wf (s\<lparr>services := sql_update p g (services s)\<rparr>)"
  by (simp add: catalog_wf_def references_ok_def refers_simps map_sql_update paired_def pair_count_def
      ball_sql_update)

lemma catalog_wf_set_environments:
  "(\<And>r. env_id (g r) = env_id r \<and> env_application_id (g r) = env_application_id r) \<Longrightarrow> catalog_wf s \<Longrightarrow>
    catalog_wf (s\<lparr>environments := sql_update p g (environments s)\<rparr>)"
  by (simp add: catalog_wf_def references_ok_def refers_simps map_sql_update paired_def pair_count_def
      ball_sql_update)

lemma catalog_wf_set_pairs:
  "(\<And>r. se_service_id (g r) = se_service_id r \<and> se_environment_id (g r) = se_environment_id r) \<Longrightarrow>
    catalog_wf s \<Longrightarrow> catalog_wf (s\<lparr>service_environments := sql_update p g (service_environments s)\<rparr>)"
  by (simp add: catalog_wf_def references_ok_def refers_simps paired_def pair_count_def
      sql_count_update_same)

lemma catalog_wf_variables:
  assumes "catalog_wf s"
    and "\<forall>v \<in> set vs. ev_application_id v \<in> ids_of app_id (applications s) \<and>
      ev_environment_id v \<in> ids_of env_id (environments s) \<and>
      (\<forall>i. ev_service_id v = Some i \<longrightarrow> i \<in> ids_of svc_id (services s))"
  shows "catalog_wf (s\<lparr>environment_variables := vs\<rparr>)"
  using assms
  by (simp add: catalog_wf_def references_ok_def paired_def pair_count_def refers_def [of _ vs]
      refers_opt_def [of _ vs])

text \<open>The variables of a well formed store have the references \<open>catalog_wf_variables\<close> asks for.\<close>

lemma catalog_wf_old_variables:
  "catalog_wf s \<Longrightarrow> \<forall>v \<in> set (environment_variables s).
     ev_application_id v \<in> ids_of app_id (applications s) \<and>
     ev_environment_id v \<in> ids_of env_id (environments s) \<and>
     (\<forall>i. ev_service_id v = Some i \<longrightarrow> i \<in> ids_of svc_id (services s))"
  by (simp add: catalog_wf_def references_ok_def refers_def refers_opt_def)

lemma catalog_wf_set_variables:
  assumes "catalog_wf s" and "\<And>v. ev_application_id (g v) = ev_application_id v \<and>
    ev_environment_id (g v) = ev_environment_id v \<and> ev_service_id (g v) = ev_service_id v"
  shows "catalog_wf (s\<lparr>environment_variables := sql_update p g (environment_variables s)\<rparr>)"
    and "catalog_wf (s\<lparr>environment_variables := sql_delete p (environment_variables s)\<rparr>)"
  using assms(2) catalog_wf_old_variables [OF assms(1)]
  by (auto intro!: catalog_wf_variables [OF assms(1)] elim!: sql_update_in simp: sql_delete_def
      simp del: image_iff)

lemma GetX_snd [simp]:
  "snd (GetApplication i s) = s" "snd (GetService i s) = s" "snd (GetEnvironment i s) = s"
  "snd (GetServiceEnvironment v e s) = s" "snd (GetEnvironmentVariableMeta a e i s) = s"
  by (simp_all add: GetApplication_def GetService_def GetEnvironment_def GetServiceEnvironment_def
      GetEnvironmentVariableMeta_def split: option.split)

lemma catalog_wf_updates:
  assumes wf: "catalog_wf s"
  shows "catalog_wf (snd (UpdateApplication i name descr arch now s))"
    and "catalog_wf (snd (UpdateService i csi now s))"
    and "catalog_wf (snd (UpdateEnvironment i name now s))"
    and "catalog_wf (snd (UpdateServiceEnvironment v e br auto now s))"
    and "catalog_wf (snd (UpdateEnvironmentVariableValue a e i ct l4 now s))"
    and "catalog_wf (snd (DeleteEnvironmentVariable a e i s))"
  using wf
  by (simp_all add: UpdateApplication_def UpdateService_def UpdateEnvironment_def
      UpdateServiceEnvironment_def UpdateEnvironmentVariableValue_def DeleteEnvironmentVariable_def
      Let_def catalog_wf_set_applications catalog_wf_set_services catalog_wf_set_environments
      catalog_wf_set_pairs catalog_wf_set_variables split: option.split)

text \<open>Creation: fresh ids, and a row for every new pair of a service and an environment.\<close>

lemma sql_count_append: "sql_count p (t @ u) = sql_count p t + sql_count p u"
  by (simp add: sql_count_def)

lemma catalog_wf_pair_ids:
  assumes "catalog_wf s" and "b \<in> set (service_environments s)"
  shows "se_service_id b \<in> ids_of svc_id (services s)"
    and "se_environment_id b \<in> ids_of env_id (environments s)"
  using assms by (simp_all add: catalog_wf_def references_ok_def refers_def)

lemma catalog_wf_app_ids:
  assumes "catalog_wf s"
  shows "v \<in> set (services s) \<Longrightarrow> svc_application_id v \<in> ids_of app_id (applications s)"
    and "e \<in> set (environments s) \<Longrightarrow> env_application_id e \<in> ids_of app_id (applications s)"
  using assms by (simp_all add: catalog_wf_def references_ok_def refers_def)

lemma no_old_pairs:
  assumes "catalog_wf s" and "v \<notin> ids_of svc_id (services s) \<or> e \<notin> ids_of env_id (environments s)"
  shows "pair_count s v e = 0"
  unfolding pair_count_def sql_count_eq_0 using catalog_wf_pair_ids [OF assms(1)] assms(2) by blast

lemma references_add:
  assumes "references_ok s"
  shows "references_ok (s\<lparr>applications := applications s @ as\<rparr>)"
    and "refers env_application_id es (ids_of app_id (applications s)) \<Longrightarrow>
      references_ok (s\<lparr>environments := environments s @ es\<rparr>)"
    and "refers svc_application_id vs (ids_of app_id (applications s)) \<Longrightarrow>
      references_ok (s\<lparr>services := services s @ vs\<rparr>)"
    and "refers se_service_id bs (ids_of svc_id (services s)) \<Longrightarrow>
      refers se_environment_id bs (ids_of env_id (environments s)) \<Longrightarrow>
      references_ok (s\<lparr>service_environments := service_environments s @ bs\<rparr>)"
  using assms
  by (simp_all add: references_ok_def refers_append refers_grow del: set_append image_Un)

lemma references_add_application:
  assumes "references_ok s" and "\<forall>e \<in> set es. env_application_id e \<in> insert (app_id a) (ids_of app_id (applications s))"
  shows "references_ok (s\<lparr>applications := applications s @ [a], environments := environments s @ es\<rparr>)"
  using references_add(2) [OF references_add(1) [OF assms(1), of "[a]"], of es] assms(2)
  by (simp add: refers_def)

lemma references_add_service:
  assumes "references_ok s" and "svc_application_id v \<in> ids_of app_id (applications s)"
    and "\<forall>b \<in> set bs. se_service_id b = svc_id v \<and> se_environment_id b \<in> ids_of env_id (environments s)"
  shows "references_ok (s\<lparr>services := services s @ [v], service_environments := service_environments s @ bs\<rparr>)"
  using references_add(4) [OF references_add(3) [OF assms(1), of "[v]"], of bs] assms(2,3)
  by (simp add: refers_def)

lemma references_add_environment:
  assumes "references_ok s" and "env_application_id e \<in> ids_of app_id (applications s)"
    and "\<forall>b \<in> set bs. se_environment_id b = env_id e \<and> se_service_id b \<in> ids_of svc_id (services s)"
  shows "references_ok (s\<lparr>environments := environments s @ [e], service_environments := service_environments s @ bs\<rparr>)"
  using references_add(4) [OF references_add(2) [OF assms(1), of "[e]"], of bs] assms(2,3)
  by (simp add: refers_def)

lemma wf_create_application:
  assumes wf: "catalog_wf s"
  shows "catalog_wf (snd (CreateApplication name descr a p g now s))"
proof (cases "trim name = [] \<or> a \<in> ids_of app_id (applications s) \<or> p \<in> ids_of env_id (environments s) \<or>
    g \<in> ids_of env_id (environments s) \<or> p = g")
  case True
  then show ?thesis using wf by (auto simp: CreateApplication_def Let_def)
next
  case False
  let ?s' = "snd (CreateApplication name descr a p g now s)"
  let ?env = "\<lambda>i n g. \<lparr> env_id = i, env_application_id = a, env_name = n, env_slug = g, env_kind = g,
    env_created_at = rfc3339 now, env_updated_at = rfc3339 now \<rparr>"
  have s': "?s' = s\<lparr>applications := applications s @ [\<lparr> app_id = a, app_name = trim name,
      app_description = trim descr, app_archived = False, app_created_at = rfc3339 now,
      app_updated_at = rfc3339 now \<rparr>], environments := environments s @
      [?env p ''Production'' ''production'', ?env g ''Staging'' ''staging'']\<rparr>"
    using False by (auto simp: CreateApplication_def Let_def)
  have "references_ok ?s'"
    unfolding s' by (rule references_add_application) (use wf in \<open>simp_all add: catalog_wf_def\<close>)
  moreover have "paired ?s'"
    using wf False catalog_wf_app_ids(1) [OF wf]
    by (auto simp: s' paired_def pair_count_def catalog_wf_def)
  ultimately show ?thesis
    using wf False by (simp add: catalog_wf_def s')
qed

lemma new_service_row_sel [simp]:
  "svc_id (new_service_row csi i now) = i"
  "svc_application_id (new_service_row csi i now) = trim (csi_application_id csi)"
  "svc_service_type (new_service_row csi i now) = ''application''"
  by (simp_all add: new_service_row_def)

lemma service_environment_of_sel [simp]:
  "se_service_id (service_environment_of csi i st e) = i"
  "se_environment_id (service_environment_of csi i st e) = e"
  by (simp_all add: service_environment_of_def Let_def)

lemma CreateService_cases:
  obtains e where "CreateService csi i now s = (Inl e, s)"
  | "CreateService csi i now s = (Inr (new_service_row csi i now),
      s\<lparr>services := services s @ [new_service_row csi i now],
        service_environments := service_environments s @ map (service_environment_of csi i (rfc3339 now))
          (map env_id (ListApplicationEnvironments (trim (csi_application_id csi)) s))\<rparr>)"
    "trim (csi_application_id csi) \<in> ids_of app_id (applications s)"
    "i \<notin> ids_of svc_id (services s)"
proof (cases "fst (CreateService csi i now s)")
  case (Inl e)
  then have "CreateService csi i now s = (Inl e, s)"
    by (auto simp: CreateService_def Let_def simp del: sql_exists_iff split: if_splits)
  then show ?thesis by (rule that(1))
next
  case (Inr item)
  then have "app_exists (csi_application_id csi) s" "\<not> sql_exists (\<lambda>v. svc_id v = i) (services s)"
    by (simp_all add: CreateService_def Let_def del: sql_exists_iff split: if_splits)
  moreover have "CreateService csi i now s = (Inr (new_service_row csi i now),
      s\<lparr>services := services s @ [new_service_row csi i now],
        service_environments := service_environments s @ map (service_environment_of csi i (rfc3339 now))
          (map env_id (ListApplicationEnvironments (trim (csi_application_id csi)) s))\<rparr>)"
    using Inr by (simp add: CreateService_def Let_def del: sql_exists_iff map_map split: if_splits)
  ultimately show ?thesis
    using that(2) by (force simp: app_exists_def)
qed

lemma application_environments:
  "set (ListApplicationEnvironments a s) = {e \<in> set (environments s). env_application_id e = trim a}"
  "distinct (map env_id (environments s)) \<Longrightarrow>
    distinct (map env_id (ListApplicationEnvironments a s))"
  by (auto simp: ListApplicationEnvironments_def sql_order_def distinct_map inj_on_def)

lemma wf_create_service:
  assumes wf: "catalog_wf s"
  shows "catalog_wf (snd (CreateService csi i now s))"
proof (cases rule: CreateService_cases [of csi i now s])
  case 2
  let ?app = "trim (csi_application_id csi)" and ?item = "new_service_row csi i now"
  let ?envs = "ListApplicationEnvironments ?app s"
  let ?new = "map (service_environment_of csi i (rfc3339 now)) (map env_id ?envs)"
  let ?s' = "s\<lparr>services := services s @ [?item], service_environments := service_environments s @ ?new\<rparr>"
  have "references_ok ?s'"
    using wf 2(2) by (intro references_add_service) (auto simp: catalog_wf_def application_environments)
  moreover have "paired ?s'"
    unfolding paired_def
  proof (intro ballI impI)
    fix v e assume v: "v \<in> set (services ?s')" and e: "e \<in> set (environments ?s')"
      and app: "svc_service_type v = ''application'' \<and> env_application_id e = svc_application_id v"
    have split: "pair_count ?s' (svc_id v) (env_id e) = pair_count s (svc_id v) (env_id e) +
        sql_count (\<lambda>b. se_service_id b = svc_id v \<and> se_environment_id b = env_id e) ?new"
      by (simp add: pair_count_def sql_count_append)
    show "pair_count ?s' (svc_id v) (env_id e) = 1"
    proof (cases "v = ?item")
      case True
      have keys: "distinct (map se_environment_id ?new)"
        using application_environments(2) wf by (simp add: catalog_wf_def o_def)
      have "\<exists>b \<in> set ?new. se_service_id b = svc_id v \<and> se_environment_id b = env_id e"
        using True e app by (auto simp: application_environments)
      then have "sql_count (\<lambda>b. se_service_id b = svc_id v \<and> se_environment_id b = env_id e) ?new = 1"
        using sql_count_key_1 [OF keys, of "\<lambda>b. se_service_id b = svc_id v \<and> se_environment_id b = env_id e"]
        by blast
      then show ?thesis unfolding split using no_old_pairs [OF wf, of i] 2(3) True by simp
    next
      case False
      then have "v \<in> set (services s)" using v by simp
      then have "svc_id v \<noteq> i" "pair_count s (svc_id v) (env_id e) = 1"
        using 2(3) wf e app by (auto simp: catalog_wf_def paired_def)
      moreover from this(1) have
        "sql_count (\<lambda>b. se_service_id b = svc_id v \<and> se_environment_id b = env_id e) ?new = 0"
        by (auto simp: sql_count_eq_0)
      ultimately show ?thesis unfolding split by simp
    qed
  qed
  ultimately show ?thesis
    using wf 2 by (simp add: catalog_wf_def)
qed (simp add: wf)

lemma new_environment_sel [simp]:
  "env_id (new_environment_row i a name slug kind st) = i"
  "env_application_id (new_environment_row i a name slug kind st) = a"
  "se_service_id (empty_pair i st v) = svc_id v" "se_environment_id (empty_pair i st v) = i"
  by (simp_all add: new_environment_row_def empty_pair_def)

lemma CreateEnvironment_cases:
  obtains e where "CreateEnvironment a name slug kind i now s = (Inl e, s)"
  | "CreateEnvironment a name slug kind i now s =
      (let e = new_environment_row i (trim a) (trim name) (to_lower (trim slug)) (to_lower (trim kind))
                 (rfc3339 now)
       in (Inr e, s\<lparr>environments := environments s @ [e],
         service_environments := service_environments s @ map (empty_pair i (rfc3339 now))
           (filter (\<lambda>v. svc_application_id v = trim a \<and> svc_service_type v = ''application'')
             (services s))\<rparr>))"
    "trim a \<in> ids_of app_id (applications s)" "i \<notin> ids_of env_id (environments s)"
proof (cases "fst (CreateEnvironment a name slug kind i now s)")
  case (Inl e)
  then have "CreateEnvironment a name slug kind i now s = (Inl e, s)"
    by (auto simp: CreateEnvironment_def Let_def simp del: sql_exists_iff split: if_splits)
  then show ?thesis by (rule that(1))
next
  case (Inr item)
  then have "app_exists (trim a) s" "\<not> sql_exists (\<lambda>e. env_id e = i \<or> env_application_id e = trim a \<and>
      env_slug e = to_lower (trim slug)) (environments s)"
    by (simp_all add: CreateEnvironment_def Let_def del: sql_exists_iff split: if_splits)
  moreover have "CreateEnvironment a name slug kind i now s =
      (let e = new_environment_row i (trim a) (trim name) (to_lower (trim slug)) (to_lower (trim kind))
                 (rfc3339 now)
       in (Inr e, s\<lparr>environments := environments s @ [e],
         service_environments := service_environments s @ map (empty_pair i (rfc3339 now))
           (filter (\<lambda>v. svc_application_id v = trim a \<and> svc_service_type v = ''application'')
             (services s))\<rparr>))"
    using Inr by (simp add: CreateEnvironment_def Let_def del: sql_exists_iff split: if_splits)
  ultimately show ?thesis
    using that(2) by (force simp: app_exists_def)
qed

lemma wf_create_environment:
  assumes wf: "catalog_wf s"
  shows "catalog_wf (snd (CreateEnvironment a name slug kind i now s))"
proof (cases rule: CreateEnvironment_cases [of a name slug kind i now s])
  case 2
  let ?item = "new_environment_row i (trim a) (trim name) (to_lower (trim slug)) (to_lower (trim kind)) (rfc3339 now)"
  let ?vs = "filter (\<lambda>v. svc_application_id v = trim a \<and> svc_service_type v = ''application'') (services s)"
  let ?new = "map (empty_pair i (rfc3339 now)) ?vs"
  let ?s' = "s\<lparr>environments := environments s @ [?item], service_environments := service_environments s @ ?new\<rparr>"
  have "references_ok ?s'"
    using wf 2(2) by (intro references_add_environment) (auto simp: catalog_wf_def)
  moreover have "paired ?s'"
    unfolding paired_def
  proof (intro ballI impI)
    fix v e assume v: "v \<in> set (services ?s')" and e: "e \<in> set (environments ?s')"
      and app: "svc_service_type v = ''application'' \<and> env_application_id e = svc_application_id v"
    let ?q = "\<lambda>b. se_service_id b = svc_id v \<and> se_environment_id b = env_id e"
    have split: "pair_count ?s' (svc_id v) (env_id e) = pair_count s (svc_id v) (env_id e) + sql_count ?q ?new"
      by (simp add: pair_count_def sql_count_append)
    show "pair_count ?s' (svc_id v) (env_id e) = 1"
    proof (cases "e = ?item")
      case True
      have keys: "distinct (map se_service_id ?new)"
        using wf by (simp add: catalog_wf_def o_def distinct_map_filter)
      have "\<exists>b \<in> set ?new. ?q b" using True v app by auto
      then have "sql_count ?q ?new = 1" using sql_count_key_1 [OF keys, of ?q] by blast
      then show ?thesis unfolding split using no_old_pairs [OF wf, of _ i] 2(3) True by simp
    next
      case False
      then have "e \<in> set (environments s)" using e by simp
      then have "env_id e \<noteq> i" "pair_count s (svc_id v) (env_id e) = 1"
        using 2(3) wf v app by (auto simp: catalog_wf_def paired_def)
      moreover from this(1) have "sql_count ?q ?new = 0" by (auto simp: sql_count_eq_0)
      ultimately show ?thesis unfolding split by simp
    qed
  qed
  ultimately show ?thesis
    using wf 2 by (simp add: catalog_wf_def Let_def)
qed (simp add: wf)

lemma new_variable_sel [simp]:
  "ev_id (new_variable_row i a e sc k ct l4 st) = i"
  "ev_application_id (new_variable_row i a e sc k ct l4 st) = a"
  "ev_environment_id (new_variable_row i a e sc k ct l4 st) = e"
  "ev_service_id (new_variable_row i a e sc k ct l4 st) = sc"
  "ev_key (new_variable_row i a e sc k ct l4 st) = k"
  "ev_value_ct (new_variable_row i a e sc k ct l4 st) = ct"
  by (simp_all add: new_variable_row_def)

text \<open>What an upsert does: refuse, overwrite the row of the same scope and key, or append one.\<close>

lemma Upsert_cases:
  obtains err where "UpsertEnvironmentVariable a e v k ct l4 i now s = (Inl err, s)"
  | old where "sql_get (same_variable (trim a) (trim e) (trim v) (trim k)) (environment_variables s) = Some old"
    "snd (UpsertEnvironmentVariable a e v k ct l4 i now s) =
      s\<lparr>environment_variables := sql_update (\<lambda>x. ev_id x = ev_id old)
        (\<lambda>x. x\<lparr>ev_value_ct := ct, ev_value_last4 := l4, ev_updated_at := rfc3339 now\<rparr>)
        (environment_variables s)\<rparr>"
  | "sql_get (same_variable (trim a) (trim e) (trim v) (trim k)) (environment_variables s) = None"
    "snd (UpsertEnvironmentVariable a e v k ct l4 i now s) =
      s\<lparr>environment_variables := environment_variables s @
        [new_variable_row i (trim a) (trim e) (variable_scope v) (trim k) ct l4 (rfc3339 now)]\<rparr>"
    "sql_count (\<lambda>x. ev_environment_id x = trim e \<and> ev_service_id x = variable_scope v)
      (environment_variables s) < maxEnvironmentVariablesPerScope"
    "\<forall>x \<in> set (environment_variables s). ev_id x \<noteq> i \<and> (ev_environment_id x = trim e \<longrightarrow>
      coalesce (ev_service_id x) = coalesce (variable_scope v) \<longrightarrow> ev_key x \<noteq> trim k)"
    "trim a \<in> ids_of app_id (applications s)" "trim e \<in> ids_of env_id (environments s)"
    "variable_scope v = None \<or> variable_scope v \<in> Some ` ids_of svc_id (services s)"
proof (cases "sql_get (same_variable (trim a) (trim e) (trim v) (trim k)) (environment_variables s)")
  case (Some old)
  then show ?thesis by (intro that(2)) (simp_all add: UpsertEnvironmentVariable_def Let_def)
next
  case None
  let ?bad = "sql_count (\<lambda>x. ev_environment_id x = trim e \<and> ev_service_id x = variable_scope v)
      (environment_variables s) \<ge> maxEnvironmentVariablesPerScope \<or>
    sql_exists (\<lambda>x. ev_id x = i \<or> ev_environment_id x = trim e \<and>
      coalesce (ev_service_id x) = coalesce (variable_scope v) \<and> ev_key x = trim k) (environment_variables s) \<or>
    \<not> (sql_exists (\<lambda>x. app_id x = trim a) (applications s) \<and>
       sql_exists (\<lambda>x. env_id x = trim e) (environments s) \<and>
       (variable_scope v = None \<or> sql_exists (\<lambda>x. Some (svc_id x) = variable_scope v) (services s)))"
  show ?thesis
  proof (cases ?bad)
    case True
    then have "\<exists>err. UpsertEnvironmentVariable a e v k ct l4 i now s = (Inl err, s)"
      using None by (auto simp: UpsertEnvironmentVariable_def Let_def simp del: sql_exists_iff)
    then show ?thesis using that(1) by blast
  next
    case False
    then have "snd (UpsertEnvironmentVariable a e v k ct l4 i now s) =
      s\<lparr>environment_variables := environment_variables s @
        [new_variable_row i (trim a) (trim e) (variable_scope v) (trim k) ct l4 (rfc3339 now)]\<rparr>"
      using None by (simp add: UpsertEnvironmentVariable_def Let_def del: sql_exists_iff)
    then show ?thesis
      using False None that(3) unfolding sql_exists_iff by (force simp: not_le)
  qed
qed

lemma wf_upsert_variable:
  assumes wf: "catalog_wf s"
  shows "catalog_wf (snd (UpsertEnvironmentVariable a e v k ct l4 i now s))"
proof (cases rule: Upsert_cases [of a e v k ct l4 i now s])
  case 3
  then show ?thesis
    using catalog_wf_old_variables [OF wf] by (auto intro!: catalog_wf_variables [OF wf])
qed (simp_all add: wf catalog_wf_set_variables)

lemma catalog_wf_step: "catalog_step s s' \<Longrightarrow> catalog_wf s \<Longrightarrow> catalog_wf s'"
  by (induction rule: catalog_step.induct)
    (simp_all add: wf_create_application wf_create_service wf_create_environment wf_upsert_variable
      wf_delete_application wf_delete_service catalog_wf_updates)

interpretation catalog_run: transactions catalog_step catalog_wf
  by unfold_locales (rule catalog_wf_step)


text \<open>An application with one environment and one service, in their rows.\<close>

definition shop :: store where
  "shop = fresh_store\<lparr>
     applications := [\<lparr> app_id = ''app'', app_name = ''Shop'', app_description = [],
       app_archived = False, app_created_at = [], app_updated_at = [] \<rparr>],
     environments := [new_environment_row ''env'' ''app'' ''Production'' ''production'' ''production'' []],
     services := [web_service\<lparr>svc_service_type := ''application''\<rparr>],
     service_environments := [empty_pair ''env'' [] web_service],
     environment_variables := [new_variable_row ''v1'' ''app'' ''env'' None ''PORT'' ''80'' [] [],
       new_variable_row ''v2'' ''app'' ''env'' (Some ''svc'') ''PORT'' ''90'' [] []]\<rparr>"

lemma shop_wf: "catalog_wf shop"
  by (simp add: catalog_wf_def references_ok_def refers_def refers_opt_def paired_def pair_count_def
      sql_count_def shop_def fresh_store_def web_service_def new_environment_row_def empty_pair_def)


text \<open>Deleting an application or a service leaves nothing of it: no row of any table refers to
  the deleted services or environments, and every service, environment and variable of another
  application is still there.\<close>

theorem deletion_complete:
  assumes "catalog_wf s" and "app_exists i s"
  shows "case DeleteApplication i s of (res, s') \<Rightarrow> res = Inr () \<and>
    trim i \<notin> ids_of app_id (applications s') \<and>
    (\<forall>v \<in> set (services s'). svc_application_id v \<noteq> trim i) \<and>
    (\<forall>e \<in> set (environments s'). env_application_id e \<noteq> trim i) \<and>
    (\<forall>d \<in> set (deployments s'). dep_service_id d \<in> ids_of svc_id (services s') \<and>
       dep_environment_id d \<in> ids_of env_id (environments s')) \<and>
    (\<forall>v \<in> set (services s). svc_application_id v \<noteq> trim i \<longrightarrow> v \<in> set (services s')) \<and>
    (\<forall>e \<in> set (environments s). env_application_id e \<noteq> trim i \<longrightarrow> e \<in> set (environments s'))"
proof -
  let ?D = "map svc_id (filter (\<lambda>v. svc_application_id v = trim i) (services s))"
  let ?E = "map env_id (filter (\<lambda>e. env_application_id e = trim i) (environments s))"
  have eq: "DeleteApplication i s = (Inr (), cascade [trim i] ?D ?E s)"
    using assms(2) by (simp add: DeleteApplication_def)
  have wf: "catalog_wf (cascade [trim i] ?D ?E s)"
    using wf_delete_application [OF assms(1), of i] eq by simp
  have "v \<in> set (services (cascade [trim i] ?D ?E s))"
    if "v \<in> set (services s)" "svc_application_id v \<noteq> trim i" for v
  proof -
    have "w = v" if "w \<in> set (services s)" "svc_id w = svc_id v" for w
      using distinct_key_eq [of svc_id "services s" w v] assms(1) that \<open>v \<in> set (services s)\<close>
      by (simp add: catalog_wf_def)
    then show ?thesis using that by (force simp: cascade_tables sql_delete_def)
  qed
  moreover have "e \<in> set (environments (cascade [trim i] ?D ?E s))"
    if "e \<in> set (environments s)" "env_application_id e \<noteq> trim i" for e
  proof -
    have "w = e" if "w \<in> set (environments s)" "env_id w = env_id e" for w
      using distinct_key_eq [of env_id "environments s" w e] assms(1) that \<open>e \<in> set (environments s)\<close>
      by (simp add: catalog_wf_def)
    then show ?thesis using that by (force simp: cascade_tables sql_delete_def)
  qed
  moreover have "\<forall>d \<in> set (deployments (cascade [trim i] ?D ?E s)).
      dep_service_id d \<in> ids_of svc_id (services (cascade [trim i] ?D ?E s)) \<and>
      dep_environment_id d \<in> ids_of env_id (environments (cascade [trim i] ?D ?E s))"
    using wf by (simp add: catalog_wf_def references_ok_def refers_def)
  ultimately show ?thesis
    unfolding eq by (simp add: cascade_tables(1-3)) (auto simp: sql_delete_def)
qed

theorem deletion_complete_witness:
  "services (snd (DeleteApplication ''app'' shop)) = []"
proof -
  have t: "trim ''app'' = ''app''" by code_simp
  have "app_exists ''app'' shop" by (simp add: app_exists_def shop_def t)
  from deletion_complete [OF shop_wf this] have
    "\<forall>v \<in> set (services (snd (DeleteApplication ''app'' shop))). svc_application_id v \<noteq> ''app''"
    by (simp add: case_prod_beta t)
  then show ?thesis
    using \<open>app_exists ''app'' shop\<close>
    by (simp add: DeleteApplication_def cascade_tables sql_delete_def shop_def t web_service_def)
qed

section \<open>Environment variables\<close>

definition variable_key :: "environment_variable_row \<Rightarrow> string \<times> string \<times> string" where
  "variable_key v = (ev_environment_id v, coalesce (ev_service_id v), ev_key v)"

definition scope_count :: "string \<Rightarrow> string option \<Rightarrow> environment_variable_row list \<Rightarrow> nat" where
  "scope_count e sc vs = sql_count (\<lambda>x. ev_environment_id x = e \<and> ev_service_id x = sc) vs"

definition variables_ok :: "environment_variable_row list \<Rightarrow> bool" where
  "variables_ok vs \<longleftrightarrow>
     distinct (map ev_id vs) \<and> distinct (map variable_key vs) \<and>
     (\<forall>v \<in> set vs. ev_service_id v \<noteq> Some []) \<and>
     (\<forall>e sc. scope_count e sc vs \<le> maxEnvironmentVariablesPerScope)"

lemma sql_count_delete_le: "sql_count p (sql_delete q t) \<le> sql_count p t"
  by (induction t) (auto simp: sql_count_def sql_delete_def)

lemma variables_ok_delete: "variables_ok vs \<Longrightarrow> variables_ok (sql_delete p vs)"
  unfolding variables_ok_def scope_count_def
  by (auto simp: distinct_map_filter_key intro: order_trans [OF sql_count_delete_le])
    (auto simp: sql_delete_def)

lemma variables_ok_update:
  assumes "variables_ok vs"
    and same: "\<And>v. ev_id (g v) = ev_id v \<and> ev_environment_id (g v) = ev_environment_id v \<and>
      ev_service_id (g v) = ev_service_id v \<and> ev_key (g v) = ev_key v"
  shows "variables_ok (sql_update p g vs)"
  using assms(1)
  by (simp add: variables_ok_def map_sql_update same variable_key_def scope_count_def
      sql_count_update_same ball_sql_update)

lemma variable_scope_not_empty: "variable_scope v \<noteq> Some []"
  by (simp add: variable_scope_def)

lemma variables_ok_append:
  assumes ok: "variables_ok vs" and "ev_id x \<notin> ev_id ` set vs" and "variable_key x \<notin> variable_key ` set vs"
    and "ev_service_id x \<noteq> Some []"
    and "scope_count (ev_environment_id x) (ev_service_id x) vs < maxEnvironmentVariablesPerScope"
  shows "variables_ok (vs @ [x])"
proof -
  have "scope_count e sc (vs @ [x]) \<le> maxEnvironmentVariablesPerScope" for e sc
  proof (cases "e = ev_environment_id x \<and> sc = ev_service_id x")
    case True
    then show ?thesis using assms(5) by (simp add: scope_count_def sql_count_append) (simp add: sql_count_def)
  next
    case False
    then have "scope_count e sc (vs @ [x]) = scope_count e sc vs"
      unfolding scope_count_def sql_count_append by (auto simp: sql_count_def)
    then show ?thesis using ok by (simp add: variables_ok_def)
  qed
  then show ?thesis using assms(1-4) by (simp add: variables_ok_def)
qed

lemma upsert_variables_ok:
  assumes "variables_ok (environment_variables s)"
  shows "variables_ok (environment_variables (snd (UpsertEnvironmentVariable a e v k ct l4 i now s)))"
proof (cases rule: Upsert_cases [of a e v k ct l4 i now s])
  case 3
  show ?thesis unfolding 3(2)
    using 3(3,4) variable_scope_not_empty
    by (auto intro!: variables_ok_append [OF assms] simp: variable_key_def scope_count_def)
qed (simp_all add: assms variables_ok_update)

lemma catalog_step_variables:
  "catalog_step s s' \<Longrightarrow> variables_ok (environment_variables s) \<Longrightarrow> variables_ok (environment_variables s')"
proof (induction rule: catalog_step.induct)
  case (cat_new_svc s csi i now)
  then show ?case by (cases rule: CreateService_cases [of csi i now s]) simp_all
next
  case (cat_new_env s a name slug kind i now)
  then show ?case by (cases rule: CreateEnvironment_cases [of a name slug kind i now s]) (simp_all add: Let_def)
qed (simp_all add: upsert_variables_ok CreateApplication_def UpdateApplication_def DeleteApplication_def
    UpdateService_def DeleteService_def UpdateEnvironment_def UpdateServiceEnvironment_def
    UpdateEnvironmentVariableValue_def DeleteEnvironmentVariable_def cascade_tables Let_def
    variables_ok_delete variables_ok_update split: option.split)

interpretation variable_run: transactions catalog_step "\<lambda>s. variables_ok (environment_variables s)"
  by unfold_locales (rule catalog_step_variables)

text \<open>No sequence of writes puts more than a hundred variables into one scope, or two
  variables of one key, whatever mixture of upserts, updates and deletions runs.\<close>

theorem variable_limit:
  assumes "catalog_step\<^sup>*\<^sup>* s s'" and "variables_ok (environment_variables s)"
  shows "scope_count e sc (environment_variables s') \<le> 100 \<and>
    distinct (map variable_key (environment_variables s'))"
  using variable_run.along [OF assms] by (simp add: variables_ok_def)

lemma shop_variables: "variables_ok (environment_variables shop)"
  by (auto simp: variables_ok_def shop_def variable_key_def scope_count_def sql_count_def)

theorem variable_limit_witness:
  "scope_count ''env'' None (environment_variables (snd (UpsertEnvironmentVariable ''app'' ''env'' []
     ''PORT'' ''81'' [] ''v3'' 0 shop))) \<le> 100 \<and>
   distinct (map variable_key (environment_variables (snd (UpsertEnvironmentVariable ''app'' ''env'' []
     ''PORT'' ''81'' [] ''v3'' 0 shop))))"
  by (rule variable_limit [OF _ shop_variables]) (rule r_into_rtranclp, rule cat_put_var)

subsection \<open>What a service sees\<close>

lemma map_of_put_all:
  "map_of (fold (\<lambda>v out. AList.update (f v) (g v) out) xs out) k =
     (case find (\<lambda>v. f v = k) (rev xs) of Some v \<Rightarrow> Some (g v) | None \<Rightarrow> map_of out k)"
proof (induction xs rule: rev_induct)
  case (snoc x xs)
  then show ?case by (simp add: update_conv)
qed simp

lemma distinct_put_all:
  "distinct (map fst out) \<Longrightarrow> distinct (map fst (fold (\<lambda>v out. AList.update (f v) (g v) out) xs out))"
  by (induction xs arbitrary: out) (simp_all add: distinct_update)

lemma find_rev_sorted:
  assumes "sorted (map r xs)" and "find p (rev xs) = Some v"
  shows "v \<in> set xs \<and> p v \<and> (\<forall>w \<in> set xs. p w \<longrightarrow> r w \<le> r v)"
  using assms
proof (induction xs rule: rev_induct)
  case (snoc x xs)
  then show ?case
    by (cases "p x") (auto simp: sorted_append)
qed simp

definition own_variable :: "string \<Rightarrow> string \<Rightarrow> string option \<Rightarrow> string \<Rightarrow> environment_variable_row \<Rightarrow> bool" where
  "own_variable app env sc key v \<longleftrightarrow> ev_application_id v = app \<and> ev_environment_id v = env \<and>
     ev_service_id v = sc \<and> ev_key v = key"

lemma own_variable_unique:
  assumes "variables_ok vs" and "v \<in> set vs" "w \<in> set vs"
    and "own_variable app env sc k v" "own_variable app env sc k w"
  shows "v = w"
  using distinct_key_eq [of variable_key vs v w] assms
  by (simp add: variables_ok_def own_variable_def variable_key_def)

lemma own_variable_get:
  assumes "variables_ok vs" and "v \<in> set vs" "own_variable app env sc k v"
  shows "sql_get (own_variable app env sc k) vs = Some v"
  using own_variable_unique [OF assms(1)] sql_get_Some [of "own_variable app env sc k" vs] assms(2,3)
  by (cases "sql_get (own_variable app env sc k) vs") (auto simp: sql_get_None)

text \<open>The list as a lookup: the last of the sorted candidates.\<close>

lemma sealed_lookup:
  fixes app env svc s
  defines "xs \<equiv> filter (\<lambda>v. ev_application_id v = trim app \<and> ev_environment_id v = trim env \<and>
    (ev_service_id v = None \<or> ev_service_id v = Some (trim svc))) (environment_variables s)"
  shows "map_of (ListEnvironmentVariablesSealed app env svc s) k =
      map_option ev_value_ct (find (\<lambda>v. ev_key v = k) (rev (sort_key variable_rank xs)))"
  unfolding ListEnvironmentVariablesSealed_def map_of_put_all sql_order_def xs_def
  by (simp split: option.split)

lemma sealed_value:
  assumes ok: "variables_ok (environment_variables s)"
  shows "map_of (ListEnvironmentVariablesSealed app env svc s) k =
      (case sql_get (own_variable (trim app) (trim env) (Some (trim svc)) k) (environment_variables s) of
         Some v \<Rightarrow> Some (ev_value_ct v)
       | None \<Rightarrow> map_option ev_value_ct
           (sql_get (own_variable (trim app) (trim env) None k) (environment_variables s)))"
proof -
  let ?vs = "environment_variables s"
  let ?own = "own_variable (trim app) (trim env) (Some (trim svc)) k"
  let ?shared = "own_variable (trim app) (trim env) None k"
  let ?xs = "sort_key variable_rank (filter (\<lambda>v. ev_application_id v = trim app \<and>
    ev_environment_id v = trim env \<and> (ev_service_id v = None \<or> ev_service_id v = Some (trim svc))) ?vs)"
  have cand: "v \<in> set ?xs \<and> ev_key v = k \<longleftrightarrow> v \<in> set ?vs \<and> (?own v \<or> ?shared v)" for v
    by (auto simp: own_variable_def)
  show ?thesis
  proof (cases "find (\<lambda>v. ev_key v = k) (rev ?xs)")
    case None
    then have "\<forall>v \<in> set ?xs. ev_key v \<noteq> k" by (auto simp: find_None_iff)
    then have "\<forall>v \<in> set ?vs. \<not> ?own v \<and> \<not> ?shared v" using cand by blast
    then have "sql_get ?own ?vs = None" "sql_get ?shared ?vs = None" by (auto simp: sql_get_None)
    then show ?thesis using None by (simp add: sealed_lookup)
  next
    case (Some v)
    note last = find_rev_sorted [OF sorted_sort_key Some]
    have v: "v \<in> set ?vs" "?own v \<or> ?shared v" using cand [of v] last by blast+
    have own: "?own v" if "w \<in> set ?vs" "?own w" for w
    proof -
      have "variable_rank w \<le> variable_rank v" using cand [of w] that last by blast
      then show ?thesis using v(2) that(2) by (auto simp: own_variable_def variable_rank_def)
    qed
    show ?thesis
    proof (cases "?own v")
      case True
      then show ?thesis using Some own_variable_get [OF ok v(1)] by (simp add: sealed_lookup)
    next
      case False
      then have "sql_get ?own ?vs = None" "?shared v" using own v(2) by (auto simp: sql_get_None)
      then show ?thesis using Some own_variable_get [OF ok v(1)] by (simp add: sealed_lookup)
    qed
  qed
qed

text \<open>The variables a deployment gets: for each key the service's own value when it has one,
  the shared value of the environment otherwise, and each key once.\<close>

theorem service_variables_override:
  assumes "variables_ok (environment_variables s)"
  shows "map_of (ListEnvironmentVariablesSealed app env svc s) k =
      (case sql_get (own_variable (trim app) (trim env) (Some (trim svc)) k) (environment_variables s) of
         Some v \<Rightarrow> Some (ev_value_ct v)
       | None \<Rightarrow> map_option ev_value_ct
           (sql_get (own_variable (trim app) (trim env) None k) (environment_variables s))) \<and>
    distinct (map fst (ListEnvironmentVariablesSealed app env svc s))"
  using sealed_value [OF assms]
  by (simp add: ListEnvironmentVariablesSealed_def distinct_put_all)

theorem service_variables_override_witness:
  "map_of (ListEnvironmentVariablesSealed ''app'' ''env'' ''svc'' shop) ''PORT'' = Some ''90''"
proof -
  have t: "trim ''app'' = ''app''" "trim ''env'' = ''env''" "trim ''svc'' = ''svc''" by code_simp+
  show ?thesis
    using service_variables_override [OF shop_variables, of "''app''" "''env''" "''svc''" "''PORT''"]
    by (simp add: t shop_def sql_get_def own_variable_def)
qed

lemma sql_get_update:
  assumes "\<And>r. p (g r) = p r"
  shows "sql_get p (sql_update q g t) = map_option (\<lambda>r. if q r then g r else r) (sql_get p t)"
  using assms by (induction t) (auto simp: sql_get_def sql_update_def)

lemma sql_get_append: "sql_get p (t @ u) = (case sql_get p t of None \<Rightarrow> sql_get p u | Some r \<Rightarrow> Some r)"
  by (induction t) (auto simp: sql_get_def)

lemma same_variable_own:
  assumes "variables_ok vs" and "x \<in> set vs"
  shows "same_variable app env (trim v) k x \<longleftrightarrow> own_variable app env (variable_scope v) k x"
  using assms by (auto simp: same_variable_def own_variable_def variable_scope_def variables_ok_def)

lemma own_after_upsert:
  assumes ok: "variables_ok (environment_variables s)"
    and res: "UpsertEnvironmentVariable a e v k ct l4 i now s = (Inr m, s')"
  shows "\<exists>x. sql_get (own_variable (trim a) (trim e) (variable_scope v) (trim k))
      (environment_variables s') = Some x \<and> ev_value_ct x = ct"
    and "sc \<noteq> variable_scope v \<or> k' \<noteq> trim k \<Longrightarrow>
      map_option ev_value_ct (sql_get (own_variable (trim a) (trim e) sc k') (environment_variables s')) =
      map_option ev_value_ct (sql_get (own_variable (trim a) (trim e) sc k') (environment_variables s))"
proof -
  let ?own = "own_variable (trim a) (trim e)"
  have ok': "variables_ok (environment_variables s')"
    using upsert_variables_ok [OF ok, of a e v k ct l4 i now] res by simp
  have "(\<exists>x \<in> set (environment_variables s'). ?own (variable_scope v) (trim k) x \<and> ev_value_ct x = ct) \<and>
    (sc \<noteq> variable_scope v \<or> k' \<noteq> trim k \<longrightarrow>
      map_option ev_value_ct (sql_get (?own sc k') (environment_variables s')) =
      map_option ev_value_ct (sql_get (?own sc k') (environment_variables s)))"
  proof (cases rule: Upsert_cases [of a e v k ct l4 i now s])
    case (1 err)
    then show ?thesis using res by simp
  next
    case (2 old)
    let ?g = "\<lambda>x. x\<lparr>ev_value_ct := ct, ev_value_last4 := l4, ev_updated_at := rfc3339 now\<rparr>"
    have old: "old \<in> set (environment_variables s)" "?own (variable_scope v) (trim k) old"
      using sql_get_Some [OF 2(1)] same_variable_own [OF ok] by blast+
    have vs: "environment_variables s' = sql_update (\<lambda>x. ev_id x = ev_id old) ?g (environment_variables s)"
      using 2(2) res by simp
    have keep: "?own sc k' (?g x) = ?own sc k' x" for sc k' x by (simp add: own_variable_def)
    have "?g old \<in> set (environment_variables s')"
      using old(1) by (auto simp: vs set_sql_update image_iff intro!: bexI [of _ old])
    moreover have "x = old" if "x \<in> set (environment_variables s)" "ev_id x = ev_id old" for x
      using distinct_key_eq [OF _ that(1) old(1) that(2)] ok by (simp add: variables_ok_def)
    ultimately show ?thesis
      using old keep sql_get_Some [of "?own sc k'" "environment_variables s"]
      unfolding vs sql_get_update [of "?own sc k'" ?g, OF keep]
      by (cases "sql_get (?own sc k') (environment_variables s)")
        (auto simp: own_variable_def intro!: bexI [of _ "?g old"])
  next
    case 3
    let ?new = "new_variable_row i (trim a) (trim e) (variable_scope v) (trim k) ct l4 (rfc3339 now)"
    have vs: "environment_variables s' = environment_variables s @ [?new]"
      using 3(2) res by simp
    have "?own sc k' ?new \<longleftrightarrow> sc = variable_scope v \<and> k' = trim k"
      by (auto simp: own_variable_def)
    moreover have "sql_get (?own sc k') [?new] = (if ?own sc k' ?new then Some ?new else None)"
      by (simp add: sql_get_def)
    ultimately show ?thesis
      unfolding vs sql_get_append by (auto simp: own_variable_def split: option.split)
  qed
  then show "\<exists>x. sql_get (?own (variable_scope v) (trim k)) (environment_variables s') = Some x \<and> ev_value_ct x = ct"
    and "sc \<noteq> variable_scope v \<or> k' \<noteq> trim k \<Longrightarrow>
      map_option ev_value_ct (sql_get (?own sc k') (environment_variables s')) =
      map_option ev_value_ct (sql_get (?own sc k') (environment_variables s))"
    using own_variable_get [OF ok'] by blast+
qed

lemma no_empty_scope: "variables_ok vs \<Longrightarrow> sql_get (own_variable app env (Some []) k) vs = None"
  by (auto simp: sql_get_None own_variable_def variables_ok_def)

text \<open>A stored variable is the one a deployment reads: after a successful upsert the list of
  the same scope has the new value under the trimmed key, and every other key keeps its value.\<close>

theorem upsert_then_list:
  assumes "variables_ok (environment_variables s)"
    and "UpsertEnvironmentVariable a e v k ct l4 i now s = (Inr m, s')"
  shows "map_of (ListEnvironmentVariablesSealed a e v s') (trim k) = Some ct \<and>
    (\<forall>k'. k' \<noteq> trim k \<longrightarrow> map_of (ListEnvironmentVariablesSealed a e v s') k' =
       map_of (ListEnvironmentVariablesSealed a e v s) k')"
proof -
  have ok': "variables_ok (environment_variables s')"
    using upsert_variables_ok [OF assms(1), of a e v k ct l4 i now] assms(2) by simp
  have mo: "(case x of Some w \<Rightarrow> Some (ev_value_ct w) | None \<Rightarrow> y) =
      (case map_option ev_value_ct x of Some w \<Rightarrow> Some w | None \<Rightarrow> y)" for x y
    by (simp split: option.split)
  show ?thesis
    using own_after_upsert [OF assms] no_empty_scope [OF ok'] no_empty_scope [OF assms(1)]
    unfolding sealed_value [OF assms(1)] sealed_value [OF ok'] mo
    by (cases "trim v = []") (auto simp: variable_scope_def split: option.split)
qed

theorem upsert_then_list_witness:
  "map_of (ListEnvironmentVariablesSealed ''app'' ''env'' ''svc''
     (snd (UpsertEnvironmentVariable ''app'' ''env'' ''svc'' ''HOST'' ''x'' [] ''v3'' 0 shop))) ''HOST'' = Some ''x''"
proof -
  have t: "trim ''app'' = ''app''" "trim ''env'' = ''env''" "trim ''svc'' = ''svc''" "trim ''HOST'' = ''HOST''"
    "trim ''v3'' = ''v3''"
    by code_simp+
  obtain m s' where "UpsertEnvironmentVariable ''app'' ''env'' ''svc'' ''HOST'' ''x'' [] ''v3'' 0 shop = (Inr m, s')"
    by (simp add: UpsertEnvironmentVariable_def Let_def t shop_def sql_get_def same_variable_def
        sql_count_def variable_scope_def fresh_store_def web_service_def GetEnvironmentVariableMeta_def)
  with upsert_then_list [OF shop_variables this] show ?thesis by (simp add: t)
qed

end
