(* ===== verification/HF_Db_Props.thy ===== *)
theory HF_Db_Props
  imports HF_Db_Inv HF_Catalog_Props HF_Workers
begin

text \<open>
  The properties of managed databases, with a small installation that has one: a database service
  in the shop's application with one instance, its credential and one waiting operation.
\<close>

section \<open>A small database\<close>

definition db_input :: create_database_input where
  "db_input = \<lparr> cd_application_id = ''app'', cd_name = ''Main'', cd_engine = ''postgresql'',
     cd_default_version = ''16'', cd_actor = ''me'', cd_instances =
       [\<lparr> ii_environment_id = ''env'', ii_engine_version = ''16'', ii_image_ref = ''pg'',
          ii_network_alias = ''main'', ii_internal_port = 5432, ii_volume_name = ''vol'',
          ii_resource_preset = ''standard'', ii_cpu_limit_millis = 500, ii_memory_limit_bytes = 1,
          ii_database_name = ''app'', ii_username = ''u'', ii_password_ct = ''p'',
          ii_admin_password_ct = [], ii_bindings = [] \<rparr>] \<rparr>"

definition db_ids :: "nat \<Rightarrow> string" where
  "db_ids n = ''i'' @ show_nat n"

definition db_service :: service_row where
  "db_service = new_database_service_row ''ds'' ''app'' ''Main'' 5432 ''t''"

definition db_instance :: database_instance_row where
  "db_instance = (new_instance_row ''di'' ''ds'' ''t'' (hd (cd_instances db_input)))
     \<lparr>di_status := ''healthy'', di_docker_container_id := ''c''\<rparr>"

definition db_credential :: database_credential_row where
  "db_credential = new_credential_row ''di'' ''t'' (hd (cd_instances db_input))"

definition db_operation :: database_operation_row where
  "db_operation = new_database_operation ''o1'' ''ds'' (Some ''di'') ''restart'' ''queued'' ''me'' ''t''"

definition db_store :: store where
  "db_store = shop\<lparr>services := services shop @ [db_service],
     database_services := [\<lparr> ds_service_id = ''ds'', ds_engine = ''postgresql'',
       ds_default_version = ''16'', ds_created_at = ''t'', ds_updated_at = ''t'' \<rparr>],
     database_instances := [db_instance], database_credentials := [db_credential],
     database_operations := [db_operation],
     operations := [queue_row_of (shop\<lparr>database_instances := [db_instance]\<rparr>) db_operation]\<rparr>"

lemma db_strings [simp]: "trim ''ds'' = ''ds''" "trim ''di'' = ''di''" "trim ''o1'' = ''o1''" "trim ''o2'' = ''o2''"
  by code_simp+

lemma db_operation_fresh: "fresh_dbo db_operation"
  unfolding db_operation_def by (rule fresh_new_operation) simp_all

lemma db_store_sel [simp]:
  "operations db_store = [queue_row_of (shop\<lparr>database_instances := [db_instance]\<rparr>) db_operation]"
  "database_operations db_store = [db_operation]" "database_instances db_store = [db_instance]"
  "database_credentials db_store = [db_credential]"
  by (simp_all add: db_store_def)

lemma db_store_wf: "dbq_wf db_store"
proof -
  have empty: "dbq_wf (shop\<lparr>database_instances := [db_instance]\<rparr>)"
    by (simp add: dbq_wf_def queue_wf_def projection_wf_def lock_exclusive_def shop_def fresh_store_def)
  have "dbo_id db_operation = ''o1''" by (simp add: db_operation_def new_database_operation_def)
  then have "insertDatabaseOperationQueueRow (dbo_id db_operation)
      (shop\<lparr>database_instances := [db_instance], database_operations := [db_operation]\<rparr>) =
      Inr (shop\<lparr>database_instances := [db_instance], database_operations := [db_operation],
        operations := [queue_row_of (shop\<lparr>database_instances := [db_instance]\<rparr>) db_operation]\<rparr>)"
    by (simp add: insertDatabaseOperationQueueRow_def sql_get_def insert_operation_def queue_row_of_def
        shop_def fresh_store_def db_operation_def new_database_operation_def operation_statuses_def)
  then have "dbq_wf (shop\<lparr>database_instances := [db_instance], database_operations := [db_operation],
        operations := [queue_row_of (shop\<lparr>database_instances := [db_instance]\<rparr>) db_operation]\<rparr>)"
    by (rule dbq_wf_enqueue [OF empty db_operation_fresh, rotated -1])
      (simp_all add: shop_def fresh_store_def)
  then show ?thesis by (rule dbq_same) simp_all
qed

section \<open>The queue under the database code\<close>

interpretation database_run: transactions "\<lambda>s s'. queue_step s s' \<or> database_tx s s'" dbq_wf
  by unfold_locales (auto dest: queue_step_dbq database_tx_wf)



text \<open>A handler that records its own outcome has the last word: once a terminal status has been
  reported for an operation, the worker's completion, lease renewal and deferral of it are refused
  and change nothing, so the recorded outcome stands.\<close>

theorem handler_outcome_stands:
  assumes wf: "dbq_wf s" and d: "d \<in> set (database_operations s)" "dbo_id d = trim oid"
    and p: "0 \<le> p" "p \<le> 100" and st: "terminal_status (to_lower (trim st))"
  shows "let s1 = snd (UpdateDatabaseOperation oid st step p code msg now s)
    in op_status_of s1 oid = Some (to_lower (trim st)) \<and>
      (\<forall>c t. ci_ID c = oid \<and> terminal_status (ci_Status c) \<longrightarrow> CompleteOperation c t s1 = (Inl ErrNoRows, s1)) \<and>
      (\<forall>ow l t. RenewOperationLease oid ow l t s1 = (Inl ErrNoRows, s1)) \<and>
      (\<forall>ow dl t. DeferOperation oid ow dl t s1 = (Inl ErrNoRows, s1))"
proof -
  let ?s1 = "snd (UpdateDatabaseOperation oid st step p code msg now s)"
  let ?f = "progress_op_set (to_lower (trim st)) (trim step) p (trim code) (trim msg) (rfc3339 now)"
  have wf1: "queue_wf ?s1"
    using dbq_wf_progress [OF wf, of oid st step p code msg now] st by (simp add: reportable_def dbq_wf_def)
  have stat: "to_lower (trim st) \<in> set operation_statuses"
    using st by (auto simp: terminal_status_def operation_statuses_def)
  have "sql_count (\<lambda>d. dbo_id d = trim oid) (database_operations s) \<noteq> 0"
    using d by (auto simp: sql_count_eq_0)
  then have ops: "operations ?s1 = sql_update (\<lambda>r. op_id r = trim oid) ?f (operations s)"
    using p stat by (simp add: UpdateDatabaseOperation_def Let_def)
  have "\<forall>d \<in> set (database_operations s). dbo_id d \<in> op_id ` set (operations s)"
    using wf by (simp add: dbq_wf_def projection_wf_def)
  then have "dbo_id d \<in> op_id ` set (operations s)" using d(1) by (rule bspec)
  then obtain r0 where "r0 \<in> set (operations s)" "op_id r0 = trim oid" using d(2) by auto
  then have "sql_get (\<lambda>r. op_id r = trim oid) (operations s) \<noteq> None" by (auto simp: sql_get_None)
  then obtain r where r: "sql_get (\<lambda>r. op_id r = trim oid) (operations s) = Some r" by blast
  then have status: "op_status_of ?s1 oid = Some (to_lower (trim st))"
    using op_status_update [OF ops progress_keeps(1), of oid] sql_get_Some [OF r] by (simp add: progress_keeps)
  have "\<not> lease_held ?s1 oid ow" for ow
    unfolding lease_held_def ops sql_exists_iff bex_sql_update
    using st by (auto simp: held_by_def progress_keeps terminal_status_def)
  then show ?thesis
    using status CompleteOperation_lost [OF wf1] RenewOperationLease_lost [OF wf1] DeferOperation_lost [OF wf1]
    by (simp add: Let_def)
qed

theorem handler_outcome_stands_witness:
  "op_status_of (snd (UpdateDatabaseOperation ''o1'' ''failed'' ''pull'' 10 ''e'' ''m'' 9 db_store)) ''o1'' =
    Some ''failed''"
proof -
  have t: "to_lower (trim ''failed'') = ''failed''" by code_simp
  have "db_operation \<in> set (database_operations db_store)" "dbo_id db_operation = trim ''o1''"
    by (simp_all add: db_operation_def new_database_operation_def)
  from handler_outcome_stands [OF db_store_wf this, of 10 "''failed''"] show ?thesis
    by (simp add: t terminal_status_def Let_def)
qed

section \<open>Credential rotation\<close>

lemma sql_get_key_update:
  assumes "distinct (map key t)" and "c \<in> set t" and "\<And>r. key (g r) = key r" and "p c"
  shows "sql_get (\<lambda>r. key r = key c) (sql_update p g t) = Some (g c)"
proof -
  have "sql_get (\<lambda>r. key r = key c) (sql_update p g t) =
      map_option (\<lambda>r. if p r then g r else r) (sql_get (\<lambda>r. key r = key c) t)"
    by (rule sql_get_update) (simp add: assms(3))
  then show ?thesis using sql_get_key [OF assms(1,2)] assms(4) by simp
qed

text \<open>One credential row under an update of its instance's row.\<close>

lemma credential_update:
  assumes d: "distinct (map dc_database_instance_id (database_credentials s))"
    and c: "c \<in> set (database_credentials s)" "dc_database_instance_id c = trim i" "p c"
    and p: "\<And>x. p x \<Longrightarrow> dc_database_instance_id x = trim i"
    and g: "\<And>x. dc_database_instance_id (g x) = dc_database_instance_id x"
  defines "s' \<equiv> s\<lparr>database_credentials := sql_update p g (database_credentials s)\<rparr>"
  shows "sql_count p (database_credentials s) = 1" and "GetDatabaseCredentialSealed i s' = (Inr (g c), s')"
    and "distinct (map dc_database_instance_id (database_credentials s'))" and "g c \<in> set (database_credentials s')"
proof -
  show "sql_count p (database_credentials s) = 1"
    using sql_count_key_1 [OF d p] c by blast
  show "GetDatabaseCredentialSealed i s' = (Inr (g c), s')"
    using sql_get_key_update [where key = dc_database_instance_id and p = p and g = g, OF d c(1) g c(3)] c(2)
    by (simp add: s'_def GetDatabaseCredentialSealed_def)
  show "distinct (map dc_database_instance_id (database_credentials s'))"
    using d by (simp add: s'_def map_sql_update g)
  show "g c \<in> set (database_credentials s')"
    using c(1,3) by (auto simp: s'_def set_sql_update image_iff intro!: bexI [of _ c])
qed

lemma credential_none:
  assumes "distinct (map dc_database_instance_id (database_credentials s))"
    and "c \<in> set (database_credentials s)" "dc_database_instance_id c = trim i" "\<not> p c"
    and "\<And>x. p x \<Longrightarrow> dc_database_instance_id x = trim i"
  shows "sql_count p (database_credentials s) = 0"
  unfolding sql_count_eq_0 using assms distinct_key_eq [OF assms(1) _ assms(2)] by metis

lemma commit_staged:
  assumes d: "distinct (map dc_database_instance_id (database_credentials s))"
    and c: "c \<in> set (database_credentials s)" "dc_database_instance_id c = trim i"
    and pending: "dc_pending_password_ct c \<noteq> []"
  shows "\<exists>c2 s2. CommitStagedDatabaseCredentialRotation i t s = (Inr c2, s2) \<and>
    dc_password_ct c2 = dc_pending_password_ct c \<and> dc_pending_password_ct c2 = [] \<and>
    dc_generation c2 = dc_generation c + 1 \<and>
    (\<forall>t'. \<not> is_Ok (fst (CommitStagedDatabaseCredentialRotation i t' s2)))"
proof -
  let ?h = "\<lambda>c. c\<lparr>dc_password_ct := dc_pending_password_ct c, dc_pending_password_ct := [],
    dc_pending_created_at := [], dc_generation := dc_generation c + 1,
    dc_rotated_at := rfc3339_nano t, dc_updated_at := rfc3339_nano t\<rparr>"
  have st: "staged (trim i) c" using c(2) pending by (simp add: staged_def)
  note v = credential_update [where p = "staged (trim i)" and g = ?h, OF d c st]
  have "CommitStagedDatabaseCredentialRotation i t s = (Inr (?h c),
      s\<lparr>database_credentials := sql_update (staged (trim i)) ?h (database_credentials s)\<rparr>)"
    using v(1,2) by (simp add: CommitStagedDatabaseCredentialRotation_def Let_def staged_def)
  moreover have "sql_count (staged (trim i)) (sql_update (staged (trim i)) ?h (database_credentials s)) = 0"
    using credential_none [OF v(3,4), of i "staged (trim i)"] c(2) by (simp add: staged_def)
  ultimately show ?thesis
    by (auto simp: CommitStagedDatabaseCredentialRotation_def [of _ _ "_ \<lparr>database_credentials := _\<rparr>"] Let_def)
qed

lemma clear_staged:
  assumes d: "distinct (map dc_database_instance_id (database_credentials s))"
    and c: "c \<in> set (database_credentials s)" "dc_database_instance_id c = trim i"
  shows "\<exists>s2 c2. ClearStagedDatabaseCredentialRotation i t s = (Inr (), s2) \<and>
    GetDatabaseCredentialSealed i s2 = (Inr c2, s2) \<and> dc_password_ct c2 = dc_password_ct c \<and>
    dc_pending_password_ct c2 = [] \<and> dc_generation c2 = dc_generation c"
proof -
  let ?h = "\<lambda>c. c\<lparr>dc_pending_password_ct := [], dc_pending_created_at := [], dc_updated_at := rfc3339_nano t\<rparr>"
  note v = credential_update [where p = "\<lambda>c. dc_database_instance_id c = trim i" and g = ?h, OF d c c(2)]
  show ?thesis
    using v(1,2) by (simp add: ClearStagedDatabaseCredentialRotation_def)
qed

text \<open>C20. A credential rotation is a two-phase write: staging keeps the old password in force and
  refuses a second staging; committing puts the staged one in force, clears it and raises the
  generation by one, once; clearing instead leaves password and generation as they were.\<close>

theorem rotation_two_phase:
  assumes d: "distinct (map dc_database_instance_id (database_credentials s))"
    and c: "c \<in> set (database_credentials s)" "dc_database_instance_id c = trim i"
    and pending: "dc_pending_password_ct c = []" and ct: "ct \<noteq> []"
  shows "\<exists>c1 s1. StageDatabaseCredentialRotation i ct now s = (Inr c1, s1) \<and>
    dc_password_ct c1 = dc_password_ct c \<and> dc_generation c1 = dc_generation c \<and>
    (\<forall>ct' t. \<not> is_Ok (fst (StageDatabaseCredentialRotation i ct' t s1)) \<and>
       snd (StageDatabaseCredentialRotation i ct' t s1) = s1) \<and>
    (\<forall>t. \<exists>c2 s2. CommitStagedDatabaseCredentialRotation i t s1 = (Inr c2, s2) \<and>
       dc_password_ct c2 = ct \<and> dc_pending_password_ct c2 = [] \<and> dc_generation c2 = dc_generation c + 1 \<and>
       (\<forall>t'. \<not> is_Ok (fst (CommitStagedDatabaseCredentialRotation i t' s2)))) \<and>
    (\<forall>t. \<exists>s2 c2. ClearStagedDatabaseCredentialRotation i t s1 = (Inr (), s2) \<and>
       GetDatabaseCredentialSealed i s2 = (Inr c2, s2) \<and> dc_password_ct c2 = dc_password_ct c \<and>
       dc_pending_password_ct c2 = [] \<and> dc_generation c2 = dc_generation c)"
proof -
  let ?g = "\<lambda>x. x\<lparr>dc_pending_password_ct := ct, dc_pending_created_at := rfc3339_nano now,
    dc_updated_at := rfc3339_nano now\<rparr>"
  let ?s1 = "s\<lparr>database_credentials := sql_update (stageable (trim i)) ?g (database_credentials s)\<rparr>"
  have "stageable (trim i) c" using c(2) pending by (simp add: stageable_def)
  note u = credential_update [where p = "stageable (trim i)" and g = ?g, OF d c this,
      simplified stageable_def [abs_def], simplified]
  have stage: "StageDatabaseCredentialRotation i ct now s = (Inr (?g c), ?s1)"
    using u(1,2) ct by (simp add: StageDatabaseCredentialRotation_def Let_def stageable_def [abs_def])
  have d1: "distinct (map dc_database_instance_id (database_credentials ?s1))" "?g c \<in> set (database_credentials ?s1)"
    "dc_database_instance_id (?g c) = trim i"
    using u(3,4) c(2) by (simp_all add: stageable_def [abs_def])
  have again: "\<not> is_Ok (fst (StageDatabaseCredentialRotation i ct' t ?s1)) \<and>
      snd (StageDatabaseCredentialRotation i ct' t ?s1) = ?s1" for ct' t
    using credential_none [OF d1, of "stageable (trim i)"] ct
    by (simp add: StageDatabaseCredentialRotation_def Let_def stageable_def)
  show ?thesis
    using stage again commit_staged [OF d1] clear_staged [OF d1] ct
    by (intro exI [of _ "?g c"] exI [of _ ?s1]) simp
qed

theorem rotation_two_phase_witness:
  "\<exists>c1 s1. StageDatabaseCredentialRotation ''di'' ''new'' 7 db_store = (Inr c1, s1) \<and>
    dc_password_ct c1 = ''p''"
proof -
  have c: "db_credential \<in> set (database_credentials db_store)" "dc_database_instance_id db_credential = trim ''di''"
    "dc_pending_password_ct db_credential = []" "dc_password_ct db_credential = ''p''"
    by (simp_all add: db_credential_def new_credential_row_def db_input_def)
  have d: "distinct (map dc_database_instance_id (database_credentials db_store))" by simp
  show ?thesis
    using rotation_two_phase [OF d c(1-3), of "''new''" 7] c(4) by auto
qed

section \<open>Deletion, restoration, purge\<close>

lemma list_instances: "set (ListDatabaseInstances i s) = {d \<in> set (database_instances s). di_service_id d = trim i}"
  by (auto simp: ListDatabaseInstances_def sql_order_def)



lemma restore_refused:
  "\<exists>d \<in> set ds. instance_live d \<or> purge_passed d now \<Longrightarrow>
    \<exists>e. restore_instances svc actor ids n now ds s = Inl e"
  by (induction svc actor ids n now ds s rule: restore_instances.induct)
    (fastforce simp: Let_def split: sum.split prod.split)+

lemma find_bad: "d \<in> set ds \<Longrightarrow> p d \<Longrightarrow> \<exists>x. find p ds = Some x \<and> p x"
  by (induction ds) auto

text \<open>The instances a finished deletion leaves.\<close>

lemma finalized_instances:
  assumes "FinalizeDatabaseServiceDeletion i ret actor nid now s = (Inr insts, s')"
  shows "\<exists>d \<in> set (ListDatabaseInstances i s'). di_deleted_at d = rfc3339_nano now \<and>
      di_purge_after d = rfc3339_nano (add_dur now ret)"
    and "0 < ret"
proof -
  let ?p = "\<lambda>d. di_service_id d = trim i \<and> di_deleted_at d = [] \<and> di_desired_state d = ''deleted''"
  let ?f = "\<lambda>d. d\<lparr>di_docker_container_id := [], di_desired_state := ''deleted'', di_status := ''deleted'',
    di_deleted_at := rfc3339_nano now, di_purge_after := rfc3339_nano (add_dur now ret),
    di_updated_at := rfc3339_nano now\<rparr>"
  have ret: "\<not> ret \<le> 0" and cnt: "sql_count ?p (database_instances s) \<noteq> 0"
    using assms by (auto simp: FinalizeDatabaseServiceDeletion_def Let_def split: if_splits)
  obtain d where d: "d \<in> set (database_instances s)" "?p d"
    using cnt unfolding sql_count_eq_0 by blast
  have "database_instances s' = sql_update ?p ?f (database_instances s)"
    using assms by (auto simp: FinalizeDatabaseServiceDeletion_def Let_def dest!: enqueue_frame
        split: if_splits sum.splits)
  then have "?f d \<in> set (ListDatabaseInstances i s')"
    using d by (auto simp: list_instances set_sql_update image_iff intro!: bexI [of _ d])
  then show "\<exists>d \<in> set (ListDatabaseInstances i s'). di_deleted_at d = rfc3339_nano now \<and>
      di_purge_after d = rfc3339_nano (add_dur now ret)" by (rule bexI [rotated]) simp
  show "0 < ret" using ret by simp
qed

text \<open>C22. The retention window of a finished deletion is honoured to the nanosecond: before its end the
  records cannot be purged, from its end on the service cannot be restored, and a refused purge or
  restoration changes nothing.\<close>

theorem retention_window:
  assumes fin: "FinalizeDatabaseServiceDeletion i ret actor nid now s = (Inr insts, s')"
    and year: "year_of now < 10000" "year_of (add_dur now ret) < 10000"
  shows "(int t < int now + ret \<longrightarrow> (\<exists>e. PurgeDatabaseServiceRecords i t s' = (Inl e, s'))) \<and>
    (int now + ret \<le> int t \<longrightarrow> (\<exists>e. RestoreDeletedDatabaseService i actor' ids t s' = (Inl e, s')))"
proof -
  obtain d where d: "d \<in> set (ListDatabaseInstances i s')" "di_deleted_at d = rfc3339_nano now"
    "di_purge_after d = rfc3339_nano (add_dur now ret)"
    using finalized_instances(1) [OF fin] by blast
  have ne: "ListDatabaseInstances i s' \<noteq> []" using d(1) by auto
  have dur: "int (add_dur now ret) = int now + ret"
    using finalized_instances(2) [OF fin] by (simp add: add_dur_def)
  have parsed: "parse_time (di_purge_after d) = Some (add_dur now ret)"
    using year(2) d(3) by simp
  have purge: "\<exists>e. PurgeDatabaseServiceRecords i t s' = (Inl e, s')" if "int t < int now + ret"
  proof -
    have "\<not> purge_eligible t d" using parsed dur that by (simp add: purge_eligible_def)
    then obtain x where "find (\<lambda>d. \<not> purge_eligible t d) (ListDatabaseInstances i s') = Some x"
      using find_bad [OF d(1), of "\<lambda>d. \<not> purge_eligible t d"] by auto
    then show ?thesis using ne by (simp add: PurgeDatabaseServiceRecords_def Let_def)
  qed
  have restore: "\<exists>e. RestoreDeletedDatabaseService i actor' ids t s' = (Inl e, s')" if "int now + ret \<le> int t"
  proof -
    have "purge_passed d t" using parsed dur that by (simp add: purge_passed_def)
    then obtain e where "restore_instances i actor' ids 0 t (ListDatabaseInstances i s') s' = Inl e"
      using restore_refused [of "ListDatabaseInstances i s'" t] d(1) by blast
    then show ?thesis using ne by (simp add: RestoreDeletedDatabaseService_def Let_def)
  qed
  show ?thesis using purge restore by blast
qed

lemma early_years: "year_of 5 < 10000" "year_of (add_dur 5 1000) < 10000"
  by (simp_all add: year_of_def secs_of_def ns_per_sec_def civil_date_def add_dur_def
      civil_year.simps [of 1970 0] month_lens_def year_len_def leap_year_def split: prod.split)

definition db_closing :: store where
  "db_closing = db_store\<lparr>operations := [], database_operations := [],
     database_instances := [db_instance\<lparr>di_desired_state := ''deleted''\<rparr>]\<rparr>"

theorem retention_window_witness:
  "\<exists>s' e. snd (FinalizeDatabaseServiceDeletion ''ds'' 1000 ''me'' ''o2'' 5 db_closing) = s' \<and>
     PurgeDatabaseServiceRecords ''ds'' 500 s' = (Inl e, s')"
proof -
  have "\<exists>insts s'. FinalizeDatabaseServiceDeletion ''ds'' 1000 ''me'' ''o2'' 5 db_closing = (Inr insts, s')"
    by (simp add: FinalizeDatabaseServiceDeletion_def Let_def db_closing_def db_instance_def
        new_instance_row_def sql_count_def service_ops_def enqueue_database_operation_def
        insert_database_operation_def new_database_operation_def database_operation_types_def
        db_store_def db_service_def new_database_service_row_def insertDatabaseOperationQueueRow_def
        sql_get_def insert_operation_def queue_row_of_def operation_statuses_def)
  then obtain insts s' where fin:
    "FinalizeDatabaseServiceDeletion ''ds'' 1000 ''me'' ''o2'' 5 db_closing = (Inr insts, s')" by blast
  then show ?thesis
    using retention_window [OF fin early_years, of 500] by simp
qed

section \<open>Creation\<close>

text \<open>What the loop over the instances reserves, entry by entry.\<close>

definition reserved :: "string \<Rightarrow> string \<Rightarrow> instance_input \<Rightarrow> database_instance_row \<Rightarrow>
    database_operation_row \<Rightarrow> operation_row \<Rightarrow> bool" where
  "reserved svc actor c inst op q \<longleftrightarrow>
     di_service_id inst = svc \<and> di_environment_id inst = trim (ii_environment_id c) \<and>
     di_desired_state inst = ''running'' \<and> di_status inst = ''provisioning'' \<and>
     dbo_database_instance_id op = Some (di_id inst) \<and> dbo_service_id op = svc \<and>
     op_id q = dbo_id op \<and> op_status q = ''queued'' \<and> op_kind q = ''db_provision'' \<and>
     op_lock_key q = ''dbi:'' @ di_id inst \<and> op_actor q = trim actor"

lemma enqueue_appends:
  assumes "enqueue_database_operation d s = Inr s'" and "trim (dbo_id d) = dbo_id d"
  shows "\<exists>q. operations s' = operations s @ [q] \<and> q = queue_row_of (s\<lparr>database_operations := database_operations s @ [d]\<rparr>) d"
proof -
  obtain s1 where s1: "insert_database_operation d s = Inr s1" "insertDatabaseOperationQueueRow (dbo_id d) s1 = Inr s'"
    using assms(1) by (auto simp: enqueue_database_operation_def split: sum.splits)
  note ins = insert_database_operation_ok [OF s1(1)]
  have "sql_get (\<lambda>x. dbo_id x = dbo_id d) (database_operations s) = None"
    using ins(2) unfolding sql_get_None by (metis image_eqI)
  then have "sql_get (\<lambda>x. dbo_id x = trim (dbo_id d)) (database_operations s @ [d]) = Some d"
    using assms(2) unfolding sql_get_append by (simp add: sql_get_def)
  then have "insert_operation (queue_row_of s1 d) s1 = Inr s'"
    using s1(2) by (simp add: insertDatabaseOperationQueueRow_def ins(1))
  then show ?thesis by (auto simp: ins(1) dest!: insert_operation_frame)
qed

lemma create_instance_reserves:
  assumes ok: "create_instance ids app svc actor stamp seen c n s = Inr (inst, bs, op, m, s')"
    and ids: "good_ids ids"
  shows "\<exists>q. operations s' = operations s @ [q] \<and> reserved svc actor c inst op q"
proof (rule create_instance_Inr [OF ok])
  fix s1 s2 s3 k
  assume i: "insert_instance (new_instance_row (ids n) svc stamp c) s = Inr s1"
    "insert_credential (new_credential_row (ids n) stamp c) s1 = Inr s2"
    "create_bindings ids app (ids n) (trim (ii_environment_id c)) stamp (ii_bindings c) (Suc n) s2 = Inr (bs, k, s3)"
    and en: "enqueue_database_operation op s3 = Inr s'"
    and op: "op = new_database_operation (ids k) svc (Some (ids n)) ''provision'' ''reserved'' actor stamp"
    and inst: "inst = new_instance_row (ids n) svc stamp c"
  have "operations s3 = operations s"
    using insert_rows_tables i create_bindings_tables by metis
  moreover have "trim (dbo_id op) = dbo_id op" using ids by (simp add: op new_database_operation_def good_ids_def)
  ultimately obtain q where q: "operations s' = operations s @ [q]"
    "q = queue_row_of (s3\<lparr>database_operations := database_operations s3 @ [op]\<rparr>) op"
    using enqueue_appends [OF en] by auto
  moreover have "ids n \<noteq> []" using ids by (simp add: good_ids_def)
  ultimately show ?thesis
    by (auto simp: reserved_def op inst queue_row_of_def new_database_operation_def new_instance_row_def)
qed

lemma create_instances_reserve:
  "create_instances ids app svc actor stamp seen cs n s = Inr (insts, bs, ops, s') \<Longrightarrow> good_ids ids \<Longrightarrow>
    \<exists>qs. operations s' = operations s @ qs \<and> length insts = length cs \<and> length ops = length cs \<and>
      length qs = length cs \<and>
      (\<forall>k < length cs. reserved svc actor (cs ! k) (insts ! k) (ops ! k) (qs ! k)) \<and>
      distinct (map (\<lambda>c. trim (ii_environment_id c)) cs) \<and>
      set (map (\<lambda>c. trim (ii_environment_id c)) cs) \<inter> set seen = {}"
proof (induction ids app svc actor stamp seen cs n s arbitrary: insts bs ops rule: create_instances.induct)
  case (2 ids app svc actor stamp seen c cs n s)
  obtain inst b op m s1 where one: "create_instance ids app svc actor stamp seen c n s = Inr (inst, b, op, m, s1)"
    using 2(2) by (cases "create_instance ids app svc actor stamp seen c n s") auto
  obtain insts' bs' ops' where rest:
    "create_instances ids app svc actor stamp (trim (ii_environment_id c) # seen) cs m s1 = Inr (insts', bs', ops', s')"
    and eq: "insts = inst # insts'" "ops = op # ops'"
    using 2(2) one by (auto split: sum.splits prod.splits)
  obtain q where q: "operations s1 = operations s @ [q]" "reserved svc actor c inst op q"
    using create_instance_reserves [OF one 2(3)] by blast
  obtain qs where qs: "operations s' = operations s1 @ qs" "length insts' = length cs" "length ops' = length cs"
    "length qs = length cs" "\<forall>k < length cs. reserved svc actor (cs ! k) (insts' ! k) (ops' ! k) (qs ! k)"
    "distinct (map (\<lambda>c. trim (ii_environment_id c)) cs)"
    "set (map (\<lambda>c. trim (ii_environment_id c)) cs) \<inter> set (trim (ii_environment_id c) # seen) = {}"
    using 2(1) [OF one refl refl refl refl rest 2(3)] by blast
  have "trim (ii_environment_id c) \<notin> set seen" using one by (auto elim!: create_instance_Inr)
  then show ?case
    using q qs eq by (intro exI [of _ "q # qs"]) (auto simp: nth_Cons split: nat.split)
qed simp

text \<open>Creating a database service is all or nothing.  A refused request leaves the store as it
  was; an accepted one reserves exactly one instance per requested environment, no environment
  twice, and queues for each a provisioning operation locked on that instance.\<close>

theorem create_database_atomic:
  assumes ids: "good_ids ids"
  shows "case CreateDatabaseService i ids now s of
      (Inl e, s') \<Rightarrow> s' = s
    | (Inr c, s') \<Rightarrow> \<exists>qs. operations s' = operations s @ qs \<and> length qs = length (cd_instances i) \<and>
        length (crd_instances c) = length (cd_instances i) \<and>
        (\<forall>k < length (cd_instances i). reserved (svc_id (crd_service c)) (cd_actor i) (cd_instances i ! k)
           (crd_instances c ! k) (crd_operations c ! k) (qs ! k)) \<and>
        distinct (map di_environment_id (crd_instances c))"
proof (cases "fst (CreateDatabaseService i ids now s)")
  case (Inl e)
  then show ?thesis
    by (auto simp: CreateDatabaseService_def Let_def simp del: sql_exists_iff split: if_splits sum.splits prod.splits)
next
  case (Inr c)
  then obtain vs ds bs insts ops s' where
    cr: "create_instances ids (trim (cd_application_id i)) (ids 0) (cd_actor i) (rfc3339 now) []
      (cd_instances i) 1 (s\<lparr>services := vs, database_services := ds\<rparr>) = Inr (insts, bs, ops, s')"
    and c: "svc_id (crd_service c) = ids 0" "crd_instances c = insts" "crd_operations c = ops"
    and res: "CreateDatabaseService i ids now s = (Inr c, s')"
    by (auto simp: CreateDatabaseService_def Let_def new_database_service_row_def
        simp del: sql_exists_iff split: if_splits sum.splits prod.splits)
  obtain qs where qs: "operations s' = operations s @ qs" "length insts = length (cd_instances i)"
    "length qs = length (cd_instances i)"
    "\<forall>k < length (cd_instances i). reserved (ids 0) (cd_actor i) (cd_instances i ! k) (insts ! k) (ops ! k) (qs ! k)"
    "distinct (map (\<lambda>c. trim (ii_environment_id c)) (cd_instances i))"
    using create_instances_reserve [OF cr ids] by auto
  have "map di_environment_id insts = map (\<lambda>c. trim (ii_environment_id c)) (cd_instances i)"
    by (rule nth_equalityI) (use qs in \<open>auto simp: reserved_def\<close>)
  then show ?thesis using qs c unfolding res by auto
qed

theorem create_database_atomic_witness:
  "case CreateDatabaseService db_input db_ids 0 shop of
      (Inl e, s') \<Rightarrow> s' = shop
    | (Inr c, s') \<Rightarrow> \<exists>qs. operations s' = operations shop @ qs \<and> length qs = 1"
proof -
  have "trim (db_ids n) = db_ids n" for n
    by (rule trim_no_space) (auto simp: db_ids_def go_space_def dest!: show_nat_digits digit_not_space)
  then have "good_ids db_ids" by (simp add: good_ids_def db_ids_def)
  moreover have "length (cd_instances db_input) = 1" by (simp add: db_input_def)
  ultimately show ?thesis
    using create_database_atomic [where ids = db_ids and i = db_input and now = 0 and s = shop]
    by (auto split: prod.splits sum.splits)
qed

end
