(* ===== verification/HF_Db_Bindings.thy ===== *)
theory HF_Db_Bindings
  imports HF_Db_Props
begin

text \<open>
  The bindings that hand a database's connection string to application services as an environment
  variable: under every transaction of the managed-database code their ids stay unique, no service
  gets the same variable twice in an environment, and every key is a normalised variable name.
\<close>

section \<open>Keys\<close>

lemma key_char_keeps: "key_char b c \<Longrightarrow> upper_char c = c \<and> \<not> go_space c"
  by (auto simp: key_char_def is_upper_letter_def is_digit_def upper_char_def go_space_def Let_def)

lemma normalize_key:
  assumes "normalizeDatabaseBindingVariableKey v = Some k"
  shows "k \<noteq> []" "key_char True (hd k)" "\<forall>c \<in> set (tl k). key_char False c"
    "normalizeDatabaseBindingVariableKey k = Some k"
proof -
  obtain c cs where k: "k = c # cs" "key_char True c" "list_all (key_char False) cs"
    using assms by (cases "to_upper (trim v)")
      (force simp: normalizeDatabaseBindingVariableKey_def Let_def split: if_splits)+
  then show "k \<noteq> []" "key_char True (hd k)" "\<forall>c \<in> set (tl k). key_char False c"
    by (simp_all add: list_all_iff)
  have keep: "\<forall>x \<in> set k. upper_char x = x \<and> \<not> go_space x"
    using k key_char_keeps by (auto simp: list_all_iff)
  then have "trim k = k" by (intro trim_no_space) blast
  moreover have "to_upper k = k" using keep by (simp add: to_upper_def map_idI)
  ultimately show "normalizeDatabaseBindingVariableKey k = Some k"
    using k by (simp add: normalizeDatabaseBindingVariableKey_def)
qed

definition binding_key :: "database_binding_row \<Rightarrow> string \<times> string \<times> string" where
  "binding_key b = (bd_environment_id b, bd_consumer_service_id b, bd_variable_key b)"

definition bindings_ok :: "database_binding_row list \<Rightarrow> bool" where
  "bindings_ok t \<longleftrightarrow> distinct (map bd_id t) \<and> distinct (map binding_key t) \<and>
     (\<forall>b \<in> set t. normalizeDatabaseBindingVariableKey (bd_variable_key b) = Some (bd_variable_key b))"

lemma bindings_ok_append:
  assumes "bindings_ok t" and "\<forall>x \<in> set t. bd_id x \<noteq> bd_id r \<and> binding_key x \<noteq> binding_key r"
    and "normalizeDatabaseBindingVariableKey (bd_variable_key r) = Some (bd_variable_key r)"
  shows "bindings_ok (t @ [r])"
proof -
  have "bd_id r \<notin> bd_id ` set t" "binding_key r \<notin> binding_key ` set t" using assms(2) by fastforce+
  then show ?thesis using assms(1,3) by (auto simp: bindings_ok_def)
qed

lemma bindings_ok_insert:
  assumes "insert_binding r s = Inr s'" and ok: "bindings_ok (database_bindings s)"
    and "normalizeDatabaseBindingVariableKey v = Some (bd_variable_key r)"
  shows "bindings_ok (database_bindings s')"
proof -
  have s': "database_bindings s' = database_bindings s @ [r]"
    and "\<forall>x \<in> set (database_bindings s). \<not> binding_clash r x"
    using assms(1) by (auto simp: insert_binding_def split: if_splits)
  then have "\<forall>x \<in> set (database_bindings s). bd_id x \<noteq> bd_id r \<and> binding_key x \<noteq> binding_key r"
    by (auto simp: binding_clash_def binding_key_def)
  then show ?thesis unfolding s' by (rule bindings_ok_append [OF ok _ normalize_key(4) [OF assms(3)]])
qed

lemma bindings_ok_create:
  "create_binding nid app inst env stamp b s = Inr (row, s') \<Longrightarrow> bindings_ok (database_bindings s) \<Longrightarrow>
    bindings_ok (database_bindings s')"
  by (auto simp: create_binding_def Let_def elim!: bindings_ok_insert split: option.splits if_splits sum.splits)

lemma bindings_ok_creates:
  "create_bindings ids app inst env stamp bs n s = Inr (rows, m, s') \<Longrightarrow> bindings_ok (database_bindings s) \<Longrightarrow>
    bindings_ok (database_bindings s')"
  by (induction ids app inst env stamp bs n s arbitrary: rows rule: create_bindings.induct)
    (fastforce dest: bindings_ok_create split: sum.splits prod.splits)+

lemma other_rows_bindings:
  "insert_instance r s = Inr s' \<Longrightarrow> database_bindings s' = database_bindings s"
  "insert_credential c s = Inr s' \<Longrightarrow> database_bindings s' = database_bindings s"
  "enqueue_database_operation d s = Inr s' \<Longrightarrow> database_bindings s' = database_bindings s"
  by (auto simp: insert_instance_def insert_credential_def dest!: enqueue_frame split: if_splits)

lemma bindings_ok_instance:
  assumes "create_instance ids app svc actor stamp seen c n s = Inr (inst, bs, op, m, s')"
    and "bindings_ok (database_bindings s)"
  shows "bindings_ok (database_bindings s')"
  using assms by (auto elim!: create_instance_Inr dest!: other_rows_bindings bindings_ok_creates)

lemma bindings_ok_instances:
  "create_instances ids app svc actor stamp seen cs n s = Inr (insts, bs, ops, s') \<Longrightarrow>
    bindings_ok (database_bindings s) \<Longrightarrow> bindings_ok (database_bindings s')"
  by (induction ids app svc actor stamp seen cs n s arbitrary: insts bs ops rule: create_instances.induct)
    (fastforce dest: bindings_ok_instance split: sum.splits prod.splits)+

lemma bindings_ok_delete: "bindings_ok t \<Longrightarrow> bindings_ok (sql_delete p t)"
  by (auto simp: bindings_ok_def distinct_map_filter_key) (auto simp: sql_delete_def)

lemma check_binding_key:
  "check_binding inst con key rep s = Inr (d, c, k) \<Longrightarrow> normalizeDatabaseBindingVariableKey key = Some k"
  by (auto simp: check_binding_def Let_def split: sum.splits if_splits option.splits prod.splits)

lemma bindings_ok_change:
  assumes ok: "bindings_ok t" and c: "c \<in> set t" and id: "\<And>b. bd_id (f b) = bd_id b"
    and key: "normalizeDatabaseBindingVariableKey (bd_variable_key (f c)) = Some (bd_variable_key (f c))"
    and free: "\<forall>x \<in> set t. bd_id x \<noteq> bd_id c \<longrightarrow> binding_key x \<noteq> binding_key (f c)"
  shows "bindings_ok (sql_update (\<lambda>b. bd_id b = bd_id c) f t)"
proof -
  let ?g = "\<lambda>b. if bd_id b = bd_id c then f b else b"
  have dist: "distinct (map bd_id t)" "distinct (map binding_key t)" using ok by (simp_all add: bindings_ok_def)
  have only: "?g b = (if b = c then f c else b)" if "b \<in> set t" for b
    using distinct_key_eq [OF dist(1) that c] by auto
  have "inj_on (binding_key \<circ> ?g) (set t)"
  proof (rule inj_onI)
    fix x y assume xy: "x \<in> set t" "y \<in> set t" "(binding_key \<circ> ?g) x = (binding_key \<circ> ?g) y"
    then show "x = y"
      using free c distinct_key_eq [OF dist(1)] distinct_key_eq [OF dist(2)]
      by (auto split: if_splits) metis+
  qed
  then have "distinct (map binding_key (sql_update (\<lambda>b. bd_id b = bd_id c) f t))"
    using dist by (simp add: sql_update_def distinct_map)
  moreover have "normalizeDatabaseBindingVariableKey (bd_variable_key b) = Some (bd_variable_key b)"
    if b: "b \<in> set (sql_update (\<lambda>b. bd_id b = bd_id c) f t)" for b
    using b key ok only by (auto simp: set_sql_update bindings_ok_def)
  ultimately show ?thesis
    using dist by (simp add: bindings_ok_def map_sql_update id)
qed

lemma bindings_ok_rebind:
  assumes ok: "bindings_ok (database_bindings s)"
  shows "bindings_ok (database_bindings (snd (UpdateDatabaseBinding i con key rep now s)))"
proof (cases "sql_get (\<lambda>b. bd_id b = trim i) (database_bindings s)")
  case (Some c)
  have c: "c \<in> set (database_bindings s)" "bd_id c = trim i" using sql_get_Some [OF Some] by auto
  show ?thesis
  proof (cases "check_binding (bd_database_instance_id c) con key rep s")
    case (Inr p)
    obtain inst consumer k where p: "p = (inst, consumer, k)" by (cases p) auto
    have k: "normalizeDatabaseBindingVariableKey k = Some k"
      using check_binding_key [OF Inr [unfolded p]] normalize_key(4) by blast
    let ?f = "\<lambda>b. b\<lparr>bd_environment_id := di_environment_id inst, bd_consumer_service_id := consumer,
      bd_variable_key := k, bd_replace_existing := rep, bd_updated_at := rfc3339_nano now\<rparr>"
    have "bindings_ok (sql_update (\<lambda>b. bd_id b = bd_id c) ?f (database_bindings s))"
      if "\<not> (\<exists>x \<in> set (database_bindings s). bd_id x \<noteq> trim i \<and> binding_clash (?f c) x)"
      by (rule bindings_ok_change [OF ok c(1)]) (use k c(2) that in \<open>auto simp: binding_clash_def binding_key_def\<close>)
    then show ?thesis
      using Some Inr p ok c(2) by (simp add: UpdateDatabaseBinding_def Let_def)
  qed (simp add: UpdateDatabaseBinding_def Let_def Some ok)
qed (simp add: UpdateDatabaseBinding_def Let_def ok)

text \<open>The transactions that do not write bindings.\<close>

lemma restore_keeps_bindings:
  "restore_instances svc actor ids n now ds s = Inr (ops, s') \<Longrightarrow> database_bindings s' = database_bindings s"
  by (induction svc actor ids n now ds s arbitrary: ops rule: restore_instances.induct)
    (fastforce simp: Let_def dest: other_rows_bindings(3) split: if_splits sum.splits prod.splits)+

lemma quiet_bindings:
  "database_bindings (snd (QueueDatabaseInstanceOperation inst type actor nid now s)) = database_bindings s"
  "database_bindings (snd (QueueDatabaseUpgrade inst ver img actor nid now s)) = database_bindings s"
  "database_bindings (snd (UpdateDatabaseOperation oid st step p code msg now s)) = database_bindings s"
  "database_bindings (snd (UpdateDatabaseInstanceState inst ist now s)) = database_bindings s"
  "database_bindings (snd (CommitDatabaseInstanceUpgrade inst prev targ ctr now s)) = database_bindings s"
  "database_bindings (snd (UpdateDatabaseUpgradeJobStatus oid jst now s)) = database_bindings s"
  "database_bindings (snd (StageDatabaseCredentialRotation inst ct now s)) = database_bindings s"
  "database_bindings (snd (CommitStagedDatabaseCredentialRotation inst now s)) = database_bindings s"
  "database_bindings (snd (ClearStagedDatabaseCredentialRotation inst now s)) = database_bindings s"
  "database_bindings (snd (FinalizeDatabaseServiceDeletion svc ret actor nid now s)) = database_bindings s"
  "database_bindings (snd (RestoreDeletedDatabaseService svc actor ids now s)) = database_bindings s"
  "database_bindings (snd (QueueDatabaseBackup inst dest trig actor days lim ids now s)) = database_bindings s"
  "database_bindings (snd (QueueDatabaseRestore bk targ safety mode actor lim nid now s)) = database_bindings s"
  "database_bindings (snd (MarkDatabaseBackupRunning bk now s)) = database_bindings s"
  "database_bindings (snd (CompleteDatabaseBackup bk cin now s)) = database_bindings s"
  "database_bindings (snd (PrepareDatabaseBackupDeletion bk now s)) = database_bindings s"
  "database_bindings (snd (DeleteDatabaseBackupRecord bk s)) = database_bindings s"
  "database_bindings (snd (UpdateDatabaseRestoreJobStatus oid rst now s)) = database_bindings s"
  subgoal by (auto simp: QueueDatabaseInstanceOperation_def Let_def dest!: other_rows_bindings(3) split: sum.split)
  subgoal by (auto simp: QueueDatabaseUpgrade_def Let_def insert_database_operation_def
      insertDatabaseOperationQueueRow_def insert_operation_def split: sum.split option.split)
  subgoal by (simp add: UpdateDatabaseOperation_def GetDatabaseOperation_def Let_def split: option.split)
  subgoal by (simp add: UpdateDatabaseInstanceState_def GetDatabaseInstance_def Let_def split: option.split)
  subgoal by (simp add: CommitDatabaseInstanceUpgrade_def GetDatabaseInstance_def Let_def split: option.split)
  subgoal by (simp add: UpdateDatabaseUpgradeJobStatus_def Let_def)
  subgoal by (simp add: StageDatabaseCredentialRotation_def GetDatabaseCredentialSealed_def Let_def split: option.split)
  subgoal by (simp add: CommitStagedDatabaseCredentialRotation_def GetDatabaseCredentialSealed_def Let_def split: option.split)
  subgoal by (simp add: ClearStagedDatabaseCredentialRotation_def Let_def)
  subgoal by (auto simp: FinalizeDatabaseServiceDeletion_def Let_def dest!: other_rows_bindings(3) split: sum.split)
  subgoal by (auto simp: RestoreDeletedDatabaseService_def Let_def dest!: restore_keeps_bindings split: sum.split)
  subgoal by (auto simp: QueueDatabaseBackup_def Let_def insert_backup_def insert_database_operation_def
      insertDatabaseOperationQueueRow_def insert_operation_def split: sum.split option.split prod.split if_splits)
  subgoal by (auto simp: QueueDatabaseRestore_def Let_def insert_restore_job_def insert_database_operation_def
      insertDatabaseOperationQueueRow_def insert_operation_def split: sum.split option.split prod.split if_splits)
  subgoal by (simp add: MarkDatabaseBackupRunning_def Let_def)
  subgoal by (simp add: CompleteDatabaseBackup_def GetDatabaseBackup_def Let_def split: option.split)
  subgoal by (simp add: PrepareDatabaseBackupDeletion_def MarkDatabaseBackupDeleting_def Let_def split: sum.split)
  subgoal by (simp add: DeleteDatabaseBackupRecord_def Let_def)
  subgoal by (simp add: UpdateDatabaseRestoreJobStatus_def Let_def)
  done

lemma bindings_ok_create_service:
  assumes "bindings_ok (database_bindings s)"
  shows "bindings_ok (database_bindings (snd (CreateDatabaseService i ids now s)))"
  using assms bindings_ok_instances
  by (fastforce simp: CreateDatabaseService_def Let_def simp del: sql_exists_iff split: sum.split prod.split)

lemma bindings_ok_bind:
  assumes "bindings_ok (database_bindings s)"
  shows "bindings_ok (database_bindings (snd (CreateDatabaseBinding inst con key rep nid now s)))"
proof -
  have "normalizeDatabaseBindingVariableKey key = Some k" if "check_binding inst con key rep s = Inr (d, c, k)" for d c k
    using that by (rule check_binding_key)
  then show ?thesis
    using assms by (auto simp: CreateDatabaseBinding_def Let_def elim!: bindings_ok_insert
        split: sum.split prod.split)
qed

lemma bindings_ok_removed:
  assumes "bindings_ok (database_bindings s)"
  shows "bindings_ok (database_bindings (snd (DeleteDatabaseBinding i s)))"
    and "bindings_ok (database_bindings (snd (BeginDatabaseServiceDeletion i now s)))"
    and "bindings_ok (database_bindings (snd (PurgeDatabaseServiceRecords i now s)))"
proof -
  show "bindings_ok (database_bindings (snd (DeleteDatabaseBinding i s)))"
    using assms by (simp add: DeleteDatabaseBinding_def bindings_ok_delete)
  show "bindings_ok (database_bindings (snd (BeginDatabaseServiceDeletion i now s)))"
    using assms by (simp add: BeginDatabaseServiceDeletion_def Let_def deletion_asked_def
        deletion_begun_tables bindings_ok_delete split: sum.split)
  show "bindings_ok (database_bindings (snd (PurgeDatabaseServiceRecords i now s)))"
    using assms by (simp add: PurgeDatabaseServiceRecords_def DeleteService_def Let_def cascade_def
        bindings_ok_delete split: option.split)
qed

lemma database_tx_bindings:
  "database_tx s s' \<Longrightarrow> bindings_ok (database_bindings s) \<Longrightarrow> bindings_ok (database_bindings s')"
  by (induction rule: database_tx.induct)
    (simp_all add: quiet_bindings bindings_ok_create_service bindings_ok_bind bindings_ok_rebind bindings_ok_removed)

interpretation binding_run: transactions database_tx "\<lambda>s. bindings_ok (database_bindings s)"
  by unfold_locales (rule database_tx_bindings)

text \<open>Along any sequence of database transactions binding ids stay unique, no service is given the
  same variable twice in one environment, and every binding's key is a variable name that
  normalisation leaves alone.\<close>

theorem bindings_stay_valid:
  assumes "database_tx\<^sup>*\<^sup>* s s'" and "bindings_ok (database_bindings s)"
  shows "bindings_ok (database_bindings s')"
  using assms by (rule binding_run.along)

theorem bindings_stay_valid_witness:
  "bindings_ok (database_bindings (snd (CreateDatabaseBinding ''di'' ''web'' ''DATABASE_URL'' False ''b1'' 5 db_store)))"
  by (rule bindings_stay_valid [OF r_into_rtranclp, OF dtx_bind])
    (simp add: bindings_ok_def db_store_def shop_def fresh_store_def)

end
