(* ===== verification/HF_Db_Legacy.thy ===== *)
theory HF_Db_Legacy
  imports HF_Db_Lifecycle
begin

text \<open>
  The older claim path over \<open>database_operations\<close> alone (internal/repository/database_services.go,
  \<open>ClaimNextDatabaseOperation\<close> to \<open>RequeueExpiredDatabaseOperations\<close>).  Production code claims
  through \<open>operations\<close>; these functions are still exported and still exercised by the tests.
  Unlike the queue, this path takes over an expired lease.
\<close>

definition MaxDatabaseOperationAttempts :: int where
  "MaxDatabaseOperationAttempts = 5"

definition lease_expired :: "string \<Rightarrow> database_operation_row \<Rightarrow> bool" where
  "lease_expired now r \<longleftrightarrow> dbo_status r = ''running'' \<and> (dbo_lease_expires_at r = [] \<or> dbo_lease_expires_at r \<le> now)"

definition restore_may_start :: "store \<Rightarrow> database_operation_row \<Rightarrow> bool" where
  "restore_may_start s r \<longleftrightarrow>
     sql_exists (\<lambda>d. Some (di_id d) = dbo_database_instance_id r \<and> di_status d = ''healthy'' \<and>
       di_desired_state d = ''running'') (database_instances s) \<and>
     sql_exists (\<lambda>j. rj_operation_id j = dbo_id r \<and>
       (case rj_safety_backup_id j of
          None \<Rightarrow> True
        | Some b \<Rightarrow> sql_exists (\<lambda>k. bk_id k = b \<and> terminal_status (bk_status k)) (database_backups s)))
       (database_restore_jobs s)"

definition legacy_claimable :: "string \<Rightarrow> store \<Rightarrow> database_operation_row \<Rightarrow> bool" where
  "legacy_claimable now s r \<longleftrightarrow>
     (dbo_status r = ''queued'' \<or> lease_expired now r) \<and>
     dbo_attempt_count r < MaxDatabaseOperationAttempts \<and>
     (case dbo_database_instance_id r of
        None \<Rightarrow> True
      | Some i \<Rightarrow> sql_exists (\<lambda>d. di_id d = i \<and> di_desired_state d \<noteq> ''deleted'') (database_instances s)) \<and>
     (dbo_operation_type r \<noteq> ''restore'' \<or> restore_may_start s r)"

definition legacy_claim_set :: "string \<Rightarrow> string \<Rightarrow> string \<Rightarrow> database_operation_row \<Rightarrow> database_operation_row" where
  "legacy_claim_set now owner expires r =
     r\<lparr>dbo_status := ''running'', dbo_progress_step := ''starting'', dbo_progress_percent := 1,
       dbo_started_at := (if dbo_started_at r = [] then now else dbo_started_at r),
       dbo_lease_owner := owner, dbo_lease_expires_at := expires,
       dbo_attempt_count := dbo_attempt_count r + 1, dbo_updated_at := now\<rparr>"

definition ClaimNextDatabaseOperation :: "string \<Rightarrow> int \<Rightarrow> instant \<Rightarrow> database_operation_row db" where
  "ClaimNextDatabaseOperation leaseOwner0 leaseDuration nowTime s =
     (let leaseOwner = trim leaseOwner0; now = rfc3339_nano nowTime;
          expires = rfc3339_nano (add_dur nowTime leaseDuration)
      in if leaseOwner = [] \<or> leaseDuration < int ns_per_sec
         then db_fail (Errorf ''database operation lease owner and duration required'' []) s
         else case sql_first (legacy_claimable now s) (\<lambda>r. (dbo_created_at r, dbo_id r)) (database_operations s) of
           None \<Rightarrow> db_fail ErrNoRows s
         | Some r \<Rightarrow>
             let p = (\<lambda>x. dbo_id x = dbo_id r \<and> (dbo_status x = ''queued'' \<or> lease_expired now x))
             in if sql_count p (database_operations s) \<noteq> 1 then db_fail ErrNoRows s
                else GetDatabaseOperation (dbo_id r) (s\<lparr>database_operations :=
                  sql_update p (legacy_claim_set now leaseOwner expires) (database_operations s)\<rparr>))"

definition RenewDatabaseOperationLease :: "string \<Rightarrow> string \<Rightarrow> int \<Rightarrow> instant \<Rightarrow> unit db" where
  "RenewDatabaseOperationLease operationID leaseOwner leaseDuration now s =
     (let p = (\<lambda>r. dbo_id r = trim operationID \<and> dbo_status r = ''running'' \<and> dbo_lease_owner r = trim leaseOwner)
      in if trim operationID = [] \<or> trim leaseOwner = [] \<or> leaseDuration < int ns_per_sec
         then db_fail (Errorf ''database operation lease id, owner, and duration required'' []) s
         else if sql_count p (database_operations s) \<noteq> 1 then db_fail ErrNoRows s
         else db_ok () (s\<lparr>database_operations := sql_update p
           (\<lambda>r. r\<lparr>dbo_lease_expires_at := rfc3339_nano (add_dur now leaseDuration),
                  dbo_updated_at := rfc3339_nano now\<rparr>) (database_operations s)\<rparr>))"

definition legacy_exhausted :: "database_operation_row \<Rightarrow> bool" where
  "legacy_exhausted r \<longleftrightarrow> dbo_status r \<in> {''queued'', ''running''} \<and>
     MaxDatabaseOperationAttempts \<le> dbo_attempt_count r"

definition FailExhaustedDatabaseOperations :: "instant \<Rightarrow> nat db" where
  "FailExhaustedDatabaseOperations at s =
     (let now = rfc3339_nano at;
          s1 = companions (\<lambda>st. st = ''queued'' \<or> st = ''running'')
                 (map dbo_id (filter legacy_exhausted (database_operations s))) ''failed'' now s
      in db_ok (sql_count legacy_exhausted (database_operations s))
           (s1\<lparr>database_operations := sql_update legacy_exhausted
             (\<lambda>r. r\<lparr>dbo_status := ''failed'', dbo_progress_step := ''interrupted'',
                    dbo_error_code := ''interrupted'',
                    dbo_error_message := ''operation exceeded the retry limit'',
                    dbo_completed_at := now, dbo_lease_owner := [], dbo_lease_expires_at := [],
                    dbo_updated_at := now\<rparr>) (database_operations s1)\<rparr>))"

definition RequeueExpiredDatabaseOperations :: "instant \<Rightarrow> nat db" where
  "RequeueExpiredDatabaseOperations at s =
     (let now = rfc3339_nano at;
          s1 = companions (\<lambda>st. st = ''running'')
                 (map dbo_id (filter (lease_expired now) (database_operations s))) ''queued'' now s
      in db_ok (sql_count (lease_expired now) (database_operations s))
           (s1\<lparr>database_operations := sql_update (lease_expired now)
             (\<lambda>r. r\<lparr>dbo_status := ''queued'', dbo_progress_step := ''recovery'',
                    dbo_progress_percent := 0, dbo_lease_owner := [], dbo_lease_expires_at := [],
                    dbo_updated_at := now\<rparr>) (database_operations s1)\<rparr>))"

section \<open>The retry limit\<close>

definition attempts_bounded :: "store \<Rightarrow> bool" where
  "attempts_bounded s \<longleftrightarrow> (\<forall>r \<in> set (database_operations s). dbo_attempt_count r \<le> MaxDatabaseOperationAttempts)"

lemma attempts_bounded_update:
  assumes "attempts_bounded s"
    and "\<And>r. r \<in> set (database_operations s) \<Longrightarrow> p r \<Longrightarrow> dbo_attempt_count (f r) \<le> MaxDatabaseOperationAttempts"
  shows "attempts_bounded (s\<lparr>database_operations := sql_update p f (database_operations s)\<rparr>)"
  using assms by (auto simp: attempts_bounded_def set_sql_update)

text \<open>A claim counts an attempt only below the limit, so the counter never passes it.\<close>

lemma claim_attempts_bounded:
  assumes b: "attempts_bounded s" and d: "distinct (map dbo_id (database_operations s))"
  shows "attempts_bounded (snd (ClaimNextDatabaseOperation ow l now s))"
proof -
  have "attempts_bounded (s\<lparr>database_operations := sql_update
      (\<lambda>x. dbo_id x = dbo_id r \<and> (dbo_status x = ''queued'' \<or> lease_expired t x))
      (legacy_claim_set t own ex) (database_operations s)\<rparr>)"
    if r: "sql_first (legacy_claimable t s) (\<lambda>r. (dbo_created_at r, dbo_id r)) (database_operations s) = Some r"
    for t own ex r
  proof (rule attempts_bounded_update [OF b])
    fix x assume x: "x \<in> set (database_operations s)"
      "dbo_id x = dbo_id r \<and> (dbo_status x = ''queued'' \<or> lease_expired t x)"
    have "r \<in> set (database_operations s)" "legacy_claimable t s r" using sql_first_Some [OF r] by auto
    then have "dbo_attempt_count x < MaxDatabaseOperationAttempts"
      using distinct_key_eq [OF d x(1)] x(2) by (auto simp: legacy_claimable_def)
    then show "dbo_attempt_count (legacy_claim_set t own ex x) \<le> MaxDatabaseOperationAttempts"
      by (simp add: legacy_claim_set_def)
  qed
  then show ?thesis
    using b by (simp add: ClaimNextDatabaseOperation_def GetDatabaseOperation_def Let_def split: option.split)
qed

text \<open>After the limit has been enforced nothing claimable is at it.\<close>

lemma fail_exhausted_clears:
  assumes "FailExhaustedDatabaseOperations at s = (Inr n, s')"
  shows "\<forall>r \<in> set (database_operations s'). \<not> legacy_exhausted r"
    and "n = sql_count legacy_exhausted (database_operations s)"
proof -
  have "database_operations (companions p ids st t s) = database_operations s" for p ids st t
    by (simp add: companions_def)
  then show "\<forall>r \<in> set (database_operations s'). \<not> legacy_exhausted r"
    using assms by (auto simp: FailExhaustedDatabaseOperations_def Let_def set_sql_update legacy_exhausted_def)
  show "n = sql_count legacy_exhausted (database_operations s)"
    using assms by (auto simp: FailExhaustedDatabaseOperations_def Let_def)
qed

end
