(* ===== verification/HF_Handlers.thy ===== *)
theory HF_Handlers
  imports HF_Backups HF_Workers
begin

text \<open>
  The two adapters that turn claimed operations into work: internal/services/
  deploy_operations_handler.go and database_operations_handler.go.  Each re-reads its domain row
  before dispatch (\<open>Ready\<close>), runs the work and reads the row again to report what really
  happened (\<open>Handle\<close>).  The work itself is an argument: a job loader and executor for deployments,
  one procedure for database operations.  It is told whether its context has been cancelled.
\<close>

section \<open>Errors of the repository layer\<close>

fun repo_err :: "go_error \<Rightarrow> err_chain" where
  "repo_err ErrNoRows = [NoRows]"
| "repo_err (Sentinel c) = [Text c]"
| "repo_err (Errorf m _) = [Text m]"
| "repo_err (ConstraintErr c) = [Text c]"

text \<open>\<open>%q\<close> of a status: printable ASCII without quotes or backslashes.\<close>

definition quoted :: "string \<Rightarrow> string" where
  "quoted s = CHR 0x22 # s @ [CHR 0x22]"

section \<open>Deployments\<close>

type_synonym 'j deploy_loader = "deployment_row \<Rightarrow> store \<Rightarrow> err_chain + 'j"
type_synonym 'j deploy_work = "'j \<Rightarrow> bool \<Rightarrow> store \<Rightarrow> err_chain \<times> store"

definition deploy_code :: "err_chain \<Rightarrow> string" where
  "deploy_code execErr =
     (let code = FirstPublicCode execErr
      in if code = [] \<or> code = ''internal_error'' then ''deploy_failed'' else code)"

definition deploy_outcome :: "deployment_row \<Rightarrow> err_chain \<Rightarrow> bool \<Rightarrow> err_chain" where
  "deploy_outcome completed execErr ctxDone =
     (if dep_status completed = DeploymentSuccess \<or> dep_status completed = DeploymentCancelled then []
      else if dep_status completed = DeploymentFailed
      then [HandlerNode (deploy_code execErr), Text (dep_error_message completed)]
      else if ctxDone then [Canceled]
      else Failf ''deploy_incomplete''
        (''deploy finished without recording an outcome (status '' @ quoted (dep_status completed) @ '')''))"

definition deploy_handle :: "'j deploy_loader \<Rightarrow> 'j deploy_work \<Rightarrow> operation \<Rightarrow> bool \<Rightarrow> store \<Rightarrow>
    err_chain \<times> store" where
  "deploy_handle load execute_deploy op ctxDone s =
     (case fst (GetServiceDeployment (oper_ID op) s) of
        Inl e \<Rightarrow> (if e = ErrNoRows then [Obsolete] else Text ''read deployment'' # repo_err e, s)
      | Inr deployment \<Rightarrow>
          (case load deployment s of
             Inl err \<Rightarrow> (Text ''load deploy job'' # err, s)
           | Inr job \<Rightarrow>
               (case execute_deploy job ctxDone s of
                  (execErr, s1) \<Rightarrow>
                    (case fst (GetServiceDeployment (oper_ID op) s1) of
                       Inl e \<Rightarrow> (Text ''read deployment outcome'' # repo_err e, s1)
                     | Inr completed \<Rightarrow> (deploy_outcome completed execErr ctxDone, s1)))))"

definition deploy_ready :: "operation \<Rightarrow> store \<Rightarrow> int \<times> err_chain" where
  "deploy_ready op s =
     (case fst (GetServiceDeployment (oper_ID op) s) of
        Inl e \<Rightarrow> (0, if e = ErrNoRows then [Obsolete] else Text ''read deployment'' # repo_err e)
      | Inr d \<Rightarrow>
          if dep_status d = DeploymentQueued \<or> dep_status d = DeploymentBuilding then (0, [])
          else (0, [Obsolete]))"

definition NewDeployOperationHandler :: "'j deploy_loader \<Rightarrow> 'j deploy_work \<Rightarrow> store handler" where
  "NewDeployOperationHandler load execute_deploy =
     \<lparr> h_kind = DeployOperationKind, h_ready = Some deploy_ready,
       h_handle = deploy_handle load execute_deploy \<rparr>"

section \<open>Managed databases\<close>

definition databaseOperationKinds :: "string list" where
  "databaseOperationKinds = [''provision'', ''restore_deleted'', ''start'', ''stop'', ''restart'',
     ''backup'', ''restore'', ''rotate_credentials'', ''upgrade'']"

definition DatabaseOperationKind :: "string \<Rightarrow> string" where
  "DatabaseOperationKind operationType = ''db_'' @ trim operationType"

type_synonym database_work = "database_operation_row \<Rightarrow> bool \<Rightarrow> store \<Rightarrow> store"

definition database_outcome :: "database_operation_row \<Rightarrow> bool \<Rightarrow> err_chain" where
  "database_outcome completed ctxDone =
     (if dbo_status completed = ''success'' \<or> dbo_status completed = ''cancelled'' then []
      else if dbo_status completed = ''failed''
      then [HandlerNode (dbo_error_code completed), Text (dbo_error_message completed)]
      else if ctxDone then [Canceled]
      else Failf ''database_operation_incomplete''
        (''operation finished without recording an outcome (status '' @ quoted (dbo_status completed) @ '')''))"

definition database_handle :: "database_work \<Rightarrow> operation \<Rightarrow> bool \<Rightarrow> store \<Rightarrow> err_chain \<times> store" where
  "database_handle process op ctxDone s =
     (case fst (GetDatabaseOperation (oper_ID op) s) of
        Inl e \<Rightarrow> (Text ''read database operation'' # repo_err e, s)
      | Inr operation \<Rightarrow>
          let s1 = process operation ctxDone s
          in (case fst (GetDatabaseOperation (oper_ID op) s1) of
                Inl e \<Rightarrow> (Text ''read database operation outcome'' # repo_err e, s1)
              | Inr completed \<Rightarrow> (database_outcome completed ctxDone, s1)))"

definition databaseRestoreRetryAfter :: int where
  "databaseRestoreRetryAfter = 5 * int ns_per_sec"

definition restoreReadiness :: "database_operation_row \<Rightarrow> store \<Rightarrow> int \<times> err_chain" where
  "restoreReadiness operation s =
     (case dbo_database_instance_id operation of
        None \<Rightarrow> (0, [])
      | Some instanceID \<Rightarrow>
          if instanceID = [] then (0, [])
          else (case fst (GetDatabaseInstance instanceID s) of
             Inl e \<Rightarrow> (0, Text ''read restore target'' # repo_err e)
           | Inr inst \<Rightarrow>
               if di_status inst \<noteq> ''healthy'' \<or> di_desired_state inst \<noteq> ''running''
               then (databaseRestoreRetryAfter, [])
               else (case fst (GetDatabaseRestoreJob (dbo_id operation) s) of
                  Inl e \<Rightarrow> (0, Text ''read restore job'' # repo_err e)
                | Inr job \<Rightarrow>
                    if trim (coalesce (rj_safety_backup_id job)) = [] then (0, [])
                    else (case fst (GetDatabaseBackup (coalesce (rj_safety_backup_id job)) s) of
                       Inl e \<Rightarrow> (0, Text ''read safety backup'' # repo_err e)
                     | Inr safety \<Rightarrow>
                         if bk_status safety \<in> {''success'', ''failed'', ''cancelled''} then (0, [])
                         else (databaseRestoreRetryAfter, [])))))"

definition database_ready :: "operation \<Rightarrow> store \<Rightarrow> int \<times> err_chain" where
  "database_ready op s =
     (case fst (GetDatabaseOperation (oper_ID op) s) of
        Inl e \<Rightarrow> (0, Text ''read database operation'' # repo_err e)
      | Inr operation \<Rightarrow>
          let gate2 = (if dbo_operation_type operation = ''restore'' then restoreReadiness operation s else (0, []))
          in (case dbo_database_instance_id operation of
                None \<Rightarrow> gate2
              | Some instanceID \<Rightarrow>
                  if instanceID = [] then gate2
                  else (case fst (GetDatabaseInstance instanceID s) of
                     Inl e \<Rightarrow> (0, Text ''read database instance'' # repo_err e)
                   | Inr inst \<Rightarrow>
                       if di_desired_state inst = ''deleted'' then (0, [Obsolete]) else gate2)))"

definition NewDatabaseOperationHandlers :: "database_work \<Rightarrow> store handler list" where
  "NewDatabaseOperationHandlers process =
     map (\<lambda>operationType. \<lparr> h_kind = DatabaseOperationKind operationType, h_ready = Some database_ready,
            h_handle = database_handle process \<rparr>) databaseOperationKinds"

end
