(* ===== verification/HF_Handler_Props.thy ===== *)
theory HF_Handler_Props
  imports HF_Handlers HF_Db_Props HF_Worker_Props
begin

text \<open>
  What the runtime records for deployments and database operations with the real handlers
  registered: work that has become pointless is cancelled without being started, a restore in
  place waits for its safety backup, and the outcome a database handler recorded is the outcome
  of the operation.
\<close>

section \<open>Executing with a readiness check\<close>

lemma execute_finish:
  assumes "registry_lookup (rt_registry r) (oper_Kind op) = Some h"
    and "ready_verdict h op s = Finish st ps code msg"
  shows "execute repository_store owner now c op r s =
    (r, complete repository_store now owner op st ps code msg s)"
  using assms by (simp add: execute_def)

lemma execute_postpone:
  assumes "registry_lookup (rt_registry r) (oper_Kind op) = Some h" and "ready_verdict h op s = Postpone d"
  shows "execute repository_store owner now c op r s = (r, snd (DeferOperation (oper_ID op) owner d now s))"
  using assms by (simp add: execute_def)

lemma execute_proceed:
  assumes "registry_lookup (rt_registry r) (oper_Kind op) = Some h" and "ready_verdict h op s = Proceed"
  shows "snd (execute repository_store owner now c op r s) =
    (case h_handle h op c s of (err, s1) \<Rightarrow>
       case handle_verdict err of (status, code, msg) \<Rightarrow>
         complete repository_store now owner op status [] code msg s1)"
  using assms by (simp add: execute_def Let_def split: prod.split)

lemma complete_snd:
  "complete repository_store now owner op st ps code msg s =
    snd (CompleteOperation \<lparr> ci_ID = oper_ID op, ci_Owner = owner, ci_Status = st,
       ci_ProgressStep = ps, ci_ErrorCode = code, ci_ErrorMessage = msg \<rparr> now s)"
  by (simp add: complete_def)

text \<open>C26. A deployment that was cancelled, or finished in any other way, after its operation was
  claimed is not run: whatever the work would do, the worker records the operation as cancelled
  and leaves the deployment as it is.\<close>

theorem finished_deployment_not_run:
  assumes wf: "queue_wf s" and held: "lease_held s (oper_ID op) owner"
    and reg: "registry_lookup (rt_registry r) (oper_Kind op) = Some (NewDeployOperationHandler load work)"
    and d: "sql_get (\<lambda>d. dep_id d = trim (oper_ID op)) (deployments s) = Some d" "\<not> dep_open d"
  shows "op_status_of (snd (execute repository_store owner now c op r s)) (oper_ID op) = Some ''cancelled'' \<and>
    d \<in> set (deployments (snd (execute repository_store owner now c op r s))) \<and>
    (\<forall>r' load' work'. registry_lookup (rt_registry r') (oper_Kind op) =
        Some (NewDeployOperationHandler load' (work' :: 'k deploy_work)) \<longrightarrow>
      snd (execute repository_store owner now c op r' s) = snd (execute repository_store owner now c op r s))"
proof -
  let ?ci = "\<lparr> ci_ID = oper_ID op, ci_Owner = owner, ci_Status = ''cancelled'',
    ci_ProgressStep = ''obsolete'', ci_ErrorCode = [], ci_ErrorMessage = [] \<rparr>"
  have v: "ready_verdict (NewDeployOperationHandler l w) op s = Finish ''cancelled'' ''obsolete'' [] []"
    for l and w :: "'m deploy_work"
    using d by (simp add: ready_verdict_def NewDeployOperationHandler_def deploy_ready_def
        GetServiceDeployment_def dep_open_def)
  have ex: "snd (execute repository_store owner now c op r' s) = snd (CompleteOperation ?ci now s)"
    if "registry_lookup (rt_registry r') (oper_Kind op) = Some (NewDeployOperationHandler l w)"
    for r' l and w :: "'m deploy_work"
    using execute_finish [OF that v] by (simp add: complete_snd)
  have "op_status_of (snd (CompleteOperation ?ci now s)) (oper_ID op) = Some ''cancelled''"
    using repo_complete_held [OF wf, of ?ci] held by (simp add: terminal_status_def)
  moreover have "closed_kept s (snd (CompleteOperation ?ci now s))"
    by (rule closed_kept_tx) (rule tx_complete)
  ultimately show ?thesis
    using ex [OF reg] ex sql_get_Some [OF d(1)] d(2) by (auto simp: closed_kept_def)
qed

theorem finished_deployment_not_run_witness:
  "op_status_of (snd (execute repository_store ''w'' 5 False web_op
     (deploy_runtime\<lparr>rt_registry := [(''deploy'', NewDeployOperationHandler (\<lambda>d s. Inr ())
        (\<lambda>j c s. ([], s\<lparr>deployments := []\<rparr>)))]\<rparr>)
     (running_store\<lparr>deployments := [web_deployment\<lparr>dep_status := ''CANCELLED''\<rparr>]\<rparr>))) ''d1'' =
    Some ''cancelled''"
proof -
  let ?s = "running_store\<lparr>deployments := [web_deployment\<lparr>dep_status := ''CANCELLED''\<rparr>]\<rparr>"
  have wf: "queue_wf ?s" using demo_wf(3) queue_wf_cong [of ?s running_store] by simp
  have held: "lease_held ?s (oper_ID web_op) ''w''"
    using running_lease by (simp add: lease_held_def web_op_sel)
  show ?thesis
    using finished_deployment_not_run [OF wf held, of _ "\<lambda>d s. Inr ()" "\<lambda>j c s. ([], s\<lparr>deployments := []\<rparr>)",
        where d = "web_deployment\<lparr>dep_status := ''CANCELLED''\<rparr>" and 'k = unit]
    by (simp add: registry_lookup_def web_op_sel trim_deploy sql_get_def dep_open_def web_deployment_def)
qed

section \<open>Restores\<close>

text \<open>A restore that replaces a database waits for its safety backup: while that backup is queued
  or running the worker puts the restore back in the queue, to be tried again five seconds later,
  without starting its work, whatever that would do.\<close>

theorem restore_waits_for_safety:
  assumes wf: "queue_wf s" and held: "lease_held s (oper_ID op) owner"
    and reg: "registry_lookup (rt_registry r) (oper_Kind op) = Some h"
      "h \<in> set (NewDatabaseOperationHandlers process)"
    and d: "GetDatabaseOperation (oper_ID op) s = (Inr d, s)" "dbo_operation_type d = ''restore''"
      "dbo_database_instance_id d = Some i" "i \<noteq> []"
    and inst: "GetDatabaseInstance i s = (Inr inst, s)" "di_desired_state inst \<noteq> ''deleted''"
    and job: "GetDatabaseRestoreJob (dbo_id d) s = (Inr j, s)" "rj_safety_backup_id j = Some b" "trim b \<noteq> []"
    and safety: "GetDatabaseBackup b s = (Inr k, s)" "bk_status k = ''queued'' \<or> bk_status k = ''running''"
  shows "snd (execute repository_store owner now c op r s) =
      snd (DeferOperation (oper_ID op) owner (5 * int ns_per_sec) now s) \<and>
    op_status_of (snd (execute repository_store owner now c op r s)) (oper_ID op) = Some ''queued''"
proof -
  have ready: "h_ready h = Some database_ready" using reg(2) by (auto simp: NewDatabaseOperationHandlers_def)
  have "restoreReadiness d s = (databaseRestoreRetryAfter, [])"
    using d(3,4) inst job safety by (auto simp: restoreReadiness_def)
  then have "ready_verdict h op s = Postpone databaseRestoreRetryAfter"
    using ready d inst
    by (simp add: ready_verdict_def database_ready_def databaseRestoreRetryAfter_def ns_per_sec_def)
  from execute_postpone [OF reg(1) this] show ?thesis
    using repo_defer_held [OF wf held] by (simp add: databaseRestoreRetryAfter_def)
qed

text \<open>The small database with a restore in place claimed by w, and its safety backup still queued.\<close>

definition restore_operation :: database_operation_row where
  "restore_operation = new_database_operation ''d1'' ''ds'' (Some ''di'') ''restore'' ''queued'' ''me'' ''t''"

definition restore_job :: restore_job_row where
  "restore_job = \<lparr> rj_operation_id = ''d1'', rj_backup_id = ''b1'', rj_target_instance_id = ''di'',
     rj_safety_backup_id = Some ''b2'', rj_mode = ''replace_current'', rj_status = ''queued'',
     rj_created_at = ''t'', rj_updated_at = ''t'' \<rparr>"

definition safety_backup :: database_backup_row where
  "safety_backup = new_backup_row ''b2'' ''o2'' db_instance ''s3'' ''safety'' ''postgresql'' ''app'' 1 0"

definition restoring_store :: store where
  "restoring_store = running_store\<lparr>database_operations := [restore_operation],
     database_instances := [db_instance], database_restore_jobs := [restore_job],
     database_backups := [safety_backup]\<rparr>"

definition database_runtime :: "database_work \<Rightarrow> store runtime" where
  "database_runtime process = deploy_runtime\<lparr>rt_registry :=
     map (\<lambda>h. (h_kind h, h)) (NewDatabaseOperationHandlers process)\<rparr>"

definition database_handler :: "database_work \<Rightarrow> string \<Rightarrow> store handler" where
  "database_handler process k = \<lparr> h_kind = k, h_ready = Some database_ready, h_handle = database_handle process \<rparr>"

lemma database_runtime_lookup:
  assumes "type \<in> set databaseOperationKinds" and "trim k = DatabaseOperationKind type"
  shows "registry_lookup (rt_registry (database_runtime process)) k =
      Some (database_handler process (DatabaseOperationKind type))"
    and "database_handler process (DatabaseOperationKind type) \<in> set (NewDatabaseOperationHandlers process)"
proof -
  have "map_of (map (\<lambda>t. (f t, g (f t))) ts) (f t) = Some (g (f t))" if "t \<in> set ts" for f :: "string \<Rightarrow> string" and g :: "string \<Rightarrow> store handler" and ts t
    using that by (induction ts) auto
  from this [OF assms(1), of DatabaseOperationKind "database_handler process"]
  show "registry_lookup (rt_registry (database_runtime process)) k =
      Some (database_handler process (DatabaseOperationKind type))"
    by (simp add: registry_lookup_def database_runtime_def NewDatabaseOperationHandlers_def assms(2)
        database_handler_def comp_def)
  show "database_handler process (DatabaseOperationKind type) \<in> set (NewDatabaseOperationHandlers process)"
    using assms(1) by (simp add: NewDatabaseOperationHandlers_def database_handler_def)
qed

lemma restore_strings [simp]: "trim ''d1'' = ''d1''" "trim ''b2'' = ''b2''" "trim ''db_restore'' = ''db_restore''"
  "trim ''restore'' = ''restore''" "trim ''db_restart'' = ''db_restart''" "trim ''restart'' = ''restart''"
  by code_simp+

theorem restore_waits_for_safety_witness:
  "op_status_of (snd (execute repository_store ''w'' 5 False (web_op\<lparr>oper_Kind := ''db_restore''\<rparr>)
     (database_runtime (\<lambda>d c s. s\<lparr>operations := []\<rparr>)) restoring_store)) ''d1'' = Some ''queued''"
proof -
  let ?op = "web_op\<lparr>oper_Kind := ''db_restore''\<rparr>"
  have wf: "queue_wf restoring_store"
    using demo_wf(3) queue_wf_cong [of restoring_store running_store] by (simp add: restoring_store_def)
  have held: "lease_held restoring_store (oper_ID ?op) ''w''"
    using running_lease by (simp add: lease_held_def web_op_sel restoring_store_def)
  have k: "''restore'' \<in> set databaseOperationKinds" "trim (oper_Kind ?op) = DatabaseOperationKind ''restore''"
    by (simp_all add: databaseOperationKinds_def DatabaseOperationKind_def)
  note reg = database_runtime_lookup [OF k]
  have "op_status_of (snd (execute repository_store ''w'' 5 False ?op
     (database_runtime (\<lambda>d c s. s\<lparr>operations := []\<rparr>)) restoring_store)) (oper_ID ?op) = Some ''queued''"
    by (rule conjunct2, rule restore_waits_for_safety [OF wf held reg, where d = restore_operation and
          i = "''di''" and inst = db_instance and j = restore_job and b = "''b2''" and k = safety_backup])
      (simp_all add: GetDatabaseOperation_def GetDatabaseInstance_def GetDatabaseRestoreJob_def
        GetDatabaseBackup_def restoring_store_def sql_get_def web_op_sel restore_operation_def
        new_database_operation_def restore_job_def safety_backup_def new_backup_row_def db_instance_def
        new_instance_row_def)
  then show ?thesis by (simp add: web_op_sel)
qed

section \<open>Outcomes\<close>

lemma db_row_status:
  assumes wf: "dbq_wf s" and d: "sql_get (\<lambda>d. dbo_id d = trim i) (database_operations s) = Some d"
  shows "op_status_of s i = Some (dbo_status d)"
    and "terminal_status (dbo_status d) \<Longrightarrow> \<not> lease_held s i ow"
proof -
  have m: "dbo_status d = op_status r" if "r \<in> set (operations s)" "op_id r = trim i" for r
    using that wf sql_get_Some [OF d] by (auto simp: dbq_wf_def projection_wf_def mirrors_def)
  have "\<forall>d \<in> set (database_operations s). dbo_id d \<in> op_id ` set (operations s)"
    using wf by (simp add: dbq_wf_def projection_wf_def)
  then have "dbo_id d \<in> op_id ` set (operations s)" by (rule bspec) (use sql_get_Some [OF d] in simp)
  then obtain r0 where "r0 \<in> set (operations s)" "op_id r0 = trim i" using sql_get_Some [OF d] by auto
  then have "sql_get (\<lambda>r. op_id r = trim i) (operations s) \<noteq> None" by (auto simp: sql_get_None)
  then obtain r where r: "sql_get (\<lambda>r. op_id r = trim i) (operations s) = Some r" by blast
  then show "op_status_of s i = Some (dbo_status d)"
    using m [of r] sql_get_Some [OF r] by (simp add: op_status_of_def r)
  show "\<not> lease_held s i ow" if "terminal_status (dbo_status d)"
    using that m by (fastforce simp: lease_held_def held_by_def terminal_status_def)
qed

text \<open>What a database handler recorded is what counts.  If the work left its operation in a terminal
  status, the worker's own completion changes nothing at all and that status stands; if the work
  ended without recording an outcome, the operation is failed, or cancelled when it had been told to
  stop, and never left running.\<close>

theorem database_outcome_recorded:
  assumes wf: "dbq_wf s1"
    and reg: "registry_lookup (rt_registry r) (oper_Kind op) = Some h"
      "h \<in> set (NewDatabaseOperationHandlers process)" "ready_verdict h op s = Proceed"
    and d: "GetDatabaseOperation (oper_ID op) s = (Inr d, s)" "s1 = process d c s"
    and fin: "GetDatabaseOperation (oper_ID op) s1 = (Inr fin, s1)"
  shows "(terminal_status (dbo_status fin) \<longrightarrow>
      snd (execute repository_store owner now c op r s) = s1 \<and>
      op_status_of s1 (oper_ID op) = Some (dbo_status fin)) \<and>
    (dbo_status fin = ''running'' \<and> lease_held s1 (oper_ID op) owner \<longrightarrow>
      op_status_of (snd (execute repository_store owner now c op r s)) (oper_ID op) =
        Some (if c then ''cancelled'' else ''failed''))"
proof -
  let ?v = "handle_verdict (database_outcome fin c)"
  let ?ci = "\<lparr> ci_ID = oper_ID op, ci_Owner = owner, ci_Status = fst ?v, ci_ProgressStep = [],
    ci_ErrorCode = fst (snd ?v), ci_ErrorMessage = snd (snd ?v) \<rparr>"
  have wfq: "queue_wf s1" using wf by (simp add: dbq_wf_def)
  have get: "sql_get (\<lambda>d. dbo_id d = trim (oper_ID op)) (database_operations s1) = Some fin"
    using fin by (simp add: GetDatabaseOperation_def split: option.splits)
  have "h_handle h op c s = (database_outcome fin c, s1)"
    using reg(2) d fin by (auto simp: NewDatabaseOperationHandlers_def database_handle_def Let_def)
  then have ex: "snd (execute repository_store owner now c op r s) = snd (CompleteOperation ?ci now s1)"
    using execute_proceed [OF reg(1,3), of owner now c] by (simp add: complete_snd split: prod.split)
  have "snd (CompleteOperation ?ci now s1) = s1" if "terminal_status (dbo_status fin)"
    using CompleteOperation_lost [OF wfq, of ?ci] db_row_status(2) [OF wf get that]
      handle_verdict_status [of "database_outcome fin c"] by simp
  moreover have "op_status_of (snd (CompleteOperation ?ci now s1)) (oper_ID op) =
      Some (if c then ''cancelled'' else ''failed'')"
    if "dbo_status fin = ''running''" "lease_held s1 (oper_ID op) owner"
    using repo_complete_held [OF wfq, of ?ci] that handle_verdict_status [of "database_outcome fin c"]
    by (simp add: database_outcome_def handle_verdict_def Failf_def)
  ultimately show ?thesis using ex db_row_status(1) [OF wf get] by auto
qed

theorem database_outcome_recorded_witness:
  "op_status_of (snd (execute repository_store ''w'' 5 False
     (web_op\<lparr>oper_ID := ''o1'', oper_Kind := ''db_restart''\<rparr>)
     (database_runtime (\<lambda>d c s. snd (UpdateDatabaseOperation ''o1'' ''success'' ''ready'' 100 [] [] 9 s))) db_store)) ''o1'' =
     Some ''success''"
proof -
  let ?p = "\<lambda>d :: database_operation_row. \<lambda>c :: bool. \<lambda>s. snd (UpdateDatabaseOperation ''o1'' ''success'' ''ready'' 100 [] [] 9 s)"
  let ?op = "web_op\<lparr>oper_ID := ''o1'', oper_Kind := ''db_restart''\<rparr>"
  let ?s1 = "snd (UpdateDatabaseOperation ''o1'' ''success'' ''ready'' 100 [] [] 9 db_store)"
  let ?d1 = "progress_dbo_set ''success'' ''ready'' 100 [] [] (rfc3339 9) db_operation"
  have t: "to_lower (trim ''success'') = ''success''" "trim ''ready'' = ''ready''" by code_simp+
  have wf: "dbq_wf ?s1"
    by (rule dbq_wf_progress [OF db_store_wf]) (simp add: reportable_def t terminal_status_def)
  have k: "''restart'' \<in> set databaseOperationKinds" "trim (oper_Kind ?op) = DatabaseOperationKind ''restart''"
    by (simp_all add: databaseOperationKinds_def DatabaseOperationKind_def)
  note reg = database_runtime_lookup [OF k]
  have d: "GetDatabaseOperation (oper_ID ?op) db_store = (Inr db_operation, db_store)"
    "dbo_operation_type db_operation = ''restart''" "dbo_database_instance_id db_operation = Some ''di''"
    by (simp_all add: GetDatabaseOperation_def sql_get_def db_operation_def new_database_operation_def)
  have "ready_verdict (database_handler ?p (DatabaseOperationKind ''restart'')) ?op db_store = Proceed"
    using d by (simp add: ready_verdict_def database_handler_def database_ready_def GetDatabaseInstance_def
        sql_get_def db_instance_def new_instance_row_def)
  moreover have "GetDatabaseOperation (oper_ID ?op) ?s1 = (Inr ?d1, ?s1)"
    by (simp add: UpdateDatabaseOperation_def Let_def t GetDatabaseOperation_def sql_get_def sql_update_def
        operation_statuses_def sql_count_def db_operation_def new_database_operation_def progress_dbo_set_def)
  moreover have "dbo_status ?d1 = ''success''" by (simp add: progress_dbo_set_def Let_def)
  ultimately have "snd (execute repository_store ''w'' 5 False ?op (database_runtime ?p) db_store) = ?s1"
    "op_status_of ?s1 (oper_ID ?op) = Some ''success''"
    using database_outcome_recorded [where process = ?p and s = db_store and c = False and d = db_operation and fin = ?d1
        and owner = "''w''" and now = 5, OF wf reg _ d(1) refl] unfolding terminal_status_def by auto
  then show ?thesis by simp
qed

end
