(* ===== verification/HF_Cidr_Props.thy ===== *)
theory HF_Cidr_Props
  imports HF_Cidr
begin

text \<open>
  Parsing and printing of network prefixes are inverse on canonical text, masking is idempotent, and
  therefore the normalised list of an external connection admits exactly the addresses the
  operator's list admits, in one canonical order.
\<close>

section \<open>Numbers\<close>

lemma hex_val_char: "d < 16 \<Longrightarrow> hex_val (hex_char d) = Some d"
  by (auto simp: hex_val_def hex_char_def of_char_of Let_def)

lemma hex_acc_append:
  "hex_acc a (s @ t) = (case hex_acc a s of None \<Rightarrow> None | Some b \<Rightarrow> hex_acc b t)"
  by (induction a s rule: hex_acc.induct) (auto split: option.splits)

lemma hex_acc_show: "hex_acc 0 (show_hex n) = Some n"
proof (induction n rule: show_hex.induct)
  case (1 n)
  then show ?case
    by (cases "n < 16")
      (simp_all add: show_hex.simps [of n] hex_val_char hex_acc_append div_mult_mod_eq)
qed

lemma show_hex_not_Nil [simp]: "show_hex n \<noteq> []"
  by (simp add: show_hex.simps [of n])

lemma length_show_hex: "n < 16 ^ k \<Longrightarrow> 0 < k \<Longrightarrow> length (show_hex n) \<le> k"
proof (induction n arbitrary: k rule: show_hex.induct)
  case (1 n)
  show ?case
  proof (cases "n < 16")
    case True
    then show ?thesis using 1(3) by (simp add: show_hex.simps [of n])
  next
    case False
    then obtain j where k: "k = Suc j" "0 < j" using 1(2,3) by (cases k; cases "k - 1") auto
    then have "n div 16 < 16 ^ j" using 1(2) by (simp add: less_mult_imp_div_less mult.commute)
    then show ?thesis using 1(1) [OF False] k False by (simp add: show_hex.simps [of n])
  qed
qed

lemma hex_char_plain: "d < 16 \<Longrightarrow> hex_char d \<notin> {CHR '':'', CHR ''.'', CHR ''%'', CHR ''/''}"
  using hex_val_char [of d] by (auto simp: hex_val_def)

lemma show_hex_plain: "c \<in> set (show_hex n) \<Longrightarrow> c \<notin> {CHR '':'', CHR ''.'', CHR ''%'', CHR ''/''}"
proof (induction n rule: show_hex.induct)
  case (1 n)
  then show ?case
    using hex_char_plain [of n] hex_char_plain [of "n mod 16"]
    by (cases "n < 16") (auto simp: show_hex.simps [of n])
qed

lemma parse_hex16_show: "n < 65536 \<Longrightarrow> parse_hex16 (show_hex n) = Some n"
  using length_show_hex [of n 4] by (simp add: parse_hex16_def hex_acc_show)

lemma hex_val_bound: "hex_val c = Some d \<Longrightarrow> d < 16"
  by (auto simp: hex_val_def Let_def split: if_splits)

lemma hex_acc_bound: "hex_acc a s = Some n \<Longrightarrow> n < (a + 1) * 16 ^ length s"
proof (induction a s arbitrary: n rule: hex_acc.induct)
  case (2 a c cs)
  then obtain d where d: "hex_val c = Some d" "hex_acc (a * 16 + d) cs = Some n" by (auto split: option.splits)
  have "n < (a * 16 + d + 1) * 16 ^ length cs" using 2(1) [OF d] .
  also have "\<dots> \<le> ((a + 1) * 16) * 16 ^ length cs" using hex_val_bound [OF d(1)] by (intro mult_right_mono) auto
  finally show ?case by (simp add: algebra_simps)
qed simp

lemma parse_hex16_bound: "parse_hex16 s = Some n \<Longrightarrow> n < 65536"
  using hex_acc_bound [of 0 s n] power_increasing [of "length s" 4 "16 :: nat"]
  by (auto simp: parse_hex16_def split: if_splits)

lemma digits_val_zero: "s \<noteq> [] \<Longrightarrow> hd s = CHR ''0'' \<Longrightarrow> digits_val s = digits_val (tl s)"
  by (cases s) (simp_all add: digits_val_def digit_val_def)

lemma show_nat_head: "0 < n \<Longrightarrow> hd (show_nat n) \<noteq> CHR ''0''"
proof (induction n rule: show_nat.induct)
  case (1 n)
  show ?case
  proof (cases "n < 10")
    case True
    then show ?thesis using 1(2) of_digit_char [of n] by (auto simp: show_nat.simps [of n])
  next
    case False
    then show ?thesis using 1(1) by (simp add: show_nat.simps [of n])
  qed
qed

lemma parse_dec_show: "n \<le> bound \<Longrightarrow> parse_dec bound (show_nat n) = Some n"
  using show_nat_head [of n] digits_val_show_nat [of n]
  by (cases "n = 0") (auto simp: parse_dec_def list_all_iff show_nat_digits, simp add: show_nat.simps [of 0])

lemma parse_dec_bound: "parse_dec bound s = Some n \<Longrightarrow> n \<le> bound"
  by (auto simp: parse_dec_def split: if_splits)

lemma show_nat_plain: "c \<in> set (show_nat n) \<Longrightarrow> c \<notin> {CHR '':'', CHR ''.'', CHR ''%'', CHR ''/''}"
  using show_nat_digits [of c n] by (auto simp: is_digit_def)

section \<open>Lists of fields\<close>

lemma all_some_map: "(\<And>x. x \<in> set xs \<Longrightarrow> f (g x) = Some x) \<Longrightarrow> all_some (map (f \<circ> g) xs) = Some xs"
  by (induction xs) auto

lemma all_some_Some: "all_some ys = Some xs \<longleftrightarrow> ys = map Some xs"
  by (induction ys arbitrary: xs rule: all_some.induct) auto

lemma split_on_field: "c \<notin> set f \<Longrightarrow> split_on c f = [f]"
  by (induction f) auto

lemma split_on_cons: "c \<notin> set f \<Longrightarrow> split_on c (f @ c # s) = f # split_on c s"
  by (induction f) auto

lemma set_join: "set (join_with sep fs) \<subseteq> set sep \<union> \<Union> (set ` set fs)"
  by (induction sep fs rule: join_with.induct) auto

section \<open>Addresses\<close>

fun valid_addr :: "netip_addr \<Rightarrow> bool" where
  "valid_addr (IPv4 bs) \<longleftrightarrow> length bs = 4 \<and> (\<forall>b \<in> set bs. b < 256)"
| "valid_addr (IPv6 gs) \<longleftrightarrow> length gs = 8 \<and> (\<forall>g \<in> set gs. g < 65536)"

lemma parse_ipv4_show: "valid_addr (IPv4 bs) \<Longrightarrow> parse_ipv4 (show_ipv4 bs) = Some bs"
  using split_on_join [of "map show_nat bs" "CHR ''.''"] show_nat_plain
  by (fastforce simp: parse_ipv4_def show_ipv4_def all_some_Some parse_dec_show comp_def intro!: all_some_map
      cong: map_cong)

lemma parse_ipv4_valid: "parse_ipv4 s = Some bs \<Longrightarrow> valid_addr (IPv4 bs)"
proof -
  assume "parse_ipv4 s = Some bs"
  then have eq: "map (parse_dec 255) (split_on (CHR ''.'') s) = map Some bs" and len: "length (split_on (CHR ''.'') s) = 4"
    by (auto simp: parse_ipv4_def Let_def all_some_Some split: if_splits)
  have "\<exists>f. parse_dec 255 f = Some b" if "b \<in> set bs" for b
    using arg_cong [OF eq, of set] that by (auto simp: image_iff) (metis imageE image_eqI)
  then have "\<forall>b \<in> set bs. b < 256" using parse_dec_bound by fastforce
  then show ?thesis using arg_cong [OF eq, of length] len by simp
qed

lemma parse_groups_show:
  "\<forall>g \<in> set gs. g < 65536 \<Longrightarrow> parse_groups q (map show_hex gs) = Some gs"
proof (induction q "map show_hex gs" arbitrary: gs rule: parse_groups.induct)
  case (2 q f)
  then obtain g where "gs = [g]" "f = show_hex g" by auto
  then show ?case using 2 show_hex_plain [of "CHR ''.''" g] by (auto simp: parse_hex16_show)
next
  case (3 q f g fs)
  then obtain a b as where gs: "gs = a # b # as" by (cases gs; cases "tl gs") auto
  then have "parse_groups q (map show_hex (b # as)) = Some (b # as)"
    using 3(1) [of a "b # as"] 3(2,3) by (auto simp: parse_hex16_show)
  then show ?case using gs 3(3) by (simp add: parse_hex16_show)
qed simp

lemma show_groups_Nil: "show_groups gs = [] \<longleftrightarrow> gs = []"
  by (cases gs; cases "tl gs") (auto simp: show_groups_def)

lemma groups_of_show: "\<forall>g \<in> set gs. g < 65536 \<Longrightarrow> groups_of q (show_groups gs) = Some gs"
proof -
  assume gs: "\<forall>g \<in> set gs. g < 65536"
  have "split_on (CHR '':'') (show_groups gs) = map show_hex gs" if "gs \<noteq> []"
    unfolding show_groups_def using that show_hex_plain by (intro split_on_join) auto
  then show ?thesis using parse_groups_show [OF gs, of q] by (auto simp: groups_of_def show_groups_Nil)
qed


text \<open>The text has no \<open>::\<close> exactly when no two neighbours are colons.\<close>

abbreviation colons :: "char \<Rightarrow> char \<Rightarrow> bool" where
  "colons a b \<equiv> \<not> (a = CHR '':'' \<and> b = CHR '':'')"

lemma cut_double_None: "cut_double s = None \<longleftrightarrow> successively colons s"
  by (induction s rule: cut_double.induct) auto

lemma cut_double_append:
  "successively colons s \<Longrightarrow> s = [] \<or> last s \<noteq> CHR '':'' \<Longrightarrow> cut_double (s @ ''::'' @ r) = Some (s, r)"
proof (induction s rule: cut_double.induct)
  case (1 a b s)
  then show ?case by (auto split: if_splits)
qed auto

lemma successively_plain: "CHR '':'' \<notin> set f \<Longrightarrow> successively colons f"
  by (induction f rule: induct_list012) auto

lemma show_hex_ends: "CHR '':'' \<notin> set (show_hex g)" "last (show_hex g) \<noteq> CHR '':''" "hd (show_hex g) \<noteq> CHR '':''"
proof -
  show c: "CHR '':'' \<notin> set (show_hex g)" using show_hex_plain [of "CHR '':''" g] by auto
  show "last (show_hex g) \<noteq> CHR '':''" "hd (show_hex g) \<noteq> CHR '':''"
    using c last_in_set [of "show_hex g"] list.set_sel(1) [of "show_hex g"] by (metis show_hex_not_Nil)+
qed

lemma show_groups_colons:
  "successively colons (show_groups gs) \<and> (gs \<noteq> [] \<longrightarrow> last (show_groups gs) \<noteq> CHR '':'' \<and> hd (show_groups gs) \<noteq> CHR '':'')"
proof (induction gs rule: induct_list012)
  case (3 g h gs)
  note g = show_hex_ends [of g]
  have eq: "show_groups (g # h # gs) = show_hex g @ CHR '':'' # show_groups (h # gs)" by (simp add: show_groups_def)
  have ne: "show_groups (h # gs) \<noteq> []" by (simp add: show_groups_Nil)
  show ?case
    using 3(2) g ne successively_plain [OF g(1)] unfolding eq by (auto simp: successively_append_iff successively_Cons)
next
  case (2 g)
  show ?case
    using show_hex_ends [of g] successively_plain [of "show_hex g"]
    by (auto simp: show_groups_def)
qed (simp add: show_groups_def)

lemma zero_run_zeros: "take (zero_run gs i) (drop i gs) = replicate (zero_run gs i) 0"
proof -
  let ?t = "takeWhile (\<lambda>g. g = 0) (drop i gs)"
  have "take (length ?t) (drop i gs) = ?t" by (metis takeWhile_eq_take)
  moreover have "?t = replicate (length ?t) 0"
    by (rule replicate_eqI) (auto dest: set_takeWhileD)
  ultimately show ?thesis by (simp add: zero_run_def)
qed

lemma zero_run_le: "zero_run gs i \<le> length gs - i"
  unfolding zero_run_def by (metis length_drop length_takeWhile_le)

lemma longest_zeros_run:
  assumes "longest_zeros gs = (st, len)"
  shows "len = 0 \<or> 2 \<le> len \<and> len = zero_run gs st"
proof -
  have "case foldl (\<lambda>(st, len) i. if 2 \<le> zero_run gs i \<and> len < zero_run gs i then (i, zero_run gs i) else (st, len))
      (a, b) xs of (st, len) \<Rightarrow> len = 0 \<or> 2 \<le> len \<and> len = zero_run gs st"
    if "b = 0 \<or> 2 \<le> b \<and> b = zero_run gs a" for a b xs
    using that by (induction xs arbitrary: a b) auto
  from this [of 0 0 "[0..<length gs]"] assms show ?thesis by (simp add: longest_zeros_def)
qed

lemma parse_ipv6_show: "valid_addr (IPv6 gs) \<Longrightarrow> parse_ipv6 (show_ipv6 gs) = Some gs"
proof -
  assume v: "valid_addr (IPv6 gs)"
  obtain st len where lz: "longest_zeros gs = (st, len)" by fastforce
  show ?thesis
  proof (cases "len = 0")
    case True
    then show ?thesis
      using v lz show_groups_colons [of gs] groups_of_show [of gs True]
      by (simp add: show_ipv6_def parse_ipv6_def iffD2 [OF cut_double_None])
  next
    case False
    then have len: "2 \<le> len" "len = zero_run gs st" using longest_zeros_run [OF lz] by auto
    then have st: "st + len \<le> 8" using zero_run_le [of gs st] v by simp
    let ?l = "take st gs" and ?r = "drop (st + len) gs"
    have "gs = ?l @ take len (drop st gs) @ ?r" by (metis append_take_drop_id drop_drop add.commute)
    then have gs: "?l @ replicate len 0 @ ?r = gs" using zero_run_zeros [of gs st] len by simp
    have "\<forall>g \<in> set ?l. g < 65536" "\<forall>g \<in> set ?r. g < 65536"
      using v by (auto dest: in_set_takeD in_set_dropD)
    then have "groups_of False (show_groups ?l) = Some ?l" "groups_of True (show_groups ?r) = Some ?r"
      by (simp_all only: groups_of_show)
    moreover have "cut_double (show_groups ?l @ ''::'' @ show_groups ?r) = Some (show_groups ?l, show_groups ?r)"
      by (rule cut_double_append) (use show_groups_colons [of ?l] in \<open>auto simp: show_groups_Nil\<close>)
    moreover have "length ?l + length ?r = 8 - len" using st v by simp
    ultimately show ?thesis
      using lz False len st v gs by (simp add: show_ipv6_def parse_ipv6_def)
  qed
qed

text \<open>An IPv4 address in IPv6 form.\<close>

lemma show_ipv4_plain: "c \<in> set (show_ipv4 bs) \<Longrightarrow> c = CHR ''.'' \<or> is_digit c"
  using set_join [of "''.''" "map show_nat bs"] by (auto simp: show_ipv4_def dest: show_nat_digits)

lemma show_ipv4_dot: "2 \<le> length bs \<Longrightarrow> \<exists>a r. show_ipv4 bs = a @ CHR ''.'' # r \<and> (\<forall>c \<in> set a. is_digit c)"
  by (cases bs; cases "tl bs") (auto simp: show_ipv4_def intro: show_nat_digits)

lemma parse_mapped:
  assumes v: "valid_addr (IPv6 gs)" and m: "mapped4 gs"
  shows "parse_ipv6 (''::ffff:'' @ show_ipv4 (concat (map (\<lambda>g. [g div 256, g mod 256]) (drop 6 gs)))) = Some gs"
proof -
  have "length (drop 6 gs) = 2" using v by simp
  then obtain a b where d: "drop 6 gs = [a, b]" by (cases "drop 6 gs"; cases "tl (drop 6 gs)") auto
  have gs: "gs = [0, 0, 0, 0, 0, 65535, a, b]"
    using append_take_drop_id [of 6 gs] by (simp only: m [unfolded mapped4_def] d append.simps)
  then have ab: "a < 65536" "b < 65536" using v by auto
  let ?bs = "[a div 256, a mod 256, b div 256, b mod 256]" and ?f = "show_ipv4 [a div 256, a mod 256, b div 256, b mod 256]"
  have vb: "valid_addr (IPv4 ?bs)" using ab by auto
  have nc: "CHR '':'' \<notin> set ?f" using show_ipv4_plain [of "CHR '':''" ?bs] by (auto simp: is_digit_def)
  have dot: "CHR ''.'' \<in> set ?f" using show_ipv4_dot [of ?bs] by fastforce
  have zeros: "replicate 5 (0 :: nat) = [0, 0, 0, 0, 0]" by (simp add: numeral_eq_Suc)
  have "cut_double (''::ffff:'' @ ?f) = Some ([], ''ffff:'' @ ?f)" by simp
  moreover have "split_on (CHR '':'') (''ffff:'' @ ?f) = [''ffff'', ?f]"
    using split_on_cons [of "CHR '':''" "''ffff''" ?f] split_on_field [OF nc] by simp
  moreover have "parse_hex16 ''ffff'' = Some 65535" by (simp add: parse_hex16_def hex_val_def)
  ultimately show ?thesis
    using parse_ipv4_show [OF vb] dot zeros by (simp add: d parse_ipv6_def groups_of_def gs)
qed

section \<open>Round trips\<close>

abbreviation special :: "char \<Rightarrow> bool" where
  "special c \<equiv> c = CHR ''.'' \<or> c = CHR '':'' \<or> c = CHR ''%''"

lemma digit_not_special: "is_digit c \<Longrightarrow> \<not> special c"
  by (auto simp: is_digit_def)

lemma first_special:
  "special c \<Longrightarrow> \<forall>x \<in> set a. \<not> special x \<Longrightarrow>
    dropWhile (\<lambda>c. c \<noteq> CHR ''.'' \<and> c \<noteq> CHR '':'' \<and> c \<noteq> CHR ''%'') (a @ c # r) = c # r"
  by (subst dropWhile_append2) auto

lemma show_groups_first:
  "2 \<le> length gs \<Longrightarrow> \<exists>a r. show_groups gs = a @ CHR '':'' # r \<and> (\<forall>x \<in> set a. \<not> special x)"
  by (cases gs; cases "tl gs") (auto simp: show_groups_def intro!: exI dest: show_hex_plain)

lemma show_groups_short:
  "length gs \<le> 1 \<Longrightarrow> \<forall>x \<in> set (show_groups gs). \<not> special x"
  by (cases gs) (auto simp: show_groups_def dest: show_hex_plain)

lemma show_addr_first:
  "valid_addr (IPv6 gs) \<Longrightarrow> \<exists>a r. show_addr (IPv6 gs) = a @ CHR '':'' # r \<and> (\<forall>x \<in> set a. \<not> special x)"
proof -
  assume v: "valid_addr (IPv6 gs)"
  obtain st len where lz: "longest_zeros gs = (st, len)" by fastforce
  show ?thesis
  proof (cases "mapped4 gs")
    case True
    then show ?thesis
      using exI [of "\<lambda>r. show_addr (IPv6 gs) = [] @ CHR '':'' # r \<and> (\<forall>x \<in> set []. \<not> special x)"] by fastforce
  next
    case False
    show ?thesis
    proof (cases "len = 0 \<or> 2 \<le> length (take st gs)")
      case True
      then obtain l t where "show_addr (IPv6 gs) = show_groups l @ t" "2 \<le> length l"
        using False lz v that [of gs "[]"] that [of "take st gs" "''::'' @ show_groups (drop (st + len) gs)"]
        by (cases "len = 0") (auto simp: show_ipv6_def)
      then show ?thesis using show_groups_first [of l] by fastforce
    next
      case short: False
      then have plain: "\<forall>x \<in> set (show_groups (take st gs)). \<not> special x"
        by (intro show_groups_short) auto
      have "show_addr (IPv6 gs) = show_groups (take st gs) @ CHR '':'' # CHR '':'' # show_groups (drop (st + len) gs)"
        using False lz short by (simp add: show_ipv6_def)
      then show ?thesis using plain by blast
    qed
  qed
qed

lemma parse_addr_show: "valid_addr ip \<Longrightarrow> parse_addr (show_addr ip) = Some ip"
proof (cases ip)
  case (IPv4 bs)
  assume v: "valid_addr ip"
  then obtain a r where "show_ipv4 bs = a @ CHR ''.'' # r" "\<forall>c \<in> set a. is_digit c"
    using show_ipv4_dot [of bs] IPv4 by auto
  then have "dropWhile (\<lambda>c. c \<noteq> CHR ''.'' \<and> c \<noteq> CHR '':'' \<and> c \<noteq> CHR ''%'') (show_ipv4 bs) = CHR ''.'' # r"
    using first_special [of "CHR ''.''" a r] digit_not_special by simp
  then show ?thesis using v IPv4 parse_ipv4_show [of bs] by (simp add: parse_addr_def)
next
  case (IPv6 gs)
  assume v: "valid_addr ip"
  then obtain a r where "show_addr ip = a @ CHR '':'' # r" "\<forall>x \<in> set a. \<not> special x"
    using show_addr_first [of gs] IPv6 by auto
  then have "parse_addr (show_addr ip) = map_option IPv6 (parse_ipv6 (show_addr ip))"
    using first_special [of "CHR '':''" a r] by (simp add: parse_addr_def)
  then show ?thesis using v IPv6 parse_mapped [of gs] parse_ipv6_show [of gs] by (cases "mapped4 gs") auto
qed


lemma parse_groups_bound: "parse_groups q fs = Some gs \<Longrightarrow> \<forall>g \<in> set gs. g < 65536"
proof (induction q fs arbitrary: gs rule: parse_groups.induct)
  case (2 q f)
  show ?case
  proof (cases "q \<and> CHR ''.'' \<in> set f")
    case True
    then obtain a b c d where f: "parse_ipv4 f = Some [a, b, c, d]" "gs = [a * 256 + b, c * 256 + d]"
      using 2 by (auto split: option.splits list.splits)
    then show ?thesis using parse_ipv4_valid [OF f(1)] by simp
  next
    case False
    then show ?thesis using 2 by (auto dest: parse_hex16_bound split: if_splits)
  qed
next
  case (3 q f g fs)
  then show ?case by (fastforce dest: parse_hex16_bound split: option.splits)
qed simp

lemma groups_of_bound: "groups_of q s = Some gs \<Longrightarrow> \<forall>g \<in> set gs. g < 65536"
  by (auto simp: groups_of_def dest: parse_groups_bound split: if_splits)

lemma parse_addr_valid: "parse_addr s = Some ip \<Longrightarrow> valid_addr ip"
proof -
  have "valid_addr (IPv6 gs)" if "parse_ipv6 s = Some gs" for gs
    using that by (auto simp: parse_ipv6_def dest!: groups_of_bound split: option.splits if_splits)
  then show "valid_addr ip" if "parse_addr s = Some ip"
    using that parse_ipv4_valid [of s] by (auto simp: parse_addr_def split: list.splits if_splits)
qed

lemma show_addr_chars: "c \<in> set (show_addr ip) \<Longrightarrow> c = CHR ''.'' \<or> c = CHR '':'' \<or> hex_val c \<noteq> None"
proof -
  have digit: "hex_val x \<noteq> None" if "is_digit x" for x using that by (simp add: hex_val_def is_digit_def)
  have hex: "hex_val x \<noteq> None" if "x \<in> set (show_hex n)" for x n
    using that
  proof (induction n rule: show_hex.induct)
    case (1 n)
    then show ?case
      using hex_val_char [of n] hex_val_char [of "n mod 16"] by (cases "n < 16") (auto simp: show_hex.simps [of n])
  qed
  have four: "x = CHR ''.'' \<or> hex_val x \<noteq> None" if "x \<in> set (show_ipv4 bs)" for x bs
    using show_ipv4_plain [OF that] digit by blast
  have six: "x = CHR '':'' \<or> hex_val x \<noteq> None" if "x \<in> set (show_groups gs)" for x gs
    using that set_join [of "'':''" "map show_hex gs"] hex by (fastforce simp: show_groups_def)
  have ffff: "hex_val (CHR ''f'') \<noteq> None" by (simp add: hex_val_def)
  show ?thesis if "c \<in> set (show_addr ip)"
  proof (cases ip)
    case (IPv6 gs)
    then show ?thesis
      using that four six ffff by (auto simp: show_ipv6_def split: if_splits prod.splits)
  qed (use that four in auto)
qed

lemma show_prefix_no_space: "\<forall>c \<in> set (show_prefix p). \<not> go_space c"
proof -
  have "\<not> go_space c" if "hex_val c \<noteq> None" for c
    using that by (auto simp: hex_val_def go_space_def Let_def split: if_splits)
  moreover have "\<not> go_space (CHR ''.'')" "\<not> go_space (CHR '':'')" "\<not> go_space (CHR ''/'')"
    by (simp_all add: go_space_def)
  ultimately have "\<forall>c \<in> set (show_addr (fst p)). \<not> go_space c" "\<not> go_space (CHR ''/'')"
    using show_addr_chars [of _ "fst p"] by metis+
  then show ?thesis using digit_not_space show_nat_digits by (auto simp: show_prefix_def)
qed

definition valid_prefix :: "netip_prefix \<Rightarrow> bool" where
  "valid_prefix p \<longleftrightarrow> valid_addr (fst p) \<and> snd p \<le> bit_len (fst p)"

lemma ParsePrefix_show: "valid_prefix p \<Longrightarrow> ParsePrefix (show_prefix p) = Some p"
proof -
  assume v: "valid_prefix p"
  have "CHR ''/'' \<notin> set (rev (show_nat (snd p)))" using show_nat_plain by force
  then have "cut_last (CHR ''/'') (show_prefix p) = Some (show_addr (fst p), show_nat (snd p))"
    using cut_at_append [of "CHR ''/''" "rev (show_nat (snd p))" "rev (show_addr (fst p))"]
    by (simp add: cut_last_def show_prefix_def)
  then show ?thesis
    using v by (simp add: ParsePrefix_def valid_prefix_def parse_addr_show parse_dec_show)
qed

lemma ParsePrefix_valid: "ParsePrefix s = Some p \<Longrightarrow> valid_prefix p"
  using parse_addr_valid parse_dec_bound
  by (fastforce simp: ParsePrefix_def valid_prefix_def split: option.splits prod.splits)

section \<open>Masking\<close>

lemma length_mask [simp]: "length (mask_chunks w n gs) = length gs"
  by (induction w n gs rule: mask_chunks.induct) auto

lemma mask_less: "\<forall>g \<in> set gs. g < b \<Longrightarrow> \<forall>g \<in> set (mask_chunks w n gs). g < (b :: nat)"
proof (induction w n gs rule: mask_chunks.induct)
  case (2 w n g gs)
  have "g div 2 ^ (w - n) * 2 ^ (w - n) \<le> g" by simp
  then have "g div 2 ^ (w - n) * 2 ^ (w - n) < b" using 2(2) by (meson le_less_trans list.set_intros(1))
  then show ?case using 2 by simp
qed simp

lemma mask_idem: "mask_chunks w n (mask_chunks w n gs) = mask_chunks w n gs"
  by (induction w n gs rule: mask_chunks.induct) auto

lemma mask_addr_idem [simp]: "mask_addr n (mask_addr n a) = mask_addr n a"
  by (cases a) (simp_all add: mask_idem)

lemma bit_len_mask [simp]: "bit_len (mask_addr n a) = bit_len a"
  by (cases a) auto

lemma Masked_valid: "valid_prefix p \<Longrightarrow> valid_prefix (Masked p)"
  using mask_less [of _ 256 8 "snd p"] mask_less [of _ 65536 16 "snd p"]
  by (cases "fst p") (auto simp: valid_prefix_def Masked_def)

lemma Masked_idem [simp]: "Masked (Masked p) = Masked p"
  by (simp add: Masked_def)

lemma in_Masked [simp]: "in_prefix x (Masked p) \<longleftrightarrow> in_prefix x p"
  by (simp add: in_prefix_def Masked_def)

lemma mask_all: "\<forall>g \<in> set gs. g < 2 ^ w \<Longrightarrow> mask_chunks w 0 gs = replicate (length gs) 0"
  by (induction w "0 :: nat" gs rule: mask_chunks.induct) auto

lemma show_zero: "show_nat 0 = ''0''"
proof -
  have "(of_char (digit_char 0) :: nat) = of_char (CHR ''0'')" using of_digit_char [of 0] by simp
  then have "digit_char 0 = CHR ''0''" unfolding of_char_eq_iff .
  then show ?thesis by (simp add: show_nat.simps [of 0])
qed

lemma replicate_zeros:
  "replicate 8 (0 :: nat) = [0, 0, 0, 0, 0, 0, 0, 0]" "replicate 4 (0 :: nat) = [0, 0, 0, 0]"
  by (simp_all add: numeral_eq_Suc)

lemma show_whole:
  "show_prefix (IPv4 (replicate 4 0), 0) = ''0.0.0.0/0''" "show_prefix (IPv6 (replicate 8 0), 0) = ''::/0''"
  by (simp_all add: replicate_zeros show_prefix_def show_ipv4_def show_zero mapped4_def show_ipv6_def
      longest_zeros_def zero_run_def show_groups_def upt_rec_numeral)

lemma whole_family:
  assumes "valid_prefix p" and "snd p = 0"
  shows "show_prefix (Masked p) = ''0.0.0.0/0'' \<or> show_prefix (Masked p) = ''::/0''"
  using assms mask_all [of _ 8] mask_all [of _ 16] show_whole
  by (cases "fst p") (auto simp: valid_prefix_def Masked_def)

section \<open>Access lists\<close>

interpretation network: normal_text valid_prefix show_prefix ParsePrefix Masked
  by unfold_locales (auto intro: ParsePrefix_show ParsePrefix_valid Masked_valid)

definition admits :: "string \<Rightarrow> netip_addr \<Rightarrow> bool" where
  "admits c x = (case ParsePrefix c of None \<Rightarrow> False | Some p \<Rightarrow> in_prefix x p)"

definition canonical :: "string \<Rightarrow> string" where
  "canonical v = show_prefix (Masked (the (ParsePrefix (trim v))))"

definition open_cidr :: "string \<Rightarrow> bool" where
  "open_cidr c \<longleftrightarrow> c = ''0.0.0.0/0'' \<or> c = ''::/0''"

lemma canonical_parse:
  assumes "ParsePrefix (trim v) = Some p"
  shows "ParsePrefix (canonical v) = Some (Masked p)" and "trim (canonical v) = canonical v"
    and "canonical (canonical v) = canonical v" and "admits (canonical v) x = admits (trim v) x"
proof -
  have c: "canonical v = show_prefix (Masked p)" using assms by (simp add: canonical_def)
  show p: "ParsePrefix (canonical v) = Some (Masked p)"
    unfolding c using assms by (rule network.read_normal)
  show t: "trim (canonical v) = canonical v" unfolding c by (rule trim_no_space) (rule show_prefix_no_space)
  show "canonical (canonical v) = canonical v" using p t by (simp add: canonical_def [of "canonical v"]) (simp add: c)
  show "admits (canonical v) x = admits (trim v) x" using p assms by (simp add: admits_def)
qed

lemma canonical_cidrs_Inr:
  assumes "canonical_cidrs vs res o0 = Inr (r, o1)" and "distinct res"
  shows "set r = set res \<union> canonical ` set vs \<and> distinct r \<and>
    (o1 \<longleftrightarrow> o0 \<or> (\<exists>v \<in> set vs. open_cidr (canonical v))) \<and>
    (\<forall>v \<in> set vs. ParsePrefix (trim v) \<noteq> None)"
  using assms
proof (induction vs res o0 arbitrary: r o1 rule: canonical_cidrs.induct)
  case (2 v vs res o0)
  obtain p where p: "ParsePrefix (trim v) = Some p" using 2(3) by (cases "ParsePrefix (trim v)") auto
  have c: "show_prefix (Masked p) = canonical v" using p by (simp add: canonical_def)
  show ?case
    using 2(3,4) 2(1) [OF p refl refl, of r o1] 2(2) [OF p refl refl, of r o1]
    by (cases "canonical v \<in> set res") (auto simp: p c Let_def open_cidr_def)
qed auto

lemma canonical_cidrs_fixed:
  assumes "\<forall>v \<in> set vs. ParsePrefix (trim v) \<noteq> None \<and> canonical v = v" and "distinct (res @ vs)"
  shows "canonical_cidrs vs res o0 = Inr (res @ vs, o0 \<or> (\<exists>v \<in> set vs. open_cidr v))"
  using assms
proof (induction vs arbitrary: res o0)
  case (Cons v vs)
  then obtain p where p: "ParsePrefix (trim v) = Some p" by auto
  have "show_prefix (Masked p) = v" using p Cons(2) by (simp add: canonical_def)
  then show ?case using Cons p by (auto simp: Let_def open_cidr_def)
qed simp

text \<open>C31. The stored access list of an external connection admits exactly the addresses of the list
  the operator gave, IPv4 and IPv6 alike.  It holds every network once, in the fixed order of family
  and text, normalising it again changes nothing, and a network of length zero, that is every
  address of a family, is in it only when open access was confirmed.\<close>

theorem normalized_cidrs_exact:
  assumes n: "NormalizeExternalAccessCIDRs vs confirmed = Inr cs"
  shows "(\<forall>x. (\<exists>c \<in> set cs. admits c x) \<longleftrightarrow> (\<exists>v \<in> set vs. admits (trim v) x)) \<and>
    cs \<noteq> [] \<and> distinct cs \<and> sorted (map cidr_key cs) \<and>
    NormalizeExternalAccessCIDRs cs confirmed = Inr cs \<and>
    (\<not> confirmed \<longrightarrow> (\<forall>c \<in> set cs. \<forall>p. ParsePrefix c = Some p \<longrightarrow> snd p \<noteq> 0))"
proof -
  obtain r o1 where c: "canonical_cidrs vs [] False = Inr (r, o1)"
    using n by (auto simp: NormalizeExternalAccessCIDRs_def split: sum.splits)
  then have cs: "cs = sort_key cidr_key r" "r \<noteq> []" and op: "o1 \<longrightarrow> confirmed"
    using n by (auto simp: NormalizeExternalAccessCIDRs_def split: if_splits)
  note r = canonical_cidrs_Inr [OF c distinct.simps(1) [THEN iffD2, OF TrueI]]
  have parse: "\<forall>v \<in> set vs. \<exists>p. ParsePrefix (trim v) = Some p" using r by auto
  have set: "set cs = canonical ` set vs" and ne: "cs \<noteq> []" and d: "distinct cs"
    using cs r by (auto simp flip: set_empty)
  have same: "(\<exists>c \<in> set cs. admits c x) \<longleftrightarrow> (\<exists>v \<in> set vs. admits (trim v) x)" for x
    unfolding set using parse canonical_parse(4) by fastforce
  have fixed: "\<forall>c \<in> set cs. ParsePrefix (trim c) \<noteq> None \<and> canonical c = c"
    unfolding set using parse canonical_parse(1-3) by fastforce
  have trims: "\<forall>c \<in> set cs. trim c = c"
    unfolding set using parse canonical_parse(2) by fastforce
  have opens: "o1 \<longleftrightarrow> (\<exists>c \<in> set cs. open_cidr c)" unfolding set using r by auto
  have srt: "sorted (map cidr_key cs)" unfolding cs(1) by (rule sorted_sort_key)
  have idem: "NormalizeExternalAccessCIDRs cs confirmed = Inr cs"
    using canonical_cidrs_fixed [OF fixed, of "[]" False] d ne op opens sort_key_id_if_sorted [OF srt]
    by (auto simp: NormalizeExternalAccessCIDRs_def)
  have whole: "open_cidr c" if "c \<in> set cs" "ParsePrefix c = Some p" "snd p = 0" for c p
  proof -
    have "trim c = c" using that(1) trims by blast
    then have "canonical c = show_prefix (Masked p)" using that(2) by (simp add: canonical_def)
    then have "c = show_prefix (Masked p)" using fixed that(1) by auto
    then show ?thesis using whole_family [OF ParsePrefix_valid [OF that(2)] that(3)] by (simp add: open_cidr_def)
  qed
  have "snd p \<noteq> 0" if "\<not> confirmed" "c \<in> set cs" "ParsePrefix c = Some p" for c p
    using whole [OF that(2,3)] that(1,2) op opens by blast
  then show ?thesis using same srt ne d idem by blast
qed

theorem normalized_cidrs_exact_witness:
  "NormalizeExternalAccessCIDRs [''10.0.0.0/8''] False = Inr [''10.0.0.0/8''] \<and>
   (\<exists>v \<in> {''10.1.2.3/8''}. admits (trim v) (IPv4 [10, 9, 8, 7]))"
proof -
  have n: "NormalizeExternalAccessCIDRs [''10.1.2.3/8''] False = Inr [''10.0.0.0/8'']" by code_simp
  have "admits ''10.0.0.0/8'' (IPv4 [10, 9, 8, 7])" by code_simp
  then show ?thesis using normalized_cidrs_exact [OF n] by auto
qed

end
