(* ===== verification/HF_Domains.thy ===== *)
theory HF_Domains
  imports HF_Catalog
begin

text \<open>
  Hostnames: internal/repository/domains_v2.go and the domain functions of store.go.  An operator
  points a custom hostname at a service of an environment; HostForge itself hands out at most one
  platform hostname per service and environment, under a random label of the platform domain.  What
  \<open>crypto/rand\<close> yields is an argument, as the ids of \<open>newID\<close> and the clock are.
\<close>

section \<open>The table\<close>

definition domain_kinds :: "string list" where
  "domain_kinds = [''custom'', ''platform'']"

definition publish_states :: "string list" where
  "publish_states = [''published'', ''unpublished'', ''invalid'']"

text \<open>
  \<open>INSERT INTO domains\<close> against the constraints of the schema: the checks, the primary key, the
  unique hostname, the partial unique index on platform hostnames, and the foreign keys.
\<close>

definition domain_clash :: "domain_row \<Rightarrow> domain_row \<Rightarrow> bool" where
  "domain_clash a b \<longleftrightarrow> dm_id a = dm_id b \<or> dm_domain_name a = dm_domain_name b \<or>
     dm_kind a = ''platform'' \<and> dm_kind b = ''platform'' \<and> dm_service_id a = dm_service_id b \<and>
     dm_environment_id a = dm_environment_id b"

definition insert_domain :: "domain_row \<Rightarrow> unit db" where
  "insert_domain m s =
     (if dm_kind m \<notin> set domain_kinds \<or> dm_publish_state m \<notin> set publish_states
      then db_fail (ConstraintErr ''check'') s
      else if sql_exists (domain_clash m) (domains s) then db_fail (ConstraintErr ''unique'') s
      else if \<not> (sql_exists (\<lambda>a. app_id a = dm_application_id m) (applications s) \<and>
        sql_exists (\<lambda>e. env_id e = dm_environment_id m) (environments s) \<and>
        sql_exists (\<lambda>v. svc_id v = dm_service_id m) (services s))
      then db_fail (ConstraintErr ''foreign key'') s
      else db_ok () (s\<lparr>domains := domains s @ [m]\<rparr>))"

definition isUniqueConstraint :: "go_error \<Rightarrow> bool" where
  "isUniqueConstraint e \<longleftrightarrow> e = ConstraintErr ''unique''"

text \<open>The service runs in the environment, both of the application.\<close>

definition valid_target :: "string \<Rightarrow> string \<Rightarrow> string \<Rightarrow> store \<Rightarrow> bool" where
  "valid_target applicationID environmentID serviceID s \<longleftrightarrow>
     sql_exists (\<lambda>b. se_environment_id b = environmentID \<and> se_service_id b = serviceID) (service_environments s) \<and>
     sql_exists (\<lambda>v. svc_id v = serviceID \<and> svc_application_id v = applicationID) (services s) \<and>
     sql_exists (\<lambda>e. env_id e = environmentID \<and> env_application_id e = applicationID) (environments s)"

definition new_domain_row :: "string \<Rightarrow> string \<Rightarrow> string \<Rightarrow> string \<Rightarrow> string \<Rightarrow> string \<Rightarrow> string \<Rightarrow> domain_row" where
  "new_domain_row i app env svc name kind stamp =
     \<lparr> dm_id = i, dm_application_id = app, dm_environment_id = env, dm_service_id = svc,
       dm_domain_name = name, dm_kind = kind, dm_ssl_status = ''PENDING'', dm_last_cert_message = [],
       dm_cert_checked_at = [], dm_publish_state = ''unpublished'', dm_publish_error = [],
       dm_created_at = stamp, dm_updated_at = stamp \<rparr>"

section \<open>Custom hostnames\<close>

definition domain_key :: "string \<Rightarrow> string \<Rightarrow> string \<Rightarrow> domain_row \<Rightarrow> bool" where
  "domain_key applicationID environmentID i m \<longleftrightarrow>
     dm_id m = trim i \<and> dm_application_id m = trim applicationID \<and> dm_environment_id m = trim environmentID"

definition GetServiceDomain :: "string \<Rightarrow> string \<Rightarrow> string \<Rightarrow> domain_row db" where
  "GetServiceDomain applicationID environmentID i s =
     (case sql_get (domain_key applicationID environmentID i) (domains s) of
        None \<Rightarrow> db_fail (Sentinel ''domain_not_found'') s | Some m \<Rightarrow> db_ok m s)"

definition CreateServiceDomain ::
  "string \<Rightarrow> string \<Rightarrow> string \<Rightarrow> string \<Rightarrow> string \<Rightarrow> instant \<Rightarrow> domain_row db" where
  "CreateServiceDomain applicationID environmentID serviceID domainName newID now s =
     (let app = trim applicationID; env = trim environmentID; svc = trim serviceID
      in if \<not> valid_target app env svc s then db_fail (Sentinel ''environment_not_found'') s
         else (case insert_domain (new_domain_row newID app env svc (trim domainName) ''custom'' (rfc3339 now)) s of
            (Inl e, _) \<Rightarrow> if isUniqueConstraint e then db_fail (Sentinel ''duplicate_domain'') s
                        else db_fail (Errorf ''insert service domain'' []) s
          | (Inr _, s1) \<Rightarrow> GetServiceDomain app env newID s1))"

definition ListServiceDomains :: "string \<Rightarrow> string \<Rightarrow> string \<Rightarrow> store \<Rightarrow> domain_row list" where
  "ListServiceDomains applicationID environmentID serviceID s =
     sql_order (\<lambda>m. (if dm_kind m = ''custom'' then 0 else 1 :: nat, dm_domain_name m))
       (filter (\<lambda>m. dm_application_id m = trim applicationID \<and> dm_environment_id m = trim environmentID \<and>
          (trim serviceID \<noteq> [] \<longrightarrow> dm_service_id m = trim serviceID)) (domains s))"

definition moved_domain :: "string \<Rightarrow> string \<Rightarrow> string \<Rightarrow> domain_row \<Rightarrow> domain_row" where
  "moved_domain domainName serviceID stamp m =
     m\<lparr>dm_domain_name := domainName, dm_service_id := serviceID, dm_ssl_status := ''PENDING'',
       dm_last_cert_message := [], dm_cert_checked_at := [], dm_publish_state := ''unpublished'',
       dm_publish_error := [], dm_updated_at := stamp\<rparr>"

definition UpdateServiceDomain ::
  "string \<Rightarrow> string \<Rightarrow> string \<Rightarrow> string \<Rightarrow> string \<Rightarrow> instant \<Rightarrow> domain_row db" where
  "UpdateServiceDomain applicationID environmentID i domainName serviceID0 now s =
     (case fst (GetServiceDomain applicationID environmentID i s) of
        Inl e \<Rightarrow> db_fail e s
      | Inr existing \<Rightarrow>
          let serviceID = (if trim serviceID0 = [] then dm_service_id existing else serviceID0);
              p = domain_key applicationID environmentID i
          in if dm_kind existing = ''platform'' then db_fail (Sentinel ''managed_domain'') s
             else if \<not> valid_target (trim applicationID) (trim environmentID) (trim serviceID) s
             then db_fail (Sentinel ''environment_not_found'') s
             else if sql_exists (\<lambda>m. \<not> p m \<and> dm_domain_name m = trim domainName) (domains s)
             then db_fail (Sentinel ''duplicate_domain'') s
             else if sql_count p (domains s) = 0 then db_fail (Sentinel ''domain_not_found'') s
             else GetServiceDomain applicationID environmentID i
               (s\<lparr>domains := sql_update p (moved_domain (trim domainName) (trim serviceID) (rfc3339 now))
                  (domains s)\<rparr>))"

definition UpdateServiceDomainName :: "string \<Rightarrow> string \<Rightarrow> string \<Rightarrow> string \<Rightarrow> instant \<Rightarrow> domain_row db" where
  "UpdateServiceDomainName applicationID environmentID i domainName now s =
     UpdateServiceDomain applicationID environmentID i domainName [] now s"

definition DeleteServiceDomain :: "string \<Rightarrow> string \<Rightarrow> string \<Rightarrow> unit db" where
  "DeleteServiceDomain applicationID environmentID i s =
     (case fst (GetServiceDomain applicationID environmentID i s) of
        Inl e \<Rightarrow> db_fail e s
      | Inr item \<Rightarrow>
          if dm_kind item = ''platform'' then db_fail (Sentinel ''managed_domain'') s
          else if sql_count (domain_key applicationID environmentID i) (domains s) = 0
          then db_fail (Sentinel ''domain_not_found'') s
          else db_ok () (s\<lparr>domains := sql_delete (domain_key applicationID environmentID i) (domains s)\<rparr>))"

text \<open>Putting a deleted row back, when the caller could not bring the routes up to date.\<close>

definition RestoreServiceDomain :: "domain_row \<Rightarrow> unit db" where
  "RestoreServiceDomain item s =
     (case insert_domain (item\<lparr>dm_kind := (if dm_kind item = [] then ''custom'' else dm_kind item),
             dm_publish_state := (if dm_publish_state item = [] then ''unpublished'' else dm_publish_state item)\<rparr>) s of
        (Inl e, _) \<Rightarrow> db_fail (Errorf ''restore service domain'' []) s
      | (Inr _, s1) \<Rightarrow> db_ok () s1)"

section \<open>Platform hostnames\<close>

definition platformDomainAdjectives :: "string list" where
  "platformDomainAdjectives = [''amber'', ''bright'', ''calm'', ''clear'', ''cool'', ''gentle'', ''golden'',
     ''lively'', ''quiet'', ''rapid'', ''silver'', ''sunny'']"

definition platformDomainNouns :: "string list" where
  "platformDomainNouns = [''brook'', ''cloud'', ''field'', ''forest'', ''harbor'', ''meadow'', ''orbit'',
     ''river'', ''sparrow'', ''summit'', ''willow'', ''wave'']"

text \<open>What \<open>rand.Int\<close> returns below the length of each list, and two random bytes in hexadecimal.\<close>

type_synonym draw = "nat \<times> nat \<times> nat \<times> nat"

definition hex_byte :: "nat \<Rightarrow> string" where
  "hex_byte b = [hex_char (b div 16 mod 16), hex_char (b mod 16)]"

definition randomPlatformLabel :: "draw \<Rightarrow> string" where
  "randomPlatformLabel d =
     (case d of (i, j, x, y) \<Rightarrow>
        platformDomainAdjectives ! (i mod length platformDomainAdjectives) @ ''-'' @
        platformDomainNouns ! (j mod length platformDomainNouns) @ ''-'' @ hex_byte x @ hex_byte y)"

definition platform_domain_of :: "string \<Rightarrow> string \<Rightarrow> store \<Rightarrow> domain_row option" where
  "platform_domain_of serviceID environmentID s =
     sql_get (\<lambda>m. dm_service_id m = serviceID \<and> dm_environment_id m = environmentID \<and> dm_kind m = ''platform'')
       (domains s)"

text \<open>
  The retry loop: \<open>Suc k\<close> attempts are left, and the next one takes the \<open>k\<close>-th label and id.  The lookup after a clash uses the ids as they were passed,
  untrimmed.
\<close>

fun platform_attempts :: "nat \<Rightarrow> (nat \<Rightarrow> draw) \<Rightarrow> (nat \<Rightarrow> string) \<Rightarrow> string \<Rightarrow> string \<Rightarrow> string \<Rightarrow> string \<Rightarrow> instant \<Rightarrow>
    (domain_row option \<times> bool) db" where
  "platform_attempts 0 draws ids app env svc platformDomain now s =
     db_fail (Errorf ''generate unique platform domain'' []) s"
| "platform_attempts (Suc k) draws ids app env svc platformDomain now s =
     (let i = ids k;
          name = randomPlatformLabel (draws k) @ ''.'' @ platformDomain
      in case insert_domain (new_domain_row i (trim app) (trim env) (trim svc) name ''platform'' (rfc3339 now)) s of
           (Inr _, s1) \<Rightarrow>
             (case GetServiceDomain app env i s1 of
                (Inl e, s2) \<Rightarrow> db_fail e s2
              | (Inr item, s2) \<Rightarrow> db_ok (Some item, True) s2)
         | (Inl e, _) \<Rightarrow>
             if \<not> isUniqueConstraint e then db_fail e s
             else (case platform_domain_of svc env s of
                Some existing \<Rightarrow> db_ok (Some existing, False) s
              | None \<Rightarrow> platform_attempts k draws ids app env svc platformDomain now s))"

definition EnsurePlatformServiceDomain ::
  "string \<Rightarrow> string \<Rightarrow> string \<Rightarrow> (nat \<Rightarrow> draw) \<Rightarrow> (nat \<Rightarrow> string) \<Rightarrow> instant \<Rightarrow> (domain_row option \<times> bool) db" where
  "EnsurePlatformServiceDomain applicationID environmentID serviceID draws ids now s =
     (case platform_domain_of (trim serviceID) (trim environmentID) s of
        Some existing \<Rightarrow> db_ok (Some existing, False) s
      | None \<Rightarrow>
          let platformDomain = to_lower (trim (ob_platform_domain (onboarding_state s)))
          in if platformDomain = [] then db_ok (None, False) s
             else if \<not> valid_target (trim applicationID) (trim environmentID) (trim serviceID) s
             then db_fail (Sentinel ''environment_not_found'') s
             else platform_attempts 12 draws ids applicationID environmentID serviceID platformDomain now s)"

text \<open>
  The backfill over every active release, in the order \<open>targets\<close> of the query.  Each target draws
  labels and ids of its own.
\<close>

definition active_targets :: "store \<Rightarrow> (string \<times> string \<times> string) list" where
  "active_targets s =
     concat (map (\<lambda>b. map (\<lambda>v. (svc_application_id v, se_environment_id b, se_service_id b))
         (filter (\<lambda>v. svc_id v = se_service_id b) (services s)))
       (filter (\<lambda>b. se_active_deployment_id b \<noteq> []) (service_environments s)))"

fun ensure_targets :: "(string \<times> string \<times> string) list \<Rightarrow> (nat \<Rightarrow> nat \<Rightarrow> draw) \<Rightarrow> (nat \<Rightarrow> nat \<Rightarrow> string) \<Rightarrow>
    instant \<Rightarrow> nat \<Rightarrow> store \<Rightarrow> nat \<times> go_error option \<times> store" where
  "ensure_targets [] draws ids now created s = (created, None, s)"
| "ensure_targets ((a, e, v) # ts) draws ids now created s =
     (case EnsurePlatformServiceDomain a e v (draws (length ts)) (ids (length ts)) now s of
        (Inl err, s1) \<Rightarrow> (created, Some err, s1)
      | (Inr (_, wasCreated), s1) \<Rightarrow>
          ensure_targets ts draws ids now (if wasCreated then created + 1 else created) s1)"

definition EnsureActivePlatformServiceDomains ::
  "(nat \<Rightarrow> nat \<Rightarrow> draw) \<Rightarrow> (nat \<Rightarrow> nat \<Rightarrow> string) \<Rightarrow> instant \<Rightarrow> store \<Rightarrow> nat \<times> go_error option \<times> store" where
  "EnsureActivePlatformServiceDomains draws ids now s = ensure_targets (active_targets s) draws ids now 0 s"

section \<open>Certificates and publication\<close>

definition ListAllDomains :: "store \<Rightarrow> domain_row list" where
  "ListAllDomains s = sql_order dm_domain_name (domains s)"

definition UpdateDomainCertObservation :: "string \<Rightarrow> string \<Rightarrow> go_time \<Rightarrow> unit db" where
  "UpdateDomainCertObservation domainID message checkedAt s =
     db_ok () (s\<lparr>domains := sql_update (\<lambda>m. dm_id m = trim domainID)
       (\<lambda>m. m\<lparr>dm_last_cert_message := trim message,
          dm_cert_checked_at := (case checkedAt of None \<Rightarrow> [] | Some t \<Rightarrow> rfc3339 t)\<rparr>) (domains s)\<rparr>)"

definition UpdateDomainSSLStatus :: "string \<Rightarrow> string \<Rightarrow> instant \<Rightarrow> unit db" where
  "UpdateDomainSSLStatus domainID status now s =
     db_ok () (s\<lparr>domains := sql_update (\<lambda>m. dm_id m = trim domainID)
       (\<lambda>m. m\<lparr>dm_ssl_status := trim status, dm_updated_at := rfc3339 now\<rparr>) (domains s)\<rparr>)"

definition SetDomainPublishState :: "string \<Rightarrow> string \<Rightarrow> string \<Rightarrow> instant \<Rightarrow> unit db" where
  "SetDomainPublishState domainID state publishError now s =
     (let p = (\<lambda>m. dm_id m = trim domainID)
      in if sql_exists p (domains s) \<and> trim state \<notin> set publish_states
         then db_fail (ConstraintErr ''check'') s
         else db_ok () (s\<lparr>domains := sql_update p
           (\<lambda>m. m\<lparr>dm_publish_state := trim state, dm_publish_error := publishError,
              dm_updated_at := rfc3339 now\<rparr>) (domains s)\<rparr>))"

definition SetDomainsPublishState :: "string list \<Rightarrow> string \<Rightarrow> instant \<Rightarrow> unit db" where
  "SetDomainsPublishState domainIDs state now s =
     (let p = (\<lambda>m. dm_id m \<in> set (map trim domainIDs))
      in if domainIDs = [] then db_ok () s
         else if sql_exists p (domains s) \<and> trim state \<notin> set publish_states
         then db_fail (ConstraintErr ''check'') s
         else db_ok () (s\<lparr>domains := sql_update p
           (\<lambda>m. m\<lparr>dm_publish_state := trim state, dm_updated_at := rfc3339 now\<rparr>) (domains s)\<rparr>))"

text \<open>
  The route table the reverse proxy is rendered from: one row per hostname, binding and running
  container of the binding's active deployment, and a row with port 0 when nothing runs.
\<close>

definition domain_ports :: "domain_row \<Rightarrow> service_environment_row \<Rightarrow> store \<Rightarrow> int list" where
  "domain_ports m b s =
     (let cs = filter (\<lambda>c. ct_deployment_id c = se_active_deployment_id b \<and> ct_status c = ''RUNNING'') (containers s)
      in if cs = [] then [0] else map ct_host_port cs)"

definition ListDomainRoutes :: "store \<Rightarrow> (domain_row \<times> int) list" where
  "ListDomainRoutes s =
     sql_order (\<lambda>r. dm_domain_name (fst r))
       (concat (map (\<lambda>m. concat (map (\<lambda>b. map (Pair m) (domain_ports m b s))
          (filter (\<lambda>b. se_service_id b = dm_service_id m \<and> se_environment_id b = dm_environment_id m)
             (service_environments s)))) (domains s)))"

end
