(* ===== verification/HF_Gateway.thy ===== *)
theory HF_Gateway
  imports HF_Backups HF_Cidr
begin

text \<open>
  External access to managed databases: the first half of internal/repository/database_gateways.go.
  One gateway endpoint per engine stands on a public port, a route leads from it to one database
  instance, and a connection is a named grant on a route with a permission profile, a list of
  networks and an expiry.  Every change of a connection queues a gateway operation in the same
  transaction.
\<close>

section \<open>Enumerated columns\<close>

definition gateway_engines :: "string list" where
  "gateway_engines = [''postgresql'', ''mysql'', ''mariadb'', ''mongodb'', ''redis'', ''valkey'']"

definition endpoint_desired :: "string list" where
  "endpoint_desired = [''absent'', ''active'', ''deleting'']"

definition endpoint_observed :: "string list" where
  "endpoint_observed = [''absent'', ''provisioning'', ''active'', ''degraded'', ''failed'', ''deleting'']"

definition route_desired :: "string list" where
  "route_desired = [''active'', ''disabled'', ''deleted'']"

definition route_observed :: "string list" where
  "route_observed = [''pending'', ''active'', ''disabled'', ''failed'', ''deleted'']"

definition access_profiles :: "string list" where
  "access_profiles = [''read_only'', ''read_write'', ''migration'']"

definition connection_statuses :: "string list" where
  "connection_statuses = [''pending'', ''active'', ''disabled'', ''expired'', ''rotating'', ''revoking'',
     ''revoked'', ''failed'']"

definition gateway_operation_types :: "string list" where
  "gateway_operation_types = [''provision_gateway'', ''teardown_gateway'', ''create_connection'',
     ''update_connection'', ''disable_connection'', ''enable_connection'', ''rotate_connection'',
     ''retire_credential'', ''revoke_connection'', ''expire_connection'', ''reconcile_route'']"

definition gateway_operation_statuses :: "string list" where
  "gateway_operation_statuses = [''queued'', ''running'', ''success'', ''failed'', ''cancelled'']"

definition DefaultGatewayPort :: int where "DefaultGatewayPort = 5432"
definition DefaultGatewayClientLimit :: nat where "DefaultGatewayClientLimit = 200"
definition DefaultCredentialClientLimit :: int where "DefaultCredentialClientLimit = 20"
definition DefaultRotationGracePeriodHours :: int where "DefaultRotationGracePeriodHours = 24"
definition MaximumRotationGracePeriodHours :: int where "MaximumRotationGracePeriodHours = 168"

definition validExternalAccessProfile :: "string \<Rightarrow> bool" where
  "validExternalAccessProfile profile \<longleftrightarrow> to_lower (trim profile) \<in> set access_profiles"

section \<open>Names and limits\<close>

definition gateway_safe_char :: "char \<Rightarrow> bool" where
  "gateway_safe_char c \<longleftrightarrow> is_lower_letter c \<or> is_digit c"

definition gatewaySafeID :: "string \<Rightarrow> string \<Rightarrow> string res" where
  "gatewaySafeID pre i =
     (let value = pre @ filter gateway_safe_char (to_lower (trim i))
      in if value = pre \<or> 63 < length value then Inl (Errorf ''unsafe gateway identifier'' [])
         else Inr value)"

definition GatewayRouteAlias :: "string \<Rightarrow> string res" where
  "GatewayRouteAlias instanceID = gatewaySafeID ''hf_'' instanceID"

definition GatewayBackendAlias :: "string \<Rightarrow> string res" where
  "GatewayBackendAlias instanceID = gatewaySafeID ''hfb_'' instanceID"

definition GatewayCredentialRole :: "string \<Rightarrow> string res" where
  "GatewayCredentialRole credentialID = gatewaySafeID ''hfc_'' credentialID"

text \<open>
  Go's 64-bit arithmetic: the product wraps and the quotient truncates toward zero.  \<open>wrap64\<close> is the
  signed value of the low 64 bits.
\<close>

definition wrap64 :: "int \<Rightarrow> int" where
  "wrap64 x = (x + 2 ^ 63) mod 2 ^ 64 - 2 ^ 63"

definition trunc_div :: "int \<Rightarrow> int \<Rightarrow> int" where
  "trunc_div a b = sgn a * sgn b * (\<bar>a\<bar> div \<bar>b\<bar>)"

definition GatewayPoolBudget :: "string \<Rightarrow> int \<Rightarrow> int \<times> int" where
  "GatewayPoolBudget preset memoryBytes =
     (let p = to_lower (trim preset)
      in if p = ''development'' then (10, 5)
         else if p = ''standard'' then (25, 10)
         else if p = ''performance'' then (50, 20)
         else let route = trunc_div (wrap64 (memoryBytes * 10)) (1024 * 1024 * 1024);
                  route1 = (if route < 10 then 10 else route);
                  route2 = (if 50 < route1 then 50 else route1)
              in (route2, if 10 < route2 then 10 else route2))"

section \<open>Endpoints\<close>

definition GetDatabaseGatewayEndpoint :: "string \<Rightarrow> gateway_endpoint_row db" where
  "GetDatabaseGatewayEndpoint engine s =
     (case sql_get (\<lambda>x. gwe_engine x = to_lower (trim engine)) (gateway_endpoints s) of
        None \<Rightarrow> db_fail (Sentinel ''database_gateway_not_found'') s | Some x \<Rightarrow> db_ok x s)"

definition new_endpoint_row :: "string \<Rightarrow> string \<Rightarrow> string \<Rightarrow> string \<Rightarrow> string \<Rightarrow> gateway_endpoint_row" where
  "new_endpoint_row engine hostname imageRef imageVersion stamp =
     (let containerName = ''hostforge-database-gateway-'' @ engine
      in \<lparr> gwe_engine = engine, gwe_hostname = hostname, gwe_port = DefaultGatewayPort,
           gwe_image_ref = trim imageRef, gwe_image_version = trim imageVersion,
           gwe_container_name = containerName, gwe_docker_container_id = [],
           gwe_ingress_network_name = containerName @ ''-ingress'', gwe_desired_status = ''absent'',
           gwe_observed_status = ''absent'', gwe_certificate_fingerprint = [],
           gwe_certificate_expires_at = [], gwe_certificate_synced_at = [], gwe_desired_generation = 0,
           gwe_rendered_generation = 0, gwe_applied_generation = 0, gwe_last_error_code = [],
           gwe_last_error_message = [], gwe_created_at = stamp, gwe_updated_at = stamp \<rparr>)"

definition endpoint_clash :: "gateway_endpoint_row \<Rightarrow> gateway_endpoint_row \<Rightarrow> bool" where
  "endpoint_clash a b \<longleftrightarrow> gwe_hostname a = gwe_hostname b \<and> gwe_port a = gwe_port b \<or>
     gwe_container_name a = gwe_container_name b \<or> gwe_ingress_network_name a = gwe_ingress_network_name b"

text \<open>\<open>INSERT \<dots> ON CONFLICT(engine) DO UPDATE \<dots> WHERE desired_status='absent'\<close>.\<close>

definition upsert_endpoint :: "gateway_endpoint_row \<Rightarrow> store \<Rightarrow> store res" where
  "upsert_endpoint r s =
     (let p = (\<lambda>x. gwe_engine x = gwe_engine r \<and> gwe_desired_status x = ''absent'');
          f = (\<lambda>x. x\<lparr>gwe_hostname := gwe_hostname r, gwe_image_ref := gwe_image_ref r,
                 gwe_image_version := gwe_image_version r, gwe_updated_at := gwe_updated_at r\<rparr>);
          others = filter (\<lambda>x. gwe_engine x \<noteq> gwe_engine r) (gateway_endpoints s)
      in if sql_exists (\<lambda>x. gwe_engine x = gwe_engine r) (gateway_endpoints s)
         then (if sql_exists (\<lambda>x. p x \<and> sql_exists (endpoint_clash (f x)) others) (gateway_endpoints s)
               then Inl (ConstraintErr ''unique'')
               else Inr (s\<lparr>gateway_endpoints := sql_update p f (gateway_endpoints s)\<rparr>))
         else if sql_exists (endpoint_clash r) (gateway_endpoints s) then Inl (ConstraintErr ''unique'')
         else Inr (s\<lparr>gateway_endpoints := gateway_endpoints s @ [r]\<rparr>))"

definition ensureDatabaseGatewayEndpoint ::
  "string \<Rightarrow> string \<Rightarrow> string \<Rightarrow> string \<Rightarrow> string \<Rightarrow> instant \<Rightarrow> gateway_endpoint_row db" where
  "ensureDatabaseGatewayEndpoint engine0 hostname0 imageRef imageVersion expected now s =
     (let engine = to_lower (trim engine0);
          hostname = to_lower (trim_suffix (trim hostname0) ''.'');
          changed = Sentinel ''platform_domain_changed_concurrently''
      in if \<not> validDatabaseEngine engine \<or> hostname = []
         then db_fail (Errorf ''gateway engine and hostname required'' []) s
         else (case (if expected = [] \<or> ob_platform_domain (onboarding_state s) = expected
                     then upsert_endpoint (new_endpoint_row engine hostname imageRef imageVersion (rfc3339_nano now)) s
                     else Inr s) of
            Inl e \<Rightarrow> db_fail e s
          | Inr s1 \<Rightarrow>
              (case fst (GetDatabaseGatewayEndpoint engine s1) of
                 Inl e \<Rightarrow> db_fail (if expected \<noteq> [] \<and> e = Sentinel ''database_gateway_not_found'' then changed else e) s1
               | Inr endpoint \<Rightarrow>
                   if expected \<noteq> [] \<and>
                      (to_lower (trim (ob_platform_domain (onboarding_state s1))) \<noteq> to_lower expected \<or>
                       gwe_hostname endpoint \<noteq> hostname)
                   then db_fail changed s1
                   else db_ok endpoint s1)))"

definition EnsureDatabaseGatewayEndpoint ::
  "string \<Rightarrow> string \<Rightarrow> string \<Rightarrow> string \<Rightarrow> instant \<Rightarrow> gateway_endpoint_row db" where
  "EnsureDatabaseGatewayEndpoint engine hostname imageRef imageVersion now s =
     ensureDatabaseGatewayEndpoint engine hostname imageRef imageVersion [] now s"

definition EnsureDatabaseGatewayEndpointForPlatformDomain ::
  "string \<Rightarrow> string \<Rightarrow> string \<Rightarrow> string \<Rightarrow> string \<Rightarrow> instant \<Rightarrow> gateway_endpoint_row db" where
  "EnsureDatabaseGatewayEndpointForPlatformDomain engine hostname imageRef imageVersion platformDomain now s =
     (let expected = to_lower (trim_suffix (trim platformDomain) ''.'')
      in if expected = [] then db_fail (Errorf ''platform domain required'' []) s
         else ensureDatabaseGatewayEndpoint engine hostname imageRef imageVersion expected now s)"

section \<open>Queueing operations\<close>

definition nullString :: "string \<Rightarrow> string option" where
  "nullString v = (if trim v = [] then None else Some (trim v))"

definition new_gateway_operation ::
  "string \<Rightarrow> string \<Rightarrow> string \<Rightarrow> string \<Rightarrow> string \<Rightarrow> string \<Rightarrow> int \<Rightarrow> string \<Rightarrow> string \<Rightarrow> gateway_operation_row" where
  "new_gateway_operation i engine routeID connectionID credentialID operationType graceHours actor stamp =
     \<lparr> gwo_id = i, gwo_engine = engine, gwo_route_id = nullString routeID,
       gwo_connection_id = nullString connectionID, gwo_credential_id = nullString credentialID,
       gwo_operation_type = operationType, gwo_status = ''queued'', gwo_progress_step = ''queued'',
       gwo_progress_percent = 0, gwo_requested_grace_hours = graceHours, gwo_actor = actor,
       gwo_error_code = [], gwo_error_message = [], gwo_started_at = [], gwo_completed_at = [],
       gwo_lease_owner = [], gwo_lease_expires_at = [], gwo_attempt_count = 0,
       gwo_created_at = stamp, gwo_updated_at = stamp \<rparr>"

definition in_keys :: "string option \<Rightarrow> string list \<Rightarrow> bool" where
  "in_keys x ks \<longleftrightarrow> (case x of None \<Rightarrow> True | Some k \<Rightarrow> k \<in> set ks)"

definition insertGatewayOperation :: "gateway_operation_row \<Rightarrow> store \<Rightarrow> store res" where
  "insertGatewayOperation r s =
     (if gwo_engine r \<notin> set gateway_engines \<or> gwo_operation_type r \<notin> set gateway_operation_types \<or>
         gwo_requested_grace_hours r < 0 \<or> 168 < gwo_requested_grace_hours r
      then Inl (ConstraintErr ''check'')
      else if sql_exists (\<lambda>x. gwo_id x = gwo_id r) (gateway_operations s) then Inl (ConstraintErr ''unique'')
      else if \<not> (in_keys (gwo_route_id r) (map gwr_id (gateway_routes s)) \<and>
        in_keys (gwo_connection_id r) (map xc_id (external_connections s)) \<and>
        in_keys (gwo_credential_id r) (map xk_id (external_credentials s)))
      then Inl (ConstraintErr ''foreign key'')
      else Inr (s\<lparr>gateway_operations := gateway_operations s @ [r]\<rparr>))"

definition queueGatewayOperation :: "string \<Rightarrow> string \<Rightarrow> string \<Rightarrow> string \<Rightarrow> string \<Rightarrow> int \<Rightarrow> string \<Rightarrow>
    (string \<Rightarrow> store \<Rightarrow> store res) \<Rightarrow> string \<Rightarrow> instant \<Rightarrow> gateway_operation_row db" where
  "queueGatewayOperation engine routeID connectionID credentialID operationType graceHours actor mutate newID now s =
     (let stamp = rfc3339_nano now;
          operation = new_gateway_operation newID engine routeID connectionID credentialID operationType
            graceHours (trim actor) stamp
      in case mutate stamp s of
           Inl e \<Rightarrow> db_fail e s
         | Inr s1 \<Rightarrow>
             (case insertGatewayOperation operation s1 of
                Inl e \<Rightarrow> db_fail e s
              | Inr s2 \<Rightarrow> db_ok operation s2))"

definition pending_operation :: "gateway_operation_row \<Rightarrow> bool" where
  "pending_operation x \<longleftrightarrow> gwo_status x = ''queued'' \<or> gwo_status x = ''running''"

definition activated_endpoint :: "string \<Rightarrow> gateway_endpoint_row \<Rightarrow> gateway_endpoint_row" where
  "activated_endpoint stamp x =
     x\<lparr>gwe_desired_status := ''active'',
       gwe_observed_status := (if gwe_observed_status x = ''active'' then ''active'' else ''provisioning''),
       gwe_updated_at := stamp\<rparr>"

definition provision_mutation :: "string \<Rightarrow> string \<Rightarrow> store \<Rightarrow> store res" where
  "provision_mutation engine stamp s =
     (let p = (\<lambda>x. gwe_engine x = engine \<and> gwe_desired_status x \<noteq> ''deleting'')
      in if sql_count p (gateway_endpoints s) \<noteq> 1
         then Inl (Sentinel ''invalid_external_connection_state'')
         else Inr (s\<lparr>gateway_endpoints := sql_update p
           (\<lambda>x. (activated_endpoint stamp x)\<lparr>gwe_last_error_code := [], gwe_last_error_message := []\<rparr>)
           (gateway_endpoints s)\<rparr>))"

definition QueueDatabaseGatewayProvision :: "string \<Rightarrow> string \<Rightarrow> string \<Rightarrow> instant \<Rightarrow> gateway_operation_row db" where
  "QueueDatabaseGatewayProvision engine actor newID now s =
     (case fst (GetDatabaseGatewayEndpoint engine s) of
        Inl e \<Rightarrow> db_fail e s
      | Inr endpoint \<Rightarrow>
          if gwe_desired_status endpoint = ''deleting'' then db_fail (Sentinel ''invalid_external_connection_state'') s
          else queueGatewayOperation (gwe_engine endpoint) [] [] [] ''provision_gateway''
            DefaultRotationGracePeriodHours actor (provision_mutation (gwe_engine endpoint)) newID now s)"

text \<open>A live grant on a route of the engine: what a teardown must not cut off.\<close>

definition engine_grants :: "string \<Rightarrow> store \<Rightarrow> nat" where
  "engine_grants engine s =
     sql_count (\<lambda>c. xc_status c \<noteq> ''revoked'' \<and>
       sql_exists (\<lambda>r. gwr_id r = xc_route_id c \<and> gwr_engine r = engine) (gateway_routes s)) (external_connections s)"

definition teardown_mutation :: "string \<Rightarrow> string \<Rightarrow> store \<Rightarrow> store res" where
  "teardown_mutation engine stamp s =
     (let p = (\<lambda>x. gwe_engine x = engine)
      in if sql_count p (gateway_endpoints s) \<noteq> 1 then Inl (Sentinel ''database_gateway_not_found'')
         else let s1 = s\<lparr>gateway_endpoints := sql_update p
               (\<lambda>x. x\<lparr>gwe_desired_status := ''deleting'', gwe_observed_status := ''deleting'', gwe_updated_at := stamp\<rparr>)
               (gateway_endpoints s)\<rparr>
         in if sql_exists (\<lambda>x. gwo_engine x = engine \<and> gwo_operation_type x = ''teardown_gateway'' \<and>
                 pending_operation x) (gateway_operations s1)
            then Inl (Sentinel ''invalid_external_connection_state'')
            else if 0 < engine_grants engine s1 then Inl (Sentinel ''database_gateway_has_active_connections'')
            else Inr s1)"

definition QueueDatabaseGatewayTeardown :: "string \<Rightarrow> string \<Rightarrow> string \<Rightarrow> instant \<Rightarrow> gateway_operation_row db" where
  "QueueDatabaseGatewayTeardown engine actor newID now s =
     (case fst (GetDatabaseGatewayEndpoint engine s) of
        Inl e \<Rightarrow> db_fail e s
      | Inr endpoint \<Rightarrow>
          queueGatewayOperation (gwe_engine endpoint) [] [] [] ''teardown_gateway''
            DefaultRotationGracePeriodHours actor (teardown_mutation (gwe_engine endpoint)) newID now s)"


section \<open>Connections\<close>

record connection_input =
  ci_Name :: string
  ci_PermissionProfile :: string
  ci_CIDRs :: "string list option"
  ci_ExpiresAt :: go_time
  ci_ClearExpiry :: bool
  ci_ConfirmOpenAccess :: bool
  ci_Actor :: string

text \<open>A connection with its networks and its credentials, the sealed material left out.\<close>

record external_connection =
  ec_row :: external_connection_row
  ec_cidrs :: "string list"
  ec_credentials :: "external_credential_row list"

definition without_ciphertext :: "external_credential_row \<Rightarrow> external_credential_row" where
  "without_ciphertext k = k\<lparr>xk_password_ct := [], xk_scram_verifier_ct := []\<rparr>"

definition ListDatabaseExternalCredentials :: "string \<Rightarrow> bool \<Rightarrow> store \<Rightarrow> external_credential_row list" where
  "ListDatabaseExternalCredentials connectionID includeCiphertext s =
     map (if includeCiphertext then id else without_ciphertext)
       (sql_order (\<lambda>k. Down (xk_generation k))
         (filter (\<lambda>k. xk_connection_id k = trim connectionID) (external_credentials s)))"

definition listExternalConnectionCIDRs :: "string \<Rightarrow> store \<Rightarrow> string list" where
  "listExternalConnectionCIDRs connectionID s =
     map xr_cidr (sql_order (\<lambda>r. (xr_address_family r, xr_cidr r))
       (filter (\<lambda>r. xr_connection_id r = connectionID) (connection_cidrs s)))"

definition GetDatabaseExternalConnection :: "string \<Rightarrow> external_connection db" where
  "GetDatabaseExternalConnection connectionID s =
     (case sql_get (\<lambda>c. xc_id c = trim connectionID) (external_connections s) of
        None \<Rightarrow> db_fail (Sentinel ''database_external_connection_not_found'') s
      | Some c \<Rightarrow> db_ok \<lparr> ec_row = c, ec_cidrs = listExternalConnectionCIDRs (xc_id c) s,
            ec_credentials = ListDatabaseExternalCredentials (xc_id c) False s \<rparr> s)"

fun get_all :: "('k \<Rightarrow> 'a res) \<Rightarrow> 'k list \<Rightarrow> 'a list res" where
  "get_all get [] = Inr []"
| "get_all get (k # ks) =
     (case get k of
        Inl e \<Rightarrow> Inl e
      | Inr x \<Rightarrow> (case get_all get ks of Inl e \<Rightarrow> Inl e | Inr xs \<Rightarrow> Inr (x # xs)))"

definition ListDatabaseExternalConnections :: "string \<Rightarrow> store \<Rightarrow> external_connection list res" where
  "ListDatabaseExternalConnections routeID s =
     get_all (\<lambda>i. fst (GetDatabaseExternalConnection i s))
       (map xc_id (sql_order (\<lambda>c. (Down (xc_created_at c), Down (xc_id c)))
         (filter (\<lambda>c. xc_route_id c = trim routeID) (external_connections s))))"

definition GetDatabaseGatewayRouteByInstance :: "string \<Rightarrow> gateway_route_row db" where
  "GetDatabaseGatewayRouteByInstance instanceID s =
     (case sql_get (\<lambda>r. gwr_database_instance_id r = trim instanceID) (gateway_routes s) of
        None \<Rightarrow> db_fail (Sentinel ''database_gateway_route_not_found'') s | Some r \<Rightarrow> db_ok r s)"

definition getDatabaseGatewayRouteByID :: "string \<Rightarrow> gateway_route_row db" where
  "getDatabaseGatewayRouteByID routeID s =
     (case sql_get (\<lambda>r. gwr_id r = trim routeID) (gateway_routes s) of
        None \<Rightarrow> db_fail (Sentinel ''database_gateway_route_not_found'') s | Some r \<Rightarrow> db_ok r s)"

definition GetDatabaseGatewayRoute :: "string \<Rightarrow> gateway_route_row db" where
  "GetDatabaseGatewayRoute routeID s = getDatabaseGatewayRouteByID routeID s"

record external_access =
  ea_instance :: database_instance_row
  ea_endpoint :: "gateway_endpoint_row option"
  ea_route :: "gateway_route_row option"
  ea_connections :: "external_connection list"

definition GetDatabaseExternalAccess :: "string \<Rightarrow> external_access db" where
  "GetDatabaseExternalAccess instanceID s =
     (case fst (GetDatabaseInstance (trim instanceID) s) of
        Inl e \<Rightarrow> db_fail e s
      | Inr inst \<Rightarrow>
          (case fst (GetDatabaseService (di_service_id inst) s) of
             Inl e \<Rightarrow> db_fail e s
           | Inr service \<Rightarrow>
               let endpoint = (case fst (GetDatabaseGatewayEndpoint (ds_engine service) s) of
                     Inl e \<Rightarrow> None | Inr x \<Rightarrow> Some x)
               in (case fst (GetDatabaseGatewayRouteByInstance (di_id inst) s) of
                  Inl e \<Rightarrow> db_ok \<lparr> ea_instance = inst, ea_endpoint = endpoint, ea_route = None, ea_connections = [] \<rparr> s
                | Inr route \<Rightarrow>
                    (case ListDatabaseExternalConnections (gwr_id route) s of
                       Inl e \<Rightarrow> db_fail e s
                     | Inr connections \<Rightarrow>
                         db_ok \<lparr> ea_instance = inst, ea_endpoint = endpoint, ea_route = Some route,
                           ea_connections = connections \<rparr> s))))"

text \<open>
  \<open>INSERT INTO database_gateway_routes \<dots> ON CONFLICT(database_instance_id) DO UPDATE\<close>: the instance
  keeps its route, which becomes desired again.
\<close>

definition route_clash :: "gateway_route_row \<Rightarrow> gateway_route_row \<Rightarrow> bool" where
  "route_clash a b \<longleftrightarrow> gwr_id a = gwr_id b \<or> gwr_route_alias a = gwr_route_alias b \<or>
     gwr_backend_alias a = gwr_backend_alias b \<or> gwr_link_network_name a = gwr_link_network_name b"

definition upsert_route :: "gateway_route_row \<Rightarrow> store \<Rightarrow> store res" where
  "upsert_route r s =
     (let p = (\<lambda>x. gwr_database_instance_id x = gwr_database_instance_id r)
      in if gwr_engine r \<notin> set gateway_engines \<or> gwr_route_backend_limit r \<notin> {1..50} \<or>
            gwr_credential_backend_limit r \<notin> {1..50}
         then Inl (ConstraintErr ''check'')
         else if sql_exists p (gateway_routes s)
         then Inr (s\<lparr>gateway_routes := sql_update p
           (\<lambda>x. x\<lparr>gwr_desired_status := ''active'', gwr_updated_at := gwr_updated_at r\<rparr>) (gateway_routes s)\<rparr>)
         else if sql_exists (route_clash r) (gateway_routes s) then Inl (ConstraintErr ''unique'')
         else if \<not> sql_exists (\<lambda>e. gwe_engine e = gwr_engine r) (gateway_endpoints s) \<or>
           \<not> sql_exists (\<lambda>i. di_id i = gwr_database_instance_id r) (database_instances s)
         then Inl (ConstraintErr ''foreign key'')
         else Inr (s\<lparr>gateway_routes := gateway_routes s @ [r]\<rparr>))"

definition insert_connection :: "external_connection_row \<Rightarrow> store \<Rightarrow> store res" where
  "insert_connection c s =
     (if xc_permission_profile c \<notin> set access_profiles \<or> xc_status c \<notin> set connection_statuses \<or>
         xc_client_connection_limit c \<notin> {1..20}
      then Inl (ConstraintErr ''check'')
      else if sql_exists (\<lambda>x. xc_id x = xc_id c \<or> xc_route_id x = xc_route_id c \<and> xc_name x = xc_name c)
        (external_connections s) then Inl (ConstraintErr ''unique'')
      else if \<not> sql_exists (\<lambda>r. gwr_id r = xc_route_id c) (gateway_routes s) then Inl (ConstraintErr ''foreign key'')
      else Inr (s\<lparr>external_connections := external_connections s @ [c]\<rparr>))"

text \<open>The primary key is the connection and the network: a repeated network is refused.\<close>

definition cidr_family :: "string \<Rightarrow> int" where
  "cidr_family c = (case ParsePrefix c of Some (IPv4 bs, n) \<Rightarrow> 4 | _ \<Rightarrow> 6)"

definition replaceExternalConnectionCIDRs :: "string \<Rightarrow> string list \<Rightarrow> string \<Rightarrow> store \<Rightarrow> store res" where
  "replaceExternalConnectionCIDRs connectionID cidrs stamp s =
     (if cidrs = [] then Inl (Sentinel ''invalid_external_access_cidr'')
      else if \<not> distinct cidrs then Inl (ConstraintErr ''unique'')
      else Inr (s\<lparr>connection_cidrs := sql_delete (\<lambda>r. xr_connection_id r = connectionID) (connection_cidrs s) @
        map (\<lambda>c. \<lparr> xr_connection_id = connectionID, xr_cidr = c, xr_address_family = cidr_family c,
              xr_created_at = stamp \<rparr>) cidrs\<rparr>))"

definition bump_generation :: "string \<Rightarrow> string \<Rightarrow> store \<Rightarrow> store" where
  "bump_generation engine stamp s =
     s\<lparr>gateway_endpoints := sql_update (\<lambda>x. gwe_engine x = engine)
        (\<lambda>x. x\<lparr>gwe_desired_generation := gwe_desired_generation x + 1, gwe_updated_at := stamp\<rparr>) (gateway_endpoints s)\<rparr>"

definition new_route_row :: "string \<Rightarrow> string \<Rightarrow> database_instance_row \<Rightarrow> string \<Rightarrow> string \<Rightarrow> string \<Rightarrow> gateway_route_row" where
  "new_route_row i engine inst routeAlias backendAlias stamp =
     (let budget = GatewayPoolBudget (di_resource_preset inst) (di_memory_limit_bytes inst)
      in \<lparr> gwr_id = i, gwr_engine = engine, gwr_database_instance_id = di_id inst,
           gwr_route_alias = routeAlias, gwr_backend_alias = backendAlias,
           gwr_link_network_name = ''hostforge-database-gateway-link-'' @ trim_prefix routeAlias ''hf_'',
           gwr_desired_status = ''active'', gwr_observed_status = ''pending'',
           gwr_route_backend_limit = fst budget, gwr_credential_backend_limit = snd budget,
           gwr_last_error_code = [], gwr_last_error_message = [], gwr_created_at = stamp,
           gwr_updated_at = stamp \<rparr>)"

definition new_connection_row :: "string \<Rightarrow> string \<Rightarrow> string \<Rightarrow> string \<Rightarrow> go_time \<Rightarrow> string \<Rightarrow> external_connection_row" where
  "new_connection_row i routeID name profile expires stamp =
     \<lparr> xc_id = i, xc_route_id = routeID, xc_name = name, xc_permission_profile = profile,
       xc_expires_at = nano_opt expires, xc_status = ''pending'', xc_current_generation = 0,
       xc_client_connection_limit = DefaultCredentialClientLimit, xc_last_used_at = [],
       xc_last_error_code = [], xc_last_error_message = [], xc_created_at = stamp, xc_updated_at = stamp \<rparr>"

text \<open>The transaction of \<open>CreateDatabaseExternalConnection\<close>, from the guard on the endpoint on.\<close>

definition create_connection_tx :: "string \<Rightarrow> gateway_route_row \<Rightarrow> (string \<Rightarrow> external_connection_row) \<Rightarrow> string list \<Rightarrow>
    (string \<Rightarrow> gateway_operation_row) \<Rightarrow> string \<Rightarrow> store \<Rightarrow> (string \<times> store) res" where
  "create_connection_tx engine route connection cidrs operation stamp s =
     (if sql_count (\<lambda>x. gwe_engine x = engine \<and> gwe_desired_status x \<noteq> ''deleting'') (gateway_endpoints s) \<noteq> 1
      then Inl (Sentinel ''invalid_external_connection_state'')
      else (case upsert_route route s of
         Inl e \<Rightarrow> Inl e
       | Inr s1 \<Rightarrow>
           (case sql_get (\<lambda>r. gwr_database_instance_id r = gwr_database_instance_id route) (gateway_routes s1) of
              None \<Rightarrow> Inl ErrNoRows
            | Some r \<Rightarrow>
                (case insert_connection (connection (gwr_id r)) s1 of
                   Inl e \<Rightarrow> Inl e
                 | Inr s2 \<Rightarrow>
                     (case replaceExternalConnectionCIDRs (xc_id (connection (gwr_id r))) cidrs stamp s2 of
                        Inl e \<Rightarrow> Inl e
                      | Inr s3 \<Rightarrow>
                          (case insertGatewayOperation (operation (gwr_id r)) s3 of
                             Inl e \<Rightarrow> Inl e
                           | Inr s4 \<Rightarrow> Inr (gwr_id r, s4\<lparr>gateway_endpoints := sql_update (\<lambda>x. gwe_engine x = engine)
                               (\<lambda>x. (activated_endpoint stamp x)\<lparr>gwe_desired_generation := gwe_desired_generation x + 1\<rparr>)
                               (gateway_endpoints s4)\<rparr>)))))))"

definition expired_input :: "go_time \<Rightarrow> instant \<Rightarrow> bool" where
  "expired_input t now \<longleftrightarrow> (case t of None \<Rightarrow> False | Some u \<Rightarrow> u \<le> now)"

definition CreateDatabaseExternalConnection :: "string \<Rightarrow> connection_input \<Rightarrow> string \<Rightarrow> string \<Rightarrow> string \<Rightarrow> instant \<Rightarrow>
    (external_connection \<times> gateway_operation_row) db" where
  "CreateDatabaseExternalConnection instanceID i newRoute newConnection newOperation now s =
     (let name = trim (ci_Name i); profile = to_lower (trim (ci_PermissionProfile i));
          bad = Sentinel ''invalid_external_connection_state''; stamp = rfc3339_nano now
      in if name = [] \<or> 120 < length name then db_fail (Errorf ''external connection name required'' []) s
         else if \<not> validExternalAccessProfile profile
         then db_fail (Sentinel ''invalid_external_access_profile'') s
         else (case NormalizeExternalAccessCIDRs (case ci_CIDRs i of None \<Rightarrow> [] | Some cs \<Rightarrow> cs) (ci_ConfirmOpenAccess i) of
            Inl e \<Rightarrow> db_fail e s
          | Inr cidrs \<Rightarrow>
              if expired_input (ci_ExpiresAt i) now then db_fail (Sentinel ''invalid_external_access_expiry'') s
              else (case fst (GetDatabaseInstance (trim instanceID) s) of
                 Inl e \<Rightarrow> db_fail e s
               | Inr inst \<Rightarrow>
                   (case fst (GetDatabaseService (di_service_id inst) s) of
                      Inl e \<Rightarrow> db_fail e s
                    | Inr service \<Rightarrow>
                        if di_desired_state inst \<noteq> ''running'' \<or> parse_time (di_deleted_at inst) \<noteq> None then db_fail bad s
                        else (case fst (GetDatabaseGatewayEndpoint (ds_engine service) s) of
                           Inl e \<Rightarrow> db_fail e s
                         | Inr endpoint \<Rightarrow>
                             (case (GatewayRouteAlias (di_id inst), GatewayBackendAlias (di_id inst)) of
                                (Inl e, _) \<Rightarrow> db_fail e s
                              | (_, Inl e) \<Rightarrow> db_fail e s
                              | (Inr routeAlias, Inr backendAlias) \<Rightarrow>
                                  let connection = (\<lambda>rt. new_connection_row newConnection rt name profile (ci_ExpiresAt i) stamp);
                                      operation = (\<lambda>rt. new_gateway_operation newOperation (ds_engine service) rt newConnection []
                                        ''create_connection'' DefaultRotationGracePeriodHours (trim (ci_Actor i)) stamp)
                                  in (case create_connection_tx (gwe_engine endpoint)
                                        (new_route_row newRoute (ds_engine service) inst routeAlias backendAlias stamp)
                                        connection cidrs operation stamp s of
                                     Inl e \<Rightarrow> db_fail e s
                                   | Inr (rt, s1) \<Rightarrow>
                                       db_ok (\<lparr> ec_row = connection rt, ec_cidrs = cidrs, ec_credentials = [] \<rparr>, operation rt) s1)))))))"

definition updated_connection :: "string \<Rightarrow> string \<Rightarrow> go_time \<Rightarrow> string \<Rightarrow> external_connection_row \<Rightarrow> external_connection_row" where
  "updated_connection name profile expires stamp c =
     c\<lparr>xc_name := name, xc_permission_profile := profile, xc_expires_at := nano_opt expires,
       xc_status := (if xc_status c = ''failed'' then ''pending'' else xc_status c),
       xc_last_error_code := [], xc_last_error_message := [], xc_updated_at := stamp\<rparr>"

text \<open>The transaction of \<open>UpdateDatabaseExternalConnection\<close>.\<close>

definition update_connection_tx :: "external_connection_row \<Rightarrow> string \<Rightarrow> string \<Rightarrow> go_time \<Rightarrow> string list \<Rightarrow>
    gateway_operation_row \<Rightarrow> string \<Rightarrow> string \<Rightarrow> store \<Rightarrow> store res" where
  "update_connection_tx row name profile expires cidrs operation engine stamp s =
     (if sql_exists (\<lambda>c. xc_id c \<noteq> xc_id row \<and> xc_route_id c = xc_route_id row \<and> xc_name c = name) (external_connections s)
      then Inl (ConstraintErr ''unique'')
      else (case replaceExternalConnectionCIDRs (xc_id row) cidrs stamp
               (s\<lparr>external_connections := sql_update (\<lambda>c. xc_id c = xc_id row)
                  (updated_connection name profile expires stamp) (external_connections s)\<rparr>) of
         Inl e \<Rightarrow> Inl e
       | Inr s2 \<Rightarrow>
           (case insertGatewayOperation operation s2 of
              Inl e \<Rightarrow> Inl e
            | Inr s3 \<Rightarrow> Inr (bump_generation engine stamp s3))))"

definition UpdateDatabaseExternalConnection :: "string \<Rightarrow> connection_input \<Rightarrow> string \<Rightarrow> instant \<Rightarrow>
    (external_connection \<times> gateway_operation_row) db" where
  "UpdateDatabaseExternalConnection connectionID i newID now s =
     (case fst (GetDatabaseExternalConnection connectionID s) of
        Inl e \<Rightarrow> db_fail e s
      | Inr current \<Rightarrow>
          let row = ec_row current;
              name = (if trim (ci_Name i) = [] then xc_name row else trim (ci_Name i));
              profile = (if to_lower (trim (ci_PermissionProfile i)) = [] then xc_permission_profile row
                         else to_lower (trim (ci_PermissionProfile i)));
              stamp = rfc3339_nano now
          in if xc_status row = ''revoked'' \<or> xc_status row = ''revoking''
             then db_fail (Sentinel ''invalid_external_connection_state'') s
             else if \<not> validExternalAccessProfile profile
             then db_fail (Sentinel ''invalid_external_access_profile'') s
             else (case (case ci_CIDRs i of None \<Rightarrow> Inr (ec_cidrs current)
                           | Some cs \<Rightarrow> NormalizeExternalAccessCIDRs cs (ci_ConfirmOpenAccess i)) of
                Inl e \<Rightarrow> db_fail e s
              | Inr cidrs \<Rightarrow>
                  if \<not> ci_ClearExpiry i \<and> expired_input (ci_ExpiresAt i) now
                  then db_fail (Sentinel ''invalid_external_access_expiry'') s
                  else (case fst (getDatabaseGatewayRouteByID (xc_route_id row) s) of
                     Inl e \<Rightarrow> db_fail e s
                   | Inr route \<Rightarrow>
                       let expires = (if ci_ClearExpiry i then None
                             else if ci_ExpiresAt i = None then parse_time (xc_expires_at row) else ci_ExpiresAt i);
                           operation = new_gateway_operation newID (gwr_engine route) (gwr_id route) (xc_id row) []
                             ''update_connection'' DefaultRotationGracePeriodHours (trim (ci_Actor i)) stamp
                       in (case update_connection_tx row name profile expires cidrs operation (gwr_engine route) stamp s of
                          Inl e \<Rightarrow> db_fail e s
                        | Inr s4 \<Rightarrow>
                            (case fst (GetDatabaseExternalConnection (xc_id row) s4) of
                               Inl e \<Rightarrow> db_fail e s4
                             | Inr updated \<Rightarrow> db_ok (updated, operation) s4)))))"

end
