(* ===== verification/HF_Gateway_Ops.thy ===== *)
theory HF_Gateway_Ops
  imports HF_Gateway
begin

text \<open>
  External access to managed databases: the second half of internal/repository/database_gateways.go.
  Operator actions on a connection, the credentials behind it (created in generations, put into a
  grace period by a rotation, revoked with their secrets erased), and the queue of gateway
  operations with its leases.
\<close>

section \<open>Operator actions\<close>

definition action_plan :: "string \<Rightarrow> external_connection_row \<Rightarrow> int \<Rightarrow> instant \<Rightarrow> (string \<times> string) res" where
  "action_plan action connection gracePeriodHours now =
     (let st = xc_status connection; bad = Inl (Sentinel ''invalid_external_connection_state'')
      in if action = ''disable''
         then (if st \<noteq> ''active'' \<and> st \<noteq> ''rotating'' then bad else Inr (''disable_connection'', ''disabled''))
         else if action = ''enable''
         then (if st \<noteq> ''disabled'' \<and> st \<noteq> ''expired'' \<and> st \<noteq> ''failed'' then bad
               else if expired_input (parse_time (xc_expires_at connection)) now
               then Inl (Sentinel ''invalid_external_access_expiry'')
               else Inr (''enable_connection'', ''pending''))
         else if action = ''rotate''
         then (if st \<noteq> ''active'' then bad
               else if gracePeriodHours < 0 \<or> MaximumRotationGracePeriodHours < gracePeriodHours
               then Inl (Errorf ''invalid rotation grace period'' [])
               else Inr (''rotate_connection'', ''rotating''))
         else if action = ''revoke''
         then (if st = ''revoked'' then bad else Inr (''revoke_connection'', ''revoking''))
         else Inl (Errorf ''unsupported external connection action'' []))"

definition action_mutation :: "string \<Rightarrow> string \<Rightarrow> string \<Rightarrow> string \<Rightarrow> string \<Rightarrow> store \<Rightarrow> store res" where
  "action_mutation connectionID engine operationType nextStatus stamp s =
     (let s1 = s\<lparr>external_connections := sql_update (\<lambda>c. xc_id c = connectionID)
            (\<lambda>c. c\<lparr>xc_status := nextStatus, xc_last_error_code := [], xc_last_error_message := [],
               xc_updated_at := stamp\<rparr>) (external_connections s)\<rparr>
      in if operationType = ''revoke_connection'' \<and>
            sql_exists (\<lambda>x. gwo_connection_id x = Some connectionID \<and> gwo_operation_type x = ''revoke_connection'' \<and>
              pending_operation x) (gateway_operations s1)
         then Inl (Sentinel ''invalid_external_connection_state'')
         else Inr (bump_generation engine stamp s1))"

definition QueueDatabaseExternalConnectionAction ::
  "string \<Rightarrow> string \<Rightarrow> int \<Rightarrow> string \<Rightarrow> string \<Rightarrow> instant \<Rightarrow> gateway_operation_row db" where
  "QueueDatabaseExternalConnectionAction connectionID action gracePeriodHours actor newID now s =
     (case fst (GetDatabaseExternalConnection connectionID s) of
        Inl e \<Rightarrow> db_fail e s
      | Inr connection \<Rightarrow>
          (case fst (getDatabaseGatewayRouteByID (xc_route_id (ec_row connection)) s) of
             Inl e \<Rightarrow> db_fail e s
           | Inr route \<Rightarrow>
               (case action_plan (to_lower (trim action)) (ec_row connection) gracePeriodHours now of
                  Inl e \<Rightarrow> db_fail e s
                | Inr (operationType, nextStatus) \<Rightarrow>
                    queueGatewayOperation (gwr_engine route) (gwr_id route) (xc_id (ec_row connection)) []
                      operationType gracePeriodHours actor
                      (action_mutation (xc_id (ec_row connection)) (gwr_engine route) operationType nextStatus)
                      newID now s)))"

section \<open>Credentials\<close>

record credential_identity =
  idn_ID :: string
  idn_ConnectionID :: string
  idn_RoleName :: string
  idn_Generation :: int

definition NewDatabaseExternalCredentialIdentity :: "string \<Rightarrow> string \<Rightarrow> credential_identity db" where
  "NewDatabaseExternalCredentialIdentity connectionID newID s =
     (case fst (GetDatabaseExternalConnection connectionID s) of
        Inl e \<Rightarrow> db_fail e s
      | Inr connection \<Rightarrow>
          (case GatewayCredentialRole newID of
             Inl e \<Rightarrow> db_fail e s
           | Inr roleName \<Rightarrow> db_ok \<lparr> idn_ID = newID, idn_ConnectionID = xc_id (ec_row connection),
               idn_RoleName = roleName, idn_Generation = xc_current_generation (ec_row connection) + 1 \<rparr> s))"

definition credential_clash :: "external_credential_row \<Rightarrow> external_credential_row \<Rightarrow> bool" where
  "credential_clash a b \<longleftrightarrow> xk_id a = xk_id b \<or> xk_role_name a = xk_role_name b \<or>
     xk_connection_id a = xk_connection_id b \<and> xk_generation a = xk_generation b"

definition insert_external_credential :: "external_credential_row \<Rightarrow> store \<Rightarrow> store res" where
  "insert_external_credential k s =
     (if xk_generation k \<le> 0 then Inl (ConstraintErr ''check'')
      else if sql_exists (credential_clash k) (external_credentials s) then Inl (ConstraintErr ''unique'')
      else if \<not> sql_exists (\<lambda>c. xc_id c = xk_connection_id k) (external_connections s)
      then Inl (ConstraintErr ''foreign key'')
      else Inr (s\<lparr>external_credentials := external_credentials s @ [k]\<rparr>))"

definition new_credential :: "credential_identity \<Rightarrow> string \<Rightarrow> string \<Rightarrow> string \<Rightarrow> string \<Rightarrow> external_credential_row" where
  "new_credential idn connectionID passwordCT verifierCT stamp =
     \<lparr> xk_id = idn_ID idn, xk_connection_id = connectionID, xk_role_name = idn_RoleName idn,
       xk_password_ct = passwordCT, xk_scram_verifier_ct = verifierCT, xk_generation = idn_Generation idn,
       xk_state = ''active'', xk_grace_deadline = [], xk_last_used_at = [], xk_revoked_at = [],
       xk_created_at = stamp, xk_updated_at = stamp \<rparr>"

definition CreateDatabaseExternalCredentialWithIdentity ::
  "credential_identity \<Rightarrow> string \<Rightarrow> string \<Rightarrow> instant \<Rightarrow> external_credential_row db" where
  "CreateDatabaseExternalCredentialWithIdentity idn passwordCT verifierCT now s =
     (case fst (GetDatabaseExternalConnection (idn_ConnectionID idn) s) of
        Inl e \<Rightarrow> db_fail e s
      | Inr connection \<Rightarrow>
          let row = ec_row connection; stamp = rfc3339_nano now;
              credential = new_credential idn (xc_id row) passwordCT verifierCT stamp;
              p = (\<lambda>c. xc_id c = xc_id row \<and> xc_current_generation c = xc_current_generation row)
          in if GatewayCredentialRole (idn_ID idn) \<noteq> Inr (idn_RoleName idn) \<or>
                idn_Generation idn \<noteq> xc_current_generation row + 1
             then db_fail (Errorf ''invalid external credential identity'' []) s
             else if passwordCT = [] \<or> verifierCT = []
             then db_fail (Errorf ''encrypted credential material required'' []) s
             else (case insert_external_credential credential s of
                Inl e \<Rightarrow> db_fail e s
              | Inr s1 \<Rightarrow>
                  if sql_count p (external_connections s1) \<noteq> 1
                  then db_fail (Errorf ''external credential generation changed concurrently'' []) s
                  else db_ok credential (s1\<lparr>external_connections := sql_update p
                    (\<lambda>c. c\<lparr>xc_current_generation := idn_Generation idn, xc_updated_at := stamp\<rparr>)
                    (external_connections s1)\<rparr>)))"

definition CreateDatabaseExternalCredential ::
  "string \<Rightarrow> string \<Rightarrow> string \<Rightarrow> string \<Rightarrow> instant \<Rightarrow> external_credential_row db" where
  "CreateDatabaseExternalCredential connectionID passwordCT verifierCT newID now s =
     (if passwordCT = [] \<or> verifierCT = []
      then db_fail (Errorf ''encrypted credential material required'' []) s
      else (case fst (GetDatabaseExternalConnection connectionID s) of
         Inl e \<Rightarrow> db_fail e s
       | Inr connection \<Rightarrow>
           (case fst (NewDatabaseExternalCredentialIdentity (xc_id (ec_row connection)) newID s) of
              Inl e \<Rightarrow> db_fail e s
            | Inr idn \<Rightarrow> CreateDatabaseExternalCredentialWithIdentity idn passwordCT verifierCT now s)))"

definition GetDatabaseExternalCredentialSealed :: "string \<Rightarrow> external_credential_row db" where
  "GetDatabaseExternalCredentialSealed credentialID s =
     (case sql_get (\<lambda>k. xk_id k = trim credentialID) (external_credentials s) of
        None \<Rightarrow> db_fail ErrNoRows s | Some k \<Rightarrow> db_ok k s)"

definition graced :: "string \<Rightarrow> string \<Rightarrow> external_credential_row \<Rightarrow> external_credential_row" where
  "graced deadline stamp k = k\<lparr>xk_state := ''grace'', xk_grace_deadline := deadline, xk_updated_at := stamp\<rparr>"

definition SetDatabaseExternalCredentialGrace :: "string \<Rightarrow> instant \<Rightarrow> instant \<Rightarrow> unit db" where
  "SetDatabaseExternalCredentialGrace credentialID deadline now s =
     (let p = (\<lambda>k. xk_id k = trim credentialID \<and> xk_state k = ''active'')
      in if sql_count p (external_credentials s) \<noteq> 1 then db_fail ErrNoRows s
         else db_ok () (s\<lparr>external_credentials := sql_update p
           (graced (rfc3339_nano deadline) (rfc3339_nano now)) (external_credentials s)\<rparr>))"

text \<open>Revocation erases both sealed secrets; the row stays as an audit record.\<close>

definition erased :: "string \<Rightarrow> string \<Rightarrow> external_credential_row \<Rightarrow> external_credential_row" where
  "erased revokedAt stamp k =
     k\<lparr>xk_state := ''revoked'', xk_password_ct := [], xk_scram_verifier_ct := [], xk_grace_deadline := [],
       xk_revoked_at := revokedAt, xk_updated_at := stamp\<rparr>"

definition erased_once :: "string \<Rightarrow> external_credential_row \<Rightarrow> external_credential_row" where
  "erased_once stamp k = erased (if xk_revoked_at k = [] then stamp else xk_revoked_at k) stamp k"

definition RevokeDatabaseExternalCredential :: "string \<Rightarrow> instant \<Rightarrow> unit db" where
  "RevokeDatabaseExternalCredential credentialID now s =
     (let stamp = rfc3339_nano now; p = (\<lambda>k. xk_id k = trim credentialID \<and> xk_state k \<noteq> ''revoked'')
      in if sql_count p (external_credentials s) \<noteq> 1 then db_fail ErrNoRows s
         else db_ok () (s\<lparr>external_credentials := sql_update p (erased stamp stamp) (external_credentials s)\<rparr>))"

definition TouchDatabaseExternalCredentialUsage :: "string list \<Rightarrow> instant \<Rightarrow> unit db" where
  "TouchDatabaseExternalCredentialUsage roleNames t s =
     (let unique = filter (\<lambda>r. r \<noteq> []) (remdups (map trim roleNames)); stamp = rfc3339_nano t;
          used = (\<lambda>k. (xk_state k = ''active'' \<or> xk_state k = ''grace'') \<and> xk_role_name k \<in> set unique)
      in if unique = [] then db_ok () s
         else if DefaultGatewayClientLimit < length unique then db_fail (Errorf ''too many gateway usage roles'' []) s
         else let s1 = s\<lparr>external_credentials := sql_update used (\<lambda>k. k\<lparr>xk_last_used_at := stamp\<rparr>) (external_credentials s)\<rparr>
              in db_ok () (s1\<lparr>external_connections := sql_update
                   (\<lambda>c. sql_exists (\<lambda>k. used k \<and> xk_connection_id k = xc_id c) (external_credentials s1))
                   (\<lambda>c. c\<lparr>xc_last_used_at := stamp\<rparr>) (external_connections s1)\<rparr>))"

definition RollbackDatabaseExternalCredentialRotation :: "string \<Rightarrow> string \<Rightarrow> int \<Rightarrow> instant \<Rightarrow> unit db" where
  "RollbackDatabaseExternalCredentialRotation connectionID failedCredentialID previousGeneration now s =
     (let stamp = rfc3339_nano now;
          p = (\<lambda>k. xk_id k = trim failedCredentialID \<and> xk_connection_id k = trim connectionID);
          q = (\<lambda>c. xc_id c = trim connectionID \<and> previousGeneration < xc_current_generation c)
      in if trim connectionID = [] \<or> trim failedCredentialID = [] \<or> previousGeneration < 1
         then db_fail (Errorf ''rotation rollback scope and previous generation required'' []) s
         else if sql_count p (external_credentials s) \<noteq> 1 then db_fail ErrNoRows s
         else if sql_count q (external_connections s) \<noteq> 1
         then db_fail (Sentinel ''invalid_external_connection_state'') s
         else db_ok () (s\<lparr>
           external_credentials := sql_update p (erased_once stamp) (external_credentials s),
           external_connections := sql_update q
             (\<lambda>c. c\<lparr>xc_current_generation := previousGeneration, xc_status := ''active'', xc_last_error_code := [],
                xc_last_error_message := [], xc_updated_at := stamp\<rparr>) (external_connections s)\<rparr>))"

definition CompleteDatabaseExternalCredentialRotation :: "string \<Rightarrow> string \<Rightarrow> instant \<Rightarrow> instant \<Rightarrow> unit db" where
  "CompleteDatabaseExternalCredentialRotation connectionID previousCredentialID graceDeadline now s =
     (let stamp = rfc3339_nano now;
          p = (\<lambda>k. trim previousCredentialID \<noteq> [] \<and> xk_id k = trim previousCredentialID \<and>
                xk_connection_id k = trim connectionID \<and> xk_state k = ''active'');
          q = (\<lambda>c. xc_id c = trim connectionID \<and> xc_status c \<in> {''pending'', ''rotating'', ''failed''})
      in if sql_count q (external_connections s) \<noteq> 1
         then db_fail (Sentinel ''invalid_external_connection_state'') s
         else db_ok () (s\<lparr>
           external_credentials := sql_update p (graced (rfc3339_nano graceDeadline) stamp) (external_credentials s),
           external_connections := sql_update q
             (\<lambda>c. c\<lparr>xc_status := ''active'', xc_last_error_code := [], xc_last_error_message := [],
                xc_updated_at := stamp\<rparr>) (external_connections s)\<rparr>))"

definition FinalizeDatabaseExternalConnectionRevocation :: "string \<Rightarrow> instant \<Rightarrow> unit db" where
  "FinalizeDatabaseExternalConnectionRevocation connectionID now s =
     (let stamp = rfc3339_nano now; q = (\<lambda>c. xc_id c = trim connectionID)
      in if sql_count q (external_connections s) \<noteq> 1
         then db_fail (Sentinel ''database_external_connection_not_found'') s
         else db_ok () (s\<lparr>
           external_credentials := sql_update (\<lambda>k. xk_connection_id k = trim connectionID) (erased_once stamp)
             (external_credentials s),
           external_connections := sql_update q
             (\<lambda>c. c\<lparr>xc_status := ''revoked'', xc_last_error_code := [], xc_last_error_message := [],
                xc_updated_at := stamp\<rparr>) (external_connections s)\<rparr>))"

section \<open>Setting states\<close>

definition SetDatabaseExternalConnectionStatus :: "string \<Rightarrow> string \<Rightarrow> string \<Rightarrow> string \<Rightarrow> instant \<Rightarrow> unit db" where
  "SetDatabaseExternalConnectionStatus connectionID status errorCode errorMessage now s =
     (let q = (\<lambda>c. xc_id c = trim connectionID); st = to_lower (trim status)
      in if sql_exists q (external_connections s) \<and> st \<notin> set connection_statuses
         then db_fail (ConstraintErr ''check'') s
         else if sql_count q (external_connections s) \<noteq> 1
         then db_fail (Sentinel ''database_external_connection_not_found'') s
         else db_ok () (s\<lparr>external_connections := sql_update q
           (\<lambda>c. c\<lparr>xc_status := st, xc_last_error_code := trim errorCode, xc_last_error_message := trim errorMessage,
              xc_updated_at := rfc3339_nano now\<rparr>) (external_connections s)\<rparr>))"

text \<open>An empty string, or a negative number, leaves the column alone.\<close>

definition keep_empty :: "string \<Rightarrow> string \<Rightarrow> string" where
  "keep_empty new old = (if new = [] then old else new)"

definition keep_negative :: "int \<Rightarrow> int \<Rightarrow> int" where
  "keep_negative new old = (if new < 0 then old else new)"

definition SetDatabaseGatewayEndpointState ::
  "string \<Rightarrow> string \<Rightarrow> string \<Rightarrow> string \<Rightarrow> int \<Rightarrow> int \<Rightarrow> int \<Rightarrow> string \<Rightarrow> string \<Rightarrow> instant \<Rightarrow> unit db" where
  "SetDatabaseGatewayEndpointState engine desired observed containerID desiredGen renderedGen appliedGen errorCode
     errorMessage now s =
     (let p = (\<lambda>x. gwe_engine x = to_lower (trim engine))
      in if sql_exists p (gateway_endpoints s) \<and>
            (desired \<notin> insert [] (set endpoint_desired) \<or> observed \<notin> insert [] (set endpoint_observed))
         then db_fail (ConstraintErr ''check'') s
         else if sql_count p (gateway_endpoints s) \<noteq> 1 then db_fail (Sentinel ''database_gateway_not_found'') s
         else db_ok () (s\<lparr>gateway_endpoints := sql_update p
           (\<lambda>x. x\<lparr>gwe_desired_status := keep_empty desired (gwe_desired_status x),
              gwe_observed_status := keep_empty observed (gwe_observed_status x),
              gwe_docker_container_id := keep_empty containerID (gwe_docker_container_id x),
              gwe_desired_generation := keep_negative desiredGen (gwe_desired_generation x),
              gwe_rendered_generation := keep_negative renderedGen (gwe_rendered_generation x),
              gwe_applied_generation := keep_negative appliedGen (gwe_applied_generation x),
              gwe_last_error_code := trim errorCode, gwe_last_error_message := trim errorMessage,
              gwe_updated_at := rfc3339_nano now\<rparr>) (gateway_endpoints s)\<rparr>))"

definition SetDatabaseGatewayCertificate :: "string \<Rightarrow> string \<Rightarrow> instant \<Rightarrow> instant \<Rightarrow> instant \<Rightarrow> unit db" where
  "SetDatabaseGatewayCertificate engine fingerprint expiresAt syncedAt now s =
     (let p = (\<lambda>x. gwe_engine x = to_lower (trim engine))
      in if sql_count p (gateway_endpoints s) \<noteq> 1 then db_fail (Sentinel ''database_gateway_not_found'') s
         else db_ok () (s\<lparr>gateway_endpoints := sql_update p
           (\<lambda>x. x\<lparr>gwe_certificate_fingerprint := trim fingerprint,
              gwe_certificate_expires_at := rfc3339_nano expiresAt,
              gwe_certificate_synced_at := rfc3339_nano syncedAt, gwe_updated_at := rfc3339_nano now\<rparr>)
           (gateway_endpoints s)\<rparr>))"

definition ClearDatabaseGatewayEndpointRuntime :: "string \<Rightarrow> instant \<Rightarrow> unit db" where
  "ClearDatabaseGatewayEndpointRuntime engine now s =
     (let p = (\<lambda>x. gwe_engine x = to_lower (trim engine))
      in if sql_count p (gateway_endpoints s) \<noteq> 1 then db_fail (Sentinel ''database_gateway_not_found'') s
         else db_ok () (s\<lparr>gateway_endpoints := sql_update p
           (\<lambda>x. x\<lparr>gwe_desired_status := ''absent'', gwe_observed_status := ''absent'', gwe_docker_container_id := [],
              gwe_certificate_fingerprint := [], gwe_certificate_expires_at := [], gwe_certificate_synced_at := [],
              gwe_desired_generation := 0, gwe_rendered_generation := 0, gwe_applied_generation := 0,
              gwe_last_error_code := [], gwe_last_error_message := [], gwe_updated_at := rfc3339_nano now\<rparr>)
           (gateway_endpoints s)\<rparr>))"

definition ListDatabaseGatewayRoutes :: "string \<Rightarrow> store \<Rightarrow> gateway_route_row list" where
  "ListDatabaseGatewayRoutes engine s =
     sql_order (\<lambda>r. (gwr_route_alias r, gwr_id r))
       (filter (\<lambda>r. gwr_engine r = to_lower (trim engine) \<and> gwr_desired_status r \<noteq> ''deleted'') (gateway_routes s))"

definition SetDatabaseGatewayRouteState :: "string \<Rightarrow> string \<Rightarrow> string \<Rightarrow> string \<Rightarrow> string \<Rightarrow> instant \<Rightarrow> unit db" where
  "SetDatabaseGatewayRouteState routeID desired observed errorCode errorMessage now s =
     (let p = (\<lambda>r. gwr_id r = trim routeID)
      in if sql_exists p (gateway_routes s) \<and>
            (desired \<notin> insert [] (set route_desired) \<or> observed \<notin> insert [] (set route_observed))
         then db_fail (ConstraintErr ''check'') s
         else if sql_count p (gateway_routes s) \<noteq> 1 then db_fail (Sentinel ''database_gateway_route_not_found'') s
         else db_ok () (s\<lparr>gateway_routes := sql_update p
           (\<lambda>r. r\<lparr>gwr_desired_status := keep_empty desired (gwr_desired_status r),
              gwr_observed_status := keep_empty observed (gwr_observed_status r),
              gwr_last_error_code := trim errorCode, gwr_last_error_message := trim errorMessage,
              gwr_updated_at := rfc3339_nano now\<rparr>) (gateway_routes s)\<rparr>))"

end
