(* ===== verification/HF_Gateway_Queue.thy ===== *)
theory HF_Gateway_Queue
  imports HF_Gateway_Ops
begin

text \<open>
  The queue of gateway operations in internal/repository/database_gateways.go: claiming with a
  lease, renewing, recording progress, requeueing what a dead worker left, and the periodic sweeps
  that expire connections and retire credentials.  Unlike the operations queue of operations.go it
  keeps no lock keys.
\<close>

definition GetDatabaseGatewayOperation :: "string \<Rightarrow> gateway_operation_row db" where
  "GetDatabaseGatewayOperation operationID s =
     (case sql_get (\<lambda>x. gwo_id x = trim operationID) (gateway_operations s) of
        None \<Rightarrow> db_fail ErrNoRows s | Some x \<Rightarrow> db_ok x s)"

definition HasActiveDatabaseGatewayOperation :: "string \<Rightarrow> string \<Rightarrow> store \<Rightarrow> bool" where
  "HasActiveDatabaseGatewayOperation engine operationType s \<longleftrightarrow>
     0 < sql_count (\<lambda>x. gwo_engine x = to_lower (trim engine) \<and> gwo_operation_type x = trim operationType \<and>
       pending_operation x) (gateway_operations s)"

section \<open>Leases\<close>

definition gateway_lapsed :: "string \<Rightarrow> gateway_operation_row \<Rightarrow> bool" where
  "gateway_lapsed now x \<longleftrightarrow> gwo_status x = ''running'' \<and> (gwo_lease_expires_at x = [] \<or> gwo_lease_expires_at x \<le> now)"

definition gateway_claimable :: "string \<Rightarrow> store \<Rightarrow> gateway_operation_row \<Rightarrow> bool" where
  "gateway_claimable now s x \<longleftrightarrow> (gwo_status x = ''queued'' \<or> gateway_lapsed now x) \<and>
     (gwo_operation_type x \<noteq> ''create_connection'' \<or>
      sql_exists (\<lambda>c. Some (xc_id c) = gwo_connection_id x \<and>
        sql_exists (\<lambda>r. gwr_id r = xc_route_id c \<and>
          sql_exists (\<lambda>i. di_id i = gwr_database_instance_id r \<and> di_desired_state i = ''running'' \<and>
            di_status i = ''healthy'' \<and> di_deleted_at i = []) (database_instances s)) (gateway_routes s))
        (external_connections s))"

definition gateway_claim_set :: "string \<Rightarrow> string \<Rightarrow> string \<Rightarrow> gateway_operation_row \<Rightarrow> gateway_operation_row" where
  "gateway_claim_set owner expires now x =
     x\<lparr>gwo_status := ''running'', gwo_progress_step := ''starting'', gwo_progress_percent := 1,
       gwo_started_at := (if gwo_started_at x = [] then now else gwo_started_at x),
       gwo_lease_owner := owner, gwo_lease_expires_at := expires,
       gwo_attempt_count := gwo_attempt_count x + 1, gwo_updated_at := now\<rparr>"

definition ClaimNextDatabaseGatewayOperation :: "string \<Rightarrow> int \<Rightarrow> instant \<Rightarrow> gateway_operation_row db" where
  "ClaimNextDatabaseGatewayOperation owner0 leaseDuration now s =
     (let owner = trim owner0; stamp = rfc3339_nano now
      in if owner = [] \<or> leaseDuration < int ns_per_sec
         then db_fail (Errorf ''gateway operation lease owner and duration required'' []) s
         else (case sql_first (gateway_claimable stamp s) (\<lambda>x. (gwo_created_at x, gwo_id x)) (gateway_operations s) of
            None \<Rightarrow> db_fail ErrNoRows s
          | Some r \<Rightarrow>
              let p = (\<lambda>x. gwo_id x = gwo_id r \<and> (gwo_status x = ''queued'' \<or> gateway_lapsed stamp x))
              in if sql_count p (gateway_operations s) \<noteq> 1 then db_fail ErrNoRows s
                 else GetDatabaseGatewayOperation (gwo_id r) (s\<lparr>gateway_operations := sql_update p
                   (gateway_claim_set owner (rfc3339_nano (add_dur now leaseDuration)) stamp) (gateway_operations s)\<rparr>)))"

definition RenewDatabaseGatewayOperationLease :: "string \<Rightarrow> string \<Rightarrow> int \<Rightarrow> instant \<Rightarrow> unit db" where
  "RenewDatabaseGatewayOperationLease operationID owner leaseDuration now s =
     (let p = (\<lambda>x. gwo_id x = trim operationID \<and> gwo_status x = ''running'' \<and> gwo_lease_owner x = trim owner)
      in if sql_count p (gateway_operations s) \<noteq> 1 then db_fail ErrNoRows s
         else db_ok () (s\<lparr>gateway_operations := sql_update p
           (\<lambda>x. x\<lparr>gwo_lease_expires_at := rfc3339_nano (add_dur now leaseDuration), gwo_updated_at := rfc3339_nano now\<rparr>)
           (gateway_operations s)\<rparr>))"

text \<open>The outcome is recognised on the status as passed, before it is trimmed and lowered.\<close>

definition gateway_progress_set ::
  "string \<Rightarrow> string \<Rightarrow> int \<Rightarrow> string \<Rightarrow> string \<Rightarrow> string \<Rightarrow> gateway_operation_row \<Rightarrow> gateway_operation_row" where
  "gateway_progress_set status step progress errorCode errorMessage now x =
     (let completed = (if status = ''success'' \<or> status = ''failed'' \<or> status = ''cancelled'' then now else [])
      in x\<lparr>gwo_status := to_lower (trim status), gwo_progress_step := trim step, gwo_progress_percent := progress,
           gwo_error_code := trim errorCode, gwo_error_message := trim errorMessage,
           gwo_completed_at := (if completed \<noteq> [] then completed else gwo_completed_at x),
           gwo_lease_owner := (if completed \<noteq> [] then [] else gwo_lease_owner x),
           gwo_lease_expires_at := (if completed \<noteq> [] then [] else gwo_lease_expires_at x),
           gwo_updated_at := now\<rparr>)"

definition UpdateDatabaseGatewayOperation ::
  "string \<Rightarrow> string \<Rightarrow> string \<Rightarrow> int \<Rightarrow> string \<Rightarrow> string \<Rightarrow> instant \<Rightarrow> gateway_operation_row db" where
  "UpdateDatabaseGatewayOperation operationID status step progress errorCode errorMessage now s =
     (let p = (\<lambda>x. gwo_id x = trim operationID)
      in if progress < 0 \<or> 100 < progress then db_fail (Errorf ''invalid gateway operation progress'' []) s
         else if sql_exists p (gateway_operations s) \<and> to_lower (trim status) \<notin> set gateway_operation_statuses
         then db_fail (ConstraintErr ''check'') s
         else if sql_count p (gateway_operations s) \<noteq> 1 then db_fail ErrNoRows s
         else GetDatabaseGatewayOperation operationID (s\<lparr>gateway_operations := sql_update p
           (gateway_progress_set status step progress errorCode errorMessage (rfc3339_nano now))
           (gateway_operations s)\<rparr>))"

definition RequeueExpiredDatabaseGatewayOperations :: "instant \<Rightarrow> store \<Rightarrow> nat \<times> store" where
  "RequeueExpiredDatabaseGatewayOperations t s =
     (let now = rfc3339_nano t
      in (sql_count (gateway_lapsed now) (gateway_operations s),
          s\<lparr>gateway_operations := sql_update (gateway_lapsed now)
            (\<lambda>x. x\<lparr>gwo_status := ''queued'', gwo_progress_step := ''recovery'', gwo_progress_percent := 0,
               gwo_lease_owner := [], gwo_lease_expires_at := [], gwo_updated_at := now\<rparr>) (gateway_operations s)\<rparr>))"

section \<open>Failed provisioning\<close>

definition pending_connections :: "string \<Rightarrow> store \<Rightarrow> string list" where
  "pending_connections instanceID s =
     map xc_id (filter (\<lambda>c. xc_status c = ''pending'' \<and>
       sql_exists (\<lambda>r. gwr_id r = xc_route_id c \<and> gwr_database_instance_id r = instanceID) (gateway_routes s))
       (external_connections s))"

definition FailQueuedInitialDatabaseExternalConnections :: "string \<Rightarrow> string \<Rightarrow> string \<Rightarrow> instant \<Rightarrow> unit db" where
  "FailQueuedInitialDatabaseExternalConnections instanceID0 errorCode errorMessage now0 s =
     (let instanceID = trim instanceID0; now = rfc3339_nano now0; ids = pending_connections instanceID s
      in if instanceID = [] then db_fail (Sentinel ''database_instance_not_found'') s
         else db_ok () (s\<lparr>
           gateway_operations := sql_update (\<lambda>x. gwo_operation_type x = ''create_connection'' \<and> gwo_status x = ''queued'' \<and>
               (case gwo_connection_id x of None \<Rightarrow> False | Some c \<Rightarrow> c \<in> set ids))
             (\<lambda>x. x\<lparr>gwo_status := ''failed'', gwo_progress_step := ''database_provision_failed'',
                gwo_error_code := trim errorCode, gwo_error_message := trim errorMessage, gwo_completed_at := now,
                gwo_lease_owner := [], gwo_lease_expires_at := [], gwo_updated_at := now\<rparr>) (gateway_operations s),
           external_connections := sql_update (\<lambda>c. xc_id c \<in> set ids)
             (\<lambda>c. c\<lparr>xc_status := ''failed'', xc_last_error_code := trim errorCode,
                xc_last_error_message := trim errorMessage, xc_updated_at := now\<rparr>) (external_connections s)\<rparr>))"

section \<open>Sweeps\<close>

definition sweep_limit :: "int \<Rightarrow> nat" where
  "sweep_limit limit = (if limit \<le> 0 \<or> 200 < limit then 50 else nat limit)"

definition due_connections :: "string \<Rightarrow> store \<Rightarrow> string list" where
  "due_connections now s =
     map xc_id (sql_order (\<lambda>c. (xc_expires_at c, xc_id c))
       (filter (\<lambda>c. xc_status c = ''active'' \<and> xc_expires_at c \<noteq> [] \<and> xc_expires_at c \<le> now \<and>
          \<not> sql_exists (\<lambda>x. gwo_connection_id x = Some (xc_id c) \<and> gwo_operation_type x = ''expire_connection'' \<and>
            pending_operation x) (gateway_operations s)) (external_connections s)))"

definition getGatewayOperationScope :: "string \<Rightarrow> gateway_route_row db" where
  "getGatewayOperationScope connectionID s =
     (case fst (GetDatabaseExternalConnection connectionID s) of
        Inl e \<Rightarrow> db_fail e s
      | Inr connection \<Rightarrow> getDatabaseGatewayRouteByID (xc_route_id (ec_row connection)) s)"

definition expire_mutation :: "string \<Rightarrow> string \<Rightarrow> store \<Rightarrow> store res" where
  "expire_mutation connectionID stamp s =
     Inr (s\<lparr>external_connections := sql_update (\<lambda>c. xc_id c = connectionID \<and> xc_status c = ''active'')
       (\<lambda>c. c\<lparr>xc_status := ''expired'', xc_updated_at := stamp\<rparr>) (external_connections s)\<rparr>)"

fun expire_all :: "string list \<Rightarrow> (nat \<Rightarrow> string) \<Rightarrow> instant \<Rightarrow> nat \<Rightarrow> store \<Rightarrow> nat \<times> go_error option \<times> store" where
  "expire_all [] newIDs now queued s = (queued, None, s)"
| "expire_all (i # ids) newIDs now queued s =
     (case fst (getGatewayOperationScope i s) of
        Inl e \<Rightarrow> (queued, Some e, s)
      | Inr route \<Rightarrow>
          (case queueGatewayOperation (gwr_engine route) (gwr_id route) i [] ''expire_connection''
               DefaultRotationGracePeriodHours ''system'' (expire_mutation i) (newIDs queued) now s of
             (Inl e, s1) \<Rightarrow> (queued, Some e, s1)
           | (Inr _, s1) \<Rightarrow> expire_all ids newIDs now (queued + 1) s1))"

definition QueueDueDatabaseExternalConnectionExpirations ::
  "instant \<Rightarrow> int \<Rightarrow> (nat \<Rightarrow> string) \<Rightarrow> instant \<Rightarrow> store \<Rightarrow> nat \<times> go_error option \<times> store" where
  "QueueDueDatabaseExternalConnectionExpirations t limit newIDs now s =
     expire_all (take (sweep_limit limit) (due_connections (rfc3339_nano t) s)) newIDs now 0 s"

definition due_credentials :: "string \<Rightarrow> store \<Rightarrow> (external_credential_row \<times> gateway_route_row) list" where
  "due_credentials now s =
     sql_order (\<lambda>(k, r). (xk_grace_deadline k, xk_id k))
       (concat (map (\<lambda>k. concat (map (\<lambda>c. map (Pair k) (filter (\<lambda>r. gwr_id r = xc_route_id c) (gateway_routes s)))
            (filter (\<lambda>c. xc_id c = xk_connection_id k) (external_connections s))))
         (filter (\<lambda>k. xk_state k = ''grace'' \<and> xk_grace_deadline k \<noteq> [] \<and> xk_grace_deadline k \<le> now \<and>
            \<not> sql_exists (\<lambda>x. gwo_credential_id x = Some (xk_id k) \<and> gwo_operation_type x = ''retire_credential'' \<and>
              pending_operation x) (gateway_operations s)) (external_credentials s))))"

fun retire_all :: "(external_credential_row \<times> gateway_route_row) list \<Rightarrow> (nat \<Rightarrow> string) \<Rightarrow> instant \<Rightarrow> nat \<Rightarrow> store \<Rightarrow>
    nat \<times> go_error option \<times> store" where
  "retire_all [] newIDs now index s = (index, None, s)"
| "retire_all ((k, r) # due) newIDs now index s =
     (case queueGatewayOperation (gwr_engine r) (gwr_id r) (xk_connection_id k) (xk_id k) ''retire_credential'' 0
          ''system'' (\<lambda>stamp. Inr) (newIDs index) now s of
        (Inl e, s1) \<Rightarrow> (index, Some e, s1)
      | (Inr _, s1) \<Rightarrow> retire_all due newIDs now (index + 1) s1)"

definition QueueDueDatabaseExternalCredentialRetirements ::
  "instant \<Rightarrow> int \<Rightarrow> (nat \<Rightarrow> string) \<Rightarrow> instant \<Rightarrow> store \<Rightarrow> nat \<times> go_error option \<times> store" where
  "QueueDueDatabaseExternalCredentialRetirements t limit newIDs now s =
     retire_all (take (sweep_limit limit) (due_credentials (rfc3339_nano t) s)) newIDs now 0 s"

section \<open>Changing the platform domain\<close>

definition CountActiveDatabaseGatewayConnections :: "store \<Rightarrow> nat" where
  "CountActiveDatabaseGatewayConnections s = sql_count (\<lambda>c. xc_status c \<noteq> ''revoked'') (external_connections s)"

definition endpoint_in_use :: "gateway_endpoint_row \<Rightarrow> bool" where
  "endpoint_in_use x \<longleftrightarrow> gwe_desired_status x \<noteq> ''absent'' \<or> gwe_observed_status x \<noteq> ''absent'' \<or>
     gwe_docker_container_id x \<noteq> [] \<or> gwe_certificate_fingerprint x \<noteq> [] \<or> gwe_desired_generation x \<noteq> 0 \<or>
     gwe_rendered_generation x \<noteq> 0 \<or> gwe_applied_generation x \<noteq> 0"

definition checkDatabaseGatewayDomainChangeAllowed :: "store \<Rightarrow> go_error option" where
  "checkDatabaseGatewayDomainChangeAllowed s =
     (if 0 < sql_count (\<lambda>c. xc_status c \<noteq> ''revoked'') (external_connections s)
      then Some (Sentinel ''database_gateway_has_active_connections'')
      else if 0 < sql_count endpoint_in_use (gateway_endpoints s) + sql_count pending_operation (gateway_operations s)
      then Some (Sentinel ''database_gateway_teardown_required'')
      else None)"

definition CheckDatabaseGatewayDomainChangeAllowed :: "store \<Rightarrow> go_error option" where
  "CheckDatabaseGatewayDomainChangeAllowed s = checkDatabaseGatewayDomainChangeAllowed s"

end
