(* ===== verification/HF_Onboarding.thy ===== *)
theory HF_Onboarding
  imports HF_Domains HF_Gateway_Queue
begin

text \<open>
  First-run setup: internal/repository/onboarding.go and github_app.go.  One row records how far
  onboarding got and the platform domain, one row the GitHub App; moving the platform domain takes
  every platform hostname and every unused gateway endpoint along.
\<close>

section \<open>Onboarding\<close>

record onboarding_view =
  ov_GitHubAppComplete :: bool
  ov_PlatformDomain :: string
  ov_PermanentIngressComplete :: bool
  ov_BootstrapComplete :: bool
  ov_CompletedAt :: go_time
  ov_UpdatedAt :: go_time

definition github_complete :: "store \<Rightarrow> bool" where
  "github_complete s \<longleftrightarrow> ob_github_app_complete (onboarding_state s) \<or> github_app s \<noteq> None"

definition GetOnboardingState :: "store \<Rightarrow> onboarding_view" where
  "GetOnboardingState s =
     (let o1 = onboarding_state s
      in \<lparr> ov_GitHubAppComplete = github_complete s, ov_PlatformDomain = ob_platform_domain o1,
           ov_PermanentIngressComplete = ob_permanent_ingress_complete o1,
           ov_BootstrapComplete = ob_bootstrap_complete o1,
           ov_CompletedAt = parse_time (ob_completed_at o1), ov_UpdatedAt = parse_time (ob_updated_at o1) \<rparr>)"

definition MarkGitHubAppComplete :: "instant \<Rightarrow> store \<Rightarrow> store" where
  "MarkGitHubAppComplete now s =
     s\<lparr>onboarding_state := (onboarding_state s)\<lparr>ob_github_app_complete := True, ob_updated_at := rfc3339 now\<rparr>\<rparr>"

definition CompleteOnboarding :: "string \<Rightarrow> instant \<Rightarrow> unit db" where
  "CompleteOnboarding domain now s =
     (let d = to_lower (trim domain)
      in if d = [] then db_fail (Errorf ''platform domain is required'' []) s
         else if \<not> github_complete s then db_fail (Errorf ''github app must be completed first'' []) s
         else db_ok () (s\<lparr>onboarding_state := (onboarding_state s)\<lparr>ob_github_app_complete := True,
           ob_platform_domain := d, ob_permanent_ingress_complete := True, ob_bootstrap_complete := True,
           ob_completed_at := rfc3339 now, ob_updated_at := rfc3339 now\<rparr>\<rparr>))"

text \<open>SQLite's \<open>LIKE\<close>: \<open>%\<close> is any text, \<open>_\<close> any character, ASCII letters match in either case.\<close>

fun sql_like :: "string \<Rightarrow> string \<Rightarrow> bool" where
  "sql_like [] s \<longleftrightarrow> s = []"
| "sql_like (p # ps) [] \<longleftrightarrow> p = CHR ''%'' \<and> sql_like ps []"
| "sql_like (p # ps) (c # s) \<longleftrightarrow>
     (if p = CHR ''%'' then sql_like ps (c # s) \<or> sql_like (p # ps) s
      else (p = CHR ''_'' \<or> lower_char p = lower_char c) \<and> sql_like ps s)"

definition moved_name :: "string \<Rightarrow> string \<Rightarrow> string \<Rightarrow> string" where
  "moved_name current next name = take (length name - length current) name @ next"

text \<open>
  \<open>UPDATE domains\<close> row by row: a new hostname may not be another row's at that moment.
\<close>

fun move_rows :: "('r \<Rightarrow> bool) \<Rightarrow> ('r \<Rightarrow> 'r) \<Rightarrow> ('r \<Rightarrow> 'k) \<Rightarrow> 'r list \<Rightarrow> 'r list \<Rightarrow> 'r list res" where
  "move_rows p f key done [] = Inr done"
| "move_rows p f key done (r # rs) =
     (if \<not> p r then move_rows p f key (done @ [r]) rs
      else if key (f r) \<in> key ` set (done @ rs) then Inl (ConstraintErr ''unique'')
      else move_rows p f key (done @ [f r]) rs)"

definition UpdatePlatformDomain :: "string \<Rightarrow> string \<Rightarrow> instant \<Rightarrow> unit db" where
  "UpdatePlatformDomain currentDomain nextDomain now s =
     (let current = to_lower (trim currentDomain); next = to_lower (trim nextDomain); stamp = rfc3339 now;
          under = sql_like (''%.'' @ current);
          changed = Sentinel ''platform_domain_changed_concurrently''
      in if current = [] \<or> next = [] then db_fail (Errorf ''current and next platform domains are required'' []) s
         else if current = next then db_ok () s
         else if ob_platform_domain (onboarding_state s) \<noteq> current then db_fail changed s
         else (case checkDatabaseGatewayDomainChangeAllowed s of
            Some e \<Rightarrow> db_fail e s
          | None \<Rightarrow>
              if 0 < sql_count (\<lambda>m. dm_kind m = ''platform'' \<and> \<not> under (dm_domain_name m)) (domains s)
              then db_fail (Errorf ''managed platform domains do not match current suffix'' []) s
              else (case move_rows (\<lambda>m. dm_kind m = ''platform'')
                     (\<lambda>m. m\<lparr>dm_domain_name := moved_name current next (dm_domain_name m), dm_ssl_status := ''PENDING'',
                        dm_last_cert_message := [], dm_cert_checked_at := [], dm_updated_at := stamp\<rparr>)
                     dm_domain_name [] (domains s) of
                 Inl e \<Rightarrow> db_fail (Errorf ''move managed platform domains'' []) s
               | Inr ms \<Rightarrow>
                   (case move_rows (\<lambda>x. gwe_hostname x = current \<or> under (gwe_hostname x))
                      (\<lambda>x. x\<lparr>gwe_hostname := moved_name current next (gwe_hostname x), gwe_updated_at := stamp\<rparr>)
                      (\<lambda>x. (gwe_hostname x, gwe_port x)) [] (gateway_endpoints s) of
                      Inl e \<Rightarrow> db_fail (Errorf ''move absent database gateway endpoints'' []) s
                    | Inr es \<Rightarrow> db_ok () (s\<lparr>domains := ms, gateway_endpoints := es,
                        onboarding_state := (onboarding_state s)\<lparr>ob_platform_domain := next, ob_updated_at := stamp\<rparr>\<rparr>)))))"

section \<open>The GitHub App\<close>

record github_app_input =
  gai_AppID :: int
  gai_Slug :: string
  gai_HTMLURL :: string
  gai_ClientID :: string
  gai_ClientSecretCT :: string
  gai_PrivateKeyCT :: string
  gai_WebhookSecretCT :: string

text \<open>The metadata a caller without secrets sees.\<close>

definition GetGitHubAppMeta :: "github_app_row db" where
  "GetGitHubAppMeta s =
     (case github_app s of
        None \<Rightarrow> db_fail ErrNoRows s
      | Some g \<Rightarrow> db_ok (g\<lparr>gh_client_secret_ct := [], gh_private_key_ct := [], gh_webhook_secret_ct := []\<rparr>) s)"

definition GetGitHubAppSealed :: "github_app_row db" where
  "GetGitHubAppSealed s = (case github_app s of None \<Rightarrow> db_fail ErrNoRows s | Some g \<Rightarrow> db_ok g s)"

definition UpsertGitHubApp :: "github_app_input \<Rightarrow> instant \<Rightarrow> github_app_row db" where
  "UpsertGitHubApp i now s =
     (if gai_AppID i \<le> 0 then db_fail (Errorf ''app_id must be > 0'' []) s
      else if gai_PrivateKeyCT i = [] then db_fail (Errorf ''private_key_ct required'' []) s
      else GetGitHubAppMeta (MarkGitHubAppComplete now (s\<lparr>github_app := Some
        \<lparr> gh_app_id = gai_AppID i, gh_slug = gai_Slug i, gh_html_url = gai_HTMLURL i,
          gh_client_id = gai_ClientID i, gh_client_secret_ct = gai_ClientSecretCT i,
          gh_private_key_ct = gai_PrivateKeyCT i, gh_webhook_secret_ct = gai_WebhookSecretCT i,
          gh_created_at = rfc3339 now, gh_updated_at = rfc3339 now \<rparr>\<rparr>)))"

definition DeleteGitHubApp :: "instant \<Rightarrow> unit db" where
  "DeleteGitHubApp now s =
     (if github_app s = None then db_fail ErrNoRows s
      else db_ok () (s\<lparr>github_installations := [], github_app := None,
        onboarding_state := (onboarding_state s)\<lparr>ob_github_app_complete := False, ob_updated_at := rfc3339 now\<rparr>\<rparr>))"

record installation_input =
  ini_InstallationID :: int
  ini_AccountLogin :: string
  ini_AccountType :: string
  ini_TargetType :: string
  ini_RepoSelection :: string
  ini_Suspended :: bool

definition UpsertGitHubInstallation :: "installation_input \<Rightarrow> instant \<Rightarrow> unit db" where
  "UpsertGitHubInstallation i now s =
     (let stamp = rfc3339 now; suspended = (if ini_Suspended i then stamp else []);
          p = (\<lambda>g. gi_installation_id g = ini_InstallationID i)
      in if ini_InstallationID i \<le> 0 then db_fail (Errorf ''installation_id must be > 0'' []) s
         else if 0 < sql_count p (github_installations s)
         then db_ok () (s\<lparr>github_installations := sql_update p
           (\<lambda>g. g\<lparr>gi_account_login := ini_AccountLogin i, gi_account_type := ini_AccountType i,
              gi_target_type := ini_TargetType i, gi_repo_selection := ini_RepoSelection i,
              gi_suspended_at := suspended, gi_last_synced_at := stamp\<rparr>) (github_installations s)\<rparr>)
         else db_ok () (s\<lparr>github_installations := github_installations s @
           [\<lparr> gi_installation_id = ini_InstallationID i, gi_account_login = ini_AccountLogin i,
              gi_account_type = ini_AccountType i, gi_target_type = ini_TargetType i,
              gi_repo_selection = ini_RepoSelection i, gi_suspended_at = suspended,
              gi_last_synced_at = stamp, gi_created_at = stamp \<rparr>]\<rparr>))"

definition GetGitHubInstallation :: "int \<Rightarrow> github_installation_row db" where
  "GetGitHubInstallation i s =
     (case sql_get (\<lambda>g. gi_installation_id g = i) (github_installations s) of
        None \<Rightarrow> db_fail ErrNoRows s | Some g \<Rightarrow> db_ok g s)"

definition ListGitHubInstallations :: "store \<Rightarrow> github_installation_row list" where
  "ListGitHubInstallations s = sql_order gi_account_login (github_installations s)"

definition DeleteGitHubInstallation :: "int \<Rightarrow> unit db" where
  "DeleteGitHubInstallation i s =
     (let p = (\<lambda>g. gi_installation_id g = i)
      in if sql_count p (github_installations s) = 0 then db_fail ErrNoRows s
         else db_ok () (s\<lparr>github_installations := sql_delete p (github_installations s)\<rparr>))"

definition SuspendGitHubInstallation :: "int \<Rightarrow> bool \<Rightarrow> instant \<Rightarrow> unit db" where
  "SuspendGitHubInstallation i suspended now s =
     db_ok () (s\<lparr>github_installations := sql_update (\<lambda>g. gi_installation_id g = i)
       (\<lambda>g. g\<lparr>gi_suspended_at := (if suspended then rfc3339 now else []), gi_last_synced_at := rfc3339 now\<rparr>)
       (github_installations s)\<rparr>)"

end
