(* ===== verification/HF_Domain_Props.thy ===== *)
theory HF_Domain_Props
  imports HF_Catalog_Props HF_Onboarding
begin

text \<open>
  What holds of the hostnames, along any sequence of hostname, catalogue and onboarding transactions:
  they are unique, a service has at most one platform hostname per environment, every platform
  hostname stands under the current platform domain, and no hostname outlives what it points at.
\<close>

section \<open>The invariant\<close>

definition platform_suffix :: "store \<Rightarrow> string" where
  "platform_suffix s = to_lower (trim (ob_platform_domain (onboarding_state s)))"

definition hostname_row_ok :: "string \<Rightarrow> domain_row \<Rightarrow> bool" where
  "hostname_row_ok pd m \<longleftrightarrow> dm_kind m \<in> set domain_kinds \<and> dm_publish_state m \<in> set publish_states \<and>
     (dm_kind m = ''platform'' \<longrightarrow> pd \<noteq> [] \<and> (\<exists>label. dm_domain_name m = label @ ''.'' @ pd))"

abbreviation domain_pair :: "domain_row \<Rightarrow> string \<times> string" where
  "domain_pair m \<equiv> (dm_service_id m, dm_environment_id m)"

definition hostnames_ok :: "string \<Rightarrow> domain_row list \<Rightarrow> bool" where
  "hostnames_ok pd ms \<longleftrightarrow> distinct (map dm_id ms) \<and> distinct (map dm_domain_name ms) \<and>
     distinct (map domain_pair (filter (\<lambda>m. dm_kind m = ''platform'') ms)) \<and> list_all (hostname_row_ok pd) ms"

definition domain_inv :: "store \<Rightarrow> bool" where
  "domain_inv s \<longleftrightarrow> catalog_wf s \<and> hostnames_ok (platform_suffix s) (domains s)"

inductive domain_step :: "store \<Rightarrow> store \<Rightarrow> bool" where
  dm_create: "domain_step s (snd (CreateServiceDomain a e v name i now s))"
| dm_update: "domain_step s (snd (UpdateServiceDomain a e i name v now s))"
| dm_delete: "domain_step s (snd (DeleteServiceDomain a e i s))"
| dm_restore: "dm_kind item \<noteq> ''platform'' \<Longrightarrow> domain_step s (snd (RestoreServiceDomain item s))"
| dm_ensure: "domain_step s (snd (EnsurePlatformServiceDomain a e v draws ids now s))"
| dm_backfill: "domain_step s (snd (snd (EnsureActivePlatformServiceDomains drawss idss now s)))"
| dm_cert: "domain_step s (snd (UpdateDomainCertObservation i msg at s))"
| dm_ssl: "domain_step s (snd (UpdateDomainSSLStatus i st now s))"
| dm_publish: "domain_step s (snd (SetDomainPublishState i st err now s))"
| dm_publish_all: "domain_step s (snd (SetDomainsPublishState is st now s))"
| dm_onboard: "ob_platform_domain (onboarding_state s) = [] \<Longrightarrow> domain_step s (snd (CompleteOnboarding d now s))"
| dm_move: "domain_step s (snd (UpdatePlatformDomain cur nxt now s))"
| dm_catalog: "catalog_step s s' \<Longrightarrow> domain_step s s'"

section \<open>Rows\<close>

lemma catalog_wf_domains:
  assumes "catalog_wf s" and "refers dm_application_id ms (ids_of app_id (applications s))"
    and "refers dm_environment_id ms (ids_of env_id (environments s))"
    and "refers dm_service_id ms (ids_of svc_id (services s))"
  shows "catalog_wf (s\<lparr>domains := ms\<rparr>)"
  using assms by (simp add: catalog_wf_def references_ok_def paired_def pair_count_def)

lemma catalog_wf_refers:
  assumes "catalog_wf s"
  shows "refers dm_application_id (domains s) (ids_of app_id (applications s))"
    and "refers dm_environment_id (domains s) (ids_of env_id (environments s))"
    and "refers dm_service_id (domains s) (ids_of svc_id (services s))"
  using assms by (simp_all add: catalog_wf_def references_ok_def)

lemma catalog_wf_other:
  "catalog_wf (s\<lparr>gateway_endpoints := es\<rparr>) = catalog_wf s" "catalog_wf (s\<lparr>onboarding_state := ob\<rparr>) = catalog_wf s"
  by (simp_all add: catalog_wf_def references_ok_def paired_def pair_count_def)

lemma domain_inv_set:
  assumes "domain_inv s" and "hostnames_ok (platform_suffix s) ms"
    and "refers dm_application_id ms (ids_of app_id (applications s))"
    and "refers dm_environment_id ms (ids_of env_id (environments s))"
    and "refers dm_service_id ms (ids_of svc_id (services s))"
  shows "domain_inv (s\<lparr>domains := ms\<rparr>)"
  using assms catalog_wf_domains [of s ms] by (simp add: domain_inv_def platform_suffix_def)

text \<open>Deleting rows and updating columns no constraint is about.\<close>

lemma hostnames_ok_delete: "hostnames_ok pd ms \<Longrightarrow> hostnames_ok pd (sql_delete p ms)"
proof -
  assume ok: "hostnames_ok pd ms"
  have "filter (\<lambda>m. dm_kind m = ''platform'') (sql_delete p ms) =
      sql_delete p (filter (\<lambda>m. dm_kind m = ''platform'') ms)"
    by (simp add: sql_delete_def conj_commute)
  then show ?thesis
    using ok unfolding hostnames_ok_def
    by (simp only: distinct_map_filter_key list_all_iff set_sql_delete) simp
qed

lemma hostnames_ok_update:
  assumes ok: "hostnames_ok pd ms"
    and keep: "\<And>m. dm_id (f m) = dm_id m \<and> dm_domain_name (f m) = dm_domain_name m \<and> dm_kind (f m) = dm_kind m \<and>
      domain_pair (f m) = domain_pair m"
    and publish: "\<And>m. m \<in> set ms \<Longrightarrow> p m \<Longrightarrow> dm_publish_state m \<in> set publish_states \<Longrightarrow> dm_publish_state (f m) \<in> set publish_states"
  shows "hostnames_ok pd (sql_update p f ms)"
proof -
  have "map domain_pair (filter (\<lambda>m. dm_kind m = ''platform'') (sql_update p f ms)) =
      map domain_pair (filter (\<lambda>m. dm_kind m = ''platform'') ms)"
    by (rule map_filter_update) (use keep in auto)
  moreover have "list_all (hostname_row_ok pd) (sql_update p f ms)"
    using ok keep publish by (auto simp: hostnames_ok_def list_all_iff set_sql_update hostname_row_ok_def)
  ultimately show ?thesis
    using ok keep by (simp add: hostnames_ok_def map_sql_update)
qed

lemma domain_inv_update:
  assumes inv: "domain_inv s"
    and keep: "\<And>m. dm_id (f m) = dm_id m \<and> dm_domain_name (f m) = dm_domain_name m \<and> dm_kind (f m) = dm_kind m \<and>
      domain_pair (f m) = domain_pair m \<and> dm_application_id (f m) = dm_application_id m"
    and publish: "\<And>m. m \<in> set (domains s) \<Longrightarrow> p m \<Longrightarrow> dm_publish_state m \<in> set publish_states \<Longrightarrow>
      dm_publish_state (f m) \<in> set publish_states"
  shows "domain_inv (s\<lparr>domains := sql_update p f (domains s)\<rparr>)"
  using inv keep publish catalog_wf_refers [of s]
  by (intro domain_inv_set) (auto simp: domain_inv_def refers_update intro!: hostnames_ok_update)

text \<open>Inserting a row.\<close>

lemma insert_domain_cases:
  obtains e where "insert_domain m s = (Inl e, s)"
  | "insert_domain m s = (Inr (), s\<lparr>domains := domains s @ [m]\<rparr>)" "\<not> sql_exists (domain_clash m) (domains s)"
    "dm_kind m \<in> set domain_kinds" "dm_publish_state m \<in> set publish_states"
    "dm_application_id m \<in> ids_of app_id (applications s)" "dm_environment_id m \<in> ids_of env_id (environments s)"
    "dm_service_id m \<in> ids_of svc_id (services s)"
proof (cases "fst (insert_domain m s)")
  case (Inl e)
  then have "insert_domain m s = (Inl e, s)"
    by (auto simp: insert_domain_def simp del: sql_exists_iff split: if_splits)
  then show ?thesis by (rule that(1))
next
  case (Inr u)
  then show ?thesis
    by (intro that(2)) (force simp: insert_domain_def split: if_splits)+
qed

lemma domain_inv_insert:
  assumes inv: "domain_inv s"
    and label: "dm_kind m = ''platform'' \<longrightarrow> platform_suffix s \<noteq> [] \<and> (\<exists>l. dm_domain_name m = l @ ''.'' @ platform_suffix s)"
  shows "domain_inv (snd (insert_domain m s))"
proof (cases rule: insert_domain_cases [of m s])
  case 2
  have "hostnames_ok (platform_suffix s) (domains s @ [m])"
    using inv label 2(2-4)
    by (auto simp: domain_inv_def hostnames_ok_def hostname_row_ok_def domain_clash_def)
  moreover have "refers dm_application_id [m] (ids_of app_id (applications s))"
    "refers dm_environment_id [m] (ids_of env_id (environments s))" "refers dm_service_id [m] (ids_of svc_id (services s))"
    using 2(5-7) by (simp_all add: refers_def)
  ultimately have "domain_inv (s\<lparr>domains := domains s @ [m]\<rparr>)"
    using inv catalog_wf_refers [of s]
    by (intro domain_inv_set [OF inv]) (simp_all add: refers_append domain_inv_def)
  then show ?thesis using 2(1) by simp
qed (simp add: inv)

lemma valid_target_refs:
  "valid_target a e v s \<Longrightarrow> v \<in> ids_of svc_id (services s)"
  by (force simp: valid_target_def)

lemma GetServiceDomain_snd [simp]: "snd (GetServiceDomain a e i s) = s"
  by (simp add: GetServiceDomain_def split: option.split)


section \<open>Every transaction keeps it\<close>

lemma inv_create: "domain_inv s \<Longrightarrow> domain_inv (snd (CreateServiceDomain a e v name i now s))"
proof -
  assume inv: "domain_inv s"
  let ?m = "new_domain_row i (trim a) (trim e) (trim v) (trim name) ''custom'' (rfc3339 now)"
  have "domain_inv (snd (insert_domain ?m s))"
    by (rule domain_inv_insert [OF inv]) (simp add: new_domain_row_def)
  then show ?thesis
    using inv by (cases "insert_domain ?m s") (auto simp: CreateServiceDomain_def Let_def split: sum.split)
qed

lemma inv_restore: "dm_kind item \<noteq> ''platform'' \<Longrightarrow> domain_inv s \<Longrightarrow> domain_inv (snd (RestoreServiceDomain item s))"
proof -
  assume inv: "domain_inv s" and k: "dm_kind item \<noteq> ''platform''"
  let ?m = "item\<lparr>dm_kind := (if dm_kind item = [] then ''custom'' else dm_kind item),
      dm_publish_state := (if dm_publish_state item = [] then ''unpublished'' else dm_publish_state item)\<rparr>"
  have "domain_inv (snd (insert_domain ?m s))" by (rule domain_inv_insert [OF inv]) (use k in simp)
  then show ?thesis
    using inv by (cases "insert_domain ?m s") (auto simp: RestoreServiceDomain_def split: sum.split)
qed

lemma inv_delete: "domain_inv s \<Longrightarrow> domain_inv (snd (DeleteServiceDomain a e i s))"
proof -
  assume inv: "domain_inv s"
  have "domain_inv (s\<lparr>domains := sql_delete p (domains s)\<rparr>)" for p
    using inv catalog_wf_refers [of s]
    by (intro domain_inv_set [OF inv]) (simp_all add: domain_inv_def hostnames_ok_delete refers_filter)
  then show ?thesis using inv by (simp add: DeleteServiceDomain_def split: sum.split)
qed

lemma inv_update: "domain_inv s \<Longrightarrow> domain_inv (snd (UpdateServiceDomain a e i name v now s))"
proof (cases "fst (GetServiceDomain a e i s)")
  case (Inr m0)
  assume inv: "domain_inv s"
  let ?p = "domain_key a e i" and ?v = "trim (if trim v = [] then dm_service_id m0 else v)"
  let ?f = "moved_domain (trim name) ?v (rfc3339 now)"
  have m0: "m0 \<in> set (domains s)" "?p m0"
    using Inr sql_get_Some [of ?p "domains s"] by (auto simp: GetServiceDomain_def split: option.splits)
  have only: "m = m0" if "m \<in> set (domains s)" "?p m" for m
    using that m0 inv distinct_key_eq [of dm_id "domains s" m m0] by (auto simp: domain_inv_def hostnames_ok_def domain_key_def)
  have "domain_inv (s\<lparr>domains := sql_update ?p ?f (domains s)\<rparr>)"
    if custom: "dm_kind m0 \<noteq> ''platform''" and target: "valid_target (trim a) (trim e) ?v s"
      and free: "\<not> sql_exists (\<lambda>m. \<not> ?p m \<and> dm_domain_name m = trim name) (domains s)"
  proof (rule domain_inv_set [OF inv])
    have ids: "map dm_id (sql_update ?p ?f (domains s)) = map dm_id (domains s)"
      by (rule map_sql_update) (simp add: moved_domain_def)
    have plat: "filter (\<lambda>m. dm_kind m = ''platform'') (sql_update ?p ?f (domains s)) =
        filter (\<lambda>m. dm_kind m = ''platform'') (domains s)"
      using only custom unfolding sql_update_def filter_map
      by (auto simp: o_def moved_domain_def intro!: map_idI filter_cong)
    have names: "distinct (map dm_domain_name (sql_update ?p ?f (domains s)))"
    proof -
      have "inj_on (\<lambda>m. dm_domain_name (if ?p m then ?f m else m)) (set (domains s))"
      proof (rule inj_onI)
        fix x y assume x: "x \<in> set (domains s)" and y: "y \<in> set (domains s)"
          and eq: "dm_domain_name (if ?p x then ?f x else x) = dm_domain_name (if ?p y then ?f y else y)"
        have "inj_on dm_domain_name (set (domains s))"
          using inv by (simp add: domain_inv_def hostnames_ok_def distinct_map)
        moreover have "dm_domain_name z \<noteq> trim name" if "z \<in> set (domains s)" "\<not> ?p z" for z
          using free that by auto
        ultimately show "x = y"
          using x y eq only [OF x] only [OF y]
          by (cases "?p x"; cases "?p y") (auto simp: moved_domain_def dest: inj_onD)
      qed
      then show ?thesis
        using inv by (simp add: sql_update_def distinct_map comp_def domain_inv_def hostnames_ok_def)
    qed
    have "dm_kind m \<noteq> ''platform''" if "m \<in> set (domains s)" "?p m" for m using only [OF that] custom by simp
    then have "hostname_row_ok (platform_suffix s) (?f m)" if "m \<in> set (domains s)" "?p m" for m
      using inv that by (auto simp: hostnames_ok_def domain_inv_def list_all_iff hostname_row_ok_def
          moved_domain_def publish_states_def)
    then have rows: "list_all (hostname_row_ok (platform_suffix s)) (sql_update ?p ?f (domains s))"
      using inv unfolding list_all_sql_update by (auto simp: hostnames_ok_def domain_inv_def list_all_iff)
    show "hostnames_ok (platform_suffix s) (sql_update ?p ?f (domains s))"
      using inv ids plat names rows by (simp add: hostnames_ok_def domain_inv_def)
    show "refers dm_application_id (sql_update ?p ?f (domains s)) (ids_of app_id (applications s))"
      "refers dm_environment_id (sql_update ?p ?f (domains s)) (ids_of env_id (environments s))"
      using inv catalog_wf_refers [of s] by (simp_all add: refers_update moved_domain_def domain_inv_def)
    show "refers dm_service_id (sql_update ?p ?f (domains s)) (ids_of svc_id (services s))"
    proof -
      have "dm_service_id m \<in> ids_of svc_id (services s)" if "m \<in> set (domains s)" for m
        using inv catalog_wf_refers(3) [of s] that by (simp add: domain_inv_def refers_def)
      then show ?thesis
        using valid_target_refs [OF target] by (auto simp only: refers_def moved_domain_def elim!: sql_update_in) simp
    qed
  qed
  then show ?thesis using inv Inr by (auto simp: UpdateServiceDomain_def Let_def)
qed (simp add: UpdateServiceDomain_def)

lemma inv_attempts:
  "domain_inv s \<Longrightarrow> pd = platform_suffix s \<Longrightarrow> pd \<noteq> [] \<Longrightarrow> domain_inv (snd (platform_attempts k draws ids a e v pd now s))"
proof (induction k)
  case (Suc k)
  let ?m = "new_domain_row (ids k) (trim a) (trim e) (trim v) (randomPlatformLabel (draws k) @ ''.'' @ pd) ''platform'' (rfc3339 now)"
  have new: "domain_inv (snd (insert_domain ?m s))"
    by (rule domain_inv_insert) (use Suc.prems in \<open>auto simp: new_domain_row_def\<close>)
  show ?case
  proof (cases "insert_domain ?m s")
    case (Pair r s1)
    have "domain_inv (snd (platform_attempts k draws ids a e v pd now s))" by (rule Suc.IH) (rule Suc.prems)+
    then show ?thesis
      using Pair new Suc.prems(1)
      by (auto simp: Let_def GetServiceDomain_def split: sum.split option.split)
  qed
qed simp

lemma inv_ensure: "domain_inv s \<Longrightarrow> domain_inv (snd (EnsurePlatformServiceDomain a e v draws ids now s))"
  using inv_attempts [of s "platform_suffix s"]
  by (auto simp: EnsurePlatformServiceDomain_def Let_def platform_suffix_def split: option.split)

lemma inv_targets: "domain_inv s \<Longrightarrow> domain_inv (snd (snd (ensure_targets ts draws ids now n s)))"
proof (induction ts draws ids now n s rule: ensure_targets.induct)
  case (2 a e v ts draws ids now n s)
  have "domain_inv (snd (EnsurePlatformServiceDomain a e v (draws (length ts)) (ids (length ts)) now s))"
    by (rule inv_ensure) (rule 2)
  then show ?case
    using 2 by (auto split: prod.splits sum.splits)
qed simp

lemma inv_columns:
  assumes "domain_inv s"
  shows "domain_inv (snd (UpdateDomainCertObservation i msg t s))"
    and "domain_inv (snd (UpdateDomainSSLStatus i st now s))"
    and "domain_inv (snd (SetDomainPublishState i st err now s))"
    and "domain_inv (snd (SetDomainsPublishState is st now s))"
  using assms
  by (auto simp: UpdateDomainCertObservation_def UpdateDomainSSLStatus_def SetDomainPublishState_def
      SetDomainsPublishState_def Let_def intro!: domain_inv_update)


text \<open>Moving the platform domain.\<close>

lemma move_rows_Inr:
  "move_rows p f key done rs = Inr t \<Longrightarrow>
    t = done @ sql_update p f rs \<and> (distinct (map key (done @ rs)) \<longrightarrow> distinct (map key t))"
proof (induction rs arbitrary: "done")
  case (Cons r rs)
  show ?case
  proof (cases "p r")
    case True
    then have t: "move_rows p f key (done @ [f r]) rs = Inr t" "key (f r) \<notin> key ` set (done @ rs)"
      using Cons.prems by (auto split: if_splits)
    have "distinct (map key ((done @ [f r]) @ rs))" if "distinct (map key (done @ r # rs))" using that t(2) by auto
    moreover have "t = done @ sql_update p f (r # rs)"
      using Cons.IH [OF t(1)] True by (simp add: sql_update_def)
    ultimately show ?thesis using Cons.IH [OF t(1)] by blast
  next
    case False
    then have "move_rows p f key (done @ [r]) rs = Inr t" using Cons.prems by simp
    from Cons.IH [OF this] have ih: "t = (done @ [r]) @ sql_update p f rs"
      "distinct (map key ((done @ [r]) @ rs)) \<longrightarrow> distinct (map key t)" by blast+
    have "t = done @ sql_update p f (r # rs)" using ih(1) False by (simp add: sql_update_def)
    then show ?thesis using ih(2) unfolding append_assoc append_Cons append_Nil by blast
  qed
qed (simp add: sql_update_def)

definition relabel :: "string \<Rightarrow> string \<Rightarrow> string \<Rightarrow> domain_row \<Rightarrow> domain_row" where
  "relabel current nxt stamp m =
     m\<lparr>dm_domain_name := moved_name current nxt (dm_domain_name m), dm_ssl_status := ''PENDING'',
       dm_last_cert_message := [], dm_cert_checked_at := [], dm_updated_at := stamp\<rparr>"

lemma UpdatePlatformDomain_cases:
  obtains r where "UpdatePlatformDomain cur nxt now s = (r, s)" "to_lower (trim cur) = to_lower (trim nxt) \<or> r \<noteq> Inr ()"
  | es where "UpdatePlatformDomain cur nxt now s = (Inr (), s\<lparr>
      domains := sql_update (\<lambda>m. dm_kind m = ''platform'') (relabel (to_lower (trim cur)) (to_lower (trim nxt)) (rfc3339 now)) (domains s),
      gateway_endpoints := es,
      onboarding_state := (onboarding_state s)\<lparr>ob_platform_domain := to_lower (trim nxt), ob_updated_at := rfc3339 now\<rparr>\<rparr>)"
    "ob_platform_domain (onboarding_state s) = to_lower (trim cur)" "to_lower (trim nxt) \<noteq> []"
    "distinct (map dm_domain_name (domains s)) \<longrightarrow>
      distinct (map dm_domain_name (sql_update (\<lambda>m. dm_kind m = ''platform'')
        (relabel (to_lower (trim cur)) (to_lower (trim nxt)) (rfc3339 now)) (domains s)))"
proof (cases "snd (UpdatePlatformDomain cur nxt now s) = s \<and>
    (to_lower (trim cur) = to_lower (trim nxt) \<or> fst (UpdatePlatformDomain cur nxt now s) \<noteq> Inr ())")
  case True
  then show ?thesis using that(1) [of "fst (UpdatePlatformDomain cur nxt now s)"] by (metis prod.collapse)
next
  case False
  let ?c = "to_lower (trim cur)" and ?n = "to_lower (trim nxt)" and ?st = "rfc3339 now"
  let ?under = "sql_like (''%.'' @ ?c)"
  let ?mv = "move_rows (\<lambda>m. dm_kind m = ''platform'') (relabel ?c ?n ?st) dm_domain_name [] (domains s)"
  let ?mv2 = "move_rows (\<lambda>x. gwe_hostname x = ?c \<or> ?under (gwe_hostname x))
    (\<lambda>x. x\<lparr>gwe_hostname := moved_name ?c ?n (gwe_hostname x), gwe_updated_at := ?st\<rparr>)
    (\<lambda>x. (gwe_hostname x, gwe_port x)) [] (gateway_endpoints s)"
  note upd = UpdatePlatformDomain_def Let_def relabel_def [abs_def]
  have c1: "?c \<noteq> []" "?n \<noteq> []" "?c \<noteq> ?n" using False by (auto simp: upd)
  have c2: "ob_platform_domain (onboarding_state s) = ?c" by (rule ccontr) (use False c1 in \<open>simp add: upd\<close>)
  have c3: "checkDatabaseGatewayDomainChangeAllowed s = None"
    by (rule ccontr) (use False c1 c2 in \<open>auto simp: upd\<close>)
  have c4: "\<not> 0 < sql_count (\<lambda>m. dm_kind m = ''platform'' \<and> \<not> ?under (dm_domain_name m)) (domains s)"
    by (rule notI) (use False c1 c2 c3 in \<open>simp add: upd\<close>)
  obtain ms where ms: "?mv = Inr ms" using False c1 c2 c3 c4 by (cases ?mv) (simp_all add: upd)
  obtain es where es: "?mv2 = Inr es" using False c1 c2 c3 c4 ms by (cases ?mv2) (simp_all add: upd)
  have eq: "UpdatePlatformDomain cur nxt now s = (Inr (), s\<lparr>domains := ms, gateway_endpoints := es,
      onboarding_state := (onboarding_state s)\<lparr>ob_platform_domain := ?n, ob_updated_at := ?st\<rparr>\<rparr>)"
    using c1 c2 c3 c4 ms es by (simp add: upd)
  have t: "ms = sql_update (\<lambda>m. dm_kind m = ''platform'') (relabel ?c ?n ?st) (domains s)"
    and d: "distinct (map dm_domain_name (domains s)) \<longrightarrow> distinct (map dm_domain_name ms)"
    using move_rows_Inr [OF ms] unfolding append_Nil by blast+
  show ?thesis by (rule that(2) [OF eq [unfolded t] c2 c1(2) d [unfolded t]])
qed

lemma inv_move: "domain_inv s \<Longrightarrow> domain_inv (snd (UpdatePlatformDomain cur nxt now s))"
proof (cases rule: UpdatePlatformDomain_cases [of cur nxt now s])
  case (2 es)
  assume inv: "domain_inv s"
  let ?c = "to_lower (trim cur)" and ?n = "to_lower (trim nxt)"
  let ?f = "relabel ?c ?n (rfc3339 now)" and ?p = "\<lambda>m. dm_kind m = ''platform''"
  let ?ms = "sql_update ?p ?f (domains s)"
  have pd: "platform_suffix s = ?c" using 2(2) by (simp add: platform_suffix_def trim_lower)
  have keep: "dm_id (?f m) = dm_id m" "dm_kind (?f m) = dm_kind m" "domain_pair (?f m) = domain_pair m"
    "dm_application_id (?f m) = dm_application_id m" "dm_publish_state (?f m) = dm_publish_state m" for m
    by (simp_all add: relabel_def)
  have "map domain_pair (filter ?p ?ms) = map domain_pair (filter ?p (domains s))"
    by (rule map_filter_update) (use keep in auto)
  moreover have "map dm_id ?ms = map dm_id (domains s)" using keep by (simp add: map_sql_update)
  moreover have "list_all (hostname_row_ok ?n) ?ms"
  proof -
    have "hostname_row_ok ?n (if ?p m then ?f m else m)" if "m \<in> set (domains s)" for m
    proof -
      have ok: "hostname_row_ok ?c m" using inv that pd by (simp add: domain_inv_def hostnames_ok_def list_all_iff)
      then show ?thesis
        using 2(3) by (auto simp: hostname_row_ok_def relabel_def moved_name_def)
    qed
    then show ?thesis unfolding list_all_sql_update by blast
  qed
  ultimately have "hostnames_ok ?n ?ms"
    using inv 2(4) by (simp add: domain_inv_def hostnames_ok_def)
  moreover have "catalog_wf (s\<lparr>domains := ?ms\<rparr>)"
    using inv catalog_wf_refers [of s] keep
    by (intro catalog_wf_domains) (simp_all add: domain_inv_def refers_update)
  then have "catalog_wf (snd (UpdatePlatformDomain cur nxt now s))"
    unfolding 2(1) by (simp add: catalog_wf_def references_ok_def paired_def pair_count_def)
  ultimately show ?thesis
    by (simp add: 2(1) domain_inv_def platform_suffix_def trim_lower)
qed simp

lemma inv_onboard:
  "ob_platform_domain (onboarding_state s) = [] \<Longrightarrow> domain_inv s \<Longrightarrow> domain_inv (snd (CompleteOnboarding d now s))"
proof -
  assume none: "ob_platform_domain (onboarding_state s) = []" and inv: "domain_inv s"
  then have "hostname_row_ok pd m" if "m \<in> set (domains s)" for pd m
    using that by (auto simp: domain_inv_def hostnames_ok_def list_all_iff hostname_row_ok_def platform_suffix_def)
  then have "hostnames_ok pd (domains s)" for pd
    using inv by (simp add: domain_inv_def hostnames_ok_def list_all_iff)
  then show ?thesis
    using inv by (simp add: CompleteOnboarding_def Let_def domain_inv_def catalog_wf_other)
qed

text \<open>The catalogue deletes hostnames with what they point at and touches nothing else of them.\<close>

lemma sql_delete_none [simp]: "sql_delete (\<lambda>r. False) t = t"
  by (simp add: sql_delete_def)

lemma domains_kept: "domains s' = domains s \<Longrightarrow> \<exists>p. domains s' = sql_delete p (domains s)"
  by (rule exI [of _ "\<lambda>m. False"]) simp

lemma cascade_domains: "onboarding_state (cascade A D E s) = onboarding_state s"
  by (simp add: cascade_def)

lemma catalog_step_domains:
  "catalog_step s s' \<Longrightarrow> onboarding_state s' = onboarding_state s \<and> (\<exists>p. domains s' = sql_delete p (domains s))"
proof (induction rule: catalog_step.induct)
  case (cat_del_app s i)
  then show ?case by (auto simp: DeleteApplication_def cascade_domains cascade_tables intro: domains_kept)
next
  case (cat_del_svc s i)
  then show ?case by (auto simp: DeleteService_def cascade_domains cascade_tables intro: domains_kept)
next
  case (cat_put_var s a e v k ct l4 i now)
  show ?case by (cases rule: Upsert_cases [of a e v k ct l4 i now s]) (simp_all add: domains_kept)
next
  case (cat_new_svc s csi i now)
  show ?case by (cases rule: CreateService_cases [of csi i now s]) (simp_all add: domains_kept)
next
  case (cat_new_env s a name slug kind i now)
  show ?case by (cases rule: CreateEnvironment_cases [of a name slug kind i now s]) (simp_all add: domains_kept Let_def)
qed (auto simp: CreateApplication_def UpdateApplication_def UpdateService_def UpdateEnvironment_def
    UpdateServiceEnvironment_def UpdateEnvironmentVariableValue_def DeleteEnvironmentVariable_def Let_def
    simp del: sql_exists_iff split: option.splits intro!: domains_kept)

lemma inv_catalog: "catalog_step s s' \<Longrightarrow> domain_inv s \<Longrightarrow> domain_inv s'"
  using catalog_step_domains [of s s'] catalog_wf_step [of s s']
  by (auto simp: domain_inv_def platform_suffix_def hostnames_ok_delete)

lemma domain_inv_step: "domain_step s s' \<Longrightarrow> domain_inv s \<Longrightarrow> domain_inv s'"
  by (induction rule: domain_step.induct)
    (simp_all add: inv_create inv_update inv_delete inv_restore inv_ensure inv_targets inv_columns inv_onboard
      inv_move inv_catalog EnsureActivePlatformServiceDomains_def)

interpretation domain_run: transactions domain_step domain_inv
  by unfold_locales (rule domain_inv_step)



text \<open>The small shop with a platform domain, a platform hostname and a custom one.\<close>

definition site :: store where
  "site = shop\<lparr>
     domains := [new_domain_row ''m1'' ''app'' ''env'' ''svc'' ''calm-wave-0a1b.a.io'' ''platform'' [],
       new_domain_row ''m2'' ''app'' ''env'' ''svc'' ''shop.example.com'' ''custom'' []],
     onboarding_state := \<lparr> ob_github_app_complete = True, ob_platform_domain = ''a.io'',
       ob_permanent_ingress_complete = True, ob_bootstrap_complete = True, ob_completed_at = [], ob_updated_at = [] \<rparr>\<rparr>"

lemma site_sel:
  "domains site = [new_domain_row ''m1'' ''app'' ''env'' ''svc'' ''calm-wave-0a1b.a.io'' ''platform'' [],
     new_domain_row ''m2'' ''app'' ''env'' ''svc'' ''shop.example.com'' ''custom'' []]"
  "ob_platform_domain (onboarding_state site) = ''a.io''" "external_connections site = []"
  "gateway_endpoints site = []" "gateway_operations site = []"
  by (simp_all add: site_def shop_def fresh_store_def)

lemma platform_names: "to_lower (trim ''a.io'') = ''a.io''" "to_lower (trim ''b.io'') = ''b.io''"
  by code_simp+

lemma site_inv: "domain_inv site"
proof -
  have "catalog_wf site"
    using shop_wf unfolding site_def catalog_wf_other
    by (intro catalog_wf_other(2) [THEN iffD2] catalog_wf_domains)
      (simp_all add: refers_def new_domain_row_def shop_def web_service_def new_environment_row_def)
  moreover have "hostname_row_ok ''a.io'' (new_domain_row ''m1'' ''app'' ''env'' ''svc'' ''calm-wave-0a1b.a.io'' ''platform'' [])"
    by (auto simp: hostname_row_ok_def new_domain_row_def domain_kinds_def publish_states_def
        intro!: exI [of _ "''calm-wave-0a1b''"])
  ultimately show ?thesis
    by (auto simp: domain_inv_def site_sel platform_suffix_def platform_names hostnames_ok_def new_domain_row_def
        hostname_row_ok_def domain_kinds_def publish_states_def)
qed


section \<open>Moving the platform domain\<close>

lemma moved_name_suffix [simp]: "moved_name c n (l @ c) = l @ n"
  by (simp add: moved_name_def)

lemma platform_label:
  assumes "domain_inv s" and "m \<in> set (domains s)" and "dm_kind m = ''platform''"
  obtains l where "dm_domain_name m = (l @ ''.'') @ platform_suffix s"
  using assms by (auto simp: domain_inv_def hostnames_ok_def list_all_iff hostname_row_ok_def)

text \<open>C30. Moving the platform domain keeps the label of every platform hostname, waits for a new
  certificate for it and leaves every custom hostname as it is; moving it back restores every
  hostname.\<close>

theorem platform_domain_move:
  assumes inv: "domain_inv s" and ne: "to_lower (trim cur) \<noteq> to_lower (trim nxt)"
    and there: "UpdatePlatformDomain cur nxt now s = (Inr (), s1)"
    and again: "UpdatePlatformDomain nxt cur later s1 = (Inr (), s2)"
  shows "list_all2 (\<lambda>m m1. if dm_kind m = ''platform''
        then \<exists>label. dm_domain_name m = label @ ''.'' @ to_lower (trim cur) \<and>
          dm_domain_name m1 = label @ ''.'' @ to_lower (trim nxt) \<and> dm_ssl_status m1 = ''PENDING'' \<and>
          dm_id m1 = dm_id m \<and> dm_kind m1 = ''platform'' \<and> domain_pair m1 = domain_pair m
        else m1 = m) (domains s) (domains s1) \<and>
    map dm_domain_name (domains s2) = map dm_domain_name (domains s)"
proof -
  let ?c = "to_lower (trim cur)" and ?n = "to_lower (trim nxt)" and ?p = "\<lambda>m. dm_kind m = ''platform''"
  from there ne have d1: "domains s1 = sql_update ?p (relabel ?c ?n (rfc3339 now)) (domains s)"
    and pd: "ob_platform_domain (onboarding_state s) = ?c"
    by (cases rule: UpdatePlatformDomain_cases [of cur nxt now s]; auto)+
  from again ne have d2: "domains s2 = sql_update ?p (relabel ?n ?c (rfc3339 later)) (domains s1)"
    by (cases rule: UpdatePlatformDomain_cases [of nxt cur later s1]) auto
  have label: "\<exists>l. dm_domain_name m = l @ ''.'' @ ?c" if "m \<in> set (domains s)" "?p m" for m
    using platform_label [OF inv that] pd by (auto simp: platform_suffix_def trim_lower)
  have names: "moved_name ?n ?c (moved_name ?c ?n (dm_domain_name m)) = dm_domain_name m"
    if "m \<in> set (domains s)" "?p m" for m
    using label [OF that] by (auto simp: moved_name_def)
  have "map dm_domain_name (domains s2) = map dm_domain_name (domains s)"
    unfolding d2 d1 sql_update_def map_map by (rule map_cong [OF refl]) (simp add: names relabel_def)
  moreover have "list_all2 (\<lambda>m m1. if ?p m
        then \<exists>label. dm_domain_name m = label @ ''.'' @ ?c \<and> dm_domain_name m1 = label @ ''.'' @ ?n \<and>
          dm_ssl_status m1 = ''PENDING'' \<and> dm_id m1 = dm_id m \<and> dm_kind m1 = ''platform'' \<and> domain_pair m1 = domain_pair m
        else m1 = m) (domains s) (domains s1)"
    unfolding d1 sql_update_def list_all2_map2
    by (rule list.rel_refl_strong) (use label in \<open>force simp: relabel_def moved_name_def\<close>)
  ultimately show ?thesis by blast
qed

theorem platform_domain_move_witness:
  "map dm_domain_name (domains (snd (UpdatePlatformDomain ''b.io'' ''a.io'' 9
     (snd (UpdatePlatformDomain ''a.io'' ''b.io'' 7 site))))) = [''calm-wave-0a1b.a.io'', ''shop.example.com'']"
proof -
  let ?s1 = "snd (UpdatePlatformDomain ''a.io'' ''b.io'' 7 site)"
  have under: "sql_like ''%.a.io'' ''calm-wave-0a1b.a.io''" "sql_like ''%.b.io'' ''calm-wave-0a1b.b.io''" by code_simp+
  have go: "UpdatePlatformDomain ''a.io'' ''b.io'' 7 site = (Inr (), ?s1)"
    "UpdatePlatformDomain ''b.io'' ''a.io'' 9 ?s1 = (Inr (), snd (UpdatePlatformDomain ''b.io'' ''a.io'' 9 ?s1))"
    using under by (simp_all add: UpdatePlatformDomain_def Let_def platform_names site_sel new_domain_row_def
        checkDatabaseGatewayDomainChangeAllowed_def sql_count_def moved_name_def)
  show ?thesis
    using platform_domain_move [OF site_inv _ go] by (simp add: platform_names site_sel new_domain_row_def)
qed

end
