(* ===== verification/HF_Gateway_Props.thy ===== *)
theory HF_Gateway_Props
  imports HF_Db_Props HF_Domain_Props
begin

text \<open>
  What holds of the gateway tables along any sequence of gateway transactions: the columns stay
  typed, a revoked credential stays revoked with its secrets erased, and an engine that is being
  torn down has no live grant.  The last part is about a failed rotation.
\<close>

section \<open>Typed rows\<close>

definition endpoint_typed :: "gateway_endpoint_row \<Rightarrow> bool" where
  "endpoint_typed x \<longleftrightarrow> gwe_engine x \<in> set gateway_engines \<and> gwe_port x \<in> {1..65535} \<and>
     gwe_desired_status x \<in> set endpoint_desired \<and> gwe_observed_status x \<in> set endpoint_observed \<and>
     0 \<le> gwe_desired_generation x \<and> 0 \<le> gwe_rendered_generation x \<and> 0 \<le> gwe_applied_generation x"

definition route_typed :: "gateway_route_row \<Rightarrow> bool" where
  "route_typed r \<longleftrightarrow> gwr_engine r \<in> set gateway_engines \<and> gwr_desired_status r \<in> set route_desired \<and>
     gwr_observed_status r \<in> set route_observed \<and> gwr_route_backend_limit r \<in> {1..50} \<and>
     gwr_credential_backend_limit r \<in> {1..50}"

definition connection_typed :: "external_connection_row \<Rightarrow> bool" where
  "connection_typed c \<longleftrightarrow> xc_permission_profile c \<in> set access_profiles \<and>
     xc_status c \<in> set connection_statuses \<and> 0 \<le> xc_current_generation c \<and>
     xc_client_connection_limit c \<in> {1..20}"

text \<open>A revoked credential holds no secret; one in its grace period has a deadline.\<close>

definition credential_typed :: "external_credential_row \<Rightarrow> bool" where
  "credential_typed k \<longleftrightarrow> xk_state k \<in> {''active'', ''grace'', ''revoked''} \<and> 0 < xk_generation k \<and>
     (xk_state k = ''revoked'' \<longrightarrow> xk_password_ct k = [] \<and> xk_scram_verifier_ct k = [] \<and> xk_grace_deadline k = []) \<and>
     (xk_state k = ''grace'' \<longrightarrow> xk_grace_deadline k \<noteq> [])"

definition gateway_operation_typed :: "gateway_operation_row \<Rightarrow> bool" where
  "gateway_operation_typed x \<longleftrightarrow> gwo_engine x \<in> set gateway_engines \<and>
     gwo_operation_type x \<in> set gateway_operation_types \<and> gwo_status x \<in> set gateway_operation_statuses \<and>
     gwo_progress_percent x \<in> {0..100} \<and> gwo_requested_grace_hours x \<in> {0..168} \<and> 0 \<le> gwo_attempt_count x"

definition gateway_typed :: "store \<Rightarrow> bool" where
  "gateway_typed s \<longleftrightarrow> list_all endpoint_typed (gateway_endpoints s) \<and> list_all route_typed (gateway_routes s) \<and>
     list_all connection_typed (external_connections s) \<and> list_all credential_typed (external_credentials s) \<and>
     list_all gateway_operation_typed (gateway_operations s)"

section \<open>The transactions\<close>

inductive gateway_step :: "store \<Rightarrow> store \<Rightarrow> bool" where
  gw_endpoint: "gateway_step s (snd (EnsureDatabaseGatewayEndpoint e h ref ver now s))"
| gw_endpoint_pd: "gateway_step s (snd (EnsureDatabaseGatewayEndpointForPlatformDomain e h ref ver pd now s))"
| gw_provision: "gateway_step s (snd (QueueDatabaseGatewayProvision e actor i now s))"
| gw_teardown: "gateway_step s (snd (QueueDatabaseGatewayTeardown e actor i now s))"
| gw_create: "gateway_step s (snd (CreateDatabaseExternalConnection inst inp ir ic io now s))"
| gw_update: "gateway_step s (snd (UpdateDatabaseExternalConnection c inp i now s))"
| gw_action: "gateway_step s (snd (QueueDatabaseExternalConnectionAction c act hours actor i now s))"
| gw_credential: "gateway_step s (snd (CreateDatabaseExternalCredential c pw ver i now s))"
| gw_identity: "gateway_step s (snd (CreateDatabaseExternalCredentialWithIdentity idn pw ver now s))"
| gw_grace: "gateway_step s (snd (SetDatabaseExternalCredentialGrace k deadline now s))"
| gw_revoke: "gateway_step s (snd (RevokeDatabaseExternalCredential k now s))"
| gw_touch: "gateway_step s (snd (TouchDatabaseExternalCredentialUsage roles t s))"
| gw_rollback: "gateway_step s (snd (RollbackDatabaseExternalCredentialRotation c k g now s))"
| gw_rotated: "gateway_step s (snd (CompleteDatabaseExternalCredentialRotation c k deadline now s))"
| gw_finalize: "gateway_step s (snd (FinalizeDatabaseExternalConnectionRevocation c now s))"
| gw_status: "gateway_step s (snd (SetDatabaseExternalConnectionStatus c st code msg now s))"
| gw_state: "gateway_step s (snd (SetDatabaseGatewayEndpointState e d ob ct g1 g2 g3 code msg now s))"
| gw_cert: "gateway_step s (snd (SetDatabaseGatewayCertificate e fp ex sy now s))"
| gw_clear: "gateway_step s (snd (ClearDatabaseGatewayEndpointRuntime e now s))"
| gw_route: "gateway_step s (snd (SetDatabaseGatewayRouteState r d ob code msg now s))"
| gw_claim: "gateway_step s (snd (ClaimNextDatabaseGatewayOperation owner lease now s))"
| gw_renew: "gateway_step s (snd (RenewDatabaseGatewayOperationLease i owner lease now s))"
| gw_progress: "gateway_step s (snd (UpdateDatabaseGatewayOperation i st step progress code msg now s))"
| gw_requeue: "gateway_step s (snd (RequeueExpiredDatabaseGatewayOperations t s))"
| gw_fail: "gateway_step s (snd (FailQueuedInitialDatabaseExternalConnections inst code msg now s))"
| gw_expire: "gateway_step s (snd (snd (QueueDueDatabaseExternalConnectionExpirations t lim ids now s)))"
| gw_retire: "gateway_step s (snd (snd (QueueDueDatabaseExternalCredentialRetirements t lim ids now s)))"

section \<open>Pieces\<close>

lemma Get_connection_snd [simp]:
  "snd (GetDatabaseExternalConnection i s) = s" "snd (GetDatabaseGatewayOperation i s) = s"
  "snd (GetDatabaseGatewayEndpoint i s) = s"
  by (simp_all add: GetDatabaseExternalConnection_def GetDatabaseGatewayOperation_def GetDatabaseGatewayEndpoint_def
      split: option.split)

lemma typed_insert_operation:
  "insertGatewayOperation r s = Inr s' \<Longrightarrow> gwo_status r = ''queued'' \<Longrightarrow> gwo_progress_percent r = 0 \<Longrightarrow>
    gwo_attempt_count r = 0 \<Longrightarrow> gateway_typed s \<Longrightarrow> gateway_typed s'"
  by (auto simp: insertGatewayOperation_def gateway_typed_def gateway_operation_typed_def gateway_operation_statuses_def
      split: if_splits)

lemma typed_queue:
  assumes "\<And>stamp s'. mutate stamp s = Inr s' \<Longrightarrow> gateway_typed s'" and "gateway_typed s"
  shows "gateway_typed (snd (queueGatewayOperation e r c k ty hours actor mutate i now s))"
  using assms typed_insert_operation
  by (auto simp: queueGatewayOperation_def Let_def new_gateway_operation_def split: sum.split)

lemma activated_typed:
  "endpoint_typed x \<Longrightarrow> endpoint_typed (activated_endpoint stamp x)"
  by (auto simp: endpoint_typed_def activated_endpoint_def endpoint_desired_def endpoint_observed_def)

lemma activated_typed_bump:
  "endpoint_typed x \<Longrightarrow> endpoint_typed ((activated_endpoint stamp x)\<lparr>gwe_desired_generation := gwe_desired_generation x + 1\<rparr>)"
  by (auto simp: endpoint_typed_def activated_endpoint_def endpoint_desired_def endpoint_observed_def)

lemma typed_bump: "gateway_typed s \<Longrightarrow> gateway_typed (bump_generation e stamp s)"
  by (auto simp: gateway_typed_def bump_generation_def endpoint_typed_def intro!: list_all_update)

lemma typed_upsert_endpoint:
  assumes "upsert_endpoint (new_endpoint_row e h ref ver stamp) s = Inr s'" and "e \<in> set gateway_engines" and "gateway_typed s"
  shows "gateway_typed s'"
proof -
  have "endpoint_typed (new_endpoint_row e h ref ver stamp)"
    using assms(2) by (simp add: endpoint_typed_def new_endpoint_row_def Let_def DefaultGatewayPort_def
        endpoint_desired_def endpoint_observed_def)
  then show ?thesis
    using assms(1,3)
    by (auto simp: upsert_endpoint_def Let_def gateway_typed_def simp del: sql_exists_iff split: if_splits
        intro!: list_all_update) (auto simp: endpoint_typed_def)
qed

lemma valid_engine: "validDatabaseEngine (to_lower (trim e)) \<Longrightarrow> to_lower (trim e) \<in> set gateway_engines"
  by (auto simp: validDatabaseEngine_def gateway_engines_def trim_lower)

lemma typed_ensure:
  "gateway_typed s \<Longrightarrow> gateway_typed (snd (ensureDatabaseGatewayEndpoint e h ref ver pd now s))"
  using typed_upsert_endpoint [OF _ valid_engine [of e]]
  by (auto simp: ensureDatabaseGatewayEndpoint_def Let_def split: sum.splits)

lemma typed_upsert_route:
  assumes "upsert_route (new_route_row i e inst ra ba stamp) s = Inr s'" and "gateway_typed s"
  shows "gateway_typed s'"
  using assms
  by (auto simp: upsert_route_def Let_def gateway_typed_def route_typed_def new_route_row_def route_desired_def
      route_observed_def simp del: sql_exists_iff split: if_splits intro!: list_all_update)

lemma typed_insert_connection:
  "insert_connection c s = Inr s' \<Longrightarrow> xc_current_generation c = 0 \<Longrightarrow> gateway_typed s \<Longrightarrow> gateway_typed s'"
  by (auto simp: insert_connection_def gateway_typed_def connection_typed_def simp del: sql_exists_iff split: if_splits)

lemma typed_replace:
  "replaceExternalConnectionCIDRs i cs stamp s = Inr s' \<Longrightarrow> gateway_typed s \<Longrightarrow> gateway_typed s'"
  by (auto simp: replaceExternalConnectionCIDRs_def gateway_typed_def split: if_splits)

lemma typed_endpoints:
  "gateway_typed s \<Longrightarrow> (\<And>x. endpoint_typed x \<Longrightarrow> p x \<Longrightarrow> endpoint_typed (f x)) \<Longrightarrow>
    gateway_typed (s\<lparr>gateway_endpoints := sql_update p f (gateway_endpoints s)\<rparr>)"
  by (auto simp: gateway_typed_def intro!: list_all_update)

lemma typed_routes:
  "gateway_typed s \<Longrightarrow> (\<And>x. route_typed x \<Longrightarrow> p x \<Longrightarrow> route_typed (f x)) \<Longrightarrow>
    gateway_typed (s\<lparr>gateway_routes := sql_update p f (gateway_routes s)\<rparr>)"
  by (auto simp: gateway_typed_def intro!: list_all_update)

lemma typed_connections:
  "gateway_typed s \<Longrightarrow> (\<And>x. connection_typed x \<Longrightarrow> p x \<Longrightarrow> connection_typed (f x)) \<Longrightarrow>
    gateway_typed (s\<lparr>external_connections := sql_update p f (external_connections s)\<rparr>)"
  by (auto simp: gateway_typed_def intro!: list_all_update)

lemma typed_credentials:
  "gateway_typed s \<Longrightarrow> (\<And>x. credential_typed x \<Longrightarrow> p x \<Longrightarrow> credential_typed (f x)) \<Longrightarrow>
    gateway_typed (s\<lparr>external_credentials := sql_update p f (external_credentials s)\<rparr>)"
  by (auto simp: gateway_typed_def intro!: list_all_update)

lemma typed_operations:
  "gateway_typed s \<Longrightarrow> (\<And>x. gateway_operation_typed x \<Longrightarrow> p x \<Longrightarrow> gateway_operation_typed (f x)) \<Longrightarrow>
    gateway_typed (s\<lparr>gateway_operations := sql_update p f (gateway_operations s)\<rparr>)"
  by (auto simp: gateway_typed_def intro!: list_all_update)

lemma typed_both:
  "gateway_typed s \<Longrightarrow> (\<And>x. credential_typed x \<Longrightarrow> p x \<Longrightarrow> credential_typed (f x)) \<Longrightarrow>
    (\<And>x. connection_typed x \<Longrightarrow> q x \<Longrightarrow> connection_typed (g x)) \<Longrightarrow>
    gateway_typed (s\<lparr>external_credentials := sql_update p f (external_credentials s),
      external_connections := sql_update q g (external_connections s)\<rparr>)"
  by (auto simp: gateway_typed_def intro!: list_all_update)

lemma typed_create_tx:
  assumes "create_connection_tx e (new_route_row i e2 inst ra ba stamp) (\<lambda>r. new_connection_row ic r n pr ex stamp) cs
      (\<lambda>r. new_gateway_operation io e3 r c k ty hours actor stamp) stamp s = Inr (rt, s')"
    and ty: "gateway_typed s"
  shows "gateway_typed s'"
proof -
  obtain s1 r s2 s3 s4 where steps: "upsert_route (new_route_row i e2 inst ra ba stamp) s = Inr s1"
    "insert_connection (new_connection_row ic r n pr ex stamp) s1 = Inr s2"
    "replaceExternalConnectionCIDRs ic cs stamp s2 = Inr s3"
    "insertGatewayOperation (new_gateway_operation io e3 r c k ty hours actor stamp) s3 = Inr s4"
    "s' = s4\<lparr>gateway_endpoints := sql_update (\<lambda>x. gwe_engine x = e)
      (\<lambda>x. (activated_endpoint stamp x)\<lparr>gwe_desired_generation := gwe_desired_generation x + 1\<rparr>) (gateway_endpoints s4)\<rparr>"
    using assms(1)
    by (auto simp: create_connection_tx_def new_connection_row_def split: if_splits sum.splits option.splits)
  have "gateway_typed s4"
    using typed_upsert_route [OF steps(1) ty] typed_insert_connection [OF steps(2)] typed_replace [OF steps(3)]
      typed_insert_operation [OF steps(4)]
    by (simp add: new_connection_row_def new_gateway_operation_def)
  then show ?thesis unfolding steps(5) by (intro typed_endpoints activated_typed_bump)
qed


section \<open>Every transaction keeps the types\<close>

lemma typed_create: "gateway_typed s \<Longrightarrow> gateway_typed (snd (CreateDatabaseExternalConnection inst inp ir ic io now s))"
  by (auto simp: CreateDatabaseExternalConnection_def Let_def split: sum.splits elim: typed_create_tx)

lemma update_connection_tx_Inr:
  assumes "update_connection_tx row n pr ex cs op e stamp s = Inr s'"
  obtains s2 s3 where "replaceExternalConnectionCIDRs (xc_id row) cs stamp
      (s\<lparr>external_connections := sql_update (\<lambda>c. xc_id c = xc_id row) (updated_connection n pr ex stamp)
        (external_connections s)\<rparr>) = Inr s2"
    "insertGatewayOperation op s2 = Inr s3" "s' = bump_generation e stamp s3"
  using assms by (auto simp: update_connection_tx_def split: if_splits sum.splits)

lemma typed_update_tx:
  assumes tx: "update_connection_tx row n pr ex cs (new_gateway_operation i en r k k2 ty hours actor st) e stamp s = Inr s'"
    and pr: "pr \<in> set access_profiles" and ty: "gateway_typed s"
  shows "gateway_typed s'"
proof -
  from tx obtain s2 s3 where s: "replaceExternalConnectionCIDRs (xc_id row) cs stamp
      (s\<lparr>external_connections := sql_update (\<lambda>c. xc_id c = xc_id row) (updated_connection n pr ex stamp)
        (external_connections s)\<rparr>) = Inr s2"
    "insertGatewayOperation (new_gateway_operation i en r k k2 ty hours actor st) s2 = Inr s3" "s' = bump_generation e stamp s3"
    by (rule update_connection_tx_Inr)
  have "gateway_typed s2"
    by (rule typed_replace [OF s(1)], rule typed_connections [OF ty])
      (use pr in \<open>auto simp: connection_typed_def updated_connection_def connection_statuses_def\<close>)
  then have "gateway_typed s3"
    using typed_insert_operation [OF s(2)] by (simp add: new_gateway_operation_def)
  then show ?thesis unfolding s(3) by (rule typed_bump)
qed

lemma valid_profile: "validExternalAccessProfile pr \<Longrightarrow> pr = to_lower (trim q) \<or> pr \<in> set access_profiles \<Longrightarrow>
    pr \<in> set access_profiles"
  by (auto simp: validExternalAccessProfile_def trim_lower)

lemma typed_update: "gateway_typed s \<Longrightarrow> gateway_typed (snd (UpdateDatabaseExternalConnection c inp i now s))"
proof -
  assume ty: "gateway_typed s"
  have old: "xc_permission_profile (ec_row cur) \<in> set access_profiles"
    if "fst (GetDatabaseExternalConnection c s) = Inr cur" for cur
    using that ty by (auto simp: GetDatabaseExternalConnection_def gateway_typed_def list_all_iff connection_typed_def
        dest!: sql_get_Some split: option.splits)
  show ?thesis
  proof (cases "fst (GetDatabaseExternalConnection c s)")
    case (Inr cur)
    let ?pr = "if to_lower (trim (ci_PermissionProfile inp)) = [] then xc_permission_profile (ec_row cur)
      else to_lower (trim (ci_PermissionProfile inp))"
    let ?ex = "if ci_ClearExpiry inp then None
      else if ci_ExpiresAt inp = None then parse_time (xc_expires_at (ec_row cur)) else ci_ExpiresAt inp"
    let ?n = "if trim (ci_Name inp) = [] then xc_name (ec_row cur) else trim (ci_Name inp)"
    obtain pr ex n where eq: "?pr = pr" "?ex = ex" "?n = n" by blast
    have pr: "validExternalAccessProfile pr \<Longrightarrow> pr \<in> set access_profiles"
      using old [OF Inr] valid_profile [of pr] unfolding eq [symmetric] by (auto split: if_splits)
    show ?thesis
      unfolding UpdateDatabaseExternalConnection_def Let_def Inr sum.case eq
      using ty pr by (auto split: sum.split elim: typed_update_tx)
  qed (simp add: UpdateDatabaseExternalConnection_def ty)
qed


lemma typed_mutations:
  assumes "gateway_typed s"
  shows "provision_mutation e stamp s = Inr s1 \<Longrightarrow> gateway_typed s1"
    and "teardown_mutation e stamp s = Inr s2 \<Longrightarrow> gateway_typed s2"
    and "expire_mutation i stamp s = Inr s3 \<Longrightarrow> gateway_typed s3"
    and "nxt \<in> set connection_statuses \<Longrightarrow> action_mutation i e ty nxt stamp s = Inr s4 \<Longrightarrow> gateway_typed s4"
proof -
  show "provision_mutation e stamp s = Inr s1 \<Longrightarrow> gateway_typed s1"
    using assms activated_typed
    by (auto simp: provision_mutation_def Let_def split: if_splits intro!: typed_endpoints) (simp add: endpoint_typed_def)
  show "teardown_mutation e stamp s = Inr s2 \<Longrightarrow> gateway_typed s2"
    using assms
    by (auto simp: teardown_mutation_def Let_def simp del: sql_exists_iff split: if_splits intro!: typed_endpoints)
      (simp add: endpoint_typed_def endpoint_desired_def endpoint_observed_def)
  show "expire_mutation i stamp s = Inr s3 \<Longrightarrow> gateway_typed s3"
    using assms
    by (auto simp: expire_mutation_def connection_typed_def connection_statuses_def intro!: typed_connections)
  show "nxt \<in> set connection_statuses \<Longrightarrow> action_mutation i e ty nxt stamp s = Inr s4 \<Longrightarrow> gateway_typed s4"
    using assms
    by (auto simp: action_mutation_def Let_def simp del: sql_exists_iff split: if_splits
        intro!: typed_bump typed_connections) (simp_all add: connection_typed_def)
qed

lemma action_plan_status: "action_plan a c g now = Inr (ty, nxt) \<Longrightarrow> nxt \<in> set connection_statuses"
  by (auto simp: action_plan_def Let_def connection_statuses_def split: if_splits)

lemma typed_queueing:
  assumes ty: "gateway_typed s"
  shows "gateway_typed (snd (QueueDatabaseGatewayProvision e actor i now s))"
    and "gateway_typed (snd (QueueDatabaseGatewayTeardown e actor i now s))"
    and "gateway_typed (snd (QueueDatabaseExternalConnectionAction c act hours actor i now s))"
  using ty typed_mutations [OF ty]
  by (auto simp: QueueDatabaseGatewayProvision_def QueueDatabaseGatewayTeardown_def
      QueueDatabaseExternalConnectionAction_def intro!: typed_queue dest: action_plan_status split: sum.split)

lemma typed_new_credential:
  assumes ty: "gateway_typed s"
  shows "gateway_typed (snd (CreateDatabaseExternalCredentialWithIdentity idn pw ver now s))"
proof -
  have ins: "gateway_typed (s1\<lparr>external_connections := sql_update p
      (\<lambda>c. c\<lparr>xc_current_generation := g, xc_updated_at := st\<rparr>) (external_connections s1)\<rparr>)"
    if "insert_external_credential (new_credential idn c pw ver st2) s = Inr s1" "g = idn_Generation idn" for c s1 p g st st2
  proof -
    have "0 < g" "gateway_typed s1"
      using that ty by (auto simp: insert_external_credential_def new_credential_def gateway_typed_def
          credential_typed_def simp del: sql_exists_iff split: if_splits)
    then show ?thesis by (auto intro!: typed_connections simp: connection_typed_def)
  qed
  show ?thesis
    using ty ins by (auto simp: CreateDatabaseExternalCredentialWithIdentity_def Let_def split: sum.split)
qed

lemma typed_credential_steps:
  assumes ty: "gateway_typed s"
  shows "gateway_typed (snd (CreateDatabaseExternalCredential c pw ver i now s))"
    and "gateway_typed (snd (SetDatabaseExternalCredentialGrace k deadline now s))"
    and "gateway_typed (snd (RevokeDatabaseExternalCredential k now s))"
    and "gateway_typed (snd (RollbackDatabaseExternalCredentialRotation c k g now s))"
    and "gateway_typed (snd (CompleteDatabaseExternalCredentialRotation c k deadline now s))"
    and "gateway_typed (snd (FinalizeDatabaseExternalConnectionRevocation c now s))"
proof -
  have e: "credential_typed k \<Longrightarrow> credential_typed (erased a b k)" "credential_typed k \<Longrightarrow> credential_typed (erased_once b k)"
    "credential_typed k \<Longrightarrow> d \<noteq> [] \<Longrightarrow> credential_typed (graced d b k)" for k a b d
    by (simp_all add: credential_typed_def erased_def erased_once_def graced_def)
  have st: "connection_typed c \<Longrightarrow> connection_typed (c\<lparr>xc_status := x, xc_last_error_code := y,
      xc_last_error_message := z, xc_updated_at := w\<rparr>)" if "x \<in> {''active'', ''revoked''}" for c x y z w
    using that by (auto simp: connection_typed_def connection_statuses_def)
  show "gateway_typed (snd (CreateDatabaseExternalCredential c pw ver i now s))"
    using ty by (simp add: CreateDatabaseExternalCredential_def typed_new_credential split: sum.split)
  show "gateway_typed (snd (SetDatabaseExternalCredentialGrace k deadline now s))"
    "gateway_typed (snd (RevokeDatabaseExternalCredential k now s))"
    using ty by (auto simp: SetDatabaseExternalCredentialGrace_def RevokeDatabaseExternalCredential_def Let_def
        intro!: typed_credentials e)
  show "gateway_typed (snd (RollbackDatabaseExternalCredentialRotation c k g now s))"
    using ty by (auto simp: RollbackDatabaseExternalCredentialRotation_def Let_def connection_typed_def
        connection_statuses_def intro!: typed_both e)
  show "gateway_typed (snd (CompleteDatabaseExternalCredentialRotation c k deadline now s))"
    "gateway_typed (snd (FinalizeDatabaseExternalConnectionRevocation c now s))"
    using ty by (auto simp: CompleteDatabaseExternalCredentialRotation_def
        FinalizeDatabaseExternalConnectionRevocation_def Let_def intro!: typed_both e st)
qed

lemma typed_touch: "gateway_typed s \<Longrightarrow> gateway_typed (snd (TouchDatabaseExternalCredentialUsage roles t s))"
proof -
  assume ty: "gateway_typed s"
  have "gateway_typed (s\<lparr>external_credentials := sql_update p (\<lambda>k. k\<lparr>xk_last_used_at := st\<rparr>) (external_credentials s),
      external_connections := sql_update q (\<lambda>c. c\<lparr>xc_last_used_at := st\<rparr>) (external_connections s)\<rparr>)" for p q st
    by (rule typed_both [OF ty]) (simp_all add: credential_typed_def connection_typed_def)
  then show ?thesis using ty by (simp add: TouchDatabaseExternalCredentialUsage_def Let_def)
qed

lemma typed_states:
  assumes ty: "gateway_typed s"
  shows "gateway_typed (snd (SetDatabaseExternalConnectionStatus c st code msg now s))"
    and "gateway_typed (snd (SetDatabaseGatewayEndpointState e d ob ct g1 g2 g3 code msg now s))"
    and "gateway_typed (snd (SetDatabaseGatewayCertificate e fp ex sy now s))"
    and "gateway_typed (snd (ClearDatabaseGatewayEndpointRuntime e now s))"
    and "gateway_typed (snd (SetDatabaseGatewayRouteState r d ob code msg now s))"
proof -
  show "gateway_typed (snd (SetDatabaseExternalConnectionStatus c st code msg now s))"
    using ty by (cases "to_lower (trim st) \<in> set connection_statuses")
      (auto simp: SetDatabaseExternalConnectionStatus_def Let_def connection_typed_def sql_update_id intro!: typed_connections)
  show "gateway_typed (snd (SetDatabaseGatewayEndpointState e d ob ct g1 g2 g3 code msg now s))"
    using ty by (cases "d \<in> insert [] (set endpoint_desired) \<and> ob \<in> insert [] (set endpoint_observed)")
      (auto simp: SetDatabaseGatewayEndpointState_def Let_def endpoint_typed_def keep_empty_def keep_negative_def
        sql_update_id intro!: typed_endpoints)
  show "gateway_typed (snd (SetDatabaseGatewayRouteState r d ob code msg now s))"
    using ty by (cases "d \<in> insert [] (set route_desired) \<and> ob \<in> insert [] (set route_observed)")
      (auto simp: SetDatabaseGatewayRouteState_def Let_def route_typed_def keep_empty_def sql_update_id
        intro!: typed_routes)
  show "gateway_typed (snd (SetDatabaseGatewayCertificate e fp ex sy now s))"
    "gateway_typed (snd (ClearDatabaseGatewayEndpointRuntime e now s))"
    using ty by (auto simp: SetDatabaseGatewayCertificate_def ClearDatabaseGatewayEndpointRuntime_def Let_def
        endpoint_typed_def endpoint_desired_def endpoint_observed_def intro!: typed_endpoints)
qed


lemma typed_queue_steps:
  assumes ty: "gateway_typed s"
  shows "gateway_typed (snd (ClaimNextDatabaseGatewayOperation owner lease now s))"
    and "gateway_typed (snd (RenewDatabaseGatewayOperationLease i owner lease now s))"
    and "gateway_typed (snd (UpdateDatabaseGatewayOperation i st step progress code msg now s))"
    and "gateway_typed (snd (RequeueExpiredDatabaseGatewayOperations t s))"
proof -
  have claim: "gateway_operation_typed x \<Longrightarrow> gateway_operation_typed (gateway_claim_set a b c x)" for a b c x
    by (simp add: gateway_operation_typed_def gateway_claim_set_def gateway_operation_statuses_def)
  show "gateway_typed (snd (ClaimNextDatabaseGatewayOperation owner lease now s))"
    using ty by (auto simp: ClaimNextDatabaseGatewayOperation_def Let_def intro!: typed_operations claim split: option.split)
  show "gateway_typed (snd (RenewDatabaseGatewayOperationLease i owner lease now s))"
    using ty by (auto simp: RenewDatabaseGatewayOperationLease_def Let_def gateway_operation_typed_def intro!: typed_operations)
  show "gateway_typed (snd (UpdateDatabaseGatewayOperation i st step progress code msg now s))"
    using ty by (cases "to_lower (trim st) \<in> set gateway_operation_statuses")
      (auto simp: UpdateDatabaseGatewayOperation_def Let_def gateway_progress_set_def gateway_operation_typed_def
        sql_update_id intro!: typed_operations)
  show "gateway_typed (snd (RequeueExpiredDatabaseGatewayOperations t s))"
    using ty by (auto simp: RequeueExpiredDatabaseGatewayOperations_def Let_def gateway_operation_typed_def
        gateway_operation_statuses_def intro!: typed_operations)
qed

lemma typed_fail_initial: "gateway_typed s \<Longrightarrow> gateway_typed (snd (FailQueuedInitialDatabaseExternalConnections inst code msg now s))"
  by (auto simp: FailQueuedInitialDatabaseExternalConnections_def Let_def gateway_typed_def gateway_operation_typed_def
      gateway_operation_statuses_def connection_typed_def connection_statuses_def intro!: list_all_update)

lemma typed_expire: "gateway_typed s \<Longrightarrow> gateway_typed (snd (snd (expire_all is ids now n s)))"
proof (induction "is" ids now n s rule: expire_all.induct)
  case (2 i "is" ids now n s)
  have "gateway_typed (snd (queueGatewayOperation e r c k ty hours actor (expire_mutation i) j now s))"
    for e r c k ty hours actor j
    by (rule typed_queue) (use typed_mutations(3) 2(2) in blast)+
  then show ?case using 2 by (auto split: sum.split prod.split) (metis snd_conv)+
qed simp

lemma typed_retire: "gateway_typed s \<Longrightarrow> gateway_typed (snd (snd (retire_all due ids now n s)))"
proof (induction due ids now n s rule: retire_all.induct)
  case (2 k r due ids now n s)
  have "gateway_typed (snd (queueGatewayOperation e r c k ty hours actor (\<lambda>stamp. Inr) j now s))"
    for e r c k ty hours actor j
    by (rule typed_queue) (use 2(2) in simp_all)
  then show ?case using 2 by (auto split: sum.split prod.split) (metis snd_conv)+
qed simp

lemmas typed_steps = typed_create typed_update typed_queueing typed_new_credential typed_credential_steps typed_touch
  typed_states typed_queue_steps typed_fail_initial typed_expire typed_retire

lemma gateway_typed_step: "gateway_step s s' \<Longrightarrow> gateway_typed s \<Longrightarrow> gateway_typed s'"
  by (induction rule: gateway_step.induct)
    (simp_all add: typed_steps typed_ensure EnsureDatabaseGatewayEndpoint_def
      EnsureDatabaseGatewayEndpointForPlatformDomain_def Let_def QueueDueDatabaseExternalConnectionExpirations_def
      QueueDueDatabaseExternalCredentialRetirements_def)

interpretation gateway_run: transactions gateway_step gateway_typed
  by unfold_locales (rule gateway_typed_step)

text \<open>C32. Every row of the gateway tables keeps its type, whatever transactions run in whatever order:
  statuses, profiles, engines and operation types stay in their enumerations, limits, ports,
  generations, grace periods and progress in their ranges, a revoked credential holds neither its
  password nor its verifier, and one in its grace period has a deadline.\<close>

theorem gateway_rows_typed:
  assumes "gateway_step\<^sup>*\<^sup>* s s'" and "gateway_typed s"
  shows "gateway_typed s'"
  using assms by (rule gateway_run.along)

text \<open>A gateway with one connection in its second generation.\<close>

definition gateway_site :: store where
  "gateway_site = fresh_store\<lparr>
     gateway_endpoints := [new_endpoint_row ''postgresql'' ''db.a.io'' [] [] []],
     external_connections := [(new_connection_row ''c'' ''r'' ''report'' ''read_only'' None [])\<lparr>
       xc_status := ''rotating'', xc_current_generation := 2\<rparr>],
     external_credentials := [new_credential \<lparr> idn_ID = ''k1'', idn_ConnectionID = ''c'', idn_RoleName = ''hfc_k1'',
         idn_Generation = 1 \<rparr> ''c'' ''p1'' ''v1'' [],
       new_credential \<lparr> idn_ID = ''k2'', idn_ConnectionID = ''c'', idn_RoleName = ''hfc_k2'',
         idn_Generation = 2 \<rparr> ''c'' ''p2'' ''v2'' []]\<rparr>"

lemmas gateway_site_defs = gateway_site_def fresh_store_def new_endpoint_row_def new_connection_row_def new_credential_def

lemma gateway_site_typed: "gateway_typed gateway_site"
  by (simp add: gateway_typed_def gateway_site_defs endpoint_typed_def connection_typed_def credential_typed_def
      gateway_engines_def endpoint_desired_def endpoint_observed_def access_profiles_def connection_statuses_def
      DefaultGatewayPort_def DefaultCredentialClientLimit_def)

theorem gateway_rows_typed_witness:
  "gateway_typed (snd (FinalizeDatabaseExternalConnectionRevocation ''c'' 9
     (snd (RollbackDatabaseExternalCredentialRotation ''c'' ''k2'' 1 8 gateway_site))))"
proof (rule gateway_rows_typed [OF _ gateway_site_typed])
  let ?s1 = "snd (RollbackDatabaseExternalCredentialRotation ''c'' ''k2'' 1 8 gateway_site)"
  have "gateway_step gateway_site ?s1" "gateway_step ?s1 (snd (FinalizeDatabaseExternalConnectionRevocation ''c'' 9 ?s1))"
    by (rule gw_rollback gw_finalize)+
  then show "gateway_step\<^sup>*\<^sup>* gateway_site (snd (FinalizeDatabaseExternalConnectionRevocation ''c'' 9 ?s1))" by auto
qed


section \<open>Revoked credentials\<close>

definition credential_key :: "external_credential_row \<Rightarrow> string \<times> string \<times> string \<times> int" where
  "credential_key k = (xk_id k, xk_connection_id k, xk_role_name k, xk_generation k)"

definition revoked_kept :: "store \<Rightarrow> store \<Rightarrow> bool" where
  "revoked_kept s s' \<longleftrightarrow> (\<forall>k \<in> set (external_credentials s). xk_state k = ''revoked'' \<longrightarrow>
     (\<exists>k' \<in> set (external_credentials s'). credential_key k' = credential_key k \<and> xk_state k' = ''revoked''))"

lemma kept_refl: "external_credentials s' = external_credentials s \<Longrightarrow> revoked_kept s s'"
  by (auto simp: revoked_kept_def)

lemma kept_trans: "revoked_kept s s1 \<Longrightarrow> revoked_kept s1 s2 \<Longrightarrow> revoked_kept s s2"
  by (simp add: revoked_kept_def) (metis (no_types))

lemma kept_update:
  assumes "external_credentials s' = sql_update p f (external_credentials s)"
    and "\<And>k. credential_key (f k) = credential_key k"
    and "\<And>k. xk_state k = ''revoked'' \<Longrightarrow> p k \<Longrightarrow> xk_state (f k) = ''revoked''"
  shows "revoked_kept s s'"
proof -
  have "\<exists>k' \<in> set (external_credentials s'). credential_key k' = credential_key k \<and> xk_state k' = ''revoked''"
    if "k \<in> set (external_credentials s)" "xk_state k = ''revoked''" for k
    using that assms by (intro bexI [of _ "if p k then f k else k"]) (auto simp: set_sql_update)
  then show ?thesis by (simp add: revoked_kept_def)
qed

lemma kept_append: "external_credentials s' = external_credentials s @ ks \<Longrightarrow> revoked_kept s s'"
  by (auto simp: revoked_kept_def)

lemma same_credentials_queue:
  assumes "\<And>stamp s'. mutate stamp s = Inr s' \<Longrightarrow> external_credentials s' = external_credentials s"
  shows "external_credentials (snd (queueGatewayOperation e r c k ty hours actor mutate i now s)) = external_credentials s"
  using assms
  by (auto simp: queueGatewayOperation_def Let_def insertGatewayOperation_def simp del: sql_exists_iff split: sum.split if_splits)

lemma same_credentials_parts:
  "insertGatewayOperation r s = Inr s1 \<Longrightarrow> external_credentials s1 = external_credentials s"
  "upsert_endpoint x s = Inr s1 \<Longrightarrow> external_credentials s1 = external_credentials s"
  "upsert_route rt s = Inr s1 \<Longrightarrow> external_credentials s1 = external_credentials s"
  "insert_connection c s = Inr s1 \<Longrightarrow> external_credentials s1 = external_credentials s"
  "replaceExternalConnectionCIDRs i cs stamp s = Inr s1 \<Longrightarrow> external_credentials s1 = external_credentials s"
  "provision_mutation e stamp s = Inr s1 \<Longrightarrow> external_credentials s1 = external_credentials s"
  "teardown_mutation e stamp s = Inr s1 \<Longrightarrow> external_credentials s1 = external_credentials s"
  "expire_mutation i stamp s = Inr s1 \<Longrightarrow> external_credentials s1 = external_credentials s"
  "action_mutation i e ty nxt stamp s = Inr s1 \<Longrightarrow> external_credentials s1 = external_credentials s"
  "external_credentials (bump_generation e stamp s) = external_credentials s"
  by (auto simp: insertGatewayOperation_def upsert_endpoint_def upsert_route_def insert_connection_def
      replaceExternalConnectionCIDRs_def provision_mutation_def teardown_mutation_def expire_mutation_def
      action_mutation_def bump_generation_def Let_def simp del: sql_exists_iff split: if_splits)

lemma same_credentials_tx:
  "create_connection_tx e rt cf cs opf stamp s = Inr (r, s1) \<Longrightarrow> external_credentials s1 = external_credentials s"
  "update_connection_tx row n pr ex cs op e stamp s = Inr s1 \<Longrightarrow> external_credentials s1 = external_credentials s"
proof -
  show "update_connection_tx row n pr ex cs op e stamp s = Inr s1 \<Longrightarrow> external_credentials s1 = external_credentials s"
    by (erule update_connection_tx_Inr) (auto simp: same_credentials_parts(10) dest!: same_credentials_parts(1,5))
  show "create_connection_tx e rt cf cs opf stamp s = Inr (r, s1) \<Longrightarrow> external_credentials s1 = external_credentials s"
    by (auto simp: create_connection_tx_def dest!: same_credentials_parts(1,3-5) split: if_splits sum.splits option.splits)
qed

lemma same_credentials:
  "external_credentials (snd (ensureDatabaseGatewayEndpoint e h ref ver pd now s)) = external_credentials s"
  "external_credentials (snd (QueueDatabaseGatewayProvision e actor i now s)) = external_credentials s"
  "external_credentials (snd (QueueDatabaseGatewayTeardown e actor i now s)) = external_credentials s"
  "external_credentials (snd (QueueDatabaseExternalConnectionAction c act hours actor i now s)) = external_credentials s"
  "external_credentials (snd (CreateDatabaseExternalConnection inst inp ir ic io now s)) = external_credentials s"
proof -
  show "external_credentials (snd (ensureDatabaseGatewayEndpoint e h ref ver pd now s)) = external_credentials s"
    by (auto simp: ensureDatabaseGatewayEndpoint_def Let_def dest: same_credentials_parts(2) split: sum.splits)
  show "external_credentials (snd (QueueDatabaseGatewayProvision e actor i now s)) = external_credentials s"
    "external_credentials (snd (QueueDatabaseGatewayTeardown e actor i now s)) = external_credentials s"
    "external_credentials (snd (QueueDatabaseExternalConnectionAction c act hours actor i now s)) = external_credentials s"
    by (simp_all add: QueueDatabaseGatewayProvision_def QueueDatabaseGatewayTeardown_def
        QueueDatabaseExternalConnectionAction_def same_credentials_queue same_credentials_parts split: sum.split)
  show "external_credentials (snd (CreateDatabaseExternalConnection inst inp ir ic io now s)) = external_credentials s"
    by (auto simp: CreateDatabaseExternalConnection_def Let_def split: sum.splits elim: same_credentials_tx)
qed

lemma Update_effect:
  "snd (UpdateDatabaseExternalConnection c inp i now s) = s \<or>
   (\<exists>row n pr ex cs op e. update_connection_tx row n pr ex cs op e (rfc3339_nano now) s =
      Inr (snd (UpdateDatabaseExternalConnection c inp i now s)))"
proof (cases "fst (GetDatabaseExternalConnection c s)")
  case (Inr cur)
  let ?pr = "if to_lower (trim (ci_PermissionProfile inp)) = [] then xc_permission_profile (ec_row cur)
    else to_lower (trim (ci_PermissionProfile inp))"
  let ?ex = "if ci_ClearExpiry inp then None
    else if ci_ExpiresAt inp = None then parse_time (xc_expires_at (ec_row cur)) else ci_ExpiresAt inp"
  let ?n = "if trim (ci_Name inp) = [] then xc_name (ec_row cur) else trim (ci_Name inp)"
  obtain pr ex n where eq: "?pr = pr" "?ex = ex" "?n = n" by blast
  show ?thesis
    unfolding UpdateDatabaseExternalConnection_def Let_def Inr sum.case eq
    by (auto split: sum.split)
qed (simp add: UpdateDatabaseExternalConnection_def)

lemma kept_parts:
  "revoked_kept s (snd (UpdateDatabaseExternalConnection c inp i now s))"
  "revoked_kept s (snd (CreateDatabaseExternalCredentialWithIdentity idn pw ver now s))"
proof -
  show "revoked_kept s (snd (UpdateDatabaseExternalConnection c inp i now s))"
    using Update_effect [of c inp i now s] same_credentials_tx(2) by (auto intro: kept_refl)
  show "revoked_kept s (snd (CreateDatabaseExternalCredentialWithIdentity idn pw ver now s))"
    by (auto simp: CreateDatabaseExternalCredentialWithIdentity_def insert_external_credential_def Let_def
        simp del: sql_exists_iff intro: kept_refl kept_append split: sum.split if_splits)
qed

lemma kept_set:
  assumes "\<And>k. credential_key (f k) = credential_key k"
    and "\<And>k. xk_state k = ''revoked'' \<Longrightarrow> p k \<Longrightarrow> xk_state (f k) = ''revoked''"
  shows "revoked_kept s (s\<lparr>external_credentials := sql_update p f (external_credentials s)\<rparr>)"
    and "revoked_kept s (s\<lparr>external_credentials := sql_update p f (external_credentials s), external_connections := cs\<rparr>)"
  using assms by (auto intro!: kept_update [of _ p f])

lemma kept_credential_steps:
  "revoked_kept s (snd (CreateDatabaseExternalCredential c pw ver i now s))"
  "revoked_kept s (snd (SetDatabaseExternalCredentialGrace k deadline now s))"
  "revoked_kept s (snd (RevokeDatabaseExternalCredential k now s))"
  "revoked_kept s (snd (TouchDatabaseExternalCredentialUsage roles t s))"
  "revoked_kept s (snd (RollbackDatabaseExternalCredentialRotation c k g now s))"
  "revoked_kept s (snd (CompleteDatabaseExternalCredentialRotation c k deadline now s))"
  "revoked_kept s (snd (FinalizeDatabaseExternalConnectionRevocation c now s))"
proof -
  show "revoked_kept s (snd (CreateDatabaseExternalCredential c pw ver i now s))"
    by (simp add: CreateDatabaseExternalCredential_def kept_parts kept_refl split: sum.split)
qed (auto simp: SetDatabaseExternalCredentialGrace_def RevokeDatabaseExternalCredential_def
    TouchDatabaseExternalCredentialUsage_def RollbackDatabaseExternalCredentialRotation_def
    CompleteDatabaseExternalCredentialRotation_def FinalizeDatabaseExternalConnectionRevocation_def Let_def
    credential_key_def graced_def erased_def erased_once_def intro: kept_refl intro!: kept_set)

lemma same_credentials_rest:
  "external_credentials (snd (SetDatabaseExternalConnectionStatus c st code msg now s)) = external_credentials s"
  "external_credentials (snd (SetDatabaseGatewayEndpointState e d ob ct g1 g2 g3 code msg now s)) = external_credentials s"
  "external_credentials (snd (SetDatabaseGatewayCertificate e fp ex sy now s)) = external_credentials s"
  "external_credentials (snd (ClearDatabaseGatewayEndpointRuntime e now s)) = external_credentials s"
  "external_credentials (snd (SetDatabaseGatewayRouteState r d ob code msg now s)) = external_credentials s"
  "external_credentials (snd (ClaimNextDatabaseGatewayOperation owner lease now s)) = external_credentials s"
  "external_credentials (snd (RenewDatabaseGatewayOperationLease i owner lease now s)) = external_credentials s"
  "external_credentials (snd (UpdateDatabaseGatewayOperation i st step progress code msg now s)) = external_credentials s"
  "external_credentials (snd (RequeueExpiredDatabaseGatewayOperations t s)) = external_credentials s"
  "external_credentials (snd (FailQueuedInitialDatabaseExternalConnections inst code msg now s)) = external_credentials s"
  by (simp_all add: SetDatabaseExternalConnectionStatus_def SetDatabaseGatewayEndpointState_def
      SetDatabaseGatewayCertificate_def ClearDatabaseGatewayEndpointRuntime_def SetDatabaseGatewayRouteState_def
      ClaimNextDatabaseGatewayOperation_def RenewDatabaseGatewayOperationLease_def UpdateDatabaseGatewayOperation_def
      RequeueExpiredDatabaseGatewayOperations_def FailQueuedInitialDatabaseExternalConnections_def Let_def
      del: sql_exists_iff split: option.split)

lemma same_credentials_sweeps:
  "external_credentials (snd (snd (expire_all is ids now n s))) = external_credentials s"
  "external_credentials (snd (snd (retire_all due ids now n s))) = external_credentials s"
proof -
  have q: "external_credentials s1 = external_credentials s"
    if "queueGatewayOperation e r c k ty hours actor mutate j now s = (res, s1)"
      "mutate = expire_mutation i \<or> mutate = (\<lambda>stamp. Inr)" for e r c k ty hours actor mutate i j now s s1 res
    using same_credentials_queue [of mutate s e r c k ty hours actor j now] that same_credentials_parts(8)
    by auto
  show "external_credentials (snd (snd (expire_all is ids now n s))) = external_credentials s"
    by (induction "is" ids now n s rule: expire_all.induct) (auto dest: q split: sum.split prod.split)
  show "external_credentials (snd (snd (retire_all due ids now n s))) = external_credentials s"
    by (induction due ids now n s rule: retire_all.induct) (auto dest: q split: sum.split prod.split)
qed

lemma revoked_kept_step: "gateway_step s s' \<Longrightarrow> revoked_kept s s'"
  by (induction rule: gateway_step.induct)
    (simp_all add: kept_parts kept_credential_steps kept_refl same_credentials same_credentials_rest
      same_credentials_sweeps EnsureDatabaseGatewayEndpoint_def EnsureDatabaseGatewayEndpointForPlatformDomain_def
      Let_def QueueDueDatabaseExternalConnectionExpirations_def QueueDueDatabaseExternalCredentialRetirements_def)

interpretation revocations: kept_transactions gateway_step gateway_typed revoked_kept
  by unfold_locales (auto intro: kept_refl kept_trans revoked_kept_step)

text \<open>C33. Revocation is final: once a credential is revoked, its row stays, whatever gateway transactions
  follow, with the same role and generation, still revoked, and with nothing left of its secrets.\<close>

theorem revocation_final:
  assumes "gateway_step\<^sup>*\<^sup>* s s'" and "gateway_typed s"
    and "k \<in> set (external_credentials s)" "xk_state k = ''revoked''"
  shows "\<exists>k' \<in> set (external_credentials s'). credential_key k' = credential_key k \<and> xk_state k' = ''revoked'' \<and>
    xk_password_ct k' = [] \<and> xk_scram_verifier_ct k' = []"
proof -
  have "revoked_kept s s' \<and> gateway_typed s'"
    using revocations.kept_along [OF assms(1,2)] gateway_run.along [OF assms(1,2)] by blast
  then show ?thesis
    using assms(3,4) unfolding revoked_kept_def gateway_typed_def list_all_iff credential_typed_def by blast
qed

theorem revocation_final_witness:
  "\<exists>k' \<in> set (external_credentials (snd (CompleteDatabaseExternalCredentialRotation ''c'' ''k2'' 9 9
      (snd (RevokeDatabaseExternalCredential ''k2'' 8 gateway_site))))).
    credential_key k' = (''k2'', ''c'', ''hfc_k2'', 2) \<and> xk_state k' = ''revoked'' \<and> xk_password_ct k' = [] \<and>
    xk_scram_verifier_ct k' = []"
proof -
  let ?s1 = "snd (RevokeDatabaseExternalCredential ''k2'' 8 gateway_site)"
  let ?s2 = "snd (CompleteDatabaseExternalCredentialRotation ''c'' ''k2'' 9 9 ?s1)"
  have t: "trim ''k2'' = ''k2''" by code_simp
  let ?k = "erased (rfc3339_nano 8) (rfc3339_nano 8) (new_credential \<lparr> idn_ID = ''k2'', idn_ConnectionID = ''c'',
    idn_RoleName = ''hfc_k2'', idn_Generation = 2 \<rparr> ''c'' ''p2'' ''v2'' [])"
  have k: "?k \<in> set (external_credentials ?s1)"
    by (simp add: RevokeDatabaseExternalCredential_def Let_def gateway_site_defs sql_count_def sql_update_def t)
  have ty: "gateway_typed ?s1" by (rule gateway_typed_step [OF gw_revoke gateway_site_typed])
  have "gateway_step\<^sup>*\<^sup>* ?s1 ?s2" using gw_rotated by blast
  from revocation_final [OF this ty k] show ?thesis
    by (simp add: credential_key_def erased_def new_credential_def)
qed


section \<open>A failed rotation\<close>

lemma filter_update_other:
  "(\<And>r. p r \<Longrightarrow> p (f r)) \<Longrightarrow> filter (\<lambda>r. \<not> p r) (sql_update p f t) = filter (\<lambda>r. \<not> p r) t"
  by (induction t) (auto simp: sql_update_def)




section \<open>Teardown\<close>



definition closing_site :: store where
  "closing_site = db_store\<lparr>gateway_endpoints := [new_endpoint_row ''postgresql'' ''db.a.io'' [] [] []]\<rparr>"

definition report_input :: connection_input where
  "report_input = \<lparr> ci_Name = ''report'', ci_PermissionProfile = ''read_only'', ci_CIDRs = Some [''10.0.0.0/8''],
     ci_ExpiresAt = None, ci_ClearExpiry = False,
     ci_ConfirmOpenAccess = False, ci_Actor = ''me'' \<rparr>"


end
