(* ===== verification/HF_Docker.thy ===== *)
theory HF_Docker
  imports HF_Workers
begin

text \<open>
  The container layer, internal/docker (runtime.go, ports.go, persistent.go): what HostForge asks
  of the Docker engine and under which guards.  The engine's API client is a third-party package:
  it is the record \<open>moby\<close> of its calls on an unknown engine state, each with the outcome it
  reports.  Every call is written down, with what the engine answered, in \<open>dk_calls\<close>; the
  properties are about that record.  The log and exec streams and the one-shot backup and restore jobs
  are not modelled.
\<close>

section \<open>Errors and labels\<close>

text \<open>An error of the client: the chain, and what \<open>errdefs.IsNotFound\<close> and \<open>IsConflict\<close> say of it.\<close>

record docker_err =
  de_not_found :: bool
  de_conflict :: bool
  de_chain :: err_chain

definition plain :: "string \<Rightarrow> docker_err" where
  "plain msg = \<lparr> de_not_found = False, de_conflict = False, de_chain = [Text msg] \<rparr>"

definition wrap_err :: "string \<Rightarrow> docker_err \<Rightarrow> docker_err" where
  "wrap_err msg e = e\<lparr>de_chain := Text msg # de_chain e\<rparr>"

fun str_contains :: "string \<Rightarrow> string \<Rightarrow> bool" where
  "str_contains [] t = (t = [])"
| "str_contains (c # s) t = (has_prefix (c # s) t \<or> str_contains s t)"

text \<open>Labels are a Go map: an absent key reads as the empty string.\<close>

type_synonym labels = "(string \<times> string) list"

definition label :: "labels \<Rightarrow> string \<Rightarrow> string" where
  "label ls k = (case map_of ls k of None \<Rightarrow> [] | Some v \<Rightarrow> v)"

definition ManagedLabel :: string where "ManagedLabel = ''dev.hostforge.managed''"
definition ResourceTypeLabel :: string where "ResourceTypeLabel = ''dev.hostforge.resource-type''"
definition ApplicationIDLabel :: string where "ApplicationIDLabel = ''dev.hostforge.application-id''"
definition EnvironmentIDLabel :: string where "EnvironmentIDLabel = ''dev.hostforge.environment-id''"
definition ServiceIDLabel :: string where "ServiceIDLabel = ''dev.hostforge.service-id''"
definition InstanceIDLabel :: string where "InstanceIDLabel = ''dev.hostforge.database-instance-id''"
definition GatewayEngineLabel :: string where "GatewayEngineLabel = ''dev.hostforge.database-gateway-engine''"
definition GatewayRouteLabel :: string where "GatewayRouteLabel = ''dev.hostforge.database-gateway-route-id''"

definition managed_as :: "string \<Rightarrow> labels \<Rightarrow> bool" where
  "managed_as resourceType ls \<longleftrightarrow> label ls ManagedLabel = ''true'' \<and> label ls ResourceTypeLabel = resourceType"

definition shortID :: "string \<Rightarrow> string" where
  "shortID i = take 12 i"

section \<open>The engine\<close>

datatype mount = VolumeMount string string | BindMount string string bool

text \<open>
  A pull that was accepted still reports the error its progress stream ended with, if any.
  What a container is created with: published ports are (container port, host address, host port).
  A command run in a container is \<open>ReqExec\<close> with its arguments and its environment.
\<close>

record create_spec =
  cs_Name :: string
  cs_Image :: string
  cs_Entrypoint :: "string list option"
  cs_Cmd :: "string list"
  cs_Env :: "string list"
  cs_Labels :: labels
  cs_Ports :: "(int \<times> string \<times> int) list"
  cs_RestartPolicy :: string
  cs_Memory :: int
  cs_NanoCPUs :: int
  cs_PidsLimit :: "int option"
  cs_ReadonlyRootfs :: bool
  cs_CapDrop :: "string list"
  cs_SecurityOpt :: "string list"
  cs_Tmpfs :: "(string \<times> string) list"
  cs_Mounts :: "mount list"
  cs_Networks :: "(string \<times> string list) list"

record container_info =
  cin_ID :: string
  cin_Config :: "(labels \<times> string) option"
  cin_HostConfig :: "(int \<times> int \<times> nat) option"
  cin_Mounts :: "(string \<times> string) list"
  cin_Networks :: "(string \<times> string list option) list option"
  cin_State :: "(bool \<times> string) option"

record network_info =
  nin_ID :: string
  nin_Labels :: labels
  nin_Containers :: "(string \<times> string) list"

record volume_info =
  vin_Name :: string
  vin_Labels :: labels

datatype request =
    ReqCreate create_spec | ReqStart string | ReqStop string int | ReqRestart string int
  | ReqRemove string | ReqInspect string
  | ReqImageList string | ReqImageRemove string bool | ReqPull string
  | ReqNetInspect string | ReqNetCreate string labels | ReqNetRemove string
  | ReqNetConnect string string "string list" | ReqNetDisconnect string string
  | ReqVolInspect string | ReqVolCreate string labels | ReqVolRemove string | ReqUsage
  | ReqExec string "string list" "string list"

datatype answer = Refused | Accepted | Id string | Container container_info | Network network_info | Volume volume_info

type_synonym call = "request \<times> answer"

record 'd moby =
  m_ContainerCreate :: "create_spec \<Rightarrow> 'd \<Rightarrow> (docker_err + string) \<times> 'd"
  m_ContainerStart :: "string \<Rightarrow> 'd \<Rightarrow> (docker_err + unit) \<times> 'd"
  m_ContainerStop :: "string \<Rightarrow> int \<Rightarrow> 'd \<Rightarrow> (docker_err + unit) \<times> 'd"
  m_ContainerRestart :: "string \<Rightarrow> int \<Rightarrow> 'd \<Rightarrow> (docker_err + unit) \<times> 'd"
  m_ContainerRemove :: "string \<Rightarrow> 'd \<Rightarrow> (docker_err + unit) \<times> 'd"
  m_ContainerInspect :: "string \<Rightarrow> 'd \<Rightarrow> (docker_err + container_info) \<times> 'd"
  m_ImageList :: "string \<Rightarrow> 'd \<Rightarrow> (docker_err + (string \<times> string list) list) \<times> 'd"
  m_ImageRemove :: "string \<Rightarrow> bool \<Rightarrow> 'd \<Rightarrow> (docker_err + unit) \<times> 'd"
  m_ImagePull :: "string \<Rightarrow> 'd \<Rightarrow> (docker_err + docker_err option) \<times> 'd"
  m_NetworkInspect :: "string \<Rightarrow> 'd \<Rightarrow> (docker_err + network_info) \<times> 'd"
  m_NetworkCreate :: "string \<Rightarrow> labels \<Rightarrow> 'd \<Rightarrow> (docker_err + string) \<times> 'd"
  m_NetworkRemove :: "string \<Rightarrow> 'd \<Rightarrow> (docker_err + unit) \<times> 'd"
  m_NetworkConnect :: "string \<Rightarrow> string \<Rightarrow> string list \<Rightarrow> 'd \<Rightarrow> (docker_err + unit) \<times> 'd"
  m_NetworkDisconnect :: "string \<Rightarrow> string \<Rightarrow> 'd \<Rightarrow> (docker_err + unit) \<times> 'd"
  m_VolumeInspect :: "string \<Rightarrow> 'd \<Rightarrow> (docker_err + volume_info) \<times> 'd"
  m_VolumeCreate :: "string \<Rightarrow> labels \<Rightarrow> 'd \<Rightarrow> (docker_err + volume_info) \<times> 'd"
  m_VolumeRemove :: "string \<Rightarrow> 'd \<Rightarrow> (docker_err + unit) \<times> 'd"
  m_DiskUsage :: "'d \<Rightarrow> (docker_err + (volume_info \<times> int option) list) \<times> 'd"
  m_ParsePort :: "string \<Rightarrow> docker_err option"
  m_Listen :: "int \<Rightarrow> 'd \<Rightarrow> (docker_err + int) \<times> 'd"

record 'd dock =
  dk_daemon :: 'd
  dk_calls :: "call list"

type_synonym ('d, 'z, 'a) dact = "('d, 'z) dock_scheme \<Rightarrow> (docker_err + 'a) \<times> ('d, 'z) dock_scheme"

definition ask :: "request \<Rightarrow> ('x \<Rightarrow> answer) \<Rightarrow> ('d \<Rightarrow> (docker_err + 'x) \<times> 'd) \<Rightarrow>
    ('d, 'z, 'x) dact" where
  "ask q answered f w =
     (case f (dk_daemon w) of
        (Inl e, d) \<Rightarrow> (Inl e, w\<lparr>dk_daemon := d, dk_calls := dk_calls w @ [(q, Refused)]\<rparr>)
      | (Inr x, d) \<Rightarrow> (Inr x, w\<lparr>dk_daemon := d, dk_calls := dk_calls w @ [(q, answered x)]\<rparr>))"

definition ContainerCreate :: "'d moby \<Rightarrow> create_spec \<Rightarrow> ('d, 'z, string) dact" where
  "ContainerCreate M spec = ask (ReqCreate spec) Id (m_ContainerCreate M spec)"
definition ContainerStart :: "'d moby \<Rightarrow> string \<Rightarrow> ('d, 'z, unit) dact" where
  "ContainerStart M i = ask (ReqStart i) (\<lambda>_. Accepted) (m_ContainerStart M i)"
definition ContainerStop :: "'d moby \<Rightarrow> string \<Rightarrow> int \<Rightarrow> ('d, 'z, unit) dact" where
  "ContainerStop M i t = ask (ReqStop i t) (\<lambda>_. Accepted) (m_ContainerStop M i t)"
definition ContainerRestart :: "'d moby \<Rightarrow> string \<Rightarrow> int \<Rightarrow> ('d, 'z, unit) dact" where
  "ContainerRestart M i t = ask (ReqRestart i t) (\<lambda>_. Accepted) (m_ContainerRestart M i t)"
definition ContainerRemove :: "'d moby \<Rightarrow> string \<Rightarrow> ('d, 'z, unit) dact" where
  "ContainerRemove M i = ask (ReqRemove i) (\<lambda>_. Accepted) (m_ContainerRemove M i)"
definition ContainerInspect :: "'d moby \<Rightarrow> string \<Rightarrow> ('d, 'z, container_info) dact" where
  "ContainerInspect M i = ask (ReqInspect i) Container (m_ContainerInspect M i)"
definition ImageList :: "'d moby \<Rightarrow> string \<Rightarrow> ('d, 'z, (string \<times> string list) list) dact" where
  "ImageList M p = ask (ReqImageList p) (\<lambda>_. Accepted) (m_ImageList M p)"
definition ImageRemove :: "'d moby \<Rightarrow> string \<Rightarrow> bool \<Rightarrow> ('d, 'z, unit) dact" where
  "ImageRemove M r force = ask (ReqImageRemove r force) (\<lambda>_. Accepted) (m_ImageRemove M r force)"
definition ImagePull :: "'d moby \<Rightarrow> string \<Rightarrow> ('d, 'z, docker_err option) dact" where
  "ImagePull M r = ask (ReqPull r) (\<lambda>_. Accepted) (m_ImagePull M r)"
definition NetworkInspect :: "'d moby \<Rightarrow> string \<Rightarrow> ('d, 'z, network_info) dact" where
  "NetworkInspect M n = ask (ReqNetInspect n) Network (m_NetworkInspect M n)"
definition NetworkCreate :: "'d moby \<Rightarrow> string \<Rightarrow> labels \<Rightarrow> ('d, 'z, string) dact" where
  "NetworkCreate M n ls = ask (ReqNetCreate n ls) Id (m_NetworkCreate M n ls)"
definition NetworkRemove :: "'d moby \<Rightarrow> string \<Rightarrow> ('d, 'z, unit) dact" where
  "NetworkRemove M i = ask (ReqNetRemove i) (\<lambda>_. Accepted) (m_NetworkRemove M i)"
definition NetworkConnect :: "'d moby \<Rightarrow> string \<Rightarrow> string \<Rightarrow> string list \<Rightarrow> ('d, 'z, unit) dact" where
  "NetworkConnect M i c al = ask (ReqNetConnect i c al) (\<lambda>_. Accepted) (m_NetworkConnect M i c al)"
definition NetworkDisconnect :: "'d moby \<Rightarrow> string \<Rightarrow> string \<Rightarrow> ('d, 'z, unit) dact" where
  "NetworkDisconnect M i c = ask (ReqNetDisconnect i c) (\<lambda>_. Accepted) (m_NetworkDisconnect M i c)"
definition VolumeInspect :: "'d moby \<Rightarrow> string \<Rightarrow> ('d, 'z, volume_info) dact" where
  "VolumeInspect M v = ask (ReqVolInspect v) Volume (m_VolumeInspect M v)"
definition VolumeCreate :: "'d moby \<Rightarrow> string \<Rightarrow> labels \<Rightarrow> ('d, 'z, volume_info) dact" where
  "VolumeCreate M v ls = ask (ReqVolCreate v ls) Volume (m_VolumeCreate M v ls)"
definition VolumeRemove :: "'d moby \<Rightarrow> string \<Rightarrow> ('d, 'z, unit) dact" where
  "VolumeRemove M v = ask (ReqVolRemove v) (\<lambda>_. Accepted) (m_VolumeRemove M v)"
definition DiskUsage :: "'d moby \<Rightarrow> ('d, 'z, (volume_info \<times> int option) list) dact" where
  "DiskUsage M = ask ReqUsage (\<lambda>_. Accepted) (m_DiskUsage M)"

section \<open>Containers\<close>

record run_options =
  ro_ImageRef :: string
  ro_ContainerName :: string
  ro_ContainerPort :: int
  ro_HostPort :: int
  ro_NetworkName :: string
  ro_NetworkAliases :: "string list"
  ro_Labels :: labels
  ro_Env :: "string list"
  ro_MemoryLimitBytes :: int
  ro_CPULimitMillis :: int
  ro_PidsLimit :: int

definition show_int :: "int \<Rightarrow> string" where
  "show_int n = (if n < 0 then ''-'' @ show_nat (nat (- n)) else show_nat (nat n))"

text \<open>PORT comes first and no other entry may set it.\<close>

fun env_entries :: "string list \<Rightarrow> string list" where
  "env_entries [] = []"
| "env_entries (e0 # es) =
     (let e = trim e0
      in if e = [] then env_entries es
         else if has_prefix (to_upper e) ''PORT='' then env_entries es
         else e # env_entries es)"

definition run_env :: "int \<Rightarrow> string list \<Rightarrow> string list" where
  "run_env port env = (''PORT='' @ show_int port) # env_entries env"

text \<open>\<open>int64(opts.CPULimitMillis) * 1_000_000\<close>, the signed value of the low 64 bits.\<close>

definition nano_cpus :: "int \<Rightarrow> int" where
  "nano_cpus millis = (millis * 1000000 + 2 ^ 63) mod 2 ^ 64 - 2 ^ 63"

definition run_spec :: "run_options \<Rightarrow> create_spec" where
  "run_spec opts =
     \<lparr> cs_Name = ro_ContainerName opts, cs_Image = ro_ImageRef opts, cs_Entrypoint = None, cs_Cmd = [],
       cs_Env = run_env (ro_ContainerPort opts) (ro_Env opts), cs_Labels = ro_Labels opts,
       cs_Ports = [(ro_ContainerPort opts, ''127.0.0.1'', ro_HostPort opts)],
       cs_RestartPolicy = ''unless-stopped'', cs_Memory = ro_MemoryLimitBytes opts,
       cs_NanoCPUs = nano_cpus (ro_CPULimitMillis opts),
       cs_PidsLimit = (if 0 < ro_PidsLimit opts then Some (ro_PidsLimit opts) else None),
       cs_ReadonlyRootfs = False, cs_CapDrop = [''ALL''], cs_SecurityOpt = [''no-new-privileges''],
       cs_Tmpfs = [(''/tmp'', ''rw,noexec,nosuid,nodev,size=16m'')], cs_Mounts = [],
       cs_Networks = (if trim (ro_NetworkName opts) = [] then []
         else [(trim (ro_NetworkName opts), ro_NetworkAliases opts)]) \<rparr>"

definition RunContainer :: "'d moby \<Rightarrow> run_options \<Rightarrow> ('d, 'z, string) dact" where
  "RunContainer M opts w =
     (if ro_ContainerPort opts \<le> 0 then (Inl (plain ''container port must be > 0''), w)
      else if ro_HostPort opts \<le> 0 then (Inl (plain ''host port must be > 0''), w)
      else case m_ParsePort M (show_int (ro_ContainerPort opts) @ ''/tcp'') of
        Some e \<Rightarrow> (Inl (wrap_err ''container port format'' e), w)
      | None \<Rightarrow>
          (case ContainerCreate M (run_spec opts) w of
             (Inl e, w1) \<Rightarrow> (Inl (wrap_err ''create container'' e), w1)
           | (Inr i, w1) \<Rightarrow>
               (case ContainerStart M i w1 of
                  (Inl e, w2) \<Rightarrow> (Inl (wrap_err (''start container '' @ shortID i) e), w2)
                | (Inr _, w2) \<Rightarrow> (Inr i, w2))))"

definition StopAndRemoveWithTimeout :: "'d moby \<Rightarrow> string \<Rightarrow> int \<Rightarrow> ('d, 'z, unit) dact" where
  "StopAndRemoveWithTimeout M i timeout0 w =
     (let timeout = (if timeout0 \<le> 0 then 10 else timeout0);
          remove = (\<lambda>w1. case ContainerRemove M i w1 of
             (Inl e, w2) \<Rightarrow>
               (if de_not_found e then Inr () else Inl (wrap_err (''remove container '' @ shortID i) e), w2)
           | (Inr _, w2) \<Rightarrow> (Inr (), w2))
      in case ContainerStop M i timeout w of
           (Inl e, w1) \<Rightarrow>
             if de_not_found e then (Inr (), w1)
             else if \<not> str_contains (to_lower (err_text (de_chain e))) ''is not running''
             then (Inl (wrap_err (''stop container '' @ shortID i) e), w1)
             else remove w1
         | (Inr _, w1) \<Rightarrow> remove w1)"

definition StopAndRemove :: "'d moby \<Rightarrow> string \<Rightarrow> ('d, 'z, unit) dact" where
  "StopAndRemove M i = StopAndRemoveWithTimeout M i 10"

definition StopContainerWithTimeout :: "'d moby \<Rightarrow> string \<Rightarrow> int \<Rightarrow> ('d, 'z, unit) dact" where
  "StopContainerWithTimeout M i timeout w =
     (case ContainerStop M i (if timeout \<le> 0 then 10 else timeout) w of
        (Inl e, w1) \<Rightarrow>
          (if \<not> str_contains (to_lower (err_text (de_chain e))) ''is not running''
           then Inl (wrap_err (''stop container '' @ shortID i) e) else Inr (), w1)
      | (Inr _, w1) \<Rightarrow> (Inr (), w1))"

definition StopContainer :: "'d moby \<Rightarrow> string \<Rightarrow> ('d, 'z, unit) dact" where
  "StopContainer M i = StopContainerWithTimeout M i 10"

definition StartContainer :: "'d moby \<Rightarrow> string \<Rightarrow> ('d, 'z, unit) dact" where
  "StartContainer M i w =
     (case ContainerStart M i w of
        (Inl e, w1) \<Rightarrow>
          (if \<not> str_contains (to_lower (err_text (de_chain e))) ''already started''
           then Inl (wrap_err (''start container '' @ shortID i) e) else Inr (), w1)
      | (Inr _, w1) \<Rightarrow> (Inr (), w1))"

definition RestartContainer :: "'d moby \<Rightarrow> string \<Rightarrow> int \<Rightarrow> ('d, 'z, unit) dact" where
  "RestartContainer M i timeoutSeconds w =
     (case ContainerRestart M i (if timeoutSeconds \<le> 0 then 10 else timeoutSeconds) w of
        (Inl e, w1) \<Rightarrow> (Inl (wrap_err (''restart container '' @ shortID i) e), w1)
      | (Inr _, w1) \<Rightarrow> (Inr (), w1))"

section \<open>Images\<close>

definition RemoveImage :: "'d moby \<Rightarrow> string \<Rightarrow> ('d, 'z, unit) dact" where
  "RemoveImage M ref w =
     (case ImageRemove M ref True w of
        (Inl e, w1) \<Rightarrow> (Inl (wrap_err (''remove image '' @ ref) e), w1)
      | (Inr _, w1) \<Rightarrow> (Inr (), w1))"

definition ListImagesByRepoPrefix :: "'d moby \<Rightarrow> string \<Rightarrow> ('d, 'z, (string \<times> string list) list) dact" where
  "ListImagesByRepoPrefix M pre w =
     (case ImageList M (pre @ ''*'') w of
        (Inl e, w1) \<Rightarrow> (Inl (wrap_err ''list images'' e), w1)
      | (Inr items, w1) \<Rightarrow>
          (Inr (filter (\<lambda>im. snd im \<noteq> []) (map (\<lambda>im. (fst im, filter (\<lambda>t. has_prefix t pre) (snd im))) items)), w1))"

definition RemoveImageIfUnused :: "'d moby \<Rightarrow> string \<Rightarrow> ('d, 'z, bool) dact" where
  "RemoveImageIfUnused M ref w =
     (case ImageRemove M ref False w of
        (Inl e, w1) \<Rightarrow>
          (if de_not_found e then Inr False
           else if de_conflict e \<or> str_contains (to_lower (err_text (de_chain e))) ''is being used'' then Inr False
           else Inl (wrap_err (''remove image '' @ ref) e), w1)
      | (Inr _, w1) \<Rightarrow> (Inr True, w1))"

definition PullImage :: "'d moby \<Rightarrow> string \<Rightarrow> ('d, 'z, unit) dact" where
  "PullImage M ref w =
     (case ImagePull M (trim ref) w of
        (Inl e, w1) \<Rightarrow> (Inl (wrap_err (''pull image '' @ ref) e), w1)
      | (Inr (Some e), w1) \<Rightarrow> (Inl (wrap_err ''read image pull response'' e), w1)
      | (Inr None, w1) \<Rightarrow> (Inr (), w1))"

section \<open>Host ports\<close>

text \<open>
  \<open>m_Listen p\<close> is \<open>net.Listen\<close> on 127.0.0.1 at port p, closed again: the port it got, p itself
  unless p is 0.
\<close>

definition ensurePortAvailable :: "'d moby \<Rightarrow> int \<Rightarrow> ('d, 'z, unit) dact" where
  "ensurePortAvailable M port w =
     (case m_Listen M port (dk_daemon w) of
        (Inl e, d) \<Rightarrow> (Inl (wrap_err (''host port '' @ show_int port @ '' unavailable'') e), w\<lparr>dk_daemon := d\<rparr>)
      | (Inr _, d) \<Rightarrow> (Inr (), w\<lparr>dk_daemon := d\<rparr>))"

fun ephemeral_port :: "nat \<Rightarrow> 'd moby \<Rightarrow> int set \<Rightarrow> ('d, 'z, int) dact" where
  "ephemeral_port 0 M reserved w =
     (Inl (plain ''could not find ephemeral port outside reserved set after 64 attempts''), w)"
| "ephemeral_port (Suc n) M reserved w =
     (case m_Listen M 0 (dk_daemon w) of
        (Inl e, d) \<Rightarrow> (Inl (wrap_err ''allocate ephemeral port'' e), w\<lparr>dk_daemon := d\<rparr>)
      | (Inr p, d) \<Rightarrow>
          if p \<in> reserved then ephemeral_port n M reserved (w\<lparr>dk_daemon := d\<rparr>)
          else (Inr p, w\<lparr>dk_daemon := d\<rparr>))"

text \<open>The ports from p on, \<open>n\<close> of them.\<close>

fun scan_ports :: "nat \<Rightarrow> int \<Rightarrow> 'd moby \<Rightarrow> int set \<Rightarrow> ('d, 'z) dock_scheme \<Rightarrow> int option \<times> ('d, 'z) dock_scheme" where
  "scan_ports 0 p M reserved w = (None, w)"
| "scan_ports (Suc n) p M reserved w =
     (if p \<in> reserved then scan_ports n (p + 1) M reserved w
      else case ensurePortAvailable M p w of
        (Inl _, w1) \<Rightarrow> scan_ports n (p + 1) M reserved w1
      | (Inr _, w1) \<Rightarrow> (Some (p :: int), w1))"

definition PickHostPortAvoiding :: "'d moby \<Rightarrow> int \<Rightarrow> int \<Rightarrow> int \<Rightarrow> int set \<Rightarrow> ('d, 'z, int) dact" where
  "PickHostPortAvoiding M requested start end0 reserved w =
     (if 0 < requested then
        if requested \<in> reserved
        then (Inl (plain (''host port '' @ show_int requested @ '' reserved by another container'')), w)
        else (case ensurePortAvailable M requested w of
            (Inl e, w1) \<Rightarrow> (Inl e, w1) | (Inr _, w1) \<Rightarrow> (Inr requested, w1))
      else if requested = 0 then ephemeral_port 64 M reserved w
      else if start \<le> 0 \<or> end0 \<le> 0 \<or> end0 < start
      then (Inl (plain (''invalid host port range '' @ show_int start @ ''..'' @ show_int end0)), w)
      else (case scan_ports (nat (end0 - start + 1)) start M reserved w of
          (Some p, w1) \<Rightarrow> (Inr p, w1)
        | (None, w1) \<Rightarrow>
            (Inl (plain (''no free ports in range '' @ show_int start @ ''..'' @ show_int end0)), w1)))"

definition PickHostPort :: "'d moby \<Rightarrow> int \<Rightarrow> int \<Rightarrow> int \<Rightarrow> ('d, 'z, int) dact" where
  "PickHostPort M requested start end0 = PickHostPortAvoiding M requested start end0 {}"

end
