(* ===== verification/HF_Docker_Owned.thy ===== *)
theory HF_Docker_Owned
  imports HF_Docker
begin

text \<open>
  The persistent engine resources of internal/docker/persistent.go: environment and gateway
  networks, database volumes, database and gateway containers.  Whatever already exists under the name HostForge
  wants, or is to be removed, is inspected first and left alone unless its labels say it is
  HostForge's own and of the right kind.
\<close>

section \<open>Environment networks\<close>

definition EnvironmentNetworkName :: "string \<Rightarrow> string" where
  "EnvironmentNetworkName environmentID = ''hostforge-env-'' @ to_lower (trim environmentID)"

definition EnsureEnvironmentNetwork :: "'d moby \<Rightarrow> string \<Rightarrow> string \<Rightarrow> ('d, 'z, string) dact" where
  "EnsureEnvironmentNetwork M applicationID environmentID w =
     (let name = EnvironmentNetworkName environmentID
      in if name = ''hostforge-env-'' then (Inl (plain ''environment id required''), w)
         else case NetworkInspect M name w of
           (Inr n, w1) \<Rightarrow>
             (if label (nin_Labels n) ManagedLabel \<noteq> ''true'' \<or>
                 label (nin_Labels n) EnvironmentIDLabel \<noteq> trim environmentID
              then Inl (plain (''network '' @ name @ '' exists without matching HostForge ownership labels''))
              else Inr (nin_ID n), w1)
         | (Inl e, w1) \<Rightarrow>
             if \<not> de_not_found e then (Inl (wrap_err (''inspect environment network '' @ name) e), w1)
             else (case NetworkCreate M name [(ManagedLabel, ''true''), (ResourceTypeLabel, ''environment-network''),
                 (ApplicationIDLabel, trim applicationID), (EnvironmentIDLabel, trim environmentID)] w1 of
               (Inl e2, w2) \<Rightarrow> (Inl (wrap_err (''create environment network '' @ name) e2), w2)
             | (Inr i, w2) \<Rightarrow> (Inr i, w2)))"

definition ValidateEnvironmentNetwork :: "'d moby \<Rightarrow> string \<Rightarrow> string \<Rightarrow> ('d, 'z, unit) dact" where
  "ValidateEnvironmentNetwork M applicationID environmentID w =
     (let name = EnvironmentNetworkName environmentID
      in case NetworkInspect M name w of
           (Inl e, w1) \<Rightarrow> (Inl (wrap_err (''inspect environment network '' @ name) e), w1)
         | (Inr n, w1) \<Rightarrow>
             (if \<not> managed_as ''environment-network'' (nin_Labels n) \<or>
                 label (nin_Labels n) ApplicationIDLabel \<noteq> trim applicationID \<or>
                 label (nin_Labels n) EnvironmentIDLabel \<noteq> trim environmentID
              then Inl (plain (''environment network '' @ name @ '' ownership labels do not match''))
              else Inr (), w1))"

text \<open>The three removals of an empty network share their last step.\<close>

definition remove_network :: "'d moby \<Rightarrow> string \<Rightarrow> (docker_err \<Rightarrow> docker_err) \<Rightarrow> ('d, 'z, bool) dact" where
  "remove_network M i wrapped w =
     (case NetworkRemove M i w of
        (Inl e, w1) \<Rightarrow> (if de_not_found e then Inr True else Inl (wrapped e), w1)
      | (Inr _, w1) \<Rightarrow> (Inr True, w1))"

definition RemoveEnvironmentNetworkIfEmpty :: "'d moby \<Rightarrow> string \<Rightarrow> ('d, 'z, bool) dact" where
  "RemoveEnvironmentNetworkIfEmpty M environmentID w =
     (let name = EnvironmentNetworkName environmentID
      in case NetworkInspect M name w of
           (Inl e, w1) \<Rightarrow>
             (if de_not_found e then Inr False else Inl (wrap_err ''inspect environment network before removal'' e), w1)
         | (Inr n, w1) \<Rightarrow>
             if \<not> managed_as ''environment-network'' (nin_Labels n) \<or>
                label (nin_Labels n) EnvironmentIDLabel \<noteq> trim environmentID
             then (Inl (plain (''refusing to remove network '' @ name @ '' without matching HostForge ownership labels'')), w1)
             else if nin_Containers n \<noteq> [] then (Inr False, w1)
             else remove_network M (nin_ID n) (wrap_err (''remove environment network '' @ name)) w1)"

section \<open>Database volumes\<close>

fun mismatched :: "labels \<Rightarrow> labels \<Rightarrow> string option" where
  "mismatched have [] = None"
| "mismatched have ((k, v) # ls) = (if label have k \<noteq> trim v then Some k else mismatched have ls)"

fun merge_labels :: "labels \<Rightarrow> labels \<Rightarrow> labels" where
  "merge_labels own [] = own"
| "merge_labels own ((k, v) # ls) = merge_labels (AList.update k (trim v) own) ls"

definition EnsureManagedVolume :: "'d moby \<Rightarrow> string \<Rightarrow> labels \<Rightarrow> ('d, 'z, string) dact" where
  "EnsureManagedVolume M name0 ls w =
     (let name = trim name0
      in if name = [] then (Inl (plain ''volume name required''), w)
         else case VolumeInspect M name w of
           (Inr v, w1) \<Rightarrow>
             (if \<not> managed_as ''database-volume'' (vin_Labels v)
              then Inl (plain (''volume '' @ name @ '' exists without HostForge database ownership labels''))
              else case mismatched (vin_Labels v) ls of
                Some k \<Rightarrow> Inl (plain (''volume '' @ name @ '' exists with mismatched ownership label '' @ k))
              | None \<Rightarrow> Inr (vin_Name v), w1)
         | (Inl e, w1) \<Rightarrow>
             if \<not> de_not_found e then (Inl (wrap_err (''inspect volume '' @ name) e), w1)
             else (case VolumeCreate M name
                 (merge_labels [(ManagedLabel, ''true''), (ResourceTypeLabel, ''database-volume'')] ls) w1 of
               (Inl e2, w2) \<Rightarrow> (Inl (wrap_err (''create volume '' @ name) e2), w2)
             | (Inr v, w2) \<Rightarrow> (Inr (vin_Name v), w2)))"

definition ValidateManagedVolume :: "'d moby \<Rightarrow> string \<Rightarrow> labels \<Rightarrow> ('d, 'z, unit) dact" where
  "ValidateManagedVolume M name ls w =
     (case VolumeInspect M (trim name) w of
        (Inl e, w1) \<Rightarrow> (Inl (wrap_err (''inspect managed database volume '' @ name) e), w1)
      | (Inr v, w1) \<Rightarrow>
          (if \<not> managed_as ''database-volume'' (vin_Labels v)
           then Inl (plain (''volume '' @ name @ '' database ownership labels do not match''))
           else case mismatched (vin_Labels v) ls of
             Some k \<Rightarrow> Inl (plain (''volume '' @ name @ '' ownership label '' @ k @ '' does not match''))
           | None \<Rightarrow> Inr (), w1))"

definition ManagedVolumeUsage :: "'d moby \<Rightarrow> ('d, 'z, (string \<times> int) list) dact" where
  "ManagedVolumeUsage M w =
     (case DiskUsage M w of
        (Inl e, w1) \<Rightarrow> (Inl (wrap_err ''inspect managed volume usage'' e), w1)
      | (Inr items, w1) \<Rightarrow>
          (Inr (map (\<lambda>i. (vin_Name (fst i), the (snd i)))
             (filter (\<lambda>i. managed_as ''database-volume'' (vin_Labels (fst i)) \<and>
                (case snd i of None \<Rightarrow> False | Some n \<Rightarrow> 0 \<le> n)) items)), w1))"

definition RemoveManagedDatabaseVolume :: "'d moby \<Rightarrow> string \<Rightarrow> string \<Rightarrow> ('d, 'z, unit) dact" where
  "RemoveManagedDatabaseVolume M name instanceID w =
     (case VolumeInspect M (trim name) w of
        (Inl e, w1) \<Rightarrow> (if de_not_found e then Inr () else Inl (wrap_err ''inspect volume before removal'' e), w1)
      | (Inr v, w1) \<Rightarrow>
          if \<not> managed_as ''database-volume'' (vin_Labels v)
          then (Inl (plain (''refusing to remove volume '' @ name @ '' without database ownership labels'')), w1)
          else if trim instanceID \<noteq> [] \<and> label (vin_Labels v) InstanceIDLabel \<noteq> trim instanceID
          then (Inl (plain (''refusing to remove volume '' @ name @ '' with mismatched database instance ownership'')), w1)
          else (case VolumeRemove M (vin_Name v) w1 of
             (Inl e, w2) \<Rightarrow> (if de_not_found e then Inr () else Inl (wrap_err (''remove volume '' @ name) e), w2)
           | (Inr _, w2) \<Rightarrow> (Inr (), w2)))"

definition RemoveManagedVolume :: "'d moby \<Rightarrow> string \<Rightarrow> ('d, 'z, unit) dact" where
  "RemoveManagedVolume M name = RemoveManagedDatabaseVolume M name []"

section \<open>Database containers\<close>

record managed_options =
  mo_ImageRef :: string
  mo_ContainerName :: string
  mo_Env :: "string list"
  mo_Command :: "string list"
  mo_Labels :: labels
  mo_NetworkName :: string
  mo_NetworkAliases :: "string list"
  mo_VolumeName :: string
  mo_VolumeTarget :: string
  mo_CPULimitMillis :: int
  mo_MemoryLimitBytes :: int

definition managed_spec :: "managed_options \<Rightarrow> create_spec" where
  "managed_spec opts =
     \<lparr> cs_Name = trim (mo_ContainerName opts), cs_Image = trim (mo_ImageRef opts), cs_Entrypoint = None,
       cs_Cmd = mo_Command opts, cs_Env = mo_Env opts,
       cs_Labels = merge_labels [(ManagedLabel, ''true''), (ResourceTypeLabel, ''database-container'')] (mo_Labels opts),
       cs_Ports = [], cs_RestartPolicy = ''unless-stopped'', cs_Memory = mo_MemoryLimitBytes opts,
       cs_NanoCPUs = nano_cpus (mo_CPULimitMillis opts), cs_PidsLimit = None, cs_ReadonlyRootfs = False,
       cs_CapDrop = [], cs_SecurityOpt = [], cs_Tmpfs = [],
       cs_Mounts = [VolumeMount (trim (mo_VolumeName opts)) (trim (mo_VolumeTarget opts))],
       cs_Networks = [(trim (mo_NetworkName opts), mo_NetworkAliases opts)] \<rparr>"

text \<open>Both kinds of managed container are removed again when they do not start.\<close>

definition create_started :: "'d moby \<Rightarrow> create_spec \<Rightarrow> string \<Rightarrow> (string \<Rightarrow> string) \<Rightarrow> ('d, 'z, string) dact" where
  "create_started M spec what started w =
     (case ContainerCreate M spec w of
        (Inl e, w1) \<Rightarrow> (Inl (wrap_err (''create '' @ what) e), w1)
      | (Inr i, w1) \<Rightarrow>
          (case ContainerStart M i w1 of
             (Inl e, w2) \<Rightarrow> (Inl (wrap_err (started i) e), snd (ContainerRemove M i w2))
           | (Inr _, w2) \<Rightarrow> (Inr i, w2)))"

definition RunManagedContainer :: "'d moby \<Rightarrow> managed_options \<Rightarrow> ('d, 'z, string) dact" where
  "RunManagedContainer M opts w =
     (if trim (mo_ImageRef opts) = [] \<or> trim (mo_ContainerName opts) = []
      then (Inl (plain ''image and container name required''), w)
      else if trim (mo_NetworkName opts) = [] then (Inl (plain ''managed container network required''), w)
      else if trim (mo_VolumeName opts) = [] \<or> trim (mo_VolumeTarget opts) = []
      then (Inl (plain ''managed container volume and target required''), w)
      else if mo_CPULimitMillis opts \<le> 0 \<or> mo_MemoryLimitBytes opts \<le> 0
      then (Inl (plain ''managed container cpu and memory limits required''), w)
      else create_started M (managed_spec opts) ''managed container''
        (\<lambda>i. ''start managed container '' @ shortID i) w)"

section \<open>Paths\<close>

text \<open>
  \<open>filepath.Clean\<close> on Unix: empty and \<open>.\<close> elements vanish, \<open>..\<close> takes back the element before it,
  and at the front it stays, or vanishes at the root.
\<close>

fun clean_elems :: "bool \<Rightarrow> string list \<Rightarrow> string list \<Rightarrow> string list" where
  "clean_elems rooted out [] = rev out"
| "clean_elems rooted out (e # es) =
     (if e = [] \<or> e = ''.'' then clean_elems rooted out es
      else if e = ''..'' then
        (if out \<noteq> [] \<and> hd out \<noteq> ''..'' then clean_elems rooted (tl out) es
         else if rooted then clean_elems rooted out es
         else clean_elems rooted (e # out) es)
      else clean_elems rooted (e # out) es)"

definition clean_path :: "string \<Rightarrow> string" where
  "clean_path p =
     (let rooted = has_prefix p ''/''; es = clean_elems rooted [] (split_on CHR ''/'' p)
      in if rooted then CHR ''/'' # join_with ''/'' es
         else if es = [] then ''.'' else join_with ''/'' es)"

section \<open>Gateway networks\<close>

fun differs :: "labels \<Rightarrow> labels \<Rightarrow> string option" where
  "differs have [] = None"
| "differs have ((k, v) # ls) = (if label have k \<noteq> v then Some k else differs have ls)"

definition ensureOwnedGatewayNetwork :: "'d moby \<Rightarrow> string \<Rightarrow> string \<Rightarrow> labels \<Rightarrow> ('d, 'z, string) dact" where
  "ensureOwnedGatewayNetwork M name resourceType ls w =
     (case NetworkInspect M name w of
        (Inr n, w1) \<Rightarrow>
          (if \<not> managed_as resourceType (nin_Labels n)
           then Inl (plain (''network '' @ name @ '' exists without matching HostForge gateway ownership''))
           else case differs (nin_Labels n) ls of
             Some k \<Rightarrow> Inl (plain (''network '' @ name @ '' gateway ownership label '' @ k @ '' does not match''))
           | None \<Rightarrow> Inr (nin_ID n), w1)
      | (Inl e, w1) \<Rightarrow>
          if \<not> de_not_found e then (Inl (wrap_err (''inspect gateway network '' @ name) e), w1)
          else (case NetworkCreate M name ((ManagedLabel, ''true'') # (ResourceTypeLabel, resourceType) # ls) w1 of
            (Inl e2, w2) \<Rightarrow> (Inl (wrap_err (''create gateway network '' @ name) e2), w2)
          | (Inr i, w2) \<Rightarrow> (Inr i, w2)))"

definition EnsureDatabaseGatewayIngressNetwork :: "'d moby \<Rightarrow> string \<Rightarrow> string \<Rightarrow> ('d, 'z, string) dact" where
  "EnsureDatabaseGatewayIngressNetwork M engine0 name0 w =
     (let engine = to_lower (trim engine0); name = trim name0
      in if engine = [] \<or> name = [] then (Inl (plain ''gateway engine and ingress network name required''), w)
         else ensureOwnedGatewayNetwork M name ''database-gateway-ingress'' [(GatewayEngineLabel, engine)] w)"

definition EnsureDatabaseGatewayLinkNetwork ::
  "'d moby \<Rightarrow> string \<Rightarrow> string \<Rightarrow> string \<Rightarrow> string \<Rightarrow> ('d, 'z, string) dact" where
  "EnsureDatabaseGatewayLinkNetwork M engine0 routeID0 instanceID0 name0 w =
     (let engine = to_lower (trim engine0); routeID = trim routeID0; instanceID = trim instanceID0; name = trim name0
      in if engine = [] \<or> routeID = [] \<or> instanceID = [] \<or> name = []
         then (Inl (plain ''gateway engine, route, instance, and link network name required''), w)
         else ensureOwnedGatewayNetwork M name ''database-gateway-link''
           [(GatewayEngineLabel, engine), (GatewayRouteLabel, routeID), (InstanceIDLabel, instanceID)] w)"

text \<open>Container ids are compared up to abbreviation.\<close>

definition same_container :: "string \<Rightarrow> string \<Rightarrow> bool" where
  "same_container a b \<longleftrightarrow> a = b \<or> has_prefix a b \<or> has_prefix b a"

definition ValidateDatabaseGatewayNetworkMembership ::
  "'d moby \<Rightarrow> string \<Rightarrow> string \<Rightarrow> string list \<Rightarrow> ('d, 'z, unit) dact" where
  "ValidateDatabaseGatewayNetworkMembership M name resourceType allowedContainerIDs w =
     (case NetworkInspect M (trim name) w of
        (Inl e, w1) \<Rightarrow> (Inl (wrap_err ''inspect gateway network membership'' e), w1)
      | (Inr n, w1) \<Rightarrow>
          if \<not> managed_as (trim resourceType) (nin_Labels n)
          then (Inl (plain ''refusing to validate a network without matching HostForge gateway ownership''), w1)
          else (let allowed = filter (\<lambda>i. i \<noteq> []) (map trim allowedContainerIDs)
                in case find (\<lambda>c. \<not> list_ex (same_container (fst c)) allowed) (nin_Containers n) of
                  Some c \<Rightarrow> (Inl (plain (''gateway network '' @ name @ '' contains foreign container '' @ shortID (fst c))), w1)
                | None \<Rightarrow> (Inr (), w1)))"

definition ConnectDatabaseGatewayLink ::
  "'d moby \<Rightarrow> string \<Rightarrow> string \<Rightarrow> string list \<Rightarrow> ('d, 'z, unit) dact" where
  "ConnectDatabaseGatewayLink M networkName0 containerID0 aliases w =
     (let networkName = trim networkName0; containerID = trim containerID0
      in if networkName = [] \<or> containerID = []
         then (Inl (plain ''gateway link network and container required''), w)
         else case NetworkInspect M networkName w of
           (Inl e, w1) \<Rightarrow> (Inl (wrap_err ''inspect gateway link network'' e), w1)
         | (Inr n, w1) \<Rightarrow>
             if \<not> managed_as ''database-gateway-link'' (nin_Labels n)
             then (Inl (plain ''refusing to connect a non-gateway-link network''), w1)
             else if list_ex (\<lambda>c. snd c = containerID \<or> same_container (fst c) containerID) (nin_Containers n)
             then (Inr (), w1)
             else (case NetworkConnect M (nin_ID n) containerID aliases w1 of
               (Inl e, w2) \<Rightarrow> (Inl (wrap_err ''connect database gateway link'' e), w2)
             | (Inr _, w2) \<Rightarrow> (Inr (), w2)))"

definition DisconnectDatabaseGatewayLink :: "'d moby \<Rightarrow> string \<Rightarrow> string \<Rightarrow> ('d, 'z, unit) dact" where
  "DisconnectDatabaseGatewayLink M networkName containerID w =
     (case NetworkInspect M (trim networkName) w of
        (Inl e, w1) \<Rightarrow> (if de_not_found e then Inr () else Inl e, w1)
      | (Inr n, w1) \<Rightarrow>
          if \<not> managed_as ''database-gateway-link'' (nin_Labels n)
          then (Inl (plain ''refusing to disconnect a non-gateway-link network''), w1)
          else (case NetworkDisconnect M (nin_ID n) (trim containerID) w1 of
             (Inl e, w2) \<Rightarrow>
               (if de_not_found e then Inr () else Inl (wrap_err ''disconnect database gateway link'' e), w2)
           | (Inr _, w2) \<Rightarrow> (Inr (), w2)))"

definition RemoveDatabaseGatewayLinkNetworkIfEmpty :: "'d moby \<Rightarrow> string \<Rightarrow> string \<Rightarrow> ('d, 'z, bool) dact" where
  "RemoveDatabaseGatewayLinkNetworkIfEmpty M networkName routeID w =
     (case NetworkInspect M (trim networkName) w of
        (Inl e, w1) \<Rightarrow> (if de_not_found e then Inr True else Inl e, w1)
      | (Inr n, w1) \<Rightarrow>
          if \<not> managed_as ''database-gateway-link'' (nin_Labels n) \<or>
             label (nin_Labels n) GatewayRouteLabel \<noteq> trim routeID
          then (Inl (plain ''refusing to remove network without matching gateway route ownership''), w1)
          else if nin_Containers n \<noteq> [] then (Inr False, w1)
          else remove_network M (nin_ID n) id w1)"

definition RemoveDatabaseGatewayIngressNetworkIfEmpty :: "'d moby \<Rightarrow> string \<Rightarrow> string \<Rightarrow> ('d, 'z, bool) dact" where
  "RemoveDatabaseGatewayIngressNetworkIfEmpty M networkName engine w =
     (case NetworkInspect M (trim networkName) w of
        (Inl e, w1) \<Rightarrow> (if de_not_found e then Inr False else Inl e, w1)
      | (Inr n, w1) \<Rightarrow>
          if \<not> managed_as ''database-gateway-ingress'' (nin_Labels n) \<or>
             label (nin_Labels n) GatewayEngineLabel \<noteq> to_lower (trim engine)
          then (Inl (plain ''refusing to remove network without matching gateway ownership''), w1)
          else if nin_Containers n \<noteq> [] then (Inr False, w1)
          else remove_network M (nin_ID n) id w1)"

section \<open>The gateway container\<close>

record gateway_options =
  go_Engine :: string
  go_ImageRef :: string
  go_ContainerName :: string
  go_IngressNetwork :: string
  go_ConfigDir :: string
  go_HostPort :: int

text \<open>The only container whose port is published on every address of the host.\<close>

definition gateway_spec :: "gateway_options \<Rightarrow> create_spec" where
  "gateway_spec opts =
     \<lparr> cs_Name = trim (go_ContainerName opts), cs_Image = trim (go_ImageRef opts), cs_Entrypoint = Some [],
       cs_Cmd = [''pgbouncer'', ''/etc/hostforge-gateway/current/pgbouncer.ini''], cs_Env = [],
       cs_Labels = [(ManagedLabel, ''true''), (ResourceTypeLabel, ''database-gateway-container''),
         (GatewayEngineLabel, to_lower (trim (go_Engine opts)))],
       cs_Ports = [(5432, [], 5432)], cs_RestartPolicy = ''unless-stopped'', cs_Memory = 0, cs_NanoCPUs = 0,
       cs_PidsLimit = None, cs_ReadonlyRootfs = True, cs_CapDrop = [''ALL''], cs_SecurityOpt = [''no-new-privileges''],
       cs_Tmpfs = [(''/run/pgbouncer'', ''rw,noexec,nosuid,nodev,size=16m,mode=0770''),
         (''/tmp'', ''rw,noexec,nosuid,nodev,size=16m'')],
       cs_Mounts = [BindMount (clean_path (trim (go_ConfigDir opts))) ''/etc/hostforge-gateway'' True],
       cs_Networks = [(trim (go_IngressNetwork opts), [''hostforge-postgresql-gateway''])] \<rparr>"

definition RunManagedDatabaseGateway :: "'d moby \<Rightarrow> gateway_options \<Rightarrow> ('d, 'z, string) dact" where
  "RunManagedDatabaseGateway M opts w =
     (if to_lower (trim (go_Engine opts)) = [] \<or> trim (go_ImageRef opts) = [] \<or> trim (go_ContainerName opts) = [] \<or>
         trim (go_IngressNetwork opts) = [] \<or> trim (go_ConfigDir opts) = [] \<or> go_HostPort opts \<noteq> 5432
      then (Inl (plain ''complete PostgreSQL gateway container configuration required''), w)
      else if \<not> str_contains (trim (go_ImageRef opts)) ''@sha256:''
      then (Inl (plain ''gateway image must be digest pinned''), w)
      else create_started M (gateway_spec opts) ''managed database gateway'' (\<lambda>i. ''start managed database gateway'') w)"

section \<open>Inspection\<close>

record inspection =
  insp_ID :: string
  insp_Running :: bool
  insp_Status :: string
  insp_Labels :: labels
  insp_ImageRef :: string
  insp_NanoCPUs :: int
  insp_MemoryBytes :: int
  insp_PublishedPorts :: bool
  insp_VolumeMounts :: "(string \<times> string) list"
  insp_NetworkAliases :: "(string \<times> string list) list"

definition inspection_of :: "container_info \<Rightarrow> labels \<Rightarrow> string \<Rightarrow> inspection" where
  "inspection_of c ls img =
     \<lparr> insp_ID = cin_ID c,
       insp_Running = (case cin_State c of None \<Rightarrow> False | Some st \<Rightarrow> fst st),
       insp_Status = (case cin_State c of None \<Rightarrow> [] | Some st \<Rightarrow> snd st),
       insp_Labels = ls, insp_ImageRef = img,
       insp_NanoCPUs = (case cin_HostConfig c of None \<Rightarrow> 0 | Some (n, m, p) \<Rightarrow> n),
       insp_MemoryBytes = (case cin_HostConfig c of None \<Rightarrow> 0 | Some (n, m, p) \<Rightarrow> m),
       insp_PublishedPorts = (case cin_HostConfig c of None \<Rightarrow> False | Some (n, m, p) \<Rightarrow> 0 < p),
       insp_VolumeMounts = filter (\<lambda>m. fst m \<noteq> []) (cin_Mounts c),
       insp_NetworkAliases = (case cin_Networks c of None \<Rightarrow> []
         | Some ns \<Rightarrow> map (\<lambda>n. (fst n, the (snd n))) (filter (\<lambda>n. snd n \<noteq> None) ns)) \<rparr>"

definition InspectManagedContainer :: "'d moby \<Rightarrow> string \<Rightarrow> ('d, 'z, inspection) dact" where
  "InspectManagedContainer M containerID w =
     (case ContainerInspect M (trim containerID) w of
        (Inl e, w1) \<Rightarrow> (Inl e, w1)
      | (Inr c, w1) \<Rightarrow>
          (case cin_Config c of
             None \<Rightarrow> Inl (plain (''container '' @ shortID containerID @ '' is not HostForge managed''))
           | Some (ls, img) \<Rightarrow>
               if label ls ManagedLabel \<noteq> ''true''
               then Inl (plain (''container '' @ shortID containerID @ '' is not HostForge managed''))
               else Inr (inspection_of c ls img), w1))"

definition RemoveManagedDatabaseGateway :: "'d moby \<Rightarrow> string \<Rightarrow> string \<Rightarrow> ('d, 'z, unit) dact" where
  "RemoveManagedDatabaseGateway M containerID engine w =
     (case InspectManagedContainer M containerID w of
        (Inl e, w1) \<Rightarrow> (if de_not_found e then Inr () else Inl e, w1)
      | (Inr i, w1) \<Rightarrow>
          if label (insp_Labels i) ResourceTypeLabel \<noteq> ''database-gateway-container'' \<or>
             label (insp_Labels i) GatewayEngineLabel \<noteq> to_lower (trim engine)
          then (Inl (plain ''refusing to remove container without matching gateway ownership''), w1)
          else StopAndRemoveWithTimeout M (insp_ID i) 15 w1)"

end
