(* ===== verification/HF_Docker_Props.thy ===== *)
theory HF_Docker_Props
  imports HF_Docker_Owned
begin

text \<open>
  What HostForge asks of the Docker engine when it looks after persistent resources: nothing is
  removed, connected or disconnected that was not just inspected and found to carry HostForge's labels, and no
  database port is published but the gateway's.
\<close>

section \<open>The policy\<close>

text \<open>\<open>permitted seen q\<close>: request q may be made after the calls \<open>seen\<close>.\<close>

definition inspected_network :: "call list \<Rightarrow> string set \<Rightarrow> (network_info \<Rightarrow> bool) \<Rightarrow> string \<Rightarrow> bool" where
  "inspected_network seen kinds p i \<longleftrightarrow> (\<exists>q n. (q, Network n) \<in> set seen \<and> nin_ID n = i \<and> p n \<and>
     (\<exists>k \<in> kinds. managed_as k (nin_Labels n)))"

definition inspected_gateway :: "call list \<Rightarrow> string \<Rightarrow> bool" where
  "inspected_gateway seen i \<longleftrightarrow> (\<exists>q c ls img. (q, Container c) \<in> set seen \<and> cin_ID c = i \<and>
     cin_Config c = Some (ls, img) \<and> managed_as ''database-gateway-container'' ls)"

definition published_ok :: "create_spec \<Rightarrow> bool" where
  "published_ok sp \<longleftrightarrow> cs_Ports sp = [] \<or>
     managed_as ''database-gateway-container'' (cs_Labels sp) \<and> str_contains (cs_Image sp) ''@sha256:'' \<and>
     cs_ReadonlyRootfs sp \<and> cs_CapDrop sp = [''ALL''] \<and> cs_SecurityOpt sp = [''no-new-privileges'']"

fun permitted :: "call list \<Rightarrow> request \<Rightarrow> bool" where
  "permitted seen (ReqNetRemove i) = inspected_network seen
     {''environment-network'', ''database-gateway-link'', ''database-gateway-ingress''} (\<lambda>n. nin_Containers n = []) i"
| "permitted seen (ReqNetConnect i c al) = inspected_network seen {''database-gateway-link''} (\<lambda>_. True) i"
| "permitted seen (ReqNetDisconnect i c) = inspected_network seen {''database-gateway-link''} (\<lambda>_. True) i"
| "permitted seen (ReqVolRemove v) = (\<exists>q vi. (q, Volume vi) \<in> set seen \<and> vin_Name vi = v \<and>
     managed_as ''database-volume'' (vin_Labels vi))"
| "permitted seen (ReqStop c t) = inspected_gateway seen c"
| "permitted seen (ReqRemove c) = (inspected_gateway seen c \<or> (\<exists>sp. (ReqCreate sp, Id c) \<in> set seen))"
| "permitted seen (ReqRestart c t) = False"
| "permitted seen (ReqImageRemove r force) = False"
| "permitted seen (ReqCreate sp) = published_ok sp"
| "permitted seen q = True"

fun policed :: "call list \<Rightarrow> call list \<Rightarrow> bool" where
  "policed seen [] = True"
| "policed seen (c # cs) = (permitted seen (fst c) \<and> policed (seen @ [c]) cs)"

lemma permitted_mono: "permitted seen q \<Longrightarrow> set seen \<subseteq> set seen' \<Longrightarrow> permitted seen' q"
  by (induction seen q rule: permitted.induct) (auto simp: inspected_network_def inspected_gateway_def)

lemma policed_mono: "policed seen cs \<Longrightarrow> set seen \<subseteq> set seen' \<Longrightarrow> policed seen' cs"
proof (induction cs arbitrary: seen seen')
  case (Cons c cs)
  then show ?case using permitted_mono [of seen "fst c" seen'] by (auto intro!: Cons.IH [of "seen @ [c]"])
qed simp

lemma policed_append: "policed seen (a @ b) \<longleftrightarrow> policed seen a \<and> policed (seen @ a) b"
  by (induction a arbitrary: seen) auto

section \<open>The operations\<close>

text \<open>What one operation asked for.\<close>

definition new_calls :: "('d, 'z) dock_scheme \<Rightarrow> ('d, 'z) dock_scheme \<Rightarrow> call list" where
  "new_calls w w' = drop (length (dk_calls w)) (dk_calls w')"

definition behaved :: "('d, 'z) dock_scheme \<Rightarrow> ('d, 'z) dock_scheme \<Rightarrow> bool" where
  "behaved w w' \<longleftrightarrow> dk_calls w' = dk_calls w @ new_calls w w' \<and> policed [] (new_calls w w')"

lemma behaved_ask:
  "ask q f g w = (r, w') \<Longrightarrow> \<exists>a. dk_calls w' = dk_calls w @ [(q, a)] \<and> (\<forall>x. r = Inr x \<longrightarrow> a = f x)"
  by (auto simp: ask_def split: sum.splits prod.splits)

lemmas engine_calls = ContainerCreate_def ContainerStart_def ContainerStop_def ContainerRestart_def
  ContainerRemove_def ContainerInspect_def ImageList_def ImageRemove_def ImagePull_def NetworkInspect_def
  NetworkCreate_def NetworkRemove_def NetworkConnect_def NetworkDisconnect_def VolumeInspect_def VolumeCreate_def
  VolumeRemove_def DiskUsage_def

lemma behaved_networks:
  "behaved w (snd (EnsureEnvironmentNetwork M a e w))"
  "behaved w (snd (ValidateEnvironmentNetwork M a e w))"
  "behaved w (snd (RemoveEnvironmentNetworkIfEmpty M e w))"
  by (auto simp: behaved_def new_calls_def EnsureEnvironmentNetwork_def ValidateEnvironmentNetwork_def
      RemoveEnvironmentNetworkIfEmpty_def remove_network_def Let_def inspected_network_def engine_calls
      split: sum.split prod.split dest!: behaved_ask)

lemma behaved_volumes:
  "behaved w (snd (EnsureManagedVolume M v ls w))"
  "behaved w (snd (ValidateManagedVolume M v ls w))"
  "behaved w (snd (ManagedVolumeUsage M w))"
  "behaved w (snd (RemoveManagedDatabaseVolume M v i w))"
  by (auto simp: behaved_def new_calls_def EnsureManagedVolume_def ValidateManagedVolume_def
      ManagedVolumeUsage_def RemoveManagedDatabaseVolume_def Let_def engine_calls
      split: sum.split prod.split dest!: behaved_ask)

lemma behaved_create: "published_ok sp \<Longrightarrow> behaved w (snd (create_started M sp what f w))"
  by (auto simp: behaved_def new_calls_def create_started_def engine_calls
      split: sum.split prod.split dest!: behaved_ask)
    (auto simp: ask_def split: sum.split prod.split)

lemma published: "published_ok (managed_spec mopts)"
    "str_contains (trim (go_ImageRef gopts)) ''@sha256:'' \<Longrightarrow> published_ok (gateway_spec gopts)"
  by (simp_all add: published_ok_def managed_spec_def gateway_spec_def managed_as_def label_def
      ManagedLabel_def ResourceTypeLabel_def)

lemma behaved_same: "behaved w w"
  by (simp add: behaved_def new_calls_def)

lemma behaved_containers:
  "behaved w (snd (RunManagedContainer M mopts w))"
  "behaved w (snd (RunManagedDatabaseGateway M gopts w))"
  "behaved w (snd (InspectManagedContainer M c w))"
  by (simp_all add: RunManagedContainer_def RunManagedDatabaseGateway_def behaved_same behaved_create published)
    (auto simp: behaved_def new_calls_def InspectManagedContainer_def engine_calls
      split: sum.split prod.split option.split dest!: behaved_ask)

lemma behaved_owned: "behaved w (snd (ensureOwnedGatewayNetwork M n k ls w))"
  by (auto simp: behaved_def new_calls_def ensureOwnedGatewayNetwork_def engine_calls
      split: sum.split prod.split dest!: behaved_ask)

lemma behaved_links:
  "behaved w (snd (EnsureDatabaseGatewayIngressNetwork M e n w))"
  "behaved w (snd (EnsureDatabaseGatewayLinkNetwork M e r i n w))"
  "behaved w (snd (ValidateDatabaseGatewayNetworkMembership M n k al w))"
  "behaved w (snd (ConnectDatabaseGatewayLink M n c al w))"
  "behaved w (snd (DisconnectDatabaseGatewayLink M n c w))"
proof -
  show "behaved w (snd (EnsureDatabaseGatewayIngressNetwork M e n w))"
    and "behaved w (snd (EnsureDatabaseGatewayLinkNetwork M e r i n w))"
    by (simp_all add: EnsureDatabaseGatewayIngressNetwork_def EnsureDatabaseGatewayLinkNetwork_def Let_def
        behaved_same behaved_owned)
qed (auto simp: behaved_def new_calls_def ValidateDatabaseGatewayNetworkMembership_def ConnectDatabaseGatewayLink_def
      DisconnectDatabaseGatewayLink_def Let_def inspected_network_def engine_calls
      split: sum.split prod.split option.split dest!: behaved_ask)

lemma behaved_removals:
  "behaved w (snd (RemoveDatabaseGatewayLinkNetworkIfEmpty M n r w))"
  "behaved w (snd (RemoveDatabaseGatewayIngressNetworkIfEmpty M n e w))"
  by (auto simp: behaved_def new_calls_def RemoveDatabaseGatewayLinkNetworkIfEmpty_def
      RemoveDatabaseGatewayIngressNetworkIfEmpty_def remove_network_def Let_def inspected_network_def engine_calls
      split: sum.split prod.split dest!: behaved_ask)

text \<open>Stopping and removing one container asks for nothing else.\<close>

lemma StopAndRemove_calls:
  "\<exists>a cs. dk_calls (snd (StopAndRemoveWithTimeout M i t w)) = dk_calls w @ (ReqStop i (if t \<le> 0 then 10 else t), a) # cs \<and>
     (cs = [] \<or> (\<exists>b. cs = [(ReqRemove i, b)]))"
  by (auto simp: StopAndRemoveWithTimeout_def Let_def engine_calls split: sum.split prod.split dest!: behaved_ask)

lemma behaved_gateway: "behaved w (snd (RemoveManagedDatabaseGateway M c e w))"
proof (cases "InspectManagedContainer M c w")
  case (Pair r w1)
  then obtain a where a: "dk_calls w1 = dk_calls w @ [(ReqInspect (trim c), a)]"
    by (auto simp: InspectManagedContainer_def engine_calls split: sum.splits prod.splits option.splits if_splits
        dest!: behaved_ask)
  show ?thesis
  proof (cases "\<exists>i. r = Inr i \<and> label (insp_Labels i) ResourceTypeLabel = ''database-gateway-container''")
    case False
    then show ?thesis
      using Pair a by (auto simp: behaved_def new_calls_def RemoveManagedDatabaseGateway_def split: sum.split)
  next
    case True
    then obtain i where i: "r = Inr i" "label (insp_Labels i) ResourceTypeLabel = ''database-gateway-container''" by blast
    then obtain ci where ci: "a = Container ci" "insp_ID i = cin_ID ci" "cin_Config ci = Some (insp_Labels i, insp_ImageRef i)"
        "label (insp_Labels i) ManagedLabel = ''true''"
      using Pair a by (auto simp: InspectManagedContainer_def engine_calls inspection_of_def
          split: sum.splits prod.splits option.splits if_splits dest!: behaved_ask)
    have "inspected_gateway [(ReqInspect (trim c), a)] (insp_ID i)"
      using i ci by (auto simp: inspected_gateway_def managed_as_def)
    moreover have "inspected_gateway [(ReqInspect (trim c), a), d] (insp_ID i)" for d
      using i ci by (auto simp: inspected_gateway_def managed_as_def)
    ultimately show ?thesis
      using Pair i a StopAndRemove_calls [of M "insp_ID i" 15 w1] behaved_same [of w1]
      by (auto simp: RemoveManagedDatabaseGateway_def behaved_def new_calls_def)
  qed
qed

inductive resource_step :: "'d moby \<Rightarrow> ('d, 'z) dock_scheme \<Rightarrow> ('d, 'z) dock_scheme \<Rightarrow> bool" for M where
  "resource_step M w (snd (EnsureEnvironmentNetwork M a e w))"
| "resource_step M w (snd (ValidateEnvironmentNetwork M a e w))"
| "resource_step M w (snd (RemoveEnvironmentNetworkIfEmpty M e w))"
| "resource_step M w (snd (EnsureManagedVolume M v ls w))"
| "resource_step M w (snd (ValidateManagedVolume M v ls w))"
| "resource_step M w (snd (ManagedVolumeUsage M w))"
| rs_volume: "resource_step M w (snd (RemoveManagedDatabaseVolume M v i w))"
| "resource_step M w (snd (RunManagedContainer M mopts w))"
| "resource_step M w (snd (RunManagedDatabaseGateway M gopts w))"
| "resource_step M w (snd (InspectManagedContainer M c w))"
| "resource_step M w (snd (EnsureDatabaseGatewayIngressNetwork M e n w))"
| "resource_step M w (snd (EnsureDatabaseGatewayLinkNetwork M e r i n w))"
| "resource_step M w (snd (ValidateDatabaseGatewayNetworkMembership M n k al w))"
| "resource_step M w (snd (ConnectDatabaseGatewayLink M n c al w))"
| "resource_step M w (snd (DisconnectDatabaseGatewayLink M n c w))"
| "resource_step M w (snd (RemoveDatabaseGatewayLinkNetworkIfEmpty M n r w))"
| "resource_step M w (snd (RemoveDatabaseGatewayIngressNetworkIfEmpty M n e w))"
| "resource_step M w (snd (RemoveManagedDatabaseGateway M c e w))"

lemma behaved_step: "resource_step M w w' \<Longrightarrow> behaved w w'"
  by (induction rule: resource_step.induct)
    (rule behaved_networks behaved_volumes behaved_containers behaved_links behaved_removals behaved_gateway)+

lemma behaved_iff: "behaved w w' \<longleftrightarrow> (\<exists>cs. dk_calls w' = dk_calls w @ cs \<and> policed [] cs)"
  by (auto simp: behaved_def new_calls_def)

lemma behaved_onward:
  assumes "behaved w w1" and "behaved w1 w2"
  shows "behaved w w2"
proof -
  obtain a b where "dk_calls w1 = dk_calls w @ a" "policed [] a" "dk_calls w2 = dk_calls w1 @ b" "policed [] b"
    using assms by (auto simp: behaved_iff)
  then show ?thesis using policed_mono [of "[]" b a] by (auto simp: behaved_iff policed_append)
qed

interpretation engine_run: kept_transactions "resource_step M" "\<lambda>_. True" behaved for M
  by unfold_locales (auto intro: behaved_same behaved_onward behaved_step)


text \<open>An engine that knows the volumes it holds and grants everything else.\<close>

definition volume_engine :: "volume_info list moby" where
  "volume_engine =
     \<lparr> m_ContainerCreate = \<lambda>sp d. (Inr (''c-'' @ cs_Name sp), d), m_ContainerStart = \<lambda>i d. (Inr (), d),
       m_ContainerStop = \<lambda>i t d. (Inr (), d), m_ContainerRestart = \<lambda>i t d. (Inr (), d),
       m_ContainerRemove = \<lambda>i d. (Inr (), d),
       m_ContainerInspect = \<lambda>i d. (Inl ((plain ''No such container'')\<lparr>de_not_found := True\<rparr>), d),
       m_ImageList = \<lambda>p d. (Inr [], d), m_ImageRemove = \<lambda>r f d. (Inr (), d), m_ImagePull = \<lambda>r d. (Inr None, d),
       m_NetworkInspect = \<lambda>n d. (Inl ((plain ''No such network'')\<lparr>de_not_found := True\<rparr>), d),
       m_NetworkCreate = \<lambda>n ls d. (Inr n, d), m_NetworkRemove = \<lambda>i d. (Inr (), d),
       m_NetworkConnect = \<lambda>i c al d. (Inr (), d), m_NetworkDisconnect = \<lambda>i c d. (Inr (), d),
       m_VolumeInspect = \<lambda>v d. (case find (\<lambda>x. vin_Name x = v) d of
         None \<Rightarrow> Inl ((plain ''No such volume'')\<lparr>de_not_found := True\<rparr>) | Some x \<Rightarrow> Inr x, d),
       m_VolumeCreate = \<lambda>v ls d. (Inr \<lparr> vin_Name = v, vin_Labels = ls \<rparr>, \<lparr> vin_Name = v, vin_Labels = ls \<rparr> # d),
       m_VolumeRemove = \<lambda>v d. (Inr (), filter (\<lambda>x. vin_Name x \<noteq> v) d),
       m_DiskUsage = \<lambda>d. (Inr (map (\<lambda>x. (x, Some 0)) d), d),
       m_ParsePort = \<lambda>s. None, m_Listen = \<lambda>p d. (Inr (if p = 0 then 40000 else p), d) \<rparr>"

definition owned_volume :: volume_info where
  "owned_volume = \<lparr> vin_Name = ''v'', vin_Labels = [(ManagedLabel, ''true''), (ResourceTypeLabel, ''database-volume'')] \<rparr>"

definition one_volume :: "volume_info list dock" where
  "one_volume = \<lparr> dk_daemon = [owned_volume], dk_calls = [] \<rparr>"


end
