(* ===== verification/HF_Env.thy ===== *)
theory HF_Env
  imports HF_Docker_Owned HF_Catalog HF_Db_Services
begin

text \<open>
  What a service's containers are given: the checks on environment variables and deploy commands,
  the build directory inside a checkout, and the environment with its database connection URLs
  (internal/services/envvars.go, service_config.go, and the environment part of deploy_v2.go).
  Opening sealed values is an argument.
\<close>

section \<open>Environment variables\<close>

definition MaxEnvKeyLen :: nat where "MaxEnvKeyLen = 128"
definition MaxEnvValueLen :: nat where "MaxEnvValueLen = 8 * 1024"

definition ValueLast4 :: "string \<Rightarrow> string" where
  "ValueLast4 text = drop (length text - 4) text"

definition NormalizeEnvKey :: "string \<Rightarrow> string" where
  "NormalizeEnvKey raw = to_upper (trim (map (\<lambda>c. if c = CHR ''-'' then CHR ''_'' else c) raw))"

definition env_key_char :: "char \<Rightarrow> bool" where
  "env_key_char c \<longleftrightarrow> is_upper_letter c \<or> is_digit c \<or> c = CHR ''_''"

fun envVarKeyRE :: "string \<Rightarrow> bool" where
  "envVarKeyRE [] = False"
| "envVarKeyRE (c # s) = (is_upper_letter c \<and> list_all env_key_char s)"

definition ValidateEnvEntry :: "string \<Rightarrow> string \<Rightarrow> string \<times> string" where
  "ValidateEnvEntry keyRaw valueRaw =
     (let key = NormalizeEnvKey keyRaw
      in if key = [] then ([], ''env_key_empty'')
         else if MaxEnvKeyLen < length key then ([], ''env_key_too_long'')
         else if \<not> envVarKeyRE key then ([], ''env_key_invalid'')
         else if key = ''PORT'' then ([], ''env_key_reserved'')
         else if MaxEnvValueLen < length valueRaw then ([], ''env_value_too_long'')
         else (key, []))"

section \<open>Deploy commands\<close>

text \<open>
  \<open>len([]rune(s))\<close>: the UTF-8 sequences of s, a byte that starts none counting as one.  For a lead
  byte, \<open>rune_tail\<close> is the number of continuation bytes and the range of the first of them.
\<close>

definition rune_tail :: "nat \<Rightarrow> (nat \<times> nat \<times> nat) option" where
  "rune_tail b =
     (if 0xC2 \<le> b \<and> b \<le> 0xDF then Some (1, 0x80, 0xBF)
      else if b = 0xE0 then Some (2, 0xA0, 0xBF)
      else if b = 0xED then Some (2, 0x80, 0x9F)
      else if 0xE1 \<le> b \<and> b \<le> 0xEF then Some (2, 0x80, 0xBF)
      else if b = 0xF0 then Some (3, 0x90, 0xBF)
      else if 0xF1 \<le> b \<and> b \<le> 0xF3 then Some (3, 0x80, 0xBF)
      else if b = 0xF4 then Some (3, 0x80, 0x8F)
      else None)"

definition continues :: "nat \<times> nat \<times> nat \<Rightarrow> nat list \<Rightarrow> bool" where
  "continues t bs \<longleftrightarrow> (case t of (n, lo, hi) \<Rightarrow> n \<le> length bs \<and> lo \<le> hd bs \<and> hd bs \<le> hi \<and>
     list_all (\<lambda>b. 0x80 \<le> b \<and> b \<le> 0xBF) (take (n - 1) (tl bs)))"

function rune_count :: "nat list \<Rightarrow> nat" where
  "rune_count [] = 0"
| "rune_count (b # bs) =
     (case rune_tail b of
        None \<Rightarrow> 1 + rune_count bs
      | Some t \<Rightarrow> if continues t bs then 1 + rune_count (drop (fst t) bs) else 1 + rune_count bs)"
  by pat_completeness auto
termination by (relation "measure length") auto

definition maxDeployCommandRunes :: nat where "maxDeployCommandRunes = 4096"

definition command_error :: "string \<times> string \<Rightarrow> string option" where
  "command_error lc =
     (let command = trim (snd lc)
      in if CHR 0x00 \<in> set command then Some ''deploy_command_invalid''
         else if maxDeployCommandRunes < rune_count (map of_char command)
         then Some (''deploy_command_too_long:'' @ fst lc)
         else None)"

text \<open>
  The three commands are checked in the order Go happens to iterate over the map, which is the
  argument \<open>order\<close>, a rearrangement of its list: the code of the first that fails is reported.
\<close>

definition ValidateDeployFields :: "((string \<times> string) list \<Rightarrow> (string \<times> string) list) \<Rightarrow>
    string \<Rightarrow> string \<Rightarrow> string \<Rightarrow> string \<Rightarrow> (string \<times> string \<times> string \<times> string) \<times> string" where
  "ValidateDeployFields order runtime0 install build start =
     (let r = to_lower (trim runtime0); runtime = (if r = [] then ''auto'' else r)
      in if runtime \<noteq> ''auto'' \<and> runtime \<noteq> ''bun'' then (([], [], [], []), ''invalid_deploy_runtime'')
         else case List.map_filter command_error
             (order [(''install_cmd'', install), (''build_cmd'', build), (''start_cmd'', start)]) of
           code # _ \<Rightarrow> (([], [], [], []), code)
         | [] \<Rightarrow> ((runtime, trim install, trim build, trim start), []))"

section \<open>The build directory\<close>

text \<open>\<open>filepath.Join\<close> of two elements.\<close>

definition join_path :: "string \<Rightarrow> string \<Rightarrow> string" where
  "join_path a b = (if a \<noteq> [] then clean_path (a @ ''/'' @ b) else if b \<noteq> [] then clean_path b else [])"

definition ResolveServiceBuildDirectory :: "string \<Rightarrow> string \<Rightarrow> err_chain + string" where
  "ResolveServiceBuildDirectory worktree rootDirectory0 =
     (let rootDirectory = trim rootDirectory0
      in if rootDirectory = [] \<or> rootDirectory = ''.'' then Inr worktree
         else let clean = clean_path rootDirectory
         in if has_prefix clean ''/'' \<or> clean = ''..'' \<or> has_prefix clean ''../''
            then Inl (ErrCode ''invalid_root_directory'' [Text ''root directory must stay within the repository''])
            else Inr (join_path worktree clean))"

section \<open>Connection URLs\<close>

text \<open>
  \<open>net/url\<close>: percent escapes, and which bytes stand for themselves in the user information, the host
  and the path.
\<close>

definition url_unreserved :: "char \<Rightarrow> bool" where
  "url_unreserved c \<longleftrightarrow> is_lower_letter c \<or> is_upper_letter c \<or> is_digit c \<or> c \<in> set ''-_.~''"

definition userinfo_char :: "char \<Rightarrow> bool" where
  "userinfo_char c \<longleftrightarrow> url_unreserved c \<or> c \<in> set ''$&+,;=''"

definition path_char :: "char \<Rightarrow> bool" where
  "path_char c \<longleftrightarrow> url_unreserved c \<or> c \<in> set ''$&+,/:;=@''"

definition host_char :: "char \<Rightarrow> bool" where
  "host_char c \<longleftrightarrow> url_unreserved c \<or> c \<in> set ''!$&()*+,;=:[]<>'' \<or> c = CHR 0x27 \<or> c = CHR 0x22"

definition upper_hex :: "nat \<Rightarrow> char" where
  "upper_hex d = upper_char (hex_char d)"

fun url_escape :: "(char \<Rightarrow> bool) \<Rightarrow> string \<Rightarrow> string" where
  "url_escape keep [] = []"
| "url_escape keep (c # s) =
     (if keep c then c # url_escape keep s
      else CHR ''%'' # upper_hex (of_char c div 16) # upper_hex (of_char c mod 16) # url_escape keep s)"

definition database_scheme :: "string \<Rightarrow> string" where
  "database_scheme engine = label [(''postgresql'', ''postgresql''), (''mysql'', ''mysql''), (''mariadb'', ''mysql''),
     (''mongodb'', ''mongodb''), (''redis'', ''redis''), (''valkey'', ''redis'')] engine"

definition connection_url :: "string \<Rightarrow> connection_binding \<Rightarrow> string \<Rightarrow> string" where
  "connection_url scheme b password =
     scheme @ ''://'' @ url_escape userinfo_char (cb_username b) @ '':'' @ url_escape userinfo_char password @ ''@'' @
     url_escape host_char (cb_network_alias b @ '':'' @ show_int (cb_internal_port b)) @
     (if cb_database_name b = [] then [] else url_escape path_char (CHR ''/'' # cb_database_name b))"

section \<open>The environment of a container\<close>

text \<open>
  The entries so far, in order, and where each key sits.  \<open>open_sealed\<close> is the sealer; \<open>None\<close> when no key is
  configured.
\<close>

type_synonym env_list = "string list \<times> (string \<times> nat) list"

fun open_rows :: "(string \<Rightarrow> err_chain + string) \<Rightarrow> (string \<times> string) list \<Rightarrow> env_list \<Rightarrow> err_chain + env_list" where
  "open_rows open_sealed [] env = Inr env"
| "open_rows open_sealed ((key, ct) # rows) (out, positions) =
     (case open_sealed ct of
        Inl e \<Rightarrow> Inl (ErrCode ''env_decrypt_failed'' (Text key # e))
      | Inr plaintext \<Rightarrow>
          open_rows open_sealed rows (out @ [key @ ''='' @ plaintext], AList.update key (length out) positions))"

fun add_bindings :: "(string \<Rightarrow> err_chain + string) \<Rightarrow> connection_binding list \<Rightarrow> env_list \<Rightarrow> err_chain + env_list" where
  "add_bindings open_sealed [] env = Inr env"
| "add_bindings open_sealed (b # bs) (out, positions) =
     (let key = cb_variable_key b; conflict = map_of positions key
      in if conflict \<noteq> None \<and> \<not> cb_replace_existing b
         then Inl (ErrCode ''database_binding_variable_conflict'' [Text (key @ '' is already defined'')])
         else case open_sealed (cb_password_ct b) of
           Inl e \<Rightarrow> Inl (ErrCode ''database_credential_decrypt_failed'' (Text (cb_database_instance_id b) # e))
         | Inr password \<Rightarrow>
             let scheme = database_scheme (cb_engine b); value = key @ ''='' @ connection_url scheme b password
             in if scheme = [] then Inl (ErrCode ''database_engine_unsupported'' [Text (cb_engine b)])
                else case conflict of
                  Some i \<Rightarrow> add_bindings open_sealed bs (out[i := value], positions)
                | None \<Rightarrow> add_bindings open_sealed bs (out @ [value], AList.update key (length out) positions))"

definition buildDockerEnvFromEnvironment :: "(string \<Rightarrow> err_chain + string) option \<Rightarrow> string \<Rightarrow> string \<Rightarrow> string \<Rightarrow>
    store \<Rightarrow> err_chain + string list" where
  "buildDockerEnvFromEnvironment sealer applicationID environmentID serviceID s =
     (let rows = ListEnvironmentVariablesSealed applicationID environmentID serviceID s;
          managed = ListDatabaseConnectionBindingsSealed serviceID environmentID s
      in if rows = [] \<and> managed = [] then Inr []
         else case sealer of
           None \<Rightarrow> Inl (ErrCode ''env_encryption_key_missing''
             [Text ''environment has stored variables but encryption key is not configured''])
         | Some open_sealed \<Rightarrow>
             (case open_rows open_sealed rows ([], []) of
                Inl e \<Rightarrow> Inl e
              | Inr env \<Rightarrow> (case add_bindings open_sealed managed env of Inl e \<Rightarrow> Inl e | Inr env2 \<Rightarrow> Inr (fst env2))))"

definition dockerEnvMap :: "string list \<Rightarrow> (string \<times> string) list" where
  "dockerEnvMap values = fold (\<lambda>v out. case cut_at CHR ''='' v of None \<Rightarrow> out | Some (k, x) \<Rightarrow> AList.update k x out) values []"

end
