(* ===== verification/HF_Env_Props.thy ===== *)
theory HF_Env_Props
  imports HF_Env HF_Cidr HF_Db_Props
begin

text \<open>
  The build directory cannot leave the checkout, a connection URL is read back as the credentials it was
  made of, and the environment of a container has each key once with the value that wins.
\<close>

section \<open>Paths\<close>

definition plain_elem :: "string \<Rightarrow> bool" where
  "plain_elem e \<longleftrightarrow> e \<noteq> [] \<and> e \<noteq> ''.'' \<and> e \<noteq> ''..''"

lemma split_on_append: "split_on c (a @ c # b) = split_on c a @ split_on c b"
proof (induction a)
  case (Cons x a)
  obtain p ps where "split_on c a = p # ps" by (cases "split_on c a") auto
  with Cons show ?case by auto
qed simp

lemma clean_elems_append: "clean_elems r out (a @ b) = clean_elems r (rev (clean_elems r out a)) b"
  by (induction r out a rule: clean_elems.induct) auto

lemma clean_elems_plain: "list_all plain_elem es \<Longrightarrow> clean_elems r out es = rev out @ es"
  by (induction r out es rule: clean_elems.induct) (auto simp: plain_elem_def)

lemma clean_elems_set: "set (clean_elems r out es) \<subseteq> set out \<union> set es"
proof (induction r out es rule: clean_elems.induct)
  case (2 r out e es)
  then show ?case by (cases out) auto
qed simp

lemma clean_elems_rooted: "list_all plain_elem out \<Longrightarrow> list_all plain_elem (clean_elems True out es)"
proof (induction True out es rule: clean_elems.induct)
  case (2 out e es)
  then show ?case by (cases out) (auto simp: plain_elem_def)
qed (simp add: list_all_iff)

lemma clean_rooted: "clean_path (CHR ''/'' # p) = CHR ''/'' # join_with ''/'' (clean_elems True [] (split_on CHR ''/'' (CHR ''/'' # p)))"
  by (simp add: clean_path_def has_prefix_def)

text \<open>Without a root, what cannot be taken back stays in front.\<close>

lemma clean_elems_free: "out = ns @ replicate n ''..'' \<Longrightarrow> list_all plain_elem ns \<Longrightarrow>
  \<exists>m ps. clean_elems False out es = replicate m ''..'' @ ps \<and> list_all plain_elem ps"
proof (induction es arbitrary: out ns n)
  case Nil
  then show ?case by (intro exI [of _ n] exI [of _ "rev ns"]) (auto simp: list_all_iff)
next
  case (Cons e es)
  show ?case
  proof (cases "e = [] \<or> e = ''.''")
    case True
    then show ?thesis using Cons by auto
  next
    case e: False
    show ?thesis
    proof (cases "e = ''..''")
      case False
      then show ?thesis using e Cons.prems Cons.IH [of "e # out" "e # ns" n] by (auto simp: plain_elem_def)
    next
      case True
      then show ?thesis
        using Cons.prems Cons.IH [of "tl out" "tl ns" n] Cons.IH [of "e # out" "[]" "Suc n"]
        by (cases ns; cases n) (auto simp: plain_elem_def)
    qed
  qed
qed

lemma clean_relative:
  assumes "\<not> has_prefix (clean_path p) ''/''" "clean_path p \<noteq> ''..''" "\<not> has_prefix (clean_path p) ''../''"
  obtains es where "list_all plain_elem es" "\<And>e. e \<in> set es \<Longrightarrow> CHR ''/'' \<notin> set e"
    "clean_path p = (if es = [] then ''.'' else join_with ''/'' es)"
proof -
  let ?es = "clean_elems False [] (split_on CHR ''/'' p)"
  have rel: "\<not> has_prefix p ''/''"
    using assms(1) by (auto simp: clean_path_def has_prefix_def)
  then have c: "clean_path p = (if ?es = [] then ''.'' else join_with ''/'' ?es)"
    by (simp add: clean_path_def)
  obtain m ps where es: "?es = replicate m ''..'' @ ps" "list_all plain_elem ps"
    using clean_elems_free [of "[]" "[]" 0 "split_on CHR ''/'' p"] by auto
  have "m = 0"
  proof (rule ccontr)
    assume "m \<noteq> 0"
    then obtain n where "?es = ''..'' # replicate n ''..'' @ ps" using es by (cases m) auto
    then show False
      using c assms(2,3) by (cases "replicate n ''..'' @ ps") (simp_all add: has_prefix_def)
  qed
  moreover have "CHR ''/'' \<notin> set e" if "e \<in> set ?es" for e
    using that clean_elems_set [of False "[]" "split_on CHR ''/'' p"] split_on_no_sep by auto
  ultimately show ?thesis using that [of ps] es c by simp
qed

text \<open>C37. A service builds inside its checkout: whatever root directory is configured, the build directory
  of an absolute clean checkout path is the checkout itself or lies below it, and has no \<open>..\<close> element.\<close>

theorem build_directory_confined:
  assumes ok: "ResolveServiceBuildDirectory worktree root = Inr dir"
    and wt: "has_prefix worktree ''/''" "clean_path worktree = worktree" "worktree \<noteq> ''/''"
  shows "(dir = worktree \<or> has_prefix dir (worktree @ ''/'')) \<and> ''..'' \<notin> set (split_on CHR ''/'' dir)"
proof -
  obtain ww where ww: "clean_elems True [] (split_on CHR ''/'' worktree) = ww" by blast
  have ws: "worktree = CHR ''/'' # join_with ''/'' ww" using wt ww by (simp add: clean_path_def)
  have w: "list_all plain_elem ww" "\<And>e. e \<in> set ww \<Longrightarrow> CHR ''/'' \<notin> set e"
    using clean_elems_rooted [of "[]" "split_on CHR ''/'' worktree"] ww
      clean_elems_set [of True "[]" "split_on CHR ''/'' worktree"] split_on_no_sep [of _ "CHR ''/''" worktree]
    by auto
  have wn: "ww \<noteq> []" using ws wt(3) by auto
  have sw: "split_on CHR ''/'' worktree = [] # ww"
    unfolding ws using wn w(2) by (simp add: split_on_join)
  show ?thesis
  proof (cases "dir = worktree")
    case True
    then show ?thesis using sw w(1) by (auto simp: list_all_iff plain_elem_def)
  next
    case False
    let ?c = "clean_path (trim root)"
    have c: "\<not> has_prefix ?c ''/''" "?c \<noteq> ''..''" "\<not> has_prefix ?c ''../''" and dir: "dir = join_path worktree ?c"
      using ok False by (auto simp: ResolveServiceBuildDirectory_def Let_def split: if_splits)
    obtain es where es: "list_all plain_elem es" "\<And>e. e \<in> set es \<Longrightarrow> CHR ''/'' \<notin> set e"
        "?c = (if es = [] then ''.'' else join_with ''/'' es)" using clean_relative [OF c] by metis
    have sc: "split_on CHR ''/'' ?c = (if es = [] then [''.''] else es)"
      using es by (simp add: split_on_join)
    have "clean_elems True [] (split_on CHR ''/'' (worktree @ CHR ''/'' # ?c)) = ww @ es"
      using clean_elems_plain [OF w(1), of True "[]"] clean_elems_plain [OF es(1), of True "rev ww"]
      by (simp add: split_on_append sc clean_elems_append sw)
    then have d: "dir = CHR ''/'' # join_with ''/'' (ww @ es)"
      using dir clean_rooted [of "join_with ''/'' ww @ CHR ''/'' # ?c"] ws by (simp add: join_path_def)
    have split: "split_on CHR ''/'' dir = [] # ww @ es"
      unfolding d using wn split_on_join [of "ww @ es" "CHR ''/''"] w(2) es(2) by auto
    have "join_with ''/'' (a @ b) = join_with ''/'' a @ ''/'' @ join_with ''/'' b" if "a \<noteq> []" "b \<noteq> []" for a b
      using that by (induction "''/''" a rule: join_with.induct) (auto simp: neq_Nil_conv)
    moreover have "es \<noteq> []" using d ws False by auto
    ultimately have "dir = (worktree @ ''/'') @ join_with ''/'' es" unfolding d by (subst ws) (simp add: wn)
    then have "has_prefix dir (worktree @ ''/'')" by (simp only: has_prefix_append)
    moreover have "''..'' \<notin> set ([] # ww @ es)" using w(1) es(1) by (auto simp: list_all_iff plain_elem_def)
    ultimately show ?thesis unfolding split by blast
  qed
qed

theorem build_directory_confined_witness:
  "ResolveServiceBuildDirectory ''/w/x'' '' a/../b// '' = Inr ''/w/x/b'' \<and> has_prefix ''/w/x/b'' ''/w/x/'' \<and>
   ResolveServiceBuildDirectory ''/w/x'' ''a/../../b'' =
     Inl (ErrCode ''invalid_root_directory'' [Text ''root directory must stay within the repository''])"
proof -
  have ok: "ResolveServiceBuildDirectory ''/w/x'' '' a/../b// '' = Inr ''/w/x/b''"
    and bad: "ResolveServiceBuildDirectory ''/w/x'' ''a/../../b'' =
      Inl (ErrCode ''invalid_root_directory'' [Text ''root directory must stay within the repository''])"
    by code_simp+
  have "has_prefix ''/w/x'' ''/''" "clean_path ''/w/x'' = ''/w/x''" by code_simp+
  from build_directory_confined [OF ok this] ok bad show ?thesis by auto
qed

section \<open>Connection URLs\<close>

text \<open>How a client reads a connection URL: RFC 3986, with the user information percent-decoded.\<close>

fun url_unescape :: "string \<Rightarrow> string option" where
  "url_unescape [] = Some []"
| "url_unescape (c # s) =
     (if c = CHR ''%'' then
        (case s of
           a # b # t \<Rightarrow>
             (case (hex_val a, hex_val b, url_unescape t) of
                (Some x, Some y, Some u) \<Rightarrow> Some (char_of (x * 16 + y) # u)
              | _ \<Rightarrow> None)
         | _ \<Rightarrow> None)
      else map_option (Cons c) (url_unescape s))"

definition read_connection :: "string \<Rightarrow> (string \<times> string option \<times> string option \<times> string option \<times> string option) option" where
  "read_connection url =
     (case cut_at CHR '':'' url of
        None \<Rightarrow> None
      | Some (scheme, rest) \<Rightarrow>
          (case cut_at CHR ''@'' (drop 2 rest) of
             None \<Rightarrow> None
           | Some (user, loc) \<Rightarrow>
               (case cut_at CHR '':'' user of
                  None \<Rightarrow> None
                | Some (name, password) \<Rightarrow>
                    (case cut_at CHR ''/'' loc of
                       None \<Rightarrow> Some (scheme, url_unescape name, url_unescape password, url_unescape loc, Some [])
                     | Some (host, path) \<Rightarrow>
                         Some (scheme, url_unescape name, url_unescape password, url_unescape host, url_unescape path)))))"

lemma upper_hex_val: "d < 16 \<Longrightarrow> hex_val (upper_hex d) = Some d"
  by (auto simp: hex_val_def upper_hex_def hex_char_def upper_char_def is_lower_letter_def of_char_of Let_def)

lemma upper_hex_plain: "d < 16 \<Longrightarrow> upper_hex d \<notin> {CHR '':'', CHR ''@'', CHR ''/'', CHR ''%''}"
  using upper_hex_val [of d] by (auto simp: hex_val_def)

lemma unescape_escape: "\<not> keep CHR ''%'' \<Longrightarrow> url_unescape (url_escape keep s) = Some s"
proof (induction s)
  case (Cons c s)
  have "of_char c div 16 < (16 :: nat)" "of_char c mod 16 < (16 :: nat)"
    using of_char_mod_256 [of c] by (simp_all add: of_char_def)
  then show ?case using Cons by (auto simp: upper_hex_val)
qed simp

lemma escape_without:
  assumes "x \<in> {CHR '':'', CHR ''@'', CHR ''/''}" "\<not> keep x"
  shows "x \<notin> set (url_escape keep s)"
proof (induction s)
  case (Cons c s)
  have "of_char c div 16 < (16 :: nat)" "of_char c mod 16 < (16 :: nat)" by (simp_all add: of_char_def)
  from this [THEN upper_hex_plain] show ?case using Cons assms by auto
qed simp

lemma url_keeps [simp]:
  "\<not> userinfo_char CHR ''%''" "\<not> userinfo_char CHR '':''" "\<not> userinfo_char CHR ''@''" "\<not> userinfo_char CHR ''/''"
  "\<not> host_char CHR ''%''" "\<not> host_char CHR ''@''" "\<not> host_char CHR ''/''" "\<not> path_char CHR ''%''" "path_char CHR ''/''"
  by code_simp+

text \<open>C38. The connection URL injected into a container reads back as exactly the user, password, host, port
  and database name it was built from, whatever bytes the password has.\<close>

theorem connection_url_roundtrip:
  "read_connection (connection_url (database_scheme (cb_engine b)) b password) =
     Some (database_scheme (cb_engine b), Some (cb_username b), Some password,
       Some (cb_network_alias b @ '':'' @ show_int (cb_internal_port b)), Some (cb_database_name b))"
proof -
  let ?u = "url_escape userinfo_char (cb_username b)" and ?p = "url_escape userinfo_char password"
    and ?h = "url_escape host_char (cb_network_alias b @ '':'' @ show_int (cb_internal_port b))"
  have scheme: "CHR '':'' \<notin> set (database_scheme (cb_engine b))"
    by (auto simp: database_scheme_def label_def split: if_splits)
  have u: "CHR '':'' \<notin> set ?u" "CHR ''@'' \<notin> set (?u @ CHR '':'' # ?p)"
    and h: "CHR ''/'' \<notin> set ?h" by (simp_all add: escape_without)
  show ?thesis
  proof (cases "cb_database_name b = []")
    case True
    then show ?thesis
      using cut_at_append [OF scheme, of "''//'' @ ?u @ '':'' @ ?p @ ''@'' @ ?h"] cut_at_append [OF u(2), of ?h]
        cut_at_append [OF u(1), of ?p] h
      by (simp add: read_connection_def connection_url_def unescape_escape cut_at_None [THEN iffD2])
  next
    case False
    let ?d = "url_escape path_char (cb_database_name b)"
    show ?thesis
      using False cut_at_append [OF scheme, of "''//'' @ ?u @ '':'' @ ?p @ ''@'' @ ?h @ CHR ''/'' # ?d"]
        cut_at_append [OF u(2), of "?h @ CHR ''/'' # ?d"] cut_at_append [OF u(1), of ?p] cut_at_append [OF h, of ?d]
      by (simp add: read_connection_def connection_url_def unescape_escape)
  qed
qed

section \<open>The environment of a container\<close>

text \<open>The entries as pairs, with the position of each key.\<close>

definition env_pairs :: "(string \<times> string) list \<Rightarrow> env_list" where
  "env_pairs kvs = (map (\<lambda>kv. fst kv @ ''='' @ snd kv) kvs, zip (map fst kvs) [0..<length kvs])"

lemma update_new: "k \<notin> fst ` set al \<Longrightarrow> AList.update k v al = al @ [(k, v)]"
  by (induction al) auto

lemma pairs_keys: "fst ` set (snd (env_pairs kvs)) = fst ` set kvs"
  by (simp add: env_pairs_def flip: set_map)

lemma pairs_snoc: "k \<notin> fst ` set kvs \<Longrightarrow>
  (fst (env_pairs kvs) @ [k @ ''='' @ v], AList.update k (length kvs) (snd (env_pairs kvs))) = env_pairs (kvs @ [(k, v)])"
  using update_new [of k "snd (env_pairs kvs)" "length kvs"] by (simp add: pairs_keys) (simp add: env_pairs_def)

lemma pairs_position:
  assumes "distinct (map fst kvs)" and "map_of (snd (env_pairs kvs)) k = Some i"
  shows "i < length kvs \<and> fst (kvs ! i) = k"
  using map_of_SomeD [OF assms(2)] by (auto simp: env_pairs_def set_zip)

lemma pairs_free: "map_of (snd (env_pairs kvs)) k = None \<longleftrightarrow> k \<notin> fst ` set kvs"
  by (simp add: map_of_eq_None_iff pairs_keys)

lemma pairs_update: "i < length kvs \<Longrightarrow> fst (kvs ! i) = k \<Longrightarrow>
  ((fst (env_pairs kvs))[i := k @ ''='' @ v], snd (env_pairs kvs)) = env_pairs (kvs[i := (k, v)])"
  using list_update_same_conv [of i "map fst kvs" k] by (simp add: env_pairs_def map_update)

lemma open_rows_pairs:
  assumes "open_rows open_sealed rows (env_pairs kvs) = Inr env" "distinct (map fst (kvs @ rows))"
  obtains vs where "env = env_pairs (kvs @ zip (map fst rows) vs)" "length vs = length rows"
    "\<And>i. i < length rows \<Longrightarrow> open_sealed (snd (rows ! i)) = Inr (vs ! i)"
  using assms
proof (induction rows arbitrary: kvs thesis)
  case (Cons r rows)
  obtain v where v: "open_sealed (snd r) = Inr v"
    using Cons.prems(2) by (cases r; cases "env_pairs kvs") (auto split: sum.splits)
  have "fst r \<notin> fst ` set kvs" using Cons.prems(3) by auto
  from pairs_snoc [OF this, of v] have "open_rows open_sealed rows (env_pairs (kvs @ [(fst r, v)])) = Inr env"
    using Cons.prems(2) v by (cases r; cases "env_pairs kvs") (auto simp: env_pairs_def)
  from Cons.IH [OF _ this] obtain vs where "env = env_pairs ((kvs @ [(fst r, v)]) @ zip (map fst rows) vs)"
      "length vs = length rows" "\<And>i. i < length rows \<Longrightarrow> open_sealed (snd (rows ! i)) = Inr (vs ! i)"
    using Cons.prems(3) by auto
  then show ?case using v by (intro Cons.prems(1) [of "v # vs"]) (auto simp: nth_Cons split: nat.split)
qed simp

lemma map_of_snoc: "k \<notin> fst ` set kvs \<Longrightarrow> map_of (kvs @ [(k, v)]) = (map_of kvs)(k \<mapsto> v)"
  by (induction kvs) (auto simp: fun_upd_twist)

lemma map_of_list_update:
  "i < length kvs \<Longrightarrow> fst (kvs ! i) = k \<Longrightarrow> distinct (map fst kvs) \<Longrightarrow> map_of (kvs[i := (k, v)]) = (map_of kvs)(k \<mapsto> v)"
proof (induction kvs arbitrary: i)
  case (Cons kv kvs)
  show ?case
  proof (cases i)
    case (Suc j)
    then have "k \<in> fst ` set kvs" using Cons.prems nth_mem [of j kvs] by auto
    then have "k \<noteq> fst kv" using Cons.prems(3) by (metis distinct.simps(2) list.simps(9) list.set_map)
    then show ?thesis using Suc Cons by (cases kv) (auto simp: fun_upd_twist)
  qed (use Cons in \<open>cases kv, auto\<close>)
qed simp

text \<open>What the bindings do to the entries.\<close>

definition bound_value :: "(string \<Rightarrow> err_chain + string) \<Rightarrow> connection_binding \<Rightarrow> string option" where
  "bound_value open_sealed b = (case open_sealed (cb_password_ct b) of
     Inl _ \<Rightarrow> None | Inr p \<Rightarrow> Some (connection_url (database_scheme (cb_engine b)) b p))"

lemma add_bindings_pairs:
  assumes "add_bindings open_sealed bs (env_pairs kvs) = Inr env" "distinct (map fst kvs)" "distinct (map cb_variable_key bs)"
  shows "\<exists>kvs'. env = env_pairs kvs' \<and> distinct (map fst kvs') \<and> fst ` set kvs' = fst ` set kvs \<union> cb_variable_key ` set bs \<and>
    (\<forall>k. map_of kvs' k = (case find (\<lambda>b. cb_variable_key b = k) bs of
       Some b \<Rightarrow> bound_value open_sealed b | None \<Rightarrow> map_of kvs k)) \<and>
    (\<forall>b \<in> set bs. cb_variable_key b \<in> fst ` set kvs \<longrightarrow> cb_replace_existing b)"
  using assms
proof (induction bs arbitrary: kvs)
  case Nil
  then show ?case by auto
next
  case (Cons b bs)
  let ?k = "cb_variable_key b"
  obtain p where p: "open_sealed (cb_password_ct b) = Inr p"
    using Cons.prems(1) by (cases "env_pairs kvs") (auto simp: Let_def split: if_splits sum.splits)
  let ?v = "connection_url (database_scheme (cb_engine b)) b p"
  obtain kvs1 where kvs1: "add_bindings open_sealed bs (env_pairs kvs1) = Inr env" "distinct (map fst kvs1)"
      "map_of kvs1 = (map_of kvs)(?k \<mapsto> ?v)" "fst ` set kvs1 = insert ?k (fst ` set kvs)"
    and rep: "?k \<in> fst ` set kvs \<longrightarrow> cb_replace_existing b"
  proof (cases "map_of (snd (env_pairs kvs)) ?k")
    case None
    then have new: "?k \<notin> fst ` set kvs" by (simp add: pairs_free)
    have "length (fst (env_pairs kvs)) = length kvs" by (simp add: env_pairs_def)
    then have "add_bindings open_sealed bs (env_pairs (kvs @ [(?k, ?v)])) = Inr env"
      using Cons.prems(1) None p pairs_snoc [OF new, of ?v]
      by (cases "env_pairs kvs") (auto simp: Let_def split: if_splits)
    then show ?thesis
      using new Cons.prems(2) map_of_snoc [OF new, of ?v] by (intro that [of "kvs @ [(?k, ?v)]"]) simp_all
  next
    case (Some i)
    note i = pairs_position [OF Cons.prems(2) Some]
    then have upd: "add_bindings open_sealed bs (env_pairs (kvs[i := (?k, ?v)])) = Inr env"
      using Cons.prems(1) Some p pairs_update [of i kvs ?k ?v]
      by (cases "env_pairs kvs") (auto simp: Let_def split: if_splits)
    have same: "map fst (kvs[i := (?k, ?v)]) = map fst kvs"
      using i list_update_same_conv [of i "map fst kvs" ?k] by (simp add: map_update)
    have "?k \<in> fst ` set kvs" using i by (metis image_eqI nth_mem)
    moreover have "cb_replace_existing b"
      using Cons.prems(1) Some by (cases "env_pairs kvs") (auto simp: Let_def split: if_splits)
    moreover have "fst ` set (kvs[i := (?k, ?v)]) = fst ` set kvs" using same by (metis list.set_map)
    moreover have "map_of (kvs[i := (?k, ?v)]) = (map_of kvs)(?k \<mapsto> ?v)"
      using i Cons.prems(2) by (intro map_of_list_update) simp_all
    ultimately show ?thesis
      using upd Cons.prems(2) same by (intro that [of "kvs[i := (?k, ?v)]"]) (simp_all add: insert_absorb)
  qed
  from Cons.IH [OF kvs1(1,2)] Cons.prems(3) obtain kvs' where kvs': "env = env_pairs kvs'" "distinct (map fst kvs')"
      "fst ` set kvs' = fst ` set kvs1 \<union> cb_variable_key ` set bs"
      "\<And>k. map_of kvs' k = (case find (\<lambda>b. cb_variable_key b = k) bs of
         Some b \<Rightarrow> bound_value open_sealed b | None \<Rightarrow> map_of kvs1 k)"
      "\<And>b. b \<in> set bs \<Longrightarrow> cb_variable_key b \<in> fst ` set kvs1 \<Longrightarrow> cb_replace_existing b" by auto
  have "find (\<lambda>b. cb_variable_key b = ?k) bs = None"
    using Cons.prems(3) unfolding find_None_iff by simp (metis image_eqI)
  then show ?case using kvs' kvs1(3,4) rep p
    by (intro exI [of _ kvs']) (auto simp: bound_value_def split: option.split)
qed

text \<open>
  What a key is to be set to: the value the bindings give it if there is one, and else the opened variable.
\<close>

definition env_expected :: "(string \<Rightarrow> err_chain + string) \<Rightarrow> (string \<times> string) list \<Rightarrow> connection_binding list \<Rightarrow>
    string \<Rightarrow> string option" where
  "env_expected open_sealed rows bindings key =
     (case find (\<lambda>b. cb_variable_key b = key) bindings of
        Some b \<Rightarrow> bound_value open_sealed b
      | None \<Rightarrow> (case map_of rows key of None \<Rightarrow> None
          | Some ct \<Rightarrow> (case open_sealed ct of Inl _ \<Rightarrow> None | Inr x \<Rightarrow> Some x)))"

lemma distinct_fold_update: "distinct (map fst out) \<Longrightarrow>
    distinct (map fst (fold (\<lambda>v out. AList.update (f v) (g v) out) vs out))"
  by (induction vs arbitrary: out) (simp_all add: distinct_update)

lemma map_of_opened:
  assumes "length vs = length rows" "\<And>i. i < length rows \<Longrightarrow> open_sealed (snd (rows ! i)) = Inr (vs ! i)"
  shows "map_of (zip (map fst rows) vs) k = (case map_of rows k of None \<Rightarrow> None
     | Some ct \<Rightarrow> (case open_sealed ct of Inl _ \<Rightarrow> None | Inr x \<Rightarrow> Some x))"
  using assms
proof (induction rows arbitrary: vs)
  case (Cons r rows)
  then obtain v vs' where vs: "vs = v # vs'" by (cases vs) auto
  have "open_sealed (snd r) = Inr v" using Cons.prems(2) [of 0] vs by simp
  moreover have "open_sealed (snd (rows ! i)) = Inr (vs' ! i)" if "i < length rows" for i
    using Cons.prems(2) [of "Suc i"] vs that by simp
  ultimately show ?case using Cons.IH [of vs'] Cons.prems(1) vs by (cases r) auto
qed simp

lemma read_pairs:
  assumes "distinct (map fst kvs)" "\<And>k. k \<in> fst ` set kvs \<Longrightarrow> CHR ''='' \<notin> set k"
  shows "dockerEnvMap (fst (env_pairs kvs)) = kvs"
proof -
  have "fold (\<lambda>v out. case cut_at CHR ''='' v of None \<Rightarrow> out | Some (k, x) \<Rightarrow> AList.update k x out)
      (map (\<lambda>kv. fst kv @ ''='' @ snd kv) kvs) out = out @ kvs"
    if "distinct (map fst (out @ kvs))" for out
    using that assms(2)
  proof (induction kvs arbitrary: out)
    case (Cons kv kvs)
    then show ?case
      using cut_at_append [of "CHR ''=''" "fst kv" "snd kv"] update_new [of "fst kv" out "snd kv"] Cons.IH [of "out @ [kv]"]
      by (cases kv) simp
  qed simp
  from this [of "[]"] show ?thesis using assms(1) by (simp add: dockerEnvMap_def env_pairs_def)
qed


text \<open>A service whose database binding replaces a variable of its own.\<close>

definition bound_site :: store where
  "bound_site = db_store\<lparr>
     environment_variables := [new_variable_row ''v1'' ''app'' ''env'' None ''MODE'' ''dev'' [] [],
       new_variable_row ''v2'' ''app'' ''env'' (Some ''svc'') ''DB'' ''none'' [] []],
     database_bindings := [\<lparr> bd_id = ''b'', bd_database_instance_id = ''di'', bd_environment_id = ''env'',
       bd_consumer_service_id = ''svc'', bd_variable_key = ''DB'', bd_replace_existing = True,
       bd_created_at = [], bd_updated_at = [] \<rparr>]\<rparr>"

definition bound_binding :: connection_binding where
  "bound_binding = \<lparr> cb_database_instance_id = ''di'', cb_engine = ''postgresql'', cb_network_alias = ''main'',
     cb_internal_port = 5432, cb_database_name = ''app'', cb_username = ''u'', cb_password_ct = ''p'',
     cb_variable_key = ''DB'', cb_replace_existing = True \<rparr>"

lemma bound_strings: "trim ''app'' = ''app''" "trim ''env'' = ''env''" "trim ''svc'' = ''svc''" "trim ''main'' = ''main''"
  "trim ''u'' = ''u''" "trim ''di'' = ''di''" "trim ''ds'' = ''ds''"
  by code_simp+

lemma bound_rows: "ListEnvironmentVariablesSealed ''app'' ''env'' ''svc'' bound_site = [(''MODE'', ''dev''), (''DB'', ''none'')]"
  by (simp add: ListEnvironmentVariablesSealed_def bound_site_def sql_order_def bound_strings new_variable_row_def
      variable_rank_def insort_key_def)

lemma bound_managed: "ListDatabaseConnectionBindingsSealed ''svc'' ''env'' bound_site = [bound_binding]"
  by (simp add: ListDatabaseConnectionBindingsSealed_def bound_site_def sql_order_def bound_strings bound_binding_def
      db_store_def db_instance_def db_credential_def new_instance_row_def new_credential_row_def db_input_def)

lemma bound_env: "buildDockerEnvFromEnvironment (Some Inr) ''app'' ''env'' ''svc'' bound_site =
     Inr [''MODE=dev'', ''DB='' @ connection_url ''postgresql'' bound_binding ''p'']"
proof -
  have b: "cb_engine bound_binding = ''postgresql''" "cb_password_ct bound_binding = ''p''"
    "cb_variable_key bound_binding = ''DB''" "cb_replace_existing bound_binding"
    by (simp_all add: bound_binding_def)
  obtain u where u: "connection_url ''postgresql'' bound_binding ''p'' = u" by blast
  have "database_scheme ''postgresql'' = ''postgresql''" by (simp add: database_scheme_def label_def)
  with b u have "add_bindings Inr [bound_binding] ([''MODE=dev'', ''DB=none''], [(''MODE'', 0), (''DB'', Suc 0)]) =
      Inr ([''MODE=dev'', ''DB='' @ u], [(''MODE'', 0), (''DB'', Suc 0)])"
    by (simp only: add_bindings.simps) (simp add: Let_def)
  then show ?thesis by (simp add: buildDockerEnvFromEnvironment_def bound_rows bound_managed u)
qed


end
