(* ===== verification/HF_Config.thy ===== *)
theory HF_Config
  imports HF_Env HF_Handlers
begin

text \<open>
  The configuration, internal/config/config.go: the struct, the environment variables it is read from, the
  parsers of integers and booleans with their errors, and \<open>Load\<close> with its defaults and bounds, in the order
  of the code.  The process environment, the working directory and the home directory are arguments;
  an unset variable reads as the empty string.
\<close>

section \<open>Results that may be errors\<close>

definition attempt :: "'e + 'a \<Rightarrow> ('a \<Rightarrow> 'e + 'b) \<Rightarrow> 'e + 'b" where
  "attempt r f = (case r of Inl e \<Rightarrow> Inl e | Inr x \<Rightarrow> f x)"

lemma attempt_simps [simp]: "attempt (Inl e) f = Inl e" "attempt (Inr x) f = f x"
  by (simp_all add: attempt_def)

lemma attempt_Inr: "attempt r f = Inr y \<longleftrightarrow> (\<exists>x. r = Inr x \<and> f x = Inr y)"
  by (cases r) auto

lemma attempt_Inl: "attempt r f = Inl e \<longleftrightarrow> r = Inl e \<or> (\<exists>x. r = Inr x \<and> f x = Inl e)"
  by (cases r) auto

section \<open>The struct\<close>

record config =
  cf_DataDir :: string
  cf_ListenAddr :: string
  cf_HostPort :: int
  cf_PortStart :: int
  cf_PortEnd :: int
  cf_ContainerPort :: int
  cf_CaddyBin :: string
  cf_CaddyGeneratedPath :: string
  cf_CaddyControlPlanePath :: string
  cf_CaddyRootConfig :: string
  cf_SyncCaddy :: bool
  cf_PlatformDomainBase :: string
  cf_HealthPath :: string
  cf_HealthTimeoutMS :: int
  cf_HealthRetries :: int
  cf_HealthIntervalMS :: int
  cf_HealthExpectedMin :: int
  cf_HealthExpectedMax :: int
  cf_WebhookBasePath :: string
  cf_WebhookMaxBodyBytes :: int
  cf_WebhookAsync :: bool
  cf_WebhookSecret :: string
  cf_APIToken :: string
  cf_SessionSecret :: string
  cf_SessionCookieName :: string
  cf_SessionTTLMinutes :: int
  cf_SessionCookieSecure :: bool
  cf_WebhookRateLimitPerMinute :: int
  cf_LoginRateLimitPerMinute :: int
  cf_ShutdownTimeoutSeconds :: int
  cf_LogsDirPath :: string
  cf_RailpackEnabled :: bool
  cf_RailpackBin :: string
  cf_RailpackVersion :: string
  cf_RailpackFrontendImage :: string
  cf_BuildKitBin :: string
  cf_BuildKitAddress :: string
  cf_RailpackArtifactsDir :: string
  cf_RailpackMinFreeDiskBytes :: int
  cf_DatabaseMinFreeDiskBytes :: int
  cf_AppContainerMemoryLimitBytes :: int
  cf_AppContainerCPULimitMillis :: int
  cf_AppContainerPidsLimit :: int
  cf_DatabaseOperationConcurrency :: int
  cf_DeployConcurrency :: int
  cf_DatabaseTransferMaxPerHour :: int
  cf_ImageRetentionPerBinding :: int
  cf_ImageGCIntervalSeconds :: int
  cf_CaddyReconcileIntervalSeconds :: int
  cf_ControlPlaneSnapshotIntervalMinutes :: int
  cf_ControlPlaneSnapshotRetentionDays :: int
  cf_ControlPlaneSnapshotDir :: string
  cf_ControlPlaneSnapshotDestinationID :: string
  cf_DatabaseGatewaysEnabled :: bool
  cf_PostgreSQLGatewayImage :: string
  cf_PostgreSQLGatewayVersion :: string
  cf_DatabaseGatewayOperationConcurrency :: int
  cf_PostgreSQLGatewayCertificateFile :: string
  cf_PostgreSQLGatewayKeyFile :: string
  cf_DNSServerIPv4 :: string
  cf_DNSServerIPv6 :: string
  cf_DNSDetectURL :: string
  cf_DNSDetectIPv6URL :: string
  cf_DNSDetectTimeoutMS :: int
  cf_DomainSyncAfterMutate :: bool
  cf_CaddyCertPollIntervalSec :: int
  cf_CaddyAdminURL :: string
  cf_CaddyStorageRoot :: string
  cf_BootstrapEnabled :: bool
  cf_BootstrapPublicIP :: string
  cf_BootstrapHTTPSPort :: int
  cf_BootstrapExpiresAt :: string

definition zero_config :: config where
  "zero_config = \<lparr>
     cf_DataDir = [], cf_ListenAddr = [], cf_HostPort = 0, cf_PortStart = 0, cf_PortEnd = 0,
     cf_ContainerPort = 0, cf_CaddyBin = [], cf_CaddyGeneratedPath = [], cf_CaddyControlPlanePath = [],
     cf_CaddyRootConfig = [], cf_SyncCaddy = False, cf_PlatformDomainBase = [], cf_HealthPath = [],
     cf_HealthTimeoutMS = 0, cf_HealthRetries = 0, cf_HealthIntervalMS = 0, cf_HealthExpectedMin = 0,
     cf_HealthExpectedMax = 0, cf_WebhookBasePath = [], cf_WebhookMaxBodyBytes = 0, cf_WebhookAsync = False,
     cf_WebhookSecret = [], cf_APIToken = [], cf_SessionSecret = [], cf_SessionCookieName = [],
     cf_SessionTTLMinutes = 0, cf_SessionCookieSecure = False, cf_WebhookRateLimitPerMinute = 0,
     cf_LoginRateLimitPerMinute = 0, cf_ShutdownTimeoutSeconds = 0, cf_LogsDirPath = [],
     cf_RailpackEnabled = False, cf_RailpackBin = [], cf_RailpackVersion = [], cf_RailpackFrontendImage = [],
     cf_BuildKitBin = [], cf_BuildKitAddress = [], cf_RailpackArtifactsDir = [],
     cf_RailpackMinFreeDiskBytes = 0, cf_DatabaseMinFreeDiskBytes = 0, cf_AppContainerMemoryLimitBytes = 0,
     cf_AppContainerCPULimitMillis = 0, cf_AppContainerPidsLimit = 0, cf_DatabaseOperationConcurrency = 0,
     cf_DeployConcurrency = 0, cf_DatabaseTransferMaxPerHour = 0, cf_ImageRetentionPerBinding = 0,
     cf_ImageGCIntervalSeconds = 0, cf_CaddyReconcileIntervalSeconds = 0,
     cf_ControlPlaneSnapshotIntervalMinutes = 0, cf_ControlPlaneSnapshotRetentionDays = 0,
     cf_ControlPlaneSnapshotDir = [], cf_ControlPlaneSnapshotDestinationID = [],
     cf_DatabaseGatewaysEnabled = False, cf_PostgreSQLGatewayImage = [], cf_PostgreSQLGatewayVersion = [],
     cf_DatabaseGatewayOperationConcurrency = 0, cf_PostgreSQLGatewayCertificateFile = [],
     cf_PostgreSQLGatewayKeyFile = [], cf_DNSServerIPv4 = [], cf_DNSServerIPv6 = [], cf_DNSDetectURL = [],
     cf_DNSDetectIPv6URL = [], cf_DNSDetectTimeoutMS = 0, cf_DomainSyncAfterMutate = False,
     cf_CaddyCertPollIntervalSec = 0, cf_CaddyAdminURL = [], cf_CaddyStorageRoot = [],
     cf_BootstrapEnabled = False, cf_BootstrapPublicIP = [], cf_BootstrapHTTPSPort = 0,
     cf_BootstrapExpiresAt = [] \<rparr>"

section \<open>The environment variables\<close>

definition DataDirEnv :: string where "DataDirEnv = ''HOSTFORGE_DATA_DIR''"
definition ListenEnv :: string where "ListenEnv = ''HOSTFORGE_LISTEN''"
definition HostPortEnv :: string where "HostPortEnv = ''HOSTFORGE_HOST_PORT''"
definition PortStartEnv :: string where "PortStartEnv = ''HOSTFORGE_PORT_START''"
definition PortEndEnv :: string where "PortEndEnv = ''HOSTFORGE_PORT_END''"
definition ContainerPortEnv :: string where "ContainerPortEnv = ''HOSTFORGE_CONTAINER_PORT''"
definition CaddyBinEnv :: string where "CaddyBinEnv = ''HOSTFORGE_CADDY_BIN''"
definition CaddyGeneratedPathEnv :: string where "CaddyGeneratedPathEnv = ''HOSTFORGE_CADDY_GENERATED_PATH''"
definition CaddyControlPlanePathEnv :: string where "CaddyControlPlanePathEnv = ''HOSTFORGE_CADDY_CONTROL_PLANE_PATH''"
definition CaddyRootConfigEnv :: string where "CaddyRootConfigEnv = ''HOSTFORGE_CADDY_ROOT_CONFIG''"
definition SyncCaddyEnv :: string where "SyncCaddyEnv = ''HOSTFORGE_SYNC_CADDY''"
definition PlatformDomainBaseEnv :: string where "PlatformDomainBaseEnv = ''HOSTFORGE_PLATFORM_DOMAIN_BASE''"
definition HealthPathEnv :: string where "HealthPathEnv = ''HOSTFORGE_HEALTH_PATH''"
definition HealthTimeoutMSEnv :: string where "HealthTimeoutMSEnv = ''HOSTFORGE_HEALTH_TIMEOUT_MS''"
definition HealthRetriesEnv :: string where "HealthRetriesEnv = ''HOSTFORGE_HEALTH_RETRIES''"
definition HealthIntervalMSEnv :: string where "HealthIntervalMSEnv = ''HOSTFORGE_HEALTH_INTERVAL_MS''"
definition HealthExpectedMinEnv :: string where "HealthExpectedMinEnv = ''HOSTFORGE_HEALTH_EXPECTED_MIN''"
definition HealthExpectedMaxEnv :: string where "HealthExpectedMaxEnv = ''HOSTFORGE_HEALTH_EXPECTED_MAX''"
definition WebhookBasePathEnv :: string where "WebhookBasePathEnv = ''HOSTFORGE_WEBHOOK_BASE_PATH''"
definition WebhookMaxBodyBytesEnv :: string where "WebhookMaxBodyBytesEnv = ''HOSTFORGE_WEBHOOK_MAX_BODY_BYTES''"
definition WebhookAsyncEnv :: string where "WebhookAsyncEnv = ''HOSTFORGE_WEBHOOK_ASYNC''"
definition WebhookSecretEnv :: string where "WebhookSecretEnv = ''HOSTFORGE_WEBHOOK_SECRET''"
definition APITokenEnv :: string where "APITokenEnv = ''HOSTFORGE_API_TOKEN''"
definition SessionSecretEnv :: string where "SessionSecretEnv = ''HOSTFORGE_SESSION_SECRET''"
definition SessionCookieNameEnv :: string where "SessionCookieNameEnv = ''HOSTFORGE_SESSION_COOKIE_NAME''"
definition SessionTTLMinutesEnv :: string where "SessionTTLMinutesEnv = ''HOSTFORGE_SESSION_TTL_MINUTES''"
definition SessionCookieSecureEnv :: string where "SessionCookieSecureEnv = ''HOSTFORGE_SESSION_COOKIE_SECURE''"
definition WebhookRateLimitPerMinuteEnv :: string where "WebhookRateLimitPerMinuteEnv = ''HOSTFORGE_WEBHOOK_RATE_LIMIT_PER_MINUTE''"
definition LoginRateLimitPerMinuteEnv :: string where "LoginRateLimitPerMinuteEnv = ''HOSTFORGE_LOGIN_RATE_LIMIT_PER_MINUTE''"
definition ShutdownTimeoutSecondsEnv :: string where "ShutdownTimeoutSecondsEnv = ''HOSTFORGE_SHUTDOWN_TIMEOUT_SECONDS''"
definition LogsDirEnv :: string where "LogsDirEnv = ''HOSTFORGE_LOGS_DIR''"
definition RailpackEnabledEnv :: string where "RailpackEnabledEnv = ''HOSTFORGE_RAILPACK_ENABLED''"
definition RailpackBinEnv :: string where "RailpackBinEnv = ''HOSTFORGE_RAILPACK_BIN''"
definition RailpackVersionEnv :: string where "RailpackVersionEnv = ''HOSTFORGE_RAILPACK_VERSION''"
definition RailpackFrontendImageEnv :: string where "RailpackFrontendImageEnv = ''HOSTFORGE_RAILPACK_FRONTEND_IMAGE''"
definition BuildKitBinEnv :: string where "BuildKitBinEnv = ''HOSTFORGE_BUILDKIT_BIN''"
definition BuildKitAddressEnv :: string where "BuildKitAddressEnv = ''HOSTFORGE_BUILDKIT_ADDRESS''"
definition RailpackArtifactsDirEnv :: string where "RailpackArtifactsDirEnv = ''HOSTFORGE_RAILPACK_ARTIFACTS_DIR''"
definition RailpackMinFreeDiskBytesEnv :: string where "RailpackMinFreeDiskBytesEnv = ''HOSTFORGE_RAILPACK_MIN_FREE_DISK_BYTES''"
definition DatabaseMinFreeDiskBytesEnv :: string where "DatabaseMinFreeDiskBytesEnv = ''HOSTFORGE_DATABASE_MIN_FREE_DISK_BYTES''"
definition AppContainerMemoryLimitBytesEnv :: string where "AppContainerMemoryLimitBytesEnv = ''HOSTFORGE_APP_CONTAINER_MEMORY_BYTES''"
definition AppContainerCPULimitMillisEnv :: string where "AppContainerCPULimitMillisEnv = ''HOSTFORGE_APP_CONTAINER_CPU_MILLIS''"
definition AppContainerPidsLimitEnv :: string where "AppContainerPidsLimitEnv = ''HOSTFORGE_APP_CONTAINER_PIDS_LIMIT''"
definition DatabaseOperationConcurrencyEnv :: string where "DatabaseOperationConcurrencyEnv = ''HOSTFORGE_DATABASE_OPERATION_CONCURRENCY''"
definition DeployConcurrencyEnv :: string where "DeployConcurrencyEnv = ''HOSTFORGE_DEPLOY_CONCURRENCY''"
definition DatabaseTransferMaxPerHourEnv :: string where "DatabaseTransferMaxPerHourEnv = ''HOSTFORGE_DATABASE_TRANSFER_MAX_PER_HOUR''"
definition ImageRetentionPerBindingEnv :: string where "ImageRetentionPerBindingEnv = ''HOSTFORGE_IMAGE_RETENTION_PER_BINDING''"
definition ImageGCIntervalSecondsEnv :: string where "ImageGCIntervalSecondsEnv = ''HOSTFORGE_IMAGE_GC_INTERVAL_SECONDS''"
definition CaddyReconcileIntervalSecondsEnv :: string where "CaddyReconcileIntervalSecondsEnv = ''HOSTFORGE_CADDY_RECONCILE_INTERVAL_SECONDS''"
definition ControlPlaneSnapshotIntervalMinutesEnv :: string where "ControlPlaneSnapshotIntervalMinutesEnv = ''HOSTFORGE_CONTROL_PLANE_SNAPSHOT_INTERVAL_MINUTES''"
definition ControlPlaneSnapshotRetentionDaysEnv :: string where "ControlPlaneSnapshotRetentionDaysEnv = ''HOSTFORGE_CONTROL_PLANE_SNAPSHOT_RETENTION_DAYS''"
definition ControlPlaneSnapshotDirEnv :: string where "ControlPlaneSnapshotDirEnv = ''HOSTFORGE_CONTROL_PLANE_SNAPSHOT_DIR''"
definition ControlPlaneSnapshotDestinationIDEnv :: string where "ControlPlaneSnapshotDestinationIDEnv = ''HOSTFORGE_CONTROL_PLANE_SNAPSHOT_DESTINATION_ID''"
definition DatabaseGatewaysEnabledEnv :: string where "DatabaseGatewaysEnabledEnv = ''HOSTFORGE_DATABASE_GATEWAYS_ENABLED''"
definition PostgreSQLGatewayImageEnv :: string where "PostgreSQLGatewayImageEnv = ''HOSTFORGE_POSTGRES_GATEWAY_IMAGE''"
definition PostgreSQLGatewayVersionEnv :: string where "PostgreSQLGatewayVersionEnv = ''HOSTFORGE_POSTGRES_GATEWAY_VERSION''"
definition DatabaseGatewayOperationConcurrencyEnv :: string where "DatabaseGatewayOperationConcurrencyEnv = ''HOSTFORGE_DATABASE_GATEWAY_OPERATION_CONCURRENCY''"
definition PostgreSQLGatewayCertificateFileEnv :: string where "PostgreSQLGatewayCertificateFileEnv = ''HOSTFORGE_POSTGRES_GATEWAY_CERT_FILE''"
definition PostgreSQLGatewayKeyFileEnv :: string where "PostgreSQLGatewayKeyFileEnv = ''HOSTFORGE_POSTGRES_GATEWAY_KEY_FILE''"
definition DNSServerIPv4Env :: string where "DNSServerIPv4Env = ''HOSTFORGE_DNS_SERVER_IPV4''"
definition DNSServerIPv6Env :: string where "DNSServerIPv6Env = ''HOSTFORGE_DNS_SERVER_IPV6''"
definition DNSDetectURLEnv :: string where "DNSDetectURLEnv = ''HOSTFORGE_DNS_DETECT_URL''"
definition DNSDetectIPv6URLEnv :: string where "DNSDetectIPv6URLEnv = ''HOSTFORGE_DNS_DETECT_IPV6_URL''"
definition DNSDetectTimeoutMSEnv :: string where "DNSDetectTimeoutMSEnv = ''HOSTFORGE_DNS_DETECT_TIMEOUT_MS''"
definition DomainSyncAfterMutateEnv :: string where "DomainSyncAfterMutateEnv = ''HOSTFORGE_DOMAIN_SYNC_AFTER_MUTATE''"
definition CaddyCertPollIntervalSecEnv :: string where "CaddyCertPollIntervalSecEnv = ''HOSTFORGE_CADDY_CERT_POLL_INTERVAL_SEC''"
definition CaddyAdminURLEnv :: string where "CaddyAdminURLEnv = ''HOSTFORGE_CADDY_ADMIN''"
definition CaddyStorageRootEnv :: string where "CaddyStorageRootEnv = ''HOSTFORGE_CADDY_STORAGE_ROOT''"
definition BootstrapEnabledEnv :: string where "BootstrapEnabledEnv = ''HOSTFORGE_BOOTSTRAP_ENABLED''"
definition BootstrapPublicIPEnv :: string where "BootstrapPublicIPEnv = ''HOSTFORGE_BOOTSTRAP_PUBLIC_IP''"
definition BootstrapHTTPSPortEnv :: string where "BootstrapHTTPSPortEnv = ''HOSTFORGE_BOOTSTRAP_HTTPS_PORT''"
definition BootstrapExpiresAtEnv :: string where "BootstrapExpiresAtEnv = ''HOSTFORGE_BOOTSTRAP_EXPIRES_AT''"
definition EnvEncryptionKeyEnv :: string where "EnvEncryptionKeyEnv = ''HOSTFORGE_ENV_ENCRYPTION_KEY''"

section \<open>Parsers\<close>

text \<open>
  \<open>strconv.ParseInt\<close> in base 10 and 64 bits.  The digits are read from the left, and a value that grows
  past 64 bits is out of range even when a later character is no digit.
\<close>

definition invalid_syntax :: string where "invalid_syntax = ''invalid syntax''"
definition out_of_range :: string where "out_of_range = ''value out of range''"

fun parse_uint :: "nat \<Rightarrow> string \<Rightarrow> string + nat" where
  "parse_uint n [] = Inr n"
| "parse_uint n (c # s) =
     (if \<not> is_digit c then Inl invalid_syntax
      else let n1 = n * 10 + digit_val c in if 2 ^ 64 \<le> n1 then Inl out_of_range else parse_uint n1 s)"

definition parse_int :: "string \<Rightarrow> string + int" where
  "parse_int s =
     (let neg = (s \<noteq> [] \<and> hd s = CHR ''-''); digits = (if s \<noteq> [] \<and> (hd s = CHR ''-'' \<or> hd s = CHR ''+'') then tl s else s)
      in if digits = [] then Inl invalid_syntax
         else attempt (parse_uint 0 digits) (\<lambda>un.
           if \<not> neg \<and> 2 ^ 63 \<le> un then Inl out_of_range
           else if neg \<and> 2 ^ 63 < un then Inl out_of_range
           else Inr (if neg then - int un else int un)))"

definition parse_bool :: "string \<Rightarrow> string + bool" where
  "parse_bool s =
     (if s \<in> {''1'', ''t'', ''T'', ''TRUE'', ''true'', ''True''} then Inr True
      else if s \<in> {''0'', ''f'', ''F'', ''FALSE'', ''false'', ''False''} then Inr False
      else Inl invalid_syntax)"

definition num_error :: "string \<Rightarrow> string \<Rightarrow> string \<Rightarrow> err_chain" where
  "num_error fn raw why = [Text (''strconv.'' @ fn @ '': parsing '' @ quoted raw @ '': '' @ why)]"

type_synonym process_env = "string \<Rightarrow> string"

definition envInt :: "process_env \<Rightarrow> string \<Rightarrow> int \<Rightarrow> err_chain + int" where
  "envInt getenv key dflt =
     (if getenv key = [] then Inr dflt
      else case parse_int (getenv key) of
        Inl why \<Rightarrow> Inl (Text (key @ '' must be an integer'') # num_error ''Atoi'' (getenv key) why)
      | Inr v \<Rightarrow> Inr v)"

definition envInt64 :: "process_env \<Rightarrow> string \<Rightarrow> int \<Rightarrow> err_chain + int" where
  "envInt64 getenv key dflt =
     (if getenv key = [] then Inr dflt
      else case parse_int (getenv key) of
        Inl why \<Rightarrow> Inl (Text (key @ '' must be an integer'') # num_error ''ParseInt'' (getenv key) why)
      | Inr v \<Rightarrow> Inr v)"

definition envBool :: "process_env \<Rightarrow> string \<Rightarrow> bool \<Rightarrow> err_chain + bool" where
  "envBool getenv key dflt =
     (let raw = trim (getenv key)
      in if raw = [] then Inr dflt
         else case parse_bool raw of
           Inl why \<Rightarrow> Inl (Text (key @ '' must be a boolean'') # num_error ''ParseBool'' raw why)
         | Inr v \<Rightarrow> Inr v)"

text \<open>A trimmed variable, or the default where it is blank.\<close>

definition env_text :: "process_env \<Rightarrow> string \<Rightarrow> string \<Rightarrow> string" where
  "env_text getenv key dflt = (let v = trim (getenv key) in if v = [] then dflt else v)"

section \<open>Paths\<close>

text \<open>\<open>filepath.Dir\<close>, \<open>filepath.Abs\<close> and the expansion of a leading tilde.\<close>

definition dir_path :: "string \<Rightarrow> string" where
  "dir_path p = clean_path (rev (dropWhile (\<lambda>c. c \<noteq> CHR ''/'') (rev p)))"

definition abs_path :: "err_chain + string \<Rightarrow> string \<Rightarrow> err_chain + string" where
  "abs_path getwd p =
     (if has_prefix p ''/'' then Inr (clean_path p) else attempt getwd (\<lambda>wd. Inr (join_path wd p)))"

definition expandUserPath :: "string option \<Rightarrow> string \<Rightarrow> string" where
  "expandUserPath home p =
     (if p = [] then []
      else if p = ''~'' then (case home of Some h \<Rightarrow> h | None \<Rightarrow> p)
      else if has_prefix p ''~/''
      then (case home of Some h \<Rightarrow> join_path h (drop 2 p) | None \<Rightarrow> clean_path p)
      else clean_path p)"

definition DefaultDataDir :: "err_chain + string \<Rightarrow> err_chain + string" where
  "DefaultDataDir getwd = attempt getwd (\<lambda>wd. Inr (join_path wd ''.hostforge''))"

definition WorktreesDir :: "config \<Rightarrow> string" where
  "WorktreesDir c = join_path (cf_DataDir c) ''worktrees''"

definition BuildsDir :: "config \<Rightarrow> string" where
  "BuildsDir c = join_path (cf_DataDir c) ''builds''"

definition DBPath :: "config \<Rightarrow> string" where
  "DBPath c = join_path (cf_DataDir c) ''hostforge.db''"

definition LogsDir :: "config \<Rightarrow> string" where
  "LogsDir c = (if trim (cf_LogsDirPath c) \<noteq> [] then cf_LogsDirPath c else join_path (cf_DataDir c) ''logs'')"

section \<open>Loading\<close>

text \<open>
  One step reads one variable into its field; the steps run in order, and the first error ends the
  load.
\<close>

type_synonym load_step = "config \<Rightarrow> err_chain + config"

fun load_steps :: "load_step list \<Rightarrow> load_step" where
  "load_steps [] c = Inr c"
| "load_steps (f # fs) c = attempt (f c) (load_steps fs)"

definition read_int :: "process_env \<Rightarrow> string \<Rightarrow> int \<Rightarrow> (int \<Rightarrow> config \<Rightarrow> config) \<Rightarrow> load_step" where
  "read_int getenv key dflt put c = attempt (envInt getenv key dflt) (\<lambda>v. Inr (put v c))"

definition read_int_if :: "process_env \<Rightarrow> string \<Rightarrow> int \<Rightarrow> (int \<Rightarrow> bool) \<Rightarrow> string \<Rightarrow> (int \<Rightarrow> config \<Rightarrow> config) \<Rightarrow> load_step" where
  "read_int_if getenv key dflt ok msg put c =
     attempt (envInt getenv key dflt) (\<lambda>v. if ok v then Inr (put v c) else Inl [Text (key @ msg)])"

definition read_int64 :: "process_env \<Rightarrow> string \<Rightarrow> int \<Rightarrow> (int \<Rightarrow> config \<Rightarrow> config) \<Rightarrow> load_step" where
  "read_int64 getenv key dflt put c = attempt (envInt64 getenv key dflt) (\<lambda>v. Inr (put v c))"

definition read_int64_if :: "process_env \<Rightarrow> string \<Rightarrow> int \<Rightarrow> (int \<Rightarrow> bool) \<Rightarrow> string \<Rightarrow> (int \<Rightarrow> config \<Rightarrow> config) \<Rightarrow> load_step" where
  "read_int64_if getenv key dflt ok msg put c =
     attempt (envInt64 getenv key dflt) (\<lambda>v. if ok v then Inr (put v c) else Inl [Text (key @ msg)])"

definition read_bool :: "process_env \<Rightarrow> string \<Rightarrow> bool \<Rightarrow> (bool \<Rightarrow> config \<Rightarrow> config) \<Rightarrow> load_step" where
  "read_bool getenv key dflt put c = attempt (envBool getenv key dflt) (\<lambda>v. Inr (put v c))"

definition read_text :: "process_env \<Rightarrow> string \<Rightarrow> string \<Rightarrow> (string \<Rightarrow> config \<Rightarrow> config) \<Rightarrow> load_step" where
  "read_text getenv key dflt put c = Inr (put (env_text getenv key dflt) c)"

definition data_dir :: "process_env \<Rightarrow> err_chain + string \<Rightarrow> string \<Rightarrow> err_chain + string" where
  "data_dir getenv getwd dataDirFlag =
     attempt (if dataDirFlag \<noteq> [] then Inr dataDirFlag
              else if getenv DataDirEnv \<noteq> [] then Inr (getenv DataDirEnv)
              else DefaultDataDir getwd) (\<lambda>dir.
       case abs_path getwd dir of Inl e \<Rightarrow> Inl (Text ''resolve data dir'' # e) | Inr p \<Rightarrow> Inr p)"

definition between :: "int \<Rightarrow> int \<Rightarrow> int \<Rightarrow> bool" where
  "between lo hi v \<longleftrightarrow> lo \<le> v \<and> v \<le> hi"

text \<open>\<open>strings.Trim(s, ".")\<close>.\<close>

definition trim_dots :: "string \<Rightarrow> string" where
  "trim_dots s = rev (dropWhile (\<lambda>c. c = CHR ''.'') (rev (dropWhile (\<lambda>c. c = CHR ''.'') s)))"

definition load_server_steps :: "process_env \<Rightarrow> string \<Rightarrow> load_step list" where
  "load_server_steps getenv root =
     [\<lambda>c. Inr (c\<lparr>cf_DataDir := root, cf_ListenAddr := (if getenv ListenEnv = [] then '':8080'' else getenv ListenEnv)\<rparr>),
      read_int getenv HostPortEnv (-1) (\<lambda>v c. c\<lparr>cf_HostPort := v\<rparr>),
      read_int getenv PortStartEnv 20000 (\<lambda>v c. c\<lparr>cf_PortStart := v\<rparr>),
      read_int getenv PortEndEnv 21000 (\<lambda>v c. c\<lparr>cf_PortEnd := v\<rparr>),
      read_int getenv ContainerPortEnv 3000 (\<lambda>v c. c\<lparr>cf_ContainerPort := v\<rparr>),
      read_text getenv CaddyBinEnv ''caddy'' (\<lambda>v c. c\<lparr>cf_CaddyBin := v\<rparr>),
      read_text getenv CaddyGeneratedPathEnv (join_path root ''caddy/hostforge.caddy'') (\<lambda>v c. c\<lparr>cf_CaddyGeneratedPath := v\<rparr>),
      \<lambda>c. Inr (c\<lparr>cf_CaddyControlPlanePath := env_text getenv CaddyControlPlanePathEnv
         (join_path (dir_path (cf_CaddyGeneratedPath c)) ''control-plane.caddy'')\<rparr>),
      read_text getenv CaddyRootConfigEnv [] (\<lambda>v c. c\<lparr>cf_CaddyRootConfig := v\<rparr>),
      read_bool getenv SyncCaddyEnv False (\<lambda>v c. c\<lparr>cf_SyncCaddy := v\<rparr>),
      read_text getenv HealthPathEnv ''/'' (\<lambda>v c. c\<lparr>cf_HealthPath := v\<rparr>),
      read_int getenv HealthTimeoutMSEnv 3000 (\<lambda>v c. c\<lparr>cf_HealthTimeoutMS := v\<rparr>),
      read_int getenv HealthRetriesEnv 10 (\<lambda>v c. c\<lparr>cf_HealthRetries := v\<rparr>),
      read_int getenv HealthIntervalMSEnv 1000 (\<lambda>v c. c\<lparr>cf_HealthIntervalMS := v\<rparr>),
      read_int getenv HealthExpectedMinEnv 200 (\<lambda>v c. c\<lparr>cf_HealthExpectedMin := v\<rparr>),
      read_int getenv HealthExpectedMaxEnv 399 (\<lambda>v c. c\<lparr>cf_HealthExpectedMax := v\<rparr>)]"

definition load_session_steps :: "process_env \<Rightarrow> load_step list" where
  "load_session_steps getenv =
     [read_text getenv WebhookBasePathEnv ''/hooks/github'' (\<lambda>v c. c\<lparr>cf_WebhookBasePath := v\<rparr>),
      read_int getenv WebhookMaxBodyBytesEnv 1048576 (\<lambda>v c. c\<lparr>cf_WebhookMaxBodyBytes := v\<rparr>),
      read_bool getenv WebhookAsyncEnv False (\<lambda>v c. c\<lparr>cf_WebhookAsync := v\<rparr>),
      read_text getenv WebhookSecretEnv [] (\<lambda>v c. c\<lparr>cf_WebhookSecret := v\<rparr>),
      read_text getenv APITokenEnv [] (\<lambda>v c. c\<lparr>cf_APIToken := v\<rparr>),
      read_text getenv SessionSecretEnv [] (\<lambda>v c. c\<lparr>cf_SessionSecret := v\<rparr>),
      read_text getenv SessionCookieNameEnv ''hostforge_session'' (\<lambda>v c. c\<lparr>cf_SessionCookieName := v\<rparr>),
      read_int getenv SessionTTLMinutesEnv 720 (\<lambda>v c. c\<lparr>cf_SessionTTLMinutes := v\<rparr>),
      read_bool getenv SessionCookieSecureEnv False (\<lambda>v c. c\<lparr>cf_SessionCookieSecure := v\<rparr>),
      read_int getenv WebhookRateLimitPerMinuteEnv 60 (\<lambda>v c. c\<lparr>cf_WebhookRateLimitPerMinute := v\<rparr>),
      read_int getenv LoginRateLimitPerMinuteEnv 20 (\<lambda>v c. c\<lparr>cf_LoginRateLimitPerMinute := v\<rparr>),
      read_int getenv ShutdownTimeoutSecondsEnv 30 (\<lambda>v c. c\<lparr>cf_ShutdownTimeoutSeconds := v\<rparr>),
      read_text getenv LogsDirEnv [] (\<lambda>v c. c\<lparr>cf_LogsDirPath := v\<rparr>)]"

definition load_build_steps :: "process_env \<Rightarrow> string \<Rightarrow> load_step list" where
  "load_build_steps getenv root =
     [read_bool getenv RailpackEnabledEnv True (\<lambda>v c. c\<lparr>cf_RailpackEnabled := v\<rparr>),
      read_text getenv RailpackBinEnv ''railpack'' (\<lambda>v c. c\<lparr>cf_RailpackBin := v\<rparr>),
      read_text getenv RailpackVersionEnv [] (\<lambda>v c. c\<lparr>cf_RailpackVersion := v\<rparr>),
      read_text getenv BuildKitBinEnv ''buildctl'' (\<lambda>v c. c\<lparr>cf_BuildKitBin := v\<rparr>),
      read_text getenv BuildKitAddressEnv ''unix:///run/buildkit/buildkitd.sock'' (\<lambda>v c. c\<lparr>cf_BuildKitAddress := v\<rparr>),
      read_text getenv RailpackFrontendImageEnv [] (\<lambda>v c. c\<lparr>cf_RailpackFrontendImage := v\<rparr>),
      read_text getenv RailpackArtifactsDirEnv (join_path root ''railpack'') (\<lambda>v c. c\<lparr>cf_RailpackArtifactsDir := v\<rparr>),
      read_int64 getenv RailpackMinFreeDiskBytesEnv (10 * 1024 * 1024 * 1024) (\<lambda>v c. c\<lparr>cf_RailpackMinFreeDiskBytes := v\<rparr>),
      read_int64 getenv DatabaseMinFreeDiskBytesEnv (5 * 1024 * 1024 * 1024) (\<lambda>v c. c\<lparr>cf_DatabaseMinFreeDiskBytes := v\<rparr>)]"

definition load_limit_steps :: "process_env \<Rightarrow> load_step list" where
  "load_limit_steps getenv =
     [read_int64_if getenv AppContainerMemoryLimitBytesEnv (512 * 1024 * 1024) (\<lambda>v. 0 \<le> v) '' must be >= 0 (0 disables the limit)'' (\<lambda>v c. c\<lparr>cf_AppContainerMemoryLimitBytes := v\<rparr>),
      read_int_if getenv AppContainerCPULimitMillisEnv 1000 (\<lambda>v. 0 \<le> v) '' must be >= 0 (0 disables the limit)'' (\<lambda>v c. c\<lparr>cf_AppContainerCPULimitMillis := v\<rparr>),
      read_int64_if getenv AppContainerPidsLimitEnv 512 (\<lambda>v. 0 \<le> v) '' must be >= 0 (0 disables the limit)'' (\<lambda>v c. c\<lparr>cf_AppContainerPidsLimit := v\<rparr>),
      read_int_if getenv DatabaseOperationConcurrencyEnv 1 (between 1 8) '' must be between 1 and 8'' (\<lambda>v c. c\<lparr>cf_DatabaseOperationConcurrency := v\<rparr>),
      read_int_if getenv DeployConcurrencyEnv 2 (between 1 8) '' must be between 1 and 8'' (\<lambda>v c. c\<lparr>cf_DeployConcurrency := v\<rparr>),
      read_int_if getenv DatabaseTransferMaxPerHourEnv 60 (between 1 10000) '' must be between 1 and 10000'' (\<lambda>v c. c\<lparr>cf_DatabaseTransferMaxPerHour := v\<rparr>),
      read_int_if getenv ControlPlaneSnapshotIntervalMinutesEnv 360 (\<lambda>v. 0 \<le> v) '' must be >= 0 (0 disables the loop)'' (\<lambda>v c. c\<lparr>cf_ControlPlaneSnapshotIntervalMinutes := v\<rparr>),
      read_int_if getenv ControlPlaneSnapshotRetentionDaysEnv 14 (between 1 3650) '' must be between 1 and 3650'' (\<lambda>v c. c\<lparr>cf_ControlPlaneSnapshotRetentionDays := v\<rparr>),
      read_int_if getenv ImageRetentionPerBindingEnv 3 (between 0 1000) '' must be between 0 and 1000'' (\<lambda>v c. c\<lparr>cf_ImageRetentionPerBinding := v\<rparr>),
      read_int_if getenv ImageGCIntervalSecondsEnv 3600 (\<lambda>v. 0 \<le> v) '' must be >= 0 (0 disables the loop)'' (\<lambda>v c. c\<lparr>cf_ImageGCIntervalSeconds := v\<rparr>),
      read_int_if getenv CaddyReconcileIntervalSecondsEnv 30 (\<lambda>v. 0 \<le> v) '' must be >= 0 (0 disables the periodic tick)'' (\<lambda>v c. c\<lparr>cf_CaddyReconcileIntervalSeconds := v\<rparr>)]"

definition load_gateway_steps :: "process_env \<Rightarrow> string option \<Rightarrow> string \<Rightarrow> load_step list" where
  "load_gateway_steps getenv home root =
     [read_text getenv ControlPlaneSnapshotDirEnv (join_path root ''control-plane-snapshots'') (\<lambda>v c. c\<lparr>cf_ControlPlaneSnapshotDir := v\<rparr>),
      read_text getenv ControlPlaneSnapshotDestinationIDEnv [] (\<lambda>v c. c\<lparr>cf_ControlPlaneSnapshotDestinationID := v\<rparr>),
      read_bool getenv DatabaseGatewaysEnabledEnv False (\<lambda>v c. c\<lparr>cf_DatabaseGatewaysEnabled := v\<rparr>),
      read_int_if getenv DatabaseGatewayOperationConcurrencyEnv 1 (between 1 4) '' must be between 1 and 4'' (\<lambda>v c. c\<lparr>cf_DatabaseGatewayOperationConcurrency := v\<rparr>),
      read_text getenv PostgreSQLGatewayImageEnv [] (\<lambda>v c. c\<lparr>cf_PostgreSQLGatewayImage := v\<rparr>),
      read_text getenv PostgreSQLGatewayVersionEnv [] (\<lambda>v c. c\<lparr>cf_PostgreSQLGatewayVersion := v\<rparr>),
      \<lambda>c. Inr (c\<lparr>cf_PostgreSQLGatewayCertificateFile := expandUserPath home (trim (getenv PostgreSQLGatewayCertificateFileEnv)),
         cf_PostgreSQLGatewayKeyFile := expandUserPath home (trim (getenv PostgreSQLGatewayKeyFileEnv))\<rparr>)]"

definition load_domain_steps :: "process_env \<Rightarrow> string option \<Rightarrow> load_step list" where
  "load_domain_steps getenv home =
     [read_text getenv DNSServerIPv4Env [] (\<lambda>v c. c\<lparr>cf_DNSServerIPv4 := v\<rparr>),
      read_text getenv DNSServerIPv6Env [] (\<lambda>v c. c\<lparr>cf_DNSServerIPv6 := v\<rparr>),
      read_text getenv DNSDetectURLEnv ''https://api.ipify.org'' (\<lambda>v c. c\<lparr>cf_DNSDetectURL := v\<rparr>),
      read_text getenv DNSDetectIPv6URLEnv ''https://api64.ipify.org'' (\<lambda>v c. c\<lparr>cf_DNSDetectIPv6URL := v\<rparr>),
      read_int getenv DNSDetectTimeoutMSEnv 2500 (\<lambda>v c. c\<lparr>cf_DNSDetectTimeoutMS := v\<rparr>),
      read_bool getenv DomainSyncAfterMutateEnv True (\<lambda>v c. c\<lparr>cf_DomainSyncAfterMutate := v\<rparr>),
      read_int getenv CaddyCertPollIntervalSecEnv 0 (\<lambda>v c. c\<lparr>cf_CaddyCertPollIntervalSec := v\<rparr>),
      read_text getenv CaddyAdminURLEnv ''http://127.0.0.1:2019'' (\<lambda>v c. c\<lparr>cf_CaddyAdminURL := v\<rparr>),
      \<lambda>c. Inr (c\<lparr>cf_CaddyStorageRoot := expandUserPath home (trim (getenv CaddyStorageRootEnv))\<rparr>),
      read_bool getenv BootstrapEnabledEnv False (\<lambda>v c. c\<lparr>cf_BootstrapEnabled := v\<rparr>),
      read_int getenv BootstrapHTTPSPortEnv 443 (\<lambda>v c. c\<lparr>cf_BootstrapHTTPSPort := v\<rparr>),
      \<lambda>c. Inr (c\<lparr>cf_PlatformDomainBase := trim_dots (to_lower (trim (getenv PlatformDomainBaseEnv))),
         cf_BootstrapPublicIP := trim (getenv BootstrapPublicIPEnv), cf_BootstrapExpiresAt := trim (getenv BootstrapExpiresAtEnv)\<rparr>)]"

definition Load :: "process_env \<Rightarrow> err_chain + string \<Rightarrow> string option \<Rightarrow> string \<Rightarrow> err_chain + config" where
  "Load getenv getwd home dataDirFlag =
     attempt (data_dir getenv getwd dataDirFlag) (\<lambda>root.
       load_steps (load_server_steps getenv root @ load_session_steps getenv @ load_build_steps getenv root @
         load_limit_steps getenv @ load_gateway_steps getenv home root @ load_domain_steps getenv home) zero_config)"

definition RuntimeDefaults :: "process_env \<Rightarrow> err_chain + int \<times> int \<times> int \<times> int" where
  "RuntimeDefaults getenv =
     attempt (envInt getenv HostPortEnv (-1)) (\<lambda>hostPort.
     attempt (envInt getenv PortStartEnv 20000) (\<lambda>portStart.
     attempt (envInt getenv PortEndEnv 21000) (\<lambda>portEnd.
     attempt (envInt getenv ContainerPortEnv 3000) (\<lambda>containerPort.
       Inr (hostPort, portStart, portEnd, containerPort)))))"

definition HealthDefaults :: "process_env \<Rightarrow> err_chain + string \<times> int \<times> int \<times> int \<times> int \<times> int" where
  "HealthDefaults getenv =
     attempt (envInt getenv HealthTimeoutMSEnv 3000) (\<lambda>timeoutMS.
     attempt (envInt getenv HealthRetriesEnv 10) (\<lambda>retries.
     attempt (envInt getenv HealthIntervalMSEnv 1000) (\<lambda>intervalMS.
     attempt (envInt getenv HealthExpectedMinEnv 200) (\<lambda>expectedMin.
     attempt (envInt getenv HealthExpectedMaxEnv 399) (\<lambda>expectedMax.
       Inr (env_text getenv HealthPathEnv ''/'', timeoutMS, retries, intervalMS, expectedMin, expectedMax))))))"

section \<open>Validation\<close>

text \<open>What the server and the deploy commands check before they start (internal/services/deploy.go).\<close>

definition ValidateRailpackConfig :: "config option \<Rightarrow> err_chain" where
  "ValidateRailpackConfig cfg =
     (case cfg of
        None \<Rightarrow> [Text ''railpack configuration is required'']
      | Some c \<Rightarrow>
          if \<not> cf_RailpackEnabled c then [Text ''railpack is required by the active deployment path'']
          else if trim (cf_RailpackBin c) = [] \<or> trim (cf_RailpackVersion c) = []
          then [Text ''railpack is enabled but helper binary and version are required'']
          else if \<not> str_contains (trim (cf_RailpackFrontendImage c)) ''@sha256:''
          then [Text ''railpack is enabled but frontend image must be digest-pinned'']
          else if trim (cf_BuildKitBin c) = [] \<or> trim (cf_BuildKitAddress c) = []
          then [Text ''railpack is enabled but BuildKit binary and address are required'']
          else if trim (cf_RailpackArtifactsDir c) = []
          then [Text ''railpack is enabled but artifacts directory is required'']
          else if cf_RailpackMinFreeDiskBytes c \<le> 0
          then [Text ''railpack minimum free disk bytes must be > 0'']
          else [])"

definition range_text :: "int \<Rightarrow> int \<Rightarrow> string" where
  "range_text a b = show_int a @ ''..'' @ show_int b"

definition ValidateRuntimeConfig :: "config \<Rightarrow> err_chain" where
  "ValidateRuntimeConfig c =
     (if cf_HostPort c < -1 then [Text ''host port must be -1, 0, or >0'']
      else if cf_ContainerPort c \<le> 0 then [Text ''container port must be > 0'']
      else if cf_HostPort c = -1 \<and> (cf_PortStart c \<le> 0 \<or> cf_PortEnd c \<le> 0 \<or> cf_PortEnd c < cf_PortStart c)
      then [Text (''invalid host port range '' @ range_text (cf_PortStart c) (cf_PortEnd c))]
      else if cf_HealthPath c = [] then [Text ''health path must not be empty'']
      else if cf_HealthTimeoutMS c \<le> 0 then [Text ''health timeout must be > 0'']
      else if cf_HealthRetries c \<le> 0 then [Text ''health retries must be > 0'']
      else if cf_HealthIntervalMS c < 0 then [Text ''health interval must be >= 0'']
      else if cf_HealthExpectedMin c \<le> 0 \<or> cf_HealthExpectedMax c \<le> 0 \<or> cf_HealthExpectedMax c < cf_HealthExpectedMin c
      then [Text (''invalid health expected status range '' @ range_text (cf_HealthExpectedMin c) (cf_HealthExpectedMax c))]
      else if ValidateRailpackConfig (Some c) \<noteq> [] then ValidateRailpackConfig (Some c)
      else if cf_DatabaseMinFreeDiskBytes c \<le> 0 then [Text ''database minimum free disk bytes must be > 0'']
      else [])"

end
