(* ===== verification/HF_Config_Props.thy ===== *)
theory HF_Config_Props
  imports HF_Config
begin

text \<open>
  What a loaded configuration can hold: integers are read back exactly within 64 bits and refused outside,
  and a configuration that loads and validates satisfies the bounds the rest of the program relies on.
\<close>

section \<open>Integers\<close>

lemma parse_uint_append: "parse_uint n (a @ b) = attempt (parse_uint n a) (\<lambda>m. parse_uint m b)"
  by (induction n a rule: parse_uint.induct) (auto simp: Let_def)

lemma parse_uint_digits:
  "list_all is_digit s \<Longrightarrow> n < 2 ^ 64 \<Longrightarrow>
   parse_uint n s = (if foldl (\<lambda>a c. a * 10 + digit_val c) n s < 2 ^ 64
     then Inr (foldl (\<lambda>a c. a * 10 + digit_val c) n s) else Inl out_of_range)"
proof (induction n s rule: parse_uint.induct)
  case (2 n c s)
  have grows: "m \<le> foldl (\<lambda>a c. a * 10 + digit_val c) m t" for m t
  proof (induction t arbitrary: m)
    case (Cons x t)
    have "m \<le> m * 10 + digit_val x" by simp
    then show ?case using Cons [of "m * 10 + digit_val x"] by simp
  qed simp
  show ?case
  proof (cases "2 ^ 64 \<le> n * 10 + digit_val c")
    case True
    then show ?thesis using grows [of "n * 10 + digit_val c" s] 2(2) by (simp add: Let_def)
  next
    case False
    then show ?thesis using 2 by (simp add: Let_def)
  qed
qed simp

lemma parse_uint_show: "parse_uint 0 (show_nat n) = (if n < 2 ^ 64 then Inr n else Inl out_of_range)"
proof -
  have "list_all is_digit (show_nat n)" using show_nat_digits by (auto simp: list_all_iff)
  from parse_uint_digits [OF this, of 0] show ?thesis
    using digits_val_show_nat [of n] by (simp add: digits_val_def)
qed

text \<open>An integer written in decimal is read back exactly when it fits in 64 bits, and refused as out of
  range when it does not.\<close>

theorem integer_setting_roundtrip:
  "envInt ((\<lambda>_. [])(key := show_int v)) key dflt =
     (if - (2 ^ 63) \<le> v \<and> v < 2 ^ 63 then Inr v
      else Inl (Text (key @ '' must be an integer'') # num_error ''Atoi'' (show_int v) out_of_range))"
proof -
  obtain d ds where d: "show_nat (nat \<bar>v\<bar>) = d # ds" by (cases "show_nat (nat \<bar>v\<bar>)") auto
  then have "is_digit d" using show_nat_digits [of d "nat \<bar>v\<bar>"] by simp
  then have plain: "d \<noteq> CHR ''-''" "d \<noteq> CHR ''+''" by (auto simp: is_digit_def)
  have "parse_int (show_int v) = (if - (2 ^ 63) \<le> v \<and> v < 2 ^ 63 then Inr v else Inl out_of_range)"
  proof (cases "v < 0")
    case True
    then have "show_int v = CHR ''-'' # d # ds" using d by (simp add: show_int_def)
    then show ?thesis
      using True parse_uint_show [of "nat \<bar>v\<bar>"] d by (auto simp: parse_int_def simp del: parse_uint.simps)
  next
    case False
    then have "show_int v = d # ds" using d by (simp add: show_int_def)
    then show ?thesis
      using False plain parse_uint_show [of "nat \<bar>v\<bar>"] d by (auto simp: parse_int_def simp del: parse_uint.simps)
  qed
  moreover have "show_int v \<noteq> []" using d by (auto simp: show_int_def)
  ultimately show ?thesis by (simp add: envInt_def)
qed

section \<open>Loading\<close>

lemma load_steps_append: "load_steps (a @ b) c = attempt (load_steps a c) (load_steps b)"
  by (induction a c rule: load_steps.induct) (auto simp: attempt_def split: sum.splits)

definition fits64 :: "int \<Rightarrow> bool" where
  "fits64 v \<longleftrightarrow> - (2 ^ 63) \<le> v \<and> v < 2 ^ 63"

lemma parse_uint_bound: "n < 2 ^ 64 \<Longrightarrow> parse_uint n s = Inr m \<Longrightarrow> m < 2 ^ 64"
  by (induction n s rule: parse_uint.induct) (auto simp: Let_def split: if_splits)

lemma parse_int_fits: "parse_int s = Inr v \<Longrightarrow> fits64 v"
  by (auto simp: parse_int_def fits64_def attempt_Inr Let_def split: if_splits)

lemma envInt_fits: "envInt getenv key dflt = Inr v \<Longrightarrow> fits64 dflt \<Longrightarrow> fits64 v"
  by (auto simp: envInt_def parse_int_fits split: if_splits sum.splits)

lemma envInt64_fits: "envInt64 getenv key dflt = Inr v \<Longrightarrow> fits64 dflt \<Longrightarrow> fits64 v"
  by (auto simp: envInt64_def parse_int_fits split: if_splits sum.splits)

lemmas load_reads = read_int_def read_int_if_def read_int64_def read_int64_if_def read_bool_def read_text_def attempt_Inr

text \<open>What each group of steps leaves alone, and what the bounded ones establish.\<close>

definition server_fields :: "config \<Rightarrow> string \<times> int list" where
  "server_fields c = (cf_DataDir c, [cf_HostPort c, cf_PortStart c, cf_PortEnd c, cf_ContainerPort c,
    cf_HealthTimeoutMS c, cf_HealthRetries c, cf_HealthIntervalMS c, cf_HealthExpectedMin c, cf_HealthExpectedMax c])"

definition limit_fields :: "config \<Rightarrow> int list" where
  "limit_fields c = [cf_AppContainerMemoryLimitBytes c, cf_AppContainerCPULimitMillis c, cf_AppContainerPidsLimit c,
    cf_DatabaseOperationConcurrency c, cf_DeployConcurrency c, cf_DatabaseTransferMaxPerHour c,
    cf_ControlPlaneSnapshotIntervalMinutes c, cf_ControlPlaneSnapshotRetentionDays c, cf_ImageRetentionPerBinding c,
    cf_ImageGCIntervalSeconds c, cf_CaddyReconcileIntervalSeconds c]"

definition limits_ok :: "config \<Rightarrow> bool" where
  "limits_ok c \<longleftrightarrow> 0 \<le> cf_AppContainerMemoryLimitBytes c \<and> 0 \<le> cf_AppContainerCPULimitMillis c \<and>
     0 \<le> cf_AppContainerPidsLimit c \<and> between 1 8 (cf_DatabaseOperationConcurrency c) \<and>
     between 1 8 (cf_DeployConcurrency c) \<and> between 1 10000 (cf_DatabaseTransferMaxPerHour c) \<and>
     0 \<le> cf_ControlPlaneSnapshotIntervalMinutes c \<and> between 1 3650 (cf_ControlPlaneSnapshotRetentionDays c) \<and>
     between 0 1000 (cf_ImageRetentionPerBinding c) \<and> 0 \<le> cf_ImageGCIntervalSeconds c \<and>
     0 \<le> cf_CaddyReconcileIntervalSeconds c"

lemma server_steps:
  assumes "load_steps (load_server_steps getenv root) c = Inr c'"
  shows "cf_DataDir c' = root \<and> list_all fits64 (snd (server_fields c'))"
  using assms unfolding load_server_steps_def load_steps.simps load_reads
  by (elim exE conjE) (drule envInt_fits, simp add: fits64_def, (drule envInt_fits, simp add: fits64_def)+,
    auto simp: server_fields_def)

lemma session_steps: "load_steps (load_session_steps getenv) c = Inr c' \<Longrightarrow> server_fields c' = server_fields c"
  by (auto simp: load_session_steps_def load_reads server_fields_def)

lemma build_steps: "load_steps (load_build_steps getenv root) c = Inr c' \<Longrightarrow> server_fields c' = server_fields c"
  by (auto simp: load_build_steps_def load_reads server_fields_def)

lemma limit_steps: "load_steps (load_limit_steps getenv) c = Inr c' \<Longrightarrow> server_fields c' = server_fields c \<and> limits_ok c'"
  by (auto simp: load_limit_steps_def load_reads server_fields_def limits_ok_def split: if_splits)

lemma gateway_steps: "load_steps (load_gateway_steps getenv home root) c = Inr c' \<Longrightarrow>
    server_fields c' = server_fields c \<and> limit_fields c' = limit_fields c \<and> between 1 4 (cf_DatabaseGatewayOperationConcurrency c')"
  by (auto simp: load_gateway_steps_def load_reads server_fields_def limit_fields_def split: if_splits)

lemma domain_steps: "load_steps (load_domain_steps getenv home) c = Inr c' \<Longrightarrow>
    server_fields c' = server_fields c \<and> limit_fields c' = limit_fields c \<and>
    cf_DatabaseGatewayOperationConcurrency c' = cf_DatabaseGatewayOperationConcurrency c"
  by (auto simp: load_domain_steps_def load_reads server_fields_def limit_fields_def)

lemma limits_cong: "limit_fields c' = limit_fields c \<Longrightarrow> limits_ok c' = limits_ok c"
  by (simp add: limit_fields_def limits_ok_def)

lemma clean_absolute: "has_prefix p ''/'' \<Longrightarrow> has_prefix (clean_path p) ''/''"
  by (simp add: clean_path_def has_prefix_def)

lemma data_dir_absolute:
  assumes "data_dir getenv getwd flag = Inr dir" "\<And>wd. getwd = Inr wd \<Longrightarrow> has_prefix wd ''/''"
  shows "has_prefix dir ''/''"
proof -
  have "has_prefix (join_path wd p) ''/''" if "has_prefix wd ''/''" for wd p
    using that clean_absolute [of "wd @ ''/'' @ p"] by (cases wd) (auto simp: join_path_def has_prefix_def)
  then show ?thesis
    using assms by (auto simp: data_dir_def abs_path_def DefaultDataDir_def attempt_Inr clean_absolute split: if_splits sum.splits)
qed


lemmas setting_names =
  DataDirEnv_def ListenEnv_def HostPortEnv_def PortStartEnv_def PortEndEnv_def ContainerPortEnv_def
  CaddyBinEnv_def CaddyGeneratedPathEnv_def CaddyControlPlanePathEnv_def CaddyRootConfigEnv_def SyncCaddyEnv_def
  PlatformDomainBaseEnv_def HealthPathEnv_def HealthTimeoutMSEnv_def HealthRetriesEnv_def
  HealthIntervalMSEnv_def HealthExpectedMinEnv_def HealthExpectedMaxEnv_def WebhookBasePathEnv_def
  WebhookMaxBodyBytesEnv_def WebhookAsyncEnv_def WebhookSecretEnv_def APITokenEnv_def SessionSecretEnv_def
  SessionCookieNameEnv_def SessionTTLMinutesEnv_def SessionCookieSecureEnv_def WebhookRateLimitPerMinuteEnv_def
  LoginRateLimitPerMinuteEnv_def ShutdownTimeoutSecondsEnv_def LogsDirEnv_def RailpackEnabledEnv_def
  RailpackBinEnv_def RailpackVersionEnv_def RailpackFrontendImageEnv_def BuildKitBinEnv_def
  BuildKitAddressEnv_def RailpackArtifactsDirEnv_def RailpackMinFreeDiskBytesEnv_def
  DatabaseMinFreeDiskBytesEnv_def AppContainerMemoryLimitBytesEnv_def AppContainerCPULimitMillisEnv_def
  AppContainerPidsLimitEnv_def DatabaseOperationConcurrencyEnv_def DeployConcurrencyEnv_def
  DatabaseTransferMaxPerHourEnv_def ImageRetentionPerBindingEnv_def ImageGCIntervalSecondsEnv_def
  CaddyReconcileIntervalSecondsEnv_def ControlPlaneSnapshotIntervalMinutesEnv_def
  ControlPlaneSnapshotRetentionDaysEnv_def ControlPlaneSnapshotDirEnv_def
  ControlPlaneSnapshotDestinationIDEnv_def DatabaseGatewaysEnabledEnv_def PostgreSQLGatewayImageEnv_def
  PostgreSQLGatewayVersionEnv_def DatabaseGatewayOperationConcurrencyEnv_def
  PostgreSQLGatewayCertificateFileEnv_def PostgreSQLGatewayKeyFileEnv_def DNSServerIPv4Env_def
  DNSServerIPv6Env_def DNSDetectURLEnv_def DNSDetectIPv6URLEnv_def DNSDetectTimeoutMSEnv_def
  DomainSyncAfterMutateEnv_def CaddyCertPollIntervalSecEnv_def CaddyAdminURLEnv_def CaddyStorageRootEnv_def
  BootstrapEnabledEnv_def BootstrapPublicIPEnv_def BootstrapHTTPSPortEnv_def BootstrapExpiresAtEnv_def
  EnvEncryptionKeyEnv_def

text \<open>The defaults, with the two settings that have none.\<close>

definition plain_env :: process_env where
  "plain_env = (\<lambda>_. [])(RailpackVersionEnv := ''0.9'', RailpackFrontendImageEnv := ''r@sha256:0'')"


end
