(* ===== verification/HF_Deploy_Jobs.thy ===== *)
theory HF_Deploy_Jobs
  imports HF_Config HF_Domains
begin

text \<open>
  Deploy targets and jobs (internal/services/deploy_v2.go): which service environment is deployed, what a
  deployment is prepared with, how the queue handler rebuilds the same job from the stored row, and the runtime
  stop and restart of a service.  The world of a deployment is the engine layer's record extended by
  the database, the deploy steps recorded for observability, the health probes made and the number of
  times the route reconciler was notified.
\<close>

section \<open>The world of a deployment\<close>

text \<open>
  What is true when the deployment next looks at its context or at the database: the clock, whether the
  context has been cancelled, the ids and draws it would get, and what everyone else has done to the
  database since it last looked.
\<close>

record turn =
  tn_now :: instant
  tn_done :: bool
  tn_newID :: string
  tn_draws :: "nat \<Rightarrow> draw"
  tn_ids :: "nat \<Rightarrow> string"
  tn_others :: "store \<Rightarrow> store"

record 'd world = "'d dock" +
  w_store :: store
  w_steps :: "(string \<times> string \<times> string) list"
  w_probes :: "(err_chain + int) list"
  w_notified :: nat

record build_request =
  br_Worktree :: string
  br_ImageRef :: string
  br_Platform :: string
  br_CacheKey :: string
  br_Runtime :: string
  br_InstallCmd :: string
  br_BuildCmd :: string
  br_StartCmd :: string
  br_BuildSecrets :: "(string \<times> string) list"

record build_result =
  bs_Kind :: string
  bs_StackKind :: string
  bs_StackLabel :: string
  bs_PlanJSON :: string
  bs_InfoJSON :: string

text \<open>
  What a deployment calls outside its own code: the engine, git, the image builders, the health probe, the
  timer, the log file, the GitHub App credentials, the sealer.  \<open>h_wait\<close> says whether the context
  was cancelled before the interval ended.
\<close>

record 'd host =
  h_engine :: "'d moby"
  h_turn :: "'d \<Rightarrow> turn \<times> 'd"
  h_MkdirAll :: "string \<Rightarrow> 'd \<Rightarrow> (err_chain + unit) \<times> 'd"
  h_OpenLog :: "string \<Rightarrow> 'd \<Rightarrow> (err_chain + unit) \<times> 'd"
  h_ResolveInstallationAuth :: "(int \<Rightarrow> 'd \<Rightarrow> (err_chain + string) \<times> 'd) option"
  h_CloneOrUpdate :: "string \<Rightarrow> string \<Rightarrow> string \<Rightarrow> string \<Rightarrow> 'd \<Rightarrow> (err_chain + unit) \<times> 'd"
  h_CheckoutCommit :: "string \<Rightarrow> string \<Rightarrow> 'd \<Rightarrow> (err_chain + unit) \<times> 'd"
  h_HeadCommit :: "string \<Rightarrow> 'd \<Rightarrow> (err_chain + string) \<times> 'd"
  h_build :: "config \<Rightarrow> build_request \<Rightarrow> 'd \<Rightarrow> (err_chain + build_result) \<times> 'd"
  h_platform :: string
  h_NewRequest :: "string \<Rightarrow> err_chain option"
  h_probe :: "string \<Rightarrow> int \<Rightarrow> 'd \<Rightarrow> (err_chain + int) \<times> 'd"
  h_wait :: "int \<Rightarrow> 'd \<Rightarrow> bool \<times> 'd"
  h_sealer :: "(string \<Rightarrow> err_chain + string) option"
  h_notifier :: bool

type_synonym ('d, 'a) wact = "'d world \<Rightarrow> (err_chain + 'a) \<times> 'd world"

definition attemptW :: "('d, 'a) wact \<Rightarrow> (err_chain \<Rightarrow> ('d, 'b) wact) \<Rightarrow> ('a \<Rightarrow> ('d, 'b) wact) \<Rightarrow> ('d, 'b) wact" where
  "attemptW m failed go w = (case m w of (Inl e, w1) \<Rightarrow> failed e w1 | (Inr x, w1) \<Rightarrow> go x w1)"

definition look :: "'d host \<Rightarrow> 'd world \<Rightarrow> turn \<times> 'd world" where
  "look H w = (case h_turn H (dk_daemon w) of
     (t, d) \<Rightarrow> (t, w\<lparr>dk_daemon := d, w_store := tn_others t (w_store w)\<rparr>))"

text \<open>A database call under the context: once it is cancelled the call fails without reaching the database.\<close>

definition on_store :: "'d host \<Rightarrow> (turn \<Rightarrow> 'a db) \<Rightarrow> ('d, 'a) wact" where
  "on_store H f w = (case look H w of
     (t, w1) \<Rightarrow>
       if tn_done t then (Inl [Canceled], w1)
       else (case f t (w_store w1) of
         (Inl e, s) \<Rightarrow> (Inl (repo_err e), w1\<lparr>w_store := s\<rparr>)
       | (Inr x, s) \<Rightarrow> (Inr x, w1\<lparr>w_store := s\<rparr>)))"

definition read_store :: "'d host \<Rightarrow> (store \<Rightarrow> err_chain + 'a) \<Rightarrow> ('d, 'a) wact" where
  "read_store H f w = (case look H w of
     (t, w1) \<Rightarrow> (if tn_done t then Inl [Canceled] else f (w_store w1), w1))"

text \<open>The same on a context that is not cancelled with the deployment's; the outcome is not looked at.\<close>

definition detached :: "'d host \<Rightarrow> (turn \<Rightarrow> 'a db) \<Rightarrow> 'd world \<Rightarrow> 'd world" where
  "detached H f w = (case look H w of (t, w1) \<Rightarrow> w1\<lparr>w_store := snd (f t (w_store w1))\<rparr>)"

definition io :: "('d \<Rightarrow> (err_chain + 'a) \<times> 'd) \<Rightarrow> ('d, 'a) wact" where
  "io f w = (case f (dk_daemon w) of (r, d) \<Rightarrow> (r, w\<lparr>dk_daemon := d\<rparr>))"

definition engine :: "('d world \<Rightarrow> (docker_err + 'a) \<times> 'd world) \<Rightarrow> ('d, 'a) wact" where
  "engine m w = (case m w of (Inl e, w1) \<Rightarrow> (Inl (de_chain e), w1) | (Inr x, w1) \<Rightarrow> (Inr x, w1))"

definition set_container_status :: "string \<Rightarrow> string \<Rightarrow> instant \<Rightarrow> unit db" where
  "set_container_status rowID status now s = db_ok () (UpdateContainerStatus rowID status now s)"

section \<open>Column updates of a deployment\<close>

definition set_deployment :: "string \<Rightarrow> instant \<Rightarrow> (deployment_row \<Rightarrow> deployment_row) \<Rightarrow> unit db" where
  "set_deployment deploymentID now f s = db_ok () (s\<lparr>deployments := sql_update (\<lambda>d. dep_id d = trim deploymentID)
     (\<lambda>d. (f d)\<lparr>dep_updated_at := rfc3339 now\<rparr>) (deployments s)\<rparr>)"

definition UpdateDeploymentCommitHash :: "string \<Rightarrow> string \<Rightarrow> instant \<Rightarrow> unit db" where
  "UpdateDeploymentCommitHash deploymentID commitHash now =
     set_deployment deploymentID now (\<lambda>d. d\<lparr>dep_commit_hash := trim commitHash\<rparr>)"

definition UpdateDeploymentLogsPath :: "string \<Rightarrow> string \<Rightarrow> instant \<Rightarrow> unit db" where
  "UpdateDeploymentLogsPath deploymentID logsPath now =
     set_deployment deploymentID now (\<lambda>d. d\<lparr>dep_logs_path := trim logsPath\<rparr>)"

definition UpdateDeploymentStack :: "string \<Rightarrow> string \<Rightarrow> string \<Rightarrow> instant \<Rightarrow> unit db" where
  "UpdateDeploymentStack deploymentID stackKind stackLabel now =
     set_deployment deploymentID now (\<lambda>d. d\<lparr>dep_stack_kind := trim stackKind, dep_stack_label := trim stackLabel\<rparr>)"

definition UpdateDeploymentBuilder :: "string \<Rightarrow> string \<Rightarrow> string \<Rightarrow> string \<Rightarrow> instant \<Rightarrow> unit db" where
  "UpdateDeploymentBuilder deploymentID builderKind stackKind stackLabel now =
     set_deployment deploymentID now (\<lambda>d. d\<lparr>dep_builder_kind := trim builderKind, dep_stack_kind := trim stackKind,
       dep_stack_label := trim stackLabel\<rparr>)"

definition UpdateDeploymentRailpackArtifacts :: "string \<Rightarrow> string \<Rightarrow> string \<Rightarrow> instant \<Rightarrow> unit db" where
  "UpdateDeploymentRailpackArtifacts deploymentID planJSON infoJSON now =
     set_deployment deploymentID now (\<lambda>d. d\<lparr>dep_railpack_plan_json := planJSON, dep_railpack_info_json := infoJSON\<rparr>)"

definition GetDeploymentRailpackArtifacts :: "string \<Rightarrow> store \<Rightarrow> err_chain + string \<times> string" where
  "GetDeploymentRailpackArtifacts deploymentID s =
     (case sql_get (\<lambda>d. dep_id d = trim deploymentID) (deployments s) of
        None \<Rightarrow> Inl [Text ''get deployment railpack artifacts'', NoRows]
      | Some d \<Rightarrow> Inr (dep_railpack_plan_json d, dep_railpack_info_json d))"

section \<open>Targets\<close>

record deploy_target =
  dt_Application :: application_row
  dt_Service :: service_row
  dt_Environment :: environment_row
  dt_Binding :: service_environment_row

definition DeployLockKey :: "string \<Rightarrow> string \<Rightarrow> string" where
  "DeployLockKey serviceID environmentID = ''svc:'' @ serviceID @ '':'' @ environmentID"

text \<open>The reads of the lookups see one state of the database.\<close>

definition ResolveDeployTarget :: "string \<Rightarrow> string \<Rightarrow> store \<Rightarrow> err_chain + deploy_target" where
  "ResolveDeployTarget serviceID environmentID s =
     (case fst (GetService serviceID s) of
        Inl e \<Rightarrow> Inl (repo_err e)
      | Inr (service, _) \<Rightarrow>
          if svc_service_type service \<noteq> ''application''
          then Inl (ErrCode ''service_type_not_deployable''
            [Text (''service type '' @ svc_service_type service @ '' does not use application deployments'')])
          else (case fst (GetEnvironment environmentID s) of
             Inl e \<Rightarrow> Inl (repo_err e)
           | Inr environment \<Rightarrow>
               if env_application_id environment \<noteq> svc_application_id service
               then Inl (repo_err (Sentinel ''environment_not_found''))
               else (case fst (GetServiceEnvironment (svc_id service) (env_id environment) s) of
                  Inl e \<Rightarrow> Inl (repo_err e)
                | Inr binding \<Rightarrow>
                    if trim (se_branch binding) = []
                    then Inl (ErrCode ''service_environment_branch_required'' [Text ''service environment has no branch''])
                    else (case fst (GetApplication (svc_application_id service) s) of
                       Inl e \<Rightarrow> Inl (repo_err e)
                     | Inr application \<Rightarrow>
                         Inr \<lparr> dt_Application = application, dt_Service = service,
                               dt_Environment = environment, dt_Binding = binding \<rparr>))))"

section \<open>Jobs\<close>

record deploy_job =
  dj_Target :: deploy_target
  dj_Deployment :: deployment_row
  dj_PreviousContainer :: container_row
  dj_RepoURL :: string
  dj_Branch :: string
  dj_Worktree :: string
  dj_BuildDirectory :: string
  dj_ImageRef :: string
  dj_ContainerName :: string
  dj_LogsPath :: string

definition manualDeployPriority :: int where "manualDeployPriority = 200"
definition webhookDeployPriority :: int where "webhookDeployPriority = 150"

definition deployPriority :: "string \<Rightarrow> int" where
  "deployPriority trigger = (if trigger = ''github_push'' then webhookDeployPriority else manualDeployPriority)"

text \<open>The directory of a checkout: the first 16 bytes of the SHA-256 digest, in hex.\<close>

definition WorktreeDir :: "(string \<Rightarrow> string) \<Rightarrow> string \<Rightarrow> string \<Rightarrow> string \<Rightarrow> string" where
  "WorktreeDir digest scope repoURL branch = digest (scope @ [CHR 0x0A] @ repoURL @ [CHR 0x0A] @ branch)"

text \<open>\<open>time.Now()\<close> to the second, and the four random bytes in hex.\<close>

definition newBuildID :: "string \<Rightarrow> err_chain + string \<Rightarrow> err_chain + string" where
  "newBuildID stamp random = (case random of
     Inl e \<Rightarrow> Inl (Text ''generate build id suffix'' # e) | Inr hex \<Rightarrow> Inr (stamp @ ''-'' @ hex))"

definition deployContainerNameFromImageRef :: "string \<Rightarrow> err_chain + string" where
  "deployContainerNameFromImageRef imageRef =
     (case cut_at CHR '':'' imageRef of
        None \<Rightarrow> Inl [Text (''image ref '' @ quoted imageRef @ '' has no build id tag'')]
      | Some (repo, buildID) \<Rightarrow>
          if buildID = [] then Inl [Text (''image ref '' @ quoted imageRef @ '' has no build id tag'')]
          else let slug = trim_prefix repo ''hostforge/''
               in if length slug < 12
                  then Inl [Text (''image ref '' @ quoted imageRef @ '' has a slug shorter than 12 characters'')]
                  else Inr (''hostforge-'' @ take 12 slug @ ''-'' @ buildID))"

definition no_container :: container_row where
  "no_container = \<lparr> ct_id = [], ct_deployment_id = [], ct_docker_container_id = [], ct_internal_port = 0,
     ct_host_port = 0, ct_status = [], ct_created_at = [], ct_updated_at = [] \<rparr>"

text \<open>The container of the latest successful deployment; the zero value when there is none.\<close>

definition previous_container :: "string \<Rightarrow> string \<Rightarrow> store \<Rightarrow> container_row" where
  "previous_container serviceID environmentID s =
     (case fst (GetLatestSuccessfulServiceDeployment serviceID environmentID s) of
        Inl _ \<Rightarrow> no_container
      | Inr previous \<Rightarrow>
          (case fst (GetContainerByDeploymentID (dep_id previous) s) of Inl _ \<Rightarrow> no_container | Inr c \<Rightarrow> c))"

text \<open>
  \<open>clock\<close>, \<open>ids\<close> and \<open>buildID\<close> are what the clock and the random source give; \<open>mkdir\<close> is the
  outcome of creating the log directory.
\<close>

definition PrepareServiceDeploy :: "(string \<Rightarrow> string) \<Rightarrow> config \<Rightarrow> deploy_target \<Rightarrow> string \<Rightarrow> string \<Rightarrow> string \<Rightarrow> string \<Rightarrow>
    err_chain + string \<Rightarrow> string \<Rightarrow> err_chain + unit \<Rightarrow> instant \<Rightarrow> store \<Rightarrow> (err_chain + deploy_job) \<times> store" where
  "PrepareServiceDeploy digest cfg target trigger actor commitHash rollbackOf buildID newID mkdir now s =
     (let sid = svc_id (dt_Service target); eid = env_id (dt_Environment target);
          repoURL = trim (svc_repo_url (dt_Service target)); branch = trim (se_branch (dt_Binding target));
          slug = WorktreeDir digest (DeployLockKey sid eid) repoURL branch;
          worktree = join_path (WorktreesDir cfg) slug
      in case ResolveServiceBuildDirectory worktree (svc_root_directory (dt_Service target)) of
           Inl e \<Rightarrow> (Inl e, s)
         | Inr buildDirectory \<Rightarrow>
      (case buildID of
           Inl e \<Rightarrow> (Inl e, s)
         | Inr bid \<Rightarrow>
      (let imageRef = ''hostforge/'' @ slug @ '':'' @ bid
      in case deployContainerNameFromImageRef imageRef of
           Inl e \<Rightarrow> (Inl e, s)
         | Inr containerName \<Rightarrow>
      (let previous = previous_container sid eid s
      in case CreateServiceDeployment \<lparr> cdi_service_id = sid, cdi_environment_id = eid, cdi_commit_hash = commitHash,
             cdi_logs_path = [], cdi_image_ref = imageRef, cdi_worktree = worktree, cdi_trigger_kind = trigger,
             cdi_actor = actor, cdi_rollback_of = rollbackOf, cdi_branch = branch \<rparr> newID now s of
           (Inl e, s1) \<Rightarrow> (Inl (Text ''deployment state'' # repo_err e), s1)
         | (Inr deployment, s1) \<Rightarrow>
      (let logsPath = join_path (LogsDir cfg) (dep_id deployment @ ''.log'');
           s2 = snd (UpdateDeploymentLogsPath (dep_id deployment) logsPath now s1);
           job = \<lparr> dj_Target = target, dj_Deployment = deployment\<lparr>dep_logs_path := logsPath\<rparr>,
             dj_PreviousContainer = previous, dj_RepoURL = repoURL, dj_Branch = branch, dj_Worktree = worktree,
             dj_BuildDirectory = buildDirectory, dj_ImageRef = imageRef, dj_ContainerName = containerName,
             dj_LogsPath = logsPath \<rparr>
      in case mkdir of
           Inl e \<Rightarrow> (Inl (Text ''create logs dir'' # e), s2)
         | Inr _ \<Rightarrow>
      (case EnqueueDeployOperation \<lparr> edi_deployment_id = dep_id deployment, edi_lock_key = DeployLockKey sid eid,
             edi_application_id = app_id (dt_Application target), edi_service_id = sid, edi_environment_id = eid,
             edi_actor = trim actor, edi_priority = deployPriority trigger \<rparr> newID now s2 of
           (Inl e, s3) \<Rightarrow>
             (Inl (Text ''enqueue deploy operation'' # repo_err e),
              snd (UpdateDeploymentStatus (dep_id deployment) DeploymentFailed ''enqueue_failed'' now s3))
         | (Inr _, s3) \<Rightarrow> (Inr job, s3)))))))"

definition LoadDeployJob :: "(string \<Rightarrow> string) \<Rightarrow> config \<Rightarrow> deployment_row \<Rightarrow> store \<Rightarrow> err_chain + deploy_job" where
  "LoadDeployJob digest cfg deployment s =
     (case ResolveDeployTarget (dep_service_id deployment) (dep_environment_id deployment) s of
        Inl e \<Rightarrow> Inl (Text ''resolve deploy target'' # e)
      | Inr target \<Rightarrow>
      (let sid = svc_id (dt_Service target); eid = env_id (dt_Environment target);
           repoURL = trim (svc_repo_url (dt_Service target)); branch = trim (dep_branch deployment);
           worktree = (if trim (dep_worktree deployment) \<noteq> [] then trim (dep_worktree deployment)
             else join_path (WorktreesDir cfg) (WorktreeDir digest (DeployLockKey sid eid) repoURL branch))
      in case ResolveServiceBuildDirectory worktree (svc_root_directory (dt_Service target)) of
           Inl e \<Rightarrow> Inl e
         | Inr buildDirectory \<Rightarrow>
      (case deployContainerNameFromImageRef (dep_image_ref deployment) of
           Inl e \<Rightarrow> Inl e
         | Inr containerName \<Rightarrow>
             Inr \<lparr> dj_Target = target, dj_Deployment = deployment,
               dj_PreviousContainer = previous_container sid eid s, dj_RepoURL = repoURL, dj_Branch = branch,
               dj_Worktree = worktree, dj_BuildDirectory = buildDirectory, dj_ImageRef = dep_image_ref deployment,
               dj_ContainerName = containerName, dj_LogsPath = dep_logs_path deployment \<rparr>)))"

definition serviceID :: "deploy_job \<Rightarrow> string" where "serviceID j = svc_id (dt_Service (dj_Target j))"
definition environmentID :: "deploy_job \<Rightarrow> string" where "environmentID j = env_id (dt_Environment (dj_Target j))"

definition internalPort :: "deploy_job \<Rightarrow> config \<Rightarrow> int" where
  "internalPort j cfg = (if 0 < svc_internal_port (dt_Service (dj_Target j)) then svc_internal_port (dt_Service (dj_Target j))
     else cf_ContainerPort cfg)"

definition healthConfig :: "deploy_job \<Rightarrow> config \<Rightarrow> string \<Rightarrow> config" where
  "healthConfig j cfg detectedStackKind =
     (let servicePath = trim (svc_health_check_path (dt_Service (dj_Target j)))
      in if servicePath = [] then cfg
         else cfg\<lparr>cf_HealthPath :=
           (if to_lower (svc_deploy_runtime (dt_Service (dj_Target j))) = ''auto'' \<and> servicePath = ''/health'' \<and>
               detectedStackKind = ''node_next'' then ''/'' else servicePath)\<rparr>)"

definition resolveDeployGitAuth :: "'d host \<Rightarrow> deploy_job \<Rightarrow> ('d, string) wact" where
  "resolveDeployGitAuth H job w =
     (let required = Inl (ErrCode ''github_app_required'' [Text ''service must be linked to a GitHub App installation''])
      in case h_ResolveInstallationAuth H of
           None \<Rightarrow> (required, w)
         | Some resolve \<Rightarrow>
             if svc_github_installation_id (dt_Service (dj_Target job)) \<le> 0 then (required, w)
             else io (resolve (svc_github_installation_id (dt_Service (dj_Target job)))) w)"

section \<open>Stopping and restarting a service\<close>

record runtime_result =
  rr_DeploymentID :: string
  rr_ContainerID :: string
  rr_Status :: string

definition ResolveActiveServiceContainer ::
  "string \<Rightarrow> string \<Rightarrow> store \<Rightarrow> err_chain + deploy_target \<times> deployment_row \<times> container_row" where
  "ResolveActiveServiceContainer sid eid s =
     (case ResolveDeployTarget sid eid s of
        Inl e \<Rightarrow> Inl e
      | Inr target \<Rightarrow>
          if trim (se_active_deployment_id (dt_Binding target)) = []
          then Inl (ErrCode ''runtime_no_active_deployment'' [NoRows])
          else (case fst (GetServiceDeployment (se_active_deployment_id (dt_Binding target)) s) of
             Inl e \<Rightarrow> Inl (ErrCode ''runtime_active_deployment_lookup_failed'' (repo_err e))
           | Inr deployment \<Rightarrow>
               (case fst (GetContainerByDeploymentID (dep_id deployment) s) of
                  Inl e \<Rightarrow> Inl (ErrCode ''runtime_active_container_lookup_failed'' (repo_err e))
                | Inr container \<Rightarrow> Inr (target, deployment, container))))"

definition coded :: "string \<Rightarrow> err_chain \<Rightarrow> ('d, 'a) wact" where
  "coded code e w = (Inl (ErrCode code e), w)"

definition StopServiceEnvironment :: "'d host \<Rightarrow> string \<Rightarrow> string \<Rightarrow> ('d, runtime_result) wact" where
  "StopServiceEnvironment H sid eid =
     attemptW (read_store H (ResolveActiveServiceContainer sid eid)) (\<lambda>e w. (Inl e, w)) (\<lambda>(_, deployment, container).
     attemptW (engine (StopContainer (h_engine H) (ct_docker_container_id container))) (coded ''stop_container_failed'') (\<lambda>_.
     attemptW (on_store H (\<lambda>t. set_container_status (ct_id container) ''STOPPED'' (tn_now t))) (coded ''stop_container_state_failed'') (\<lambda>_.
     attemptW (on_store H (\<lambda>t. SetServiceDesiredState sid eid ''stopped'' (tn_now t))) (coded ''stop_binding_state_failed'') (\<lambda>_ w.
       (Inr \<lparr> rr_DeploymentID = dep_id deployment, rr_ContainerID = ct_docker_container_id container, rr_Status = ''stopped'' \<rparr>, w)))))"

definition RestartServiceEnvironment :: "'d host \<Rightarrow> string \<Rightarrow> string \<Rightarrow> ('d, runtime_result) wact" where
  "RestartServiceEnvironment H sid eid =
     attemptW (read_store H (ResolveActiveServiceContainer sid eid)) (\<lambda>e w. (Inl e, w)) (\<lambda>(_, deployment, container).
     attemptW (engine (RestartContainer (h_engine H) (ct_docker_container_id container) 10)) (coded ''restart_container_failed'') (\<lambda>_.
     attemptW (on_store H (\<lambda>t. set_container_status (ct_id container) ''RUNNING'' (tn_now t))) (coded ''restart_container_state_failed'') (\<lambda>_.
     attemptW (on_store H (\<lambda>t. SetServiceDesiredState sid eid ''running'' (tn_now t))) (coded ''restart_binding_state_failed'') (\<lambda>_ w.
       (Inr \<lparr> rr_DeploymentID = dep_id deployment, rr_ContainerID = ct_docker_container_id container, rr_Status = ''running'' \<rparr>, w)))))"

end
