(* ===== verification/HF_Jobs_Props.thy ===== *)
theory HF_Jobs_Props
  imports HF_Deploy_Jobs HF_Timeline HF_Demo
begin

text \<open>
  What is prepared is what is executed: the job the queue handler rebuilds from a stored deployment is the
  job the deployment was prepared with.
\<close>

section \<open>What the preparation writes\<close>

lemma set_deployment_sel:
  "snd (set_deployment did now f s) = s\<lparr>deployments := sql_update (\<lambda>d. dep_id d = trim did)
     (\<lambda>d. (f d)\<lparr>dep_updated_at := rfc3339 now\<rparr>) (deployments s)\<rparr>"
  by (simp add: set_deployment_def db_ok_def)

lemma GetOperation_same: "GetOperation i s1 = (r, s') \<Longrightarrow> s1 = s'"
  using GetOperation_snd [of i s1] by simp

lemma EnqueueDeploy_ok:
  assumes "EnqueueDeployOperation i newID now s = (Inr x, s')"
  obtains os where "s' = s\<lparr>operations := os\<rparr>" "\<exists>r \<in> set os. op_id r = (if trim (edi_deployment_id i) = [] then trim newID else trim (edi_deployment_id i)) \<and>
    op_lock_key r = trim (edi_lock_key i) \<and> op_kind r = trim DeployOperationKind \<and> op_max_attempts r = 1"
proof -
  let ?n = "\<lparr> noi_id = (if trim (edi_deployment_id i) = [] then newID else edi_deployment_id i), noi_kind = DeployOperationKind,
       noi_lock_key = edi_lock_key i, noi_status = [], noi_priority = edi_priority i, noi_max_attempts = 1, noi_progress_step = [],
       noi_application_id = edi_application_id i, noi_service_id = edi_service_id i,
       noi_environment_id = edi_environment_id i, noi_actor = edi_actor i \<rparr>"
  obtain s1 where "insertOperationTx ?n now s = Inr s1" "snd (GetOperation (noi_id ?n) s1) = s'"
    using assms by (auto simp: EnqueueDeployOperation_def EnqueueOperation_def db_fail_def Let_def split: sum.splits if_splits prod.splits
        dest: GetOperation_same)
  moreover from insertOperationTx_ok [OF this(1)] have "s1 = s\<lparr>operations := operations s @ [new_operation_row ?n now]\<rparr>"
    by (auto dest: insert_operation_ok)
  ultimately have "s' = s\<lparr>operations := operations s @ [new_operation_row ?n now]\<rparr>" by simp
  then show ?thesis by (rule that) (auto simp: new_operation_row_def Let_def)
qed

lemma target_cong:
  assumes "services s' = services s" "environments s' = environments s" "service_environments s' = service_environments s"
    "applications s' = applications s"
  shows "ResolveDeployTarget a b s' = ResolveDeployTarget a b s"
  using assms by (auto simp: ResolveDeployTarget_def GetService_def GetEnvironment_def GetServiceEnvironment_def GetApplication_def
      db_ok_def db_fail_def split: option.splits)

text \<open>A target is found again under the ids it carries.\<close>

lemma target_ids:
  assumes "ResolveDeployTarget sid eid s = Inr target"
  shows "svc_id (dt_Service target) = trim sid" "env_id (dt_Environment target) = trim eid"
    "ResolveDeployTarget (trim sid) (trim eid) s = Inr target"
  using assms by (auto simp: ResolveDeployTarget_def GetService_def GetEnvironment_def GetServiceEnvironment_def GetApplication_def
      db_ok_def db_fail_def split: option.splits if_splits dest: sql_get_Some)

lemma created_row:
  assumes "CreateServiceDeployment i nid now s = (Inr d, s')"
  shows "s' = RecordDeploymentEvent nid DeploymentQueued [] now (s\<lparr>deployments := deployments s @ [d]\<rparr>)"
    "dep_id d = nid" "dep_status d = DeploymentQueued" "nid \<notin> dep_id ` set (deployments s)"
    "dep_service_id d = trim (cdi_service_id i)" "dep_environment_id d = trim (cdi_environment_id i)"
    "dep_image_ref d = trim (cdi_image_ref i)" "dep_worktree d = trim (cdi_worktree i)" "dep_branch d = trim (cdi_branch i)"
proof -
  have f: "fst (CreateServiceDeployment i nid now s) = Inr d" using assms by simp
  note c = CreateServiceDeployment_ok [OF f]
  show "s' = RecordDeploymentEvent nid DeploymentQueued [] now (s\<lparr>deployments := deployments s @ [d]\<rparr>)" using c(1) assms by simp
  show "dep_id d = nid" "dep_status d = DeploymentQueued" "nid \<notin> dep_id ` set (deployments s)" by (fact c(2-4))+
  show "dep_service_id d = trim (cdi_service_id i)" "dep_environment_id d = trim (cdi_environment_id i)"
    "dep_image_ref d = trim (cdi_image_ref i)" "dep_worktree d = trim (cdi_worktree i)" "dep_branch d = trim (cdi_branch i)"
    using f by (auto simp: CreateServiceDeployment_def Let_def split: if_splits)
qed

lemma previous_cong:
  assumes "filter (\<lambda>d. dep_status d = DeploymentSuccess) (deployments s') = filter (\<lambda>d. dep_status d = DeploymentSuccess) (deployments s)"
    "containers s' = containers s"
  shows "previous_container a b s' = previous_container a b s"
proof -
  have eq: "sql_first (\<lambda>d. P d \<and> Q d \<and> dep_status d = DeploymentSuccess) key (deployments s') =
      sql_first (\<lambda>d. P d \<and> Q d \<and> dep_status d = DeploymentSuccess) key (deployments s)" for P Q key
  proof -
    have "filter (\<lambda>d. P d \<and> Q d \<and> dep_status d = DeploymentSuccess) ds =
        filter (\<lambda>d. P d \<and> Q d) (filter (\<lambda>d. dep_status d = DeploymentSuccess) ds)" for ds by (simp add: conj_ac)
    then show ?thesis using assms(1) by (simp only: sql_first_def)
  qed
  have "fst (GetLatestSuccessfulServiceDeployment a b s') = fst (GetLatestSuccessfulServiceDeployment a b s)"
    unfolding GetLatestSuccessfulServiceDeployment_def eq by (simp add: db_ok_def db_fail_def split: option.split)
  moreover have "fst (GetContainerByDeploymentID i s') = fst (GetContainerByDeploymentID i s)" for i
    unfolding GetContainerByDeploymentID_def assms(2) by (simp add: db_ok_def db_fail_def split: option.split)
  ultimately show ?thesis unfolding previous_container_def by (simp only: )
qed

lemma find_app: "List.find p (xs @ ys) = (case List.find p xs of None \<Rightarrow> List.find p ys | Some x \<Rightarrow> Some x)"
  by (induction xs) auto

section \<open>An application that is deployed for the first time\<close>

definition ready_store :: store where
  "ready_store = fresh_store\<lparr>services := [web_service\<lparr>svc_service_type := ''application''\<rparr>],
     environments := [\<lparr> env_id = ''env'', env_application_id = ''app'', env_name = [], env_slug = [], env_kind = [],
       env_created_at = [], env_updated_at = [] \<rparr>],
     applications := [\<lparr> app_id = ''app'', app_name = [], app_description = [], app_archived = False,
       app_created_at = [], app_updated_at = [] \<rparr>],
     service_environments := [\<lparr> se_service_id = ''svc'', se_environment_id = ''env'', se_branch = ''main'',
       se_auto_deploy = False, se_active_deployment_id = [], se_desired_state = [], se_created_at = [], se_updated_at = [] \<rparr>]\<rparr>"

definition ready_config :: config where
  "ready_config = zero_config\<lparr>cf_DataDir := ''/d''\<rparr>"

definition ready_target :: deploy_target where
  "ready_target = \<lparr> dt_Application = hd (applications ready_store), dt_Service = hd (services ready_store),
     dt_Environment = hd (environments ready_store), dt_Binding = hd (service_environments ready_store) \<rparr>"

lemma ready_strings [simp]: "trim ''svc'' = ''svc''" "trim ''env'' = ''env''" "trim ''app'' = ''app''" "trim ''main'' = ''main''"
  "trim ''d1'' = ''d1''" "trim ''deploy'' = ''deploy''" "trim ''svc:svc:env'' = ''svc:svc:env''" "trim ''manual'' = ''manual''"
  by code_simp+

lemma ready_paths [simp]: "join_path (join_path ''/d'' ''worktrees'') ''0123456789ab'' = ''/d/worktrees/0123456789ab''"
  "join_path (join_path ''/d'' ''logs'') ''d1.log'' = ''/d/logs/d1.log''"
  "deployContainerNameFromImageRef ''hostforge/0123456789ab:b'' = Inr ''hostforge-0123456789ab-b''"
  "trim ''/d/worktrees/0123456789ab'' = ''/d/worktrees/0123456789ab''" "trim ''/d/logs/d1.log'' = ''/d/logs/d1.log''"
  "trim ''hostforge/0123456789ab:b'' = ''hostforge/0123456789ab:b''"
  by code_simp+

lemma ready_resolves: "ResolveDeployTarget ''svc'' ''env'' ready_store = Inr ready_target"
  by (simp add: ResolveDeployTarget_def GetService_def GetEnvironment_def GetServiceEnvironment_def GetApplication_def
      db_ok_def ready_store_def ready_target_def sql_get_def web_service_def)

lemma ready_prepares:
  "\<exists>job s'. PrepareServiceDeploy (\<lambda>_. ''0123456789ab'') ready_config ready_target ''manual'' [] [] [] (Inr ''b'') ''d1'' (Inr ()) now
     ready_store = (Inr job, s') \<and> dj_Worktree job = ''/d/worktrees/0123456789ab'' \<and> dj_LogsPath job = ''/d/logs/d1.log'' \<and>
     dj_ImageRef job = ''hostforge/0123456789ab:b''"
  by (simp add: PrepareServiceDeploy_def Let_def ready_target_def ready_store_def ready_config_def WorktreeDir_def
      WorktreesDir_def LogsDir_def zero_config_def fresh_store_def web_service_def ResolveServiceBuildDirectory_def
      CreateServiceDeployment_def binding_count_def sql_count_def sql_exists_def db_ok_def RecordDeploymentEvent_def
      UpdateDeploymentLogsPath_def set_deployment_def sql_update_def EnqueueDeployOperation_def EnqueueOperation_def
      insertOperationTx_def insert_operation_def new_operation_row_def operation_statuses_def GetOperation_def sql_get_def
      DeployLockKey_def)

text \<open>C27. The job that the queue handler rebuilds from the stored row of a prepared deployment is the job that
  was prepared: the same target, checkout, build directory, image, container name and previous
  container.  The deployment waits in the queue, to be tried once, under the lock of its service environment.\<close>

theorem prepared_job_loaded:
  assumes target: "ResolveDeployTarget sid eid s = Inr target"
    and prep: "PrepareServiceDeploy digest cfg target trigger actor commit rollback bid newID mkdir now s = (Inr job, s')"
    and clean: "trim newID = newID" "newID \<noteq> []" "trim (dj_Worktree job) = dj_Worktree job" "dj_Worktree job \<noteq> []"
      "trim (dj_ImageRef job) = dj_ImageRef job" "trim (dj_LogsPath job) = dj_LogsPath job"
  shows "\<exists>d. fst (GetServiceDeployment newID s') = Inr d \<and> dep_status d = DeploymentQueued \<and>
    LoadDeployJob digest cfg d s' = Inr (job\<lparr>dj_Deployment := d\<rparr>) \<and>
    (\<exists>q \<in> set (operations s'). op_id q = newID \<and> op_kind q = DeployOperationKind \<and> op_max_attempts q = 1 \<and>
       op_lock_key q = trim (DeployLockKey (dep_service_id d) (dep_environment_id d)))"
proof -
  let ?sid = "svc_id (dt_Service target)" and ?eid = "env_id (dt_Environment target)"
  obtain buildDirectory b containerName d0 s1 q where
      dir: "ResolveServiceBuildDirectory (dj_Worktree job) (svc_root_directory (dt_Service target)) = Inr buildDirectory"
    and name: "deployContainerNameFromImageRef (dj_ImageRef job) = Inr containerName"
    and create: "CreateServiceDeployment \<lparr> cdi_service_id = ?sid, cdi_environment_id = ?eid, cdi_commit_hash = commit,
             cdi_logs_path = [], cdi_image_ref = dj_ImageRef job, cdi_worktree = dj_Worktree job, cdi_trigger_kind = trigger,
             cdi_actor = actor, cdi_rollback_of = rollback, cdi_branch = trim (se_branch (dt_Binding target)) \<rparr> newID now s = (Inr d0, s1)"
    and enq: "EnqueueDeployOperation \<lparr> edi_deployment_id = dep_id d0, edi_lock_key = DeployLockKey ?sid ?eid,
             edi_application_id = app_id (dt_Application target), edi_service_id = ?sid, edi_environment_id = ?eid,
             edi_actor = trim actor, edi_priority = deployPriority trigger \<rparr> newID now
           (snd (UpdateDeploymentLogsPath (dep_id d0) (dj_LogsPath job) now s1)) = (Inr q, s')"
    and job: "job = \<lparr> dj_Target = target, dj_Deployment = d0\<lparr>dep_logs_path := dj_LogsPath job\<rparr>,
             dj_PreviousContainer = previous_container ?sid ?eid s, dj_RepoURL = trim (svc_repo_url (dt_Service target)),
             dj_Branch = trim (se_branch (dt_Binding target)), dj_Worktree = dj_Worktree job,
             dj_BuildDirectory = buildDirectory, dj_ImageRef = dj_ImageRef job, dj_ContainerName = containerName,
             dj_LogsPath = dj_LogsPath job \<rparr>"
    using prep by (auto simp: PrepareServiceDeploy_def Let_def split: sum.splits prod.splits)
  note new = created_row [OF create, simplified]
  let ?d = "d0\<lparr>dep_logs_path := dj_LogsPath job, dep_updated_at := rfc3339 now\<rparr>"
  let ?g = "\<lambda>d. if dep_id d = newID then d\<lparr>dep_logs_path := dj_LogsPath job, dep_updated_at := rfc3339 now\<rparr> else d"
  obtain os where s': "s' = (snd (UpdateDeploymentLogsPath (dep_id d0) (dj_LogsPath job) now s1))\<lparr>operations := os\<rparr>"
    and queued: "\<exists>r \<in> set os. op_id r = newID \<and> op_lock_key r = trim (DeployLockKey ?sid ?eid) \<and> op_kind r = trim DeployOperationKind \<and>
      op_max_attempts r = 1"
    using EnqueueDeploy_ok [OF enq] clean(1,2) new(2) by auto
  have old: "map ?g (deployments s) = deployments s" using new(4) by (intro map_idI) auto
  have rows: "deployments s' = deployments s @ [?d]"
    using old by (simp add: s' set_deployment_sel UpdateDeploymentLogsPath_def new(1,2) sql_update_def clean(1,6))
  have other: "services s' = services s" "environments s' = environments s" "service_environments s' = service_environments s"
    "applications s' = applications s" "containers s' = containers s" "operations s' = os"
    by (simp_all add: s' set_deployment_sel UpdateDeploymentLogsPath_def new(1) RecordDeploymentEvent_def)
  have ids: "dep_service_id ?d = trim ?sid" "dep_environment_id ?d = trim ?eid" "trim ?sid = ?sid" "trim ?eid = ?eid"
    using new(5,6) target_ids(1,2) [OF target] by simp_all
  have again: "ResolveDeployTarget (dep_service_id ?d) (dep_environment_id ?d) s' = Inr target"
    unfolding ids target_cong [OF other(1-4)] using target_ids [OF target] by simp
  have previous: "previous_container ?sid ?eid s' = previous_container ?sid ?eid s"
    by (rule previous_cong) (simp_all add: rows other new(3))
  have "List.find (\<lambda>d. dep_id d = newID) (deployments s) = None" using new(4) by (auto simp: find_None_iff)
  then have get: "fst (GetServiceDeployment newID s') = Inr ?d"
    using new(2) by (simp add: GetServiceDeployment_def rows sql_get_def clean(1) db_ok_def find_app)
  have load: "LoadDeployJob digest cfg ?d s' = Inr (job\<lparr>dj_Deployment := ?d\<rparr>)"
    unfolding LoadDeployJob_def again using dir name previous new clean
    by (subst (2) job) (simp add: Let_def)
  show ?thesis using get load queued new(3) ids other(6) by (intro exI [of _ ?d]) auto
qed

theorem prepared_job_loaded_witness:
  "\<exists>job s' d. PrepareServiceDeploy (\<lambda>_. ''0123456789ab'') ready_config ready_target ''manual'' [] [] [] (Inr ''b'') ''d1'' (Inr ()) 0
       ready_store = (Inr job, s') \<and>
     fst (GetServiceDeployment ''d1'' s') = Inr d \<and>
     LoadDeployJob (\<lambda>_. ''0123456789ab'') ready_config d s' = Inr (job\<lparr>dj_Deployment := d\<rparr>)"
proof -
  obtain job s' where p: "PrepareServiceDeploy (\<lambda>_. ''0123456789ab'') ready_config ready_target ''manual'' [] [] [] (Inr ''b'') ''d1'' (Inr ())
      0 ready_store = (Inr job, s')" and j: "dj_Worktree job = ''/d/worktrees/0123456789ab''" "dj_LogsPath job = ''/d/logs/d1.log''"
      "dj_ImageRef job = ''hostforge/0123456789ab:b''"
    using ready_prepares by blast
  from prepared_job_loaded [OF ready_resolves p] p j show ?thesis by auto
qed

end
