(* ===== verification/HF_Engines.thy ===== *)
theory HF_Engines
  imports HF_Deploy_Jobs
begin

text \<open>
  The database engines: the catalogue of internal/databases/catalog.go and the adapters of
  internal/services/database_engines.go, which turn an engine, a credential and its passwords into
  container settings and commands.  Running a command in a container is the engine's, an argument
  \<open>'d exec\<close>; strings of the shell are written out as in the code.  The redaction of logs by
  regular expressions is not modelled.
\<close>

section \<open>The catalogue\<close>

record engine_version =
  ev_Version :: string
  ev_Default :: bool
  ev_ProvisioningAvailable :: bool
  ev_ImageRef :: string

record db_engine =
  en_ID :: string
  en_Name :: string
  en_Description :: string
  en_Category :: string
  en_Versions :: "engine_version list"
  en_InternalPort :: int
  en_ConnectionVariable :: string
  en_VolumeTarget :: string
  en_MinimumMemoryBytes :: int
  en_StopTimeoutSeconds :: int
  en_PublicAccessAvailable :: bool

record resource_preset =
  rp_ID :: string
  rp_Name :: string
  rp_Description :: string
  rp_CPULimitMillis :: int
  rp_MemoryLimitBytes :: int

text \<open>Every version of the catalogue can be provisioned.\<close>

definition version :: "string \<Rightarrow> bool \<Rightarrow> string \<Rightarrow> engine_version" where
  "version v dflt ref = \<lparr> ev_Version = v, ev_Default = dflt, ev_ProvisioningAvailable = True, ev_ImageRef = ref \<rparr>"

definition postgresql_engine :: db_engine where
  "postgresql_engine = \<lparr> en_ID = ''postgresql'', en_Name = ''PostgreSQL'',
     en_Description = ''General-purpose relational database with strong SQL and extension support.'',
     en_Category = ''Relational'', en_Versions = [version ''18'' True ''postgres@sha256:c2d42a104eb6b37b286a2d9c5cf83f349de4d6516d513d00a2bd9610e2c2e5e4'',
       version ''17'' False ''postgres@sha256:39fb82e41109483c81ac15422a302500b4a753777b47f8431038703536bc6c52'',
       version ''16'' False ''postgres@sha256:17e67d7b9890c99b055ba1e0d5c5be4ec27c9d3a72bda32db24a5e5d8a85af0c''],
     en_InternalPort = 5432, en_ConnectionVariable = ''DATABASE_URL'', en_VolumeTarget = ''/var/lib/postgresql'',
     en_MinimumMemoryBytes = 512 * 1024 * 1024, en_StopTimeoutSeconds = 30, en_PublicAccessAvailable = False \<rparr>"

definition mysql_engine :: db_engine where
  "mysql_engine = \<lparr> en_ID = ''mysql'', en_Name = ''MySQL'',
     en_Description = ''Widely supported relational database using the MySQL protocol.'',
     en_Category = ''Relational'', en_Versions = [version ''8.4'' True ''mysql@sha256:c831a0f11348d402b43d77453e17d770be2eef356615a2823fe0f5a0d6c8b9af''],
     en_InternalPort = 3306, en_ConnectionVariable = ''DATABASE_URL'', en_VolumeTarget = ''/var/lib/mysql'',
     en_MinimumMemoryBytes = 1024 * 1024 * 1024, en_StopTimeoutSeconds = 60, en_PublicAccessAvailable = False \<rparr>"

definition mariadb_engine :: db_engine where
  "mariadb_engine = \<lparr> en_ID = ''mariadb'', en_Name = ''MariaDB'',
     en_Description = ''Open-source MySQL-compatible relational database.'',
     en_Category = ''Relational'', en_Versions = [version ''11.4'' True ''mariadb@sha256:a794d9eb009e20de605858a11f32f63b4075cbd197c650436f0e3b457e4caed7''],
     en_InternalPort = 3306, en_ConnectionVariable = ''DATABASE_URL'', en_VolumeTarget = ''/var/lib/mysql'',
     en_MinimumMemoryBytes = 1024 * 1024 * 1024, en_StopTimeoutSeconds = 60, en_PublicAccessAvailable = False \<rparr>"

definition mongodb_engine :: db_engine where
  "mongodb_engine = \<lparr> en_ID = ''mongodb'', en_Name = ''MongoDB'',
     en_Description = ''Document database for flexible JSON-like application data.'',
     en_Category = ''Document'', en_Versions = [version ''8.0'' True ''mongo@sha256:3ce3de7f40e914034b03b7dec654005ab54f7dc8306937e44ec6760d9e9409a1''],
     en_InternalPort = 27017, en_ConnectionVariable = ''MONGODB_URL'', en_VolumeTarget = ''/data/db'',
     en_MinimumMemoryBytes = 1024 * 1024 * 1024, en_StopTimeoutSeconds = 60, en_PublicAccessAvailable = False \<rparr>"

definition redis_engine :: db_engine where
  "redis_engine = \<lparr> en_ID = ''redis'', en_Name = ''Redis'',
     en_Description = ''In-memory data store for caching, queues, sessions, and realtime workloads.'',
     en_Category = ''Key-value'', en_Versions = [version ''8.8'' True ''redis@sha256:234c902a2db49461a129e2d4aeff85b28cf20187ed274a67f6e50995fa713c7b'',
       version ''8.4'' False ''redis@sha256:c44528447fa07ed62bdb0c1944cba54f8cad6a4e4a49ada9d4843b5b07d03227''],
     en_InternalPort = 6379, en_ConnectionVariable = ''REDIS_URL'', en_VolumeTarget = ''/data'',
     en_MinimumMemoryBytes = 512 * 1024 * 1024, en_StopTimeoutSeconds = 30, en_PublicAccessAvailable = False \<rparr>"

definition valkey_engine :: db_engine where
  "valkey_engine = \<lparr> en_ID = ''valkey'', en_Name = ''Valkey'',
     en_Description = ''Open-source key-value data store compatible with the Redis protocol.'',
     en_Category = ''Key-value'', en_Versions = [version ''9.0'' True ''valkey/valkey@sha256:bdf93f670fdb026eba9e2cf852c3fa8062f92e850fa181626c3b056e83ef04cf'',
       version ''8.1'' False ''valkey/valkey@sha256:3e31dd49b6b742e614975e8ab7b1b19809d00ecac7657c6b34bff23582a433cd''],
     en_InternalPort = 6379, en_ConnectionVariable = ''VALKEY_URL'', en_VolumeTarget = ''/data'',
     en_MinimumMemoryBytes = 512 * 1024 * 1024, en_StopTimeoutSeconds = 30, en_PublicAccessAvailable = False \<rparr>"

definition Catalog :: "db_engine list" where
  "Catalog = [postgresql_engine, mysql_engine, mariadb_engine, mongodb_engine, redis_engine, valkey_engine]"

definition ResourcePresets :: "resource_preset list" where
  "ResourcePresets =
     [\<lparr> rp_ID = ''development'', rp_Name = ''Development'', rp_Description = ''Staging, prototypes, and low traffic.'',
        rp_CPULimitMillis = 500, rp_MemoryLimitBytes = 512 * 1024 * 1024 \<rparr>,
      \<lparr> rp_ID = ''standard'', rp_Name = ''Standard'', rp_Description = ''Small production workloads.'',
        rp_CPULimitMillis = 1000, rp_MemoryLimitBytes = 1024 * 1024 * 1024 \<rparr>,
      \<lparr> rp_ID = ''performance'', rp_Name = ''Performance'', rp_Description = ''Heavier production workloads.'',
        rp_CPULimitMillis = 2000, rp_MemoryLimitBytes = 4 * 1024 * 1024 * 1024 \<rparr>,
      \<lparr> rp_ID = ''custom'', rp_Name = ''Custom'', rp_Description = ''Operator-selected CPU and memory limits.'',
        rp_CPULimitMillis = 0, rp_MemoryLimitBytes = 0 \<rparr>]"

definition FindResourcePreset :: "string \<Rightarrow> resource_preset option" where
  "FindResourcePreset presetID = find (\<lambda>p. rp_ID p = presetID) ResourcePresets"

definition FindEngine :: "string \<Rightarrow> db_engine option" where
  "FindEngine engineID = find (\<lambda>e. en_ID e = engineID) Catalog"

definition FindVersion :: "string \<Rightarrow> string \<Rightarrow> (db_engine \<times> engine_version) option" where
  "FindVersion engineID v =
     (case FindEngine engineID of
        None \<Rightarrow> None
      | Some e \<Rightarrow> map_option (\<lambda>c. (e, c)) (find (\<lambda>c. ev_Version c = v) (en_Versions e)))"

section \<open>Commands\<close>

text \<open>A command, and the environment it runs in.\<close>

type_synonym command = "string list \<times> string list"

definition shell :: "string \<Rightarrow> string list" where
  "shell script = [''sh'', ''-c'', script]"


definition databaseBackupCommand ::
  "string \<Rightarrow> database_instance_row \<Rightarrow> database_credential_row \<Rightarrow> string \<Rightarrow> err_chain + command \<times> string" where
  \<open>databaseBackupCommand eng inst credential password =
     (let host = di_network_alias inst; port = show_int (di_internal_port inst);
          user = dc_username credential; db = dc_database_name credential
      in if eng = ''postgresql'' then
           Inr (([''pg_dump'', ''--host'', host, ''--port'', port, ''--username'', user, ''--dbname'', db,
                  ''--format'', ''custom'', ''--no-password''],
                 [''PGPASSWORD='' @ password]), ''postgresql-custom+gzip+aead'')
         else if eng = ''mysql'' then
           Inr (([''mysqldump'', ''--host'', host, ''--port'', port, ''--user'', user, ''--single-transaction'',
                  ''--quick'', ''--routines'', ''--events'', db],
                 [''MYSQL_PWD='' @ password]), ''mysql-sql+gzip+aead'')
         else if eng = ''mariadb'' then
           Inr (([''mariadb-dump'', ''--host'', host, ''--port'', port, ''--user'', user, ''--single-transaction'',
                  ''--quick'', ''--routines'', ''--events'', db],
                 [''MYSQL_PWD='' @ password]), ''mariadb-sql+gzip+aead'')
         else if eng = ''mongodb'' then
           Inr ((shell (''exec mongodump --host "$HF_HOST" --port "$HF_PORT" --username "$HF_USER" --password "$MONGODB_PASSWORD" --authenticationDatabase "$HF_DATABASE" --db "$HF_DATABASE" --archive''),
                 [''HOME=/tmp'', ''HF_HOST='' @ host, ''HF_PORT='' @ port, ''HF_USER='' @ user, ''HF_DATABASE='' @ db,
                  ''MONGODB_PASSWORD='' @ password]), ''mongodb-archive+gzip+aead'')
         else if eng = ''redis'' \<or> eng = ''valkey'' then
           Inr (([if eng = ''valkey'' then ''valkey-cli'' else ''redis-cli'', ''-h'', host, ''-p'', port, ''--rdb'', ''-''],
                 [''REDISCLI_AUTH='' @ password, ''HOME=/tmp'']), eng @ ''-rdb+gzip+aead'')
         else Inl [Text (''backup adapter '' @ eng @ '' is not implemented'')])\<close>

definition databaseRestoreCommand ::
  "string \<Rightarrow> database_instance_row \<Rightarrow> database_credential_row \<Rightarrow> string \<Rightarrow> string \<Rightarrow> err_chain + command" where
  \<open>databaseRestoreCommand eng inst credential password sourceDatabaseName =
     (let host = di_network_alias inst; port = show_int (di_internal_port inst);
          user = dc_username credential; db = dc_database_name credential
      in if eng = ''postgresql'' then
           Inr (shell (''exec pg_restore --host "$HF_HOST" --port "$HF_PORT" --username "$HF_USER" --dbname "$HF_DATABASE" --clean --if-exists --no-owner --no-privileges --exit-on-error''),
                [''PGPASSWORD='' @ password, ''HF_HOST='' @ host, ''HF_PORT='' @ port, ''HF_USER='' @ user, ''HF_DATABASE='' @ db])
         else if eng = ''mysql'' then
           Inr (shell (''MYSQL_PWD="$HF_PASSWORD" mysql --host "$HF_HOST" --port "$HF_PORT" --user "$HF_USER" -e "DROP DATABASE IF EXISTS $HF_DATABASE; CREATE DATABASE $HF_DATABASE;" && MYSQL_PWD="$HF_PASSWORD" mysql --host "$HF_HOST" --port "$HF_PORT" --user "$HF_USER" "$HF_DATABASE"''),
                [''HF_HOST='' @ host, ''HF_PORT='' @ port, ''HF_DATABASE='' @ db, ''HF_USER='' @ user, ''HF_PASSWORD='' @ password])
         else if eng = ''mariadb'' then
           Inr (shell (''MYSQL_PWD="$HF_PASSWORD" mariadb --host "$HF_HOST" --port "$HF_PORT" --user "$HF_USER" -e "DROP DATABASE IF EXISTS $HF_DATABASE; CREATE DATABASE $HF_DATABASE;" && MYSQL_PWD="$HF_PASSWORD" mariadb --host "$HF_HOST" --port "$HF_PORT" --user "$HF_USER" "$HF_DATABASE"''),
                [''HF_HOST='' @ host, ''HF_PORT='' @ port, ''HF_DATABASE='' @ db, ''HF_USER='' @ user, ''HF_PASSWORD='' @ password])
         else if eng = ''mongodb'' then
           Inr (shell (''exec mongorestore --host "$HF_HOST" --port "$HF_PORT" --username "$HF_USER" --password "$MONGODB_PASSWORD" --authenticationDatabase "$HF_DATABASE" --archive --drop --nsFrom "$HF_SOURCE_NAMESPACE" --nsTo "$HF_TARGET_NAMESPACE"''),
                [''HOME=/tmp'', ''HF_HOST='' @ host, ''HF_PORT='' @ port, ''HF_USER='' @ user, ''HF_DATABASE='' @ db,
                 ''HF_SOURCE_NAMESPACE='' @ sourceDatabaseName @ ''.*'', ''HF_TARGET_NAMESPACE='' @ db @ ''.*'',
                 ''MONGODB_PASSWORD='' @ password])
         else if eng = ''redis'' \<or> eng = ''valkey'' then
           Inr (shell (''rm -rf /data/appendonlydir /data/appendonly.aof /data/dump.rdb && cat > /data/dump.rdb && chmod 600 /data/dump.rdb''), [])
         else Inl [Text (''restore adapter '' @ eng @ '' is not implemented'')])\<close>

text \<open>The environment and the command a database container is created with.\<close>

definition databaseContainerConfiguration ::
  "string \<Rightarrow> database_credential_row \<Rightarrow> string \<Rightarrow> string \<Rightarrow> err_chain + command" where
  \<open>databaseContainerConfiguration eng credential password adminPassword =
     (let user = dc_username credential; db = dc_database_name credential
      in if eng = ''postgresql'' then
           Inr ([], [''POSTGRES_DB='' @ db, ''POSTGRES_USER=hostforge_admin'', ''POSTGRES_PASSWORD='' @ adminPassword])
         else if eng = ''mysql'' then
           Inr ([], [''MYSQL_ROOT_PASSWORD='' @ adminPassword, ''MYSQL_DATABASE='' @ db, ''MYSQL_USER='' @ user,
                     ''MYSQL_PASSWORD='' @ password])
         else if eng = ''mariadb'' then
           Inr ([], [''MARIADB_ROOT_PASSWORD='' @ adminPassword, ''MARIADB_DATABASE='' @ db, ''MARIADB_USER='' @ user,
                     ''MARIADB_PASSWORD='' @ password])
         else if eng = ''mongodb'' then
           Inr ([], [''MONGO_INITDB_ROOT_USERNAME=hostforge_admin'', ''MONGO_INITDB_ROOT_PASSWORD='' @ adminPassword])
         else if eng = ''redis'' then
           Inr (shell (''if [ ! -f /data/hostforge.conf ]; then printf '' @ [CHR 0x27] @ ''appendonly yes'' @ [CHR 0x5C] @ ''nrequirepass %s'' @ [CHR 0x5C] @ ''n'' @ [CHR 0x27] @ '' "$HF_DATABASE_PASSWORD" > /data/hostforge.conf && chmod 600 /data/hostforge.conf; fi; exec redis-server /data/hostforge.conf''), [''HF_DATABASE_PASSWORD='' @ password])
         else if eng = ''valkey'' then
           Inr (shell (''if [ ! -f /data/hostforge.conf ]; then printf '' @ [CHR 0x27] @ ''appendonly yes'' @ [CHR 0x5C] @ ''nrequirepass %s'' @ [CHR 0x5C] @ ''n'' @ [CHR 0x27] @ '' "$HF_DATABASE_PASSWORD" > /data/hostforge.conf && chmod 600 /data/hostforge.conf; fi; exec valkey-server /data/hostforge.conf''), [''HF_DATABASE_PASSWORD='' @ password])
         else Inl [Text (''database engine '' @ eng @ '' is not implemented'')])\<close>

definition databaseHealthCommand :: "string \<Rightarrow> database_credential_row \<Rightarrow> string \<Rightarrow> string \<Rightarrow> err_chain + command" where
  \<open>databaseHealthCommand eng credential password adminPassword =
     (if eng = ''postgresql'' then
        Inr ([''psql'', ''--host'', ''127.0.0.1'', ''--username'', ''hostforge_admin'', ''--dbname'',
              dc_database_name credential, ''--tuples-only'', ''--command'', ''SELECT 1''], [''PGPASSWORD='' @ adminPassword])
      else if eng = ''mysql'' then
        Inr ([''mysqladmin'', ''ping'', ''-h'', ''127.0.0.1'', ''-uroot'', ''--silent''], [''MYSQL_PWD='' @ adminPassword])
      else if eng = ''mariadb'' then
        Inr ([''mariadb-admin'', ''ping'', ''-h'', ''127.0.0.1'', ''-uroot'', ''--silent''], [''MYSQL_PWD='' @ adminPassword])
      else if eng = ''mongodb'' then
        Inr (shell (''exec mongosh --quiet --username hostforge_admin --password "$MONGODB_ADMIN_PASSWORD" --authenticationDatabase admin --eval '' @ [CHR 0x27] @ ''db.adminCommand({ping:1}).ok'' @ [CHR 0x27]), [''MONGODB_ADMIN_PASSWORD='' @ adminPassword])
      else if eng = ''redis'' \<or> eng = ''valkey'' then
        Inr ([if eng = ''valkey'' then ''valkey-cli'' else ''redis-cli'', ''ping''], [''REDISCLI_AUTH='' @ password])
      else Inl [Text (''database health adapter '' @ eng @ '' is not implemented'')])\<close>

definition databaseApplicationCredentialCommand :: "string \<Rightarrow> database_credential_row \<Rightarrow> string \<Rightarrow> err_chain + command" where
  \<open>databaseApplicationCredentialCommand eng credential password =
     (let user = dc_username credential; db = dc_database_name credential
      in if eng = ''postgresql'' then
           Inr ([''psql'', ''--host'', ''127.0.0.1'', ''--username'', user, ''--dbname'', db, ''--tuples-only'', ''--command'',
                 ''SELECT 1''], [''PGPASSWORD='' @ password])
         else if eng = ''mysql'' then
           Inr ([''mysql'', ''--host'', ''127.0.0.1'', ''--user'', user, db, ''--execute'', ''SELECT 1''], [''MYSQL_PWD='' @ password])
         else if eng = ''mariadb'' then
           Inr ([''mariadb'', ''--host'', ''127.0.0.1'', ''--user'', user, db, ''--execute'', ''SELECT 1''], [''MYSQL_PWD='' @ password])
         else if eng = ''mongodb'' then
           Inr (shell (''exec mongosh --quiet --username "$HF_USER" --password "$MONGODB_PASSWORD" --authenticationDatabase "$HF_DATABASE" "$HF_DATABASE" --eval '' @ [CHR 0x27] @ ''db.runCommand({ping:1}).ok'' @ [CHR 0x27]),
                [''HF_USER='' @ user, ''HF_DATABASE='' @ db, ''MONGODB_PASSWORD='' @ password])
         else if eng = ''redis'' \<or> eng = ''valkey'' then
           Inr ([if eng = ''valkey'' then ''valkey-cli'' else ''redis-cli'', ''ping''], [''REDISCLI_AUTH='' @ password])
         else Inl [Text (''database application credential adapter '' @ eng @ '' is not implemented'')])\<close>

section \<open>Running commands\<close>

text \<open>
  What the engine makes of a command in a container: the exit code, once it no longer runs.
\<close>

type_synonym 'd exec = "string \<Rightarrow> string list \<Rightarrow> string list \<Rightarrow> 'd \<Rightarrow> (err_chain + int) \<times> 'd"

definition ExecExitCode :: "'d exec \<Rightarrow> string \<Rightarrow> command \<Rightarrow> 'd \<Rightarrow> (err_chain + int) \<times> 'd" where
  "ExecExitCode E containerID c d =
     (if trim containerID = [] \<or> fst c = [] then (Inl [Text ''container and command required''], d)
      else E containerID (fst c) (snd c) d)"

definition exited_with :: "string \<Rightarrow> err_chain + int \<Rightarrow> err_chain + unit" where
  "exited_with what r = (case r of
     Inl e \<Rightarrow> Inl e
   | Inr code \<Rightarrow> if code \<noteq> 0 then Inl [Text (what @ show_int code)] else Inr ())"

definition run_checked :: "'d exec \<Rightarrow> string \<Rightarrow> string \<Rightarrow> err_chain + command \<Rightarrow> 'd \<Rightarrow> (err_chain + unit) \<times> 'd" where
  "run_checked E containerID what c d =
     (case c of Inl e \<Rightarrow> (Inl e, d)
      | Inr cmd \<Rightarrow> (case ExecExitCode E containerID cmd d of (r, d1) \<Rightarrow> (exited_with what r, d1)))"

definition checkDatabaseReadiness ::
  "'d exec \<Rightarrow> string \<Rightarrow> string \<Rightarrow> database_credential_row \<Rightarrow> string \<Rightarrow> string \<Rightarrow> 'd \<Rightarrow> (err_chain + unit) \<times> 'd" where
  "checkDatabaseReadiness E containerID eng credential password adminPassword =
     run_checked E containerID (eng @ '' readiness command exited with code '')
       (databaseHealthCommand eng credential password adminPassword)"

definition checkDatabaseApplicationCredentials ::
  "'d exec \<Rightarrow> string \<Rightarrow> string \<Rightarrow> database_credential_row \<Rightarrow> string \<Rightarrow> 'd \<Rightarrow> (err_chain + unit) \<times> 'd" where
  "checkDatabaseApplicationCredentials E containerID eng credential password =
     run_checked E containerID (eng @ '' application credential check exited with code '')
       (databaseApplicationCredentialCommand eng credential password)"

definition checkDatabaseHealth ::
  "'d exec \<Rightarrow> string \<Rightarrow> string \<Rightarrow> database_credential_row \<Rightarrow> string \<Rightarrow> string \<Rightarrow> 'd \<Rightarrow> (err_chain + unit) \<times> 'd" where
  "checkDatabaseHealth E containerID eng credential password adminPassword d =
     (case checkDatabaseReadiness E containerID eng credential password adminPassword d of
        (Inl e, d1) \<Rightarrow> (Inl e, d1)
      | (Inr _, d1) \<Rightarrow> checkDatabaseApplicationCredentials E containerID eng credential password d1)"

section \<open>Changing passwords\<close>

text \<open>\<open>strings.ContainsAny\<close> with a quote, a backslash, a line break or NUL.\<close>

definition unsafe_chars :: "char set" where
  "unsafe_chars = {CHR 0x27, CHR 0x5C, CHR 0x0A, CHR 0x0D, CHR 0x00}"

definition unsafe :: "string \<Rightarrow> bool" where
  "unsafe s \<longleftrightarrow> list_ex (\<lambda>c. c \<in> unsafe_chars) s"

definition sql_cli :: "string \<Rightarrow> string" where
  "sql_cli eng = (if eng = ''mariadb'' then ''mariadb'' else ''mysql'')"

definition kv_cli :: "string \<Rightarrow> string" where
  "kv_cli eng = (if eng = ''valkey'' then ''valkey-cli'' else ''redis-cli'')"

definition alter_statement :: "string \<Rightarrow> string" where
  \<open>alter_statement newPassword = ''ALTER USER USER() IDENTIFIED BY '' @ [CHR 0x27] @ newPassword @ [CHR 0x27]\<close>

definition mongo_shell :: "string list" where
  \<open>mongo_shell = shell (''exec mongosh --quiet --username hostforge_admin --password "$MONGODB_ADMIN_PASSWORD" --authenticationDatabase admin --eval "$HF_MONGO_SCRIPT"'')\<close>

definition mongo_update_script :: "string \<Rightarrow> string \<Rightarrow> string" where
  \<open>mongo_update_script db user =
     ''db=db.getSiblingDB('' @ [CHR 0x27] @ db @ [CHR 0x27] @ ''); db.updateUser('' @ [CHR 0x27] @ user @ [CHR 0x27] @
     '',{pwd:process.env.HF_NEW_PASSWORD,roles:[{role:'' @ [CHR 0x27] @ ''readWrite'' @ [CHR 0x27] @ '',db:'' @ [CHR 0x27] @
     db @ [CHR 0x27] @ ''}]})''\<close>

definition kv_set :: "string \<Rightarrow> string \<Rightarrow> string \<Rightarrow> command" where
  "kv_set eng newPassword auth = ([kv_cli eng, ''CONFIG'', ''SET'', ''requirepass'', newPassword], [''REDISCLI_AUTH='' @ auth])"

definition kv_rewrite :: "string \<Rightarrow> string \<Rightarrow> command" where
  "kv_rewrite eng auth = ([kv_cli eng, ''CONFIG'', ''REWRITE''], [''REDISCLI_AUTH='' @ auth])"

definition succeeded_with :: "err_chain + int \<Rightarrow> bool" where
  "succeeded_with r \<longleftrightarrow> r = Inr 0"

text \<open>\<open>alterPostgreSQLPassword\<close> (database_provision.go).  Identifiers are ASCII.\<close>

definition identifier_char :: "char \<Rightarrow> bool" where
  "identifier_char c \<longleftrightarrow> is_lower_letter (lower_char c) \<or> is_digit c \<or> c = CHR ''_''"

definition alterPostgreSQLPassword ::
  "'d exec \<Rightarrow> string \<Rightarrow> string \<Rightarrow> string \<Rightarrow> string \<Rightarrow> string \<Rightarrow> 'd \<Rightarrow> (err_chain + unit) \<times> 'd" where
  \<open>alterPostgreSQLPassword E containerID username databaseName password adminPassword d =
     (case find (\<lambda>v. v = [] \<or> \<not> list_all identifier_char v) [username, databaseName] of
        Some v \<Rightarrow> (Inl [Text (if v = [] then ''database credential identifier is empty''
          else ''database credential identifier contains unsafe characters'')], d)
      | None \<Rightarrow>
          if unsafe password then (Inl [Text ''generated database password contains unsafe characters''], d)
          else run_checked E containerID ''postgres password command exited with code ''
            (Inr (shell (''printf "$HF_SQL" "$HF_NEW_PASSWORD" | PGPASSWORD="$HF_ADMIN_PASSWORD" psql --host 127.0.0.1 --username hostforge_admin --dbname "$HF_DATABASE" --set ON_ERROR_STOP=1''),
               [''HF_SQL=ALTER ROLE "'' @ username @ ''" WITH PASSWORD '' @ [CHR 0x27] @ ''%s'' @ [CHR 0x27] @ '';'',
                ''HF_NEW_PASSWORD='' @ password, ''HF_ADMIN_PASSWORD='' @ adminPassword, ''HF_DATABASE='' @ databaseName])) d)\<close>

definition alterDatabasePassword ::
  "'d exec \<Rightarrow> string \<Rightarrow> string \<Rightarrow>
   database_credential_row \<Rightarrow> string \<Rightarrow> string \<Rightarrow> string \<Rightarrow> 'd \<Rightarrow> (err_chain + unit) \<times> 'd" where
  "alterDatabasePassword E containerID eng credential currentPassword newPassword adminPassword d =
     (let user = dc_username credential; db = dc_database_name credential in
      if unsafe newPassword then (Inl [Text ''generated database password contains unsafe characters''], d)
      else if eng = ''postgresql'' then alterPostgreSQLPassword E containerID user db newPassword adminPassword d
      else if eng = ''mysql'' \<or> eng = ''mariadb'' then
        run_checked E containerID (eng @ '' password command exited with code '')
          (Inr ([sql_cli eng, ''-h'', ''127.0.0.1'', ''-u'', user, db, ''-e'', alter_statement newPassword],
                [''MYSQL_PWD='' @ currentPassword])) d
      else if eng = ''mongodb'' then
        (if list_ex (\<lambda>v. v = [] \<or> unsafe v) [db, user]
         then (Inl [Text ''MongoDB credential contains unsafe characters''], d)
         else run_checked E containerID ''MongoDB password command exited with code ''
          (Inr (mongo_shell, [''MONGODB_ADMIN_PASSWORD='' @ adminPassword, ''HF_NEW_PASSWORD='' @ newPassword,
                 ''HF_MONGO_SCRIPT='' @ mongo_update_script db user])) d)
      else if eng = ''redis'' \<or> eng = ''valkey'' then
        (case ExecExitCode E containerID (kv_set eng newPassword currentPassword) d of
           (r, d1) \<Rightarrow>
             if \<not> succeeded_with r then (Inl [Text (eng @ '' live password update failed'')], d1)
             else (case ExecExitCode E containerID (kv_rewrite eng newPassword) d1 of
               (r2, d2) \<Rightarrow>
                 if succeeded_with r2 then (Inr (), d2)
                 else (case ExecExitCode E containerID (kv_set eng currentPassword newPassword) d2 of
                   (_, d3) \<Rightarrow> (case ExecExitCode E containerID (kv_rewrite eng currentPassword) d3 of
                     (_, d4) \<Rightarrow> (Inl [Text (eng @ '' password persistence failed'')], d4)))))
      else (Inl [Text (''credential rotation adapter '' @ eng @ '' is not implemented'')], d))"

section \<open>The first start\<close>

definition postgresql_script :: string where
  \<open>postgresql_script = ''set -eu'' @ [CHR 0x0A] @ ''exists="$(PGPASSWORD="$HF_ADMIN_PASSWORD" psql --host 127.0.0.1 --username hostforge_admin --dbname "$HF_DATABASE" --tuples-only --no-align --command "SELECT 1 FROM pg_roles WHERE rolname='' @ [CHR 0x27] @ ''$HF_USER'' @ [CHR 0x27] @ ''")"'' @ [CHR 0x0A] @ ''{'' @ [CHR 0x0A] @ ''  if [ "$exists" = "1" ]; then'' @ [CHR 0x0A] @ ''    printf '' @ [CHR 0x27] @ ''ALTER ROLE "%s" WITH LOGIN PASSWORD '' @ [CHR 0x27] @ [CHR 0x5C] @ [CHR 0x27] @ [CHR 0x27] @ ''%s'' @ [CHR 0x27] @ [CHR 0x5C] @ [CHR 0x27] @ [CHR 0x27] @ '';'' @ [CHR 0x5C] @ ''n'' @ [CHR 0x27] @ '' "$HF_USER" "$HF_APPLICATION_PASSWORD"'' @ [CHR 0x0A] @ ''  else'' @ [CHR 0x0A] @ ''    printf '' @ [CHR 0x27] @ ''CREATE ROLE "%s" WITH LOGIN PASSWORD '' @ [CHR 0x27] @ [CHR 0x5C] @ [CHR 0x27] @ [CHR 0x27] @ ''%s'' @ [CHR 0x27] @ [CHR 0x5C] @ [CHR 0x27] @ [CHR 0x27] @ '';'' @ [CHR 0x5C] @ ''n'' @ [CHR 0x27] @ '' "$HF_USER" "$HF_APPLICATION_PASSWORD"'' @ [CHR 0x0A] @ ''  fi'' @ [CHR 0x0A] @ ''  printf '' @ [CHR 0x27] @ ''ALTER DATABASE "%s" OWNER TO "%s";'' @ [CHR 0x5C] @ ''n'' @ [CHR 0x27] @ '' "$HF_DATABASE" "$HF_USER"'' @ [CHR 0x0A] @ ''} | PGPASSWORD="$HF_ADMIN_PASSWORD" psql --host 127.0.0.1 --username hostforge_admin --dbname "$HF_DATABASE" --set ON_ERROR_STOP=1''\<close>

definition mongo_create_script :: "string \<Rightarrow> string \<Rightarrow> string" where
  \<open>mongo_create_script db user =
     (let q = (\<lambda>s. [CHR 0x27] @ s @ [CHR 0x27]); roles = '',{pwd:process.env.HF_APPLICATION_PASSWORD,roles:[{role:'' @ q ''readWrite'' @ '',db:'' @ q db @ ''}]})'';
          new = ''user:'' @ q user
      in ''db=db.getSiblingDB('' @ q db @ ''); if(db.getUser('' @ q user @ '')){db.updateUser('' @ q user @ roles @
         ''}else{db.createUser({'' @ new @ '',pwd:process.env.HF_APPLICATION_PASSWORD,roles:[{role:'' @ q ''readWrite'' @ '',db:'' @ q db @ ''}]})}'')\<close>

definition configureDatabaseAfterStart ::
  "'d exec \<Rightarrow> string \<Rightarrow> string \<Rightarrow> database_credential_row \<Rightarrow> string \<Rightarrow> string \<Rightarrow> 'd \<Rightarrow> (err_chain + unit) \<times> 'd" where
  "configureDatabaseAfterStart E containerID eng credential password adminPassword d =
     (let user = dc_username credential; db = dc_database_name credential in
      if eng = ''postgresql'' then
        (if list_ex (\<lambda>v. v = [] \<or> unsafe v \<or> CHR 0x22 \<in> set v) [db, user]
         then (Inl [Text ''PostgreSQL credential contains unsafe characters''], d)
         else if unsafe password then (Inl [Text ''generated PostgreSQL password contains unsafe characters''], d)
         else run_checked E containerID ''PostgreSQL application-user setup exited with code ''
           (Inr (shell postgresql_script, [''HF_ADMIN_PASSWORD='' @ adminPassword, ''HF_APPLICATION_PASSWORD='' @ password,
              ''HF_USER='' @ user, ''HF_DATABASE='' @ db])) d)
      else if eng \<noteq> ''mongodb'' then (Inr (), d)
      else if list_ex (\<lambda>v. v = [] \<or> unsafe v) [db, user, password]
      then (Inl [Text ''MongoDB credential contains unsafe characters''], d)
      else run_checked E containerID ''MongoDB application-user setup exited with code ''
        (Inr (mongo_shell, [''MONGODB_ADMIN_PASSWORD='' @ adminPassword, ''HF_APPLICATION_PASSWORD='' @ password,
           ''HF_MONGO_SCRIPT='' @ mongo_create_script db user])) d)"

end
