(* ===== verification/HF_Sweeps.thy ===== *)
theory HF_Sweeps
  imports HF_Engines HF_Backups HF_Gateway
begin

text \<open>
  The background loops and the deletions that combine the engine with the database (internal/services):
  the boot sweep of orphaned deploy containers (deploy_sweep.go), image garbage collection
  (image_gc.go), deletion of services and applications (delete_v2.go), and deletion and purge of
  databases (database_lifecycle.go).  One round of each loop is a definition; tickers and logging
  are not modelled.  As for deployments, others may
  change the database whenever the loop looks at it.
\<close>

section \<open>Sweeping orphaned containers\<close>

definition mark_removed :: "'d host \<Rightarrow> string \<Rightarrow> 'd world \<Rightarrow> 'd world" where
  "mark_removed H rowID w = snd (on_store H (\<lambda>t. set_container_status rowID ''REMOVED'' (tn_now t)) w)"

definition owned_by_row :: "inspection \<Rightarrow> sweepable_container \<Rightarrow> bool" where
  "owned_by_row i c \<longleftrightarrow> label (insp_Labels i) ResourceTypeLabel = ''application-container'' \<and>
     label (insp_Labels i) ServiceIDLabel = sw_service_id c \<and>
     label (insp_Labels i) EnvironmentIDLabel = sw_environment_id c"

definition sweep_container :: "'d host \<Rightarrow> sweepable_container \<Rightarrow> 'd world \<Rightarrow> bool \<times> 'd world" where
  "sweep_container H c w =
     (case InspectManagedContainer (h_engine H) (sw_docker_container_id c) w of
        (Inl e, w1) \<Rightarrow> (False, if de_not_found e then mark_removed H (sw_container_row_id c) w1 else w1)
      | (Inr i, w1) \<Rightarrow>
          if \<not> owned_by_row i c then (False, w1)
          else (case StopAndRemove (h_engine H) (sw_docker_container_id c) w1 of
             (Inl _, w2) \<Rightarrow> (False, w2)
           | (Inr _, w2) \<Rightarrow> (True, mark_removed H (sw_container_row_id c) w2)))"

fun sweep_containers :: "'d host \<Rightarrow> sweepable_container list \<Rightarrow> 'd world \<Rightarrow> nat \<times> 'd world" where
  "sweep_containers H [] w = (0, w)"
| "sweep_containers H (c # cs) w =
     (case sweep_container H c w of
        (gone, w1) \<Rightarrow> (case sweep_containers H cs w1 of (n, w2) \<Rightarrow> (if gone then Suc n else n, w2)))"

definition SweepOrphanedDeployContainers :: "'d host \<Rightarrow> ('d, nat) wact" where
  "SweepOrphanedDeployContainers H =
     attemptW (read_store H (\<lambda>s. Inr (ListSweepableDeployContainers s))) (\<lambda>e w. (Inl e, w)) (\<lambda>candidates w.
       case sweep_containers H candidates w of (n, w1) \<Rightarrow> (Inr n, w1))"

section \<open>Image garbage collection\<close>

definition deployImageRepoPrefix :: string where "deployImageRepoPrefix = ''hostforge/''"

fun sweep_tags :: "'d moby \<Rightarrow> string set \<Rightarrow> string list \<Rightarrow> 'd world \<Rightarrow> nat \<times> 'd world" where
  "sweep_tags M keep [] w = (0, w)"
| "sweep_tags M keep (tag # tags) w =
     (if tag \<in> keep then sweep_tags M keep tags w
      else (case RemoveImageIfUnused M tag w of
        (r, w1) \<Rightarrow> (case sweep_tags M keep tags w1 of (n, w2) \<Rightarrow> (if r = Inr True then Suc n else n, w2))))"

definition SweepUnreferencedImages :: "'d host \<Rightarrow> int \<Rightarrow> ('d, nat) wact" where
  "SweepUnreferencedImages H retain =
     attemptW (read_store H (\<lambda>s. Inr (ListRetainedImageRefs retain s))) (\<lambda>e w. (Inl e, w)) (\<lambda>keep.
     attemptW (engine (ListImagesByRepoPrefix (h_engine H) deployImageRepoPrefix)) (\<lambda>e w. (Inl e, w)) (\<lambda>images w.
       case sweep_tags (h_engine H) keep (concat (map snd images)) w of (n, w1) \<Rightarrow> (Inr n, w1)))"

section \<open>Deleting services and applications\<close>

definition notifyCaddyAfterDelete :: "'d host \<Rightarrow> config \<Rightarrow> 'd world \<Rightarrow> 'd world" where
  "notifyCaddyAfterDelete H cfg w =
     (if \<not> h_notifier H \<or> (\<not> cf_SyncCaddy cfg \<and> \<not> cf_DomainSyncAfterMutate cfg) then w
      else w\<lparr>w_notified := w_notified w + 1\<rparr>)"

text \<open>The containers of a service that are not yet removed, each once, with their images.\<close>

fun service_artifacts :: "deployment_row list \<Rightarrow> string list \<Rightarrow> store \<Rightarrow> (string \<times> string) list" where
  "service_artifacts [] seen s = []"
| "service_artifacts (d # ds) seen s =
     (case fst (GetContainerByDeploymentID (dep_id d) s) of
        Inl _ \<Rightarrow> service_artifacts ds seen s
      | Inr c \<Rightarrow>
          (let containerID = trim (ct_docker_container_id c)
           in if containerID = [] \<or> to_upper (trim (ct_status c)) = ''REMOVED'' \<or> containerID \<in> set seen
              then service_artifacts ds seen s
              else (containerID, trim (dep_image_ref d)) # service_artifacts ds (containerID # seen) s))"

definition retention_required :: err_chain where
  "retention_required = ErrCode ''database_service_delete_requires_retention''
     [Text ''database services require the retained-volume deletion workflow'']"

text \<open>The lookups of \<open>cleanupServiceRuntime\<close> see one state of the database.\<close>

definition runtime_artifacts :: "string \<Rightarrow> store \<Rightarrow> err_chain + (string \<times> string) list" where
  "runtime_artifacts sid s =
     (case fst (GetService sid s) of
        Inl e \<Rightarrow> Inl (repo_err e)
      | Inr (service, _) \<Rightarrow>
          if svc_service_type service \<noteq> ''application'' then Inl retention_required
          else Inr (service_artifacts (ListServiceDeployments sid [] 500 s) [] s))"

fun remove_artifacts :: "'d host \<Rightarrow> (string \<times> string) list \<Rightarrow> ('d, unit) wact" where
  "remove_artifacts H [] w = (Inr (), w)"
| "remove_artifacts H ((containerID, imageRef) # as) w =
     (case engine (StopAndRemove (h_engine H) containerID) w of
        (Inl e, w1) \<Rightarrow> (Inl (ErrCode ''delete_container_failed'' e), w1)
      | (Inr _, w1) \<Rightarrow>
          remove_artifacts H as (if imageRef = [] then w1 else snd (RemoveImage (h_engine H) imageRef w1)))"

definition cleanupServiceRuntime :: "'d host \<Rightarrow> string \<Rightarrow> ('d, unit) wact" where
  "cleanupServiceRuntime H sid =
     attemptW (read_store H (runtime_artifacts sid)) (\<lambda>e w. (Inl e, w)) (remove_artifacts H)"

definition application_service :: "string \<Rightarrow> store \<Rightarrow> err_chain + unit" where
  "application_service sid s =
     (case fst (GetService sid s) of
        Inl e \<Rightarrow> Inl (repo_err e)
      | Inr (service, _) \<Rightarrow> if svc_service_type service \<noteq> ''application'' then Inl retention_required else Inr ())"

definition DeleteServiceAndRuntime :: "'d host \<Rightarrow> config \<Rightarrow> string \<Rightarrow> ('d, unit) wact" where
  "DeleteServiceAndRuntime H cfg sid =
     attemptW (read_store H (application_service sid)) (\<lambda>e w. (Inl e, w)) (\<lambda>_.
     attemptW (cleanupServiceRuntime H sid) (\<lambda>e w. (Inl e, w)) (\<lambda>_.
     attemptW (on_store H (\<lambda>t. DeleteService sid)) (\<lambda>e w. (Inl e, w)) (\<lambda>_ w.
       (Inr (), notifyCaddyAfterDelete H cfg w))))"

text \<open>\<open>ListApplicationServices\<close> without the stack columns, which the deletion does not read.\<close>

definition ListApplicationServices :: "string \<Rightarrow> store \<Rightarrow> service_row list" where
  "ListApplicationServices applicationID s =
     sql_order svc_name (filter (\<lambda>v. svc_application_id v = trim applicationID) (services s))"

fun cleanup_services :: "'d host \<Rightarrow> service_row list \<Rightarrow> ('d, unit) wact" where
  "cleanup_services H [] w = (Inr (), w)"
| "cleanup_services H (v # vs) w =
     (case cleanupServiceRuntime H (svc_id v) w of (Inl e, w1) \<Rightarrow> (Inl e, w1) | (Inr _, w1) \<Rightarrow> cleanup_services H vs w1)"

fun remove_networks :: "'d host \<Rightarrow> environment_row list \<Rightarrow> 'd world \<Rightarrow> 'd world" where
  "remove_networks H [] w = w"
| "remove_networks H (e # es) w =
     remove_networks H es (snd (RemoveEnvironmentNetworkIfEmpty (h_engine H) (env_id e) w))"

definition application_contents :: "string \<Rightarrow> store \<Rightarrow> err_chain + environment_row list \<times> service_row list" where
  "application_contents applicationID s =
     (let services = ListApplicationServices applicationID s
      in if list_ex (\<lambda>v. svc_service_type v \<noteq> ''application'') services
         then Inl (ErrCode ''application_has_database_services''
           [Text ''delete database services through their retained-volume workflow first''])
         else Inr (ListApplicationEnvironments applicationID s, services))"

definition DeleteApplicationAndRuntime :: "'d host \<Rightarrow> config \<Rightarrow> string \<Rightarrow> ('d, unit) wact" where
  "DeleteApplicationAndRuntime H cfg applicationID =
     attemptW (read_store H (application_contents applicationID)) (\<lambda>e w. (Inl e, w)) (\<lambda>(environments, services).
     attemptW (cleanup_services H services) (\<lambda>e w. (Inl e, w)) (\<lambda>_.
     attemptW (on_store H (\<lambda>t. DeleteApplication applicationID)) (\<lambda>e w. (Inl e, w)) (\<lambda>_ w.
       (Inr (), notifyCaddyAfterDelete H cfg (remove_networks H environments w)))))"

section \<open>Deleting and purging databases\<close>

definition DatabaseVolumeRetention :: int where
  "DatabaseVolumeRetention = 7 * 24 * 60 * 60 * 1000000000"

definition database_engine_of :: "string \<Rightarrow> store \<Rightarrow> err_chain + db_engine" where
  "database_engine_of sid s =
     (case fst (GetService sid s) of
        Inl e \<Rightarrow> Inl (repo_err e)
      | Inr (service, _) \<Rightarrow>
          if svc_service_type service \<noteq> ''database''
          then Inl (ErrCode ''service_type_not_database'' [Text (''service is '' @ svc_service_type service)])
          else (case fst (GetDatabaseService sid s) of
             Inl e \<Rightarrow> Inl (ErrCode ''database_service_not_found'' (repo_err e))
           | Inr ds \<Rightarrow>
               (case FindEngine (ds_engine ds) of
                  None \<Rightarrow> Inl (ErrCode ''database_engine_unsupported'' [Text (''engine '' @ ds_engine ds @ '' is unavailable'')])
                | Some e \<Rightarrow> Inr e)))"

definition has_route :: "database_instance_row \<Rightarrow> store \<Rightarrow> bool" where
  "has_route d s \<longleftrightarrow> \<not> isl (fst (GetDatabaseGatewayRouteByInstance (di_id d) s))"

fun each_instance :: "(database_instance_row \<Rightarrow> ('d, unit) wact) \<Rightarrow> database_instance_row list \<Rightarrow> ('d, unit) wact" where
  "each_instance f [] w = (Inr (), w)"
| "each_instance f (d # ds) w = (case f d w of (Inl e, w1) \<Rightarrow> (Inl e, w1) | (Inr _, w1) \<Rightarrow> each_instance f ds w1)"

definition remove_database_container :: "'d host \<Rightarrow> db_engine \<Rightarrow> database_instance_row \<Rightarrow> ('d, unit) wact" where
  "remove_database_container H e d w =
     (let containerID = trim (di_docker_container_id d)
      in if containerID = [] then (Inr (), w)
         else case InspectManagedContainer (h_engine H) containerID w of
           (Inl err, w1) \<Rightarrow>
             (if de_not_found err then Inr () else Inl (ErrCode ''database_container_inspection_failed'' (de_chain err)), w1)
         | (Inr i, w1) \<Rightarrow>
             if label (insp_Labels i) ResourceTypeLabel \<noteq> ''database-container'' \<or>
                label (insp_Labels i) InstanceIDLabel \<noteq> di_id d
             then (Inl (ErrCode ''database_container_ownership_mismatch''
                 [Text (''container '' @ containerID @ '' does not belong to instance '' @ di_id d)]), w1)
             else (case StopAndRemoveWithTimeout (h_engine H) containerID (en_StopTimeoutSeconds e) w1 of
                 (Inl err, w2) \<Rightarrow> (Inl (ErrCode ''database_container_remove_failed'' (de_chain err)), w2)
               | (Inr _, w2) \<Rightarrow> (Inr (), w2)))"

text \<open>
  \<open>revoke\<close> is the gateway's \<open>revokePostgreSQLGatewayRouteForDeletion\<close>, \<open>None\<close> where the
  configuration or the key it needs is missing.  The result is the retained instances.
\<close>

definition DeleteDatabaseServiceAndRuntime ::
  "'d host \<Rightarrow> (database_instance_row \<Rightarrow> ('d, unit) wact) option \<Rightarrow> string \<Rightarrow> string \<Rightarrow> ('d, database_instance_row list) wact" where
  "DeleteDatabaseServiceAndRuntime H revoke sid actor =
     attemptW (read_store H (database_engine_of sid)) (\<lambda>e w. (Inl e, w)) (\<lambda>eng.
     attemptW (on_store H (\<lambda>t. BeginDatabaseServiceDeletion sid (tn_now t))) (coded ''database_operation_in_progress'') (\<lambda>instances.
     attemptW (read_store H (\<lambda>s. Inr (list_ex (\<lambda>d. has_route d s) instances))) (coded ''database_gateway_route_lookup_failed'') (\<lambda>routed.
     attemptW (if \<not> routed then (\<lambda>w. (Inr (), w))
               else (case revoke of
                  None \<Rightarrow> coded ''database_gateway_revocation_unavailable''
                    [Text ''gateway configuration and encryption key are required to revoke external access'']
                | Some f \<Rightarrow> attemptW (each_instance f instances) (coded ''database_gateway_revocation_failed'') (\<lambda>_ w. (Inr (), w))))
       (\<lambda>e w. (Inl e, w)) (\<lambda>_.
     attemptW (each_instance (remove_database_container H eng) instances) (\<lambda>e w. (Inl e, w)) (\<lambda>_.
     attemptW (on_store H (\<lambda>t. FinalizeDatabaseServiceDeletion sid DatabaseVolumeRetention actor (tn_newID t) (tn_now t)))
       (coded ''database_retention_state_failed'') (\<lambda>retained w. (Inr retained, w)))))))"

definition purgeable :: "string \<Rightarrow> instant \<Rightarrow> store \<Rightarrow> err_chain + service_row \<times> database_instance_row list" where
  "purgeable sid at s =
     (case fst (GetService sid s) of
        Inl e \<Rightarrow> Inl (ErrCode ''database_service_not_found'' (repo_err e))
      | Inr (service, _) \<Rightarrow>
          (let instances = ListDatabaseInstances sid s
           in if instances = [] then Inl (ErrCode ''database_service_not_found'' [Text ''database_service_not_found''])
              else (case find (\<lambda>d. \<not> purge_eligible at d) instances of
                 Some d \<Rightarrow> Inl (ErrCode ''database_retention_active'' [Text (''instance '' @ di_id d @ '' is not eligible for purge'')])
               | None \<Rightarrow>
                   (case fst (EnsureDatabaseServicePurgeReady sid s) of
                      Inl e \<Rightarrow> Inl (ErrCode ''database_purge_operation_active'' (repo_err e))
                    | Inr _ \<Rightarrow> Inr (service, instances)))))"

definition purge_volume :: "'d host \<Rightarrow> database_instance_row \<Rightarrow> ('d, unit) wact" where
  "purge_volume H d =
     attemptW (engine (RemoveManagedDatabaseVolume (h_engine H) (di_volume_name d) (di_id d)))
       (coded ''database_volume_purge_failed'') (\<lambda>_ w. (Inr (), w))"

definition purge_event :: "service_row \<Rightarrow> string \<Rightarrow> platform_event_input" where
  "purge_event v actor =
     \<lparr> pei_application_id = svc_application_id v, pei_service_id = svc_id v, pei_environment_id = [],
       pei_deployment_id = [], pei_event_type = ''database'', pei_status = ''purged'', pei_actor = trim actor,
       pei_message = ''Database volumes permanently purged'', pei_detail = svc_name v \<rparr>"

definition purge_network :: "'d host \<Rightarrow> database_instance_row \<Rightarrow> ('d, unit) wact" where
  "purge_network H d w =
     (case read_store H (\<lambda>s. Inr (EnvironmentHasRetainedDatabaseInstances (di_environment_id d) s)) w of
        (Inr False, w1) \<Rightarrow> (Inr (), snd (RemoveEnvironmentNetworkIfEmpty (h_engine H) (di_environment_id d) w1))
      | (_, w1) \<Rightarrow> (Inr (), w1))"

definition PurgeDatabaseServiceAndRuntime :: "'d host \<Rightarrow> string \<Rightarrow> instant \<Rightarrow> string \<Rightarrow> ('d, unit) wact" where
  "PurgeDatabaseServiceAndRuntime H sid at actor =
     attemptW (read_store H (purgeable sid at)) (\<lambda>e w. (Inl e, w)) (\<lambda>(service, instances).
     attemptW (each_instance (purge_volume H) instances) (\<lambda>e w. (Inl e, w)) (\<lambda>_.
     attemptW (on_store H (\<lambda>t. RecordPlatformEvent (purge_event service actor) (tn_now t))) (coded ''database_purge_audit_failed'') (\<lambda>_.
     attemptW (on_store H (\<lambda>t. PurgeDatabaseServiceRecords sid at)) (coded ''database_record_purge_failed'') (\<lambda>_.
       each_instance (purge_network H) instances))))"

text \<open>The services due are visited in the order of a map iteration, an argument.\<close>

fun purge_services :: "'d host \<Rightarrow> string list \<Rightarrow> instant \<Rightarrow> 'd world \<Rightarrow> 'd world" where
  "purge_services H [] at w = w"
| "purge_services H (i # is) at w = purge_services H is at (snd (PurgeDatabaseServiceAndRuntime H i at ''system'' w))"

definition purgeDueDatabaseServices :: "'d host \<Rightarrow> (string list \<Rightarrow> string list) \<Rightarrow> instant \<Rightarrow> 'd world \<Rightarrow> 'd world" where
  "purgeDueDatabaseServices H order at w =
     (case read_store H (\<lambda>s. Inr (ListDatabaseInstancesDueForPurge at 100 s)) w of
        (Inl _, w1) \<Rightarrow> w1
      | (Inr due, w1) \<Rightarrow> purge_services H (order (remdups (map di_service_id due))) at w1)"

end
