(* ===== verification/HF_Reconcile.thy ===== *)
theory HF_Reconcile
  imports HF_Sweeps
begin

text \<open>
  One round of the loops of internal/services that follow the engine and the clock: the reconciliation of database
  instances with what the engine reports (database_reconcile.go), and the backup schedule and the
  retention of backups (database_backup_schedule.go).  The command runner of the engine, the cron
  library and the object store are arguments.
\<close>

section \<open>Reconciling database instances\<close>

definition state_input :: "string \<Rightarrow> string \<Rightarrow> go_time \<Rightarrow> instance_state_input" where
  "state_input status message checkedAt =
     \<lparr> is_DockerContainerID = [], is_ClearContainerID = False, is_DesiredState = [], is_Status = status,
       is_HealthMessage = message, is_HealthCheckedAt = checkedAt, is_StorageUsedBytes = None,
       is_StorageCheckedAt = None \<rparr>"

definition set_state :: "'d host \<Rightarrow> database_instance_row \<Rightarrow> (turn \<Rightarrow> instance_state_input) \<Rightarrow> 'd world \<Rightarrow> 'd world" where
  "set_state H d f w = snd (on_store H (\<lambda>t. UpdateDatabaseInstanceState (di_id d) (f t) (tn_now t)) w)"

definition failed_with :: "'d host \<Rightarrow> database_instance_row \<Rightarrow> string \<Rightarrow> 'd world \<Rightarrow> 'd world" where
  "failed_with H d message = set_state H d (\<lambda>_. state_input ''failed'' message None)"

definition checked_as :: "'d host \<Rightarrow> database_instance_row \<Rightarrow> string \<Rightarrow> string \<Rightarrow> 'd world \<Rightarrow> 'd world" where
  "checked_as H d status message = set_state H d (\<lambda>t. state_input status message (Some (tn_now t)))"

definition databaseRuntimeConfigurationDrift :: "inspection \<Rightarrow> database_instance_row \<Rightarrow> db_engine \<Rightarrow> bool \<Rightarrow> bool" where
  "databaseRuntimeConfigurationDrift i d e aliasFound \<longleftrightarrow>
     insp_ImageRef i \<noteq> di_image_ref d \<or> insp_NanoCPUs i \<noteq> nano_cpus (di_cpu_limit_millis d) \<or>
     insp_MemoryBytes i \<noteq> di_memory_limit_bytes d \<or> insp_PublishedPorts i \<or>
     label (rev (insp_VolumeMounts i)) (di_volume_name d) \<noteq> en_VolumeTarget e \<or> \<not> aliasFound"

definition databaseManagedContainerDrift :: "inspection \<Rightarrow> database_instance_row \<Rightarrow> db_engine \<Rightarrow> bool" where
  "databaseManagedContainerDrift i d e =
     (if label (insp_Labels i) ResourceTypeLabel \<noteq> ''database-container'' \<or>
         label (insp_Labels i) InstanceIDLabel \<noteq> di_id d \<or>
         label (insp_Labels i) ServiceIDLabel \<noteq> di_service_id d \<or>
         label (insp_Labels i) EnvironmentIDLabel \<noteq> di_environment_id d then True
      else databaseRuntimeConfigurationDrift i d e
        (case map_of (insp_NetworkAliases i) (EnvironmentNetworkName (di_environment_id d)) of
           None \<Rightarrow> False | Some al \<Rightarrow> di_network_alias d \<in> set al))"

definition volume_labels :: "service_row \<Rightarrow> database_instance_row \<Rightarrow> labels" where
  "volume_labels v d = [(ApplicationIDLabel, svc_application_id v), (EnvironmentIDLabel, di_environment_id d),
     (ServiceIDLabel, svc_id v), (InstanceIDLabel, di_id d)]"

text \<open>The health check proper, and the storage figure that goes with it.\<close>

definition reconcile_health ::
  "'d host \<Rightarrow> 'd exec \<Rightarrow> (string \<times> int) list \<Rightarrow> database_instance_row \<Rightarrow> string \<Rightarrow> (string \<Rightarrow> err_chain + string) \<Rightarrow> 'd world \<Rightarrow> 'd world" where
  "reconcile_health H E usage d eng unseal w =
     (case read_store H (\<lambda>s. case fst (GetDatabaseCredentialSealed (di_id d) s) of Inl e \<Rightarrow> Inl (repo_err e) | Inr c \<Rightarrow> Inr c) w of
        (Inl _, w1) \<Rightarrow> w1
      | (Inr c, w1) \<Rightarrow>
          (case (unseal (dc_password_ct c), unseal (dc_admin_password_ct c)) of
             (Inr password, Inr adminPassword) \<Rightarrow>
               (case io (checkDatabaseHealth E (di_docker_container_id d) eng c password adminPassword) w1 of
                  (health, w2) \<Rightarrow>
                    set_state H d (\<lambda>t. (state_input (if isl health then ''unhealthy'' else ''healthy'')
                        (if isl health then eng @ '' authenticated health check failed'' else ''ready'') (Some (tn_now t)))
                      \<lparr>is_StorageUsedBytes := map_of usage (di_volume_name d),
                       is_StorageCheckedAt := (if map_of usage (di_volume_name d) = None then None else Some (tn_now t))\<rparr>) w2)
           | _ \<Rightarrow> checked_as H d ''unhealthy'' ''database credentials could not be decrypted'' w1))"

definition reconcile_container ::
  "'d host \<Rightarrow> 'd exec \<Rightarrow> (string \<times> int) list \<Rightarrow> database_instance_row \<Rightarrow> string \<Rightarrow> db_engine \<Rightarrow> 'd world \<Rightarrow> 'd world" where
  "reconcile_container H E usage d eng e w =
     (case InspectManagedContainer (h_engine H) (di_docker_container_id d) w of
        (Inl err, w1) \<Rightarrow>
          set_state H d (\<lambda>_. (state_input ''failed''
              (if de_not_found err then ''managed database container is missing'' else ''database container inspection failed'') None)
            \<lparr>is_ClearContainerID := de_not_found err\<rparr>) w1
      | (Inr i, w1) \<Rightarrow>
          if databaseManagedContainerDrift i d e then failed_with H d ''managed database runtime configuration drift detected'' w1
          else if label (insp_Labels i) ResourceTypeLabel \<noteq> ''database-container'' \<or> label (insp_Labels i) InstanceIDLabel \<noteq> di_id d
          then failed_with H d ''database container ownership mismatch'' w1
          else if di_desired_state d = ''stopped''
          then (if insp_Running i then checked_as H d ''unhealthy'' ''container is running despite stopped desired state'' w1
                else checked_as H d ''stopped'' ''stopped by operator'' w1)
          else if \<not> insp_Running i then checked_as H d ''unhealthy'' ''database container is not running'' w1
          else (case h_sealer H of None \<Rightarrow> w1 | Some unseal \<Rightarrow> reconcile_health H E usage d eng unseal w1))"

definition catalog_identity :: "database_instance_row \<Rightarrow> store \<Rightarrow> err_chain + service_row \<times> db_engine" where
  "catalog_identity d s =
     (case (fst (GetService (di_service_id d) s), fst (GetDatabaseService (di_service_id d) s)) of
        (Inr (v, _), Inr ds) \<Rightarrow> (case FindEngine (ds_engine ds) of None \<Rightarrow> Inl [] | Some e \<Rightarrow> Inr (v, e))
      | _ \<Rightarrow> Inl [])"

definition reconcile_instance :: "'d host \<Rightarrow> 'd exec \<Rightarrow> (string \<times> int) list \<Rightarrow> database_instance_row \<Rightarrow> 'd world \<Rightarrow> 'd world" where
  "reconcile_instance H E usage d w =
     (if \<not> instance_live d \<or> di_desired_state d = ''deleted'' \<or> trim (di_docker_container_id d) = [] then w
      else case read_store H (catalog_identity d) w of
        (Inl _, w1) \<Rightarrow> failed_with H d ''database catalog identity is unavailable'' w1
      | (Inr (v, e), w1) \<Rightarrow>
          (case ValidateEnvironmentNetwork (h_engine H) (svc_application_id v) (di_environment_id d) w1 of
             (Inl _, w2) \<Rightarrow> failed_with H d ''private environment network is missing or mismatched'' w2
           | (Inr _, w2) \<Rightarrow>
               (case ValidateManagedVolume (h_engine H) (di_volume_name d) (volume_labels v d) w2 of
                  (Inl _, w3) \<Rightarrow> failed_with H d ''persistent database volume is missing or mismatched'' w3
                | (Inr _, w3) \<Rightarrow> reconcile_container H E usage d (en_ID e) e w3)))"

fun reconcile_all :: "'d host \<Rightarrow> 'd exec \<Rightarrow> (string \<times> int) list \<Rightarrow> database_instance_row list \<Rightarrow> 'd world \<Rightarrow> 'd world" where
  "reconcile_all H E usage [] w = w"
| "reconcile_all H E usage (d # ds) w = reconcile_all H E usage ds (reconcile_instance H E usage d w)"

definition reconcileDatabaseInstances :: "'d host \<Rightarrow> 'd exec \<Rightarrow> 'd world \<Rightarrow> 'd world" where
  "reconcileDatabaseInstances H E w =
     (case read_store H (\<lambda>s. Inr (ListAllDatabaseInstances s)) w of
        (Inl _, w1) \<Rightarrow> w1
      | (Inr instances, w1) \<Rightarrow>
          if instances = [] then w1
          else (case ManagedVolumeUsage (h_engine H) w1 of
             (r, w2) \<Rightarrow> reconcile_all H E (case r of Inl _ \<Rightarrow> [] | Inr usage \<Rightarrow> rev usage) instances w2))"

section \<open>Scheduled backups\<close>

text \<open>\<open>next_run\<close> is \<open>NextDatabaseBackupSchedule\<close>: the cron library on a schedule and a time zone.\<close>

definition queue_due_backup ::
  "'d host \<Rightarrow> (string \<Rightarrow> string \<Rightarrow> instant \<Rightarrow> err_chain + instant) \<Rightarrow> instant \<Rightarrow> int \<Rightarrow> backup_policy_row \<Rightarrow> 'd world \<Rightarrow> 'd world" where
  "queue_due_backup H next_run now maxTransfersPerHour p w =
     (case next_run (bp_schedule p) (bp_timezone p) now of
        Inl _ \<Rightarrow> w
      | Inr nxt \<Rightarrow>
          (case on_store H (\<lambda>t. QueueDatabaseBackup (bp_database_instance_id p) (bp_destination_id p) ''scheduled'' ''scheduler''
                 (bp_retention_days p) maxTransfersPerHour (tn_ids t) (tn_now t)) w of
             (Inl _, w1) \<Rightarrow> w1
           | (Inr _, w1) \<Rightarrow>
               snd (on_store H (\<lambda>t. AdvanceDatabaseBackupPolicySchedule (bp_database_instance_id p) (Some now) (Some nxt) (tn_now t)) w1)))"

definition queueDueDatabaseBackups ::
  "'d host \<Rightarrow> (string \<Rightarrow> string \<Rightarrow> instant \<Rightarrow> err_chain + instant) \<Rightarrow> instant \<Rightarrow> int \<Rightarrow> 'd world \<Rightarrow> 'd world" where
  "queueDueDatabaseBackups H next_run now maxTransfersPerHour w =
     (case read_store H (\<lambda>s. case ListDueDatabaseBackupPolicies now 100 s of Inl e \<Rightarrow> Inl (repo_err e) | Inr ps \<Rightarrow> Inr ps) w of
        (Inl _, w1) \<Rightarrow> w1
      | (Inr policies, w1) \<Rightarrow> fold (queue_due_backup H next_run now maxTransfersPerHour) policies w1)"

section \<open>Retention of backups\<close>

text \<open>
  \<open>open_store\<close> builds a client for a destination from its opened keys; the client deletes an object.
\<close>

type_synonym 'd object_store =
  "backup_destination_row \<Rightarrow> string \<Rightarrow> string \<Rightarrow> err_chain + (string \<Rightarrow> 'd \<Rightarrow> (err_chain + unit) \<times> 'd)"

definition purge_backup :: "'d host \<Rightarrow> 'd object_store \<Rightarrow> (string \<Rightarrow> err_chain + string) \<Rightarrow> database_backup_row \<Rightarrow> 'd world \<Rightarrow> 'd world" where
  "purge_backup H open_store unseal b w =
     (case read_store H (\<lambda>s. case fst (GetBackupDestinationSealed (coalesce (bk_destination_id b)) s) of Inl e \<Rightarrow> Inl (repo_err e) | Inr d \<Rightarrow> Inr d) w of
        (Inl _, w1) \<Rightarrow> w1
      | (Inr dest, w1) \<Rightarrow>
          (case (unseal (bkd_access_key_ct dest), unseal (bkd_secret_key_ct dest)) of
             (Inr access, Inr secret) \<Rightarrow>
               (case open_store dest access secret of
                  Inl _ \<Rightarrow> w1
                | Inr delete \<Rightarrow>
                    (case io (delete (bk_object_key b)) (snd (on_store H (\<lambda>t. MarkDatabaseBackupDeleting (bk_id b) (tn_now t)) w1)) of
                       (Inl _, w2) \<Rightarrow> w2
                     | (Inr _, w2) \<Rightarrow> snd (on_store H (\<lambda>t. DeleteDatabaseBackupRecord (bk_id b)) w2)))
           | _ \<Rightarrow> w1))"

definition purgeExpiredDatabaseBackups :: "'d host \<Rightarrow> 'd object_store \<Rightarrow> (string \<Rightarrow> err_chain + string) \<Rightarrow> instant \<Rightarrow> 'd world \<Rightarrow> 'd world" where
  "purgeExpiredDatabaseBackups H open_store unseal now w =
     (case read_store H (\<lambda>s. Inr (ListExpiredDatabaseBackups now 100 s)) w of
        (Inl _, w1) \<Rightarrow> w1
      | (Inr backups, w1) \<Rightarrow> fold (purge_backup H open_store unseal) backups w1)"

end
