(* ===== verification/HF_Deploy.thy ===== *)
theory HF_Deploy
  imports HF_Deploy_Jobs
begin

text \<open>
  \<open>ExecuteDeploy\<close> (internal/services/deploy.go): clone, build, start a candidate container, probe it, and
  only then switch the service over and take down the container it replaces.  The phases are
  definitions of their own, in the order of the code; each early return is a branch.  What is
  written to the logs, and durations, are not modelled.
\<close>

section \<open>Failing and cancelling\<close>

definition record_step :: "string \<Rightarrow> string \<Rightarrow> string \<Rightarrow> 'd world \<Rightarrow> 'd world" where
  "record_step step status code w = w\<lparr>w_steps := w_steps w @ [(step, status, code)]\<rparr>"

definition deploymentID :: "deploy_job \<Rightarrow> string" where
  "deploymentID job = dep_id (dj_Deployment job)"

definition mark_failed :: "'d host \<Rightarrow> deploy_job \<Rightarrow> err_chain \<Rightarrow> 'd world \<Rightarrow> 'd world" where
  "mark_failed H job stepErr w =
     (case look H w of
        (t, w1) \<Rightarrow>
          if tn_done t then detached H (\<lambda>t. CancelDeployment (deploymentID job) (tn_now t)) w1
          else (let code0 = FirstPublicCode stepErr; code = (if code0 = ''internal_error'' then ''deploy_failed'' else code0)
                in snd (on_store H (\<lambda>t. UpdateDeploymentStatus (deploymentID job) DeploymentFailed code (tn_now t)) w1)))"

definition fail_with :: "'d host \<Rightarrow> deploy_job \<Rightarrow> err_chain \<Rightarrow> ('d, 'a) wact" where
  "fail_with H job e w = (Inl e, mark_failed H job e w)"

definition fail_step :: "'d host \<Rightarrow> deploy_job \<Rightarrow> string \<Rightarrow> err_chain \<Rightarrow> ('d, 'a) wact" where
  "fail_step H job step e w = (Inl e, record_step step ''failed'' (FirstPublicCode e) (mark_failed H job e w))"

definition stepBoundary :: "'d host \<Rightarrow> deploy_job \<Rightarrow> ('d world \<Rightarrow> 'd world) \<Rightarrow> string \<Rightarrow> ('d, unit) wact" where
  "stepBoundary H job cleanup step w =
     (case look H w of
        (t, w1) \<Rightarrow>
          if \<not> tn_done t then (Inr (), w1)
          else (let e = ErrCode ''deploy_cancelled'' [Text (''deploy cancelled before '' @ step), Canceled]
                in (Inl e, record_step step ''cancelled'' ''deploy_cancelled'' (mark_failed H job e (cleanup w1)))))"

definition cleanupCandidateContainer :: "'d host \<Rightarrow> string \<Rightarrow> string \<Rightarrow> 'd world \<Rightarrow> 'd world" where
  "cleanupCandidateContainer H containerID containerRowID w =
     (case StopAndRemove (h_engine H) containerID w of
        (Inl _, w1) \<Rightarrow> w1
      | (Inr _, w1) \<Rightarrow> detached H (\<lambda>t. set_container_status containerRowID ''REMOVED'' (tn_now t)) w1)"

definition stop_here :: "err_chain \<Rightarrow> ('d, 'a) wact" where
  "stop_here e w = (Inl e, w)"

section \<open>Checkout\<close>

text \<open>The commit that was checked out.\<close>

definition deploy_checkout :: "'d host \<Rightarrow> deploy_job \<Rightarrow> ('d, string) wact" where
  "deploy_checkout H job =
     attemptW (on_store H (\<lambda>t. UpdateDeploymentStatus (deploymentID job) DeploymentBuilding [] (tn_now t)))
       (\<lambda>e. stop_here (ErrCode ''deployment_state_update_failed'' (Text ''deployment state'' # e))) (\<lambda>_.
     attemptW (io (h_MkdirAll H (dir_path (dj_LogsPath job)))) (\<lambda>e. fail_with H job (ErrCode ''deploy_mkdir_logs_failed'' e)) (\<lambda>_.
     attemptW (io (h_OpenLog H (dj_LogsPath job))) (\<lambda>e. fail_with H job (ErrCode ''deploy_log_open_failed'' e)) (\<lambda>_.
     attemptW (stepBoundary H job id ''clone'') stop_here (\<lambda>_.
     attemptW (resolveDeployGitAuth H job) (\<lambda>e. fail_with H job (ErrCode ''git_auth_prepare_failed'' e)) (\<lambda>auth.
     attemptW (io (h_CloneOrUpdate H (dj_RepoURL job) (dj_Branch job) (dj_Worktree job) auth))
       (\<lambda>e. fail_step H job ''clone'' (ErrCode ''clone_failed'' e)) (\<lambda>_.
     attemptW (stepBoundary H job id ''checkout'') stop_here (\<lambda>_.
     attemptW (if trim (dep_commit_hash (dj_Deployment job)) = [] then (\<lambda>w. (Inr (), w))
               else io (h_CheckoutCommit H (dj_Worktree job) (trim (dep_commit_hash (dj_Deployment job)))))
       (\<lambda>e. fail_with H job (ErrCode ''commit_checkout_failed'' e)) (\<lambda>_.
     attemptW (io (h_HeadCommit H (dj_Worktree job))) (\<lambda>e. fail_with H job (ErrCode ''commit_lookup_failed'' e)) (\<lambda>commit.
     attemptW (on_store H (\<lambda>t. UpdateDeploymentCommitHash (deploymentID job) commit (tn_now t)))
       (\<lambda>e. fail_with H job (ErrCode ''deployment_commit_update_failed'' e)) (\<lambda>_ w.
     (Inr commit, record_step ''clone'' ''ok'' [] w)))))))))))"

section \<open>Build\<close>

definition build_request_of :: "'d host \<Rightarrow> deploy_job \<Rightarrow> string list \<Rightarrow> build_request" where
  "build_request_of H job extraEnv =
     (let v = dt_Service (dj_Target job)
      in \<lparr> br_Worktree = dj_BuildDirectory job, br_ImageRef = dj_ImageRef job, br_Platform = h_platform H,
           br_CacheKey = serviceID job, br_Runtime = svc_deploy_runtime v, br_InstallCmd = svc_install_cmd v,
           br_BuildCmd = svc_build_cmd v, br_StartCmd = svc_start_cmd v, br_BuildSecrets = dockerEnvMap extraEnv \<rparr>)"

text \<open>What was detected is recorded; that these writes fail does not fail the deployment.\<close>

definition record_build :: "'d host \<Rightarrow> deploy_job \<Rightarrow> build_result \<Rightarrow> 'd world \<Rightarrow> 'd world" where
  "record_build H job b w =
     (let w1 = snd (on_store H (\<lambda>t. UpdateDeploymentBuilder (deploymentID job) (bs_Kind b) (bs_StackKind b) (bs_StackLabel b) (tn_now t)) w)
      in record_step ''railpack_build'' ''ok'' []
           (if bs_PlanJSON b \<noteq> [] \<or> bs_InfoJSON b \<noteq> []
            then snd (on_store H (\<lambda>t. UpdateDeploymentRailpackArtifacts (deploymentID job) (bs_PlanJSON b) (bs_InfoJSON b) (tn_now t)) w1)
            else w1))"

text \<open>The host port, the environment of the container and the detected stack.\<close>

definition deploy_build :: "'d host \<Rightarrow> config \<Rightarrow> deploy_job \<Rightarrow> ('d, int \<times> string list \<times> string) wact" where
  "deploy_build H cfg job =
     attemptW (read_store H (\<lambda>s. Inr (ListAllocatedHostPorts [] s)))
       (\<lambda>e. fail_with H job (ErrCode ''reserved_ports_lookup_failed'' e)) (\<lambda>reservedPorts.
     attemptW (engine (PickHostPortAvoiding (h_engine H) (cf_HostPort cfg) (cf_PortStart cfg) (cf_PortEnd cfg) reservedPorts))
       (\<lambda>e. fail_with H job (ErrCode ''host_port_selection_failed'' e)) (\<lambda>hostPort.
     attemptW (read_store H (buildDockerEnvFromEnvironment (h_sealer H) (svc_application_id (dt_Service (dj_Target job)))
         (environmentID job) (serviceID job))) (fail_with H job) (\<lambda>extraEnv.
     attemptW (stepBoundary H job id ''railpack_build'') stop_here (\<lambda>_.
     attemptW (io (h_build H cfg (build_request_of H job extraEnv)))
       (\<lambda>e. fail_step H job ''railpack_build'' (ErrCode ''railpack_build_failed'' e)) (\<lambda>b w.
     (Inr (hostPort, extraEnv, bs_StackKind b), record_build H job b w))))))"

section \<open>The candidate container\<close>

definition candidate_options :: "config \<Rightarrow> deploy_job \<Rightarrow> int \<Rightarrow> string list \<Rightarrow> run_options" where
  "candidate_options cfg job hostPort extraEnv =
     \<lparr> ro_ImageRef = dj_ImageRef job, ro_ContainerName = dj_ContainerName job, ro_ContainerPort = internalPort job cfg,
       ro_HostPort = hostPort, ro_NetworkName = EnvironmentNetworkName (environmentID job), ro_NetworkAliases = [],
       ro_Labels = [(ManagedLabel, ''true''), (ResourceTypeLabel, ''application-container''),
         (ApplicationIDLabel, app_id (dt_Application (dj_Target job))), (EnvironmentIDLabel, environmentID job),
         (ServiceIDLabel, serviceID job)],
       ro_Env = extraEnv, ro_MemoryLimitBytes = cf_AppContainerMemoryLimitBytes cfg,
       ro_CPULimitMillis = cf_AppContainerCPULimitMillis cfg, ro_PidsLimit = cf_AppContainerPidsLimit cfg \<rparr>"

text \<open>The engine's id of the candidate, and its row.\<close>

definition deploy_candidate :: "'d host \<Rightarrow> config \<Rightarrow> deploy_job \<Rightarrow> int \<Rightarrow> string list \<Rightarrow> ('d, string \<times> container_row) wact" where
  "deploy_candidate H cfg job hostPort extraEnv =
     attemptW (stepBoundary H job id ''container_start'') stop_here (\<lambda>_.
     attemptW (engine (EnsureEnvironmentNetwork (h_engine H) (app_id (dt_Application (dj_Target job))) (environmentID job)))
       (\<lambda>e. fail_step H job ''container_start'' (ErrCode ''environment_network_failed'' e)) (\<lambda>_.
     attemptW (engine (RunContainer (h_engine H) (candidate_options cfg job hostPort extraEnv)))
       (\<lambda>e. fail_step H job ''container_start'' (ErrCode ''run_container_failed'' e)) (\<lambda>containerID.
     attemptW (on_store H (\<lambda>t. AttachContainer \<lparr> aci_deployment_id = deploymentID job, aci_docker_container_id = containerID,
         aci_internal_port = internalPort job cfg, aci_host_port = hostPort, aci_status = ''RUNNING'' \<rparr> (tn_newID t) (tn_now t)))
       (\<lambda>e. fail_step H job ''container_start'' (ErrCode ''container_attach_failed'' e)) (\<lambda>row w.
     (Inr (containerID, row), record_step ''container_start'' ''ok'' [] w)))))"

section \<open>The health check\<close>

definition probe_text :: "string \<Rightarrow> int \<Rightarrow> string" where
  "probe_text target attempts = ''probe '' @ target @ '' failed after '' @ show_int attempts @ '' attempts''"

definition probe_failed :: "string \<Rightarrow> int \<Rightarrow> err_chain \<Rightarrow> err_chain" where
  "probe_failed target attempts lastErr =
     Text (probe_text target attempts) # (if lastErr = [] then [Text ''%!w(<nil>)''] else lastErr)"

definition expected_status :: "config \<Rightarrow> int \<Rightarrow> bool" where
  "expected_status cfg code \<longleftrightarrow> cf_HealthExpectedMin cfg \<le> code \<and> code \<le> cf_HealthExpectedMax cfg"

definition unexpected_status :: "config \<Rightarrow> int \<Rightarrow> err_chain" where
  "unexpected_status cfg code = [Text (''unexpected status code '' @ show_int code @ '' (expected '' @
     range_text (cf_HealthExpectedMin cfg) (cf_HealthExpectedMax cfg) @ '')'')]"

definition probe_once :: "'d host \<Rightarrow> config \<Rightarrow> string \<Rightarrow> 'd world \<Rightarrow> (err_chain + int) \<times> 'd world" where
  "probe_once H cfg target w =
     (case io (h_probe H target (cf_HealthTimeoutMS cfg)) w of (r, w1) \<Rightarrow> (r, w1\<lparr>w_probes := w_probes w1 @ [r]\<rparr>))"

text \<open>The loop with n attempts left; \<open>lastErr\<close> is what the previous attempt failed with.\<close>

fun probe_loop :: "nat \<Rightarrow> 'd host \<Rightarrow> config \<Rightarrow> string \<Rightarrow> err_chain \<Rightarrow> ('d, unit) wact" where
  "probe_loop 0 H cfg target lastErr w = (Inl (probe_failed target (cf_HealthRetries cfg) lastErr), w)"
| "probe_loop (Suc n) H cfg target lastErr w =
     (case h_NewRequest H target of
        Some e \<Rightarrow> (Inl (Text ''build health request'' # e), w)
      | None \<Rightarrow>
          (case probe_once H cfg target w of
             (r, w1) \<Rightarrow>
               if (case r of Inr code \<Rightarrow> expected_status cfg code | Inl _ \<Rightarrow> False) then (Inr (), w1)
               else (let err = (case r of Inr code \<Rightarrow> unexpected_status cfg code | Inl e \<Rightarrow> e)
                     in if n = 0 then (Inl (probe_failed target (cf_HealthRetries cfg) err), w1)
                        else (case h_wait H (cf_HealthIntervalMS cfg) (dk_daemon w1) of
                          (cancelled, d) \<Rightarrow>
                            if cancelled then (Inl [Canceled], w1\<lparr>dk_daemon := d\<rparr>)
                            else probe_loop n H cfg target err (w1\<lparr>dk_daemon := d\<rparr>)))))"

definition WaitForHealthy :: "'d host \<Rightarrow> int \<Rightarrow> config \<Rightarrow> ('d, unit) wact" where
  "WaitForHealthy H hostPort cfg =
     (let path = (if has_prefix (cf_HealthPath cfg) ''/'' then cf_HealthPath cfg else ''/'' @ cf_HealthPath cfg);
          target = ''http://127.0.0.1:'' @ show_int hostPort @ path
      in probe_loop (nat (cf_HealthRetries cfg)) H cfg target [])"

section \<open>Promotion\<close>

definition fail_candidate :: "'d host \<Rightarrow> deploy_job \<Rightarrow> string \<Rightarrow> container_row \<Rightarrow> err_chain \<Rightarrow> ('d, 'a) wact" where
  "fail_candidate H job containerID row e w =
     (Inl e, cleanupCandidateContainer H containerID (ct_id row) (mark_failed H job e w))"

definition domain_event :: "deploy_job \<Rightarrow> domain_row option \<Rightarrow> platform_event_input" where
  "domain_event job platformDomain =
     \<lparr> pei_application_id = app_id (dt_Application (dj_Target job)), pei_service_id = svc_id (dt_Service (dj_Target job)),
       pei_environment_id = env_id (dt_Environment (dj_Target job)), pei_deployment_id = deploymentID job,
       pei_event_type = ''domain'', pei_status = ''created'', pei_actor = ''hostforge'',
       pei_message = ''Platform domain generated'',
       pei_detail = (case platformDomain of None \<Rightarrow> [] | Some d \<Rightarrow> dm_domain_name d) \<rparr>"

text \<open>Health check, platform hostname and the switch of the deployment to SUCCESS.\<close>

definition deploy_promote :: "'d host \<Rightarrow> config \<Rightarrow> deploy_job \<Rightarrow> int \<Rightarrow> string \<Rightarrow> string \<Rightarrow> container_row \<Rightarrow> ('d, unit) wact" where
  "deploy_promote H cfg job hostPort stackKind containerID row =
     (let cleanup = cleanupCandidateContainer H containerID (ct_id row); target = dj_Target job in
     attemptW (stepBoundary H job cleanup ''health_check'') stop_here (\<lambda>_.
     attemptW (WaitForHealthy H hostPort (healthConfig job cfg stackKind))
       (\<lambda>e w. (let e1 = ErrCode ''health_check_failed'' e
               in (Inl e1, record_step ''health_check'' ''failed'' (FirstPublicCode e1) (cleanup (mark_failed H job e1 w))))) (\<lambda>_ w.
     attemptW (stepBoundary H job cleanup ''platform_domain'') stop_here (\<lambda>_.
     attemptW (on_store H (\<lambda>t. EnsurePlatformServiceDomain (app_id (dt_Application target)) (env_id (dt_Environment target))
         (svc_id (dt_Service target)) (tn_draws t) (tn_ids t) (tn_now t)))
       (\<lambda>e. fail_candidate H job containerID row (ErrCode ''platform_domain_provision_failed'' e)) (\<lambda>(platformDomain, created) w.
     attemptW (stepBoundary H job cleanup ''cutover'') stop_here (\<lambda>_.
     attemptW (on_store H (\<lambda>t. UpdateDeploymentStatus (deploymentID job) DeploymentSuccess [] (tn_now t)))
       (\<lambda>e. fail_candidate H job containerID row
          (ErrCode ''deployment_state_update_failed'' (Text ''mark deployment success'' # e))) (\<lambda>_ w. (Inr (), w)))
     (if created then snd (on_store H (\<lambda>t. RecordPlatformEvent (domain_event job platformDomain) (tn_now t)) w) else w)))
     (record_step ''health_check'' ''ok'' [] w))))"

section \<open>Cutover\<close>

record deploy_result =
  dr_DeploymentID :: string
  dr_ContainerID :: string
  dr_ImageRef :: string
  dr_ContainerPort :: int
  dr_HostPort :: int
  dr_URL :: string

definition retire_previous :: "'d host \<Rightarrow> deploy_job \<Rightarrow> string \<Rightarrow> 'd world \<Rightarrow> 'd world" where
  "retire_previous H job containerID w =
     (let old = dj_PreviousContainer job
      in if ct_docker_container_id old \<noteq> [] \<and> ct_docker_container_id old \<noteq> containerID
         then (case StopAndRemove (h_engine H) (ct_docker_container_id old) w of
            (Inl _, w1) \<Rightarrow> w1
          | (Inr _, w1) \<Rightarrow> snd (on_store H (\<lambda>t. set_container_status (ct_id old) ''REMOVED'' (tn_now t)) w1))
         else w)"

definition deploy_cutover :: "'d host \<Rightarrow> config \<Rightarrow> deploy_job \<Rightarrow> int \<Rightarrow> string \<Rightarrow> container_row \<Rightarrow> ('d, deploy_result) wact" where
  "deploy_cutover H cfg job hostPort containerID row =
     attemptW (on_store H (\<lambda>t. ActivateServiceDeployment (svc_id (dt_Service (dj_Target job)))
         (env_id (dt_Environment (dj_Target job))) (deploymentID job) (tn_now t)))
       (\<lambda>e. fail_candidate H job containerID row (ErrCode ''active_deployment_update_failed'' e)) (\<lambda>_ w.
     (Inr \<lparr> dr_DeploymentID = deploymentID job, dr_ContainerID = containerID, dr_ImageRef = dj_ImageRef job,
            dr_ContainerPort = internalPort job cfg, dr_HostPort = hostPort,
            dr_URL = ''http://127.0.0.1:'' @ show_int hostPort \<rparr>,
      retire_previous H job containerID (if h_notifier H then w\<lparr>w_notified := w_notified w + 1\<rparr> else w)))"

section \<open>The whole deployment\<close>

definition deploy_phases :: "'d host \<Rightarrow> config \<Rightarrow> deploy_job \<Rightarrow> ('d, deploy_result) wact" where
  "deploy_phases H cfg job =
     attemptW (deploy_checkout H job) stop_here (\<lambda>_.
     attemptW (deploy_build H cfg job) stop_here (\<lambda>(hostPort, extraEnv, stackKind).
     attemptW (deploy_candidate H cfg job hostPort extraEnv) stop_here (\<lambda>(containerID, row).
     attemptW (deploy_promote H cfg job hostPort stackKind containerID row) stop_here (\<lambda>_.
     deploy_cutover H cfg job hostPort containerID row))))"

definition ExecuteDeploy :: "'d host \<Rightarrow> config \<Rightarrow> deploy_job \<Rightarrow> ('d, deploy_result) wact" where
  "ExecuteDeploy H cfg job w =
     (case deploy_phases H cfg job w of
        (Inl e, w1) \<Rightarrow> (Inl e, record_step ''deploy_total'' ''failed'' (deploy_code e) w1)
      | (Inr r, w1) \<Rightarrow> (Inr r, record_step ''deploy_total'' ''ok'' [] w1))"

text \<open>The deployment as the work of the queue's deploy handler, on the engine state d.\<close>

definition deploy_world :: "'d \<Rightarrow> store \<Rightarrow> 'd world" where
  "deploy_world d s = \<lparr> dk_daemon = d, dk_calls = [], w_store = s, w_steps = [], w_probes = [], w_notified = 0 \<rparr>"

definition deploy_work_on :: "'d host \<Rightarrow> config \<Rightarrow> 'd \<Rightarrow> deploy_job deploy_work" where
  "deploy_work_on H cfg d job ctxDone s =
     (case ExecuteDeploy H cfg job (deploy_world d s) of (r, w) \<Rightarrow> (case r of Inl e \<Rightarrow> e | Inr _ \<Rightarrow> [], w_store w))"

end
