(* ===== verification/HF_Deploy_Inv.thy ===== *)
theory HF_Deploy_Inv
  imports HF_Deploy
begin

text \<open>
  The lemmas about a deployment: which steps leave the release of the service alone, what each
  phase asks the engine for, and what the phases that succeed leave in the database.
\<close>

section \<open>What the database calls leave alone\<close>

text \<open>The release of a service environment: the active deployment of its rows.\<close>

definition release :: "string \<Rightarrow> string \<Rightarrow> store \<Rightarrow> string list" where
  "release sid eid s = map se_active_deployment_id
     (filter (\<lambda>b. se_service_id b = trim sid \<and> se_environment_id b = trim eid) (service_environments s))"

definition keeps_table :: "('a db) \<Rightarrow> bool" where
  "keeps_table g \<longleftrightarrow> (\<forall>s. service_environments (snd (g s)) = service_environments s)"

lemma tx_bindings:
  "keeps_table (UpdateDeploymentStatus i st msg now)" "keeps_table (CancelDeployment i now)"
  "keeps_table (UpdateDeploymentCommitHash i h now)" "keeps_table (UpdateDeploymentBuilder i k sk sl now)"
  "keeps_table (UpdateDeploymentRailpackArtifacts i pj ij now)" "keeps_table (AttachContainer ai newid now)"
  "keeps_table (RecordPlatformEvent pei now)" "keeps_table (set_container_status r st now)"
  by (auto simp: keeps_table_def UpdateDeploymentStatus_def CancelDeployment_def UpdateDeploymentCommitHash_def
      UpdateDeploymentBuilder_def UpdateDeploymentRailpackArtifacts_def set_deployment_def AttachContainer_def
      RecordPlatformEvent_def set_container_status_def UpdateContainerStatus_def RecordDeploymentEvent_def
      recordDeploymentStatusEventTx_def Let_def db_ok_def db_fail_def)

definition only_domains :: "store \<Rightarrow> store \<Rightarrow> bool" where
  "only_domains s s' \<longleftrightarrow> service_environments s' = service_environments s \<and> deployments s' = deployments s \<and>
     containers s' = containers s"

lemma platform_attempts_only: "only_domains s (snd (platform_attempts k draws ids a e v p now s))"
proof (induction k)
  case (Suc k)
  have "only_domains s (snd (insert_domain m s))" for m
    by (simp add: insert_domain_def only_domains_def db_ok_def db_fail_def Let_def)
  moreover have "snd (GetServiceDomain a e i s1) = s1" for i s1
    by (simp add: GetServiceDomain_def db_ok_def db_fail_def Let_def split: option.split)
  ultimately show ?case
    using Suc by (auto simp: Let_def db_ok_def db_fail_def only_domains_def split: sum.split prod.split option.split)
      (metis snd_conv)+
qed (simp add: only_domains_def db_fail_def)

lemma ensure_domain_only: "only_domains s (snd (EnsurePlatformServiceDomain a e v draws ids now s))"
  using platform_attempts_only
  by (auto simp: EnsurePlatformServiceDomain_def Let_def db_ok_def db_fail_def only_domains_def split: option.split)

lemma ensure_domain_bindings: "keeps_table (EnsurePlatformServiceDomain a e v draws ids now)"
  using ensure_domain_only by (simp add: keeps_table_def only_domains_def)

section \<open>Calm steps\<close>

text \<open>
  \<open>keeps H f\<close>: the others leave f of the database alone.  A calm step asks the engine for nothing,
  notifies and probes nobody and leaves f alone.
\<close>

definition keeps :: "'d host \<Rightarrow> (store \<Rightarrow> 'b) \<Rightarrow> bool" where
  "keeps H f \<longleftrightarrow> (\<forall>d s. f (tn_others (fst (h_turn H d)) s) = f s)"

definition calm :: "(store \<Rightarrow> 'b) \<Rightarrow> 'd world \<Rightarrow> 'd world \<Rightarrow> bool" where
  "calm f w w' \<longleftrightarrow> dk_calls w' = dk_calls w \<and> w_notified w' = w_notified w \<and> w_probes w' = w_probes w \<and>
     f (w_store w') = f (w_store w)"

lemma calm_refl [simp]: "calm f w w"
  by (simp add: calm_def)

lemma calm_trans: "calm f w w1 \<Longrightarrow> calm f w1 w2 \<Longrightarrow> calm f w w2"
  by (simp add: calm_def)

lemma calm_record [simp]: "calm f w (record_step a b c w1) = calm f w w1"
  by (simp add: calm_def record_step_def)

lemma calm_look: "keeps H f \<Longrightarrow> calm f w (snd (look H w))"
  by (auto simp: calm_def look_def keeps_def split: prod.split) (metis fst_conv)

lemma calm_on_store:
  assumes "keeps H f" "\<And>t s. f (snd (g t s)) = f s"
  shows "calm f w (snd (on_store H g w))"
proof -
  obtain t w1 where l: "look H w = (t, w1)" by fastforce
  have "f s1 = f (w_store w1)" if "g t (w_store w1) = (r, s1)" for r s1
    using assms(2) [of t "w_store w1"] that by simp
  then show ?thesis
    using calm_look [OF assms(1), of w] l by (auto simp: on_store_def calm_def split: sum.split prod.split)
qed

lemma calm_read_store: "keeps H f \<Longrightarrow> calm f w (snd (read_store H g w))"
  using calm_look [of H f w] by (auto simp: read_store_def split: prod.split)

lemma calm_detached:
  assumes "keeps H f" "\<And>t s. f (snd (g t s)) = f s"
  shows "calm f w (detached H g w)"
  using calm_look [OF assms(1), of w] assms(2) by (auto simp: detached_def calm_def split: prod.split)

lemma calm_io: "calm f w (snd (io g w))"
  by (simp add: io_def calm_def split: prod.split)

lemma calm_attempt:
  assumes "calm f w (snd (m w))" "\<And>e w1. calm f w1 (snd (g e w1))" "\<And>x w1. calm f w1 (snd (h x w1))"
  shows "calm f w (snd (attemptW m g h w))"
  using assms calm_trans by (fastforce simp: attemptW_def split: sum.split prod.split)

lemma calm_stop: "calm f w (snd (stop_here e w))"
  by (simp add: stop_here_def)

text \<open>The release is such an f, and all bookkeeping of a deployment is calm about it.\<close>

lemma release_table: "keeps_table g \<Longrightarrow> release sid eid (snd (g s)) = release sid eid s"
  by (simp add: keeps_table_def release_def)

lemma calm_store:
  "keeps H (release sid eid) \<Longrightarrow> (\<And>t. keeps_table (g t)) \<Longrightarrow> calm (release sid eid) w (snd (on_store H g w))"
  "keeps H (release sid eid) \<Longrightarrow> (\<And>t. keeps_table (g t)) \<Longrightarrow> calm (release sid eid) w (detached H g w)"
  by (auto intro!: calm_on_store calm_detached release_table)

lemma store_calm:
  assumes "keeps H (release sid eid)" "on_store H g w = (r, w')" "\<And>t. keeps_table (g t)"
  shows "calm (release sid eid) w w'"
  using calm_store(1) [OF assms(1), of g w] assms(2,3) by simp

lemma calm_failed:
  assumes "keeps H (release sid eid)"
  shows "calm (release sid eid) w (mark_failed H job e w)"
proof -
  obtain t w1 where l: "look H w = (t, w1)" by fastforce
  then have c: "calm (release sid eid) w w1" using calm_look [OF assms, of w] by simp
  have "calm (release sid eid) w1 (detached H (\<lambda>t. CancelDeployment i (tn_now t)) w1)"
    "calm (release sid eid) w1 (snd (on_store H (\<lambda>t. UpdateDeploymentStatus i st msg (tn_now t)) w1))" for i st msg
    by (intro calm_store [OF assms] tx_bindings)+
  then show ?thesis using l calm_trans [OF c] by (simp add: mark_failed_def Let_def)
qed

lemma calm_fail:
  assumes "keeps H (release sid eid)"
  shows "calm (release sid eid) w (snd (fail_with H job e w))" "calm (release sid eid) w (snd (fail_step H job step e w))"
  using calm_failed [OF assms] by (simp_all add: fail_with_def fail_step_def)

lemma calm_boundary:
  assumes "keeps H (release sid eid)" "\<And>w1. calm (release sid eid) w1 (cleanup w1)"
  shows "calm (release sid eid) w (snd (stepBoundary H job cleanup step w))"
proof -
  obtain t w1 where l: "look H w = (t, w1)" by fastforce
  then have "calm (release sid eid) w w1" using calm_look [OF assms(1), of w] by simp
  moreover have "calm (release sid eid) w1 (mark_failed H job e (cleanup w1))" for e
    by (rule calm_trans [OF assms(2) calm_failed [OF assms(1)]])
  ultimately show ?thesis using l by (auto simp: stepBoundary_def Let_def intro: calm_trans)
qed

lemma calm_auth: "calm f w (snd (resolveDeployGitAuth H job w))"
  by (simp add: resolveDeployGitAuth_def Let_def calm_io split: option.split)

lemma calm_listen: "calm f w (snd (ensurePortAvailable M p w))"
  by (simp add: ensurePortAvailable_def calm_def split: sum.split prod.split)

lemma calm_ephemeral: "calm f w (snd (ephemeral_port n M res w))" for w :: "'d world"
proof (induction n M res w rule: ephemeral_port.induct)
  case (2 n M reserved w)
  then show ?case by (auto simp: calm_def split: sum.split prod.split)
qed simp

lemma calm_scan: "calm f w (snd (scan_ports n p M res w))" for w :: "'d world"
proof (induction n p M res w rule: scan_ports.induct)
  case (2 n p M reserved w)
  show ?case
  proof (cases "p \<in> reserved")
    case True
    then show ?thesis using 2 by simp
  next
    case False
    obtain r w1 where e: "ensurePortAvailable M p w = (r, w1)" by fastforce
    then have "calm f w w1" using calm_listen [of f w M p] by simp
    then show ?thesis using 2(2) [OF False e [symmetric]] False e by (cases r) (auto intro: calm_trans)
  qed
qed simp

lemma calm_engine: "calm f w (snd (m w)) \<Longrightarrow> calm f w (snd (engine m w))"
  by (auto simp: engine_def split: sum.split prod.split)

lemma calm_ports: "calm f w (snd (engine (PickHostPortAvoiding M r a b res) w))"
  using calm_listen [of f w M r] calm_ephemeral [of f w 64 M res] calm_scan [of f w "nat (b - a + 1)" a M res]
  by (intro calm_engine) (auto simp: PickHostPortAvoiding_def split: sum.split prod.split option.split)

section \<open>The phases before the candidate\<close>

lemma calm_checkout:
  assumes "keeps H (release sid eid)"
  shows "calm (release sid eid) w (snd (deploy_checkout H job w))"
  unfolding deploy_checkout_def
  by (intro calm_attempt calm_store [OF assms] tx_bindings calm_io calm_fail [OF assms] calm_boundary [OF assms] calm_stop
      calm_auth) (auto intro!: calm_io)

lemma calm_record_build:
  assumes "keeps H (release sid eid)"
  shows "calm (release sid eid) w (record_build H job b w)"
proof -
  have "calm (release sid eid) w (snd (on_store H (\<lambda>t. UpdateDeploymentBuilder i k sk sl (tn_now t)) w))"
    "calm (release sid eid) w (snd (on_store H (\<lambda>t. UpdateDeploymentRailpackArtifacts i p q (tn_now t)) w))" for i k sk sl p q w
    by (intro calm_store [OF assms] tx_bindings)+
  from this(1) calm_trans [OF this] show ?thesis by (simp add: record_build_def Let_def)
qed

lemma calm_build:
  assumes "keeps H (release sid eid)"
  shows "calm (release sid eid) w (snd (deploy_build H cfg job w))"
  unfolding deploy_build_def
  by (intro calm_attempt calm_read_store [OF assms] calm_fail [OF assms] calm_boundary [OF assms] calm_stop calm_ports calm_io)
    (simp_all add: calm_record_build [OF assms])

section \<open>The candidate\<close>

text \<open>Engine calls change nothing else.\<close>

lemma same_more:
  "dock.more w' = dock.more w \<Longrightarrow> w_store w' = w_store w \<and> w_notified w' = w_notified w \<and> w_probes w' = w_probes w \<and>
    w_steps w' = w_steps w"
  by (cases w; cases w') simp

lemma ask_call: "ask q g m w = (r, w') \<Longrightarrow> \<exists>a. dk_calls w' = dk_calls w @ [(q, a)] \<and> dock.more w' = dock.more w \<and>
    a = (case r of Inl _ \<Rightarrow> Refused | Inr x \<Rightarrow> g x)"
  by (auto simp: ask_def split: sum.splits prod.splits)

fun own_call :: "string set \<Rightarrow> request \<Rightarrow> bool" where
  "own_call ids (ReqStop i t) = (i \<in> ids)"
| "own_call ids (ReqRemove i) = (i \<in> ids)"
| "own_call ids (ReqRestart i t) = False"
| "own_call ids (ReqImageRemove r force) = False"
| "own_call ids (ReqNetRemove n) = False"
| "own_call ids (ReqNetDisconnect n c) = False"
| "own_call ids (ReqVolRemove v) = False"
| "own_call ids q = True"

fun created :: "call \<Rightarrow> string set" where
  "created (ReqCreate sp, Id i) = {i}"
| "created c = {}"

text \<open>Containers are stopped and removed only when they were created before, in these calls.\<close>

fun own_only :: "string set \<Rightarrow> call list \<Rightarrow> bool" where
  "own_only ids [] = True"
| "own_only ids (c # cs) = (own_call ids (fst c) \<and> own_only (ids \<union> created c) cs)"

lemma own_only_append: "own_only ids (a @ b) \<longleftrightarrow> own_only ids a \<and> own_only (ids \<union> \<Union> (created ` set a)) b"
  by (induction a arbitrary: ids) (auto simp: Un_assoc)

definition started :: "call list \<Rightarrow> string set" where
  "started cs = {i. (ReqStart i, Accepted) \<in> set cs}"

definition stopped :: "call list \<Rightarrow> string set" where
  "stopped cs = {i. \<exists>t. ReqStop i t \<in> fst ` set cs}"

lemma started_simps: "started (a @ b) = started a \<union> started b" "stopped (a @ b) = stopped a \<union> stopped b"
  "started [] = {}" "stopped [] = {}"
  by (auto simp: started_def stopped_def)

lemma network_calls:
  assumes "EnsureEnvironmentNetwork M a e w = (r, w')"
  obtains cs where "dk_calls w' = dk_calls w @ cs" "dock.more w' = dock.more w"
    "own_only ids cs" "started cs = {}" "stopped cs = {}"
  using assms
  by (fastforce simp: started_def stopped_def EnsureEnvironmentNetwork_def Let_def NetworkInspect_def NetworkCreate_def
      split: if_splits sum.splits prod.splits dest!: ask_call)

lemma run_calls:
  assumes "RunContainer M opts w = (r, w')"
  obtains cs where "dk_calls w' = dk_calls w @ cs" "dock.more w' = dock.more w" "own_only ids cs"
    "case r of Inl e \<Rightarrow> started cs = {} \<and> de_chain e \<noteq> []
     | Inr i \<Rightarrow> cs = [(ReqCreate (run_spec opts), Id i), (ReqStart i, Accepted)]"
  using assms
  by (fastforce simp: RunContainer_def ContainerCreate_def ContainerStart_def started_def plain_def wrap_err_def
      split: if_splits sum.splits prod.splits option.splits dest!: ask_call)

lemma stop_calls:
  assumes "StopAndRemove M i w = (r, w')"
  obtains a cs where "dk_calls w' = dk_calls w @ (ReqStop i 10, a) # cs" "dock.more w' = dock.more w"
    "fst ` set cs \<subseteq> {ReqRemove i}"
  using assms
  by (fastforce simp: StopAndRemove_def StopAndRemoveWithTimeout_def ContainerStop_def ContainerRemove_def Let_def
      split: if_splits sum.splits prod.splits dest!: ask_call)

text \<open>
  A step that may ask the engine: what it asked for, and that it left the release, the notifications and
  the probes alone.
\<close>

definition asked :: "string \<Rightarrow> string \<Rightarrow> 'd world \<Rightarrow> call list \<Rightarrow> 'd world \<Rightarrow> bool" where
  "asked sid eid w cs w' \<longleftrightarrow> dk_calls w' = dk_calls w @ cs \<and> w_notified w' = w_notified w \<and>
     release sid eid (w_store w') = release sid eid (w_store w)"

lemma asked_calm: "calm (release sid eid) w w' \<Longrightarrow> asked sid eid w [] w'"
  by (simp add: calm_def asked_def)

lemma asked_more: "dk_calls w' = dk_calls w @ cs \<Longrightarrow> dock.more w' = dock.more w \<Longrightarrow> asked sid eid w cs w'"
  using same_more [of w' w] by (simp add: asked_def)

lemma asked_append: "asked sid eid w a w1 \<Longrightarrow> asked sid eid w1 b w2 \<Longrightarrow> asked sid eid w (a @ b) w2"
  by (simp add: asked_def)

lemma asked_then_calm: "asked sid eid w a w1 \<Longrightarrow> calm (release sid eid) w1 w2 \<Longrightarrow> asked sid eid w a w2"
  by (simp add: asked_def calm_def)

lemma repo_err_not_Nil [simp]: "repo_err e \<noteq> []"
  by (cases e) auto

lemma on_store_err: "on_store H g w = (Inl e, w') \<Longrightarrow> e \<noteq> []"
  by (auto simp: on_store_def split: if_splits prod.splits sum.splits)

lemma ErrCode_hd: "e \<noteq> [] \<Longrightarrow> ErrCode c e = CodedNode c # e"
  by (simp add: ErrCode_def)

lemma attemptW_cases:
  assumes "attemptW m g h w = (r, w')"
  obtains (failed) e w1 where "m w = (Inl e, w1)" "g e w1 = (r, w')"
    | (went) x w1 where "m w = (Inr x, w1)" "h x w1 = (r, w')"
  using assms by (auto simp: attemptW_def split: sum.splits prod.splits)

lemma engine_cases:
  assumes "engine m w = (r, w')"
  obtains (failed) e where "m w = (Inl e, w')" "r = Inl (de_chain e)" | (went) x where "m w = (Inr x, w')" "r = Inr x"
  using assms by (auto simp: engine_def split: sum.splits prod.splits)

lemma network_asked:
  assumes "EnsureEnvironmentNetwork M a e w = (r, w')"
  obtains cs where "asked sid eid w cs w'" "own_only {} cs" "started cs = {}" "stopped cs = {}"
  by (rule network_calls [OF assms, of "{}"]) (rule that [OF asked_more])

lemma run_asked:
  assumes "RunContainer M opts w = (r, w')"
  obtains cs where "asked sid eid w cs w'" "own_only ids cs"
    "case r of Inl e \<Rightarrow> started cs = {} \<and> de_chain e \<noteq> []
     | Inr i \<Rightarrow> cs = [(ReqCreate (run_spec opts), Id i), (ReqStart i, Accepted)]"
  by (rule run_calls [OF assms, of ids]) (rule that [OF asked_more])

lemma stop_asked:
  assumes "StopAndRemove M i w = (r, w')"
  obtains a cs where "asked sid eid w ((ReqStop i 10, a) # cs) w'" "fst ` set cs \<subseteq> {ReqRemove i}"
  by (rule stop_calls [OF assms]) (rule that [OF asked_more])

lemma own_only_mono: "own_only ids cs \<Longrightarrow> ids \<subseteq> ids' \<Longrightarrow> own_only ids' cs"
proof (induction cs arbitrary: ids ids')
  case (Cons c cs)
  have "own_call ids q \<Longrightarrow> ids \<subseteq> ids' \<Longrightarrow> own_call ids' q" for q by (cases q) auto
  then show ?case using Cons.prems Cons.IH [of "ids \<union> created c" "ids' \<union> created c"] by auto
qed simp

lemma candidate_calls:
  assumes k: "keeps H (release sid eid)" and run: "deploy_candidate H cfg job port env w = (r, w')"
  obtains cs where "asked sid eid w cs w'" "own_only {} cs"
    "case r of Inl e \<Rightarrow> started cs = {} \<or> hd e = CodedNode ''container_attach_failed''
     | Inr (i, row) \<Rightarrow> \<exists>net. cs = net @ [(ReqCreate (run_spec (candidate_options cfg job port env)), Id i), (ReqStart i, Accepted)] \<and>
         started net = {} \<and> stopped net = {}"
  using run unfolding deploy_candidate_def
proof (cases rule: attemptW_cases)
  case (failed e w1)
  have "calm (release sid eid) w w1" using calm_boundary [OF k, of id w job "''container_start''"] failed(1) by simp
  then have "asked sid eid w [] w'" "\<exists>e. r = Inl e" using asked_calm failed(2) by (auto simp: stop_here_def)
  then show ?thesis using that [of "[]"] by (auto simp: started_simps)
next
  case (went u w1)
  have "calm (release sid eid) w w1" using calm_boundary [OF k, of id w job "''container_start''"] went(1) by simp
  note c1 = asked_calm [OF this]
  from went(2) show ?thesis
  proof (cases rule: attemptW_cases)
    case (failed e w2)
    obtain d where d: "EnsureEnvironmentNetwork (h_engine H) (app_id (dt_Application (dj_Target job))) (environmentID job) w1 = (Inl d, w2)"
      using failed(1) by (cases rule: engine_cases) auto
    obtain net where net: "asked sid eid w1 net w2" "own_only {} net" "started net = {}" "stopped net = {}"
      by (rule network_asked [OF d])
    have "calm (release sid eid) w2 w'" "\<exists>e. r = Inl e" using failed(2) calm_fail(2) [OF k] by (auto simp: fail_step_def)
    with asked_then_calm [OF asked_append [OF c1 net(1)]] that [of net] net show ?thesis by auto
  next
    case (went n w2)
    obtain d where d: "EnsureEnvironmentNetwork (h_engine H) (app_id (dt_Application (dj_Target job))) (environmentID job) w1 = (Inr d, w2)"
      using went(1) by (cases rule: engine_cases) auto
    obtain net where net: "asked sid eid w1 net w2" "own_only {} net" "started net = {}" "stopped net = {}"
      by (rule network_asked [OF d])
    note c2 = asked_append [OF c1 net(1)]
    from went(2) show ?thesis
    proof (cases rule: attemptW_cases)
      case (failed e w3)
      obtain d where d: "RunContainer (h_engine H) (candidate_options cfg job port env) w2 = (Inl d, w3)"
        using failed(1) by (cases rule: engine_cases) auto
      obtain cs where cs: "asked sid eid w2 cs w3" "own_only (\<Union> (created ` set net)) cs" "started cs = {}"
        by (rule run_asked [OF d, where sid = sid and eid = eid and ids = "\<Union> (created ` set net)"]) simp
      have "calm (release sid eid) w3 w'" "\<exists>e. r = Inl e" using failed(2) calm_fail(2) [OF k] by (auto simp: fail_step_def)
      with asked_then_calm [OF asked_append [OF c2 cs(1)]] that [of "net @ cs"] net cs show ?thesis
        by (auto simp: own_only_append started_simps)
    next
      case (went i w3)
      obtain j where d: "RunContainer (h_engine H) (candidate_options cfg job port env) w2 = (Inr j, w3)" and j: "j = i"
        using went(1) by (cases rule: engine_cases) auto
      obtain cs where cs: "asked sid eid w2 cs w3"
          "cs = [(ReqCreate (run_spec (candidate_options cfg job port env)), Id i), (ReqStart i, Accepted)]"
        by (rule run_asked [OF d, where sid = sid and eid = eid]) (simp add: j)
      note c3 = asked_append [OF c2 cs(1)]
      have own: "own_only {} (net @ cs)" using net(2) cs(2) by (simp add: own_only_append)
      from went(2) show ?thesis
      proof (cases rule: attemptW_cases)
        case (failed e w4)
        have "calm (release sid eid) w3 w4" by (rule store_calm [OF k failed(1)]) (rule tx_bindings)
        moreover have "calm (release sid eid) w4 w'"
          using failed(2) calm_failed [OF k, of w4 job] by (auto simp: fail_step_def)
        ultimately have "asked sid eid w (net @ cs) w'" using asked_then_calm [OF c3] calm_trans by fastforce
        moreover have "e \<noteq> []" using failed(1) by (rule on_store_err)
        ultimately show ?thesis
          using that [of "net @ cs"] own failed(2) by (auto simp: fail_step_def ErrCode_hd)
      next
        case (went row w4)
        have "calm (release sid eid) w3 w4" by (rule store_calm [OF k went(1)]) (rule tx_bindings)
        with asked_then_calm [OF c3] have "asked sid eid w (net @ cs) w4" by simp
        then have "asked sid eid w (net @ cs) w'" "r = Inr (i, row)"
          using went(2) by (auto simp: asked_def record_step_def)
        then show ?thesis using that [of "net @ cs"] own net cs(2) by auto
      qed
    qed
  qed
qed

section \<open>The health check\<close>

definition accepted :: "config \<Rightarrow> err_chain + int \<Rightarrow> bool" where
  "accepted cfg r \<longleftrightarrow> (case r of Inr code \<Rightarrow> expected_status cfg code | Inl _ \<Rightarrow> False)"

definition only_probes :: "'d world \<Rightarrow> (err_chain + int) list \<Rightarrow> 'd world \<Rightarrow> bool" where
  "only_probes w ps w' \<longleftrightarrow> w_probes w' = w_probes w @ ps \<and> dk_calls w' = dk_calls w \<and> w_store w' = w_store w \<and>
     w_notified w' = w_notified w \<and> w_steps w' = w_steps w"

lemma probe_loop_exact:
  assumes "probe_loop n H cfg target e0 w = (r, w')"
  shows "\<exists>ps. only_probes w ps w' \<and> length ps \<le> n \<and> (r = Inr () \<longleftrightarrow> ps \<noteq> [] \<and> accepted cfg (last ps)) \<and>
    (\<forall>p \<in> set (butlast ps). \<not> accepted cfg p) \<and>
    (r \<noteq> Inr () \<and> r \<noteq> Inl [Canceled] \<and> h_NewRequest H target = None \<longrightarrow> length ps = n)"
  using assms
proof (induction n H cfg target e0 w arbitrary: r w' rule: probe_loop.induct)
  case (1 H cfg target e0 w)
  then show ?case by (intro exI [of _ "[]"]) (auto simp: only_probes_def)
next
  case (2 n H cfg target e0 w)
  show ?case
  proof (cases "h_NewRequest H target")
    case (Some e)
    then show ?thesis using 2(2) by (intro exI [of _ "[]"]) (auto simp: only_probes_def)
  next
    case None
    obtain p w1 where p: "probe_once H cfg target w = (p, w1)" by fastforce
    then have w1: "only_probes w [p] w1"
      by (auto simp: probe_once_def io_def only_probes_def split: prod.splits)
    show ?thesis
    proof (cases "accepted cfg p")
      case True
      then show ?thesis
        using 2(2) None p w1 by (intro exI [of _ "[p]"]) (auto simp: accepted_def)
    next
      case no: False
      then have na: "\<not> (case p of Inr code \<Rightarrow> expected_status cfg code | Inl _ \<Rightarrow> False)" by (simp add: accepted_def)
      obtain err where err: "(case p of Inr code \<Rightarrow> unexpected_status cfg code | Inl e \<Rightarrow> e) = err" by blast
      obtain cancelled d where wt: "h_wait H (cf_HealthIntervalMS cfg) (dk_daemon w1) = (cancelled, d)" by fastforce
      have w2: "only_probes w [p] (w1\<lparr>dk_daemon := d\<rparr>)" using w1 by (simp add: only_probes_def)
      show ?thesis
      proof (cases "n = 0 \<or> cancelled")
        case True
        then show ?thesis
          using 2(2) None p na err wt w1 w2 no by (intro exI [of _ "[p]"]) (auto split: if_splits)
      next
        case False
        then have "probe_loop n H cfg target err (w1\<lparr>dk_daemon := d\<rparr>) = (r, w')"
          using 2(2) None p na err wt by simp
        from 2(1) [OF None p [symmetric] na err [symmetric] _ wt [symmetric] _ this] False
        obtain ps where ps: "only_probes (w1\<lparr>dk_daemon := d\<rparr>) ps w'" "length ps \<le> n"
          "r = Inr () \<longleftrightarrow> ps \<noteq> [] \<and> accepted cfg (last ps)" "\<forall>p \<in> set (butlast ps). \<not> accepted cfg p"
          "r \<noteq> Inr () \<and> r \<noteq> Inl [Canceled] \<and> h_NewRequest H target = None \<longrightarrow> length ps = n" by auto
        then show ?thesis
          using w2 no by (intro exI [of _ "p # ps"]) (auto simp: only_probes_def)
      qed
    qed
  qed
qed

lemma health_check_probes:
  assumes "WaitForHealthy H port cfg w = (r, w')"
  shows "\<exists>ps. only_probes w ps w' \<and> length ps \<le> nat (cf_HealthRetries cfg) \<and>
    (r = Inr () \<longleftrightarrow> ps \<noteq> [] \<and> accepted cfg (last ps)) \<and> (\<forall>p \<in> set (butlast ps). \<not> accepted cfg p) \<and>
    (r \<noteq> Inr () \<and> r \<noteq> Inl [Canceled] \<and> (\<forall>target. h_NewRequest H target = None) \<longrightarrow>
      length ps = nat (cf_HealthRetries cfg))"
proof -
  obtain target where "probe_loop (nat (cf_HealthRetries cfg)) H cfg target [] w = (r, w')"
    using assms unfolding WaitForHealthy_def Let_def by blast
  from probe_loop_exact [OF this] show ?thesis by blast
qed

section \<open>Promotion and cutover\<close>

text \<open>The container i was asked to stop, and nothing else was.\<close>

definition taken_down :: "string \<Rightarrow> call list \<Rightarrow> bool" where
  "taken_down i cs \<longleftrightarrow> own_only {i} cs \<and> i \<in> stopped cs \<and> started cs = {}"

lemma cleanup_asked:
  assumes k: "keeps H (release sid eid)"
  obtains cs where "asked sid eid w cs (cleanupCandidateContainer H i row w)" "taken_down i cs"
proof -
  obtain r w1 where st: "StopAndRemove (h_engine H) i w = (r, w1)" by fastforce
  obtain a cs where cs: "asked sid eid w ((ReqStop i 10, a) # cs) w1" "fst ` set cs \<subseteq> {ReqRemove i}"
    by (rule stop_asked [OF st])
  have "own_only ids cs \<and> started cs = {}" if "fst ` set cs \<subseteq> {ReqRemove i}" "i \<in> ids" for ids cs
    using that by (induction cs arbitrary: ids) (auto simp: started_def)
  from this [OF cs(2)] have "taken_down i ((ReqStop i 10, a) # cs)"
    by (auto simp: taken_down_def stopped_def started_def)
  moreover have "calm (release sid eid) w1 (detached H (\<lambda>t. set_container_status row ''REMOVED'' (tn_now t)) w1)"
    by (intro calm_store [OF k] tx_bindings)
  ultimately show ?thesis
    using that [of "(ReqStop i 10, a) # cs"] cs(1) asked_then_calm [OF cs(1)] st
    by (cases r) (simp_all add: cleanupCandidateContainer_def)
qed

lemma boundary_asked:
  assumes k: "keeps H (release sid eid)"
    and run: "stepBoundary H job (cleanupCandidateContainer H i row) step w = (r, w')"
  obtains "r = Inr ()" "calm (release sid eid) w w'" | cs e where "asked sid eid w cs w'" "taken_down i cs" "r = Inl e"
proof -
  obtain t w1 where l: "look H w = (t, w1)" by fastforce
  then have c: "calm (release sid eid) w w1" using calm_look [OF k, of w] by simp
  obtain cs where cs: "asked sid eid w1 cs (cleanupCandidateContainer H i row w1)" "taken_down i cs"
    by (rule cleanup_asked [OF k])
  note a = asked_then_calm [OF asked_append [OF asked_calm [OF c] cs(1)] calm_failed [OF k]]
  show ?thesis
  proof (cases "tn_done t")
    case True
    with run l obtain e where "r = Inl e"
        "w' = record_step step ''cancelled'' ''deploy_cancelled'' (mark_failed H job e (cleanupCandidateContainer H i row w1))"
      by (auto simp: stepBoundary_def Let_def)
    then show ?thesis using a [of job] that(2) [of cs e] cs(2) by (simp add: asked_def record_step_def)
  next
    case False
    then show ?thesis using run l c that(1) by (simp add: stepBoundary_def)
  qed
qed

text \<open>A step of the second half: without an error it asks for nothing, with one the candidate is taken down.\<close>

definition guarded :: "string \<Rightarrow> string \<Rightarrow> string \<Rightarrow> 'd world \<Rightarrow> (err_chain + 'a) \<times> 'd world \<Rightarrow> bool" where
  "guarded sid eid i w res \<longleftrightarrow> (case res of
     (Inr _, w') \<Rightarrow> asked sid eid w [] w' | (Inl _, w') \<Rightarrow> \<exists>cs. asked sid eid w cs w' \<and> taken_down i cs)"

lemma guarded_after: "asked sid eid w [] w1 \<Longrightarrow> guarded sid eid i w1 res \<Longrightarrow> guarded sid eid i w res"
  using asked_append [of sid eid w "[]" w1] by (fastforce simp: guarded_def split: sum.splits prod.splits)

lemma guarded_boundary:
  assumes k: "keeps H (release sid eid)" and h: "\<And>x w1. guarded sid eid i w1 (h x w1)"
  shows "guarded sid eid i w (attemptW (stepBoundary H job (cleanupCandidateContainer H i row) step) stop_here h w)"
proof -
  obtain r w1 where b: "stepBoundary H job (cleanupCandidateContainer H i row) step w = (r, w1)" by fastforce
  show ?thesis
  proof (rule boundary_asked [OF k b])
    assume "r = Inr ()" "calm (release sid eid) w w1"
    then show ?thesis using b guarded_after [OF asked_calm h] by (simp add: attemptW_def)
  next
    fix cs e assume "asked sid eid w cs w1" "taken_down i cs" "r = Inl e"
    then show ?thesis using b by (auto simp: attemptW_def stop_here_def guarded_def)
  qed
qed

lemma guarded_calm:
  assumes m: "asked sid eid w [] (snd (m w))" and g: "\<And>e w1. guarded sid eid i w1 (g e w1)" and h: "\<And>x w1. guarded sid eid i w1 (h x w1)"
  shows "guarded sid eid i w (attemptW m g h w)"
  using guarded_after [OF m g] guarded_after [OF m h] by (auto simp: attemptW_def split: sum.split prod.split)

lemma guarded_fail:
  assumes k: "keeps H (release sid eid)"
  shows "guarded sid eid i w (fail_candidate H job i row e w)"
proof -
  obtain cs where cs: "asked sid eid (mark_failed H job e w) cs (cleanupCandidateContainer H i (ct_id row) (mark_failed H job e w))"
      "taken_down i cs" by (rule cleanup_asked [OF k])
  from asked_append [OF asked_calm [OF calm_failed [OF k]] cs(1)] cs(2) show ?thesis
    by (auto simp: fail_candidate_def guarded_def)
qed

lemma asked_store:
  assumes "keeps H (release sid eid)" "\<And>t. keeps_table (g t)"
  shows "asked sid eid w [] (snd (on_store H g w))"
  using assms by (intro asked_calm calm_store)

lemma probe_asked: "asked sid eid w [] (snd (WaitForHealthy H port cfg w))"
proof -
  obtain r w' where f: "WaitForHealthy H port cfg w = (r, w')" by fastforce
  from health_check_probes [OF f] show ?thesis by (auto simp: f asked_def only_probes_def)
qed

lemma guarded_promote:
  assumes k: "keeps H (release sid eid)"
  shows "guarded sid eid i w (deploy_promote H cfg job port sk i row w)"
proof -
  note rules = guarded_boundary [OF k] guarded_fail [OF k]
  have final: "guarded sid eid i w (attemptW (stepBoundary H job (cleanupCandidateContainer H i (ct_id row)) ''cutover'') stop_here (\<lambda>_.
      attemptW (on_store H (\<lambda>t. UpdateDeploymentStatus (deploymentID job) DeploymentSuccess [] (tn_now t)))
        (\<lambda>e. fail_candidate H job i row (ErrCode ''deployment_state_update_failed'' (Text ''mark deployment success'' # e)))
        (\<lambda>_ w. (Inr (), w))) w)" for w
    by (intro rules guarded_calm asked_store [OF k] tx_bindings) (simp add: guarded_def asked_def)
  have event: "asked sid eid w [] (if b then snd (on_store H (\<lambda>t. RecordPlatformEvent p (tn_now t)) w) else w)" for b p w
    using asked_store [OF k, of "\<lambda>t. RecordPlatformEvent p (tn_now t)" w] tx_bindings(7) by (simp add: asked_def)
  have domain: "guarded sid eid i w (attemptW (on_store H (\<lambda>t. EnsurePlatformServiceDomain a e v (tn_draws t) (tn_ids t) (tn_now t)))
      (\<lambda>e. fail_candidate H job i row (ErrCode ''platform_domain_provision_failed'' e)) (\<lambda>(pd, c) w. F
        (if c then snd (on_store H (\<lambda>t. RecordPlatformEvent (domain_event job pd) (tn_now t)) w) else w)) w)"
    if "\<And>w. guarded sid eid i w (F w)" for a e v w and F :: "'a world \<Rightarrow> (err_chain + unit) \<times> 'a world"
    by (intro guarded_calm asked_store [OF k] ensure_domain_bindings rules)
      (auto intro!: guarded_after [OF event that])
  have failed: "guarded sid eid i w (let e1 = ErrCode ''health_check_failed'' e
      in (Inl e1, record_step ''health_check'' ''failed'' (FirstPublicCode e1)
            (cleanupCandidateContainer H i (ct_id row) (mark_failed H job e1 w))))" for e w
    using guarded_fail [OF k, of i w job row "ErrCode ''health_check_failed'' e"]
    by (auto simp: guarded_def fail_candidate_def asked_def record_step_def Let_def)
  have recorded: "asked sid eid w [] (record_step a b c w)" for a b c w
    by (simp add: asked_def record_step_def)
  show ?thesis
    unfolding deploy_promote_def Let_def
    by (rule guarded_boundary [OF k], rule guarded_calm [OF probe_asked failed [unfolded Let_def]],
        rule guarded_after [OF recorded], rule guarded_boundary [OF k], rule domain [OF final])
qed

lemma activate_failed:
  assumes k: "keeps H (release sid eid)" and run: "on_store H (\<lambda>t. ActivateServiceDeployment v e d (tn_now t)) w = (Inl x, w')"
  shows "asked sid eid w [] w'"
proof -
  obtain t w1 where l: "look H w = (t, w1)" by fastforce
  then have "calm (release sid eid) w w1" using calm_look [OF k, of w] by simp
  moreover have "w' = w1"
    using run l by (auto simp: on_store_def ActivateServiceDeployment_def db_ok_def db_fail_def Let_def split: if_splits)
  ultimately show ?thesis by (simp add: asked_calm)
qed

lemma guarded_cutover:
  assumes k: "keeps H (release sid eid)" and run: "deploy_cutover H cfg job port i row w = (Inl e, w')"
  shows "guarded sid eid i w (Inl e :: err_chain + deploy_result, w')"
  using run unfolding deploy_cutover_def
proof (cases rule: attemptW_cases)
  case (failed x w1)
  have "guarded sid eid i w (fail_candidate H job i row (ErrCode ''active_deployment_update_failed'' x) w1 :: (err_chain + deploy_result) \<times> 'a world)"
    by (rule guarded_after [OF activate_failed [OF k failed(1)] guarded_fail [OF k]])
  then show ?thesis by (simp add: failed(2))
qed simp

lemma attemptW_stop:
  assumes "attemptW m stop_here h w = (r, w')"
  obtains (failed) e where "m w = (Inl e, w')" "r = Inl e" | (went) x w1 where "m w = (Inr x, w1)" "h x w1 = (r, w')"
  using assms by (rule attemptW_cases) (auto simp: stop_here_def)

lemma phases_failed:
  assumes k: "keeps H (release sid eid)" and run: "deploy_phases H cfg job w = (Inl e, w')"
  shows "\<exists>cs. asked sid eid w cs w' \<and> own_only {} cs \<and> (started cs \<subseteq> stopped cs \<or> hd e = CodedNode ''container_attach_failed'')"
  using run unfolding deploy_phases_def
proof (cases rule: attemptW_stop)
  case (failed x)
  then have "asked sid eid w [] w'" using asked_calm [OF calm_checkout [OF k, of w job]] by simp
  then show ?thesis by (intro exI [of _ "[]"]) (simp add: started_simps)
next
  case (went commit w1)
  then have c1: "asked sid eid w [] w1" using asked_calm [OF calm_checkout [OF k, of w job]] by simp
  from went(2) show ?thesis
  proof (cases rule: attemptW_stop)
    case (failed x)
    then have "asked sid eid w1 [] w'" using asked_calm [OF calm_build [OF k, of w1 cfg job]] by simp
    from asked_append [OF c1 this] show ?thesis by (intro exI [of _ "[]"]) (simp add: started_simps)
  next
    case (went b w2)
    obtain port env sk where b: "b = (port, env, sk)" by (cases b) auto
    have "asked sid eid w1 [] w2" using asked_calm [OF calm_build [OF k, of w1 cfg job]] went(1) by simp
    from asked_append [OF c1 this] have c2: "asked sid eid w [] w2" by simp
    from went(2) [unfolded b prod.case] show ?thesis
    proof (cases rule: attemptW_stop)
      case (failed x)
      obtain cs where "asked sid eid w2 cs w'" "own_only {} cs" "started cs = {} \<or> hd e = CodedNode ''container_attach_failed''"
        by (rule candidate_calls [OF k failed(1)]) (use failed(2) in auto)
      then show ?thesis using asked_append [OF c2] by fastforce
    next
      case (went c w3)
      obtain i row where c: "c = (i, row)" by (cases c) auto
      obtain cs where cs: "asked sid eid w2 cs w3" "own_only {} cs"
          "\<exists>net. cs = net @ [(ReqCreate (run_spec (candidate_options cfg job port env)), Id i), (ReqStart i, Accepted)] \<and>
             started net = {} \<and> stopped net = {}"
        by (rule candidate_calls [OF k went(1)]) (simp add: c)
      note c3 = asked_append [OF c2 cs(1)]
      have created: "i \<in> \<Union> (created ` set cs)" and st: "started cs = {i}"
        using cs(3) by (auto simp: started_simps) (auto simp: started_def)
      have down: ?thesis if g: "guarded sid eid i w3 (Inl e, w')"
      proof -
        obtain ds where ds: "asked sid eid w3 ds w'" "taken_down i ds" using g by (auto simp: guarded_def)
        then have "own_only {} (cs @ ds)" "started (cs @ ds) \<subseteq> stopped (cs @ ds)"
          using cs(2) created st own_only_mono [of "{i}" ds]
          by (auto simp: taken_down_def own_only_append started_simps)
        then show ?thesis using asked_append [OF c3 ds(1)] by auto
      qed
      from went(2) [unfolded c prod.case] show ?thesis
      proof (cases rule: attemptW_stop)
        case (failed x)
        then show ?thesis using guarded_promote [OF k, of i w3 cfg job port sk row] down by simp
      next
        case (went u w4)
        then have "asked sid eid w3 [] w4" using guarded_promote [OF k, of i w3 cfg job port sk row] by (simp add: guarded_def)
        from guarded_after [OF this guarded_cutover [OF k went(2)]] show ?thesis by (rule down)
      qed
    qed
  qed
qed

section \<open>A deployment that succeeds\<close>

definition stays :: "'d host \<Rightarrow> (store \<Rightarrow> bool) \<Rightarrow> bool" where
  "stays H P \<longleftrightarrow> (\<forall>d s. P s \<longrightarrow> P (tn_others (fst (h_turn H d)) s))"

definition succeeded :: "string \<Rightarrow> store \<Rightarrow> bool" where
  "succeeded did s \<longleftrightarrow> (\<exists>d \<in> set (deployments s). dep_id d = trim did \<and> dep_status d = DeploymentSuccess)"

definition has_row :: "container_row \<Rightarrow> store \<Rightarrow> bool" where
  "has_row c s \<longleftrightarrow> c \<in> set (containers s)"

lemma attemptW_ok:
  assumes "attemptW m g h w = (Inr y, w')" "\<And>e w1. isl (fst (g e w1))"
  obtains x w1 where "m w = (Inr x, w1)" "h x w1 = (Inr y, w')"
  using assms by (auto simp: attemptW_def split: sum.splits prod.splits) (metis fst_conv sum.disc(2))

lemma handlers_fail [simp]:
  "isl (fst (stop_here e w))" "isl (fst (fail_with H job e w))" "isl (fst (fail_step H job st e w))"
  "isl (fst (fail_candidate H job i row e w))"
  by (simp_all add: stop_here_def fail_with_def fail_step_def fail_candidate_def)

lemma on_store_ok:
  assumes "on_store H g w = (Inr x, w')"
  obtains t where "t = fst (h_turn H (dk_daemon w))" "g t (tn_others t (w_store w)) = (Inr x, w_store w')"
    "dk_calls w' = dk_calls w" "w_probes w' = w_probes w" "w_notified w' = w_notified w"
  using assms by (auto simp: on_store_def look_def split: if_splits prod.splits sum.splits)

lemma boundary_ok:
  assumes "stepBoundary H job cleanup st w = (Inr x, w')"
  shows "dk_calls w' = dk_calls w \<and> w_probes w' = w_probes w \<and>
    w_store w' = tn_others (fst (h_turn H (dk_daemon w))) (w_store w)"
  using assms by (auto simp: stepBoundary_def look_def Let_def split: if_splits prod.splits)

lemma stays_store:
  assumes "stays H P" "P (w_store w)" "\<And>t s. P s \<Longrightarrow> P (snd (g t s))"
  shows "P (w_store (snd (on_store H g w)))"
proof -
  obtain t d where t: "h_turn H (dk_daemon w) = (t, d)" by fastforce
  then have others: "P (tn_others t (w_store w))" using assms(1,2) by (auto simp: stays_def) (metis fst_conv)
  obtain r s where g: "g t (tn_others t (w_store w)) = (r, s)" by fastforce
  then have "P s" using assms(3) [OF others, of t] by simp
  then show ?thesis using t g others by (cases r) (auto simp: on_store_def look_def)
qed

lemma record_sel [simp]: "w_store (record_step a b c w) = w_store w" "dk_calls (record_step a b c w) = dk_calls w"
  "w_probes (record_step a b c w) = w_probes w" "w_notified (record_step a b c w) = w_notified w"
  by (simp_all add: record_step_def)

lemma AttachContainer_ok:
  assumes "AttachContainer ai n now s = (Inr row, s')" "trim (aci_status ai) = ''RUNNING''"
  shows "has_row row s' \<and> ct_deployment_id row = trim (aci_deployment_id ai) \<and>
    ct_docker_container_id row = trim (aci_docker_container_id ai) \<and> ct_host_port row = aci_host_port ai \<and>
    ct_status row = ''RUNNING'' \<and> ct_id row = n"
  using assms by (auto simp: AttachContainer_def Let_def db_ok_def db_fail_def has_row_def split: if_splits)

lemma UpdateDeploymentStatus_ok:
  assumes "UpdateDeploymentStatus did DeploymentSuccess [] now s = (Inr u, s')"
  shows "succeeded did s' \<and> containers s' = containers s"
proof -
  let ?p = "\<lambda>d. dep_id d = trim did \<and> dep_status d \<noteq> DeploymentCancelled"
  have "sql_count ?p (deployments s) \<noteq> 0" and s': "deployments s' = sql_update ?p
      (\<lambda>d. d\<lparr>dep_status := DeploymentSuccess, dep_error_message := trim [], dep_updated_at := rfc3339 now\<rparr>) (deployments s)"
    and c: "containers s' = containers s"
    using assms by (auto simp: UpdateDeploymentStatus_def recordDeploymentStatusEventTx_def Let_def db_ok_def db_fail_def split: if_splits)
  then obtain d where "d \<in> set (deployments s)" "?p d" by (auto simp: sql_count_eq_0)
  then have "d\<lparr>dep_status := DeploymentSuccess, dep_error_message := trim [], dep_updated_at := rfc3339 now\<rparr> \<in> set (deployments s')"
    unfolding s' set_sql_update by auto
  then show ?thesis using \<open>?p d\<close> c unfolding succeeded_def by (intro conjI bexI) simp_all
qed

lemma candidate_row:
  assumes "deploy_candidate H cfg job port env w = (Inr (i, row), w')"
  shows "has_row row (w_store w') \<and> ct_deployment_id row = trim (deploymentID job) \<and> ct_docker_container_id row = trim i \<and>
    ct_host_port row = port \<and> ct_status row = ''RUNNING'' \<and> (\<exists>d. ct_id row = tn_newID (fst (h_turn H d)))"
proof -
  obtain w1 w2 where att: "on_store H (\<lambda>t. AttachContainer \<lparr> aci_deployment_id = deploymentID job, aci_docker_container_id = i,
      aci_internal_port = internalPort job cfg, aci_host_port = port, aci_status = ''RUNNING'' \<rparr> (tn_newID t) (tn_now t)) w1
      = (Inr row, w2)" "w_store w' = w_store w2"
    using assms by (auto simp: deploy_candidate_def attemptW_def stop_here_def fail_step_def split: sum.splits prod.splits)
  have running: "trim ''RUNNING'' = ''RUNNING''" by code_simp
  show ?thesis
    by (rule on_store_ok [OF att(1)], drule AttachContainer_ok) (auto simp: running att(2))
qed

lemma candidate_probes:
  assumes "deploy_candidate H cfg job port env w = (Inr x, w')"
  shows "w_probes w' = w_probes w"
proof -
  obtain w1 n w2 i w3 row w4 where b: "stepBoundary H job id ''container_start'' w = (Inr (), w1)"
    and n: "EnsureEnvironmentNetwork (h_engine H) (app_id (dt_Application (dj_Target job))) (environmentID job) w1 = (Inr n, w2)"
    and r: "RunContainer (h_engine H) (candidate_options cfg job port env) w2 = (Inr i, w3)"
    and a: "on_store H (\<lambda>t. AttachContainer \<lparr> aci_deployment_id = deploymentID job, aci_docker_container_id = i,
      aci_internal_port = internalPort job cfg, aci_host_port = port, aci_status = ''RUNNING'' \<rparr> (tn_newID t) (tn_now t)) w3
      = (Inr row, w4)" and w: "w' = record_step ''container_start'' ''ok'' [] w4"
    using assms by (auto simp: deploy_candidate_def attemptW_def stop_here_def fail_step_def engine_def split: sum.splits prod.splits)
  have "w_probes w2 = w_probes w1" by (rule network_calls [OF n]) (drule same_more, simp)
  moreover have "w_probes w3 = w_probes w2" by (rule run_calls [OF r]) (drule same_more, simp)
  moreover have "w_probes w4 = w_probes w3" by (rule on_store_ok [OF a])
  ultimately show ?thesis using boundary_ok [OF b] w by simp
qed

text \<open>What the others must leave to a deployment that has been started.\<close>

definition undisturbed :: "'d host \<Rightarrow> deploy_job \<Rightarrow> bool" where
  "undisturbed H job \<longleftrightarrow> keeps H (release (serviceID job) (environmentID job)) \<and> stays H (succeeded (deploymentID job)) \<and>
     (\<forall>c. ct_deployment_id c = trim (deploymentID job) \<longrightarrow> stays H (has_row c)) \<and>
     (\<forall>d. tn_newID (fst (h_turn H d)) \<noteq> trim (ct_id (dj_PreviousContainer job)))"

lemma stays_others: "stays H P \<Longrightarrow> P s \<Longrightarrow> P (tn_others (fst (h_turn H d)) s)"
  by (simp add: stays_def)

lemma has_row_cong: "containers s' = containers s \<Longrightarrow> has_row c s' = has_row c s"
  by (simp add: has_row_def)

lemma ensure_domain_row: "EnsurePlatformServiceDomain a e v draws ids now s = (r, s') \<Longrightarrow> has_row c s' = has_row c s"
  using ensure_domain_only [of s a e v draws ids now] by (simp add: only_domains_def has_row_def)

lemma promote_ok:
  assumes run: "deploy_promote H cfg job port sk i row w = (Inr u, w')"
    and row: "stays H (has_row row)" "has_row row (w_store w)"
  shows "has_row row (w_store w') \<and> succeeded (deploymentID job) (w_store w') \<and>
    (\<exists>code. expected_status cfg code \<and> last (w_probes w') = Inr code \<and> length (w_probes w) < length (w_probes w'))"
proof -
  obtain w1 w2 w3 w4 w5 pd c where
      b1: "stepBoundary H job (cleanupCandidateContainer H i (ct_id row)) ''health_check'' w = (Inr (), w1)"
    and hc: "WaitForHealthy H port (healthConfig job cfg sk) w1 = (Inr (), w2)"
    and b2: "stepBoundary H job (cleanupCandidateContainer H i (ct_id row)) ''platform_domain'' (record_step ''health_check'' ''ok'' [] w2) = (Inr (), w3)"
    and dm: "on_store H (\<lambda>t. EnsurePlatformServiceDomain (app_id (dt_Application (dj_Target job))) (env_id (dt_Environment (dj_Target job)))
         (svc_id (dt_Service (dj_Target job))) (tn_draws t) (tn_ids t) (tn_now t)) w3 = (Inr (pd, c), w4)"
    and b3: "stepBoundary H job (cleanupCandidateContainer H i (ct_id row)) ''cutover''
         (if c then snd (on_store H (\<lambda>t. RecordPlatformEvent (domain_event job pd) (tn_now t)) w4) else w4) = (Inr (), w5)"
    and up: "on_store H (\<lambda>t. UpdateDeploymentStatus (deploymentID job) DeploymentSuccess [] (tn_now t)) w5 = (Inr (), w')"
    using run by (auto simp: deploy_promote_def attemptW_def stop_here_def fail_candidate_def Let_def split: sum.splits prod.splits)
  obtain ev where ev: "(if c then snd (on_store H (\<lambda>t. RecordPlatformEvent (domain_event job pd) (tn_now t)) w4) else w4) = ev" by blast
  obtain ps where ps: "only_probes w1 ps w2" "ps \<noteq> []" "accepted (healthConfig job cfg sk) (last ps)"
    using health_check_probes [OF hc] by blast
  have r1: "has_row row (w_store w1)" using boundary_ok [OF b1] stays_others [OF row] by simp
  then have "has_row row (w_store w2)" using ps(1) by (simp add: only_probes_def)
  then have "has_row row (w_store w3)" using boundary_ok [OF b2] stays_others [OF row(1)] by simp
  moreover obtain t where "EnsurePlatformServiceDomain (app_id (dt_Application (dj_Target job))) (env_id (dt_Environment (dj_Target job)))
      (svc_id (dt_Service (dj_Target job))) (tn_draws t) (tn_ids t) (tn_now t) (tn_others t (w_store w3)) = (Inr (pd, c), w_store w4)"
      "t = fst (h_turn H (dk_daemon w3))" "w_probes w4 = w_probes w3" by (rule on_store_ok [OF dm])
  ultimately have r4: "has_row row (w_store w4)"
    using stays_others [OF row(1), of "w_store w3" "dk_daemon w3"] ensure_domain_row by blast
  have keep: "has_row row s \<Longrightarrow> has_row row (snd (RecordPlatformEvent p now s))" for p now s
    by (auto simp: RecordPlatformEvent_def db_ok_def db_fail_def has_row_def)
  have "has_row row (w_store ev)"
    using stays_store [where g = "\<lambda>t. RecordPlatformEvent (domain_event job pd) (tn_now t)", OF row(1) r4 keep] r4 ev by auto
  then have r5: "has_row row (w_store w5)" using boundary_ok [OF b3] stays_others [OF row(1)] ev by simp
  have probes: "w_probes ev = w_probes w4"
    using ev calm_on_store [of H "\<lambda>_. ()" "\<lambda>t. RecordPlatformEvent (domain_event job pd) (tn_now t)" w4] by (auto simp: keeps_def calm_def)
  obtain t where up: "UpdateDeploymentStatus (deploymentID job) DeploymentSuccess [] (tn_now t) (tn_others t (w_store w5)) = (Inr (), w_store w')"
      "t = fst (h_turn H (dk_daemon w5))" "w_probes w' = w_probes w5" by (rule on_store_ok [OF up])
  have "has_row row (w_store w')"
    using UpdateDeploymentStatus_ok [OF up(1)] stays_others [OF row(1) r5, of "dk_daemon w5"] up(2) by (simp add: has_row_def)
  moreover have "w_probes w' = w_probes w @ ps"
    using up(3) boundary_ok [OF b3] boundary_ok [OF b2] boundary_ok [OF b1] probes dm ps(1) ev
    by (auto simp: only_probes_def elim!: on_store_ok)
  moreover have "\<exists>code. expected_status cfg code \<and> last ps = Inr code"
    using ps(3) by (auto simp: accepted_def expected_status_def healthConfig_def Let_def split: sum.splits if_splits)
  ultimately show ?thesis using UpdateDeploymentStatus_ok [OF up(1)] ps(2) by auto
qed

lemma Activate_ok:
  assumes "ActivateServiceDeployment sid eid did now s = (Inr u, s')"
  shows "set (release sid eid s') = {trim did} \<and> deployments s' = deployments s \<and> containers s' = containers s"
proof -
  let ?p = "\<lambda>b. se_service_id b = trim sid \<and> se_environment_id b = trim eid"
  have n: "sql_count ?p (service_environments s) \<noteq> 0" and s': "s' = s\<lparr>service_environments := sql_update ?p
      (\<lambda>b. b\<lparr>se_active_deployment_id := trim did, se_desired_state := ''running'', se_updated_at := rfc3339 now\<rparr>) (service_environments s)\<rparr>"
    using assms by (auto simp: ActivateServiceDeployment_def Let_def db_ok_def db_fail_def split: if_splits)
  then obtain b where "b \<in> set (service_environments s)" "?p b" by (auto simp: sql_count_eq_0)
  moreover have "map se_active_deployment_id (filter ?p (sql_update ?p
      (\<lambda>b. b\<lparr>se_active_deployment_id := trim did, se_desired_state := ''running'', se_updated_at := rfc3339 now\<rparr>) xs)) =
      map (\<lambda>_. trim did) (filter ?p xs)" for xs
    by (induction xs) (auto simp: sql_update_def)
  ultimately have "release sid eid s' = map (\<lambda>_. trim did) (filter ?p (service_environments s))"
    by (simp add: release_def s')
  moreover have "b \<in> set (filter ?p (service_environments s))" using \<open>?p b\<close> \<open>b \<in> _\<close> by simp
  ultimately show ?thesis unfolding s' by (auto simp: image_iff)
qed

text \<open>The previous container is retired without touching what the deployment has written.\<close>

lemma retire_ok:
  assumes quiet: "undisturbed H job" and did: "ct_deployment_id row = trim (deploymentID job)"
    and fresh: "ct_id row = tn_newID (fst (h_turn H d))"
    and w: "has_row row (w_store w)" "succeeded (deploymentID job) (w_store w)"
  shows "has_row row (w_store (retire_previous H job i w)) \<and> succeeded (deploymentID job) (w_store (retire_previous H job i w)) \<and>
    release (serviceID job) (environmentID job) (w_store (retire_previous H job i w)) = release (serviceID job) (environmentID job) (w_store w) \<and>
    w_probes (retire_previous H job i w) = w_probes w \<and>
    (\<exists>old. dk_calls (retire_previous H job i w) = dk_calls w @ old \<and>
      (old = [] \<or> taken_down (ct_docker_container_id (dj_PreviousContainer job)) old))"
proof -
  let ?old = "dj_PreviousContainer job"
  obtain r w1 where st: "StopAndRemove (h_engine H) (ct_docker_container_id ?old) w = (r, w1)" by fastforce
  obtain a cs where cs: "dk_calls w1 = dk_calls w @ (ReqStop (ct_docker_container_id ?old) 10, a) # cs"
      "dock.more w1 = dock.more w" "fst ` set cs \<subseteq> {ReqRemove (ct_docker_container_id ?old)}" by (rule stop_calls [OF st])
  note same = same_more [OF cs(2)]
  have "own_only ids cs \<and> started cs = {}" if "fst ` set cs \<subseteq> {ReqRemove x}" "x \<in> ids" for ids cs x
    using that by (induction cs arbitrary: ids) (auto simp: started_def)
  from this [OF cs(3)] have down: "taken_down (ct_docker_container_id ?old) ((ReqStop (ct_docker_container_id ?old) 10, a) # cs)"
    by (auto simp: taken_down_def stopped_def started_def)
  have hyps: "keeps H (release (serviceID job) (environmentID job))" "stays H (succeeded (deploymentID job))" "stays H (has_row row)"
    "ct_id row \<noteq> trim (ct_id ?old)"
    using quiet did fresh by (auto simp: undisturbed_def)
  obtain w2 where w2: "snd (on_store H (\<lambda>t. set_container_status (ct_id ?old) ''REMOVED'' (tn_now t)) w1) = w2" by blast
  have "calm (release (serviceID job) (environmentID job)) w1 w2"
    using calm_store(1) [OF hyps(1), of "\<lambda>t. set_container_status (ct_id ?old) ''REMOVED'' (tn_now t)" w1] w2 tx_bindings(8) by simp
  moreover have "has_row row s \<Longrightarrow> has_row row (snd (set_container_status (ct_id ?old) ''REMOVED'' now s))" for now s
    using hyps(4) by (auto simp: set_container_status_def UpdateContainerStatus_def db_ok_def has_row_def set_sql_update)
  from stays_store [where g = "\<lambda>t. set_container_status (ct_id ?old) ''REMOVED'' (tn_now t)", OF hyps(3) _ this, of w1]
  have "has_row row (w_store w2)" using w(1) same w2 by simp
  moreover have "succeeded did s \<Longrightarrow> succeeded did (snd (set_container_status c ''REMOVED'' now s))" for did c now s
    by (simp add: set_container_status_def UpdateContainerStatus_def db_ok_def succeeded_def)
  from stays_store [where g = "\<lambda>t. set_container_status (ct_id ?old) ''REMOVED'' (tn_now t)", OF hyps(2) _ this, of w1]
  have "succeeded (deploymentID job) (w_store w2)" using w(2) same w2 by simp
  ultimately show ?thesis
    using w same cs(1) down st w2 by (cases r) (auto simp: retire_previous_def calm_def Let_def)
qed

end
