(* ===== verification/HF_Deploy_Props.thy ===== *)
theory HF_Deploy_Props
  imports HF_Deploy_Inv HF_Demo
begin

text \<open>
  What a deployment does to the service it deploys: a failing one leaves the running release alone and
  takes down the candidate it started; a successful one has probed the candidate before it switches
  the service, and only then stops the container it replaces.  Everyone else may write to the database and
  cancel the context at any point.
\<close>

section \<open>A deployment to try it on\<close>

text \<open>
  An engine that accepts everything, a clock that stands still and an application that answers the
  probes with the statuses in the state.
\<close>

definition easy_engine :: "int list moby" where
  "easy_engine =
     \<lparr> m_ContainerCreate = \<lambda>sp d. (Inr ''new'', d), m_ContainerStart = \<lambda>i d. (Inr (), d),
       m_ContainerStop = \<lambda>i t d. (Inr (), d), m_ContainerRestart = \<lambda>i t d. (Inr (), d),
       m_ContainerRemove = \<lambda>i d. (Inr (), d), m_ContainerInspect = \<lambda>i d. (Inl (plain ''No such container''), d),
       m_ImageList = \<lambda>p d. (Inr [], d), m_ImageRemove = \<lambda>r f d. (Inr (), d), m_ImagePull = \<lambda>r d. (Inr None, d),
       m_NetworkInspect = \<lambda>n d. (Inl ((plain ''No such network'')\<lparr>de_not_found := True\<rparr>), d),
       m_NetworkCreate = \<lambda>n ls d. (Inr n, d), m_NetworkRemove = \<lambda>i d. (Inr (), d),
       m_NetworkConnect = \<lambda>i c al d. (Inr (), d), m_NetworkDisconnect = \<lambda>i c d. (Inr (), d),
       m_VolumeInspect = \<lambda>v d. (Inl (plain ''No such volume''), d),
       m_VolumeCreate = \<lambda>v ls d. (Inr \<lparr> vin_Name = v, vin_Labels = ls \<rparr>, d),
       m_VolumeRemove = \<lambda>v d. (Inr (), d), m_DiskUsage = \<lambda>d. (Inr [], d),
       m_ParsePort = \<lambda>s. None, m_Listen = \<lambda>p d. (Inr p, d) \<rparr>"

definition still_turn :: "string \<Rightarrow> turn" where
  "still_turn newID = \<lparr> tn_now = 0, tn_done = False, tn_newID = newID, tn_draws = \<lambda>_. (0, 0, 0, 0), tn_ids = \<lambda>_. [],
     tn_others = \<lambda>s. s \<rparr>"

definition easy_host :: "int list host" where
  "easy_host =
     \<lparr> h_engine = easy_engine, h_turn = \<lambda>d. (still_turn ''row2'', d), h_MkdirAll = \<lambda>p d. (Inr (), d),
       h_OpenLog = \<lambda>p d. (Inr (), d), h_ResolveInstallationAuth = Some (\<lambda>i d. (Inr ''token'', d)),
       h_CloneOrUpdate = \<lambda>u b t a d. (Inr (), d), h_CheckoutCommit = \<lambda>t c d. (Inr (), d),
       h_HeadCommit = \<lambda>t d. (Inr ''abc'', d),
       h_build = \<lambda>cfg r d. (Inr \<lparr> bs_Kind = ''railpack'', bs_StackKind = [], bs_StackLabel = [], bs_PlanJSON = [], bs_InfoJSON = [] \<rparr>, d),
       h_platform = ''linux/amd64'', h_NewRequest = \<lambda>t. None,
       h_probe = \<lambda>t ms d. (case d of [] \<Rightarrow> (Inl [Text ''connection refused''], []) | c # cs \<Rightarrow> (Inr c, cs)),
       h_wait = \<lambda>ms d. (False, d), h_sealer = None, h_notifier = True \<rparr>"

definition easy_config :: config where
  "easy_config = zero_config\<lparr>cf_HostPort := 8080, cf_ContainerPort := 3000, cf_HealthPath := ''/'', cf_HealthRetries := 2,
     cf_HealthExpectedMin := 200, cf_HealthExpectedMax := 399\<rparr>"

definition web_binding :: service_environment_row where
  "web_binding = \<lparr> se_service_id = ''svc'', se_environment_id = ''env'', se_branch = ''main'', se_auto_deploy = False,
     se_active_deployment_id = ''d0'', se_desired_state = ''running'', se_created_at = [], se_updated_at = [] \<rparr>"

definition old_container :: container_row where
  "old_container = \<lparr> ct_id = ''row1'', ct_deployment_id = ''d0'', ct_docker_container_id = ''old'', ct_internal_port = 3000,
     ct_host_port = 20000, ct_status = ''RUNNING'', ct_created_at = [], ct_updated_at = [] \<rparr>"

definition web_target :: deploy_target where
  "web_target = \<lparr> dt_Application = \<lparr> app_id = ''app'', app_name = [], app_description = [], app_archived = False,
       app_created_at = [], app_updated_at = [] \<rparr>,
     dt_Service = web_service\<lparr>svc_github_installation_id := 7\<rparr>,
     dt_Environment = \<lparr> env_id = ''env'', env_application_id = ''app'', env_name = [], env_slug = [], env_kind = [],
       env_created_at = [], env_updated_at = [] \<rparr>,
     dt_Binding = web_binding \<rparr>"

definition web_job :: deploy_job where
  "web_job = \<lparr> dj_Target = web_target, dj_Deployment = web_deployment, dj_PreviousContainer = old_container,
     dj_RepoURL = [], dj_Branch = ''main'', dj_Worktree = ''/w'', dj_BuildDirectory = ''/w'', dj_ImageRef = ''image'',
     dj_ContainerName = ''web'', dj_LogsPath = ''/l'' \<rparr>"

definition web_store :: store where
  "web_store = running_store\<lparr>service_environments := [web_binding], containers := [old_container]\<rparr>"


definition easy_store :: "container_row list \<Rightarrow> store \<Rightarrow> bool" where
  "easy_store cs s \<longleftrightarrow> (\<exists>x. deployments s = [x] \<and> dep_id x = ''d1'' \<and> dep_status x \<noteq> DeploymentCancelled) \<and>
     service_environments s = [web_binding] \<and> containers s = cs \<and> environment_variables s = [] \<and>
     database_bindings s = [] \<and> domains s = [] \<and> ob_platform_domain (onboarding_state s) = []"

lemma easy_strings [simp]: "trim ''svc'' = ''svc''" "trim ''env'' = ''env''" "trim ''app'' = ''app''" "trim ''row1'' = ''row1''"
  "trim ''RUNNING'' = ''RUNNING''" "EnvironmentNetworkName ''env'' \<noteq> ''hostforge-env-''"
  by code_simp+

lemma easy_writes:
  assumes "easy_store cs s"
  shows "st \<in> {DeploymentBuilding, DeploymentSuccess} \<Longrightarrow> \<exists>s'. UpdateDeploymentStatus ''d1'' st [] now s = (Inr (), s') \<and> easy_store cs s'"
    "\<exists>s'. UpdateDeploymentCommitHash ''d1'' c now s = (Inr (), s') \<and> easy_store cs s'"
    "\<exists>s'. UpdateDeploymentBuilder ''d1'' k sk sl now s = (Inr (), s') \<and> easy_store cs s'"
    "''row2'' \<notin> ct_id ` set cs \<Longrightarrow> \<exists>row s'. AttachContainer \<lparr> aci_deployment_id = ''d1'', aci_docker_container_id = ''new'', aci_internal_port = p,
       aci_host_port = q, aci_status = ''RUNNING'' \<rparr> ''row2'' now s = (Inr row, s') \<and> easy_store (cs @ [row]) s'"
    "EnsurePlatformServiceDomain ''app'' ''env'' ''svc'' draws ids now s = (Inr (None, False), s)"
    "\<exists>s'. ActivateServiceDeployment ''svc'' ''env'' ''d1'' now s = (Inr (), s')"
  using assms
  by (auto simp: easy_store_def UpdateDeploymentStatus_def UpdateDeploymentCommitHash_def UpdateDeploymentBuilder_def set_deployment_def
      recordDeploymentStatusEventTx_def deployment_statuses_def sql_count_def sql_update_def db_ok_def db_fail_def Let_def AttachContainer_def sql_exists_def
      EnsurePlatformServiceDomain_def platform_domain_of_def sql_get_def ActivateServiceDeployment_def web_binding_def to_lower_def)
    (metis image_eqI)

lemma easy_turns [simp]:
  "look easy_host w = (still_turn ''row2'', w)"
  "stepBoundary easy_host job cleanup step w = (Inr (), w)"
  "on_store easy_host g w = (case g (still_turn ''row2'') (w_store w) of
     (Inl e, s) \<Rightarrow> (Inl (repo_err e), w\<lparr>w_store := s\<rparr>) | (Inr x, s) \<Rightarrow> (Inr x, w\<lparr>w_store := s\<rparr>))"
  "read_store easy_host f w = (f (w_store w), w)"
  by (simp_all add: look_def stepBoundary_def on_store_def read_store_def easy_host_def still_turn_def)


lemma easy_selectors [simp]:
  "deploymentID web_job = ''d1''" "serviceID web_job = ''svc''" "environmentID web_job = ''env''"
  "app_id (dt_Application (dj_Target web_job)) = ''app''" "env_id (dt_Environment (dj_Target web_job)) = ''env''"
  "svc_id (dt_Service (dj_Target web_job)) = ''svc''" "svc_application_id (dt_Service (dj_Target web_job)) = ''app''"
  "svc_github_installation_id (dt_Service (dj_Target web_job)) = 7" "dep_commit_hash (dj_Deployment web_job) = []"
  "svc_health_check_path (dt_Service (dj_Target web_job)) = []" "svc_internal_port (dt_Service (dj_Target web_job)) = 3000"
  "dj_PreviousContainer web_job = old_container" "h_engine easy_host = easy_engine" "tn_now (still_turn i) = 0" "tn_newID (still_turn i) = i"
  by (simp_all add: web_job_def web_target_def web_service_def web_deployment_def deploymentID_def serviceID_def environmentID_def easy_host_def
      still_turn_def)

lemma easy_calls [simp]:
  "ensurePortAvailable easy_engine p w = (Inr (), w)"
  "m_ParsePort easy_engine s = None"
  "NetworkInspect easy_engine n w = (Inl ((plain ''No such network'')\<lparr>de_not_found := True\<rparr>), w\<lparr>dk_calls := dk_calls w @ [(ReqNetInspect n, Refused)]\<rparr>)"
  "NetworkCreate easy_engine n ls w = (Inr n, w\<lparr>dk_calls := dk_calls w @ [(ReqNetCreate n ls, Id n)]\<rparr>)"
  "ContainerCreate easy_engine sp w = (Inr ''new'', w\<lparr>dk_calls := dk_calls w @ [(ReqCreate sp, Id ''new'')]\<rparr>)"
  "ContainerStart easy_engine i w = (Inr (), w\<lparr>dk_calls := dk_calls w @ [(ReqStart i, Accepted)]\<rparr>)"
  "ContainerStop easy_engine i t w = (Inr (), w\<lparr>dk_calls := dk_calls w @ [(ReqStop i t, Accepted)]\<rparr>)"
  "ContainerRemove easy_engine i w = (Inr (), w\<lparr>dk_calls := dk_calls w @ [(ReqRemove i, Accepted)]\<rparr>)"
  by (simp_all add: ensurePortAvailable_def NetworkInspect_def NetworkCreate_def ContainerCreate_def ContainerStart_def ContainerStop_def
      ContainerRemove_def ask_def easy_engine_def)

lemma easy_ios [simp]:
  "io (h_MkdirAll easy_host p) w = (Inr (), w)" "io (h_OpenLog easy_host p) w = (Inr (), w)"
  "io (h_CloneOrUpdate easy_host a b c d) w = (Inr (), w)" "io (h_HeadCommit easy_host p) w = (Inr ''abc'', w)"
  "resolveDeployGitAuth easy_host web_job w = (Inr ''token'', w)"
  "io (h_build easy_host cfg r) w = (Inr \<lparr> bs_Kind = ''railpack'', bs_StackKind = [], bs_StackLabel = [], bs_PlanJSON = [], bs_InfoJSON = [] \<rparr>, w)"
  by (simp_all add: io_def easy_host_def resolveDeployGitAuth_def web_job_def web_target_def)

lemma easy_checkout:
  assumes "easy_store cs (w_store w)"
  shows "\<exists>w1. deploy_checkout easy_host web_job w = (Inr ''abc'', w1) \<and> easy_store cs (w_store w1) \<and> dk_daemon w1 = dk_daemon w"
proof -
  obtain s1 where s1: "UpdateDeploymentStatus ''d1'' DeploymentBuilding [] 0 (w_store w) = (Inr (), s1)" "easy_store cs s1"
    using easy_writes(1) [OF assms] by blast
  obtain s2 where s2: "UpdateDeploymentCommitHash ''d1'' ''abc'' 0 s1 = (Inr (), s2)" "easy_store cs s2"
    using easy_writes(2) [OF s1(2)] by blast
  show ?thesis using s1 s2 by (simp add: deploy_checkout_def attemptW_def record_step_def)
qed

lemma easy_build:
  assumes "easy_store cs (w_store w)" "8080 \<notin> ct_host_port ` set cs"
  shows "\<exists>w1. deploy_build easy_host easy_config web_job w = (Inr (8080, [], []), w1) \<and> easy_store cs (w_store w1) \<and> dk_daemon w1 = dk_daemon w"
proof -
  have "8080 \<notin> ListAllocatedHostPorts [] (w_store w)" using assms by (auto simp: ListAllocatedHostPorts_def easy_store_def)
  then have w0: "engine (PickHostPortAvoiding easy_engine 8080 0 0 (ListAllocatedHostPorts [] (w_store w))) w = (Inr 8080, w)"
    by (simp add: engine_def PickHostPortAvoiding_def)
  obtain s1 where s1: "UpdateDeploymentBuilder ''d1'' ''railpack'' [] [] 0 (w_store w) = (Inr (), s1)" "easy_store cs s1"
    using easy_writes(3) [OF assms(1)] by blast
  have "buildDockerEnvFromEnvironment sealer ''app'' ''env'' ''svc'' (w_store w) = Inr []" for sealer
    using assms by (simp add: buildDockerEnvFromEnvironment_def ListEnvironmentVariablesSealed_def ListDatabaseConnectionBindingsSealed_def
      easy_store_def sql_order_def)
  moreover have "cf_HostPort easy_config = 8080" "cf_PortStart easy_config = 0" "cf_PortEnd easy_config = 0"
    by (simp_all add: easy_config_def zero_config_def)
  ultimately show ?thesis using s1 w0 by (simp add: deploy_build_def attemptW_def record_build_def record_step_def)
qed

lemma easy_candidate:
  assumes "easy_store cs (w_store w)" "''row2'' \<notin> ct_id ` set cs"
  shows "\<exists>row w1. deploy_candidate easy_host easy_config web_job 8080 [] w = (Inr (''new'', row), w1) \<and> easy_store (cs @ [row]) (w_store w1) \<and>
    dk_daemon w1 = dk_daemon w"
proof -
  obtain w0 where w0: "engine (EnsureEnvironmentNetwork easy_engine ''app'' ''env'') w = (Inr (EnvironmentNetworkName ''env''), w0)"
      "w_store w0 = w_store w" "dk_daemon w0 = dk_daemon w"
    by (simp add: engine_def EnsureEnvironmentNetwork_def Let_def)
  obtain w1 where w1: "engine (RunContainer easy_engine (candidate_options easy_config web_job 8080 [])) w0 = (Inr ''new'', w1)"
      "w_store w1 = w_store w" "dk_daemon w1 = dk_daemon w"
    by (simp add: engine_def RunContainer_def candidate_options_def internalPort_def w0)
  obtain row s1 where s1: "AttachContainer \<lparr> aci_deployment_id = ''d1'', aci_docker_container_id = ''new'', aci_internal_port = 3000,
       aci_host_port = 8080, aci_status = ''RUNNING'' \<rparr> ''row2'' 0 (w_store w1) = (Inr row, s1)" "easy_store (cs @ [row]) s1"
    using easy_writes(4) [of cs "w_store w1"] assms w1(2) by metis
  show ?thesis using w0 w1 s1 by (simp add: deploy_candidate_def attemptW_def record_step_def internalPort_def)
qed

lemma easy_probe:
  assumes "dk_daemon w = [503, c]"
  shows "\<exists>r w1. WaitForHealthy easy_host 8080 easy_config w = (r, w1) \<and> w_store w1 = w_store w \<and>
    (if 200 \<le> c \<and> c \<le> 399 then r = Inr () else \<exists>e. r = Inl e)"
  using assms
  by (simp add: WaitForHealthy_def Let_def numeral_2_eq_2 probe_once_def io_def expected_status_def)
    (simp add: easy_host_def easy_config_def zero_config_def numeral_2_eq_2 probe_once_def io_def expected_status_def)

lemma easy_promote:
  assumes "easy_store cs (w_store w)" "dk_daemon w = [503, c]"
  shows "if 200 \<le> c \<and> c \<le> 399
    then \<exists>w1. deploy_promote easy_host easy_config web_job 8080 [] ''new'' row w = (Inr (), w1) \<and> easy_store cs (w_store w1)
    else \<exists>e w1. deploy_promote easy_host easy_config web_job 8080 [] ''new'' row w = (Inl e, w1)"
proof -
  obtain r w1 where p: "WaitForHealthy easy_host 8080 easy_config w = (r, w1)" "w_store w1 = w_store w"
      "if 200 \<le> c \<and> c \<le> 399 then r = Inr () else \<exists>e. r = Inl e" using easy_probe [OF assms(2)] by blast
  have h: "healthConfig web_job easy_config [] = easy_config" by (simp add: healthConfig_def Let_def)
  obtain s1 where s1: "UpdateDeploymentStatus ''d1'' DeploymentSuccess [] 0 (w_store w) = (Inr (), s1)" "easy_store cs s1"
    using easy_writes(1) [OF assms(1)] by blast
  show ?thesis
    using p s1 easy_writes(5) [OF assms(1)] by (auto simp: deploy_promote_def attemptW_def h stop_here_def Let_def record_step_def)
qed

lemma easy_run:
  "\<exists>r w'. ExecuteDeploy easy_host easy_config web_job (deploy_world [503, c] web_store) = (r, w') \<and>
    (if 200 \<le> c \<and> c \<le> 399 then isl r = False else isl r)"
proof -
  have s0: "easy_store [old_container] (w_store (deploy_world [503, c] web_store))" "dk_daemon (deploy_world [503, c] web_store) = [503, c]"
    by (simp_all add: easy_store_def deploy_world_def web_store_def running_store_def fresh_store_def web_deployment_def)
  have old: "8080 \<notin> ct_host_port ` set [old_container]" "''row2'' \<notin> ct_id ` set [old_container]" by (simp_all add: old_container_def)
  obtain w1 where w1: "deploy_checkout easy_host web_job (deploy_world [503, c] web_store) = (Inr ''abc'', w1)"
      "easy_store [old_container] (w_store w1)" "dk_daemon w1 = [503, c]" using easy_checkout [OF s0(1)] s0(2) by auto
  obtain w2 where w2: "deploy_build easy_host easy_config web_job w1 = (Inr (8080, [], []), w2)"
      "easy_store [old_container] (w_store w2)" "dk_daemon w2 = [503, c]" using easy_build [OF w1(2) old(1)] w1(3) by auto
  obtain row w3 where w3: "deploy_candidate easy_host easy_config web_job 8080 [] w2 = (Inr (''new'', row), w3)"
      "easy_store ([old_container] @ [row]) (w_store w3)" "dk_daemon w3 = [503, c]" using easy_candidate [OF w2(2) old(2)] w2(3) by auto
  note prefix = w1(1) w2(1) w3(1)
  show ?thesis
  proof (cases "200 \<le> c \<and> c \<le> 399")
    case True
    then obtain w4 where w4: "deploy_promote easy_host easy_config web_job 8080 [] ''new'' row w3 = (Inr (), w4)"
        "easy_store ([old_container] @ [row]) (w_store w4)" using easy_promote [OF w3(2,3), of row] by auto
    obtain s5 where "ActivateServiceDeployment ''svc'' ''env'' ''d1'' 0 (w_store w4) = (Inr (), s5)" using easy_writes(6) [OF w4(2)] by blast
    then show ?thesis using True prefix w4(1) by (simp add: ExecuteDeploy_def deploy_phases_def attemptW_def deploy_cutover_def)
  next
    case False
    then obtain e w4 where "deploy_promote easy_host easy_config web_job 8080 [] ''new'' row w3 = (Inl e, w4)"
      using easy_promote [OF w3(2,3), of row] by auto
    then show ?thesis using False prefix by (auto simp: ExecuteDeploy_def deploy_phases_def attemptW_def stop_here_def)
  qed
qed

lemma easy_others: "keeps easy_host f" "undisturbed easy_host web_job"
  by (auto simp: keeps_def undisturbed_def stays_def easy_host_def still_turn_def web_job_def old_container_def)

section \<open>The properties\<close>



text \<open>C13. A deployment that returns without an error, left alone by the others, has moved the service over: the
  deployment is a SUCCESS and the active one of its service environment, its container is recorded as
  running under the host port that was picked, the last probe of the candidate was answered as expected,
  and the engine was asked for the candidate first and only then to take down the container it replaces.\<close>

theorem successful_deploy_released:
  assumes run: "ExecuteDeploy H cfg job w = (Inr r, w')"
    and quiet: "undisturbed H job"
  shows "succeeded (deploymentID job) (w_store w') \<and>
    set (release (serviceID job) (environmentID job) (w_store w')) = {trim (deploymentID job)} \<and>
    (\<exists>c. has_row c (w_store w') \<and> ct_deployment_id c = trim (deploymentID job) \<and>
      ct_docker_container_id c = trim (dr_ContainerID r) \<and> ct_host_port c = dr_HostPort r \<and> ct_status c = ''RUNNING'') \<and>
    (\<exists>code. expected_status cfg code \<and> last (w_probes w') = Inr code \<and> length (w_probes w) < length (w_probes w')) \<and>
    (\<exists>net old env. dk_calls w' = dk_calls w @ net @
        [(ReqCreate (run_spec (candidate_options cfg job (dr_HostPort r) env)), Id (dr_ContainerID r)),
         (ReqStart (dr_ContainerID r), Accepted)] @ old \<and> started net = {} \<and> stopped net = {} \<and>
      (old = [] \<or> taken_down (ct_docker_container_id (dj_PreviousContainer job)) old))"
proof -
  let ?sid = "serviceID job" and ?eid = "environmentID job"
  have k: "keeps H (release ?sid ?eid)" using quiet by (simp add: undisturbed_def)
  obtain w0 where ph: "deploy_phases H cfg job w = (Inr r, w0)" "w' = record_step ''deploy_total'' ''ok'' [] w0"
    using run by (auto simp: ExecuteDeploy_def split: sum.splits prod.splits)
  obtain commit port env sk i row u w1 w2 w3 w4 where
      p1: "deploy_checkout H job w = (Inr commit, w1)" and p2: "deploy_build H cfg job w1 = (Inr (port, env, sk), w2)"
    and p3: "deploy_candidate H cfg job port env w2 = (Inr (i, row), w3)"
    and p4: "deploy_promote H cfg job port sk i row w3 = (Inr u, w4)"
    and p5: "deploy_cutover H cfg job port i row w4 = (Inr r, w0)"
    using ph(1) by (auto simp: deploy_phases_def attemptW_def stop_here_def split: sum.splits prod.splits)
  have c1: "calm (release ?sid ?eid) w w1" "calm (release ?sid ?eid) w1 w2"
    using calm_checkout [OF k, of w job] calm_build [OF k, of w1 cfg job] p1 p2 by simp_all
  obtain net where net: "dk_calls w3 = dk_calls w @ net @ [(ReqCreate (run_spec (candidate_options cfg job port env)), Id i), (ReqStart i, Accepted)]"
      "started net = {}" "stopped net = {}"
    by (rule candidate_calls [OF k p3]) (use c1 in \<open>auto simp: asked_def calm_def\<close>)
  have row: "has_row row (w_store w3)" "ct_deployment_id row = trim (deploymentID job)" "ct_docker_container_id row = trim i"
      "ct_host_port row = port" "ct_status row = ''RUNNING''" "\<exists>d. ct_id row = tn_newID (fst (h_turn H d))"
    using candidate_row [OF p3] by auto
  have st: "stays H (has_row row)" "stays H (succeeded (deploymentID job))" using quiet row(2) by (auto simp: undisturbed_def)
  have "w_probes w3 = w_probes w" using candidate_probes [OF p3] c1 by (simp add: calm_def)
  note pr = promote_ok [OF p4 st(1) row(1), unfolded this]
  obtain w5 where act: "on_store H (\<lambda>t. ActivateServiceDeployment ?sid ?eid (deploymentID job) (tn_now t)) w4 = (Inr (), w5)"
    and r: "dr_ContainerID r = i" "dr_HostPort r = port"
    and w0: "w0 = retire_previous H job i (if h_notifier H then w5\<lparr>w_notified := w_notified w5 + 1\<rparr> else w5)"
    using p5 by (auto simp: deploy_cutover_def attemptW_def fail_candidate_def serviceID_def environmentID_def split: sum.splits prod.splits)
  obtain t where t: "ActivateServiceDeployment ?sid ?eid (deploymentID job) (tn_now t) (tn_others t (w_store w4)) = (Inr (), w_store w5)"
      "t = fst (h_turn H (dk_daemon w4))" "dk_calls w5 = dk_calls w4" "w_probes w5 = w_probes w4" by (rule on_store_ok [OF act])
  have "has_row row (tn_others t (w_store w4))" "succeeded (deploymentID job) (tn_others t (w_store w4))"
    using pr stays_others [OF st(1)] stays_others [OF st(2)] t(2) by simp_all
  then have w5: "has_row row (w_store w5)" "succeeded (deploymentID job) (w_store w5)"
    using Activate_ok [OF t(1)] by (simp_all add: has_row_def succeeded_def)
  let ?v = "if h_notifier H then w5\<lparr>w_notified := w_notified w5 + 1\<rparr> else w5"
  obtain d where "ct_id row = tn_newID (fst (h_turn H d))" using row(6) by blast
  note rt = retire_ok [OF quiet row(2) this, of ?v i]
  have calls: "dk_calls w4 = dk_calls w3"
    using guarded_promote [OF k, of i w3 cfg job port sk row] p4 by (simp add: guarded_def asked_def)
  obtain old where old: "dk_calls w0 = dk_calls w3 @ old" "old = [] \<or> taken_down (ct_docker_container_id (dj_PreviousContainer job)) old"
    using rt w5 calls t(3) w0 by (auto split: if_splits)
  have "\<exists>c. has_row c (w_store w') \<and> ct_deployment_id c = trim (deploymentID job) \<and>
      ct_docker_container_id c = trim (dr_ContainerID r) \<and> ct_host_port c = dr_HostPort r \<and> ct_status c = ''RUNNING''"
    using rt w5 w0 row r ph(2) by (intro exI [of _ row]) (auto split: if_splits)
  moreover have "succeeded (deploymentID job) (w_store w')" "set (release ?sid ?eid (w_store w')) = {trim (deploymentID job)}"
      "w_probes w' = w_probes w4"
    using rt w5 w0 ph(2) Activate_ok [OF t(1)] t(4) by (auto split: if_splits)
  moreover have "dk_calls w' = dk_calls w @ net @
      [(ReqCreate (run_spec (candidate_options cfg job (dr_HostPort r) env)), Id (dr_ContainerID r)), (ReqStart (dr_ContainerID r), Accepted)] @ old"
    using old(1) net(1) r ph(2) by simp
  ultimately show ?thesis using pr old(2) net(2,3) by metis
qed

theorem successful_deploy_released_witness:
  "\<exists>r w'. ExecuteDeploy easy_host easy_config web_job (deploy_world [503, 200] web_store) = (Inr r, w') \<and>
     succeeded ''d1'' (w_store w') \<and> set (release ''svc'' ''env'' (w_store w')) = {''d1''}"
proof -
  obtain r w' where run: "ExecuteDeploy easy_host easy_config web_job (deploy_world [503, 200] web_store) = (Inr r, w')"
    using easy_run [of 200] by (auto simp: isl_def) (metis sum.exhaust)
  show ?thesis using successful_deploy_released [OF run easy_others(2)] run by auto
qed

text \<open>C28. The health check probes the candidate at most as often as configured, stops at the first accepted
  answer, succeeds exactly when there is one, and without cancellation fails only after all attempts were made;
  it touches neither the database nor the engine.\<close>

theorem health_check_exact:
  assumes "WaitForHealthy H port cfg w = (r, w')"
  shows "\<exists>ps. only_probes w ps w' \<and> length ps \<le> nat (cf_HealthRetries cfg) \<and>
    (r = Inr () \<longleftrightarrow> ps \<noteq> [] \<and> accepted cfg (last ps)) \<and> (\<forall>p \<in> set (butlast ps). \<not> accepted cfg p) \<and>
    (r \<noteq> Inr () \<and> r \<noteq> Inl [Canceled] \<and> (\<forall>target. h_NewRequest H target = None) \<longrightarrow>
      length ps = nat (cf_HealthRetries cfg))"
  by (rule health_check_probes [OF assms])

theorem health_check_exact_witness:
  "\<exists>r w1 ps. WaitForHealthy easy_host 8080 easy_config (deploy_world [503, 200] web_store) = (r, w1) \<and>
     only_probes (deploy_world [503, 200] web_store) ps w1 \<and> r = Inr () \<and> accepted easy_config (last ps)"
proof -
  obtain r w1 where p: "WaitForHealthy easy_host 8080 easy_config (deploy_world [503, 200] web_store) = (r, w1)" "r = Inr ()"
    using easy_probe [of "deploy_world [503, 200] web_store" 200] by (auto simp: deploy_world_def)
  from health_check_exact [OF p(1)] p show ?thesis by blast
qed

end
