(* ===== verification/HF_Sweep_Props.thy ===== *)
theory HF_Sweep_Props
  imports HF_Reconcile HF_Deploy_Props HF_Docker_Props
begin

text \<open>
  The loops take away only what may go: the boot sweep removes containers of failed and cancelled
  deployments alone, image collection spares every image a deployment still needs, a purge waits for
  the retention window, and reconciliation asks the engine questions only.
\<close>

section \<open>What a step asks the engine\<close>

text \<open>The steps that only read or write the database ask the engine nothing.\<close>

lemma quiet_calls:
  "dk_calls (snd (look H w)) = dk_calls w" "dk_calls (snd (read_store H g w)) = dk_calls w"
  "dk_calls (snd (on_store H h w)) = dk_calls w" "dk_calls (snd (io k w)) = dk_calls w"
  "dk_calls (mark_removed H row w) = dk_calls w"
proof -
  have k: "keeps H (\<lambda>_. ())" by (simp add: keeps_def)
  show "dk_calls (snd (look H w)) = dk_calls w" using calm_look [OF k, of w] by (simp add: calm_def)
  show "dk_calls (snd (read_store H g w)) = dk_calls w" using calm_read_store [OF k, of w g] by (simp add: calm_def)
  have s: "dk_calls (snd (on_store H h w)) = dk_calls w" for h :: "turn \<Rightarrow> 'x db" and w
    using calm_on_store [where g = h and w = w, OF k] by (simp add: calm_def)
  then show "dk_calls (snd (on_store H h w)) = dk_calls w" .
  show "dk_calls (snd (io k w)) = dk_calls w" using calm_io [of "\<lambda>_. ()" w k] by (simp add: calm_def)
  show "dk_calls (mark_removed H row w) = dk_calls w" by (simp add: mark_removed_def s)
qed

lemma read_seen: "read_store H g w = (Inr x, w1) \<Longrightarrow> g (w_store (snd (look H w))) = Inr x \<and> dk_calls w1 = dk_calls w"
  using quiet_calls(2) [of H g w] by (auto simp: read_store_def split: prod.splits if_splits)

text \<open>All new calls of a step are fine by P, a property that further calls do not spoil.\<close>

definition asks :: "(call list \<Rightarrow> call \<Rightarrow> bool) \<Rightarrow> ('d, 'z) dock_scheme \<Rightarrow> ('d, 'z) dock_scheme \<Rightarrow> bool" where
  "asks P w w' \<longleftrightarrow> (\<exists>cs. dk_calls w' = dk_calls w @ cs \<and> (\<forall>c \<in> set cs. P cs c))"

definition lasting :: "(call list \<Rightarrow> call \<Rightarrow> bool) \<Rightarrow> bool" where
  "lasting P \<longleftrightarrow> (\<forall>a b c. set a \<subseteq> set b \<longrightarrow> P a c \<longrightarrow> P b c)"

lemma asks_same: "dk_calls w' = dk_calls w \<Longrightarrow> asks P w w'"
  by (simp add: asks_def)

lemma asks_trans:
  assumes P: "lasting P" and ab: "asks P w w1" "asks P w1 w2"
  shows "asks P w w2"
proof -
  obtain a b where ab: "dk_calls w1 = dk_calls w @ a" "dk_calls w2 = dk_calls w1 @ b"
      "\<forall>c \<in> set a. P a c" "\<forall>c \<in> set b. P b c" using ab unfolding asks_def by blast
  have "P (a @ b) c" if "c \<in> set (a @ b)" for c
    using that ab(3,4) P [unfolded lasting_def, rule_format, of a "a @ b" c] P [unfolded lasting_def, rule_format, of b "a @ b" c]
    by auto
  then show ?thesis using ab(1,2) unfolding asks_def by (intro exI [of _ "a @ b"]) simp
qed

section \<open>The boot sweep\<close>

text \<open>
  A container is stopped or removed with good reason: it is the container of a candidate, and was inspected
  and found to carry the labels of the candidate's service and environment.
\<close>

definition labelled_for :: "sweepable_container \<Rightarrow> container_info \<Rightarrow> bool" where
  "labelled_for c ci \<longleftrightarrow> (\<exists>ls img. cin_Config ci = Some (ls, img) \<and> managed_as ''application-container'' ls \<and>
     label ls ServiceIDLabel = sw_service_id c \<and> label ls EnvironmentIDLabel = sw_environment_id c)"

fun taken :: "request \<Rightarrow> string option" where
  "taken (ReqStop i t) = Some i" | "taken (ReqRemove i) = Some i" | "taken _ = None"

definition sweep_call :: "sweepable_container set \<Rightarrow> call list \<Rightarrow> call \<Rightarrow> bool" where
  "sweep_call C cs c \<longleftrightarrow> (\<exists>i. fst c = ReqInspect i) \<or>
     (\<exists>x \<in> C. taken (fst c) = Some (sw_docker_container_id x) \<and>
       (\<exists>ci. (ReqInspect (trim (sw_docker_container_id x)), Container ci) \<in> set cs \<and> labelled_for x ci))"

lemma lasting_sweep: "lasting (sweep_call C)"
  unfolding lasting_def sweep_call_def by blast

lemma inspected:
  assumes "InspectManagedContainer M i w = (r, w1)"
  shows "\<exists>a. dk_calls w1 = dk_calls w @ [(ReqInspect (trim i), a)] \<and>
    (\<forall>x. r = Inr x \<longrightarrow> (\<exists>ci img. a = Container ci \<and> cin_Config ci = Some (insp_Labels x, img) \<and>
       label (insp_Labels x) ManagedLabel = ''true''))"
  using assms by (auto simp: InspectManagedContainer_def engine_calls inspection_of_def
      split: sum.splits prod.splits option.splits if_splits dest!: behaved_ask)

lemma sweep_one:
  assumes "c \<in> C"
  shows "asks (sweep_call C) w (snd (sweep_container H c w))"
proof -
  let ?i = "sw_docker_container_id c"
  obtain r w1 where i: "InspectManagedContainer (h_engine H) ?i w = (r, w1)" by fastforce
  obtain a where a: "dk_calls w1 = dk_calls w @ [(ReqInspect (trim ?i), a)]"
    and found: "\<forall>x. r = Inr x \<longrightarrow> (\<exists>ci img. a = Container ci \<and> cin_Config ci = Some (insp_Labels x, img) \<and>
       label (insp_Labels x) ManagedLabel = ''true'')"
    using inspected [OF i] by (elim exE conjE) (rule that)
  show ?thesis
  proof (cases "\<exists>x. r = Inr x \<and> owned_by_row x c")
    case False
    then have "dk_calls (snd (sweep_container H c w)) = dk_calls w1"
      using i by (auto simp: sweep_container_def quiet_calls split: sum.split)
    then show ?thesis using a by (auto simp: asks_def sweep_call_def)
  next
    case True
    then obtain x ci where x: "r = Inr x" "owned_by_row x c" "a = Container ci" "labelled_for c ci"
      using found by (fastforce simp: labelled_for_def owned_by_row_def managed_as_def)
    obtain q w2 where s: "StopAndRemove (h_engine H) ?i w1 = (q, w2)" by fastforce
    obtain b cs where calls: "dk_calls w2 = dk_calls w1 @ (ReqStop ?i 10, b) # cs" "cs = [] \<or> (\<exists>d. cs = [(ReqRemove ?i, d)])"
      using StopAndRemove_calls [of "h_engine H" ?i 10 w1] s by (auto simp: StopAndRemove_def)
    have "dk_calls (snd (sweep_container H c w)) = dk_calls w2"
      using i x(1,2) s by (simp add: sweep_container_def quiet_calls split: sum.split)
    then have "dk_calls (snd (sweep_container H c w)) =
        dk_calls w @ (ReqInspect (trim ?i), Container ci) # (ReqStop ?i 10, b) # cs" using a calls x(3) by simp
    then show ?thesis using calls(2) x(4) assms by (auto simp: asks_def sweep_call_def)
  qed
qed

lemma sweep_all: "set cs \<subseteq> C \<Longrightarrow> asks (sweep_call C) w (snd (sweep_containers H cs w))"
proof (induction cs arbitrary: w)
  case (Cons c cs)
  then have "asks (sweep_call C) (snd (sweep_container H c w)) (snd (sweep_containers H cs (snd (sweep_container H c w))))" by simp
  then have "asks (sweep_call C) w (snd (sweep_containers H cs (snd (sweep_container H c w))))"
    using asks_trans [OF lasting_sweep sweep_one [of c C w H]] Cons.prems by simp
  moreover have "snd (sweep_containers H (c # cs) w) = snd (sweep_containers H cs (snd (sweep_container H c w)))"
    by (simp split: prod.split)
  ultimately show ?case by simp
qed (simp add: asks_same)

text \<open>The candidates: running rows of failed or cancelled deployments that are not the active one.\<close>

definition active_in :: "string \<Rightarrow> string \<Rightarrow> store \<Rightarrow> string set" where
  "active_in sid eid s = se_active_deployment_id `
     set (filter (\<lambda>b. se_service_id b = sid \<and> se_environment_id b = eid) (service_environments s))"

definition dead_container :: "store \<Rightarrow> sweepable_container \<Rightarrow> bool" where
  "dead_container s c \<longleftrightarrow>
     (\<exists>d \<in> set (deployments s). dep_id d = sw_deployment_id c \<and> dep_service_id d = sw_service_id c \<and>
        dep_environment_id d = sw_environment_id c \<and> dep_status d \<in> {DeploymentFailed, DeploymentCancelled}) \<and>
     (\<exists>r \<in> set (containers s). ct_deployment_id r = sw_deployment_id c \<and>
        ct_docker_container_id r = sw_docker_container_id c \<and> ct_status r = ''RUNNING'') \<and>
     active_in (sw_service_id c) (sw_environment_id c) s \<noteq> {sw_deployment_id c}"

lemma candidate_is_dead: "c \<in> set (ListSweepableDeployContainers s) \<Longrightarrow> dead_container s c"
  by (auto simp: ListSweepableDeployContainers_def not_active_def Let_def active_in_def dead_container_def filter_empty_conv
      list_ex_iff sql_order_def)

text \<open>C14. The boot sweep stops or removes a container only if the database it read has it as the running container of a
  deployment that failed or was cancelled and is not the active one of its service environment, and only after an
  inspection found HostForge's labels of exactly that service and environment on it; all else it asks the
  engine is to inspect.\<close>

theorem orphan_sweep_safe:
  assumes "SweepOrphanedDeployContainers H w = (r, w')"
  shows "\<exists>cs. dk_calls w' = dk_calls w @ cs \<and>
    (\<forall>q \<in> set cs. (\<exists>i. fst q = ReqInspect i) \<or>
      (\<exists>c ci. dead_container (w_store (snd (look H w))) c \<and> taken (fst q) = Some (sw_docker_container_id c) \<and>
        (ReqInspect (trim (sw_docker_container_id c)), Container ci) \<in> set cs \<and> labelled_for c ci))"
proof (cases "read_store H (\<lambda>s. Inr (ListSweepableDeployContainers s)) w")
  case (Pair x w1)
  let ?s = "w_store (snd (look H w))"
  have "asks (sweep_call (set (ListSweepableDeployContainers ?s))) w w'"
  proof (cases x)
    case (Inl e)
    then show ?thesis
      using assms Pair quiet_calls(2) [of H "\<lambda>s. Inr (ListSweepableDeployContainers s)" w]
      by (auto simp: SweepOrphanedDeployContainers_def attemptW_def asks_same)
  next
    case (Inr cands)
    have seen: "cands = ListSweepableDeployContainers ?s" "dk_calls w1 = dk_calls w"
      using read_seen [of H _ w cands w1] Pair Inr by auto
    have "w' = snd (sweep_containers H cands w1)"
      using assms Pair Inr by (auto simp: SweepOrphanedDeployContainers_def attemptW_def split: prod.splits)
    then show ?thesis
      using sweep_all [where cs = cands and C = "set cands" and H = H and w = w1] seen by (simp add: asks_def)
  qed
  then show ?thesis unfolding asks_def sweep_call_def using candidate_is_dead by blast
qed

section \<open>Image collection\<close>

definition collects :: "string set \<Rightarrow> call list \<Rightarrow> call \<Rightarrow> bool" where
  "collects keep cs c \<longleftrightarrow> (\<exists>p. fst c = ReqImageList p) \<or>
     (\<exists>tag. fst c = ReqImageRemove tag False \<and> has_prefix tag deployImageRepoPrefix \<and> tag \<notin> keep)"

lemma lasting_collects: "lasting (collects keep)"
  by (simp add: lasting_def collects_def)

lemma tags_collected:
  "list_all (\<lambda>t. has_prefix t deployImageRepoPrefix) tags \<Longrightarrow> asks (collects keep) w (snd (sweep_tags M keep tags w))"
proof (induction tags arbitrary: w)
  case (Cons t ts)
  obtain r w1 where t: "RemoveImageIfUnused M t w = (r, w1)" by fastforce
  then obtain a where "dk_calls w1 = dk_calls w @ [(ReqImageRemove t False, a)]"
    by (auto simp: RemoveImageIfUnused_def engine_calls split: sum.splits prod.splits dest!: behaved_ask)
  then have "asks (collects keep) w w1" if "t \<notin> keep" using that Cons.prems by (auto simp: asks_def collects_def)
  moreover have "asks (collects keep) w1 (snd (sweep_tags M keep ts w1))" "asks (collects keep) w (snd (sweep_tags M keep ts w))"
    using Cons by simp_all
  ultimately have "asks (collects keep) w (snd (sweep_tags M keep ts w1))" if "t \<notin> keep"
    using that asks_trans [OF lasting_collects] by blast
  moreover have "snd (sweep_tags M keep (t # ts) w) =
      (if t \<in> keep then snd (sweep_tags M keep ts w) else snd (sweep_tags M keep ts w1))"
    using t by (simp split: prod.split)
  ultimately show ?case using \<open>asks (collects keep) w (snd (sweep_tags M keep ts w))\<close> by simp
qed (simp add: asks_same)

lemma kept_image:
  assumes "d \<in> set (deployments s)" "dep_image_ref d \<noteq> []"
    "(\<exists>c \<in> set (containers s). ct_deployment_id c = dep_id d \<and> ct_status c \<noteq> ''REMOVED'') \<or> dep_open d \<or>
     dep_status d = DeploymentSuccess \<and> newer_successes d s < nat retain"
  shows "dep_image_ref d \<in> ListRetainedImageRefs retain s"
proof -
  have "nat (if retain < 0 then 0 else retain) = nat retain" by simp
  then show ?thesis using assms by (auto simp: ListRetainedImageRefs_def Let_def sql_exists_def list_ex_iff intro!: imageI)
qed

text \<open>C15. Image collection never forces a removal and asks only for images of deployments, and never for one that a
  deployment in the database it read still needs: the image of a deployment with a container that is not
  removed, of one still open, or of one of the newest successes to be retained per service environment.\<close>

theorem image_collection_spares_needed:
  assumes "SweepUnreferencedImages H retain w = (r, w')"
  shows "\<exists>cs. dk_calls w' = dk_calls w @ cs \<and>
    (\<forall>q \<in> set cs. (\<exists>p. fst q = ReqImageList p) \<or>
      (\<exists>tag. fst q = ReqImageRemove tag False \<and> has_prefix tag deployImageRepoPrefix \<and>
        (\<forall>d \<in> set (deployments (w_store (snd (look H w)))). dep_image_ref d = tag \<longrightarrow>
           (\<forall>c \<in> set (containers (w_store (snd (look H w)))). ct_deployment_id c = dep_id d \<longrightarrow> ct_status c = ''REMOVED'') \<and>
           \<not> dep_open d \<and>
           (dep_status d = DeploymentSuccess \<longrightarrow> nat retain \<le> newer_successes d (w_store (snd (look H w)))))))"
proof (cases "read_store H (\<lambda>s. Inr (ListRetainedImageRefs retain s)) w")
  case (Pair x w1)
  let ?s = "w_store (snd (look H w))" and ?keep = "ListRetainedImageRefs retain (w_store (snd (look H w)))"
  have "asks (collects ?keep) w w'"
  proof (cases x)
    case (Inl e)
    then show ?thesis
      using assms Pair quiet_calls(2) [of H "\<lambda>s. Inr (ListRetainedImageRefs retain s)" w]
      by (auto simp: SweepUnreferencedImages_def attemptW_def asks_same)
  next
    case (Inr keep)
    have seen: "keep = ?keep" "dk_calls w1 = dk_calls w" using read_seen [of H _ w keep w1] Pair Inr by auto
    obtain q w2 where l: "engine (ListImagesByRepoPrefix (h_engine H) deployImageRepoPrefix) w1 = (q, w2)" by fastforce
    then obtain a p where c: "dk_calls w2 = dk_calls w1 @ [(ReqImageList p, a)]"
      by (auto simp: engine_def ListImagesByRepoPrefix_def engine_calls split: sum.splits prod.splits dest!: behaved_ask)
    have good: "list_all (\<lambda>t. has_prefix t deployImageRepoPrefix) (concat (map snd ims))" if "q = Inr ims" for ims
      using l that by (auto simp: engine_def ListImagesByRepoPrefix_def list_all_iff split: sum.splits prod.splits)
    have listed: "asks (collects ?keep) w w2" using c seen(2) by (auto simp: asks_def collects_def)
    show ?thesis
    proof (cases q)
      case (Inl e)
      then show ?thesis using assms Pair Inr l listed by (auto simp: SweepUnreferencedImages_def attemptW_def)
    next
      case ims: (Inr ims)
      then have "w' = snd (sweep_tags (h_engine H) keep (concat (map snd ims)) w2)"
        using assms Pair Inr l by (auto simp: SweepUnreferencedImages_def attemptW_def split: prod.splits)
      then show ?thesis
        using asks_trans [OF lasting_collects listed tags_collected [OF good [OF ims], where M = "h_engine H"]] seen(1) by simp
    qed
  qed
  moreover have "(\<forall>c \<in> set (containers ?s). ct_deployment_id c = dep_id d \<longrightarrow> ct_status c = ''REMOVED'') \<and> \<not> dep_open d \<and>
      (dep_status d = DeploymentSuccess \<longrightarrow> nat retain \<le> newer_successes d ?s)"
    if "d \<in> set (deployments ?s)" "dep_image_ref d \<notin> ?keep" "has_prefix (dep_image_ref d) deployImageRepoPrefix" for d
    using that kept_image [of d ?s retain] by (fastforce simp: deployImageRepoPrefix_def has_prefix_def not_less)
  ultimately show ?thesis unfolding asks_def collects_def by blast
qed

section \<open>Purging databases\<close>

text \<open>
  A volume is removed with good reason: an inspection found it to be a database volume of one of the
  instances.
\<close>

definition purge_call :: "database_instance_row set \<Rightarrow> call list \<Rightarrow> call \<Rightarrow> bool" where
  "purge_call D cs c \<longleftrightarrow> (\<exists>v. fst c = ReqVolInspect v) \<or> (\<exists>n. fst c = ReqNetInspect n) \<or> (\<exists>n. fst c = ReqNetRemove n) \<or>
     (\<exists>d \<in> D. \<exists>v. fst c = ReqVolRemove (vin_Name v) \<and> (ReqVolInspect (trim (di_volume_name d)), Volume v) \<in> set cs \<and>
        managed_as ''database-volume'' (vin_Labels v) \<and>
        (trim (di_id d) \<noteq> [] \<longrightarrow> label (vin_Labels v) InstanceIDLabel = trim (di_id d)))"

lemma lasting_purge: "lasting (purge_call D)"
  unfolding lasting_def purge_call_def by blast

lemma asks_each:
  assumes "lasting P" "\<And>d w. d \<in> set ds \<Longrightarrow> asks P w (snd (f d w))"
  shows "asks P w (snd (each_instance f ds w))"
  using assms(2)
proof (induction ds arbitrary: w)
  case (Cons d ds)
  have "asks P w (snd (f d w))" using Cons.prems by simp
  moreover have "asks P w1 (snd (each_instance f ds w1))" for w1 using Cons by simp
  ultimately have "asks P w (snd (each_instance f ds (snd (f d w))))" using asks_trans [OF assms(1)] by blast
  then show ?case using \<open>asks P w (snd (f d w))\<close> by (cases "f d w") (auto split: sum.split)
qed (simp add: asks_same)

lemma purge_one: "d \<in> D \<Longrightarrow> asks (purge_call D) w (snd (purge_volume H d w))"
proof -
  assume d: "d \<in> D"
  have "asks (purge_call D) w (snd (RemoveManagedDatabaseVolume M v (di_id d) w))" if "v = di_volume_name d" for M v
    using d that
    by (auto simp: asks_def purge_call_def RemoveManagedDatabaseVolume_def engine_calls split: sum.split prod.split
        dest!: behaved_ask)
  then show ?thesis
    by (auto simp: purge_volume_def attemptW_def engine_def coded_def split: sum.split prod.split) (metis snd_conv)+
qed

lemma network_one: "asks (purge_call D) w (snd (purge_network H d w))"
proof -
  let ?g = "\<lambda>s. Inr (EnvironmentHasRetainedDatabaseInstances (di_environment_id d) s)"
  obtain r w1 where r: "read_store H ?g w = (r, w1)" by fastforce
  have "dk_calls w1 = dk_calls w" using quiet_calls(2) [of H ?g w] r by simp
  moreover have "asks (purge_call D) w1 (snd (RemoveEnvironmentNetworkIfEmpty M e w1))" for M e
    by (auto simp: asks_def purge_call_def RemoveEnvironmentNetworkIfEmpty_def remove_network_def Let_def engine_calls
        split: sum.split prod.split dest!: behaved_ask)
  ultimately show ?thesis using r by (auto simp: purge_network_def asks_def split: sum.split bool.split)
qed

lemma asks_attempt:
  assumes P: "lasting P" "asks P w (snd (m w))" "\<And>e w1. asks P w1 (snd (g e w1))"
    and go: "\<And>x w1. m w = (Inr x, w1) \<Longrightarrow> asks P w1 (snd (h x w1))"
  shows "asks P w (snd (attemptW m g h w))"
proof (cases "m w")
  case (Pair r w1)
  then have "asks P w w1" using P(2) by simp
  then have e: "asks P w (snd (g e w1))" for e using asks_trans [OF P(1) _ P(3)] by blast
  have "asks P w (snd (h x w1))" if "r = Inr x" for x
    using asks_trans [OF P(1) \<open>asks P w w1\<close> go [of x w1]] Pair that by simp
  with e show ?thesis using Pair by (auto simp: attemptW_def split: sum.split)
qed

text \<open>C23. Purging a deleted database asks the engine for nothing unless every instance of the service is past its
  retention window and no operation of the service is waiting or running, in the database it read; and the only
  volumes it removes are those an inspection found to be database volumes labelled with one of these instances.\<close>

theorem purge_waits_for_retention:
  assumes "PurgeDatabaseServiceAndRuntime H sid at actor w = (r, w')"
  shows "\<exists>cs. dk_calls w' = dk_calls w @ cs \<and>
    (cs \<noteq> [] \<longrightarrow> (\<forall>d \<in> set (ListDatabaseInstances sid (w_store (snd (look H w)))). purge_eligible at d) \<and>
       sql_count (service_ops sid [''queued'', ''running'']) (operations (w_store (snd (look H w)))) = 0) \<and>
    (\<forall>q \<in> set cs. purge_call (set (ListDatabaseInstances sid (w_store (snd (look H w))))) cs q)"
proof (cases "read_store H (purgeable sid at) w")
  case (Pair x w1)
  let ?s = "w_store (snd (look H w))"
  let ?P = "purge_call (set (ListDatabaseInstances sid ?s))"
  have quiet: "dk_calls w1 = dk_calls w" using quiet_calls(2) [of H "purgeable sid at" w] Pair by simp
  show ?thesis
  proof (cases x)
    case (Inl e)
    then show ?thesis
      using assms Pair quiet by (auto simp: PurgeDatabaseServiceAndRuntime_def attemptW_def)
  next
    case (Inr y)
    then obtain v ds where y: "x = Inr (v, ds)" by (cases y) auto
    then have "purgeable sid at ?s = Inr (v, ds)" using read_seen [of H "purgeable sid at" w "(v, ds)" w1] Pair by auto
    then have ds: "ds = ListDatabaseInstances sid ?s" "\<forall>d \<in> set ds. purge_eligible at d"
        "sql_count (service_ops sid [''queued'', ''running'']) (operations ?s) = 0"
      by (auto simp: purgeable_def EnsureDatabaseServicePurgeReady_def Let_def db_fail_def find_None_iff
          split: sum.splits prod.splits if_splits option.splits)
    have silent: "asks ?P v1 (snd (coded c e v1))" "asks ?P v1 (snd (on_store H g v1))" for c e g and v1 :: "'a world"
      by (simp_all add: coded_def asks_same quiet_calls)
    have "asks ?P w1 (snd ((attemptW (each_instance (purge_volume H) ds) (\<lambda>e w. (Inl e, w)) (\<lambda>_.
       attemptW (on_store H (\<lambda>t. RecordPlatformEvent (purge_event v actor) (tn_now t))) (coded ''database_purge_audit_failed'') (\<lambda>_.
       attemptW (on_store H (\<lambda>t. PurgeDatabaseServiceRecords sid at)) (coded ''database_record_purge_failed'') (\<lambda>_.
         each_instance (purge_network H) ds)))) w1))"
      by (intro asks_attempt lasting_purge silent asks_each purge_one network_one) (auto simp: ds(1) asks_same)
    moreover have "w' = snd ((attemptW (each_instance (purge_volume H) ds) (\<lambda>e w. (Inl e, w)) (\<lambda>_.
       attemptW (on_store H (\<lambda>t. RecordPlatformEvent (purge_event v actor) (tn_now t))) (coded ''database_purge_audit_failed'') (\<lambda>_.
       attemptW (on_store H (\<lambda>t. PurgeDatabaseServiceRecords sid at)) (coded ''database_record_purge_failed'') (\<lambda>_.
         each_instance (purge_network H) ds)))) w1)"
      using assms Pair y unfolding PurgeDatabaseServiceAndRuntime_def by (subst (asm) attemptW_def) simp
    ultimately show ?thesis using quiet ds by (auto simp: asks_def)
  qed
qed

section \<open>Reconciliation\<close>

fun observes :: "request \<Rightarrow> bool" where
  "observes (ReqInspect i) = True" | "observes (ReqNetInspect n) = True" | "observes (ReqVolInspect v) = True"
| "observes ReqUsage = True" | "observes _ = False"

text \<open>What was observed of an instance may change; a container found missing is forgotten.\<close>

definition observed_as :: "database_instance_row \<Rightarrow> database_instance_row \<Rightarrow> bool" where
  "observed_as d d' \<longleftrightarrow> di_id d' = di_id d \<and> di_service_id d' = di_service_id d \<and> di_environment_id d' = di_environment_id d \<and>
     di_engine_version d' = di_engine_version d \<and> di_image_ref d' = di_image_ref d \<and> di_network_alias d' = di_network_alias d \<and>
     di_internal_port d' = di_internal_port d \<and> di_volume_name d' = di_volume_name d \<and> di_resource_preset d' = di_resource_preset d \<and>
     di_cpu_limit_millis d' = di_cpu_limit_millis d \<and> di_memory_limit_bytes d' = di_memory_limit_bytes d \<and> di_desired_state d' = di_desired_state d \<and>
     di_deleted_at d' = di_deleted_at d \<and> di_purge_after d' = di_purge_after d \<and> di_created_at d' = di_created_at d \<and>
     di_docker_container_id d' \<in> {di_docker_container_id d, []}"

definition only_observed :: "store \<Rightarrow> store \<Rightarrow> bool" where
  "only_observed s s' \<longleftrightarrow> s' = s\<lparr>database_instances := database_instances s'\<rparr> \<and>
     list_all2 observed_as (database_instances s) (database_instances s')"

lemma observed_refl: "observed_as d d"
  by (simp add: observed_as_def)

lemma observed_trans: "observed_as a b \<Longrightarrow> observed_as b c \<Longrightarrow> observed_as a c"
  by (auto simp: observed_as_def)

lemma observed_ids: "list_all2 observed_as xs ys \<Longrightarrow> map di_id ys = map di_id xs"
  by (induction rule: list_all2_induct) (auto simp: observed_as_def)

lemma only_observed_refl: "only_observed s s"
  by (simp add: only_observed_def list_all2_refl observed_refl)

lemma only_observed_trans:
  assumes "only_observed a b" "only_observed b c"
  shows "only_observed a c"
proof -
  obtain xs ys where b: "b = a\<lparr>database_instances := xs\<rparr>" and c: "c = b\<lparr>database_instances := ys\<rparr>"
    using assms unfolding only_observed_def by blast
  then have "list_all2 observed_as (database_instances a) xs" "list_all2 observed_as xs ys"
    using assms by (simp_all add: only_observed_def)
  then have "list_all2 observed_as (database_instances a) ys" using list_all2_trans observed_trans by blast
  then show ?thesis using b c by (simp add: only_observed_def)
qed

definition unique_instances :: "store \<Rightarrow> bool" where
  "unique_instances s \<longleftrightarrow> distinct (map di_id (database_instances s))"

lemma observed_unique: "only_observed s s' \<Longrightarrow> unique_instances s \<Longrightarrow> unique_instances s'"
  using observed_ids by (auto simp: only_observed_def unique_instances_def)

lemma state_set_observed:
  "is_DesiredState i = [] \<Longrightarrow> is_DockerContainerID i = [] \<Longrightarrow> observed_as d (instance_state_set i d n d)"
  by (simp add: observed_as_def instance_state_set_def)

lemma update_observed:
  assumes u: "unique_instances s" and i: "is_DesiredState i = []" "is_DockerContainerID i = []"
  shows "only_observed s (snd (UpdateDatabaseInstanceState x i now s))"
proof -
  have get: "snd (GetDatabaseInstance y s1) = s1" for y s1
    by (simp add: GetDatabaseInstance_def db_ok_def db_fail_def split: option.split)
  show ?thesis
  proof (cases "fst (GetDatabaseInstance x s)")
    case (Inr cur)
    then have cur: "cur \<in> set (database_instances s)"
      by (auto simp: GetDatabaseInstance_def db_ok_def db_fail_def split: option.splits dest: sql_get_Some)
    let ?f = "\<lambda>d. if di_id d = di_id cur then instance_state_set i cur (rfc3339 now) d else d"
    have "observed_as d (?f d)" if "d \<in> set (database_instances s)" for d
    proof (cases "di_id d = di_id cur")
      case True
      then have "d = cur" using u cur that by (simp add: unique_instances_def distinct_map inj_on_def)
      then show ?thesis using state_set_observed [OF i] by simp
    qed (simp add: observed_refl)
    then have "list_all2 observed_as (database_instances s) (map ?f (database_instances s))"
      by (simp add: list_all2_conv_all_nth)
    then show ?thesis
      using Inr only_observed_refl [of s]
      by (auto simp: UpdateDatabaseInstanceState_def Let_def db_fail_def get only_observed_def sql_update_def)
  qed (simp add: UpdateDatabaseInstanceState_def db_fail_def only_observed_refl)
qed

text \<open>A step that only watches: questions to the engine, and observations of the instances.\<close>

definition watches :: "'d world \<Rightarrow> 'd world \<Rightarrow> bool" where
  "watches w w' \<longleftrightarrow> asks (\<lambda>_ c. observes (fst c)) w w' \<and>
     (unique_instances (w_store w) \<longrightarrow> only_observed (w_store w) (w_store w'))"

lemma watches_refl: "watches w w"
  by (simp add: watches_def asks_same only_observed_refl)

lemma watches_trans: "watches w w1 \<Longrightarrow> watches w1 w2 \<Longrightarrow> watches w w2"
  unfolding watches_def using asks_trans [of "\<lambda>_ c. observes (fst c)" w w1 w2] only_observed_trans observed_unique
  by (auto simp: lasting_def)

lemma look_alone: "keeps H (\<lambda>s. s) \<Longrightarrow> w_store (snd (look H w)) = w_store w"
  by (simp add: look_def keeps_def split: prod.split) (metis fst_conv)

lemma watches_set_state:
  assumes "keeps H (\<lambda>s. s)" "\<And>t. is_DesiredState (f t) = []" "\<And>t. is_DockerContainerID (f t) = []"
  shows "watches w (set_state H d f w)"
proof -
  obtain t w1 where l: "look H w = (t, w1)" by fastforce
  then have s: "w_store w1 = w_store w" using look_alone [OF assms(1), of w] by simp
  have "only_observed (w_store w) (w_store (set_state H d f w))" if "unique_instances (w_store w)"
    using update_observed [OF that assms(2,3), of _ t "tn_now t"] l s only_observed_refl [of "w_store w"]
    by (auto simp: set_state_def on_store_def split: sum.split prod.split) (metis snd_conv)+
  then show ?thesis by (simp add: watches_def asks_same set_state_def quiet_calls)
qed

lemma watches_states:
  assumes "keeps H (\<lambda>s. s)"
  shows "watches w (failed_with H d m w)" "watches w (checked_as H d st m w)"
  using watches_set_state [OF assms] by (simp_all add: failed_with_def checked_as_def state_input_def)

lemma watches_reads:
  "keeps H (\<lambda>s. s) \<Longrightarrow> watches w (snd (read_store H g w))" "watches w (snd (io k w))"
proof -
  show "watches w (snd (read_store H g w))" if k: "keeps H (\<lambda>s. s)"
    using look_alone [OF k, of w] quiet_calls(2) [of H g w] only_observed_refl [of "w_store w"]
    by (auto simp: watches_def asks_same read_store_def split: prod.split)
  show "watches w (snd (io k w))"
    using quiet_calls(4) [of k w] only_observed_refl [of "w_store w"]
    by (auto simp: watches_def asks_same io_def split: prod.splits)
qed

lemma watches_engine:
  "watches w (snd (InspectManagedContainer M i w))" "watches w (snd (ValidateEnvironmentNetwork M a e w))"
  "watches w (snd (ValidateManagedVolume M v ls w))" "watches w (snd (ManagedVolumeUsage M w))" for w :: "'d world"
  by (auto simp: watches_def asks_def only_observed_refl InspectManagedContainer_def ValidateEnvironmentNetwork_def Let_def
      ValidateManagedVolume_def ManagedVolumeUsage_def engine_calls ask_def split: sum.split prod.split option.split)

lemma watches_next: "m w = (r, w1) \<Longrightarrow> watches w (snd (m w)) \<Longrightarrow> watches w1 w2 \<Longrightarrow> watches w w2"
  using watches_trans [of w w1 w2] by simp

lemma watches_health:
  assumes H: "keeps H (\<lambda>s. s)"
  shows "watches w (reconcile_health H E usage d eng unseal w)"
proof -
  let ?g = "\<lambda>s. case fst (GetDatabaseCredentialSealed (di_id d) s) of Inl e \<Rightarrow> Inl (repo_err e) | Inr c \<Rightarrow> Inr c"
  obtain r w1 where r: "read_store H ?g w = (r, w1)" by fastforce
  have w1: "watches w w1" using watches_reads(1) [OF H, of w ?g] r by simp
  show ?thesis
  proof (cases r)
    case (Inr c)
    have set_ok: "watches w2 (set_state H d (\<lambda>t. (state_input (a t) (b t) (x t))\<lparr>is_StorageUsedBytes := u t, is_StorageCheckedAt := v t\<rparr>) w2)"
      for a b x u v w2 by (rule watches_set_state [OF H]) (simp_all add: state_input_def)
    show ?thesis
    proof (cases "\<exists>p a. unseal (dc_password_ct c) = Inr p \<and> unseal (dc_admin_password_ct c) = Inr a")
      case True
      then obtain p a where pa: "unseal (dc_password_ct c) = Inr p" "unseal (dc_admin_password_ct c) = Inr a" by blast
      obtain health w2 where k: "io (checkDatabaseHealth E (di_docker_container_id d) eng c p a) w1 = (health, w2)" by fastforce
      have "watches w1 w2" using watches_reads(2) [of w1 "checkDatabaseHealth E (di_docker_container_id d) eng c p a"] k by simp
      then show ?thesis using r Inr pa k watches_trans [OF w1] watches_trans [OF _ set_ok] by (simp add: reconcile_health_def)
    next
      case False
      then have "reconcile_health H E usage d eng unseal w =
          checked_as H d ''unhealthy'' ''database credentials could not be decrypted'' w1"
        using r Inr by (auto simp: reconcile_health_def split: sum.split)
      then show ?thesis using watches_trans [OF w1 watches_states(2) [OF H]] by simp
    qed
  qed (use r w1 in \<open>simp add: reconcile_health_def\<close>)
qed

lemma watches_container:
  assumes H: "keeps H (\<lambda>s. s)"
  shows "watches w (reconcile_container H E usage d eng e w)"
proof -
  obtain r w1 where r: "InspectManagedContainer (h_engine H) (di_docker_container_id d) w = (r, w1)" by fastforce
  have w1: "watches w w1" using watches_engine(1) [of w "h_engine H" "di_docker_container_id d"] r by simp
  have set_ok: "watches w1 (set_state H d (\<lambda>_. (state_input a b x)\<lparr>is_ClearContainerID := u\<rparr>) w1)" for a b x u
    by (rule watches_set_state [OF H]) (simp_all add: state_input_def)
  show ?thesis
    using r watches_trans [OF w1] w1 set_ok watches_states [OF H] watches_health [OF H]
    by (auto simp: reconcile_container_def split: sum.split option.split)
qed

lemma watches_instance:
  assumes H: "keeps H (\<lambda>s. s)"
  shows "watches w (reconcile_instance H E usage d w)"
proof -
  obtain r w1 where r: "read_store H (catalog_identity d) w = (r, w1)" by fastforce
  have w1: "watches w w1" using watches_reads(1) [OF H, of w "catalog_identity d"] r by simp
  show ?thesis
  proof (cases r)
    case (Inl x)
    then show ?thesis using r watches_trans [OF w1 watches_states(1) [OF H]] watches_refl
      by (auto simp: reconcile_instance_def)
  next
    case (Inr x)
    then obtain v e where x: "r = Inr (v, e)" by (cases x) auto
    obtain q w2 where q: "ValidateEnvironmentNetwork (h_engine H) (svc_application_id v) (di_environment_id d) w1 = (q, w2)" by fastforce
    have w2: "watches w w2" using watches_trans [OF w1 watches_engine(2)] q by (metis snd_conv)
    obtain p w3 where p: "ValidateManagedVolume (h_engine H) (di_volume_name d) (volume_labels v d) w2 = (p, w3)" by fastforce
    have w3: "watches w w3" using watches_trans [OF w2 watches_engine(3)] p by (metis snd_conv)
    show ?thesis
      using r x q p watches_trans [OF w2 watches_states(1) [OF H]] watches_trans [OF w3 watches_states(1) [OF H]]
        watches_trans [OF w3 watches_container [OF H]] watches_refl
      by (auto simp: reconcile_instance_def split: sum.split)
  qed
qed

lemma watches_all: "keeps H (\<lambda>s. s) \<Longrightarrow> watches w (reconcile_all H E usage ds w)"
  by (induction ds arbitrary: w) (auto simp: watches_refl intro: watches_trans watches_instance)


section \<open>Trying them out\<close>

definition with_engine :: "int list moby \<Rightarrow> int list host" where
  "with_engine M = easy_host\<lparr>h_engine := M\<rparr>"

lemma with_engine_simps [simp]:
  "look (with_engine M) w = (still_turn ''row2'', w)" "read_store (with_engine M) f w = (f (w_store w), w)"
  "h_engine (with_engine M) = M" "w_store (deploy_world d s) = s" "dk_calls (deploy_world d s) = []" "keeps (with_engine M) g"
  by (simp_all add: look_def read_store_def with_engine_def easy_host_def still_turn_def deploy_world_def keeps_def)

text \<open>A container that a failed deployment left running.\<close>

definition leak_engine :: "int list moby" where
  "leak_engine = easy_engine\<lparr>m_ContainerInspect := \<lambda>i d. (Inr \<lparr> cin_ID = i,
     cin_Config = Some ([(ManagedLabel, ''true''), (ResourceTypeLabel, ''application-container''), (ServiceIDLabel, ''svc''),
       (EnvironmentIDLabel, ''env'')], ''image''),
     cin_HostConfig = None, cin_Mounts = [], cin_Networks = None, cin_State = None \<rparr>, d)\<rparr>"

definition leak_store :: store where
  "leak_store = fresh_store\<lparr>deployments := [web_deployment\<lparr>dep_status := ''FAILED''\<rparr>],
     containers := [old_container\<lparr>ct_deployment_id := ''d1''\<rparr>], service_environments := [web_binding]\<rparr>"

lemma leak_candidates: "ListSweepableDeployContainers leak_store =
    [\<lparr> sw_container_row_id = ''row1'', sw_docker_container_id = ''old'', sw_deployment_id = ''d1'', sw_service_id = ''svc'',
       sw_environment_id = ''env'' \<rparr>]"
  by (simp add: ListSweepableDeployContainers_def leak_store_def fresh_store_def web_deployment_def old_container_def sql_order_def
      not_active_def web_binding_def)

lemma leak_removed: "(ReqRemove ''old'', Accepted) \<in> set (dk_calls (snd (SweepOrphanedDeployContainers (with_engine leak_engine) (deploy_world [] leak_store))))"
proof -
  have t: "trim ''old'' = ''old''" by code_simp
  show ?thesis
    by (simp add: SweepOrphanedDeployContainers_def attemptW_def leak_candidates sweep_container_def InspectManagedContainer_def
        engine_calls ask_def leak_engine_def t label_def ManagedLabel_def ResourceTypeLabel_def ServiceIDLabel_def EnvironmentIDLabel_def
        inspection_of_def owned_by_row_def StopAndRemove_def StopAndRemoveWithTimeout_def easy_engine_def Let_def quiet_calls
        deploy_world_def split: prod.split)
qed

theorem orphan_sweep_safe_witness:
  "\<exists>c. dead_container leak_store c \<and> sw_docker_container_id c = ''old'' \<and>
     (ReqRemove ''old'', Accepted) \<in> set (dk_calls (snd (SweepOrphanedDeployContainers (with_engine leak_engine) (deploy_world [] leak_store))))"
proof -
  obtain r w' where run: "SweepOrphanedDeployContainers (with_engine leak_engine) (deploy_world [] leak_store) = (r, w')" by fastforce
  from orphan_sweep_safe [OF run] leak_removed show ?thesis unfolding run by fastforce
qed

text \<open>Two images, one of a deployment that waits.\<close>

definition image_engine :: "int list moby" where
  "image_engine = easy_engine\<lparr>m_ImageList := \<lambda>p d. (Inr [(''i'', [''hostforge/a:1'', ''hostforge/b:2''])], d)\<rparr>"

definition image_store :: store where
  "image_store = fresh_store\<lparr>deployments := [web_deployment\<lparr>dep_image_ref := ''hostforge/a:1''\<rparr>]\<rparr>"

lemma image_kept: "ListRetainedImageRefs 3 image_store = {''hostforge/a:1''}"
  by (simp add: ListRetainedImageRefs_def image_store_def fresh_store_def web_deployment_def dep_open_def)

lemma image_run: "snd (SweepUnreferencedImages (with_engine image_engine) 3 (deploy_world [] image_store)) =
    (deploy_world [] image_store)\<lparr>dk_calls := [(ReqImageList ''hostforge/*'', Accepted), (ReqImageRemove ''hostforge/b:2'' False, Accepted)]\<rparr>"
  by (simp add: SweepUnreferencedImages_def attemptW_def image_kept engine_def ListImagesByRepoPrefix_def engine_calls ask_def
      image_engine_def easy_engine_def RemoveImageIfUnused_def deployImageRepoPrefix_def has_prefix_def deploy_world_def)

theorem image_collection_spares_needed_witness:
  "(ReqImageRemove ''hostforge/b:2'' False, Accepted) \<in>
     set (dk_calls (snd (SweepUnreferencedImages (with_engine image_engine) 3 (deploy_world [] image_store)))) \<and>
   (ReqImageRemove ''hostforge/a:1'' False, Accepted) \<notin>
     set (dk_calls (snd (SweepUnreferencedImages (with_engine image_engine) 3 (deploy_world [] image_store))))"
proof -
  obtain r w' where run: "SweepUnreferencedImages (with_engine image_engine) 3 (deploy_world [] image_store) = (r, w')" by fastforce
  have "dep_open (web_deployment\<lparr>dep_image_ref := ''hostforge/a:1''\<rparr>)" by (simp add: dep_open_def web_deployment_def)
  then have "(ReqImageRemove ''hostforge/a:1'' False, Accepted) \<notin> set (dk_calls w')"
    using image_collection_spares_needed [OF run] by (fastforce simp: image_store_def)
  then show ?thesis using run image_run by simp
qed

text \<open>A database whose retention ended at the beginning of time, on an engine that will not let its volume go.\<close>

definition old_instance :: database_instance_row where
  "old_instance = \<lparr> di_id = ''i1'', di_service_id = ''svc'', di_environment_id = ''env'', di_engine_version = ''18'',
     di_image_ref = [], di_docker_container_id = ''c1'', di_network_alias = [], di_internal_port = 5432, di_volume_name = ''v'',
     di_resource_preset = [], di_cpu_limit_millis = 500, di_memory_limit_bytes = 1, di_desired_state = ''running'',
     di_status = ''healthy'', di_health_message = [], di_health_checked_at = [], di_storage_used_bytes = 0,
     di_storage_checked_at = [], di_deleted_at = [], di_purge_after = [], di_created_at = [], di_updated_at = [] \<rparr>"

definition gone_instance :: database_instance_row where
  "gone_instance = old_instance\<lparr>di_desired_state := ''deleted'', di_deleted_at := rfc3339_nano 0, di_purge_after := rfc3339_nano 0\<rparr>"

definition gone_store :: store where
  "gone_store = fresh_store\<lparr>services := [web_service\<lparr>svc_service_type := ''database''\<rparr>], database_instances := [gone_instance]\<rparr>"

definition volume_found :: volume_info where
  "volume_found = \<lparr> vin_Name = ''v'', vin_Labels = [(ManagedLabel, ''true''), (ResourceTypeLabel, ''database-volume''),
     (InstanceIDLabel, ''i1'')] \<rparr>"

definition stuck_engine :: "int list moby" where
  "stuck_engine = easy_engine\<lparr>m_VolumeInspect := \<lambda>v d. (Inr volume_found, d), m_VolumeRemove := \<lambda>v d. (Inl (plain ''in use''), d)\<rparr>"

lemma gone_strings: "trim ''svc'' = ''svc''" "trim ''v'' = ''v''" "trim ''i1'' = ''i1''" by code_simp+

lemma gone_eligible: "purge_eligible 0 gone_instance"
proof -
  have "year_of 0 < 10000"
    by (simp add: year_of_def secs_of_def ns_per_sec_def civil_date_def civil_year.simps [of 1970 0] month_lens_def
        year_len_def leap_year_def split: prod.split)
  then show ?thesis by (simp add: purge_eligible_def gone_instance_def)
qed

lemma gone_listed: "ListDatabaseInstances ''svc'' gone_store = [gone_instance]"
  by (simp add: ListDatabaseInstances_def gone_store_def fresh_store_def gone_instance_def old_instance_def gone_strings sql_order_def)

lemma gone_run: "dk_calls (snd (PurgeDatabaseServiceAndRuntime (with_engine stuck_engine) ''svc'' 0 ''system'' (deploy_world [] gone_store))) =
    [(ReqVolInspect ''v'', Volume volume_found), (ReqVolRemove ''v'', Refused)]"
proof -
  have "purgeable ''svc'' 0 gone_store = Inr (web_service\<lparr>svc_service_type := ''database''\<rparr>, [gone_instance])"
    unfolding purgeable_def gone_listed
    by (simp add: gone_eligible GetService_def db_ok_def EnsureDatabaseServicePurgeReady_def gone_strings gone_store_def
        fresh_store_def sql_get_def web_service_def sql_count_def)
  then show ?thesis
    by (simp add: PurgeDatabaseServiceAndRuntime_def attemptW_def purge_volume_def engine_def RemoveManagedDatabaseVolume_def
        engine_calls ask_def stuck_engine_def volume_found_def managed_as_def label_def ManagedLabel_def ResourceTypeLabel_def
        InstanceIDLabel_def gone_instance_def old_instance_def gone_strings coded_def plain_def wrap_err_def deploy_world_def)
qed

theorem purge_waits_for_retention_witness:
  "dk_calls (snd (PurgeDatabaseServiceAndRuntime (with_engine stuck_engine) ''svc'' 0 ''system'' (deploy_world [] gone_store))) \<noteq> [] \<and>
   purge_eligible 0 gone_instance"
proof -
  obtain r w' where run: "PurgeDatabaseServiceAndRuntime (with_engine stuck_engine) ''svc'' 0 ''system'' (deploy_world [] gone_store) = (r, w')"
    by fastforce
  have "dk_calls w' \<noteq> []" using gone_run run by simp
  then show ?thesis using purge_waits_for_retention [OF run] run by (auto simp: gone_listed)
qed

text \<open>An instance whose service is missing is recorded as failed.\<close>

definition lost_store :: store where
  "lost_store = fresh_store\<lparr>database_instances := [old_instance]\<rparr>"

lemma lost_run:
  "map di_status (database_instances (w_store (reconcileDatabaseInstances (with_engine easy_engine) E (deploy_world [] lost_store)))) = [''failed'']"
proof -
  have s: "trim ''c1'' = ''c1''" "trim ''failed'' = ''failed''" "to_lower ''failed'' = ''failed''" by code_simp+
  have l: "ListAllDatabaseInstances lost_store = [old_instance]"
    by (simp add: ListAllDatabaseInstances_def lost_store_def sql_order_def)
  have c: "catalog_identity old_instance lost_store = Inl []"
    by (simp add: catalog_identity_def GetService_def lost_store_def fresh_store_def sql_get_def db_fail_def)
  have u: "ManagedVolumeUsage easy_engine (deploy_world [] lost_store) = (Inr [], (deploy_world [] lost_store)\<lparr>dk_calls := [(ReqUsage, Accepted)]\<rparr>)"
    by (simp add: ManagedVolumeUsage_def engine_calls ask_def easy_engine_def deploy_world_def)
  show ?thesis
    by (simp add: reconcileDatabaseInstances_def l u reconcile_instance_def c failed_with_def set_state_def on_store_def)
      (simp add: old_instance_def s c lost_store_def fresh_store_def UpdateDatabaseInstanceState_def GetDatabaseInstance_def sql_get_def
        still_turn_def db_ok_def gone_strings state_input_def instance_state_set_def instance_desired_states_def instance_statuses_def sql_update_def Let_def)
qed


end
